(* ===== verification/Prelude.thy ===== *)
theory Prelude
  imports Main "HOL-Library.List_Lexorder" "HOL-Library.Char_ord" "HOL-Library.Word" "HOL-Library.Multiset"
begin

text \<open>
  Shared vocabulary of the development: time and durations, ordered maps (Rust's
  BTreeMap), saturating machine arithmetic, decimal text, and the generic lemmas the
  component theories use.

  Time. An instant of \<open>DateTime<Utc>\<close> is the integer number of nanoseconds since
  1970-01-01T00:00:00Z, a \<open>std::time::Duration\<close> the natural number of its
  nanoseconds, a \<open>NaiveDate\<close> the number of its days since 1970-01-01. A UTC day is
  86400 s long and starts at a multiple of it, so the date of an instant is a floor
  division.
\<close>

named_theorems sched_simps \<open>how each scheduler operation acts on the fields of its state\<close>
named_theorems frame \<open>fields an operation leaves alone\<close>
named_theorems inv_intros \<open>operations keep the well-formedness invariant\<close>

type_synonym time = int
type_synonym duration = nat
type_synonym date = int
type_synonym u64 = "64 word"
type_synonym uuid = nat

subsection \<open>Durations and days\<close>

abbreviation ns_per_ms :: nat where "ns_per_ms \<equiv> 1000000"
abbreviation ns_per_sec :: nat where "ns_per_sec \<equiv> 1000000000"

definition day_ns :: int where
  "day_ns = 86400 * 1000000000"

definition secs :: "nat \<Rightarrow> duration" where
  "secs n = n * 1000000000"

definition millis :: "nat \<Rightarrow> duration" where
  "millis n = n * 1000000"

definition date_naive :: "time \<Rightarrow> date" where
  "date_naive t = t div day_ns"

lemma day_ns_pos [simp]: "0 < day_ns"
  by (simp add: day_ns_def)

lemma date_naive_mono: "s \<le> t \<Longrightarrow> date_naive s \<le> date_naive t"
  by (simp add: date_naive_def zdiv_mono1)

lemma date_naive_bounds:
  "date_naive t * day_ns \<le> t" "t < (date_naive t + 1) * day_ns"
proof -
  have "date_naive t * day_ns + t mod day_ns = t"
    by (simp add: date_naive_def div_mult_mod_eq)
  moreover have "0 \<le> t mod day_ns" "t mod day_ns < day_ns"
    by simp_all
  moreover have "(date_naive t + 1) * day_ns = date_naive t * day_ns + day_ns"
    by (simp add: distrib_right)
  ultimately show "date_naive t * day_ns \<le> t" "t < (date_naive t + 1) * day_ns"
    by linarith+
qed

text \<open>A date's boundary: before it lie exactly the instants of earlier days.\<close>

lemma date_less_iff: "t < d * day_ns \<longleftrightarrow> date_naive t < d"
proof
  assume "t < d * day_ns"
  then have "date_naive t * day_ns < d * day_ns"
    using date_naive_bounds(1) [of t] by linarith
  then show "date_naive t < d"
    using day_ns_pos by (simp add: mult_less_cancel_right)
next
  assume "date_naive t < d"
  then have "(date_naive t + 1) * day_ns \<le> d * day_ns"
    by (intro mult_right_mono) (simp_all add: less_imp_le)
  then show "t < d * day_ns"
    using date_naive_bounds(2) [of t] by linarith
qed

subsection \<open>Machine arithmetic on naturals\<close>

abbreviation u8_max :: nat where "u8_max \<equiv> 255"
abbreviation u32_max :: nat where "u32_max \<equiv> 4294967295"
abbreviation u64_max :: nat where "u64_max \<equiv> 18446744073709551615"

definition sat_add :: "nat \<Rightarrow> nat \<Rightarrow> nat \<Rightarrow> nat" where
  "sat_add mx a b = min mx (a + b)"

definition sat_mul :: "nat \<Rightarrow> nat \<Rightarrow> nat \<Rightarrow> nat" where
  "sat_mul mx a b = min mx (a * b)"

definition checked_add :: "nat \<Rightarrow> nat \<Rightarrow> nat \<Rightarrow> nat option" where
  "checked_add mx a b = (if a + b \<le> mx then Some (a + b) else None)"

text \<open>The largest \<open>Duration\<close>: \<open>u64::MAX\<close> seconds and 999999999 nanoseconds.\<close>

definition duration_max :: nat where
  "duration_max = 18446744073709551615 * 1000000000 + 999999999"

definition duration_checked_mul :: "duration \<Rightarrow> nat \<Rightarrow> duration option" where
  "duration_checked_mul d n = (if d * n \<le> duration_max then Some (d * n) else None)"

definition duration_checked_add :: "duration \<Rightarrow> duration \<Rightarrow> duration option" where
  "duration_checked_add a b = checked_add duration_max a b"

lemma sat_add_le [simp]: "sat_add mx a b \<le> mx"
  by (simp add: sat_add_def)

subsection \<open>Decimal text\<close>

definition digit_char :: "nat \<Rightarrow> char" where
  "digit_char d = char_of (48 + d)"

fun nat_text :: "nat \<Rightarrow> string" where
  "nat_text n = (if n < 10 then [digit_char n] else nat_text (n div 10) @ [digit_char (n mod 10)])"

declare nat_text.simps [simp del]

definition int_text :: "int \<Rightarrow> string" where
  "int_text i = (if i < 0 then ''-'' @ nat_text (nat (- i)) else nat_text (nat i))"

definition bool_text :: "bool \<Rightarrow> string" where
  "bool_text b = (if b then ''true'' else ''false'')"

lemma nat_text_nonempty [simp]: "nat_text n \<noteq> []"
  by (subst nat_text.simps) simp

subsection \<open>Ordered maps\<close>

text \<open>
  A \<open>BTreeMap\<close> is the list of its entries in ascending key order, the order in which
  it is iterated and serialised. Insertion keeps the order and replaces an entry with an
  equal key.
\<close>

type_synonym ('k, 'v) btree = "('k \<times> 'v) list"

definition bt_get :: "('k, 'v) btree \<Rightarrow> 'k \<Rightarrow> 'v option" where
  "bt_get m k = map_of m k"

fun bt_insert :: "'k::linorder \<Rightarrow> 'v \<Rightarrow> ('k, 'v) btree \<Rightarrow> ('k, 'v) btree" where
  "bt_insert k v [] = [(k, v)]"
| "bt_insert k v ((k', v') # m) =
     (if k < k' then (k, v) # (k', v') # m
      else if k = k' then (k, v) # m
      else (k', v') # bt_insert k v m)"

definition bt_remove :: "'k \<Rightarrow> ('k, 'v) btree \<Rightarrow> ('k, 'v) btree" where
  "bt_remove k m = filter (\<lambda>e. fst e \<noteq> k) m"

definition bt_ok :: "('k::linorder, 'v) btree \<Rightarrow> bool" where
  "bt_ok m = sorted_wrt (<) (map fst m)"

lemma bt_get_empty [simp]: "bt_get [] k = None"
  by (simp add: bt_get_def)

lemma bt_get_insert [simp]:
  "bt_get (bt_insert k v m) k' = (if k' = k then Some v else bt_get m k')"
  by (induction k v m rule: bt_insert.induct) (auto simp: bt_get_def)

lemma bt_get_remove [simp]:
  "bt_get (bt_remove k m) k' = (if k' = k then None else bt_get m k')"
  by (induction m) (auto simp: bt_get_def bt_remove_def)

lemma set_keys_bt_insert [simp]:
  "fst ` set (bt_insert k v m) = insert k (fst ` set m)"
  by (induction k v m rule: bt_insert.induct) auto

lemma bt_ok_empty [simp]: "bt_ok []"
  by (simp add: bt_ok_def)

lemma bt_ok_insert [simp]: "bt_ok m \<Longrightarrow> bt_ok (bt_insert k v m)"
  unfolding bt_ok_def
proof (induction k v m rule: bt_insert.induct)
  case (1 k v)
  then show ?case by simp
next
  case (2 k v k' v' m)
  have keys: "set (map fst (bt_insert k v m)) = insert k (set (map fst m))"
    by (simp only: list.set_map set_keys_bt_insert)
  show ?case
  proof (cases "k < k' \<or> k = k'")
    case True
    then show ?thesis
      using 2 by (auto intro: less_trans)
  next
    case False
    then have less: "k' < k" by auto
    have "sorted_wrt (<) (map fst (bt_insert k v m))"
      using 2 False by auto
    then show ?thesis
      using 2 False less keys by auto
  qed
qed

lemma bt_ok_remove [simp]: "bt_ok m \<Longrightarrow> bt_ok (bt_remove k m)"
  unfolding bt_ok_def bt_remove_def
  by (induction m) auto

lemma bt_get_in_set: "bt_get m k = Some v \<Longrightarrow> (k, v) \<in> set m"
  by (simp add: bt_get_def map_of_SomeD)

lemma bt_get_iff:
  assumes "bt_ok m"
  shows "bt_get m k = Some v \<longleftrightarrow> (k, v) \<in> set m"
proof -
  have "distinct (map fst m)"
    using assms by (simp add: bt_ok_def strict_sorted_iff)
  then show ?thesis
    by (simp add: bt_get_def)
qed

lemma set_bt_insert:
  "bt_ok m \<Longrightarrow> set (bt_insert k v m) = insert (k, v) {e \<in> set m. fst e \<noteq> k}"
  unfolding bt_ok_def
proof (induction k v m rule: bt_insert.induct)
  case (1 k v)
  then show ?case by simp
next
  case (2 k v k' v' m)
  consider "k < k'" | "k = k'" | "k' < k"
    using linorder_less_linear by blast
  then show ?case
  proof cases
    case 1
    then show ?thesis using 2 by fastforce
  next
    case 2
    then show ?thesis using "2.prems" by fastforce
  next
    case 3
    then show ?thesis using "2.IH" "2.prems" by auto
  qed
qed

text \<open>
  The interface the components use: a lookup, an insertion and a well-formedness
  predicate, with the laws of a map. Inside it, read-modify-write of one key
  (\<open>get_mut\<close>, \<open>entry().or_default()\<close>) is proved to leave the other keys alone.
\<close>

locale keyed_store =
  fixes get :: "'m \<Rightarrow> 'k \<Rightarrow> 'v option"
    and put :: "'k \<Rightarrow> 'v \<Rightarrow> 'm \<Rightarrow> 'm"
    and ok :: "'m \<Rightarrow> bool"
  assumes get_put: "get (put k v m) k' = (if k' = k then Some v else get m k')"
    and ok_put: "ok m \<Longrightarrow> ok (put k v m)"
begin

lemma put_frame: "k' \<noteq> k \<Longrightarrow> get (put k v m) k' = get m k'"
  by (simp add: get_put)

lemma put_same: "get (put k v m) k = Some v"
  by (simp add: get_put)

lemma put_put_lookup: "get (put k v (put k w m)) k' = get (put k v m) k'"
  by (simp add: get_put)

lemma put_all:
  assumes "\<And>k' v'. get m k' = Some v' \<Longrightarrow> P k' v'" and "P k v"
  shows "get (put k v m) k' = Some v' \<Longrightarrow> P k' v'"
  using assms by (auto simp: get_put split: if_splits)

end

interpretation bt: keyed_store bt_get bt_insert bt_ok
  by unfold_locales simp_all

subsection \<open>Lists\<close>

text \<open>\<open>Iterator::min_by_key\<close>: the first element whose key is least.\<close>

fun min_by_key :: "('a \<Rightarrow> 'b::linorder) \<Rightarrow> 'a list \<Rightarrow> 'a option" where
  "min_by_key f [] = None"
| "min_by_key f (x # xs) =
     (case min_by_key f xs of
        None \<Rightarrow> Some x
      | Some y \<Rightarrow> if f x \<le> f y then Some x else Some y)"

lemma min_by_key_None [simp]: "min_by_key f xs = None \<longleftrightarrow> xs = []"
  by (cases xs) (auto split: option.splits if_splits)

lemma min_by_key_least:
  "min_by_key f xs = Some x \<Longrightarrow> x \<in> set xs \<and> (\<forall>y \<in> set xs. f x \<le> f y)"
proof (induction xs arbitrary: x)
  case Nil
  then show ?case by simp
next
  case (Cons a xs)
  show ?case
  proof (cases "min_by_key f xs")
    case None
    then show ?thesis using Cons.prems by simp
  next
    case (Some y)
    from Cons.IH [OF Some] have y: "y \<in> set xs" "\<And>z. z \<in> set xs \<Longrightarrow> f y \<le> f z"
      by auto
    show ?thesis
    proof (cases "f a \<le> f y")
      case True
      then have "x = a" using Cons.prems Some by simp
      then show ?thesis using y True by (auto intro: order_trans)
    next
      case False
      then have "x = y" using Cons.prems Some by simp
      then show ?thesis using y False by auto
    qed
  qed
qed

definition opt_max :: "'a::linorder option \<Rightarrow> 'a option \<Rightarrow> 'a option" where
  "opt_max a b =
     (case a of None \<Rightarrow> b
      | Some x \<Rightarrow> (case b of None \<Rightarrow> a | Some y \<Rightarrow> Some (max x y)))"

lemma sorted_last_max: "sorted xs \<Longrightarrow> x \<in> set xs \<Longrightarrow> x \<le> last xs"
  by (induction xs) (auto split: if_splits)

lemma length_filter_sort [simp]:
  "length (filter P (sort xs)) = length (filter P xs)"
proof -
  have "mset (sort xs) = mset xs" by simp
  then show ?thesis
    by (metis mset_filter size_mset)
qed

end
