(* ===== verification/Float64.thy ===== *)
theory Float64
  imports Prelude Complex_Main "HOL-Library.Log_Nat"
begin

text \<open>
  Rust's \<open>f64\<close>: IEEE 754 binary64 with round-to-nearest, ties-to-even. A finite value
  is the rational it denotes (the two zeros are one value); the other values are the two
  infinities and one NaN. Each arithmetic operation rounds the exact rational result.
  Comparisons are IEEE's (false on NaN); the order of the type is \<open>f64::total_cmp\<close> on
  these values.
\<close>

subsection \<open>Rounding\<close>

definition rnd_half_even :: "rat \<Rightarrow> int" where
  "rnd_half_even x =
     (let f = \<lfloor>x\<rfloor>; d = x - of_int f
      in if d < 1/2 then f else if 1/2 < d then f + 1 else if even f then f else f + 1)"

definition ilog2 :: "rat \<Rightarrow> int" where
  "ilog2 x =
     (let (p, q) = quotient_of x; d = bitlen p - bitlen q
      in if x < 2 powi d then d - 1 else d)"

definition ulp_exp :: "rat \<Rightarrow> int" where
  "ulp_exp x = max (ilog2 x - 52) (-1074)"

definition round_pos :: "rat \<Rightarrow> rat" where
  "round_pos x = of_int (rnd_half_even (x / 2 powi ulp_exp x)) * 2 powi ulp_exp x"

definition round64 :: "rat \<Rightarrow> rat" where
  "round64 x = (if x = 0 then 0 else if x < 0 then - round_pos (- x) else round_pos x)"

lemma rnd_half_even_bounds:
  "x - 1/2 \<le> of_int (rnd_half_even x)" "of_int (rnd_half_even x) \<le> x + 1/2"
  unfolding rnd_half_even_def Let_def by (auto; linarith)+

lemma rnd_half_even_mono:
  assumes "x \<le> y" shows "rnd_half_even x \<le> rnd_half_even y"
proof -
  have fl: "\<lfloor>x\<rfloor> \<le> \<lfloor>y\<rfloor>" using assms by (rule floor_mono)
  show ?thesis
  proof (cases "\<lfloor>x\<rfloor> = \<lfloor>y\<rfloor>")
    case True
    then show ?thesis using assms by (simp add: rnd_half_even_def Let_def)
  next
    case False
    with fl have "\<lfloor>x\<rfloor> + 1 \<le> \<lfloor>y\<rfloor>" by simp
    then show ?thesis by (simp add: rnd_half_even_def Let_def)
  qed
qed

lemma rnd_half_even_int [simp]: "rnd_half_even (of_int i) = i"
  by (simp add: rnd_half_even_def)

lemma bitlen_powi:
  assumes "0 < p"
  shows "2 powi (bitlen p - 1) \<le> (of_int p :: rat)" "(of_int p :: rat) < 2 powi bitlen p"
proof -
  have b: "1 \<le> bitlen p"
    using assms by (simp add: bitlen_alt_def)
  have "(of_int (2 ^ nat (bitlen p - 1)) :: rat) \<le> of_int p"
    and "(of_int p :: rat) < of_int (2 ^ nat (bitlen p))"
    using bitlen_bounds [OF assms] by (simp_all only: of_int_le_iff of_int_less_iff)
  then show "2 powi (bitlen p - 1) \<le> (of_int p :: rat)" "(of_int p :: rat) < 2 powi bitlen p"
    using b by (simp_all add: power_int_def)
qed

lemma ilog2_bounds:
  assumes "0 < x"
  shows "2 powi ilog2 x \<le> x" "x < 2 powi (ilog2 x + 1)"
proof -
  obtain p q where pq: "quotient_of x = (p, q)" by force
  have q: "0 < q" and x: "x = of_int p / of_int q"
    using quotient_of_denom_pos [OF pq] quotient_of_div [OF pq] by auto
  have p: "0 < p"
    using assms q x by (simp add: zero_less_divide_iff)
  define d where "d = bitlen p - bitlen q"
  have "(2 powi (bitlen p - 1) :: rat) = 2 powi (d - 1) * 2 powi bitlen q"
    by (simp add: d_def power_int_add [symmetric] algebra_simps)
  moreover have "2 powi (d - 1) * (of_int q :: rat) \<le> 2 powi (d - 1) * 2 powi bitlen q"
    using bitlen_powi(2) [OF q] by (intro mult_left_mono) simp_all
  ultimately have "2 powi (d - 1) * (of_int q :: rat) \<le> of_int p"
    using bitlen_powi(1) [OF p] by linarith
  then have lo: "2 powi (d - 1) \<le> x"
    using q by (simp add: x pos_le_divide_eq)
  have "(2 powi bitlen p :: rat) = 2 powi (d + 1) * 2 powi (bitlen q - 1)"
    by (simp add: d_def power_int_add [symmetric] algebra_simps)
  moreover have "2 powi (d + 1) * 2 powi (bitlen q - 1) \<le> 2 powi (d + 1) * (of_int q :: rat)"
    using bitlen_powi(1) [OF q] by (intro mult_left_mono) simp_all
  ultimately have "of_int p < 2 powi (d + 1) * (of_int q :: rat)"
    using bitlen_powi(2) [OF p] by linarith
  then have hi: "x < 2 powi (d + 1)"
    using q by (simp add: x pos_divide_less_eq)
  have eq: "ilog2 x = (if x < 2 powi d then d - 1 else d)"
    by (simp add: ilog2_def pq d_def)
  show "2 powi ilog2 x \<le> x" "x < 2 powi (ilog2 x + 1)"
    using lo hi by (auto simp: eq)
qed

lemma powi2_less_iff [simp]: "(2::rat) powi a < 2 powi b \<longleftrightarrow> a < b"
proof
  show "a < b" if "(2::rat) powi a < 2 powi b"
  proof (rule ccontr)
    assume "\<not> a < b"
    then have "(2::rat) powi b \<le> 2 powi a" by (intro power_int_increasing) simp_all
    with that show False by simp
  qed
  show "(2::rat) powi a < 2 powi b" if "a < b"
    using that by (intro power_int_strict_increasing) simp_all
qed

lemma powi2_le_iff [simp]: "(2::rat) powi a \<le> 2 powi b \<longleftrightarrow> a \<le> b"
  by (simp add: not_less [symmetric])

lemma powi2_pos [simp]: "0 < (2::rat) powi a"
  by simp

lemma ilog2_mono:
  assumes "0 < x" "x \<le> y" shows "ilog2 x \<le> ilog2 y"
proof -
  have "0 < y" using assms by linarith
  have "(2::rat) powi ilog2 x < 2 powi (ilog2 y + 1)"
    using ilog2_bounds(1) [OF assms(1)] ilog2_bounds(2) [OF \<open>0 < y\<close>] assms(2) by linarith
  then show ?thesis by simp
qed

lemma ilog2_unique:
  assumes "2 powi e \<le> x" "x < 2 powi (e + 1)" shows "ilog2 x = e"
proof -
  have "0 < x" using assms(1) powi2_pos [of e] by linarith
  note b = ilog2_bounds [OF this]
  have "(2::rat) powi ilog2 x < 2 powi (e + 1)" "(2::rat) powi e < 2 powi (ilog2 x + 1)"
    using b assms by linarith+
  then show ?thesis by simp
qed

text \<open>A multiple of the spacing at \<open>x\<close> is representable there: rounding keeps it.\<close>

lemma rnd_scaled_int:
  assumes "x = of_int i * 2 powi e" "e = ulp_exp x" shows "round_pos x = x"
proof -
  have "x / 2 powi e = of_int i" using assms(1) by simp
  then have "round_pos x = of_int i * 2 powi e"
    unfolding round_pos_def assms(2) [symmetric] by simp
  also have "\<dots> = x" using assms(1) by simp
  finally show ?thesis .
qed

lemma round_pos_le_grid:
  assumes "x \<le> of_int i * 2 powi ulp_exp x" shows "round_pos x \<le> of_int i * 2 powi ulp_exp x"
proof -
  have "x / 2 powi ulp_exp x \<le> of_int i"
    using assms by (simp add: pos_divide_le_eq)
  then have "rnd_half_even (x / 2 powi ulp_exp x) \<le> rnd_half_even (of_int i)"
    by (rule rnd_half_even_mono)
  then show ?thesis by (simp add: round_pos_def)
qed

lemma round_pos_ge_grid:
  assumes "of_int i * 2 powi ulp_exp x \<le> x" shows "of_int i * 2 powi ulp_exp x \<le> round_pos x"
proof -
  have "of_int i \<le> x / 2 powi ulp_exp x"
    using assms by (simp add: pos_le_divide_eq)
  then have "rnd_half_even (of_int i) \<le> rnd_half_even (x / 2 powi ulp_exp x)"
    by (rule rnd_half_even_mono)
  then show ?thesis by (simp add: round_pos_def)
qed

lemma powi2_grid:
  assumes "e \<le> k" shows "(2::rat) powi k = of_int (2 ^ nat (k - e)) * 2 powi e"
proof -
  have "(2::rat) powi k = 2 powi (k - e) * 2 powi e"
    by (simp add: power_int_add [symmetric])
  then show ?thesis using assms by (simp add: power_int_def)
qed

lemma round_pos_mono:
  assumes "0 < x" "x \<le> y" shows "round_pos x \<le> round_pos y"
proof (cases "ulp_exp x = ulp_exp y")
  case True
  have "x / 2 powi ulp_exp y \<le> y / 2 powi ulp_exp y"
    using assms(2) by (simp add: divide_right_mono)
  then have "rnd_half_even (x / 2 powi ulp_exp y) \<le> rnd_half_even (y / 2 powi ulp_exp y)"
    by (rule rnd_half_even_mono)
  then show ?thesis by (simp add: round_pos_def True)
next
  case False
  have "ilog2 x \<le> ilog2 y" using assms by (rule ilog2_mono)
  with False have less: "ilog2 x < ilog2 y" "ulp_exp y = ilog2 y - 52"
    by (auto simp: ulp_exp_def max_def split: if_splits)
  have y: "0 < y" using assms by linarith
  have top: "2 powi ilog2 y \<le> round_pos y"
    using round_pos_ge_grid [of "2 ^ nat (ilog2 y - ulp_exp y)" y] ilog2_bounds(1) [OF y] less
    by (simp add: powi2_grid [of "ulp_exp y" "ilog2 y"])
  have "ulp_exp x \<le> ulp_exp y"
    using less(1) by (simp add: ulp_exp_def)
  with less(2) have le: "ulp_exp x \<le> ilog2 y" by simp
  have "x \<le> 2 powi ilog2 y"
  proof -
    have "x < 2 powi (ilog2 x + 1)" by (rule ilog2_bounds(2) [OF assms(1)])
    also have "\<dots> \<le> 2 powi ilog2 y" using less by simp
    finally show ?thesis by simp
  qed
  then have "round_pos x \<le> 2 powi ilog2 y"
    using round_pos_le_grid [of x "2 ^ nat (ilog2 y - ulp_exp x)"] le
    by (simp add: powi2_grid [of "ulp_exp x" "ilog2 y"])
  with top show ?thesis by linarith
qed

lemma round_pos_nonneg:
  assumes "0 < x" shows "0 \<le> round_pos x"
  using round_pos_ge_grid [of 0 x] assms by simp

lemma round64_mono: "x \<le> y \<Longrightarrow> round64 x \<le> round64 y"
proof -
  assume le: "x \<le> y"
  consider "x = 0" | "y = 0" | "0 < x" | "x < 0" "0 < y" | "y < 0"
    by linarith
  then show ?thesis
  proof cases
    case 1
    then show ?thesis using le round_pos_nonneg [of y] by (auto simp: round64_def)
  next
    case 2
    then show ?thesis using le round_pos_nonneg [of "- x"] by (auto simp: round64_def)
  next
    case 3
    then show ?thesis using le round_pos_mono [of x y] by (auto simp: round64_def)
  next
    case 4
    then show ?thesis
      using round_pos_nonneg [of "- x"] round_pos_nonneg [of y] by (auto simp: round64_def)
  next
    case 5
    then show ?thesis using le round_pos_mono [of "- y" "- x"] by (auto simp: round64_def)
  qed
qed

lemma round64_zero [simp]: "round64 0 = 0"
  by (simp add: round64_def)

text \<open>A dyadic rational with a significand below \<open>2 ^ 53\<close> is exact.\<close>

lemma round_pos_dyadic:
  assumes "0 < i" "i < 2 ^ 53" "- 1074 \<le> e"
  shows "round_pos (of_int i * 2 powi e) = of_int i * 2 powi e"
proof -
  let ?x = "of_int i * 2 powi e :: rat"
  have x: "0 < ?x" using assms by simp
  have "(of_int i :: rat) < of_int (2 ^ 53)"
    using assms(2) by (simp only: of_int_less_iff)
  then have "?x < of_int (2 ^ 53) * 2 powi e"
    by (intro mult_strict_right_mono) simp_all
  also have "of_int (2 ^ 53) * 2 powi e = (2 powi (53 + e) :: rat)"
    by (simp add: power_int_add)
  finally have "2 powi ilog2 ?x < (2 powi (53 + e) :: rat)"
    using ilog2_bounds(1) [OF x] by linarith
  then have "ilog2 ?x < 53 + e" by (simp only: powi2_less_iff)
  then have le: "ulp_exp ?x \<le> e" using assms(3) by (simp add: ulp_exp_def)
  define k where "k = nat (e - ulp_exp ?x)"
  have "(2 powi e :: rat) = of_int (2 ^ k) * 2 powi ulp_exp ?x"
    using powi2_grid [OF le] by (simp add: k_def)
  then have "?x = of_int (i * 2 ^ k) * 2 powi ulp_exp ?x" by simp
  then show ?thesis by (rule rnd_scaled_int) simp
qed

lemma round64_dyadic:
  assumes "\<bar>i\<bar> < 2 ^ 53" "- 1074 \<le> e"
  shows "round64 (of_int i * 2 powi e) = of_int i * 2 powi e"
  using round_pos_dyadic [of i e] round_pos_dyadic [of "- i" e] assms
    powi2_pos [of e]
  by (auto simp: round64_def mult_less_0_iff simp del: powi2_pos zero_less_power_int dest: less_asym)

text \<open>In particular integers and half-integers below \<open>2 ^ 52\<close>.\<close>

lemma round64_half_exact:
  assumes "\<bar>i\<bar> < 2 ^ 53" shows "round64 (of_int i / 2) = of_int i / 2"
  using round64_dyadic [of i "-1"] assms by (simp add: power_int_minus)

lemma round64_int_exact:
  assumes "\<bar>i\<bar> < 2 ^ 52" shows "round64 (of_int i) = of_int i"
  using round64_half_exact [of "2 * i"] assms by simp

lemma round64_nat_exact:
  assumes "n < 2 ^ 52" shows "round64 (of_nat n) = of_nat n"
proof -
  have "\<bar>int n\<bar> < 2 ^ 52" using assms by (simp add: nat_less_numeral_power_cancel_iff)
  from round64_int_exact [OF this] show ?thesis by simp
qed

subsection \<open>Values and operations\<close>

datatype f64 = NInf | Fin rat | PInf | NaN

fun f64_le :: "f64 \<Rightarrow> f64 \<Rightarrow> bool" where
  "f64_le NInf _ = True"
| "f64_le (Fin a) NInf = False"
| "f64_le (Fin a) (Fin b) = (a \<le> b)"
| "f64_le (Fin a) _ = True"
| "f64_le PInf NInf = False"
| "f64_le PInf (Fin b) = False"
| "f64_le PInf _ = True"
| "f64_le NaN b = (b = NaN)"

text \<open>\<open>f64::total_cmp\<close>, the order used for sorting.\<close>

instantiation f64 :: linorder
begin

definition less_eq_f64 :: "f64 \<Rightarrow> f64 \<Rightarrow> bool" where
  "less_eq_f64 = f64_le"

definition less_f64 :: "f64 \<Rightarrow> f64 \<Rightarrow> bool" where
  "less_f64 a b = (f64_le a b \<and> a \<noteq> b)"

instance
proof
  fix x y z :: f64
  show "(x < y) = (x \<le> y \<and> \<not> y \<le> x)"
    by (cases x; cases y) (auto simp: less_eq_f64_def less_f64_def)
  show "x \<le> x"
    by (cases x) (auto simp: less_eq_f64_def)
  show "x \<le> y \<Longrightarrow> y \<le> z \<Longrightarrow> x \<le> z"
    by (cases x; cases y; cases z) (auto simp: less_eq_f64_def)
  show "x \<le> y \<Longrightarrow> y \<le> x \<Longrightarrow> x = y"
    by (cases x; cases y) (auto simp: less_eq_f64_def)
  show "x \<le> y \<or> y \<le> x"
    by (cases x; cases y) (auto simp: less_eq_f64_def)
qed

end

text \<open>Comparison operators: false as soon as one side is NaN.\<close>

definition f_ge :: "f64 \<Rightarrow> f64 \<Rightarrow> bool" where
  "f_ge a b \<longleftrightarrow> a \<noteq> NaN \<and> b \<noteq> NaN \<and> f64_le b a"

definition f_lt :: "f64 \<Rightarrow> f64 \<Rightarrow> bool" where
  "f_lt a b \<longleftrightarrow> a \<noteq> NaN \<and> b \<noteq> NaN \<and> \<not> f64_le b a"

definition is_finite :: "f64 \<Rightarrow> bool" where
  "is_finite a \<longleftrightarrow> (case a of Fin _ \<Rightarrow> True | _ \<Rightarrow> False)"

text \<open>Rounding overflows to an infinity from \<open>2 ^ 1024\<close> on.\<close>

definition f64_of_rat :: "rat \<Rightarrow> f64" where
  "f64_of_rat x =
     (let r = round64 x
      in if 2 ^ 1024 \<le> r then PInf else if r \<le> - (2 ^ 1024) then NInf else Fin r)"

definition f64_of_nat :: "nat \<Rightarrow> f64" where
  "f64_of_nat n = f64_of_rat (of_nat n)"

definition f64_inf :: "rat \<Rightarrow> f64" where
  "f64_inf s = (if 0 < s then PInf else if s < 0 then NInf else NaN)"

fun f_mul :: "f64 \<Rightarrow> f64 \<Rightarrow> f64" where
  "f_mul (Fin a) (Fin b) = f64_of_rat (a * b)"
| "f_mul NaN _ = NaN"
| "f_mul _ NaN = NaN"
| "f_mul PInf PInf = PInf"
| "f_mul NInf NInf = PInf"
| "f_mul PInf NInf = NInf"
| "f_mul NInf PInf = NInf"
| "f_mul PInf (Fin b) = f64_inf b"
| "f_mul (Fin a) PInf = f64_inf a"
| "f_mul NInf (Fin b) = f64_inf (- b)"
| "f_mul (Fin a) NInf = f64_inf (- a)"

fun f_add :: "f64 \<Rightarrow> f64 \<Rightarrow> f64" where
  "f_add (Fin a) (Fin b) = f64_of_rat (a + b)"
| "f_add NaN _ = NaN"
| "f_add _ NaN = NaN"
| "f_add PInf NInf = NaN"
| "f_add NInf PInf = NaN"
| "f_add PInf _ = PInf"
| "f_add _ PInf = PInf"
| "f_add NInf _ = NInf"
| "f_add _ NInf = NInf"

text \<open>Division by a non-zero finite value, the only divisions of the program.\<close>

fun f_div :: "f64 \<Rightarrow> f64 \<Rightarrow> f64" where
  "f_div (Fin a) (Fin b) = (if b = 0 then f64_inf a else f64_of_rat (a / b))"
| "f_div NaN _ = NaN"
| "f_div _ NaN = NaN"
| "f_div (Fin a) _ = Fin 0"
| "f_div PInf (Fin b) = (if b < 0 then NInf else PInf)"
| "f_div NInf (Fin b) = (if b < 0 then PInf else NInf)"
| "f_div _ _ = NaN"

text \<open>\<open>as usize\<close> after \<open>ceil\<close>: saturating at zero, NaN to zero.\<close>

definition ceil_usize :: "f64 \<Rightarrow> nat" where
  "ceil_usize a = (case a of Fin r \<Rightarrow> min u64_max (nat \<lceil>r\<rceil>) | PInf \<Rightarrow> u64_max | _ \<Rightarrow> 0)"

text \<open>\<open>Duration::as_secs_f64\<close>.\<close>

definition as_secs_f64 :: "duration \<Rightarrow> f64" where
  "as_secs_f64 d =
     f_add (f64_of_nat (d div 1000000000)) (f_div (f64_of_nat (d mod 1000000000)) (Fin 1000000000))"

definition duration_ms_f64 :: "duration \<Rightarrow> f64" where
  "duration_ms_f64 d = f_mul (as_secs_f64 d) (Fin 1000)"

lemma f64_of_nat_exact:
  assumes "n < 2 ^ 52" shows "f64_of_nat n = Fin (of_nat n)"
proof -
  have r: "round64 (of_nat n) = of_nat n" by (rule round64_nat_exact [OF assms])
  have "(of_nat n :: rat) < of_nat (2 ^ 52)" using assms by (simp only: of_nat_less_iff)
  also have "\<dots> < 2 ^ 1024" by simp
  finally have "\<not> 2 ^ 1024 \<le> (of_nat n :: rat)" by (simp only: not_le)
  moreover have "\<not> of_nat n \<le> (- (2 ^ 1024) :: rat)"
  proof -
    have "(- (2 ^ 1024) :: rat) < 0" by simp
    also have "0 \<le> (of_nat n :: rat)" by simp
    finally show ?thesis by (simp only: not_le)
  qed
  ultimately show ?thesis by (simp only: f64_of_nat_def f64_of_rat_def r Let_def if_False)
qed

lemma f64_of_rat_mono:
  assumes "x \<le> y" shows "f64_of_rat x \<le> f64_of_rat y"
  using round64_mono [OF assms]
  by (auto simp: f64_of_rat_def Let_def less_eq_f64_def simp del: power_numeral)

lemma f64_of_rat_not_NaN [simp]: "f64_of_rat x \<noteq> NaN"
  by (auto simp: f64_of_rat_def Let_def simp del: power_numeral)

lemma f_ge_of_rat: "f_ge (f64_of_rat x) (f64_of_rat y) \<longleftrightarrow> f64_of_rat y \<le> f64_of_rat x"
  by (simp add: f_ge_def less_eq_f64_def)

lemma f_ge_Fin [simp]: "f_ge (Fin a) (Fin b) \<longleftrightarrow> b \<le> a"
  by (simp add: f_ge_def)

lemma f_lt_Fin [simp]: "f_lt (Fin a) (Fin b) \<longleftrightarrow> a < b"
  by (simp add: f_lt_def not_le)

text \<open>A result between two integers below \<open>2 ^ 52\<close> rounds to a value between them.\<close>

lemma f64_of_rat_between:
  assumes "of_nat a \<le> x" "x \<le> of_nat b" "b < 2 ^ 52"
  shows "\<exists>r. f64_of_rat x = Fin r \<and> of_nat a \<le> r \<and> r \<le> of_nat b"
proof -
  have "(of_nat a :: rat) \<le> of_nat b" using assms(1,2) by linarith
  then have "a \<le> b" by (simp only: of_nat_le_iff)
  with assms(3) have a: "a < 2 ^ 52" by linarith
  have "Fin (of_nat a) \<le> f64_of_rat x" "f64_of_rat x \<le> Fin (of_nat b)"
    using f64_of_rat_mono [OF assms(1)] f64_of_rat_mono [OF assms(2)]
      f64_of_nat_exact [OF a] f64_of_nat_exact [OF assms(3)]
    by (simp_all add: f64_of_nat_def)
  then show ?thesis
    by (cases "f64_of_rat x") (auto simp: less_eq_f64_def)
qed

text \<open>A result at least a positive dyadic is not rounded below it.\<close>

lemma f64_of_rat_Fin:
  assumes "\<bar>x\<bar> \<le> of_nat n" "n < 2 ^ 52" shows "f64_of_rat x = Fin (round64 x)"
proof -
  have n: "round64 (of_nat n) = of_nat n" by (rule round64_nat_exact [OF assms(2)])
  have int: "\<bar>int n\<bar> < 2 ^ 52"
    using assms(2) by (simp add: nat_less_numeral_power_cancel_iff)
  have "round64 (- of_nat n) = - of_nat n"
    using round64_int_exact [of "- int n"] int by simp
  then have "- of_nat n \<le> round64 x" "round64 x \<le> of_nat n"
    using round64_mono [of x "of_nat n"] round64_mono [of "- of_nat n" x] assms(1) n by auto
  moreover have "(of_nat n :: rat) < 2 ^ 1024"
  proof -
    have "(of_nat n :: rat) < of_nat (2 ^ 52)" using assms(2) by (simp only: of_nat_less_iff)
    also have "\<dots> < 2 ^ 1024" by simp
    finally show ?thesis .
  qed
  ultimately have "\<not> 2 ^ 1024 \<le> round64 x" "\<not> round64 x \<le> - (2 ^ 1024)" by linarith+
  then show ?thesis by (simp only: f64_of_rat_def Let_def if_False)
qed

lemma f64_of_rat_of_nat: "n < 2 ^ 52 \<Longrightarrow> f64_of_rat (of_nat n) = Fin (of_nat n)"
  using f64_of_nat_exact [of n] by (simp add: f64_of_nat_def)

lemma f64_of_rat_numeral [simp]:
  "(numeral k :: nat) < 2 ^ 52 \<Longrightarrow> f64_of_rat (numeral k) = Fin (numeral k)"
  "f64_of_rat 0 = Fin 0" "f64_of_rat 1 = Fin 1"
  using f64_of_rat_of_nat [of "numeral k"] f64_of_rat_of_nat [of 0] f64_of_rat_of_nat [of 1] by simp_all

end
