(* ===== verification/Model.thy ===== *)
theory Model
  imports Float64
begin

text \<open>
  \<open>model.rs\<close>: the enumerations of the event schema, \<open>MeasurementEvent\<close> and its
  constructor, and the redaction of text before it is written out.

  The event record is built in the groups of the source's comments, each group extending
  the one before it. Identifiers (\<open>RunId\<close>, \<open>EventId\<close>, \<open>RequestId\<close>) are naturals
  standing for their UUIDs; the constructor takes the fresh event identifier as an
  argument. Text is a list of characters; a character is the Unicode scalar of its code,
  so the classifications below are those of U+0000 to U+00FF.
\<close>

subsection \<open>Enumerations\<close>

type_synonym run_id = uuid
type_synonym event_id = uuid
type_synonym request_id = uuid

datatype run_kind = RkSession | RkPingRound | RkBandwidth

datatype scheduler_action =
    TriggerPending | TriggerMergedWithDeferred | TriggerCancelled | TriggerExpired
  | DeferredExpired | BandwidthStart | RateLimitAction | ClockRollbackAction | SuppressedAction
  | DeferredAction | InterfaceRecovered | InterfaceRetry | BandwidthSuppressed
  | BandwidthInterfaceSkipped

datatype scheduler_reason =
    HealthDegraded | HealthRecovered | TriggerTtlExpired | DayLimit | AttemptLimit
  | OpportunityReady | ProviderRateLimit | ClockRollbackReason | DailyCapReason
  | ProviderCooldownReason | MinimumSpacing | InterfaceAvailable | InterfaceUnavailable
  | TriggerInterfaceMissing | TriggerInterfaceBackoff | TriggerInterfaceUnavailable
  | NoHealthyInterface

definition SCHEMA_VERSION :: nat where
  "SCHEMA_VERSION = 1"

datatype event_kind =
    RunStarted | RunFinished | PingProbe | BandwidthEvent | RequestFailureEvent | SchedulerEvent

datatype outcome =
    Started | Success | PartialOutcome | TimeoutOutcome | Unreachable | PermissionDeniedOutcome
  | CancelledOutcome | ErrorOutcome | NoCapacity | RateLimited | Scheduled | Rescheduled
  | Deferred | Suppressed | Expired

datatype trigger_reason = TrScheduled | TrPingLoss | TrPingRtt | TrManual

datatype load_phase = PhaseSetup | PhaseDownload | PhaseUpload

datatype provider_kind = PkMlab | PkDirect

datatype request_direction = DirDownload | DirUpload

datatype request_stage =
    StLocate | StDns | StConnect | StTls | StWebsocketHandshake | StDownload | StUpload | StCleanup

datatype error_kind =
    EkIcmpTimeout | EkIcmpUnreachable | EkPermissionDenied | EkDns | EkConnect | EkTls
  | EkHttpStatus | EkWebsocketHandshake | EkDownloadFailed | EkUploadFailed
  | EkProviderCooldown | EkDailyCap | EkCancelled | EkTimeout | EkIo | EkProtocol | EkInternal

text \<open>Addresses (\<open>std::net::IpAddr\<close>) and JSON values (\<open>serde_json::Value\<close>).\<close>

datatype ip_addr = IPv4 "32 word" | IPv6 "128 word"

datatype json_value =
    JNull | JBool bool | JNumber f64 | JString string | JArray "json_value list"
  | JObject "(string \<times> json_value) list"

subsection \<open>The measurement event\<close>

record event_identity =
  ev_schema_version :: nat
  ev_event_id :: event_id
  ev_event_kind :: event_kind
  ev_event_sequence :: "nat option"
  ev_run_id :: run_id
  ev_parent_run_id :: "run_id option"
  ev_root_run_id :: run_id
  ev_run_kind :: run_kind

record event_timing = event_identity +
  ev_scheduled_at_utc :: "time option"
  ev_requested_at_utc :: "time option"
  ev_started_at_utc :: "time option"
  ev_finished_at_utc :: "time option"
  ev_elapsed_ms :: "f64 option"
  ev_outcome :: outcome
  ev_message :: "string option"

record event_provenance = event_timing +
  ev_command :: "string option"
  ev_netband_version :: "string option"
  ev_process_id :: "nat option"
  ev_interface :: "string option"
  ev_connection_details :: "(string \<times> json_value) list option"
  ev_provider_id :: "string option"
  ev_provider_kind :: "provider_kind option"
  ev_server_name :: "string option"

record event_scheduling = event_provenance +
  ev_scheduler_action :: "scheduler_action option"
  ev_scheduler_reason :: "scheduler_reason option"
  ev_trigger_reason :: "trigger_reason option"
  ev_scheduler_not_before_utc :: "time option"
  ev_provider_accounting_date :: "date option"
  ev_provider_daily_starts :: "nat option"
  ev_bandwidth_start_reserved :: "bool option"

record event_ping = event_scheduling +
  ev_ping_target_ip :: "string option"
  ev_ping_local_ip :: "ip_addr option"
  ev_ping_sequence :: "nat option"
  ev_ping_packets_sent :: "nat option"
  ev_ping_packets_received :: "nat option"
  ev_ping_rtt_ms :: "f64 option"
  ev_ping_icmp_type :: "nat option"
  ev_ping_icmp_code :: "nat option"
  ev_load_run_id :: "run_id option"
  ev_load_phase :: "load_phase option"

record event_request = event_ping +
  ev_request_id :: "request_id option"
  ev_request_direction :: "request_direction option"
  ev_request_stage :: "request_stage option"
  ev_request_url :: "string option"
  ev_request_local_ip :: "ip_addr option"
  ev_request_remote_ip :: "ip_addr option"
  ev_request_http_status :: "nat option"
  ev_request_retry_after_ms :: "nat option"
  ev_request_retry_at_utc :: "time option"

record event_download = event_request +
  ev_download_request_id :: "request_id option"
  ev_download_local_ip :: "ip_addr option"
  ev_download_remote_ip :: "ip_addr option"
  ev_download_bytes :: "nat option"
  ev_download_measurement_duration_ms :: "f64 option"
  ev_download_mbps :: "f64 option"
  ev_download_server_tcp_min_rtt_ms :: "f64 option"
  ev_download_server_tcp_rtt_ms :: "f64 option"
  ev_download_server_tcp_retransmitted_bytes :: "nat option"

record measurement_event = event_download +
  ev_upload_request_id :: "request_id option"
  ev_upload_local_ip :: "ip_addr option"
  ev_upload_remote_ip :: "ip_addr option"
  ev_upload_bytes :: "nat option"
  ev_upload_measurement_duration_ms :: "f64 option"
  ev_upload_mbps :: "f64 option"
  ev_upload_server_tcp_min_rtt_ms :: "f64 option"
  ev_upload_server_tcp_rtt_ms :: "f64 option"
  ev_upload_server_tcp_retransmitted_bytes :: "nat option"
  ev_error_kind :: "error_kind option"
  ev_os_error_code :: "int option"

definition run_kind_of :: "event_kind \<Rightarrow> run_kind" where
  "run_kind_of k =
     (case k of PingProbe \<Rightarrow> RkPingRound
      | BandwidthEvent \<Rightarrow> RkBandwidth
      | RequestFailureEvent \<Rightarrow> RkBandwidth
      | _ \<Rightarrow> RkSession)"

definition event_new :: "event_id \<Rightarrow> run_id \<Rightarrow> event_kind \<Rightarrow> outcome \<Rightarrow> time \<Rightarrow> measurement_event" where
  "event_new eid run kind out finished =
     \<lparr> ev_schema_version = SCHEMA_VERSION,
       ev_event_id = eid,
       ev_event_kind = kind,
       ev_event_sequence = None,
       ev_run_id = run,
       ev_parent_run_id = None,
       ev_root_run_id = run,
       ev_run_kind = run_kind_of kind,
       ev_scheduled_at_utc = None,
       ev_requested_at_utc = None,
       ev_started_at_utc = None,
       ev_finished_at_utc = Some finished,
       ev_elapsed_ms = None,
       ev_outcome = out,
       ev_message = None,
       ev_command = None,
       ev_netband_version = None,
       ev_process_id = None,
       ev_interface = None,
       ev_connection_details = None,
       ev_provider_id = None,
       ev_provider_kind = None,
       ev_server_name = None,
       ev_scheduler_action = None,
       ev_scheduler_reason = None,
       ev_trigger_reason = None,
       ev_scheduler_not_before_utc = None,
       ev_provider_accounting_date = None,
       ev_provider_daily_starts = None,
       ev_bandwidth_start_reserved = None,
       ev_ping_target_ip = None,
       ev_ping_local_ip = None,
       ev_ping_sequence = None,
       ev_ping_packets_sent = None,
       ev_ping_packets_received = None,
       ev_ping_rtt_ms = None,
       ev_ping_icmp_type = None,
       ev_ping_icmp_code = None,
       ev_load_run_id = None,
       ev_load_phase = None,
       ev_request_id = None,
       ev_request_direction = None,
       ev_request_stage = None,
       ev_request_url = None,
       ev_request_local_ip = None,
       ev_request_remote_ip = None,
       ev_request_http_status = None,
       ev_request_retry_after_ms = None,
       ev_request_retry_at_utc = None,
       ev_download_request_id = None,
       ev_download_local_ip = None,
       ev_download_remote_ip = None,
       ev_download_bytes = None,
       ev_download_measurement_duration_ms = None,
       ev_download_mbps = None,
       ev_download_server_tcp_min_rtt_ms = None,
       ev_download_server_tcp_rtt_ms = None,
       ev_download_server_tcp_retransmitted_bytes = None,
       ev_upload_request_id = None,
       ev_upload_local_ip = None,
       ev_upload_remote_ip = None,
       ev_upload_bytes = None,
       ev_upload_measurement_duration_ms = None,
       ev_upload_mbps = None,
       ev_upload_server_tcp_min_rtt_ms = None,
       ev_upload_server_tcp_rtt_ms = None,
       ev_upload_server_tcp_retransmitted_bytes = None,
       ev_error_kind = None,
       ev_os_error_code = None \<rparr>"

lemma event_new_simps [simp]:
  "ev_event_id (event_new i r k out t) = i"
  "ev_event_kind (event_new i r k out t) = k"
  "ev_event_sequence (event_new i r k out t) = None"
  "ev_run_id (event_new i r k out t) = r"
  "ev_parent_run_id (event_new i r k out t) = None"
  "ev_root_run_id (event_new i r k out t) = r"
  "ev_run_kind (event_new i r k out t) = run_kind_of k"
  "ev_outcome (event_new i r k out t) = out"
  "ev_finished_at_utc (event_new i r k out t) = Some t"
  "ev_message (event_new i r k out t) = None"
  "ev_error_kind (event_new i r k out t) = None"
  by (simp_all only: event_new_def event_identity.simps event_timing.simps event_provenance.simps
      event_scheduling.simps event_ping.simps event_request.simps event_download.simps
      measurement_event.simps)

subsection \<open>Redaction\<close>

text \<open>The classifications of \<open>char\<close> the source uses, on U+0000 to U+00FF.\<close>

definition code :: "char \<Rightarrow> nat" where
  "code c = of_char c"

definition to_ascii_lowercase :: "char \<Rightarrow> char" where
  "to_ascii_lowercase c = (if 65 \<le> code c \<and> code c \<le> 90 then char_of (code c + 32) else c)"

definition is_alphabetic :: "char \<Rightarrow> bool" where
  "is_alphabetic c =
     (let n = code c
      in 65 \<le> n \<and> n \<le> 90 \<or> 97 \<le> n \<and> n \<le> 122 \<or> n = 170 \<or> n = 181 \<or> n = 186
         \<or> 192 \<le> n \<and> n \<noteq> 215 \<and> n \<noteq> 247)"

definition is_numeric :: "char \<Rightarrow> bool" where
  "is_numeric c =
     (let n = code c
      in 48 \<le> n \<and> n \<le> 57 \<or> n \<in> {178, 179, 185, 188, 189, 190})"

definition is_alphanumeric :: "char \<Rightarrow> bool" where
  "is_alphanumeric c = (is_alphabetic c \<or> is_numeric c)"

definition is_whitespace :: "char \<Rightarrow> bool" where
  "is_whitespace c =
     (let n = code c in 9 \<le> n \<and> n \<le> 13 \<or> n = 32 \<or> n = 133 \<or> n = 160)"

definition ends_value :: "char \<Rightarrow> bool" where
  "ends_value c = (is_whitespace c \<or> code c \<in> {38, 44, 59, 34, 39})"

text \<open>\<open>str::find\<close>: the offset of the first occurrence.\<close>

fun str_find :: "string \<Rightarrow> string \<Rightarrow> nat option" where
  "str_find pat [] = (if pat = [] then Some 0 else None)"
| "str_find pat (c # cs) =
     (if take (length pat) (c # cs) = pat then Some 0 else map_option Suc (str_find pat cs))"

definition sanitize_keys :: "string list" where
  "sanitize_keys = [''access_token='', ''api_key='', ''authorization='', ''token='', ''key='']"

definition redacted :: string where
  "redacted = ''[redacted]''"

lemma str_find_Some:
  "str_find pat s = Some n \<Longrightarrow> n + length pat \<le> length s \<and> take (length pat) (drop n s) = pat"
proof (induction pat s arbitrary: n rule: str_find.induct)
  case (1 pat)
  then show ?case by (simp split: if_splits)
next
  case (2 pat c cs)
  show ?case
  proof (cases "take (length pat) (c # cs) = pat")
    case True
    then have "n = 0" using 2 by simp
    moreover have "length pat \<le> length (c # cs)"
      by (metis True length_take min.cobounded2 min.commute)
    ultimately show ?thesis using True by simp
  next
    case False
    then show ?thesis using 2 by auto
  qed
qed

text \<open>
  The loop of \<open>sanitize_message\<close> for one key. \<open>pre\<close> is the text before
  \<open>search_from\<close>, \<open>rest\<close> the text from it on. The keys are non-empty constants; the
  loop is cut off for an empty one, for which the source would not advance.
\<close>

function redact_loop :: "string \<Rightarrow> string \<Rightarrow> string \<Rightarrow> string" where
  "redact_loop key pre rest =
     (case str_find key (map to_ascii_lowercase rest) of
        None \<Rightarrow> pre @ rest
      | Some offset \<Rightarrow>
          (if key = [] then pre @ rest
           else
             let lead = pre @ take offset rest;
                 upto = lead @ take (length key) (drop offset rest);
                 after = drop (offset + length key) rest
             in if lead \<noteq> [] \<and> is_alphanumeric (last lead)
                then redact_loop key upto after
                else redact_loop key (upto @ redacted) (dropWhile (\<lambda>c. \<not> ends_value c) after)))"
  by pat_completeness auto
termination
proof (relation "measure (\<lambda>(key, pre, rest). length rest)", goal_cases)
  case 1
  then show ?case by simp
next
  case (2 key pre rest offset lead upto after)
  then show ?case using str_find_Some [OF 2(1)] by (cases key) auto
next
  case (3 key pre rest offset lead upto after)
  have "length (dropWhile (\<lambda>c. \<not> ends_value c) after) \<le> length after"
    by (rule length_dropWhile_le)
  moreover have "length after < length rest"
    using 3 str_find_Some [OF 3(1)] by (cases key) auto
  ultimately show ?case by simp
qed

declare redact_loop.simps [simp del]

definition sanitize_message :: "string \<Rightarrow> string" where
  "sanitize_message s = fold (\<lambda>key acc. redact_loop key [] acc) sanitize_keys s"

text \<open>The operations of the \<open>url\<close> crate that \<open>sanitize_endpoint\<close> uses.\<close>

record 'u url_ops =
  url_parse :: "string \<Rightarrow> 'u option"
  url_query :: "'u \<Rightarrow> string option"
  url_set_username :: "string \<Rightarrow> 'u \<Rightarrow> 'u"
  url_set_password :: "string option \<Rightarrow> 'u \<Rightarrow> 'u"
  url_set_query :: "string option \<Rightarrow> 'u \<Rightarrow> 'u"
  url_set_fragment :: "string option \<Rightarrow> 'u \<Rightarrow> 'u"
  url_to_string :: "'u \<Rightarrow> string"

definition sanitize_endpoint :: "'u url_ops \<Rightarrow> string \<Rightarrow> string" where
  "sanitize_endpoint U value =
     (case url_parse U value of
        None \<Rightarrow> sanitize_message value
      | Some url \<Rightarrow>
          (let had_query = url_query U url \<noteq> None;
               url = url_set_username U [] url;
               url = url_set_password U None url;
               url = url_set_query U None url;
               url = url_set_fragment U None url;
               text = url_to_string U url
           in if had_query then text @ ''?[redacted]'' else text))"

definition event_sanitized :: "'u url_ops \<Rightarrow> measurement_event \<Rightarrow> measurement_event" where
  "event_sanitized U ev =
     ev \<lparr> ev_server_name := map_option sanitize_message (ev_server_name ev),
          ev_request_url := map_option (sanitize_endpoint U) (ev_request_url ev),
          ev_message := map_option sanitize_message (ev_message ev) \<rparr>"

end
