(* ===== verification/ConfigTypes.thy ===== *)
theory ConfigTypes
  imports Model
begin

text \<open>
  The data of \<open>config.rs\<close> and \<open>cli.rs\<close>: the parsed command line, the configuration
  file, and the resolved configuration the other components are built from. A path is its
  text; \<open>'u\<close> is the type of parsed URLs (\<open>url::Url\<close>). Durations of the resolved
  configuration are nanoseconds, those of the two inputs are still text.
\<close>

subsection \<open>Command line\<close>

type_synonym path = string

datatype command_kind = CkRun | CkOncePing | CkOnceBandwidth | CkConfigCheck

datatype console_mode = CmAuto | CmHuman | CmJsonl | CmOff

datatype verbosity = VbError | VbWarn | VbInfo | VbDebug | VbTrace

datatype once_command = OncePing | OnceBandwidth

datatype config_command = ConfigCheck

datatype commands = CmdRun | CmdOnce once_command | CmdConfig config_command

record cli_common =
  o_config :: "path option"
  o_console :: "console_mode option"
  o_interfaces :: "string list"
  o_ping_targets :: "string list"
  o_ping_interval :: "string option"
  o_ping_timeout :: "string option"
  o_no_bandwidth :: bool
  o_force :: bool
  o_output :: "path option"
  o_output_dir :: "path option"
  o_rotate_max_bytes :: "nat option"
  o_state_file :: "path option"
  o_shutdown_grace :: "string option"
  o_verbosity :: "verbosity option"

record cli_options = cli_common +
  o_ndt_provider :: "provider_kind option"
  o_mlab_locate_url :: "string option"
  o_ndt_target :: "string option"
  o_ndt_download_url :: "string option"
  o_ndt_upload_url :: "string option"
  o_ndt_tls_server_name :: "string option"
  o_ndt_ca_cert :: "path option"
  o_allow_insecure_ndt :: bool
  o_bandwidth_daily_max :: "nat option"
  o_bandwidth_min_spacing :: "string option"
  o_bandwidth_slot_jitter_pct :: "nat option"
  o_bandwidth_timeout :: "string option"
  o_bandwidth_shutdown_margin :: "string option"
  o_loss_window_rounds :: "nat option"
  o_loss_min_samples :: "nat option"
  o_loss_threshold_pct :: "f64 option"
  o_rtt_threshold_ms :: "f64 option"
  o_recovery_loss_pct :: "f64 option"
  o_recovery_rounds :: "nat option"
  o_pending_trigger_ttl :: "string option"
  o_cooldown_initial :: "string option"
  o_cooldown_max :: "string option"
  o_accept_mlab_policy :: bool

record cli =
  cli_options :: cli_options
  cli_command :: commands

definition cli_command_kind :: "cli \<Rightarrow> command_kind" where
  "cli_command_kind c =
     (case cli_command c of
        CmdRun \<Rightarrow> CkRun
      | CmdOnce OncePing \<Rightarrow> CkOncePing
      | CmdOnce OnceBandwidth \<Rightarrow> CkOnceBandwidth
      | CmdConfig ConfigCheck \<Rightarrow> CkConfigCheck)"

subsection \<open>Configuration file\<close>

record file_ping =
  fp_targets :: "string list option"
  fp_interval :: "string option"
  fp_timeout :: "string option"

record file_trigger =
  ft_window_rounds :: "nat option"
  ft_min_samples :: "nat option"
  ft_loss_threshold_pct :: "f64 option"
  ft_rtt_threshold_ms :: "f64 option"
  ft_recovery_loss_pct :: "f64 option"
  ft_recovery_rounds :: "nat option"
  ft_pending_ttl :: "string option"

record file_cooldown =
  fcd_initial :: "string option"
  fcd_max :: "string option"

record file_mlab =
  fm_locate_url :: "string option"

record file_direct =
  fd_target :: "string option"
  fd_download_url :: "string option"
  fd_upload_url :: "string option"
  fd_tls_server_name :: "string option"
  fd_ca_cert :: "path option"
  fd_allow_insecure :: "bool option"

record file_bandwidth =
  fb_provider :: "provider_kind option"
  fb_daily_max :: "nat option"
  fb_min_spacing :: "string option"
  fb_slot_jitter_pct :: "nat option"
  fb_whole_test_timeout :: "string option"
  fb_shutdown_margin :: "string option"
  fb_accept_mlab_policy :: "bool option"
  fb_trigger :: "file_trigger option"
  fb_cooldown :: "file_cooldown option"
  fb_mlab :: "file_mlab option"
  fb_direct :: "file_direct option"

record file_config =
  fc_console :: "console_mode option"
  fc_verbosity :: "verbosity option"
  fc_interfaces :: "string list option"
  fc_output :: "path option"
  fc_output_dir :: "path option"
  fc_rotate_max_bytes :: "nat option"
  fc_state_file :: "path option"
  fc_shutdown_grace :: "string option"
  fc_ping :: "file_ping option"
  fc_bandwidth :: "file_bandwidth option"

subsection \<open>Resolved configuration\<close>

record resolve_context =
  cx_stdout_is_terminal :: bool
  cx_current_dir :: path
  cx_data_dir :: path
  cx_state_dir :: path

datatype output_target =
    OtFile path
  | OtDirectory path
  | OtAutomaticFile path
  | OtAutomaticDirectory path

definition output_rotates :: "output_target \<Rightarrow> bool" where
  "output_rotates t = (case t of OtDirectory _ \<Rightarrow> True | OtAutomaticDirectory _ \<Rightarrow> True | _ \<Rightarrow> False)"

definition output_is_automatic :: "output_target \<Rightarrow> bool" where
  "output_is_automatic t =
     (case t of OtAutomaticFile _ \<Rightarrow> True | OtAutomaticDirectory _ \<Rightarrow> True | _ \<Rightarrow> False)"

record ping_config =
  pc_targets :: "ip_addr list"
  pc_interval :: duration
  pc_timeout :: duration

record 'u mlab_config =
  ml_locate_url :: 'u
  ml_policy_accepted :: bool

record 'u direct_config =
  dc_target :: "string option"
  dc_download_url :: 'u
  dc_upload_url :: 'u
  dc_tls_server_name :: "string option"
  dc_ca_cert :: "path option"
  dc_allow_insecure :: bool

datatype 'u provider_config = MlabProvider "'u mlab_config" | DirectProvider "'u direct_config"

record trigger_config =
  tc_window_rounds :: nat
  tc_min_samples :: nat
  tc_loss_threshold_pct :: f64
  tc_rtt_threshold_ms :: "f64 option"
  tc_recovery_loss_pct :: f64
  tc_recovery_rounds :: nat
  tc_pending_ttl :: duration

record cooldown_config =
  cd_initial :: duration
  cd_max :: duration

record 'u bandwidth_config =
  bw_provider :: "'u provider_config"
  bw_provider_id :: string
  bw_automatic_enabled :: bool
  bw_force_limits :: bool
  bw_daily_max :: nat
  bw_min_spacing :: duration
  bw_slot_jitter_pct :: nat
  bw_whole_test_timeout :: duration
  bw_shutdown_margin :: duration
  bw_trigger :: trigger_config
  bw_cooldown :: cooldown_config

record 'u resolved_config =
  rc_command :: command_kind
  rc_console :: console_mode
  rc_verbosity :: verbosity
  rc_interfaces :: "string list"
  rc_output :: output_target
  rc_rotate_max_bytes :: "nat option"
  rc_state_file :: path
  rc_shutdown_grace :: duration
  rc_no_bandwidth :: bool
  rc_ping :: ping_config
  rc_bandwidth :: "'u bandwidth_config"

end
