(* ===== verification/Health.thy ===== *)
theory Health
  imports ConfigTypes
begin

text \<open>
  \<open>health.rs\<close>: the sliding window of ping rounds and the degraded/recovered decision.
  \<open>observe_round\<close> returns an option: \<open>None\<close> is the panic of the \<open>expect\<close> on the
  retained degradation reason.
\<close>

subsection \<open>Data\<close>

record health_sample =
  hs_successful :: bool
  hs_rtt_ms :: "f64 option"

record health_snapshot =
  hn_attempted :: nat
  hn_successful :: nat
  hn_loss_pct :: f64
  hn_p95_rtt_ms :: "f64 option"
  hn_sufficient_samples :: bool

datatype degradation_reason = DrLoss | DrRtt | DrLossAndRtt

datatype health_decision =
    HdHealthy health_snapshot
  | HdDegraded health_snapshot degradation_reason
  | HdRecovered health_snapshot

definition decision_snapshot :: "health_decision \<Rightarrow> health_snapshot" where
  "decision_snapshot d =
     (case d of HdHealthy s \<Rightarrow> s | HdRecovered s \<Rightarrow> s | HdDegraded s _ \<Rightarrow> s)"

record health_config =
  hc_window_rounds :: nat
  hc_min_samples :: nat
  hc_loss_threshold_pct :: f64
  hc_rtt_threshold_ms :: "f64 option"
  hc_recovery_loss_pct :: f64
  hc_recovery_rounds :: nat

definition health_config_from :: "trigger_config \<Rightarrow> health_config" where
  "health_config_from c =
     \<lparr> hc_window_rounds = tc_window_rounds c,
       hc_min_samples = tc_min_samples c,
       hc_loss_threshold_pct = tc_loss_threshold_pct c,
       hc_rtt_threshold_ms = tc_rtt_threshold_ms c,
       hc_recovery_loss_pct = tc_recovery_loss_pct c,
       hc_recovery_rounds = tc_recovery_rounds c \<rparr>"

record health_window =
  hw_config :: health_config
  hw_rounds :: "health_sample list list"
  hw_degraded :: bool
  hw_degradation_reason :: "degradation_reason option"
  hw_recovery_streak :: nat

definition health_window_new :: "health_config \<Rightarrow> health_window" where
  "health_window_new c =
     \<lparr> hw_config = c, hw_rounds = [], hw_degraded = False, hw_degradation_reason = None,
       hw_recovery_streak = 0 \<rparr>"

subsection \<open>Snapshots\<close>

definition p95_rank :: "nat \<Rightarrow> nat" where
  "p95_rank n = max 1 (ceil_usize (f_mul (f64_of_nat n) (f64_of_rat (95 / 100))))"

definition sample_rtts :: "health_sample list \<Rightarrow> f64 list" where
  "sample_rtts samples = List.map_filter hs_rtt_ms (filter hs_successful samples)"

definition snapshot :: "health_sample list \<Rightarrow> nat \<Rightarrow> health_snapshot" where
  "snapshot samples min_samples =
     (let attempted = length samples;
          successful = length (filter hs_successful samples);
          loss_pct =
            (if attempted = 0 then Fin 0
             else f_div (f_mul (f64_of_nat (attempted - successful)) (Fin 100)) (f64_of_nat attempted));
          rtts = sort (sample_rtts samples);
          p95 = (if rtts = [] then None else Some (rtts ! (p95_rank (length rtts) - 1)))
      in \<lparr> hn_attempted = attempted, hn_successful = successful, hn_loss_pct = loss_pct,
           hn_p95_rtt_ms = p95, hn_sufficient_samples = (min_samples \<le> attempted) \<rparr>)"

definition degradation_reason :: "health_snapshot \<Rightarrow> health_config \<Rightarrow> degradation_reason option" where
  "degradation_reason s c =
     (if \<not> hn_sufficient_samples s then None
      else
        let loss = f_ge (hn_loss_pct s) (hc_loss_threshold_pct c);
            rtt = (case (hc_rtt_threshold_ms c, hn_p95_rtt_ms s) of
                     (Some threshold, Some p95) \<Rightarrow> f_ge p95 threshold
                   | _ \<Rightarrow> False)
        in (case (loss, rtt) of
              (True, True) \<Rightarrow> Some DrLossAndRtt
            | (True, False) \<Rightarrow> Some DrLoss
            | (False, True) \<Rightarrow> Some DrRtt
            | (False, False) \<Rightarrow> None))"

definition recovery_round :: "health_snapshot \<Rightarrow> health_config \<Rightarrow> bool" where
  "recovery_round s c =
     (if hn_attempted s = 0 \<or> f_ge (hn_loss_pct s) (hc_recovery_loss_pct c) then False
      else
        (case hc_rtt_threshold_ms c of
           Some threshold \<Rightarrow>
             (case hn_p95_rtt_ms s of Some p95 \<Rightarrow> f_lt p95 threshold | None \<Rightarrow> False)
         | None \<Rightarrow> True))"

subsection \<open>The window\<close>

text \<open>The loop that drops the oldest rounds while the window is too long.\<close>

fun pop_excess :: "nat \<Rightarrow> 'a list \<Rightarrow> 'a list" where
  "pop_excess w [] = []"
| "pop_excess w (r # rs) = (if w < length (r # rs) then pop_excess w rs else r # rs)"

definition observe_round ::
    "health_sample list \<Rightarrow> health_window \<Rightarrow> health_decision option \<times> health_window" where
  "observe_round samples w =
     (let c = hw_config w;
          round_snapshot = snapshot samples 0;
          rounds = pop_excess (hc_window_rounds c) (hw_rounds w @ [samples]);
          w = w \<lparr> hw_rounds := rounds \<rparr>;
          window_snapshot = snapshot (concat rounds) (hc_min_samples c)
      in if \<not> hw_degraded w
         then
           (case degradation_reason window_snapshot c of
              Some reason \<Rightarrow>
                (Some (HdDegraded window_snapshot reason),
                 w \<lparr> hw_degraded := True, hw_degradation_reason := Some reason,
                     hw_recovery_streak := 0 \<rparr>)
            | None \<Rightarrow> (Some (HdHealthy window_snapshot), w))
         else
           let streak = (if recovery_round round_snapshot c then hw_recovery_streak w + 1 else 0);
               w = w \<lparr> hw_recovery_streak := streak \<rparr>
           in if hc_recovery_rounds c \<le> streak
              then (Some (HdRecovered window_snapshot),
                    w \<lparr> hw_degraded := False, hw_degradation_reason := None,
                        hw_recovery_streak := 0 \<rparr>)
              else (map_option (HdDegraded window_snapshot) (hw_degradation_reason w), w))"

definition sample_of_event :: "measurement_event \<Rightarrow> health_sample" where
  "sample_of_event ev =
     \<lparr> hs_successful = (ev_outcome ev = Success),
       hs_rtt_ms = (if ev_outcome ev = Success then ev_ping_rtt_ms ev else None) \<rparr>"

definition observe_events ::
    "measurement_event list \<Rightarrow> health_window \<Rightarrow> health_decision option \<times> health_window" where
  "observe_events events w =
     observe_round (map sample_of_event (filter (\<lambda>ev. ev_event_kind ev = PingProbe) events)) w"

definition rounds_retained :: "health_window \<Rightarrow> nat" where
  "rounds_retained w = length (hw_rounds w)"

text \<open>Feeding a sequence of rounds; the decisions in order.\<close>

fun observe_rounds ::
    "health_sample list list \<Rightarrow> health_window \<Rightarrow> health_decision option list \<times> health_window" where
  "observe_rounds [] w = ([], w)"
| "observe_rounds (r # rs) w =
     (let (d, w) = observe_round r w; (ds, w) = observe_rounds rs w in (d # ds, w))"

subsection \<open>Lemmas\<close>

lemma pop_excess_drop: "pop_excess w rs = drop (length rs - w) rs"
  by (induction w rs rule: pop_excess.induct) (auto simp: Suc_diff_le)

lemma length_pop_excess [simp]: "length (pop_excess w rs) = min w (length rs)"
  by (simp add: pop_excess_drop)

lemma observe_round_config [simp]: "hw_config (snd (observe_round r w)) = hw_config w"
  by (auto simp: observe_round_def Let_def split: option.splits)

lemma observe_round_rounds:
  "hw_rounds (snd (observe_round r w)) =
     drop (length (hw_rounds w) + 1 - hc_window_rounds (hw_config w)) (hw_rounds w @ [r])"
  by (auto simp: observe_round_def Let_def pop_excess_drop split: option.splits)

text \<open>The loss percentage is the rounded quotient.\<close>

lemma loss_pct_eq:
  assumes "length samples < 2 ^ 45" "samples \<noteq> []"
  shows "hn_loss_pct (snapshot samples m) =
    Fin (round64 (of_nat (100 * length (filter (\<lambda>s. \<not> hs_successful s) samples))
                  / of_nat (length samples)))"
proof -
  define a f where "a = length samples" and "f = length (filter (\<lambda>s. \<not> hs_successful s) samples)"
  have f: "length samples - length (filter hs_successful samples) = f"
    using sum_length_filter_compl [of hs_successful samples] by (simp add: f_def)
  have fa: "f \<le> a" by (simp add: f_def a_def)
  have a: "0 < a" "a < 2 ^ 45" using assms by (simp_all add: a_def)
  have "f_mul (f64_of_nat f) (Fin 100) = f64_of_nat (100 * f)"
  proof -
    have "f64_of_nat f = Fin (of_nat f)" using fa a by (intro f64_of_nat_exact) simp
    then show ?thesis by (simp add: f64_of_nat_def mult.commute)
  qed
  also have "\<dots> = Fin (of_nat (100 * f))" using fa a by (intro f64_of_nat_exact) simp
  finally have mul: "f_mul (f64_of_nat f) (Fin 100) = Fin (of_nat (100 * f))" .
  have fin_a: "f64_of_nat a = Fin (of_nat a)" using a by (intro f64_of_nat_exact) simp
  have "(of_nat f :: rat) \<le> of_nat a" using fa by simp
  then have le: "\<bar>of_nat (100 * f) / of_nat a :: rat\<bar> \<le> of_nat 100"
    using a by (simp add: pos_divide_le_eq)
  have "hn_loss_pct (snapshot samples m) = f_div (Fin (of_nat (100 * f))) (Fin (of_nat a))"
    using assms(2) mul fin_a by (simp add: snapshot_def Let_def f a_def)
  also have "\<dots> = f64_of_rat (of_nat (100 * f) / of_nat a)"
    using a by simp
  also have "\<dots> = Fin (round64 (of_nat (100 * f) / of_nat a))"
    by (rule f64_of_rat_Fin [OF le]) simp
  finally show ?thesis by (simp add: f_def a_def)
qed

text \<open>The rank of the 95th percentile, in exact arithmetic.\<close>

lemma round64_095_bounds:
  "round64 (95 / 100) \<le> 95 / 100" "95 / 100 - 1 / 2 ^ 53 \<le> round64 (95 / 100)"
  by (code_simp, code_simp)

lemma p95_rank_exact:
  assumes "1 \<le> n" "n < 2 ^ 45"
  shows "p95_rank n = (19 * n + 19) div 20"
proof -
  define m where "m = (19 * n + 19) div 20"
  have m: "20 * m \<le> 19 * n + 19" "19 * n + 19 < 20 * m + 20" "1 \<le> m"
    using assms by (simp_all add: m_def)
  have m_small: "m < 2 ^ 46" using m(1) assms(2) by simp
  define c where "c = round64 (95 / 100)"
  have c: "c \<le> 19 / 20" "19 / 20 - 1 / 2 ^ 53 \<le> c"
    using round64_095_bounds by (simp_all add: c_def)
  have c0: "0 \<le> c" using c(2) by simp
  have fin_c: "f64_of_rat (95 / 100) = Fin c"
    unfolding c_def by (rule f64_of_rat_Fin [where n = 1]) simp_all
  have fin_n: "f64_of_nat n = Fin (of_nat n)"
    using assms by (intro f64_of_nat_exact) simp
  define p where "p = of_nat n * c"
  have nle: "(of_nat n :: rat) \<le> of_nat (2 ^ 45)"
    using assms(2) by (simp only: of_nat_le_iff)
  have mle: "(of_nat (19 * n) :: rat) \<le> of_nat (20 * m)"
    "(of_nat (20 * m) :: rat) \<le> of_nat (19 * n + 19)"
    using m by (simp_all only: of_nat_le_iff)
  have up: "p \<le> of_nat m"
  proof -
    have "p \<le> of_nat n * (19 / 20)" unfolding p_def using c(1) by (intro mult_left_mono) simp_all
    then show ?thesis using mle(1) by simp
  qed
  have lo: "of_int (32 * int m - 31) * 2 powi (- 5) \<le> p"
  proof -
    have "of_nat n * (19 / 20 - 1 / 2 ^ 53) \<le> p"
      unfolding p_def using c(2) by (intro mult_left_mono) simp_all
    moreover have "of_nat n * (19 / 20 - 1 / 2 ^ 53 :: rat) = of_nat (19 * n) / 20 - of_nat n / 2 ^ 53"
      by (simp add: right_diff_distrib)
    moreover have "of_nat n / 2 ^ 53 \<le> (1 / 256 :: rat)"
      using nle by simp
    moreover have "of_nat m - 19 / 20 \<le> (of_nat (19 * n) / 20 :: rat)"
      using mle(2) by simp
    ultimately have "of_nat m - 19 / 20 - 1 / 256 \<le> p" by linarith
    then show ?thesis by (simp add: power_int_minus)
  qed
  have "round64 p \<le> of_nat m"
    using round64_mono [OF up] m_small by (simp add: round64_nat_exact)
  moreover have "of_int (32 * int m - 31) * 2 powi (- 5) \<le> round64 p"
    using round64_mono [OF lo] m m_small by (subst (asm) round64_dyadic) simp_all
  then have "of_nat m - 1 < round64 p" by (simp add: power_int_minus)
  ultimately have ceil: "\<lceil>round64 p\<rceil> = int m" by (intro ceiling_unique) simp_all
  have p0: "0 \<le> p" using c0 by (simp add: p_def)
  have fr: "f64_of_rat p = Fin (round64 p)"
    using up p0 m_small by (intro f64_of_rat_Fin [where n = m]) simp_all
  have "f_mul (f64_of_nat n) (f64_of_rat (95 / 100)) = Fin (round64 p)"
    by (simp only: fin_c fin_n f_mul.simps p_def [symmetric] fr)
  then have "p95_rank n = max 1 (min u64_max m)"
    by (simp only: p95_rank_def ceil_usize_def ceil f64.simps nat_int)
  then show ?thesis
    using m m_small by (simp add: m_def [symmetric])
qed

lemma sorted_nth_counts:
  assumes "sorted xs" "i < length xs"
  shows "i < length (filter (\<lambda>x. x \<le> xs ! i) xs)" "length (filter (\<lambda>x. x < xs ! i) xs) \<le> i"
proof -
  have split: "xs = take (Suc i) xs @ drop (Suc i) xs" "xs = take i xs @ drop i xs" by simp_all
  have all: "filter (\<lambda>x. x \<le> xs ! i) (take (Suc i) xs) = take (Suc i) xs"
    using assms by (auto simp: filter_id_conv in_set_conv_nth sorted_iff_nth_mono)
  have "filter (\<lambda>x. x \<le> xs ! i) xs =
      take (Suc i) xs @ filter (\<lambda>x. x \<le> xs ! i) (drop (Suc i) xs)"
    by (subst (2) split(1)) (simp only: filter_append all)
  then show "i < length (filter (\<lambda>x. x \<le> xs ! i) xs)"
    using assms(2) by simp
  have none: "filter (\<lambda>x. x < xs ! i) (drop i xs) = []"
    using assms by (auto simp: filter_empty_conv in_set_conv_nth sorted_iff_nth_mono not_less)
  have "filter (\<lambda>x. x < xs ! i) xs = filter (\<lambda>x. x < xs ! i) (take i xs)"
    by (subst (2) split(2)) (simp only: filter_append none append_Nil2)
  also have "length \<dots> \<le> i"
    by (rule le_trans [OF length_filter_le]) simp
  finally show "length (filter (\<lambda>x. x < xs ! i) xs) \<le> i" .
qed

lemma p95_eq:
  assumes "sample_rtts samples \<noteq> []"
  shows "hn_p95_rtt_ms (snapshot samples m) =
    Some (sort (sample_rtts samples) ! (p95_rank (length (sample_rtts samples)) - 1))"
proof -
  have "sort (sample_rtts samples) \<noteq> []"
    using assms by (metis length_0_conv length_sort)
  then show ?thesis by (simp add: snapshot_def Let_def)
qed

subsection \<open>The window invariant\<close>

definition hw_ok :: "health_window \<Rightarrow> bool" where
  "hw_ok w \<longleftrightarrow>
     (hw_degraded w \<longrightarrow> hw_degradation_reason w \<noteq> None) \<and>
     (\<not> hw_degraded w \<longrightarrow> hw_degradation_reason w = None \<and> hw_recovery_streak w = 0) \<and>
     hw_recovery_streak w \<le> hc_recovery_rounds (hw_config w) \<and>
     length (hw_rounds w) \<le> hc_window_rounds (hw_config w)"

lemma hw_ok_new [simp]: "hw_ok (health_window_new c)"
  by (simp add: hw_ok_def health_window_new_def)

lemma hw_ok_observe [simp]: "hw_ok w \<Longrightarrow> hw_ok (snd (observe_round r w))"
  unfolding hw_ok_def observe_round_def Let_def
  by (auto split: option.splits)

lemma observe_round_total: "hw_ok w \<Longrightarrow> fst (observe_round r w) \<noteq> None"
  unfolding hw_ok_def observe_round_def Let_def
  by (auto split: option.splits)

lemma observe_rounds_append:
  "observe_rounds (rs @ qs) w =
     (fst (observe_rounds rs w) @ fst (observe_rounds qs (snd (observe_rounds rs w))),
      snd (observe_rounds qs (snd (observe_rounds rs w))))"
  by (induction rs arbitrary: w) (auto simp: Let_def split_beta)

lemma observe_rounds_ok:
  "hw_ok w \<Longrightarrow> hw_ok (snd (observe_rounds rs w)) \<and> None \<notin> set (fst (observe_rounds rs w))"
proof (induction rs arbitrary: w)
  case Nil
  then show ?case by simp
next
  case (Cons r rs)
  from Cons.IH [OF hw_ok_observe [OF Cons.prems]] observe_round_total [OF Cons.prems, of r]
  show ?case by (auto simp: Let_def split_beta)
qed

lemma observe_rounds_config [simp]: "hw_config (snd (observe_rounds rs w)) = hw_config w"
  by (induction rs arbitrary: w) (simp_all add: Let_def split_beta)

lemma observe_rounds_rounds:
  "length (hw_rounds w) \<le> hc_window_rounds (hw_config w) \<Longrightarrow>
   hw_rounds (snd (observe_rounds rs w)) =
     drop (length (hw_rounds w) + length rs - hc_window_rounds (hw_config w)) (hw_rounds w @ rs)"
proof (induction rs arbitrary: w)
  case Nil
  then show ?case by simp
next
  case (Cons r rs)
  let ?W = "hc_window_rounds (hw_config w)" and ?w = "snd (observe_round r w)"
  have len: "length (hw_rounds ?w) \<le> hc_window_rounds (hw_config ?w)"
    by (simp add: observe_round_rounds)
  have "hw_rounds (snd (observe_rounds (r # rs) w)) =
      drop (length (hw_rounds ?w) + length rs - ?W) (hw_rounds ?w @ rs)"
    using Cons.IH [OF len] by (simp add: Let_def split_beta)
  also have "\<dots> = drop (length (hw_rounds w) + length (r # rs) - ?W) (hw_rounds w @ r # rs)"
  proof (cases "length (hw_rounds w) < ?W")
    case True
    then show ?thesis by (simp add: observe_round_rounds)
  next
    case False
    with Cons.prems have W: "length (hw_rounds w) = ?W" by simp
    have hr: "hw_rounds ?w = drop 1 (hw_rounds w @ [r])"
      using W by (simp add: observe_round_rounds)
    have len': "length (hw_rounds ?w) = ?W" using W by (simp add: hr)
    have "drop 1 (hw_rounds w @ [r]) @ rs = drop 1 (hw_rounds w @ r # rs)"
      by (cases "hw_rounds w") simp_all
    then have "drop (length rs) (hw_rounds ?w @ rs) = drop (length rs) (drop 1 (hw_rounds w @ r # rs))"
      by (simp only: hr)
    then show ?thesis by (simp only: len' W drop_drop) (simp add: add.commute)
  qed
  finally show ?case .
qed

text \<open>The streak counts rounds at the end of the history that are good for recovery.\<close>

definition good_round :: "health_config \<Rightarrow> health_sample list \<Rightarrow> bool" where
  "good_round c r = recovery_round (snapshot r 0) c"

lemma observe_round_streak:
  "hw_recovery_streak (snd (observe_round r w))
     \<le> (if good_round (hw_config w) r then hw_recovery_streak w + 1
        else if hw_degraded w then 0 else hw_recovery_streak w)"
  by (auto simp: observe_round_def Let_def good_round_def split: option.splits)

lemma observe_round_recovered:
  assumes "fst (observe_round r w) = Some (HdRecovered s)"
  shows "hw_degraded w" "hc_recovery_rounds (hw_config w) \<le>
      (if good_round (hw_config w) r then hw_recovery_streak w + 1 else 0)"
  using assms
  by (auto simp: observe_round_def Let_def good_round_def split: option.splits if_splits)

lemma streak_le_trailing:
  "hw_ok w \<Longrightarrow> hw_recovery_streak w = 0 \<Longrightarrow>
   hw_recovery_streak (snd (observe_rounds rs w))
     \<le> length (takeWhile (good_round (hw_config w)) (rev rs))"
proof (induction rs rule: rev_induct)
  case Nil
  then show ?case by simp
next
  case (snoc r rs)
  define v where "v = snd (observe_rounds rs w)"
  have ok: "hw_ok v" using observe_rounds_ok [OF snoc.prems(1)] by (simp add: v_def)
  have conf: "hw_config v = hw_config w" by (simp add: v_def)
  have "\<not> hw_degraded v \<Longrightarrow> hw_recovery_streak v = 0" using ok by (simp add: hw_ok_def)
  moreover have "snd (observe_rounds (rs @ [r]) w) = snd (observe_round r v)"
    by (simp add: observe_rounds_append v_def Let_def split_beta)
  ultimately show ?case
    using observe_round_streak [of r v] snoc.IH [OF snoc.prems]
    by (auto simp: conf v_def [symmetric] split: if_splits)
qed

lemma all_good_recovers:
  assumes "hw_ok w" "hw_degraded w" "\<forall>r \<in> set rs. good_round (hw_config w) r"
    "rs \<noteq> []" "hw_recovery_streak w + length rs = hc_recovery_rounds (hw_config w)"
  shows "(\<exists>s. last (fst (observe_rounds rs w)) = Some (HdRecovered s)) \<and>
    (\<forall>d \<in> set (butlast (fst (observe_rounds rs w))).
       \<exists>s. d = Some (HdDegraded s (the (hw_degradation_reason w)))) \<and>
    \<not> hw_degraded (snd (observe_rounds rs w))"
  using assms
proof (induction rs arbitrary: w)
  case Nil
  then show ?case by simp
next
  case (Cons r rs)
  let ?c = "hw_config w" and ?w = "snd (observe_round r w)"
  have good: "recovery_round (snapshot r 0) ?c" using Cons.prems by (simp add: good_round_def)
  obtain reason where reason: "hw_degradation_reason w = Some reason"
    using Cons.prems by (auto simp: hw_ok_def)
  show ?case
  proof (cases "rs = []")
    case True
    then show ?thesis
      using Cons.prems good by (auto simp: observe_round_def Let_def split_beta)
  next
    case False
    then have "0 < length rs" by simp
    then have late: "\<not> hc_recovery_rounds ?c \<le> Suc (hw_recovery_streak w)"
      using Cons.prems(5) by (simp only: list.size)
    then have step: "hw_degraded ?w" "hw_recovery_streak ?w = hw_recovery_streak w + 1"
      "hw_degradation_reason ?w = Some reason"
      "\<exists>s. fst (observe_round r w) = Some (HdDegraded s reason)"
      using Cons.prems good reason late by (auto simp: observe_round_def Let_def)
    have "fst (observe_rounds rs ?w) \<noteq> []"
      using False by (cases rs) (auto simp: Let_def split_beta)
    then show ?thesis
      using Cons.IH [of ?w] Cons.prems step False reason
      by (auto simp: Let_def split_beta)
  qed
qed

lemma round64_100: "round64 100 = 100"
  using round64_nat_exact [of 100] by simp

lemma round64_quotient_bounds:
  assumes "0 < f" "f \<le> a" "a < 2 ^ 45"
  shows "0 < round64 (of_nat (100 * f) / of_nat a)"
    and "f < a \<Longrightarrow> round64 (of_nat (100 * f) / of_nat a) < 100"
    and "round64 (of_nat (100 * f) / of_nat a) \<le> 100"
proof -
  define q where "q = (of_nat (100 * f) / of_nat a :: rat)"
  have a: "(0::rat) < of_nat a" using assms by simp
  have a_le: "(of_nat a :: rat) \<le> of_nat (2 ^ 45)" using assms(3) by (simp only: of_nat_le_iff)
  have f_le: "(of_nat f :: rat) \<le> of_nat a" using assms(2) by (simp only: of_nat_le_iff)
  have f_ge: "(1::rat) \<le> of_nat f" using assms(1) by simp
  have "of_int 1 * 2 powi (- 45) \<le> q"
    using a a_le f_ge by (simp add: q_def power_int_minus pos_le_divide_eq)
  then have "of_int 1 * 2 powi (- 45) \<le> round64 q"
    using round64_mono [of "of_int 1 * 2 powi (- 45)" q] by (subst (asm) round64_dyadic) simp_all
  moreover have "(0::rat) < of_int 1 * 2 powi (- 45)" by simp
  ultimately have "0 < round64 q" by linarith
  then show "0 < round64 (of_nat (100 * f) / of_nat a)" by (simp only: q_def)
  have "q \<le> of_nat 100" using a f_le by (simp add: q_def pos_divide_le_eq)
  then have "round64 q \<le> of_nat 100"
    using round64_mono [of q "of_nat 100"] by (simp add: round64_100)
  then show "round64 (of_nat (100 * f) / of_nat a) \<le> 100" by (simp add: q_def)
  show "round64 (of_nat (100 * f) / of_nat a) < 100" if "f < a"
  proof -
    let ?b = "of_int (100 * 2 ^ 45 - 1) * 2 powi (- 45) :: rat"
    have "(of_nat (Suc f) :: rat) \<le> of_nat a" using that by (simp only: of_nat_le_iff Suc_le_eq)
    then have "(of_nat f :: rat) + 1 \<le> of_nat a" by simp
    then have "q \<le> ?b"
      using a a_le by (simp add: q_def power_int_minus pos_divide_le_eq)
    then have "round64 q \<le> ?b"
      using round64_mono [of q ?b] round64_dyadic [of "100 * 2 ^ 45 - 1" "- 45"] by simp
    moreover have "?b < 100" by (simp add: power_int_minus)
    ultimately have "round64 q < 100" by linarith
    then show ?thesis by (simp only: q_def)
  qed
qed

subsection \<open>Properties\<close>

text \<open>
  Loss percentage. For any round or window of fewer than 2^45 samples the computed
  \<open>loss_pct\<close> (with all binary64 rounding) is a finite number between 0 and 100; it is 0
  exactly when every sample succeeded and 100 exactly when there are samples and none did.
\<close>

theorem loss_pct_range:
  assumes "length samples < 2 ^ 45"
  shows "\<exists>l. hn_loss_pct (snapshot samples m) = Fin l \<and> 0 \<le> l \<and> l \<le> 100 \<and>
    (l = 0 \<longleftrightarrow> list_all hs_successful samples) \<and>
    (l = 100 \<longleftrightarrow> samples \<noteq> [] \<and> list_all (\<lambda>s. \<not> hs_successful s) samples)"
proof (cases "samples = []")
  case True
  then show ?thesis by (simp add: snapshot_def Let_def)
next
  case False
  define f where "f = length (filter (\<lambda>s. \<not> hs_successful s) samples)"
  have fa: "f \<le> length samples" by (simp add: f_def)
  have zero: "f = 0 \<longleftrightarrow> list_all hs_successful samples"
    by (simp add: f_def filter_empty_conv list_all_iff)
  have full: "f = length samples \<longleftrightarrow> list_all (\<lambda>s. \<not> hs_successful s) samples"
    by (metis (mono_tags, lifting) Ball_set f_def filter_True filter_id_conv length_filter_less
        less_irrefl_nat)
  note l = loss_pct_eq [OF assms False, of m, folded f_def]
  consider "f = 0" | "0 < f" "f < length samples" | "f = length samples"
    using fa by linarith
  then show ?thesis
  proof cases
    case 1
    then show ?thesis using l zero full False by auto
  next
    case 2
    then show ?thesis
      using l zero full False round64_quotient_bounds [of f "length samples"] assms by force
  next
    case 3
    then have "(of_nat (100 * f) / of_nat (length samples) :: rat) = of_nat 100"
      using False by simp
    then have "round64 (of_nat (100 * f) / of_nat (length samples)) = 100"
      by (simp add: round64_100)
    then show ?thesis using l zero full False 3 by auto
  qed
qed

theorem loss_pct_range_witness:
  "\<exists>l. hn_loss_pct (snapshot [\<lparr>hs_successful = True, hs_rtt_ms = Some (Fin 10)\<rparr>,
                             \<lparr>hs_successful = False, hs_rtt_ms = None\<rparr>] 2) = Fin l \<and>
       l \<noteq> 0 \<and> l \<noteq> 100"
  using loss_pct_range [of "[\<lparr>hs_successful = True, hs_rtt_ms = Some (Fin 10)\<rparr>,
      \<lparr>hs_successful = False, hs_rtt_ms = None\<rparr>]" 2] by auto

text \<open>
  C27. The reported p95 is the nearest-rank 95th percentile. Although the rank is computed in
  binary64 as \<open>ceil(n * 0.95)\<close> with 0.95 not representable, the value returned is one of
  the successful samples' RTTs, at least 95 percent of them are at most it, and fewer than
  95 percent are below it.
\<close>

theorem p95_nearest_rank:
  assumes "sample_rtts samples \<noteq> []" "length (sample_rtts samples) < 2 ^ 45"
  shows "\<exists>v. hn_p95_rtt_ms (snapshot samples m) = Some v \<and> v \<in> set (sample_rtts samples) \<and>
    19 * length (sample_rtts samples) \<le> 20 * length (filter (\<lambda>x. x \<le> v) (sample_rtts samples)) \<and>
    20 * length (filter (\<lambda>x. x < v) (sample_rtts samples)) < 19 * length (sample_rtts samples)"
proof -
  define xs n r where "xs = sort (sample_rtts samples)" and "n = length (sample_rtts samples)"
    and "r = p95_rank n"
  have n: "1 \<le> n" "length xs = n"
    using assms(1) by (simp_all add: n_def xs_def Suc_leI)
  have r: "r = (19 * n + 19) div 20"
    using p95_rank_exact [of n] assms(2) n by (simp add: r_def n_def)
  have "20 * r \<le> 19 * n + 19" "19 * n + 19 < 20 * r + 20"
    by (simp_all add: r)
  then have i: "r - 1 < length xs" "19 * n \<le> 20 * (r - 1 + 1)" "20 * (r - 1) < 19 * n"
    using n by (cases r; simp)+
  note counts = sorted_nth_counts [of xs "r - 1"]
  have "hn_p95_rtt_ms (snapshot samples m) = Some (xs ! (r - 1))"
    using p95_eq [OF assms(1)] by (simp add: xs_def r_def n_def)
  moreover have "xs ! (r - 1) \<in> set (sample_rtts samples)"
    using nth_mem [OF i(1)] by (simp add: xs_def)
  ultimately show ?thesis
    using counts i by (auto simp: xs_def n_def [symmetric])
qed

theorem p95_nearest_rank_witness:
  "hn_p95_rtt_ms (snapshot [\<lparr>hs_successful = True, hs_rtt_ms = Some (Fin 10)\<rparr>] 1) = Some (Fin 10)"
  using p95_nearest_rank [of "[\<lparr>hs_successful = True, hs_rtt_ms = Some (Fin 10)\<rparr>]" 1]
  by (auto simp: sample_rtts_def List.map_filter_def)

text \<open>
  The health window never panics and never forgets a recent round: after any sequence of
  rounds, every observation produced a decision (the \<open>expect\<close> on the retained degradation
  reason cannot fail) and the window holds exactly the last \<open>window_rounds\<close> rounds.
\<close>

theorem observe_rounds_total:
  "None \<notin> set (fst (observe_rounds rs (health_window_new c))) \<and>
   hw_rounds (snd (observe_rounds rs (health_window_new c))) =
     drop (length rs - hc_window_rounds c) rs"
proof -
  have "hw_config (health_window_new c) = c" "hw_rounds (health_window_new c) = []"
    by (simp_all add: health_window_new_def)
  then show ?thesis
    using observe_rounds_ok [OF hw_ok_new, of rs c] observe_rounds_rounds [of "health_window_new c" rs]
    by simp
qed

text \<open>
  No early recovery: whenever a window reports recovery, at least \<open>recovery_rounds\<close>
  consecutive rounds, the last one included, were each good enough to recover
  (some samples, loss below the recovery threshold, p95 below the RTT threshold).
\<close>

theorem recovery_needs_streak:
  assumes "fst (observe_round r (snd (observe_rounds rs (health_window_new c)))) = Some (HdRecovered s)"
  shows "hc_recovery_rounds c \<le> length (takeWhile (good_round c) (rev (rs @ [r])))"
proof -
  have conf: "hw_config (health_window_new c) = c" "hw_recovery_streak (health_window_new c) = 0"
    by (simp_all add: health_window_new_def)
  show ?thesis
    using observe_round_recovered(2) [OF assms] streak_le_trailing [OF hw_ok_new conf(2), of rs] conf
    by (auto split: if_splits)
qed

definition demo_health :: health_config where
  "demo_health = \<lparr> hc_window_rounds = 1, hc_min_samples = 1, hc_loss_threshold_pct = Fin 50,
     hc_rtt_threshold_ms = None, hc_recovery_loss_pct = Fin 10, hc_recovery_rounds = 1 \<rparr>"

definition demo_lost :: health_sample where
  "demo_lost = \<lparr> hs_successful = False, hs_rtt_ms = None \<rparr>"

definition demo_reply :: health_sample where
  "demo_reply = \<lparr> hs_successful = True, hs_rtt_ms = Some (Fin 20) \<rparr>"

lemma demo_round: "recovery_round (snapshot [demo_reply] 0) demo_health"
  by (simp add: demo_health_def demo_reply_def snapshot_def Let_def recovery_round_def
      f64_of_nat_def)

lemma demo_degraded:
  "snd (observe_rounds [[demo_lost]] (health_window_new demo_health)) =
     \<lparr> hw_config = demo_health, hw_rounds = [[demo_lost]], hw_degraded = True,
       hw_degradation_reason = Some DrLoss, hw_recovery_streak = 0 \<rparr>"
  by (simp add: demo_health_def demo_lost_def snapshot_def Let_def degradation_reason_def
      health_window_new_def observe_round_def f64_of_nat_def)

theorem recovery_needs_streak_witness:
  "hc_recovery_rounds demo_health
     \<le> length (takeWhile (good_round demo_health) (rev ([[demo_lost]] @ [[demo_reply]])))"
proof -
  have "fst (observe_round [demo_reply] (snd (observe_rounds [[demo_lost]]
      (health_window_new demo_health)))) = Some (HdRecovered (snapshot [demo_reply] 1))"
    unfolding demo_degraded
    by (simp add: observe_round_def demo_round Let_def) (simp add: demo_health_def)
  then show ?thesis by (rule recovery_needs_streak)
qed

text \<open>
  C26. Recovery is reached: from a degraded window with no recovery progress, that many
  consecutive good rounds produce degraded decisions carrying the original reason, then
  a recovery, and leave the window healthy.
\<close>

theorem recovery_reached:
  assumes "hw_ok w" "hw_degraded w" "hw_recovery_streak w = 0"
    "list_all (good_round (hw_config w)) rs" "rs \<noteq> []" "length rs = hc_recovery_rounds (hw_config w)"
  shows "(\<exists>s. last (fst (observe_rounds rs w)) = Some (HdRecovered s)) \<and>
    (\<forall>d \<in> set (butlast (fst (observe_rounds rs w))).
       \<exists>s. d = Some (HdDegraded s (the (hw_degradation_reason w)))) \<and>
    \<not> hw_degraded (snd (observe_rounds rs w))"
  using all_good_recovers [of w rs] assms by (simp add: list_all_iff)

theorem recovery_reached_witness:
  "\<exists>s. last (fst (observe_rounds [[demo_reply]]
     (snd (observe_rounds [[demo_lost]] (health_window_new demo_health))))) = Some (HdRecovered s)"
proof -
  let ?w = "snd (observe_rounds [[demo_lost]] (health_window_new demo_health))"
  have "hw_ok ?w" "hw_degraded ?w" "hw_recovery_streak ?w = 0"
    "list_all (good_round (hw_config ?w)) [[demo_reply]]"
    "length [[demo_reply]] = hc_recovery_rounds (hw_config ?w)"
    unfolding demo_degraded by (simp_all add: good_round_def demo_round hw_ok_def) (simp_all add: demo_health_def)
  from recovery_reached [OF this(1,2,3,4) _ this(5)] show ?thesis by blast
qed

end
