(* ===== verification/Admission.thy ===== *)
theory Admission
  imports ConfigTypes
begin

text \<open>
  The interface between a bandwidth test and the scheduler (\<open>bandwidth.rs\<close>): the report a
  test returns, and the reservation gate it must pass before its first transfer.
\<close>

record bandwidth_report =
  br_events :: "measurement_event list"
  br_outcome :: outcome
  br_reserved :: bool
  br_reservation_error :: "string option"

definition report_exit_code :: "bandwidth_report \<Rightarrow> nat" where
  "report_exit_code r = (if br_outcome r = Success then 0 else 1)"

datatype admission_reservation =
    Untracked
  | Reserved (accounting_date: date) (daily_bandwidth_starts: nat)

text \<open>
  The contract of \<open>ReservationGate::reserve\<close>: the gate keeps its invariant whatever the
  outcome, and a granted start is counted, an error is not a grant. \<open>starts s d\<close> counts the
  starts the gate has recorded on day \<open>d\<close>.
\<close>

locale reservation_gate =
  fixes reserve :: "time \<Rightarrow> 's \<Rightarrow> (string + admission_reservation) \<times> 's"
    and ok :: "'s \<Rightarrow> bool"
    and starts :: "'s \<Rightarrow> date \<Rightarrow> nat"
    and limit :: "'s \<Rightarrow> nat"
  assumes reserve_ok: "ok s \<Longrightarrow> ok (snd (reserve t s))"
    and reserve_limit: "limit (snd (reserve t s)) = limit s"
    and reserve_counts: "ok s \<Longrightarrow> fst (reserve t s) = Inr (Reserved d n) \<Longrightarrow>
      n = starts (snd (reserve t s)) d \<and> n \<le> limit s"
begin

text \<open>A sequence of requests, each at its own instant; the results in order.\<close>

fun reserve_all :: "time list \<Rightarrow> 's \<Rightarrow> (string + admission_reservation) list \<times> 's" where
  "reserve_all [] s = ([], s)"
| "reserve_all (t # ts) s =
     (let (r, s) = reserve t s; (rs, s) = reserve_all ts s in (r # rs, s))"

lemma reserve_all_ok: "ok s \<Longrightarrow> ok (snd (reserve_all ts s))"
  by (induction ts arbitrary: s) (auto simp: Let_def split_beta reserve_ok)

lemma reserve_all_limit: "limit (snd (reserve_all ts s)) = limit s"
  by (induction ts arbitrary: s) (auto simp: Let_def split_beta reserve_limit)

lemma reserve_all_counts:
  "ok s \<Longrightarrow> Inr (Reserved d n) \<in> set (fst (reserve_all ts s)) \<Longrightarrow> n \<le> limit s"
proof (induction ts arbitrary: s)
  case Nil
  then show ?case by simp
next
  case (Cons t ts)
  then show ?case
    using Cons.IH [of "snd (reserve t s)"] reserve_counts [of s t d n] reserve_ok [of s t]
      reserve_limit [of t s]
    by (auto simp: Let_def split_beta)
qed

end

text \<open>The gate of the untracked measurement: every request is granted, nothing counted.\<close>

definition untracked_reserve :: "time \<Rightarrow> unit \<Rightarrow> (string + admission_reservation) \<times> unit" where
  "untracked_reserve started_at s = (Inr Untracked, s)"

interpretation untracked: reservation_gate untracked_reserve "\<lambda>_. True" "\<lambda>_ _. 0" "\<lambda>_. 0"
  by unfold_locales (simp_all add: untracked_reserve_def)

end
