(* ===== verification/SchedState.thy ===== *)
theory SchedState
  imports Health Admission
begin

text \<open>
  The state and the pure functions of \<open>scheduler.rs\<close>: what is persisted per provider, the
  policy, the planning of a day's slots, the random generator behind the jitter, and the
  admission decision. Third-party behaviour (the range of chrono's timestamps and its
  RFC 3339 text) is the parameter record \<open>ext\<close>.
\<close>

subsection \<open>Parameters and constants\<close>

record ext =
  x_max_utc :: time
  x_rfc3339 :: "time \<Rightarrow> string"

definition STATE_SCHEMA_VERSION :: nat where "STATE_SCHEMA_VERSION = 1"
definition MAX_RATE_LIMIT_ATTEMPTS :: nat where "MAX_RATE_LIMIT_ATTEMPTS = 5"
definition DEFAULT_INTERFACE_KEY :: string where "DEFAULT_INTERFACE_KEY = []"

subsection \<open>Persisted state\<close>

record deferred_opportunity =
  df_scheduled_at_utc :: "time option"
  df_reason :: trigger_reason
  df_interface :: "string option"
  df_created_at_utc :: time
  df_expires_at_utc :: time
  df_rate_limit_attempts :: nat

record pending_trigger =
  pt_reason :: trigger_reason
  pt_created_at_utc :: time
  pt_expires_at_utc :: time

record interface_trigger_state =
  it_pending :: "pending_trigger option"
  it_latched :: bool

record provider_state =
  ps_day_utc :: date
  ps_slots :: "time list"
  ps_runs :: "time list"
  ps_last_started_at_utc :: "time option"
  ps_cooldown_until_utc :: "time option"
  ps_backoff_step :: nat
  ps_deferred :: "deferred_opportunity option"
  ps_interface_triggers :: "(string, interface_trigger_state) btree"
  ps_policy_daily_max :: nat
  ps_policy_min_spacing_ms :: nat
  ps_policy_slot_jitter_pct :: nat
  ps_rng_state :: u64
  ps_last_observed_utc :: time

text \<open>\<open>Checkpoint\<close> of \<open>persistence.rs\<close>, part of the stored snapshot.\<close>

record checkpoint =
  cp_version :: nat
  cp_installation :: string
  cp_sequence :: nat
  cp_digest :: string

record scheduler_store =
  st_schema_version :: nat
  st_providers :: "(string, provider_state) btree"
  st_checkpoint :: "checkpoint option"

definition store_default :: scheduler_store where
  "store_default =
     \<lparr> st_schema_version = STATE_SCHEMA_VERSION, st_providers = [], st_checkpoint = None \<rparr>"

definition trigger_default :: interface_trigger_state where
  "trigger_default = \<lparr> it_pending = None, it_latched = False \<rparr>"

record scheduler_policy =
  po_provider_id :: string
  po_provider_kind :: provider_kind
  po_force_limits :: bool
  po_daily_max :: nat
  po_min_spacing :: duration
  po_slot_jitter_pct :: nat
  po_pending_ttl :: duration
  po_cooldown_initial :: duration
  po_cooldown_max :: duration

definition policy_from :: "'u bandwidth_config \<Rightarrow> scheduler_policy" where
  "policy_from config =
     \<lparr> po_provider_id = bw_provider_id config,
       po_provider_kind =
         (case bw_provider config of MlabProvider _ \<Rightarrow> PkMlab | DirectProvider _ \<Rightarrow> PkDirect),
       po_force_limits = bw_force_limits config,
       po_daily_max = bw_daily_max config,
       po_min_spacing = bw_min_spacing config,
       po_slot_jitter_pct = bw_slot_jitter_pct config,
       po_pending_ttl = tc_pending_ttl (bw_trigger config),
       po_cooldown_initial = cd_initial (bw_cooldown config),
       po_cooldown_max = cd_max (bw_cooldown config) \<rparr>"

subsection \<open>Results\<close>

record scheduler_snapshot =
  sn_provider_id :: string
  sn_day_utc :: date
  sn_slots :: "time list"
  sn_runs :: "time list"
  sn_last_started_at_utc :: "time option"
  sn_cooldown_until_utc :: "time option"
  sn_backoff_step :: nat
  sn_deferred_attempts :: "nat option"
  sn_pending_trigger :: "trigger_reason option"
  sn_trigger_latched :: bool

record bandwidth_opportunity =
  op_reason :: trigger_reason
  op_scheduled_at_utc :: "time option"
  op_requested_at_utc :: time
  op_interface :: "string option"

record scheduler_poll =
  sp_opportunity :: "bandwidth_opportunity option"
  sp_events :: "measurement_event list"

datatype manual_decision = ManualAllowed | ManualBlocked measurement_event

record reservation =
  rv_accounting_date :: date
  rv_daily_bandwidth_starts :: nat

definition opportunity_apply_timing ::
    "bandwidth_opportunity \<Rightarrow> bandwidth_report \<Rightarrow> bandwidth_report" where
  "opportunity_apply_timing op report =
     report \<lparr> br_events :=
       map (\<lambda>ev.
         let ev = ev \<lparr> ev_trigger_reason := Some (op_reason op),
                       ev_scheduled_at_utc := op_scheduled_at_utc op \<rparr>
         in if ev_event_kind ev = BandwidthEvent
            then ev \<lparr> ev_requested_at_utc := Some (op_requested_at_utc op) \<rparr> else ev)
         (br_events report) \<rparr>"

subsection \<open>Time arithmetic\<close>

definition day_start :: "date \<Rightarrow> time" where
  "day_start d = d * day_ns"

definition day_end :: "date \<Rightarrow> time" where
  "day_end d = day_start d + day_ns"

definition add_duration :: "ext \<Rightarrow> time \<Rightarrow> duration \<Rightarrow> time" where
  "add_duration X t d = (if t + int d \<le> x_max_utc X then t + int d else x_max_utc X)"

definition duration_millis :: "duration \<Rightarrow> nat" where
  "duration_millis d = (if d div ns_per_ms \<le> u64_max then d div ns_per_ms else u64_max)"

definition runs_on_day :: "provider_state \<Rightarrow> date \<Rightarrow> nat" where
  "runs_on_day st day =
     (let n = length (filter (\<lambda>run. date_naive run = day) (ps_runs st))
      in if n \<le> u32_max then n else u32_max)"

subsection \<open>The random generator\<close>

text \<open>Xorshift on 64-bit words; the state is threaded through.\<close>

definition next_random :: "provider_state \<Rightarrow> u64 \<times> provider_state" where
  "next_random st =
     (let value = max (ps_rng_state st) 1;
          value = xor value (push_bit 13 value);
          value = xor value (drop_bit 7 value);
          value = xor value (push_bit 17 value)
      in (value, st \<lparr> ps_rng_state := value \<rparr>))"

definition jitter_duration :: "duration \<Rightarrow> provider_state \<Rightarrow> duration \<times> provider_state" where
  "jitter_duration base st =
     (let ms = duration_millis base;
          spread = ms div 5
      in if spread = 0 then (base, st)
         else
           let (value, st) = next_random st;
               offset = unat value mod sat_add u64_max (sat_mul u64_max spread 2) 1
           in (millis (sat_add u64_max (ms - spread) offset), st))"

subsection \<open>Planning\<close>

text \<open>
  One slot per stratum of the remaining interval, each displaced at random inside the middle
  part of its stratum. The loop of \<open>plan_interval\<close> runs over the indices; \<open>slots\<close> is the
  list built so far.
\<close>

definition sample_slot :: "nat \<Rightarrow> int \<Rightarrow> nat \<Rightarrow> nat \<Rightarrow> provider_state \<Rightarrow> int \<times> provider_state" where
  "sample_slot jitter_pct total_ms slots_n index st =
     (let stratum_start = total_ms * int index div int slots_n;
          stratum_end = total_ms * int (index + 1) div int slots_n;
          width = max (stratum_end - stratum_start) 1;
          jitter_width = width * int jitter_pct div 100;
          middle_start = stratum_start + (width - jitter_width) div 2
      in if jitter_width = 0 then (middle_start, st)
         else
           let (value, st) = next_random st
           in (middle_start + int (unat value mod nat jitter_width), st))"

fun plan_loop ::
    "ext \<Rightarrow> scheduler_policy \<Rightarrow> time \<Rightarrow> time \<Rightarrow> int \<Rightarrow> nat \<Rightarrow> nat list \<Rightarrow> time list \<Rightarrow>
     provider_state \<Rightarrow> time list \<times> provider_state" where
  "plan_loop X po earliest end_t total_ms slots_n [] slots st = (slots, st)"
| "plan_loop X po earliest end_t total_ms slots_n (index # rest) slots st =
     (let (sampled, st) = sample_slot (po_slot_jitter_pct po) total_ms slots_n index st;
          candidate = earliest + sampled * int ns_per_ms;
          slots =
            (if (slots = [] \<or> add_duration X (last slots) (po_min_spacing po) \<le> candidate)
                \<and> candidate < end_t
             then slots @ [candidate] else slots)
      in plan_loop X po earliest end_t total_ms slots_n rest slots st)"

definition plan_earliest :: "ext \<Rightarrow> scheduler_policy \<Rightarrow> time \<Rightarrow> provider_state \<Rightarrow> time" where
  "plan_earliest X po start st =
     max (max (case ps_last_started_at_utc st of
                 Some last_start \<Rightarrow> add_duration X last_start (po_min_spacing po)
               | None \<Rightarrow> start)
              (case ps_cooldown_until_utc st of Some c \<Rightarrow> c | None \<Rightarrow> start))
         start"

definition plan_interval ::
    "ext \<Rightarrow> scheduler_policy \<Rightarrow> time \<Rightarrow> time \<Rightarrow> nat \<Rightarrow> provider_state \<Rightarrow> time list \<times> provider_state" where
  "plan_interval X po start end_t slots_n st =
     (if slots_n = 0 \<or> end_t \<le> start then ([], st)
      else
        let earliest = plan_earliest X po start st
        in if end_t \<le> earliest then ([], st)
           else
             let total_ms = max ((end_t - earliest) div int ns_per_ms) 1
             in plan_loop X po earliest end_t total_ms slots_n [0..<slots_n] [] st)"

definition plan_full_day ::
    "ext \<Rightarrow> scheduler_policy \<Rightarrow> time \<Rightarrow> provider_state \<Rightarrow> time list \<times> provider_state" where
  "plan_full_day X po now st =
     (let (slots, st) =
        plan_interval X po (day_start (date_naive now)) (day_end (date_naive now)) (po_daily_max po) st
      in (filter (\<lambda>slot. now < slot) slots, st))"

subsection \<open>The generator never reaches zero\<close>

lemma push_bit_fixpoint:
  fixes x :: "'a::len word"
  assumes "x = push_bit n x" "0 < n"
  shows "x = 0"
proof (rule bit_eqI)
  fix i
  have "\<not> bit x i"
  proof (induction i rule: less_induct)
    case (less i)
    show ?case
    proof (cases "n \<le> i")
      case True
      then have "\<not> bit x (i - n)" using less [of "i - n"] assms(2) by simp
      then show ?thesis by (subst assms(1)) (simp add: bit_push_bit_iff)
    next
      case False
      then show ?thesis by (subst assms(1)) (simp add: bit_push_bit_iff)
    qed
  qed
  then show "bit x i = bit 0 i" by simp
qed

lemma drop_bit_fixpoint:
  fixes x :: "'a::len word"
  assumes "x = drop_bit n x" "0 < n"
  shows "x = 0"
proof (rule bit_eqI)
  fix i
  have step: "bit x j \<longleftrightarrow> bit x (j + n)" for j
    by (subst assms(1)) (simp add: bit_drop_bit_eq add.commute)
  have "bit x i \<longleftrightarrow> bit x (i + k * n)" for k
  proof (induction k)
    case 0
    then show ?case by simp
  next
    case (Suc k)
    then show ?case using step [of "i + k * n"] by (simp add: algebra_simps)
  qed
  moreover have "\<not> bit x (i + LENGTH('a) * n)"
  proof -
    have "LENGTH('a) \<le> LENGTH('a) * n" using assms(2) by simp
    then have "LENGTH('a) \<le> i + LENGTH('a) * n" by linarith
    then show ?thesis using bit_imp_le_length [of x] by (metis linorder_not_less)
  qed
  ultimately show "bit x i = bit 0 i" by simp
qed

lemma xor_zero_eq:
  fixes x y :: "'a::len word"
  assumes "xor x y = 0" shows "x = y"
proof (rule bit_eqI)
  fix i
  have "bit (xor x y) i \<longleftrightarrow> bit x i \<noteq> bit y i" by (simp add: bit_xor_iff)
  then show "bit x i = bit y i" using assms by simp
qed

lemma xor_shift_nonzero:
  fixes x :: "'a::len word"
  assumes "x \<noteq> 0" "0 < n"
  shows "xor x (push_bit n x) \<noteq> 0" "xor x (drop_bit n x) \<noteq> 0"
  using assms push_bit_fixpoint [of x n] drop_bit_fixpoint [of x n] xor_zero_eq
  by blast+

lemma next_random_nonzero: "ps_rng_state (snd (next_random st)) \<noteq> 0"
proof -
  define v where "v = max (ps_rng_state st) 1"
  have "v \<noteq> 0"
    by (metis max.cobounded2 v_def word_le_0_iff zero_neq_one)
  have upd: "ps_rng_state (s\<lparr>ps_rng_state := x\<rparr>) = x" for s :: provider_state and x by simp
  define a where "a = xor v (push_bit 13 v)"
  define b where "b = xor a (drop_bit 7 a)"
  have "ps_rng_state (snd (next_random st)) = xor b (push_bit 17 b)"
    by (simp only: next_random_def Let_def v_def a_def b_def snd_conv upd)
  moreover have "a \<noteq> 0" unfolding a_def using \<open>v \<noteq> 0\<close> by (rule xor_shift_nonzero) simp
  then have "b \<noteq> 0" unfolding b_def by (rule xor_shift_nonzero) simp
  then have "xor b (push_bit 17 b) \<noteq> 0" by (rule xor_shift_nonzero) simp
  ultimately show ?thesis by (simp only: not_False_eq_True)
qed

lemma next_random_frame:
  "snd (next_random st) = st \<lparr> ps_rng_state := fst (next_random st) \<rparr>"
  by (simp add: next_random_def Let_def)

text \<open>Only the generator changes in an operation that draws from it.\<close>

definition same_but_rng :: "provider_state \<Rightarrow> provider_state \<Rightarrow> bool" where
  "same_but_rng st st' \<longleftrightarrow>
     st' = st \<lparr> ps_rng_state := ps_rng_state st' \<rparr> \<and> (ps_rng_state st \<noteq> 0 \<longrightarrow> ps_rng_state st' \<noteq> 0)"

lemma same_but_rng_refl [simp]: "same_but_rng st st"
  by (simp add: same_but_rng_def)

lemma same_but_rng_trans: "same_but_rng a b \<Longrightarrow> same_but_rng b c \<Longrightarrow> same_but_rng a c"
  unfolding same_but_rng_def by (cases a; cases b; cases c) auto

lemma same_but_rng_next: "same_but_rng st (snd (next_random st))"
  using next_random_nonzero [of st] by (simp add: same_but_rng_def next_random_frame [of st])

lemma same_but_rng_fields:
  assumes "same_but_rng st st'"
  shows "ps_day_utc st' = ps_day_utc st" "ps_slots st' = ps_slots st" "ps_runs st' = ps_runs st"
    "ps_last_started_at_utc st' = ps_last_started_at_utc st"
    "ps_cooldown_until_utc st' = ps_cooldown_until_utc st"
    "ps_backoff_step st' = ps_backoff_step st" "ps_deferred st' = ps_deferred st"
    "ps_interface_triggers st' = ps_interface_triggers st"
    "ps_policy_daily_max st' = ps_policy_daily_max st"
    "ps_policy_min_spacing_ms st' = ps_policy_min_spacing_ms st"
    "ps_policy_slot_jitter_pct st' = ps_policy_slot_jitter_pct st"
    "ps_last_observed_utc st' = ps_last_observed_utc st"
  using assms unfolding same_but_rng_def by (cases st; cases st'; simp)+

subsection \<open>Durations\<close>

lemma add_duration_mono: "s \<le> t \<Longrightarrow> add_duration X s d \<le> add_duration X t d"
  by (simp add: add_duration_def)

lemma add_duration_le: "add_duration X t d \<le> t + int d"
  by (simp add: add_duration_def)

lemma add_duration_ge: "t \<le> x_max_utc X \<Longrightarrow> t \<le> add_duration X t d"
  by (simp add: add_duration_def)

lemma jitter_duration_rng: "same_but_rng st (snd (jitter_duration base st))"
  using same_but_rng_next [of st] by (simp add: jitter_duration_def Let_def split_beta)

subsection \<open>Slots\<close>

lemma div_step_bounds:
  fixes t :: int and i n :: nat
  assumes "0 \<le> t" "i < n"
  shows "0 \<le> t * int i div int n" "t * int i div int n \<le> t * int (i + 1) div int n"
    "t * int (i + 1) div int n \<le> t"
proof -
  have n: "0 < int n" using assms(2) by simp
  show "0 \<le> t * int i div int n" using assms n by (simp add: pos_imp_zdiv_nonneg_iff)
  show "t * int i div int n \<le> t * int (i + 1) div int n"
    using assms n by (intro zdiv_mono1 mult_left_mono) simp_all
  have "t * int (i + 1) \<le> t * int n"
    using assms by (intro mult_left_mono) simp_all
  then have "t * int (i + 1) div int n \<le> t * int n div int n" using n by (intro zdiv_mono1)
  then show "t * int (i + 1) div int n \<le> t" using n by simp
qed

text \<open>A sampled slot lies in the middle part of its stratum.\<close>

lemma sample_slot_bounds:
  fixes pct total_ms slots_n index
  defines "a \<equiv> total_ms * int index div int slots_n"
    and "w \<equiv> max (total_ms * int (index + 1) div int slots_n - total_ms * int index div int slots_n) 1"
  assumes "0 \<le> total_ms" "index < slots_n" "pct \<le> 100"
  shows "a + (w - w * int pct div 100) div 2 \<le> fst (sample_slot pct total_ms slots_n index st)"
    "fst (sample_slot pct total_ms slots_n index st)
       \<le> a + (w - w * int pct div 100) div 2 + max 0 (w * int pct div 100 - 1)"
    "a \<le> fst (sample_slot pct total_ms slots_n index st)"
    "fst (sample_slot pct total_ms slots_n index st) < a + w"
    "0 \<le> fst (sample_slot pct total_ms slots_n index st)"
    "same_but_rng st (snd (sample_slot pct total_ms slots_n index st))"
proof -
  define j where "j = w * int pct div 100"
  define r where "r = fst (sample_slot pct total_ms slots_n index st)"
  define v where "v = int (unat (fst (next_random st)) mod nat j)"
  have w: "1 \<le> w" by (simp add: w_def)
  have j0: "0 \<le> j" using w by (simp add: j_def pos_imp_zdiv_nonneg_iff)
  have "w * int pct \<le> w * 100" using w assms(5) by (intro mult_left_mono) simp_all
  then have "w * int pct div 100 \<le> w * 100 div 100" by (intro zdiv_mono1) simp_all
  then have jw: "j \<le> w" by (simp add: j_def)
  have a0: "0 \<le> a" unfolding a_def by (rule div_step_bounds(1) [OF assms(3,4)])
  have r_eq: "r = a + (w - j) div 2 + (if j = 0 then 0 else v)"
    unfolding r_def j_def w_def a_def v_def sample_slot_def
    by (simp add: Let_def split_beta)
  have v: "0 \<le> v" "j \<noteq> 0 \<Longrightarrow> v \<le> j - 1"
  proof -
    show "0 \<le> v" by (simp add: v_def)
    show "v \<le> j - 1" if "j \<noteq> 0"
    proof -
      have "unat (fst (next_random st)) mod nat j < nat j" using j0 that by simp
      then show ?thesis using j0 by (simp add: v_def zless_nat_eq_int_zless)
    qed
  qed
  show lo: "a + (w - w * int pct div 100) div 2 \<le> fst (sample_slot pct total_ms slots_n index st)"
    using r_eq v by (simp add: r_def [symmetric] j_def [symmetric])
  show "fst (sample_slot pct total_ms slots_n index st)
       \<le> a + (w - w * int pct div 100) div 2 + max 0 (w * int pct div 100 - 1)"
    using r_eq v by (auto simp: r_def [symmetric] j_def [symmetric])
  have half: "0 \<le> (w - j) div 2" "(w - j) div 2 \<le> w - j" using jw by linarith+
  show "a \<le> fst (sample_slot pct total_ms slots_n index st)"
    "0 \<le> fst (sample_slot pct total_ms slots_n index st)"
    using r_eq v half a0 by (auto simp: r_def [symmetric])
  show "fst (sample_slot pct total_ms slots_n index st) < a + w"
    using r_eq v j0 jw w half by (cases "j = 0") (auto simp: r_def [symmetric])
  show "same_but_rng st (snd (sample_slot pct total_ms slots_n index st))"
    using same_but_rng_next [of st]
    by (simp add: sample_slot_def Let_def split_beta)
qed

text \<open>Pairwise spacing of a list of instants, and the slots of one planned interval.\<close>

definition spaced :: "ext \<Rightarrow> duration \<Rightarrow> time list \<Rightarrow> bool" where
  "spaced X d xs = sorted_wrt (\<lambda>a b. add_duration X a d \<le> b) xs"

definition slots_ok :: "ext \<Rightarrow> duration \<Rightarrow> time \<Rightarrow> time \<Rightarrow> time list \<Rightarrow> bool" where
  "slots_ok X d earliest end_t xs \<longleftrightarrow>
     list_all (\<lambda>s. earliest \<le> s \<and> s < end_t) xs \<and> spaced X d xs"

lemma slots_ok_Nil [simp]: "slots_ok X d e t []"
  by (simp add: slots_ok_def spaced_def)

lemma slots_ok_filter [simp]: "slots_ok X d e t xs \<Longrightarrow> slots_ok X d e t (filter P xs)"
  by (auto simp: slots_ok_def spaced_def list_all_iff sorted_wrt_filter)

lemma slots_ok_snoc:
  assumes "slots_ok X d e t xs" "t \<le> x_max_utc X" "e \<le> c" "c < t"
    "xs = [] \<or> add_duration X (last xs) d \<le> c"
  shows "slots_ok X d e t (xs @ [c])"
proof (cases xs rule: rev_cases)
  case Nil
  then show ?thesis using assms by (simp add: slots_ok_def spaced_def)
next
  case (snoc ys y)
  have "add_duration X a d \<le> c" if "a \<in> set ys" for a
  proof -
    have "add_duration X a d \<le> y" "a < t"
      using that assms(1) by (auto simp: slots_ok_def spaced_def sorted_wrt_append list_all_iff snoc)
    moreover have "y \<le> add_duration X y d"
      using assms(1,2) by (intro add_duration_ge) (auto simp: slots_ok_def list_all_iff snoc)
    ultimately show ?thesis using assms(5) by (simp add: snoc)
  qed
  then show ?thesis
    using assms by (auto simp: slots_ok_def spaced_def sorted_wrt_append snoc)
qed

lemma plan_loop_ok:
  assumes "po_slot_jitter_pct po \<le> 100" "0 \<le> total_ms" "end_t \<le> x_max_utc X"
    "list_all (\<lambda>i. i < slots_n) is" "slots_ok X (po_min_spacing po) earliest end_t slots"
  shows "slots_ok X (po_min_spacing po) earliest end_t
      (fst (plan_loop X po earliest end_t total_ms slots_n is slots st)) \<and>
    length (fst (plan_loop X po earliest end_t total_ms slots_n is slots st)) \<le> length slots + length is \<and>
    same_but_rng st (snd (plan_loop X po earliest end_t total_ms slots_n is slots st))"
  using assms(4,5)
proof (induction "is" arbitrary: slots st)
  case Nil
  then show ?case by simp
next
  case (Cons index rest)
  define sm where "sm = sample_slot (po_slot_jitter_pct po) total_ms slots_n index st"
  define cand where "cand = earliest + fst sm * int ns_per_ms"
  define slots' where "slots' =
    (if (slots = [] \<or> add_duration X (last slots) (po_min_spacing po) \<le> cand) \<and> cand < end_t
     then slots @ [cand] else slots)"
  have eq: "plan_loop X po earliest end_t total_ms slots_n (index # rest) slots st =
      plan_loop X po earliest end_t total_ms slots_n rest slots' (snd sm)"
    by (simp add: Let_def split_beta sm_def cand_def slots'_def)
  have i: "index < slots_n" "list_all (\<lambda>i. i < slots_n) rest" using Cons.prems by simp_all
  note b = sample_slot_bounds(5,6) [OF assms(2) i(1) assms(1), of st, folded sm_def]
  have "earliest \<le> cand" using b(1) by (simp add: cand_def)
  then have "slots_ok X (po_min_spacing po) earliest end_t slots'"
    using Cons.prems(2) assms(3) by (simp add: slots'_def slots_ok_snoc)
  moreover have "length slots' \<le> length slots + 1" by (simp add: slots'_def)
  ultimately show ?case
    using Cons.IH [OF i(2), of slots' "snd sm"] same_but_rng_trans [OF b(2)]
    unfolding eq by auto
qed

lemma plan_interval_ok:
  assumes "po_slot_jitter_pct po \<le> 100" "end_t \<le> x_max_utc X"
  shows "slots_ok X (po_min_spacing po) (plan_earliest X po start st) end_t
      (fst (plan_interval X po start end_t n st)) \<and>
    length (fst (plan_interval X po start end_t n st)) \<le> n \<and>
    same_but_rng st (snd (plan_interval X po start end_t n st))"
  using plan_loop_ok [OF assms(1) _ assms(2), of
      "max ((end_t - plan_earliest X po start st) div int ns_per_ms) 1"
      n "[0..<n]" "plan_earliest X po start st" "[]" st]
  by (auto simp: plan_interval_def Let_def list_all_iff)

lemma sample_slot_rng: "same_but_rng st (snd (sample_slot pct total_ms n i st))"
  using same_but_rng_next [of st] by (simp add: sample_slot_def Let_def split_beta)

lemma plan_loop_rng: "same_but_rng st (snd (plan_loop X po earliest t total_ms k is slots st))"
proof (induction "is" arbitrary: slots st)
  case Nil
  then show ?case by simp
next
  case (Cons i rest)
  let ?st = "snd (sample_slot (po_slot_jitter_pct po) total_ms k i st)"
  have "same_but_rng st (snd (plan_loop X po earliest t total_ms k rest slots' ?st))" for slots'
    by (rule same_but_rng_trans [OF sample_slot_rng Cons.IH])
  then show ?case by (simp add: Let_def split_beta)
qed

lemma plan_interval_rng: "same_but_rng st (snd (plan_interval X po start end_t n st))"
  by (simp add: plan_interval_def Let_def plan_loop_rng)

lemma plan_full_day_rng: "same_but_rng st (snd (plan_full_day X po now st))"
  by (simp add: plan_full_day_def Let_def split_beta plan_interval_rng)

subsection \<open>Properties\<close>


text \<open>
  No overflow in planning. The source computes the strata in \<open>i64\<close>: for an interval of
  at most one day, any \<open>u32\<close> number of slots and any admissible jitter percentage, every
  intermediate product and sum stays below 2^63 (the model's unbounded integers agree with
  the machine's), and the sampled offset is inside its stratum.
\<close>

theorem sample_slot_no_overflow:
  assumes "1 \<le> total_ms" "total_ms \<le> 86400000" "slots_n \<le> u32_max" "index < slots_n" "pct \<le> 100"
  shows "total_ms * int (index + 1) < 2 ^ 63 \<and>
    (let a = total_ms * int index div int slots_n;
         w = max (total_ms * int (index + 1) div int slots_n - a) 1
     in 0 \<le> a \<and> w * int pct < 2 ^ 63 \<and>
        a \<le> fst (sample_slot pct total_ms slots_n index st) \<and>
        fst (sample_slot pct total_ms slots_n index st) < a + w \<and> a + w \<le> total_ms + 1)"
proof -
  define a w where "a = total_ms * int index div int slots_n"
    and "w = max (total_ms * int (index + 1) div int slots_n - a) 1"
  have t0: "0 \<le> total_ms" using assms(1) by simp
  note d = div_step_bounds [OF t0 assms(4)]
  note s = sample_slot_bounds [OF t0 assms(4,5), of st]
  have w: "1 \<le> w" "a + w \<le> total_ms + 1" "w \<le> 86400001"
    using d assms(1,2) by (auto simp: a_def w_def)
  have "total_ms * int (index + 1) \<le> 86400000 * 4294967295"
    using assms by (intro mult_mono) simp_all
  moreover have "w * int pct \<le> 86400001 * 100"
    using w assms(5) by (intro mult_mono) simp_all
  moreover have p: "(2::int) ^ 63 = 9223372036854775808" by simp
  ultimately show ?thesis
    using s(3,4) [folded a_def, folded w_def] d(1) [folded a_def] w
    unfolding Let_def a_def [symmetric] w_def [symmetric] p by (intro conjI; linarith)
qed

text \<open>
  Jittered backoff. The randomised cooldown differs from the base by at most a fifth of
  it (in whole milliseconds), in either direction, for every state of the generator.
\<close>

theorem jitter_duration_bounds:
  "(duration_millis base - duration_millis base div 5) * ns_per_ms \<le> fst (jitter_duration base st) \<and>
   fst (jitter_duration base st)
     \<le> max base ((duration_millis base + duration_millis base div 5) * ns_per_ms)"
proof (cases "duration_millis base div 5 = 0")
  case True
  have "duration_millis base * ns_per_ms \<le> base div ns_per_ms * ns_per_ms"
    by (simp add: duration_millis_def)
  also have "\<dots> \<le> base" by (rule div_times_less_eq_dividend)
  finally have "duration_millis base * ns_per_ms \<le> base" .
  then have "(duration_millis base - duration_millis base div 5) * ns_per_ms \<le> base"
    by (simp add: True)
  then show ?thesis using True by (simp add: jitter_duration_def Let_def)
next
  case False
  define ms sp where "ms = duration_millis base" and "sp = ms div 5"
  have ms: "ms \<le> u64_max" "0 < sp" "5 * sp \<le> ms" using False
    by (auto simp: duration_millis_def ms_def sp_def)
  define off where "off = unat (fst (next_random st)) mod sat_add u64_max (sat_mul u64_max sp 2) 1"
  have "sat_add u64_max (sat_mul u64_max sp 2) 1 = 2 * sp + 1"
    using ms by (simp add: sat_add_def sat_mul_def)
  then have off: "off \<le> 2 * sp" by (simp add: off_def less_Suc_eq_le [symmetric])
  have eq: "fst (jitter_duration base st) = sat_add u64_max (ms - sp) off * ns_per_ms"
    using ms by (simp add: jitter_duration_def Let_def split_beta ms_def sp_def off_def millis_def)
  have "ms - sp \<le> sat_add u64_max (ms - sp) off" "sat_add u64_max (ms - sp) off \<le> ms + sp"
    using ms off by (auto simp: sat_add_def)
  then have "(ms - sp) * ns_per_ms \<le> fst (jitter_duration base st)"
    "fst (jitter_duration base st) \<le> (ms + sp) * ns_per_ms"
    unfolding eq by (intro mult_right_mono; simp)+
  then show ?thesis by (simp add: ms_def [symmetric] sp_def [symmetric])
qed

subsection \<open>A concrete policy\<close>

text \<open>The demonstration values of the witnesses: timestamps up to the year 2200.\<close>

definition demo_ext :: ext where
  "demo_ext = \<lparr> x_max_utc = 84000 * day_ns, x_rfc3339 = (\<lambda>_. ''2026-01-01T00:00:00+00:00'') \<rparr>"

definition demo_policy :: scheduler_policy where
  "demo_policy = \<lparr> po_provider_id = ''p'', po_provider_kind = PkMlab, po_force_limits = False,
     po_daily_max = 2, po_min_spacing = 2160 * ns_per_sec, po_slot_jitter_pct = 0,
     po_pending_ttl = 1800 * ns_per_sec, po_cooldown_initial = 60 * ns_per_sec,
     po_cooldown_max = 960 * ns_per_sec \<rparr>"

definition demo_provider :: provider_state where
  "demo_provider = \<lparr> ps_day_utc = 0, ps_slots = [], ps_runs = [], ps_last_started_at_utc = None,
     ps_cooldown_until_utc = None, ps_backoff_step = 0, ps_deferred = None,
     ps_interface_triggers = [], ps_policy_daily_max = 2, ps_policy_min_spacing_ms = 2160000,
     ps_policy_slot_jitter_pct = 0, ps_rng_state = 7, ps_last_observed_utc = 0 \<rparr>"


theorem sample_slot_no_overflow_witness:
  "(86400000::int) * int (3 + 1) < 2 ^ 63 \<and>
   fst (sample_slot 50 86400000 4 3 demo_provider) < 86400001"
  using sample_slot_no_overflow [of 86400000 4 3 50 demo_provider] by (simp add: Let_def)

end
