(* ===== verification/Persistence.thy ===== *)
theory Persistence
  imports SchedState
begin

text \<open>
  \<open>scheduler/persistence.rs\<close>: the accounting log, the checkpoint that anchors it, the
  snapshot and its backup, and the order in which a commit writes them.

  Bytes are of a type \<open>'b\<close>; the serialisation (\<open>serde_json\<close>) and SHA-256 are the
  parameter record \<open>codec\<close>. The file system is the \<open>world\<close>: the contents of the five
  files, and a schedule of faults. Every fallible system call consumes one entry of the
  schedule; an entry \<open>Some (n, k)\<close> makes the call fail with kind \<open>k\<close>, a write after its
  first \<open>n\<close> bytes. A crash of the process is a fault after which the file system is only
  reopened.
\<close>

subsection \<open>Errors and the file system\<close>

datatype io_kind = IoNotFound | IoPermissionDenied | IoOther string

datatype pfile = FState | FMarker | FLedger | FBackup | FLock | FDir | FTmp pfile

datatype scheduler_error =
    SIo pfile io_kind
  | SCorrupt pfile string
  | SUnsupportedSchema nat
  | SAdmission string
  | SLocked pfile

definition is_permission_denied :: "scheduler_error \<Rightarrow> bool" where
  "is_permission_denied e = (case e of SIo _ k \<Rightarrow> k = IoPermissionDenied | _ \<Rightarrow> False)"

record 'b world =
  w_files :: "pfile \<Rightarrow> 'b list option"
  w_faults :: "(nat \<times> io_kind) option list"
  w_state_extension :: "string option"
  w_missing_dirs :: nat
  w_locked_elsewhere :: bool
  w_random :: "nat list option"
  w_next_id :: nat

text \<open>Operations on the world return an error or a value.\<close>

type_synonym ('b, 'a) pio = "'b world \<Rightarrow> (scheduler_error + 'a) \<times> 'b world"

definition io_bind :: "('b, 'a) pio \<Rightarrow> ('a \<Rightarrow> ('b, 'c) pio) \<Rightarrow> ('b, 'c) pio" where
  "io_bind m f w = (case m w of (Inl e, w) \<Rightarrow> (Inl e, w) | (Inr x, w) \<Rightarrow> f x w)"

definition io_return :: "'a \<Rightarrow> ('b, 'a) pio" where
  "io_return x w = (Inr x, w)"

definition io_fail :: "scheduler_error \<Rightarrow> ('b, 'a) pio" where
  "io_fail e w = (Inl e, w)"

definition io_lift :: "scheduler_error + 'a \<Rightarrow> ('b, 'a) pio" where
  "io_lift r w = (r, w)"

text \<open>The next entry of the fault schedule.\<close>

definition io_fault :: "'b world \<Rightarrow> (nat \<times> io_kind) option \<times> 'b world" where
  "io_fault w = (case w_faults w of [] \<Rightarrow> (None, w) | f # fs \<Rightarrow> (f, w \<lparr> w_faults := fs \<rparr>))"

definition io_step :: "pfile \<Rightarrow> ('b, unit) pio" where
  "io_step f w =
     (case io_fault w of (None, w) \<Rightarrow> (Inr (), w) | (Some (n, k), w) \<Rightarrow> (Inl (SIo f k), w))"

definition set_file :: "pfile \<Rightarrow> 'b list option \<Rightarrow> 'b world \<Rightarrow> 'b world" where
  "set_file f c w = w \<lparr> w_files := (w_files w)(f := c) \<rparr>"

text \<open>\<open>write_all\<close> after the bytes \<open>base\<close> already in the file.\<close>

definition io_write :: "pfile \<Rightarrow> 'b list \<Rightarrow> 'b list \<Rightarrow> ('b, unit) pio" where
  "io_write f base bytes w =
     (case io_fault w of
        (None, w) \<Rightarrow> (Inr (), set_file f (Some (base @ bytes)) w)
      | (Some (n, k), w) \<Rightarrow> (Inl (SIo f k), set_file f (Some (base @ take n bytes)) w))"

definition read_optional :: "pfile \<Rightarrow> ('b, 'b list option) pio" where
  "read_optional f w =
     (case io_fault w of
        (None, w) \<Rightarrow> (Inr (w_files w f), w)
      | (Some (n, k), w) \<Rightarrow> if k = IoNotFound then (Inr None, w) else (Inl (SIo f k), w))"

definition read_required :: "pfile \<Rightarrow> ('b, 'b list) pio" where
  "read_required f =
     io_bind (read_optional f)
       (\<lambda>c. case c of Some bytes \<Rightarrow> io_return bytes
                    | None \<Rightarrow> io_fail (SCorrupt f ''required recovery file is missing''))"

definition try_exists :: "pfile \<Rightarrow> ('b, bool) pio" where
  "try_exists f w =
     (case io_fault w of
        (None, w) \<Rightarrow> (Inr (w_files w f \<noteq> None), w)
      | (Some (n, k), w) \<Rightarrow> if k = IoNotFound then (Inr False, w) else (Inl (SIo f k), w))"

definition file_len :: "pfile \<Rightarrow> ('b, nat) pio" where
  "file_len f w =
     (case io_fault w of
        (None, w) \<Rightarrow>
          (case w_files w f of Some c \<Rightarrow> (Inr (length c), w) | None \<Rightarrow> (Inl (SIo f IoNotFound), w))
      | (Some (n, k), w) \<Rightarrow> (Inl (SIo f k), w))"

subsection \<open>Writing\<close>

definition write_synced :: "pfile \<Rightarrow> 'b list \<Rightarrow> 'b list \<Rightarrow> ('b, unit) pio" where
  "write_synced f base bytes = io_bind (io_write f base bytes) (\<lambda>_. io_step f)"

definition sync_directory :: "('b, unit) pio" where
  "sync_directory = io_step FDir"

definition io_rename :: "pfile \<Rightarrow> pfile \<Rightarrow> ('b, unit) pio" where
  "io_rename src dst =
     io_bind (io_step dst)
       (\<lambda>_ w. (Inr (), set_file src None (set_file dst (w_files w src) w)))"

definition atomic_write :: "pfile \<Rightarrow> 'b list \<Rightarrow> ('b, unit) pio" where
  "atomic_write f bytes =
     io_bind (io_step (FTmp f)) (\<lambda>_.
     io_bind (write_synced (FTmp f) [] bytes) (\<lambda>_.
     io_bind (io_rename (FTmp f) f) (\<lambda>_.
     sync_directory)))"

definition append_synced :: "pfile \<Rightarrow> 'b list \<Rightarrow> ('b, unit) pio" where
  "append_synced f bytes =
     io_bind (io_step f) (\<lambda>_ w.
       case w_files w f of
         None \<Rightarrow> (Inl (SIo f IoNotFound), w)
       | Some base \<Rightarrow> write_synced f base bytes w)"

fun io_steps :: "nat \<Rightarrow> pfile \<Rightarrow> ('b, unit) pio" where
  "io_steps 0 f = io_return ()"
| "io_steps (Suc n) f = io_bind (io_step f) (\<lambda>_. io_steps n f)"

text \<open>
  \<open>acquire_lock\<close>: one existence test per missing ancestor and one for the first that
  exists, the creation, a sync per created directory, the lock file, and the lock.
\<close>

definition acquire_lock :: "('b, unit) pio" where
  "acquire_lock w =
     (let missing = w_missing_dirs w
      in io_bind (io_steps (missing + 1) FDir) (\<lambda>_.
         io_bind (io_step FDir) (\<lambda>_ w.
         io_bind (io_steps missing FDir) (\<lambda>_.
         io_bind (io_step FLock) (\<lambda>_ w.
           if w_locked_elsewhere w then (Inl (SLocked FLock), w)
           else (Inr (), set_file FLock (Some []) w))) (w \<lparr> w_missing_dirs := 0 \<rparr>))) w)"

subsection \<open>Log data\<close>

record log_header =
  lh_version :: nat
  lh_installation :: string

record log_record =
  lr_sequence :: nat
  lr_previous_digest :: string
  lr_state :: scheduler_store
  lr_digest :: string

record log =
  lg_checkpoints :: "checkpoint list"
  lg_states :: "scheduler_store list"

text \<open>Serialisation, parsing (the error's text or the value), and the digest's hex text.\<close>

record 'b codec =
  jc_newline :: 'b
  jc_store :: "scheduler_store \<Rightarrow> 'b list"
  jc_record :: "log_record \<Rightarrow> 'b list"
  jc_header :: "log_header \<Rightarrow> 'b list"
  jc_checkpoint :: "checkpoint \<Rightarrow> 'b list"
  jc_content :: "nat \<Rightarrow> string \<Rightarrow> scheduler_store \<Rightarrow> 'b list"
  jc_parse_store :: "'b list \<Rightarrow> string + scheduler_store"
  jc_parse_record :: "'b list \<Rightarrow> string + log_record"
  jc_parse_header :: "'b list \<Rightarrow> string + log_header"
  jc_parse_checkpoint :: "'b list \<Rightarrow> string + checkpoint"
  jc_digest :: "'b list \<Rightarrow> string"

definition parse_at :: "pfile \<Rightarrow> string + 'a \<Rightarrow> scheduler_error + 'a" where
  "parse_at f r = (case r of Inl e \<Rightarrow> Inl (SCorrupt f e) | Inr x \<Rightarrow> Inr x)"

definition computed_digest :: "'b codec \<Rightarrow> log_record \<Rightarrow> string" where
  "computed_digest C r =
     jc_digest C (jc_content C (lr_sequence r) (lr_previous_digest r) (lr_state r))"

definition record_new :: "'b codec \<Rightarrow> nat \<Rightarrow> string \<Rightarrow> scheduler_store \<Rightarrow> log_record" where
  "record_new C sequence previous state =
     (let r = \<lparr> lr_sequence = sequence, lr_previous_digest = previous, lr_state = state, lr_digest = [] \<rparr>
      in r \<lparr> lr_digest := computed_digest C r \<rparr>)"

record accounting =
  ac_day :: date
  ac_runs :: "time list"
  ac_last_start :: "time option"
  ac_cooldown :: "time option"
  ac_backoff :: nat
  ac_deferred :: "deferred_opportunity option"

definition provider_accounting :: "provider_state \<Rightarrow> accounting" where
  "provider_accounting st =
     \<lparr> ac_day = ps_day_utc st, ac_runs = ps_runs st, ac_last_start = ps_last_started_at_utc st,
       ac_cooldown = ps_cooldown_until_utc st, ac_backoff = ps_backoff_step st,
       ac_deferred = ps_deferred st \<rparr>"

definition accounting :: "scheduler_store \<Rightarrow> (string, accounting) btree" where
  "accounting store = map (\<lambda>(pid, st). (pid, provider_accounting st)) (st_providers store)"

subsection \<open>Validation\<close>

definition provider_valid :: "string \<Rightarrow> provider_state \<Rightarrow> bool" where
  "provider_valid pid st \<longleftrightarrow>
     \<not> (pid = []
        \<or> ps_rng_state st = 0
        \<or> 100 < ps_policy_slot_jitter_pct st
        \<or> ps_policy_min_spacing_ms st = 0
        \<or> 4 < ps_backoff_step st
        \<or> \<not> sorted (ps_runs st)
        \<or> (ps_runs st \<noteq> [] \<and>
            (case ps_last_started_at_utc st of None \<Rightarrow> True | Some t \<Rightarrow> t < last (ps_runs st))))"

definition validate_store :: "pfile \<Rightarrow> scheduler_store \<Rightarrow> scheduler_error + unit" where
  "validate_store f store =
     (if list_all (\<lambda>(pid, st). provider_valid pid st) (st_providers store) then Inr ()
      else Inl (SCorrupt f ''invalid provider accounting or scheduling state''))"

definition parse_store :: "'b codec \<Rightarrow> pfile \<Rightarrow> 'b list \<Rightarrow> scheduler_error + scheduler_store" where
  "parse_store C f bytes =
     (case parse_at f (jc_parse_store C bytes) of
        Inl e \<Rightarrow> Inl e
      | Inr store \<Rightarrow>
          (if st_schema_version store \<noteq> STATE_SCHEMA_VERSION
           then Inl (SUnsupportedSchema (st_schema_version store))
           else (case validate_store f store of Inl e \<Rightarrow> Inl e | Inr _ \<Rightarrow> Inr store)))"

definition validate_checkpoint :: "pfile \<Rightarrow> checkpoint \<Rightarrow> log \<Rightarrow> scheduler_error + unit" where
  "validate_checkpoint f cp lg =
     (if cp_sequence cp < length (lg_checkpoints lg) \<and> lg_checkpoints lg ! cp_sequence cp = cp
      then Inr ()
      else Inl (SCorrupt f ''accounting log does not match the committed checkpoint''))"

subsection \<open>Reading the log\<close>

text \<open>\<open>slice::split\<close>: the parts between separators, one more than there are separators.\<close>

fun split_at :: "'b \<Rightarrow> 'b list \<Rightarrow> 'b list list" where
  "split_at sep [] = [[]]"
| "split_at sep (x # xs) =
     (if x = sep then [] # split_at sep xs
      else (case split_at sep xs of [] \<Rightarrow> [[x]] | l # ls \<Rightarrow> (x # l) # ls))"

definition is_hex_digit :: "char \<Rightarrow> bool" where
  "is_hex_digit c =
     (let n = code c in 48 \<le> n \<and> n \<le> 57 \<or> 97 \<le> n \<and> n \<le> 102 \<or> 65 \<le> n \<and> n \<le> 70)"

definition header_checkpoint :: "'b codec \<Rightarrow> log_header \<Rightarrow> 'b list \<Rightarrow> checkpoint" where
  "header_checkpoint C h line =
     \<lparr> cp_version = lh_version h, cp_installation = lh_installation h, cp_sequence = 0,
       cp_digest = jc_digest C line \<rparr>"

text \<open>One record line, checked against the checkpoint before it.\<close>

definition read_record ::
    "'b codec \<Rightarrow> pfile \<Rightarrow> checkpoint \<Rightarrow> 'b list \<Rightarrow> scheduler_error + (checkpoint \<times> scheduler_store)" where
  "read_record C f previous line =
     (case parse_at f (jc_parse_record C line) of
        Inl e \<Rightarrow> Inl e
      | Inr r \<Rightarrow>
          (if lr_sequence r \<noteq> cp_sequence previous + 1
              \<or> lr_previous_digest r \<noteq> cp_digest previous
              \<or> st_schema_version (lr_state r) \<noteq> STATE_SCHEMA_VERSION
              \<or> st_checkpoint (lr_state r) \<noteq> None
              \<or> lr_digest r \<noteq> computed_digest C r
           then Inl (SCorrupt f ''accounting sequence, digest chain, or record schema is invalid'')
           else
             (case validate_store f (lr_state r) of
                Inl e \<Rightarrow> Inl e
              | Inr _ \<Rightarrow>
                  Inr (previous \<lparr> cp_sequence := lr_sequence r, cp_digest := lr_digest r \<rparr>,
                       lr_state r))))"

fun read_records :: "'b codec \<Rightarrow> pfile \<Rightarrow> 'b list list \<Rightarrow> log \<Rightarrow> scheduler_error + log" where
  "read_records C f [] lg = Inr lg"
| "read_records C f (line # lines) lg =
     (case read_record C f (last (lg_checkpoints lg)) line of
        Inl e \<Rightarrow> Inl e
      | Inr (cp, state) \<Rightarrow>
          read_records C f lines
            \<lparr> lg_checkpoints = lg_checkpoints lg @ [cp], lg_states = lg_states lg @ [state] \<rparr>)"

definition read_log :: "'b codec \<Rightarrow> pfile \<Rightarrow> 'b list \<Rightarrow> scheduler_error + log" where
  "read_log C f bytes =
     (if bytes = [] \<or> last bytes \<noteq> jc_newline C
      then Inl (SCorrupt f ''accounting log has an incomplete final record'')
      else
        (case split_at (jc_newline C) (butlast bytes) of
           [] \<Rightarrow> Inl (SCorrupt f ''accounting log is empty'')
         | first # lines \<Rightarrow>
             (case parse_at f (jc_parse_header C first) of
                Inl e \<Rightarrow> Inl e
              | Inr h \<Rightarrow>
                  (if lh_version h \<noteq> STATE_SCHEMA_VERSION \<or> length (lh_installation h) \<noteq> 32
                      \<or> \<not> list_all is_hex_digit (lh_installation h)
                   then Inl (SCorrupt f
                     ''unsupported accounting header or invalid installation identity'')
                   else read_records C f lines
                     \<lparr> lg_checkpoints = [header_checkpoint C h first], lg_states = [] \<rparr>))))"

definition replay_accounting :: "provider_state \<Rightarrow> provider_state \<Rightarrow> provider_state" where
  "replay_accounting st recorded =
     st \<lparr> ps_day_utc := ps_day_utc recorded,
          ps_runs := ps_runs recorded,
          ps_last_started_at_utc := ps_last_started_at_utc recorded,
          ps_cooldown_until_utc := ps_cooldown_until_utc recorded,
          ps_backoff_step := ps_backoff_step recorded,
          ps_last_observed_utc := max (ps_last_observed_utc st) (ps_last_observed_utc recorded),
          ps_deferred := ps_deferred recorded,
          ps_interface_triggers := ps_interface_triggers recorded \<rparr>"

subsection \<open>Opening\<close>

record persistence =
  pe_checkpoint :: checkpoint
  pe_committed :: scheduler_store
  pe_snapshot_digest :: "string option"
  pe_ledger_len :: nat
  pe_poisoned :: bool

definition hex_digit :: "nat \<Rightarrow> char" where
  "hex_digit n = (if n < 10 then char_of (48 + n) else char_of (87 + n))"

definition hex :: "nat list \<Rightarrow> string" where
  "hex bytes = concat (map (\<lambda>b. [hex_digit (b div 16), hex_digit (b mod 16)]) bytes)"

definition last_or_default :: "log \<Rightarrow> scheduler_store" where
  "last_or_default lg = (if lg_states lg = [] then store_default else last (lg_states lg))"

text \<open>A recorded state in which no admission has left a trace.\<close>

definition untouched :: "scheduler_store \<Rightarrow> bool" where
  "untouched store \<longleftrightarrow>
     list_all (\<lambda>(pid, st). ps_runs st = [] \<and> ps_last_started_at_utc st = None \<and>
                 ps_cooldown_until_utc st = None \<and> ps_backoff_step st = 0) (st_providers store)"

definition resume_initialization ::
    "'b codec \<Rightarrow> 'b list option \<Rightarrow> 'b list option \<Rightarrow> ('b, scheduler_store) pio" where
  "resume_initialization C marker ledger =
     (case ledger of
        None \<Rightarrow> io_fail (SCorrupt FState ''initialized state and accounting log are missing'')
      | Some bytes \<Rightarrow>
          io_bind (io_lift (read_log C FLedger bytes)) (\<lambda>lg.
          case marker of
            None \<Rightarrow> io_fail (SCorrupt FState ''initialized state is missing'')
          | Some m \<Rightarrow>
              io_bind (io_lift (parse_at FMarker (jc_parse_checkpoint C m))) (\<lambda>cp.
              io_bind (io_lift (validate_checkpoint FMarker cp lg)) (\<lambda>_.
              io_bind (if length (lg_states lg) \<le> 1 \<and> list_all untouched (lg_states lg)
                       then io_bind (try_exists FBackup) (\<lambda>b. io_return (\<not> b))
                       else io_return False) (\<lambda>resume.
              if resume then io_return (last_or_default lg)
              else io_fail (SCorrupt FState
                ''initialized state is missing; preserve the recovery set and restore a verified snapshot''))))))"

definition open_log :: "'b codec \<Rightarrow> bool \<Rightarrow> 'b list option \<Rightarrow> ('b, log) pio" where
  "open_log C fresh ledger =
     (case ledger of
        Some bytes \<Rightarrow> io_lift (read_log C FLedger bytes)
      | None \<Rightarrow>
          (if \<not> fresh then io_fail (SCorrupt FLedger ''required accounting log is missing'')
           else
             (\<lambda>w. case w_random w of
                 None \<Rightarrow> (Inl (SCorrupt FState ''cannot create accounting identity''), w)
               | Some random \<Rightarrow>
                   (let bytes = jc_header C \<lparr> lh_version = STATE_SCHEMA_VERSION,
                                               lh_installation = hex random \<rparr> @ [jc_newline C]
                    in io_bind (atomic_write FLedger bytes)
                         (\<lambda>_. io_lift (read_log C FLedger bytes)) w))))"

definition check_baseline :: "scheduler_store \<Rightarrow> log \<Rightarrow> scheduler_error + unit" where
  "check_baseline store lg =
     (case st_checkpoint store of
        None \<Rightarrow> Inl (SCorrupt FState ''snapshot has no accounting checkpoint'')
      | Some cp \<Rightarrow>
          (case validate_checkpoint FState cp lg of
             Inl e \<Rightarrow> Inl e
           | Inr _ \<Rightarrow>
               (if cp_sequence cp = 0 \<or> length (lg_states lg) \<le> cp_sequence cp - 1
                   \<or> accounting (lg_states lg ! (cp_sequence cp - 1)) \<noteq> accounting store
                then Inl (SCorrupt FState ''snapshot accounting differs from its log record'')
                else Inr ())))"

definition replay_store :: "scheduler_store \<Rightarrow> scheduler_store \<Rightarrow> scheduler_store" where
  "replay_store committed store =
     fold (\<lambda>(pid, recorded) store.
         store \<lparr> st_providers :=
           (case bt_get (st_providers store) pid of
              Some st \<Rightarrow> bt_insert pid (replay_accounting st recorded) (st_providers store)
            | None \<Rightarrow> bt_insert pid recorded (st_providers store)) \<rparr>)
       (st_providers committed) store"

text \<open>The end of \<open>open\<close>, once the snapshot, the marker and the log are read.\<close>

definition open_finish ::
    "'b codec \<Rightarrow> bool \<Rightarrow> 'b list option \<Rightarrow> 'b list option \<Rightarrow> scheduler_store \<Rightarrow> log \<Rightarrow>
     ('b, persistence \<times> scheduler_store \<times> bool) pio" where
  "open_finish C fresh primary marker store lg =
     (let last_cp = last (lg_checkpoints lg);
          recovered = (\<not> fresh \<and> lg_states lg \<noteq> [] \<and> st_checkpoint store \<noteq> Some last_cp);
          committed = last_or_default lg;
          store = (if recovered then replay_store committed store else store);
          store = store \<lparr> st_checkpoint := Some last_cp \<rparr>
      in io_bind (if marker \<noteq> Some (jc_checkpoint C last_cp)
                  then atomic_write FMarker (jc_checkpoint C last_cp) else io_return ()) (\<lambda>_.
         io_bind (file_len FLedger) (\<lambda>len.
         io_return
           (\<lparr> pe_checkpoint = last_cp, pe_committed = committed,
              pe_snapshot_digest = map_option (jc_digest C) primary,
              pe_ledger_len = len, pe_poisoned = False \<rparr>,
            store, recovered))))"

definition persistence_open :: "'b codec \<Rightarrow> ('b, persistence \<times> scheduler_store \<times> bool) pio" where
  "persistence_open C w =
     (if w_state_extension w \<in> {Some ''lock'', Some ''bak'', Some ''initialized''}
      then (Inl (SCorrupt FState
        ''state path conflicts with a recovery file; use a name such as scheduler.json''), w)
      else
        io_bind acquire_lock (\<lambda>_.
        io_bind (read_optional FState) (\<lambda>primary.
        io_bind (read_optional FMarker) (\<lambda>marker.
        io_bind (read_optional FLedger) (\<lambda>ledger.
        io_bind (if primary = None \<and> marker = None
                 then io_bind (try_exists FBackup) (\<lambda>b. io_return (\<not> b)) else io_return False) (\<lambda>fresh.
        io_bind (if primary = None \<and> \<not> fresh
                 then io_bind (resume_initialization C marker ledger) (\<lambda>s. io_return (Some s))
                 else io_return None) (\<lambda>initializing.
        io_bind (case primary of
                   Some bytes \<Rightarrow> io_lift (parse_store C FState bytes)
                 | None \<Rightarrow>
                     (if fresh then io_return store_default
                      else (case initializing of
                              Some s \<Rightarrow> io_return s
                            | None \<Rightarrow> io_fail (SCorrupt FState
                ''initialized state is missing; preserve the recovery set and restore a verified snapshot'')))) (\<lambda>store.
        io_bind (if \<not> fresh \<and> (marker = None \<or> marker = Some [])
                 then io_fail (SCorrupt FMarker ''accounting checkpoint is missing or empty'')
                 else io_return ()) (\<lambda>_.
        io_bind (open_log C fresh ledger) (\<lambda>lg.
        io_bind (if fresh
                 then (if lg_states lg \<noteq> []
                       then io_fail (SCorrupt FLedger
                         ''orphan accounting records are not a new installation'')
                       else io_return ())
                 else if initializing = None then io_lift (check_baseline store lg)
                 else io_return ()) (\<lambda>_.
        io_bind (case marker of
                   Some m \<Rightarrow>
                     (if fresh then io_return ()
                      else io_bind (io_lift (parse_at FMarker (jc_parse_checkpoint C m)))
                             (\<lambda>cp. io_lift (validate_checkpoint FMarker cp lg)))
                 | None \<Rightarrow> io_return ()) (\<lambda>_.
        open_finish C fresh primary marker store lg))))))))))) w)"

definition needs_snapshot :: "'b codec \<Rightarrow> persistence \<Rightarrow> scheduler_store \<Rightarrow> bool" where
  "needs_snapshot C p store \<longleftrightarrow> pe_snapshot_digest p \<noteq> Some (jc_digest C (jc_store C store))"

subsection \<open>Committing\<close>

text \<open>What \<open>persist\<close> checks before it writes; the value is the previous snapshot.\<close>

definition persist_verify ::
    "'b codec \<Rightarrow> persistence \<Rightarrow> scheduler_store \<Rightarrow> ('b, 'b list option) pio" where
  "persist_verify C p store =
     io_bind (io_lift (validate_store FState store)) (\<lambda>_.
     io_bind (read_optional FState) (\<lambda>previous.
     io_bind (read_required FMarker) (\<lambda>m.
     io_bind (io_lift (parse_at FMarker (jc_parse_checkpoint C m))) (\<lambda>cp.
       if map_option (jc_digest C) previous \<noteq> pe_snapshot_digest p \<or> cp \<noteq> pe_checkpoint p
       then io_fail (SCorrupt FState ''recovery files changed while the scheduler was running'')
       else
         io_bind (file_len FLedger) (\<lambda>len.
           if len \<noteq> pe_ledger_len p
           then io_fail (SCorrupt FState ''recovery files changed while the scheduler was running'')
           else io_return previous)))))"

text \<open>The accounting commit: the log record first, then the checkpoint.\<close>

definition commit_record :: "'b codec \<Rightarrow> persistence \<Rightarrow> scheduler_store \<Rightarrow> log_record" where
  "commit_record C p store =
     record_new C (cp_sequence (pe_checkpoint p) + 1) (cp_digest (pe_checkpoint p))
       (store \<lparr> st_checkpoint := None \<rparr>)"

definition commit_checkpoint :: "persistence \<Rightarrow> log_record \<Rightarrow> checkpoint" where
  "commit_checkpoint p r =
     (pe_checkpoint p) \<lparr> cp_sequence := lr_sequence r, cp_digest := lr_digest r \<rparr>"

definition persist_commit ::
    "'b codec \<Rightarrow> persistence \<Rightarrow> scheduler_store \<Rightarrow> ('b, persistence) pio" where
  "persist_commit C p store =
     (if checked_add u64_max (cp_sequence (pe_checkpoint p)) 1 = None
      then io_fail (SCorrupt FState ''accounting sequence exhausted'')
      else
        let r = commit_record C p store;
            cp = commit_checkpoint p r;
            line = jc_record C r @ [jc_newline C]
        in io_bind (append_synced FLedger line) (\<lambda>_.
           io_bind (atomic_write FMarker (jc_checkpoint C cp)) (\<lambda>_.
           io_return (p \<lparr> pe_checkpoint := cp, pe_ledger_len := pe_ledger_len p + length line,
                          pe_committed := lr_state r \<rparr>))))"

definition persist ::
    "'b codec \<Rightarrow> persistence \<Rightarrow> scheduler_store \<Rightarrow> 'b world \<Rightarrow>
     (scheduler_error + unit) \<times> persistence \<times> scheduler_store \<times> 'b world" where
  "persist C p store w =
     (if pe_poisoned p
      then (Inl (SCorrupt FState
        ''previous persistence failure; reopen the scheduler before admitting traffic''), p, store, w)
      else
        let p = p \<lparr> pe_poisoned := True \<rparr>
        in (case persist_verify C p store w of
              (Inl e, w) \<Rightarrow> (Inl e, p, store, w)
            | (Inr previous, w) \<Rightarrow>
                (case (if accounting store \<noteq> accounting (pe_committed p)
                       then persist_commit C p store w else (Inr p, w)) of
                   (Inl e, w) \<Rightarrow> (Inl e, p, store, w)
                 | (Inr p, w) \<Rightarrow>
                     (let store = store \<lparr> st_checkpoint := Some (pe_checkpoint p) \<rparr>
                      in (case (case previous of Some b \<Rightarrow> atomic_write FBackup b w
                                               | None \<Rightarrow> (Inr (), w)) of
                            (Inl e, w) \<Rightarrow> (Inl e, p, store, w)
                          | (Inr _, w) \<Rightarrow>
                              (let bytes = jc_store C store
                               in (case atomic_write FState bytes w of
                                     (Inl e, w) \<Rightarrow> (Inl e, p, store, w)
                                   | (Inr _, w) \<Rightarrow>
                                       (Inr (),
                                        p \<lparr> pe_snapshot_digest := Some (jc_digest C bytes),
                                            pe_poisoned := False \<rparr>,
                                        store, w))))))))"

end
