(* ===== verification/Scheduler.thy ===== *)
theory Scheduler
  imports Persistence
begin

text \<open>
  \<open>scheduler.rs\<close>: the operations of \<open>Scheduler\<close>. Its state is the record \<open>sched\<close>: the
  persistence handle, the store, the policy, and the world it runs in (files, faults, fresh
  event identifiers). An operation takes the state and returns a result (\<open>Inl\<close> an error)
  and the state as it is then, also on an error: the source mutates the store before it
  persists it. \<open>X\<close> and \<open>C\<close> are the third-party parameters (timestamps, serialisation).
\<close>

subsection \<open>State access\<close>

record 'b sched =
  sc_persistence :: persistence
  sc_store :: scheduler_store
  sc_policy :: scheduler_policy
  sc_world :: "'b world"

type_synonym ('b, 'a) sop = "'b sched \<Rightarrow> (scheduler_error + 'a) \<times> 'b sched"

text \<open>\<open>state()\<close>: the active provider's entry, which \<open>open\<close> creates.\<close>

definition sstate :: "'b sched \<Rightarrow> provider_state" where
  "sstate s = the (bt_get (st_providers (sc_store s)) (po_provider_id (sc_policy s)))"

definition update_state :: "(provider_state \<Rightarrow> provider_state) \<Rightarrow> 'b sched \<Rightarrow> 'b sched" where
  "update_state f s =
     s \<lparr> sc_store := (sc_store s) \<lparr> st_providers :=
       bt_insert (po_provider_id (sc_policy s)) (f (sstate s)) (st_providers (sc_store s)) \<rparr> \<rparr>"

definition sched_persist :: "'b codec \<Rightarrow> ('b, unit) sop" where
  "sched_persist C s =
     (case persist C (sc_persistence s) (sc_store s) (sc_world s) of
        (r, p, store, w) \<Rightarrow>
          (r, s \<lparr> sc_persistence := p, sc_store := store, sc_world := w \<rparr>))"

definition sched_flush :: "'b codec \<Rightarrow> ('b, unit) sop" where
  "sched_flush C s = sched_persist C s"

definition interface_key :: "string option \<Rightarrow> string" where
  "interface_key i = (case i of None \<Rightarrow> DEFAULT_INTERFACE_KEY | Some k \<Rightarrow> k)"

definition interface_from_key :: "string \<Rightarrow> string option" where
  "interface_from_key key = (if key = [] then None else Some key)"

definition trigger_of :: "string option \<Rightarrow> provider_state \<Rightarrow> interface_trigger_state" where
  "trigger_of i st =
     (case bt_get (ps_interface_triggers st) (interface_key i) of
        Some t \<Rightarrow> t | None \<Rightarrow> trigger_default)"

definition update_trigger ::
    "string option \<Rightarrow> (interface_trigger_state \<Rightarrow> interface_trigger_state) \<Rightarrow> provider_state \<Rightarrow> provider_state" where
  "update_trigger i f st =
     st \<lparr> ps_interface_triggers :=
       bt_insert (interface_key i) (f (trigger_of i st)) (ps_interface_triggers st) \<rparr>"

definition clear_pending :: "string option \<Rightarrow> provider_state \<Rightarrow> provider_state" where
  "clear_pending i = update_trigger i (\<lambda>t. t \<lparr> it_pending := None \<rparr>)"

definition sched_snapshot :: "'b sched \<Rightarrow> scheduler_snapshot" where
  "sched_snapshot s =
     (let st = sstate s
      in \<lparr> sn_provider_id = po_provider_id (sc_policy s),
           sn_day_utc = ps_day_utc st,
           sn_slots = ps_slots st,
           sn_runs = filter (\<lambda>run. date_naive run = ps_day_utc st) (ps_runs st),
           sn_last_started_at_utc = ps_last_started_at_utc st,
           sn_cooldown_until_utc = ps_cooldown_until_utc st,
           sn_backoff_step = ps_backoff_step st,
           sn_deferred_attempts = map_option df_rate_limit_attempts (ps_deferred st),
           sn_pending_trigger =
             (case bt_get (ps_interface_triggers st) DEFAULT_INTERFACE_KEY of
                Some t \<Rightarrow> map_option pt_reason (it_pending t) | None \<Rightarrow> None),
           sn_trigger_latched =
             (case bt_get (ps_interface_triggers st) DEFAULT_INTERFACE_KEY of
                Some t \<Rightarrow> it_latched t | None \<Rightarrow> False) \<rparr>)"

subsection \<open>Events\<close>

record event_context =
  ec_error_kind :: "error_kind option"
  ec_cooldown_until :: "time option"
  ec_interface :: "string option"

definition context_none :: event_context where
  "context_none = \<lparr> ec_error_kind = None, ec_cooldown_until = None, ec_interface = None \<rparr>"

definition context_new :: "error_kind option \<Rightarrow> time option \<Rightarrow> event_context" where
  "context_new k c = \<lparr> ec_error_kind = k, ec_cooldown_until = c, ec_interface = None \<rparr>"

definition context_with_interface :: "string option \<Rightarrow> event_context \<Rightarrow> event_context" where
  "context_with_interface i c = c \<lparr> ec_interface := i \<rparr>"

definition context_for_interface :: "string option \<Rightarrow> event_context" where
  "context_for_interface i = context_with_interface i context_none"

definition fresh_id :: "'b sched \<Rightarrow> uuid \<times> 'b sched" where
  "fresh_id s =
     (w_next_id (sc_world s),
      s \<lparr> sc_world := (sc_world s) \<lparr> w_next_id := w_next_id (sc_world s) + 1 \<rparr> \<rparr>)"

definition sched_event ::
    "run_id \<Rightarrow> time \<Rightarrow> outcome \<Rightarrow> trigger_reason \<Rightarrow> event_context \<Rightarrow>
     scheduler_action \<times> scheduler_reason \<times> string \<Rightarrow> 'b sched \<Rightarrow> measurement_event \<times> 'b sched" where
  "sched_event run now out reason ctx decision s =
     (case decision of (action, sreason, message) \<Rightarrow>
      let (eid, s) = fresh_id s
      in ((event_new eid run SchedulerEvent out now)
            \<lparr> ev_trigger_reason := Some reason,
              ev_provider_id := Some (po_provider_id (sc_policy s)),
              ev_provider_kind := Some (po_provider_kind (sc_policy s)),
              ev_interface := ec_interface ctx,
              ev_scheduler_not_before_utc := ec_cooldown_until ctx,
              ev_provider_accounting_date := Some (date_naive now),
              ev_provider_daily_starts := Some (runs_on_day (sstate s) (date_naive now)),
              ev_scheduler_action := Some action,
              ev_scheduler_reason := Some sreason,
              ev_message := Some message,
              ev_error_kind :=
                (case ec_error_kind ctx of
                   Some k \<Rightarrow> if k = EkDailyCap \<or> k = EkProviderCooldown then None else Some k
                 | None \<Rightarrow> None) \<rparr>, s))"

text \<open>\<open>format!("{:.3}")\<close> of an \<open>f64\<close>: the exact value rounded half to even.\<close>

definition pad3 :: "nat \<Rightarrow> string" where
  "pad3 n = [digit_char (n div 100), digit_char (n div 10 mod 10), digit_char (n mod 10)]"

definition fixed3 :: "f64 \<Rightarrow> string" where
  "fixed3 x =
     (case x of
        Fin r \<Rightarrow>
          (let n = nat (rnd_half_even (\<bar>r\<bar> * 1000))
           in (if r < 0 then ''-'' else []) @ nat_text (n div 1000) @ ''.'' @ pad3 (n mod 1000))
      | NInf \<Rightarrow> ''-inf'' | PInf \<Rightarrow> ''inf'' | NaN \<Rightarrow> ''NaN'')"

definition stage_text :: "request_stage \<Rightarrow> string" where
  "stage_text stage =
     (case stage of
        StLocate \<Rightarrow> ''locate''
      | StDns \<Rightarrow> ''dns''
      | StConnect \<Rightarrow> ''connect''
      | StTls \<Rightarrow> ''tls''
      | StWebsocketHandshake \<Rightarrow> ''websocket_handshake''
      | StDownload \<Rightarrow> ''download''
      | StUpload \<Rightarrow> ''upload''
      | StCleanup \<Rightarrow> ''cleanup'')"

subsection \<open>The clock and the day\<close>

definition reconcile_day_state :: "ext \<Rightarrow> scheduler_policy \<Rightarrow> time \<Rightarrow> provider_state \<Rightarrow> provider_state" where
  "reconcile_day_state X po now st =
     (let day = date_naive now
      in if day \<le> ps_day_utc st then st
         else
           let st = st \<lparr> ps_day_utc := day,
                         ps_runs := filter (\<lambda>run. day \<le> date_naive run) (ps_runs st),
                         ps_deferred := None,
                         ps_interface_triggers := [],
                         ps_cooldown_until_utc :=
                           (case ps_cooldown_until_utc st of
                              Some d \<Rightarrow> if now < d then Some d else None | None \<Rightarrow> None) \<rparr>;
               (slots, st) = plan_full_day X po now st
           in st \<lparr> ps_slots := slots \<rparr>)"

definition reconcile_day :: "ext \<Rightarrow> time \<Rightarrow> 'b sched \<Rightarrow> 'b sched" where
  "reconcile_day X now s = update_state (reconcile_day_state X (sc_policy s) now) s"

definition replan_remaining_state :: "ext \<Rightarrow> scheduler_policy \<Rightarrow> time \<Rightarrow> provider_state \<Rightarrow> provider_state" where
  "replan_remaining_state X po now st =
     (let used = runs_on_day st (date_naive now);
          remaining = po_daily_max po - used;
          (slots, st) = plan_interval X po now (day_end (date_naive now)) remaining st
      in st \<lparr> ps_slots := slots \<rparr>)"

definition replan_remaining :: "ext \<Rightarrow> time \<Rightarrow> 'b sched \<Rightarrow> 'b sched" where
  "replan_remaining X now s = update_state (replan_remaining_state X (sc_policy s) now) s"

definition advance_clock ::
    "ext \<Rightarrow> 'b codec \<Rightarrow> run_id \<Rightarrow> time \<Rightarrow> ('b, measurement_event list) sop" where
  "advance_clock X C run now s =
     (let previous = ps_last_observed_utc (sstate s)
      in if now < previous
         then
           let (ev, s) =
             sched_event run now Suppressed TrScheduled (context_new (Some EkInternal) None)
               (ClockRollbackAction, ClockRollbackReason,
                ''previous='' @ x_rfc3339 X previous @ '' current='' @ x_rfc3339 X now) s
           in (Inr [ev], s)
         else
           let s = reconcile_day X now s;
               s = update_state (\<lambda>st. st \<lparr> ps_last_observed_utc := now \<rparr>) s
           in (case sched_persist C s of
                 (Inl e, s) \<Rightarrow> (Inl e, s)
               | (Inr _, s) \<Rightarrow> (Inr [], s)))"

subsection \<open>Backoff and admission\<close>

definition next_backoff_state :: "scheduler_policy \<Rightarrow> provider_state \<Rightarrow> duration \<times> provider_state" where
  "next_backoff_state po st =
     (let multiplier = 2 ^ min (ps_backoff_step st) 4;
          base =
            min (case duration_checked_mul (po_cooldown_initial po) multiplier of
                   Some d \<Rightarrow> d | None \<Rightarrow> po_cooldown_max po)
                (po_cooldown_max po);
          st = st \<lparr> ps_backoff_step := min (sat_add u8_max (ps_backoff_step st) 1) 4 \<rparr>
      in jitter_duration base st)"

record block_reason =
  bk_action :: scheduler_action
  bk_reason :: scheduler_reason
  bk_kind :: error_kind
  bk_cooldown_until :: "time option"
  bk_message :: string

text \<open>The last check of \<open>block_reason\<close>, the minimum spacing, then the whole.\<close>

definition spacing_block ::
    "ext \<Rightarrow> scheduler_policy \<Rightarrow> time \<Rightarrow> provider_state \<Rightarrow> block_reason option" where
  "spacing_block X po now st =
     (case ps_last_started_at_utc st of
        None \<Rightarrow> None
      | Some last_start \<Rightarrow>
          (let eligible = add_duration X last_start (po_min_spacing po)
           in if now < eligible
              then Some \<lparr> bk_action = DeferredAction, bk_reason = MinimumSpacing,
                          bk_kind = EkProviderCooldown, bk_cooldown_until = Some eligible,
                          bk_message = ''reason=minimum_spacing until='' @ x_rfc3339 X eligible \<rparr>
              else None))"

definition block_reason_state ::
    "ext \<Rightarrow> scheduler_policy \<Rightarrow> time \<Rightarrow> provider_state \<Rightarrow> block_reason option" where
  "block_reason_state X po now st =
     (let used = runs_on_day st (date_naive now);
          mlab_hard_cap_reached = (po_provider_kind po = PkMlab \<and> 4 \<le> used);
          configured_cap_reached = (po_daily_max po = 0 \<or> po_daily_max po \<le> used)
      in if mlab_hard_cap_reached \<or> (\<not> po_force_limits po \<and> configured_cap_reached)
         then
           let maximum = (if po_force_limits po \<and> po_provider_kind po = PkMlab then 4 else po_daily_max po)
           in Some \<lparr> bk_action = SuppressedAction, bk_reason = DailyCapReason, bk_kind = EkDailyCap,
                     bk_cooldown_until = None,
                     bk_message = ''reason=daily_cap used='' @ nat_text used @ '' maximum='' @ nat_text maximum \<rparr>
         else if po_force_limits po then None
         else
           case ps_cooldown_until_utc st of
             Some deadline \<Rightarrow>
               (if now < deadline
                then Some \<lparr> bk_action = DeferredAction, bk_reason = ProviderCooldownReason,
                            bk_kind = EkProviderCooldown, bk_cooldown_until = Some deadline,
                            bk_message = ''reason=provider_cooldown until='' @ x_rfc3339 X deadline \<rparr>
                else spacing_block X po now st)
           | None \<Rightarrow> spacing_block X po now st)"

definition block_reason :: "ext \<Rightarrow> time \<Rightarrow> 'b sched \<Rightarrow> block_reason option" where
  "block_reason X now s = block_reason_state X (sc_policy s) now (sstate s)"

definition preflight_manual ::
    "ext \<Rightarrow> 'b codec \<Rightarrow> run_id \<Rightarrow> time \<Rightarrow> ('b, manual_decision) sop" where
  "preflight_manual X C run now s =
     (case advance_clock X C run now s of
        (Inl e, s) \<Rightarrow> (Inl e, s)
      | (Inr clock_events, s) \<Rightarrow>
          (if clock_events \<noteq> [] \<and> now < ps_last_observed_utc (sstate s)
           then (Inr (ManualBlocked (last clock_events)), s)
           else
             (case block_reason X now s of
                Some blocked \<Rightarrow>
                  (let (ev, s) = sched_event run now Suppressed TrManual
                                   (context_new (Some (bk_kind blocked)) (bk_cooldown_until blocked))
                                   (bk_action blocked, bk_reason blocked, bk_message blocked) s
                   in (Inr (ManualBlocked ev), s))
              | None \<Rightarrow> (Inr ManualAllowed, s))))"

text \<open>The change of state of an admitted run.\<close>

definition record_start :: "time \<Rightarrow> provider_state \<Rightarrow> provider_state" where
  "record_start now st =
     st \<lparr> ps_runs := sort (ps_runs st @ [now]),
          ps_last_started_at_utc := opt_max (ps_last_started_at_utc st) (Some now),
          ps_last_observed_utc := max (ps_last_observed_utc st) now \<rparr>"

definition reserve_run :: "ext \<Rightarrow> 'b codec \<Rightarrow> time \<Rightarrow> ('b, reservation) sop" where
  "reserve_run X C now s =
     (let s = reconcile_day X now s
      in case block_reason X now s of
           Some blocked \<Rightarrow>
             (Inl (SAdmission (''reservation rejected after preflight: '' @ bk_message blocked)), s)
         | None \<Rightarrow>
             (let s = update_state (record_start now) s;
                  starts = runs_on_day (sstate s) (date_naive now)
              in case sched_persist C s of
                   (Inl e, s) \<Rightarrow> (Inl e, s)
                 | (Inr _, s) \<Rightarrow>
                     (Inr \<lparr> rv_accounting_date = date_naive now, rv_daily_bandwidth_starts = starts \<rparr>, s)))"

subsection \<open>Health observations\<close>

definition trigger_reason_of :: "degradation_reason \<Rightarrow> trigger_reason" where
  "trigger_reason_of r = (case r of DrRtt \<Rightarrow> TrPingRtt | DrLoss \<Rightarrow> TrPingLoss | DrLossAndRtt \<Rightarrow> TrPingLoss)"

text \<open>A degradation on an interface whose trigger is not latched yet.\<close>

definition latch_degraded ::
    "string option \<Rightarrow> time \<Rightarrow> time \<Rightarrow> trigger_reason \<Rightarrow> provider_state \<Rightarrow> provider_state" where
  "latch_degraded i now expires_at reason st =
     (let has_deferred = (ps_deferred st \<noteq> None);
          st = st \<lparr> ps_deferred :=
                 map_option (\<lambda>d. d \<lparr> df_reason := reason, df_interface := i \<rparr>) (ps_deferred st) \<rparr>
      in update_trigger i
           (\<lambda>t. t \<lparr> it_latched := True,
                    it_pending :=
                      (if has_deferred then None
                       else Some \<lparr> pt_reason = reason, pt_created_at_utc = now,
                                   pt_expires_at_utc = expires_at \<rparr>) \<rparr>) st)"

definition observe_interface_health ::
    "ext \<Rightarrow> 'b codec \<Rightarrow> run_id \<Rightarrow> time \<Rightarrow> string option \<Rightarrow> health_decision \<Rightarrow>
     ('b, measurement_event list) sop" where
  "observe_interface_health X C run now i decision s =
     (case advance_clock X C run now s of
        (Inl e, s) \<Rightarrow> (Inl e, s)
      | (Inr events, s) \<Rightarrow>
          (case decision of
             HdDegraded sn reason \<Rightarrow>
               (if it_latched (trigger_of i (sstate s)) then (Inr events, s)
                else
                  let trigger_reason = trigger_reason_of reason;
                      expires_at = add_duration X now (po_pending_ttl (sc_policy s));
                      has_deferred = (ps_deferred (sstate s) \<noteq> None);
                      s = update_state (latch_degraded i now expires_at trigger_reason) s
                  in (case sched_persist C s of
                        (Inl e, s) \<Rightarrow> (Inl e, s)
                      | (Inr _, s) \<Rightarrow>
                          (let action = (if has_deferred then TriggerMergedWithDeferred else TriggerPending);
                               message =
                                 ''loss_pct='' @ fixed3 (hn_loss_pct sn) @ '' p95_rtt_ms='' @
                                 (case hn_p95_rtt_ms sn of None \<Rightarrow> ''none'' | Some v \<Rightarrow> fixed3 v) @
                                 '' expires_at='' @ x_rfc3339 X expires_at;
                               (ev, s) = sched_event run now Deferred trigger_reason
                                           (context_for_interface i) (action, HealthDegraded, message) s
                           in (Inr (events @ [ev]), s))))
           | HdRecovered sn \<Rightarrow>
               (let trigger = trigger_of i (sstate s);
                    r = (if it_pending trigger \<noteq> None \<or> it_latched trigger
                         then sched_persist C (update_state (update_trigger i
                                (\<lambda>t. t \<lparr> it_pending := None, it_latched := False \<rparr>)) s)
                         else (Inr (), s))
                in (case r of
                      (Inl e, s) \<Rightarrow> (Inl e, s)
                    | (Inr _, s) \<Rightarrow>
                        (case it_pending trigger of
                           None \<Rightarrow> (Inr events, s)
                         | Some pending \<Rightarrow>
                             (let (ev, s) = sched_event run now Expired (pt_reason pending)
                                    (context_for_interface i)
                                    (TriggerCancelled, HealthRecovered, ''reason=health_recovered'') s
                              in (Inr (events @ [ev]), s)))))
           | HdHealthy sn \<Rightarrow> (Inr events, s)))"

definition observe_health ::
    "ext \<Rightarrow> 'b codec \<Rightarrow> run_id \<Rightarrow> time \<Rightarrow> health_decision \<Rightarrow> ('b, measurement_event list) sop" where
  "observe_health X C run now decision = observe_interface_health X C run now None decision"

subsection \<open>Polling\<close>

definition expired_triggers :: "time \<Rightarrow> provider_state \<Rightarrow> (string \<times> pending_trigger) list" where
  "expired_triggers now st =
     List.map_filter
       (\<lambda>(key, t). case it_pending t of
          Some p \<Rightarrow> if pt_expires_at_utc p \<le> now then Some (key, p) else None
        | None \<Rightarrow> None)
       (ps_interface_triggers st)"

text \<open>\<open>get_mut(key)\<close>: an absent key is left absent.\<close>

definition expire_key :: "string \<Rightarrow> provider_state \<Rightarrow> provider_state" where
  "expire_key key st =
     (case bt_get (ps_interface_triggers st) key of
        None \<Rightarrow> st
      | Some t \<Rightarrow>
          st \<lparr> ps_interface_triggers :=
            bt_insert key (t \<lparr> it_pending := None \<rparr>) (ps_interface_triggers st) \<rparr>)"

fun expiry_events ::
    "run_id \<Rightarrow> time \<Rightarrow> (string \<times> pending_trigger) list \<Rightarrow> 'b sched \<Rightarrow> measurement_event list \<times> 'b sched" where
  "expiry_events run now [] s = ([], s)"
| "expiry_events run now ((key, trigger) # rest) s =
     (let (ev, s) = sched_event run now Expired (pt_reason trigger)
                      (context_for_interface (interface_from_key key))
                      (TriggerExpired, TriggerTtlExpired,
                       ''reason=ttl latch=retained rearm=health_recovery'') s;
          (evs, s) = expiry_events run now rest s
      in (ev # evs, s))"

definition poll_expire ::
    "'b codec \<Rightarrow> run_id \<Rightarrow> time \<Rightarrow> ('b, measurement_event list) sop" where
  "poll_expire C run now s =
     (let expired = expired_triggers now (sstate s)
      in if expired = [] then (Inr [], s)
         else
           (case sched_persist C (update_state (fold (\<lambda>(key, _). expire_key key) expired) s) of
              (Inl e, s) \<Rightarrow> (Inl e, s)
            | (Inr _, s) \<Rightarrow>
                (let (events, s) = expiry_events run now expired s in (Inr events, s))))"

text \<open>
  The deferred opportunity: \<open>Inl\<close> of the value is an early return with an opportunity,
  \<open>Inr\<close> the events to continue with.
\<close>

definition poll_deferred ::
    "'b codec \<Rightarrow> run_id \<Rightarrow> time \<Rightarrow> ('b, bandwidth_opportunity + measurement_event list) sop" where
  "poll_deferred C run now s =
     (case ps_deferred (sstate s) of
        None \<Rightarrow> (Inr (Inr []), s)
      | Some d \<Rightarrow>
          (if df_expires_at_utc d \<le> now \<or> MAX_RATE_LIMIT_ATTEMPTS \<le> df_rate_limit_attempts d
           then
             (case sched_persist C (update_state (\<lambda>st. st \<lparr> ps_deferred := None \<rparr>) s) of
                (Inl e, s) \<Rightarrow> (Inl e, s)
              | (Inr _, s) \<Rightarrow>
                  (let (ev, s) = sched_event run now Expired (df_reason d)
                         (context_new None (ps_cooldown_until_utc (sstate s)))
                         (DeferredExpired,
                          if df_expires_at_utc d \<le> now then DayLimit else AttemptLimit,
                          ''reason=day_or_attempt_limit'') s
                   in (Inr (Inr [ev]), s)))
           else if (case ps_cooldown_until_utc (sstate s) of None \<Rightarrow> True | Some deadline \<Rightarrow> deadline \<le> now)
           then (Inr (Inl \<lparr> op_reason = df_reason d, op_scheduled_at_utc = df_scheduled_at_utc d,
                           op_requested_at_utc = df_created_at_utc d, op_interface = df_interface d \<rparr>), s)
           else (Inr (Inr []), s)))"

definition oldest_eligible_pending_trigger ::
    "(string, bool) btree \<Rightarrow> bool \<Rightarrow> provider_state \<Rightarrow> (string \<times> pending_trigger) option" where
  "oldest_eligible_pending_trigger latest_success allow_without_success st =
     min_by_key (\<lambda>(key, p). pt_created_at_utc p)
       (List.map_filter
          (\<lambda>(key, t).
             if \<not> allow_without_success
                \<and> \<not> (case bt_get latest_success key of Some b \<Rightarrow> b | None \<Rightarrow> False)
             then None
             else map_option (\<lambda>p. (key, p)) (it_pending t))
          (ps_interface_triggers st))"

definition remove_due_slots :: "time \<Rightarrow> provider_state \<Rightarrow> provider_state" where
  "remove_due_slots now st = st \<lparr> ps_slots := filter (\<lambda>c. now < c) (ps_slots st) \<rparr>"

definition remove_slot :: "time \<Rightarrow> provider_state \<Rightarrow> provider_state" where
  "remove_slot slot st = st \<lparr> ps_slots := filter (\<lambda>c. c \<noteq> slot) (ps_slots st) \<rparr>"

text \<open>The slots used up by a granted opportunity.\<close>

definition consume_slots :: "time \<Rightarrow> time option \<Rightarrow> trigger_reason \<Rightarrow> provider_state \<Rightarrow> provider_state" where
  "consume_slots now due_slot reason st =
     (let st = (if due_slot \<noteq> None then remove_due_slots now st else st)
      in if reason \<noteq> TrScheduled \<and> ps_slots st \<noteq> [] then remove_slot (hd (ps_slots st)) st else st)"

text \<open>The slot or trigger that asks for a run, and what becomes of it.\<close>

definition poll_decide ::
    "ext \<Rightarrow> 'b codec \<Rightarrow> run_id \<Rightarrow> time \<Rightarrow> (string, bool) btree \<Rightarrow> measurement_event list \<Rightarrow>
     ('b, scheduler_poll) sop" where
  "poll_decide X C run now latest_success events s =
     (let due_slots = filter (\<lambda>slot. slot \<le> now) (ps_slots (sstate s));
          due_slot = (if due_slots = [] then None else Some (hd due_slots));
          pending = oldest_eligible_pending_trigger latest_success (due_slot \<noteq> None) (sstate s);
          pending_interface = (case pending of Some (key, _) \<Rightarrow> interface_from_key key | None \<Rightarrow> None)
      in if pending = None \<and> due_slot = None
         then (Inr \<lparr> sp_opportunity = None, sp_events = events \<rparr>, s)
         else
           let reason = (case pending of Some (_, p) \<Rightarrow> pt_reason p | None \<Rightarrow> TrScheduled)
           in (case block_reason X now s of
                 Some blocked \<Rightarrow>
                   (let terminal = (bk_kind blocked = EkDailyCap
                          \<or> day_end (date_naive now) \<le> add_duration X now (po_min_spacing (sc_policy s)));
                        s = (if due_slot \<noteq> None then update_state (remove_due_slots now) s else s);
                        s = (if terminal \<and> pending \<noteq> None
                             then update_state (clear_pending pending_interface) s else s)
                    in (case sched_persist C s of
                          (Inl e, s) \<Rightarrow> (Inl e, s)
                        | (Inr _, s) \<Rightarrow>
                            (let (ev, s) = sched_event run now (if terminal then Suppressed else Deferred)
                                   reason
                                   (context_with_interface pending_interface
                                     (context_new (Some (bk_kind blocked)) (bk_cooldown_until blocked)))
                                   (bk_action blocked, bk_reason blocked, bk_message blocked) s
                             in (Inr \<lparr> sp_opportunity = None, sp_events = events @ [ev] \<rparr>, s))))
               | None \<Rightarrow>
                   (case sched_persist C (update_state (consume_slots now due_slot reason) s) of
                      (Inl e, s) \<Rightarrow> (Inl e, s)
                    | (Inr _, s) \<Rightarrow>
                        (let (ev, s) = sched_event run now Scheduled reason context_none
                               (BandwidthStart, OpportunityReady, ''bandwidth start'') s
                         in (Inr \<lparr> sp_opportunity =
                                    Some \<lparr> op_reason = reason,
                                           op_scheduled_at_utc = (if pending = None then due_slot else None),
                                           op_requested_at_utc =
                                             (case pending of Some (_, p) \<Rightarrow> pt_created_at_utc p | None \<Rightarrow> now),
                                           op_interface = pending_interface \<rparr>,
                                  sp_events = events @ [ev] \<rparr>, s)))))"

definition poll_interfaces ::
    "ext \<Rightarrow> 'b codec \<Rightarrow> run_id \<Rightarrow> time \<Rightarrow> (string, bool) btree \<Rightarrow> ('b, scheduler_poll) sop" where
  "poll_interfaces X C run now latest_success s =
     (case advance_clock X C run now s of
        (Inl e, s) \<Rightarrow> (Inl e, s)
      | (Inr events, s) \<Rightarrow>
          (if now < ps_last_observed_utc (sstate s)
           then (Inr \<lparr> sp_opportunity = None, sp_events = events \<rparr>, s)
           else
             (case poll_expire C run now s of
                (Inl e, s) \<Rightarrow> (Inl e, s)
              | (Inr expiry, s) \<Rightarrow>
                  (case poll_deferred C run now s of
                     (Inl e, s) \<Rightarrow> (Inl e, s)
                   | (Inr (Inl opportunity), s) \<Rightarrow>
                       (Inr \<lparr> sp_opportunity = Some opportunity, sp_events = events @ expiry \<rparr>, s)
                   | (Inr (Inr deferral), s) \<Rightarrow>
                       poll_decide X C run now latest_success (events @ expiry @ deferral) s))))"

definition poll :: "ext \<Rightarrow> 'b codec \<Rightarrow> run_id \<Rightarrow> time \<Rightarrow> bool \<Rightarrow> ('b, scheduler_poll) sop" where
  "poll X C run now latest_round_has_success =
     poll_interfaces X C run now [(DEFAULT_INTERFACE_KEY, latest_round_has_success)]"

subsection \<open>The outcome of a test\<close>

record rate_limit =
  rl_deadline :: "time option"
  rl_stage :: request_stage
  rl_status :: "nat option"
  rl_retry_after :: "duration option"

definition rate_limited_event :: "provider_kind \<Rightarrow> measurement_event \<Rightarrow> rate_limit option" where
  "rate_limited_event kind ev =
     (if ev_event_kind ev \<noteq> RequestFailureEvent then None
      else
        (case ev_request_stage ev of
           None \<Rightarrow> None
         | Some stage \<Rightarrow>
             (let status = ev_request_http_status ev;
                  limited = (ev_outcome ev = RateLimited
                    \<or> status = Some 429
                    \<or> (stage = StLocate \<and> kind = PkMlab \<and> (status = Some 204 \<or> status = Some 503))
                    \<or> (stage = StWebsocketHandshake \<and> kind = PkDirect \<and> status = Some 503))
              in if limited
                 then Some \<lparr> rl_deadline = ev_request_retry_at_utc ev, rl_stage = stage,
                             rl_status = status,
                             rl_retry_after = map_option millis (ev_request_retry_after_ms ev) \<rparr>
                 else None)))"

fun find_map :: "('a \<Rightarrow> 'b option) \<Rightarrow> 'a list \<Rightarrow> 'b option" where
  "find_map f [] = None"
| "find_map f (x # xs) = (case f x of Some y \<Rightarrow> Some y | None \<Rightarrow> find_map f xs)"

definition rate_limit_from_report :: "bandwidth_report \<Rightarrow> provider_kind \<Rightarrow> rate_limit option" where
  "rate_limit_from_report report kind = find_map (rate_limited_event kind) (br_events report)"

definition successful_request :: "bandwidth_report \<Rightarrow> bool" where
  "successful_request report \<longleftrightarrow>
     list_ex (\<lambda>ev. ev_event_kind ev = BandwidthEvent \<and>
        (ev_download_remote_ip ev \<noteq> None \<or> ev_upload_remote_ip ev \<noteq> None
         \<or> ev_outcome ev = Success \<or> ev_outcome ev = PartialOutcome)) (br_events report)"

text \<open>The state after a rate limit: cooldown, backoff, deferral.\<close>

definition apply_rate_limit ::
    "time \<Rightarrow> time \<Rightarrow> rate_limit \<Rightarrow> bool \<Rightarrow> bandwidth_opportunity \<Rightarrow> provider_state \<Rightarrow> provider_state" where
  "apply_rate_limit deadline day_deadline rl reserved op st =
     (let st = st \<lparr> ps_cooldown_until_utc := Some deadline \<rparr>;
          st = (if rl_deadline rl \<noteq> None
                then st \<lparr> ps_backoff_step := min (sat_add u8_max (ps_backoff_step st) 1) 4 \<rparr> else st)
      in if reserved then st \<lparr> ps_deferred := None \<rparr>
         else
           let attempts = (case ps_deferred st of
                             None \<Rightarrow> 1 | Some d \<Rightarrow> sat_add u8_max (df_rate_limit_attempts d) 1)
           in st \<lparr> ps_deferred :=
             (if attempts < MAX_RATE_LIMIT_ATTEMPTS \<and> deadline < day_deadline
              then Some \<lparr> df_scheduled_at_utc = op_scheduled_at_utc op, df_reason = op_reason op,
                          df_interface = op_interface op, df_created_at_utc = op_requested_at_utc op,
                          df_expires_at_utc = day_deadline, df_rate_limit_attempts = attempts \<rparr>
              else None) \<rparr>)"

text \<open>The cooldown's end: the server's deadline or the backoff, never before the current one.\<close>

definition rate_limit_deadline ::
    "ext \<Rightarrow> scheduler_policy \<Rightarrow> time \<Rightarrow> rate_limit \<Rightarrow> provider_state \<Rightarrow> time \<times> provider_state" where
  "rate_limit_deadline X po now rl st =
     (let (deadline, st) =
        (case rl_deadline rl of
           Some d \<Rightarrow> (d, st)
         | None \<Rightarrow> (let (d, st) = next_backoff_state po st in (add_duration X now d, st)))
      in (case ps_cooldown_until_utc st of None \<Rightarrow> deadline | Some e \<Rightarrow> max e deadline, st))"

definition rate_limited_state ::
    "ext \<Rightarrow> scheduler_policy \<Rightarrow> time \<Rightarrow> rate_limit \<Rightarrow> bool \<Rightarrow> bandwidth_opportunity \<Rightarrow>
     provider_state \<Rightarrow> time \<times> provider_state" where
  "rate_limited_state X po now rl reserved op st =
     (let (deadline, st) = rate_limit_deadline X po now rl st;
          st = apply_rate_limit deadline (day_end (date_naive now)) rl reserved op st;
          st = clear_pending (op_interface op) st
      in (deadline, replan_remaining_state X po now st))"

definition rate_limit_message :: "rate_limit \<Rightarrow> bool \<Rightarrow> provider_state \<Rightarrow> string" where
  "rate_limit_message rl reserved st =
     ''stage='' @ stage_text (rl_stage rl) @
     '' status='' @ (case rl_status rl of None \<Rightarrow> ''none'' | Some v \<Rightarrow> nat_text v) @
     '' retry_after='' @
       (case rl_retry_after rl of
          None \<Rightarrow> (if rl_deadline rl \<noteq> None then ''unrepresentable'' else ''fallback'')
        | Some d \<Rightarrow> nat_text (d div ns_per_ms) @ ''ms'') @
     '' reserved='' @ bool_text reserved @
     '' deferred_attempts='' @
       nat_text (case ps_deferred st of None \<Rightarrow> 0 | Some d \<Rightarrow> df_rate_limit_attempts d)"

text \<open>The state after a test without a rate limit.\<close>

definition completed_state ::
    "ext \<Rightarrow> scheduler_policy \<Rightarrow> time \<Rightarrow> bandwidth_opportunity \<Rightarrow> bandwidth_report \<Rightarrow>
     provider_state \<Rightarrow> provider_state" where
  "completed_state X po now op report st =
     (let st = st \<lparr> ps_deferred := None \<rparr>;
          st = (if successful_request report
                then st \<lparr> ps_cooldown_until_utc := None, ps_backoff_step := 0 \<rparr> else st);
          st = clear_pending (op_interface op) st
      in if op_reason op \<noteq> TrScheduled then replan_remaining_state X po now st
         else if br_reserved report
         then st \<lparr> ps_slots :=
                filter (\<lambda>slot. add_duration X now (po_min_spacing po) \<le> slot) (ps_slots st) \<rparr>
         else st)"

definition finish_attempt ::
    "ext \<Rightarrow> 'b codec \<Rightarrow> run_id \<Rightarrow> time \<Rightarrow> bandwidth_opportunity \<Rightarrow> bandwidth_report \<Rightarrow>
     ('b, measurement_event list \<times> bandwidth_report) sop" where
  "finish_attempt X C run now op report s =
     (let reserved = br_reserved report
      in case rate_limit_from_report report (po_provider_kind (sc_policy s)) of
           Some rl \<Rightarrow>
             (let deadline = fst (rate_limited_state X (sc_policy s) now rl reserved op (sstate s));
                  s = update_state (\<lambda>st. snd (rate_limited_state X (sc_policy s) now rl reserved op st)) s
              in case sched_persist C s of
                   (Inl e, s) \<Rightarrow> (Inl e, s)
                 | (Inr _, s) \<Rightarrow>
                     (let (ev, s) = sched_event run now (if reserved then Suppressed else Deferred)
                            (op_reason op)
                            (context_with_interface (op_interface op)
                              (context_new (Some EkProviderCooldown) (Some deadline)))
                            (RateLimitAction, ProviderRateLimit, rate_limit_message rl reserved (sstate s)) s
                      in (Inr ([ev], opportunity_apply_timing op report), s)))
         | None \<Rightarrow>
             (case sched_persist C
                     (update_state (completed_state X (sc_policy s) now op report) s) of
                (Inl e, s) \<Rightarrow> (Inl e, s)
              | (Inr _, s) \<Rightarrow> (Inr ([], opportunity_apply_timing op report), s)))"

subsection \<open>Opening\<close>

definition initial_provider :: "ext \<Rightarrow> scheduler_policy \<Rightarrow> time \<Rightarrow> u64 \<Rightarrow> provider_state" where
  "initial_provider X po now seed =
     (let st =
        \<lparr> ps_day_utc = date_naive now, ps_slots = [], ps_runs = [], ps_last_started_at_utc = None,
          ps_cooldown_until_utc = None, ps_backoff_step = 0, ps_deferred = None,
          ps_interface_triggers = [], ps_policy_daily_max = po_daily_max po,
          ps_policy_min_spacing_ms = duration_millis (po_min_spacing po),
          ps_policy_slot_jitter_pct = po_slot_jitter_pct po, ps_rng_state = max seed 1,
          ps_last_observed_utc = now \<rparr>;
        (slots, st) = plan_full_day X po now st
      in st \<lparr> ps_slots := slots \<rparr>)"

text \<open>The policy recorded with the state, renewed when the configuration has changed.\<close>

definition reconcile_policy :: "ext \<Rightarrow> scheduler_policy \<Rightarrow> time \<Rightarrow> provider_state \<Rightarrow> provider_state" where
  "reconcile_policy X po now st =
     (if ps_policy_daily_max st \<noteq> po_daily_max po
         \<or> ps_policy_min_spacing_ms st \<noteq> duration_millis (po_min_spacing po)
         \<or> ps_policy_slot_jitter_pct st \<noteq> po_slot_jitter_pct po
      then
        let st = st \<lparr> ps_policy_daily_max := po_daily_max po,
                      ps_policy_min_spacing_ms := duration_millis (po_min_spacing po),
                      ps_policy_slot_jitter_pct := po_slot_jitter_pct po \<rparr>
        in if po_daily_max po = 0
           then st \<lparr> ps_slots := [], ps_interface_triggers := [], ps_deferred := None \<rparr>
           else replan_remaining_state X po now st
      else st)"

definition reconcile_state :: "ext \<Rightarrow> scheduler_policy \<Rightarrow> time \<Rightarrow> provider_state \<Rightarrow> provider_state" where
  "reconcile_state X po now st =
     (let st = reconcile_policy X po now (reconcile_day_state X po now st);
          st = remove_due_slots now st
      in if ps_last_observed_utc st \<le> now then st \<lparr> ps_last_observed_utc := now \<rparr> else st)"

text \<open>
  The change test compares the serialised states; values that differ serialise differently,
  so it is a comparison of the states.
\<close>

definition reconcile :: "ext \<Rightarrow> time \<Rightarrow> u64 \<Rightarrow> 'b sched \<Rightarrow> bool \<times> 'b sched" where
  "reconcile X now seed s =
     (if bt_get (st_providers (sc_store s)) (po_provider_id (sc_policy s)) = None
      then (True, update_state (\<lambda>_. initial_provider X (sc_policy s) now seed) s)
      else
        let before_state = sstate s;
            s = update_state (reconcile_state X (sc_policy s) now) s
        in (before_state \<noteq> sstate s, s))"

definition open_seeded ::
    "ext \<Rightarrow> 'b codec \<Rightarrow> scheduler_policy \<Rightarrow> time \<Rightarrow> u64 \<Rightarrow> 'b world \<Rightarrow>
     (scheduler_error \<times> 'b world) + 'b sched" where
  "open_seeded X C po now seed w =
     (case persistence_open C w of
        (Inl e, w) \<Rightarrow> Inl (e, w)
      | (Inr (p, store, recovered), w) \<Rightarrow>
          (let s = \<lparr> sc_persistence = p, sc_store = store, sc_policy = po, sc_world = w \<rparr>;
               (changed, s) = reconcile X now seed s;
               s = (if recovered then replan_remaining X now s else s)
           in if changed \<or> recovered \<or> needs_snapshot C (sc_persistence s) (sc_store s)
              then (case sched_persist C s of
                      (Inl e, s) \<Rightarrow> Inl (e, sc_world s)
                    | (Inr _, s) \<Rightarrow> Inr s)
              else Inr s))"

text \<open>
  The scheduler as a reservation gate; an error becomes its text. How a path and an I/O
  error are displayed is a parameter.
\<close>

record display =
  dp_path :: "pfile \<Rightarrow> string"
  dp_io :: "io_kind \<Rightarrow> string"

definition error_text :: "display \<Rightarrow> scheduler_error \<Rightarrow> string" where
  "error_text D e =
     (case e of
        SIo f k \<Rightarrow> ''scheduler state I/O failed for '' @ dp_path D f @ '': '' @ dp_io D k
      | SCorrupt f m \<Rightarrow> ''scheduler state is corrupt at '' @ dp_path D f @ '': '' @ m
      | SUnsupportedSchema n \<Rightarrow> ''scheduler state schema '' @ nat_text n @ '' is unsupported''
      | SAdmission m \<Rightarrow> ''bandwidth admission rejected: '' @ m
      | SLocked f \<Rightarrow> ''scheduler state is already locked by another Netband process: '' @ dp_path D f)"

definition sched_reserve ::
    "ext \<Rightarrow> 'b codec \<Rightarrow> display \<Rightarrow> time \<Rightarrow> 'b sched \<Rightarrow> (string + admission_reservation) \<times> 'b sched" where
  "sched_reserve X C D started_at s =
     (case reserve_run X C started_at s of
        (Inl e, s) \<Rightarrow> (Inl (error_text D e), s)
      | (Inr r, s) \<Rightarrow> (Inr (Reserved (rv_accounting_date r) (rv_daily_bandwidth_starts r)), s))"

end
