(* ===== verification/PersistenceProps.thy ===== *)
theory PersistenceProps
  imports Persistence
begin

text \<open>
  What the persistence layer guarantees: the effect of every write under every fault
  schedule, the shape of a readable log, and that reopening after any commit, completed or
  cut short, never loses accounting that was acknowledged.
\<close>

subsection \<open>Effects of the primitives\<close>

lemma io_fault_files [simp]: "w_files (snd (io_fault w)) = w_files w"
  by (simp add: io_fault_def split: list.splits)

lemma io_fault_eq: "io_fault w = (f, v) \<Longrightarrow> w_files v = w_files w"
  using io_fault_files [of w] by simp

lemma io_step_cases:
  assumes "io_step f w = (r, w')"
  shows "w_files w' = w_files w" "r = Inr () \<or> (\<exists>k. r = Inl (SIo f k))"
  using assms
  by (auto simp: io_step_def dest!: io_fault_eq split: prod.splits option.splits)

lemma read_optional_cases:
  assumes "read_optional f w = (r, w')"
  shows "w_files w' = w_files w"
  using assms
  by (auto simp: read_optional_def dest!: io_fault_eq split: prod.splits option.splits if_splits)

lemma io_write_cases:
  assumes "io_write f base bytes w = (r, w')"
  shows "\<exists>n. w_files w' = (w_files w)(f := Some (base @ take n bytes)) \<and>
    (r = Inr () \<longrightarrow> length bytes \<le> n)"
proof -
  obtain flt v where f: "io_fault w = (flt, v)" by force
  then have v: "w_files v = w_files w" using io_fault_files [of w] by simp
  show ?thesis
  proof (cases flt)
    case None
    then show ?thesis
      using assms f v by (intro exI [of _ "length bytes"]) (auto simp: io_write_def set_file_def)
  next
    case (Some nk)
    then show ?thesis
      using assms f v
      by (cases nk) (auto simp: io_write_def set_file_def intro!: exI [of _ "fst nk"])
  qed
qed

lemma io_bind_Inr:
  "io_bind m f w = (Inr y, w') \<longleftrightarrow> (\<exists>x v. m w = (Inr x, v) \<and> f x v = (Inr y, w'))"
  by (auto simp: io_bind_def split: prod.splits sum.splits)

lemma io_bind_cases:
  assumes "io_bind m f w = (r, w')"
  obtains (fail) e where "m w = (Inl e, w')" "r = Inl e"
  | (ok) x v where "m w = (Inr x, v)" "f x v = (r, w')"
  using assms by (auto simp: io_bind_def split: prod.splits sum.splits)

lemma write_synced_cases:
  assumes "write_synced f base bytes w = (r, w')"
  shows "\<exists>n. w_files w' = (w_files w)(f := Some (base @ take n bytes)) \<and>
    (r = Inr () \<longrightarrow> length bytes \<le> n)"
  using assms unfolding write_synced_def
proof (cases rule: io_bind_cases)
  case (fail e)
  then show ?thesis using io_write_cases by fastforce
next
  case (ok x v)
  from io_write_cases [OF ok(1)] io_step_cases(1) [OF ok(2)] show ?thesis by auto
qed

lemma atomic_write_cases:
  assumes "atomic_write f bytes w = (r, w')"
  shows "\<exists>t c. w_files w' = (w_files w)(FTmp f := t, f := c) \<and> (c = w_files w f \<or> c = Some bytes) \<and>
    (r = Inr () \<longrightarrow> c = Some bytes)"
  using assms unfolding atomic_write_def
proof (cases rule: io_bind_cases)
  case (fail e)
  then show ?thesis using io_step_cases(1) [OF fail(1)] by (metis Inl_Inr_False fun_upd_triv)
next
  case (ok x v)
  note v = io_step_cases(1) [OF ok(1)]
  show ?thesis using ok(2)
  proof (cases rule: io_bind_cases)
    case (fail e)
    from write_synced_cases [OF fail(1)] obtain n where
      "w_files w' = (w_files v)(FTmp f := Some (take n bytes))" by auto
    then show ?thesis
      using fail v by (intro exI [of _ "Some (take n bytes)"] exI [of _ "w_files w f"]) auto
  next
    case (ok y u)
    from write_synced_cases [OF ok(1)] have u: "w_files u = (w_files w)(FTmp f := Some bytes)"
      using v by auto
    show ?thesis using ok(2)
    proof (cases rule: io_bind_cases)
      case (fail e)
      then have "w_files w' = w_files u" "r = Inl e"
        unfolding io_rename_def by (auto elim!: io_bind_cases dest: io_step_cases(1))
      then show ?thesis
        using u by (intro exI [of _ "Some bytes"] exI [of _ "w_files w f"]) auto
    next
      case (ok z s)
      then obtain s0 where s0: "w_files s0 = w_files u"
        "s = set_file (FTmp f) None (set_file f (w_files s0 (FTmp f)) s0)"
        unfolding io_rename_def by (auto elim!: io_bind_cases dest: io_step_cases(1))
      have "w_files w' = w_files s"
        using ok(2) by (simp add: sync_directory_def io_step_cases(1))
      then have "w_files w' = (w_files w)(FTmp f := None, f := Some bytes)"
        using s0 u by (auto simp: set_file_def fun_eq_iff)
      then show ?thesis by blast
    qed
  qed
qed

lemma atomic_write_other:
  "atomic_write f b w = (r, v) \<Longrightarrow> g \<noteq> f \<Longrightarrow> g \<noteq> FTmp f \<Longrightarrow> w_files v g = w_files w g"
  using atomic_write_cases by fastforce

lemma append_synced_cases:
  assumes "append_synced f bytes w = (r, w')" "w_files w f = Some base"
  shows "\<exists>n. w_files w' = (w_files w)(f := Some (base @ take n bytes)) \<and>
    (r = Inr () \<longrightarrow> length bytes \<le> n)"
  using assms(1) unfolding append_synced_def
proof (cases rule: io_bind_cases)
  case (fail e)
  then show ?thesis
    using io_step_cases(1) [OF fail(1)] assms(2) by (intro exI [of _ 0]) auto
next
  case (ok x v)
  then have "w_files v = w_files w" by (simp add: io_step_cases(1))
  then show ?thesis
    using write_synced_cases [of f base bytes v r w'] ok(2) assms(2) by simp
qed

subsection \<open>Logs\<close>

lemma split_at_not_Nil [simp]: "split_at sep xs \<noteq> []"
  by (induction xs) (auto split: list.splits)

lemma split_at_no_sep: "sep \<notin> set r \<Longrightarrow> split_at sep r = [r]"
  by (induction r) auto

lemma split_at_append:
  assumes "sep \<notin> set r"
  shows "split_at sep (xs @ sep # r) = split_at sep xs @ [r]"
proof (induction xs)
  case Nil
  then show ?case using split_at_no_sep [OF assms] by simp
next
  case (Cons x xs)
  then show ?case
    using split_at_not_Nil [of sep xs] by (auto split: list.splits simp: append_eq_Cons_conv)
qed

lemma read_records_append:
  "read_records C f (ls @ ms) lg =
     (case read_records C f ls lg of Inl e \<Rightarrow> Inl e | Inr lg' \<Rightarrow> read_records C f ms lg')"
  by (induction ls arbitrary: lg) (auto split: sum.splits)

definition extend_log :: "log \<Rightarrow> checkpoint \<times> scheduler_store \<Rightarrow> log" where
  "extend_log lg x =
     \<lparr> lg_checkpoints = lg_checkpoints lg @ [fst x], lg_states = lg_states lg @ [snd x] \<rparr>"

text \<open>What a readable log is made of.\<close>

lemma read_log_Inr:
  "read_log C f L = Inr lg \<longleftrightarrow>
     L \<noteq> [] \<and> last L = jc_newline C \<and>
     (\<exists>first lines h. split_at (jc_newline C) (butlast L) = first # lines \<and>
        parse_at f (jc_parse_header C first) = Inr h \<and>
        lh_version h = STATE_SCHEMA_VERSION \<and> length (lh_installation h) = 32 \<and>
        list_all is_hex_digit (lh_installation h) \<and>
        read_records C f lines
          \<lparr> lg_checkpoints = [header_checkpoint C h first], lg_states = [] \<rparr> = Inr lg)"
  unfolding read_log_def
  by (cases "split_at (jc_newline C) (butlast L)") (auto split: sum.splits)

lemma read_log_append:
  assumes "read_log C f L = Inr lg" "jc_newline C \<notin> set r"
    "read_record C f (last (lg_checkpoints lg)) r = Inr x"
  shows "read_log C f (L @ r @ [jc_newline C]) = Inr (extend_log lg x)"
proof -
  let ?nl = "jc_newline C"
  from assms(1) obtain first lines h where L: "L \<noteq> []" "last L = ?nl"
    and ls: "split_at ?nl (butlast L) = first # lines"
    and h: "parse_at f (jc_parse_header C first) = Inr h"
      "lh_version h = STATE_SCHEMA_VERSION" "length (lh_installation h) = 32"
      "list_all is_hex_digit (lh_installation h)"
    and rs: "read_records C f lines
          \<lparr> lg_checkpoints = [header_checkpoint C h first], lg_states = [] \<rparr> = Inr lg"
    unfolding read_log_Inr by blast
  have bl: "butlast (L @ r @ [?nl]) = butlast L @ ?nl # r"
    using L by (metis append.assoc append_Cons append_butlast_last_id append_self_conv2 butlast_snoc)
  have "split_at ?nl (butlast (L @ r @ [?nl])) = first # (lines @ [r])"
    unfolding bl split_at_append [OF assms(2)] ls by simp
  moreover have "read_records C f (lines @ [r])
      \<lparr> lg_checkpoints = [header_checkpoint C h first], lg_states = [] \<rparr> = Inr (extend_log lg x)"
    by (cases x) (simp add: read_records_append rs assms(3) extend_log_def)
  ultimately show ?thesis
    unfolding read_log_Inr using h by (intro conjI exI) simp_all
qed

lemma read_log_torn:
  assumes "jc_newline C \<notin> set r" "0 < n" "n \<le> length r"
  shows "read_log C f (L @ take n (r @ [jc_newline C])) =
    Inl (SCorrupt f ''accounting log has an incomplete final record'')"
proof -
  have t: "take n (r @ [jc_newline C]) = take n r" "take n r \<noteq> []" using assms by auto
  have "last (take n r) \<in> set r" using in_set_takeD [OF last_in_set [OF t(2)]] .
  then have "last (L @ take n r) \<noteq> jc_newline C"
    using assms(1) t(2) by (auto simp: last_append)
  then show ?thesis unfolding t(1) by (simp add: read_log_def)
qed

text \<open>The shape of a readable log: checkpoint \<open>i\<close> has sequence number \<open>i\<close>.\<close>

definition log_ok :: "log \<Rightarrow> bool" where
  "log_ok lg \<longleftrightarrow>
     length (lg_checkpoints lg) = length (lg_states lg) + 1 \<and>
     (\<forall>i < length (lg_checkpoints lg). cp_sequence (lg_checkpoints lg ! i) = i)"

lemma log_ok_extend:
  assumes "log_ok lg" "cp_sequence (fst x) = cp_sequence (last (lg_checkpoints lg)) + 1"
  shows "log_ok (extend_log lg x)"
proof -
  have "lg_checkpoints lg \<noteq> []" using assms(1) by (auto simp: log_ok_def)
  then have "cp_sequence (fst x) = length (lg_checkpoints lg)"
    using assms by (auto simp: log_ok_def last_conv_nth)
  then show ?thesis using assms(1) by (auto simp: log_ok_def extend_log_def nth_append less_Suc_eq)
qed

lemma read_record_sequence:
  "read_record C f cp l = Inr x \<Longrightarrow> cp_sequence (fst x) = cp_sequence cp + 1"
  by (auto simp: read_record_def split: sum.splits if_splits)

lemma read_records_ok: "read_records C f ls lg = Inr lg' \<Longrightarrow> log_ok lg \<Longrightarrow> log_ok lg'"
proof (induction ls arbitrary: lg)
  case Nil
  then show ?case by simp
next
  case (Cons l ls)
  then obtain x where x: "read_record C f (last (lg_checkpoints lg)) l = Inr x"
    "read_records C f ls (extend_log lg x) = Inr lg'"
    by (auto simp: extend_log_def split: sum.splits prod.splits)
  then show ?case
    using Cons log_ok_extend [OF Cons.prems(2)] read_record_sequence [OF x(1)] by blast
qed

lemma read_log_ok: 
  assumes "read_log C f L = Inr lg" shows "log_ok lg"
proof -
  from assms obtain ls h first where "read_records C f ls
      \<lparr> lg_checkpoints = [header_checkpoint C h first], lg_states = [] \<rparr> = Inr lg"
    unfolding read_log_Inr by blast
  then show ?thesis
    by (rule read_records_ok) (simp add: log_ok_def header_checkpoint_def)
qed

lemma validate_last:
  assumes "log_ok lg" shows "validate_checkpoint f (last (lg_checkpoints lg)) lg = Inr ()"
proof -
  have "lg_checkpoints lg \<noteq> []" using assms by (auto simp: log_ok_def)
  then show ?thesis using assms by (auto simp: validate_checkpoint_def log_ok_def last_conv_nth)
qed

lemma validate_extend:
  "validate_checkpoint f cp lg = Inr () \<Longrightarrow> validate_checkpoint g cp (extend_log lg x) = Inr ()"
  by (auto simp: validate_checkpoint_def extend_log_def nth_append split: if_splits)

lemma check_baseline_Inr:
  "check_baseline st lg = Inr () \<longleftrightarrow>
     (\<exists>cp. st_checkpoint st = Some cp \<and> validate_checkpoint FState cp lg = Inr () \<and>
        cp_sequence cp \<noteq> 0 \<and> cp_sequence cp - 1 < length (lg_states lg) \<and>
        accounting (lg_states lg ! (cp_sequence cp - 1)) = accounting st)"
  by (cases "st_checkpoint st") (auto simp: check_baseline_def not_le split: sum.splits)

lemma baseline_extend:
  assumes "check_baseline st lg = Inr ()"
  shows "check_baseline st (extend_log lg x) = Inr ()"
  using assms validate_extend [of FState _ lg FState x]
  by (fastforce simp: check_baseline_Inr extend_log_def nth_append)

subsection \<open>Ordered maps are determined by their lookups\<close>

lemma bt_as_keys: "bt_ok m \<Longrightarrow> m = map (\<lambda>k. (k, the (bt_get m k))) (map fst m)"
proof -
  assume ok: "bt_ok m"
  have "(fst e, the (bt_get m (fst e))) = e" if "e \<in> set m" for e
    using bt_get_iff [OF ok, of "fst e" "snd e"] that by simp
  then show ?thesis by (simp add: map_idI)
qed

lemma bt_keys_iff: "bt_get m k \<noteq> None \<longleftrightarrow> k \<in> fst ` set m"
  by (simp add: bt_get_def map_of_eq_None_iff)

lemma bt_ext:
  assumes "bt_ok m" "bt_ok m'" "\<And>k. bt_get m k = bt_get m' k"
  shows "m = m'"
proof -
  have "k \<in> fst ` set m \<longleftrightarrow> k \<in> fst ` set m'" for k
    using bt_keys_iff [of m k] bt_keys_iff [of m' k] assms(3) [of k] by simp
  then have "set (map fst m) = set (map fst m')" by (simp add: set_eq_iff)
  then have "map fst m = map fst m'"
    using assms(1,2) unfolding bt_ok_def by (intro strict_sorted_equal)
  moreover have "bt_get m = bt_get m'" using assms(3) by blast
  ultimately show ?thesis
    using bt_as_keys [OF assms(1)] bt_as_keys [OF assms(2)] by metis
qed

lemma bt_get_map: "bt_get (map (\<lambda>(k, v). (k, f v)) m) k = map_option f (bt_get m k)"
  by (simp add: bt_get_def map_of_map)

lemma bt_ok_map [simp]: "bt_ok (map (\<lambda>(k, v). (k, f v)) m) = bt_ok m"
  by (simp add: bt_ok_def comp_def split_beta)

subsection \<open>Replay restores the recorded accounting\<close>

definition provider_keys :: "scheduler_store \<Rightarrow> string set" where
  "provider_keys store = fst ` set (st_providers store)"

lemma replay_step_accounting:
  "provider_accounting (replay_accounting st recorded) = provider_accounting recorded"
  by (simp add: provider_accounting_def replay_accounting_def)

lemma replay_store_step:
  "st_providers (replay_store c s) =
     fold (\<lambda>(pid, recorded) m.
         case bt_get m pid of Some st \<Rightarrow> bt_insert pid (replay_accounting st recorded) m
         | None \<Rightarrow> bt_insert pid recorded m) (st_providers c) (st_providers s)"
proof -
  have "st_providers (fold (\<lambda>(pid, recorded) store.
         store \<lparr> st_providers :=
           (case bt_get (st_providers store) pid of
              Some st \<Rightarrow> bt_insert pid (replay_accounting st recorded) (st_providers store)
            | None \<Rightarrow> bt_insert pid recorded (st_providers store)) \<rparr>) ps s) =
     fold (\<lambda>(pid, recorded) m.
         case bt_get m pid of Some st \<Rightarrow> bt_insert pid (replay_accounting st recorded) m
         | None \<Rightarrow> bt_insert pid recorded m) ps (st_providers s)" for ps
    by (induction ps arbitrary: s) (auto split: option.splits)
  then show ?thesis by (simp add: replay_store_def)
qed

lemma replay_fold_get:
  assumes "distinct (map fst ps)"
  shows "map_option provider_accounting
     (bt_get (fold (\<lambda>(pid, recorded) m.
         case bt_get m pid of Some st \<Rightarrow> bt_insert pid (replay_accounting st recorded) m
         | None \<Rightarrow> bt_insert pid recorded m) ps m) k) =
     (case map_of ps k of Some recorded \<Rightarrow> Some (provider_accounting recorded)
      | None \<Rightarrow> map_option provider_accounting (bt_get m k))"
  using assms
proof (induction ps arbitrary: m)
  case Nil
  then show ?case by simp
next
  case (Cons e ps)
  obtain pid recorded where e: "e = (pid, recorded)" by force
  have "map_of ps pid = None" using Cons.prems by (simp add: e map_of_eq_None_iff)
  then show ?case
    using Cons by (auto simp: e replay_step_accounting split: option.splits)
qed

lemma replay_fold_ok:
  "bt_ok m \<Longrightarrow> bt_ok (fold (\<lambda>(pid, recorded) m.
         case bt_get m pid of Some st \<Rightarrow> bt_insert pid (replay_accounting st recorded) m
         | None \<Rightarrow> bt_insert pid recorded m) ps m)"
  by (induction ps arbitrary: m) (auto split: option.splits)

lemma accounting_get: "bt_get (accounting s) k = map_option provider_accounting (bt_get (st_providers s) k)"
  by (simp add: accounting_def bt_get_map)

lemma accounting_replay:
  assumes "bt_ok (st_providers c)" "bt_ok (st_providers s)" "provider_keys s \<subseteq> provider_keys c"
  shows "accounting (replay_store c s) = accounting c"
proof (rule bt_ext)
  show "bt_ok (accounting (replay_store c s))" "bt_ok (accounting c)"
    using assms replay_fold_ok by (simp_all add: accounting_def replay_store_step)
  fix k
  have "distinct (map fst (st_providers c))"
    using assms(1) by (simp add: bt_ok_def strict_sorted_iff)
  from replay_fold_get [OF this, of "st_providers s" k]
  have "bt_get (accounting (replay_store c s)) k =
      (case bt_get (st_providers c) k of Some r \<Rightarrow> Some (provider_accounting r)
       | None \<Rightarrow> map_option provider_accounting (bt_get (st_providers s) k))"
    by (simp add: accounting_get replay_store_step) (simp add: bt_get_def)
  moreover have "bt_get (st_providers s) k = None" if "bt_get (st_providers c) k = None"
    using that assms(3) bt_keys_iff [of "st_providers s" k] bt_keys_iff [of "st_providers c" k]
    by (auto simp: provider_keys_def)
  ultimately show "bt_get (accounting (replay_store c s)) k = bt_get (accounting c) k"
    by (auto simp: accounting_get split: option.splits)
qed

lemma accounting_checkpoint [simp]: "accounting (s \<lparr> st_checkpoint := c \<rparr>) = accounting s"
  by (simp add: accounting_def)

subsection \<open>Reopening\<close>

text \<open>What the persistence layer relies on of JSON: values come back, lines stay lines.\<close>

definition codec_ok :: "'b codec \<Rightarrow> bool" where
  "codec_ok C \<longleftrightarrow>
     (\<forall>s. jc_parse_store C (jc_store C s) = Inr s) \<and>
     (\<forall>r. jc_parse_record C (jc_record C r) = Inr r \<and> jc_newline C \<notin> set (jc_record C r)) \<and>
     (\<forall>h. jc_parse_header C (jc_header C h) = Inr h \<and> jc_newline C \<notin> set (jc_header C h)) \<and>
     (\<forall>c. jc_parse_checkpoint C (jc_checkpoint C c) = Inr c \<and> jc_checkpoint C c \<noteq> [])"

text \<open>
  A recovery set: a readable log, a marker whose checkpoint is in it, and a snapshot whose
  checkpoint and accounting are those of one of its records.
\<close>

definition disk_ok ::
    "'b codec \<Rightarrow> (pfile \<Rightarrow> 'b list option) \<Rightarrow> log \<Rightarrow> scheduler_store \<Rightarrow> bool" where
  "disk_ok C fs lg st \<longleftrightarrow>
     (\<exists>L. fs FLedger = Some L \<and> read_log C FLedger L = Inr lg) \<and>
     (\<exists>cp. fs FMarker = Some (jc_checkpoint C cp) \<and> validate_checkpoint FMarker cp lg = Inr ()) \<and>
     (\<exists>b. fs FState = Some b \<and> parse_store C FState b = Inr st) \<and>
     check_baseline st lg = Inr ()"

text \<open>A new process on the same files: no injected fault, nobody else holds the lock.\<close>

definition reboot :: "'b world \<Rightarrow> 'b world" where
  "reboot w = w \<lparr> w_faults := [], w_locked_elsewhere := False \<rparr>"

definition plain_path :: "'b world \<Rightarrow> bool" where
  "plain_path w \<longleftrightarrow> w_state_extension w \<notin> {Some ''lock'', Some ''bak'', Some ''initialized''}"

lemma no_fault_steps:
  assumes "w_faults w = []"
  shows "io_fault w = (None, w)" "io_step f w = (Inr (), w)"
    "read_optional f w = (Inr (w_files w f), w)" "try_exists f w = (Inr (w_files w f \<noteq> None), w)"
    "io_write f base b w = (Inr (), set_file f (Some (base @ b)) w)"
    "write_synced f base b w = (Inr (), set_file f (Some (base @ b)) w)"
  using assms
  by (simp_all add: io_fault_def io_step_def read_optional_def try_exists_def io_write_def
      write_synced_def io_bind_def set_file_def)

lemma no_fault_atomic_write:
  assumes "w_faults w = []"
  shows "atomic_write f b w = (Inr (), set_file (FTmp f) None (set_file f (Some b) w))"
  using assms
  by (simp add: atomic_write_def io_bind_def no_fault_steps io_rename_def sync_directory_def
      io_step_def io_fault_def set_file_def fun_upd_twist)

lemma no_fault_lock:
  assumes "w_faults w = []" "\<not> w_locked_elsewhere w"
  shows "acquire_lock w = (Inr (), set_file FLock (Some []) (w \<lparr> w_missing_dirs := 0 \<rparr>))"
proof -
  have steps: "w_faults v = [] \<Longrightarrow> io_steps n f v = (Inr (), v)" for n f and v :: "'b world"
    by (induction n) (simp_all add: io_return_def io_bind_def no_fault_steps)
  show ?thesis
    using assms by (simp add: acquire_lock_def Let_def io_bind_def steps no_fault_steps)
qed

lemma open_disk:
  assumes C: "codec_ok C" and disk: "disk_ok C (w_files w) lg st"
    and w: "w_faults w = []" "\<not> w_locked_elsewhere w" "plain_path w"
  shows "\<exists>p store w'. persistence_open C w =
      (Inr (p, store, st_checkpoint st \<noteq> Some (last (lg_checkpoints lg))), w') \<and>
    pe_committed p = last_or_default lg \<and> pe_checkpoint p = last (lg_checkpoints lg) \<and>
    store = (if st_checkpoint st = Some (last (lg_checkpoints lg)) then st
             else replay_store (last_or_default lg) st)
            \<lparr> st_checkpoint := Some (last (lg_checkpoints lg)) \<rparr> \<and>
    disk_ok C (w_files w') lg st \<and> w_faults w' = [] \<and>
    w_files w' FMarker = Some (jc_checkpoint C (last (lg_checkpoints lg))) \<and>
    pe_snapshot_digest p = map_option (jc_digest C) (w_files w' FState) \<and>
    Some (pe_ledger_len p) = map_option length (w_files w' FLedger) \<and> \<not> pe_poisoned p \<and>
    plain_path w'"
proof -
  obtain L cp b where
    L: "w_files w FLedger = Some L" "read_log C FLedger L = Inr lg" and
    cp: "w_files w FMarker = Some (jc_checkpoint C cp)" "validate_checkpoint FMarker cp lg = Inr ()" and
    b: "w_files w FState = Some b" "parse_store C FState b = Inr st" and
    base: "check_baseline st lg = Inr ()"
    using disk unfolding disk_ok_def by blast
  have ck: "jc_checkpoint C cp \<noteq> []" "jc_parse_checkpoint C (jc_checkpoint C cp) = Inr cp"
    using C by (simp_all add: codec_ok_def)
  have states: "lg_states lg \<noteq> []"
    using base by (auto simp: check_baseline_Inr)
  have vl: "validate_checkpoint FMarker (last (lg_checkpoints lg)) lg = Inr ()"
    by (rule validate_last [OF read_log_ok [OF L(2)]])
  let ?last = "last (lg_checkpoints lg)"
  define v where "v = set_file FLock (Some []) (w \<lparr> w_missing_dirs := 0 \<rparr>)"
  have v: "w_faults v = []" "w_files v FLedger = Some L" "w_files v FState = Some b"
    "w_files v FMarker = Some (jc_checkpoint C cp)"
    using L cp b w by (simp_all add: v_def set_file_def)
  define u where "u = (if jc_checkpoint C cp \<noteq> jc_checkpoint C ?last
    then set_file (FTmp FMarker) None (set_file FMarker (Some (jc_checkpoint C ?last)) v) else v)"
  have u: "w_faults u = []" "w_files u FLedger = Some L" "w_files u FState = Some b"
    "w_files u FMarker = Some (jc_checkpoint C ?last)"
    using v by (auto simp: u_def set_file_def)
  have path: "plain_path u" using w(3) by (simp add: plain_path_def u_def v_def set_file_def)
  have fin: "open_finish C False (Some b) (Some (jc_checkpoint C cp)) st lg v =
    (Inr (\<lparr> pe_checkpoint = ?last, pe_committed = last_or_default lg,
            pe_snapshot_digest = Some (jc_digest C b), pe_ledger_len = length L, pe_poisoned = False \<rparr>,
          (if st_checkpoint st = Some ?last then st else replay_store (last_or_default lg) st)
            \<lparr> st_checkpoint := Some ?last \<rparr>,
          st_checkpoint st \<noteq> Some ?last), u)"
    using v u states
    by (simp add: open_finish_def Let_def io_bind_def no_fault_atomic_write io_return_def file_len_def
        no_fault_steps u_def set_file_def)
  have "persistence_open C w = open_finish C False (Some b) (Some (jc_checkpoint C cp)) st lg v"
    using w L cp b base ck v
    by (simp add: persistence_open_def plain_path_def io_bind_def no_fault_lock v_def [symmetric]
        no_fault_steps io_return_def io_lift_def open_log_def parse_at_def)
  moreover have "disk_ok C (w_files u) lg st"
    using u L b base vl by (auto simp: disk_ok_def)
  ultimately show ?thesis using fin u path by simp
qed

subsection \<open>Frames\<close>

definition keeps_path :: "('b, 'a) pio \<Rightarrow> bool" where
  "keeps_path m \<longleftrightarrow> (\<forall>w. w_state_extension (snd (m w)) = w_state_extension w)"

lemma keeps_fault [simp]: "w_state_extension (snd (io_fault w)) = w_state_extension w"
  by (simp add: io_fault_def split: list.splits)

lemma keeps_fault_eq: "io_fault w = (f, v) \<Longrightarrow> w_state_extension v = w_state_extension w"
  using keeps_fault [of w] by simp

lemma keeps_bind [frame]:
  "keeps_path m \<Longrightarrow> (\<And>x. keeps_path (f x)) \<Longrightarrow> keeps_path (io_bind m f)"
  unfolding keeps_path_def io_bind_def
  by (auto split: prod.splits sum.splits) (metis snd_conv)+

lemma keeps_return [frame]:
  "keeps_path (io_return x)" "keeps_path (io_fail e)" "keeps_path (io_lift r)"
  by (simp_all add: keeps_path_def io_return_def io_fail_def io_lift_def)

lemma keeps_primitives [frame]:
  "keeps_path (io_step f)" "keeps_path (read_optional f)" "keeps_path (io_write f base b)"
  "keeps_path (file_len f)"
  by (auto simp: keeps_path_def io_step_def read_optional_def io_write_def file_len_def set_file_def
      dest!: keeps_fault_eq split: prod.splits option.splits)

lemma keeps_rename [frame]: "keeps_path (io_rename a b)"
  unfolding io_rename_def by (intro keeps_bind keeps_primitives) (simp add: keeps_path_def set_file_def)

lemma keeps_write_synced [frame]: "keeps_path (write_synced f base b)"
  unfolding write_synced_def by (intro frame)

lemma keeps_writes [frame]: "keeps_path (atomic_write f b)" "keeps_path (append_synced f b)"
proof -
  show "keeps_path (atomic_write f b)"
    unfolding atomic_write_def sync_directory_def by (intro frame)
  show "keeps_path (append_synced f b)"
    unfolding append_synced_def
  proof (intro frame)
    fix x :: unit
    show "keeps_path (\<lambda>w. case w_files w f of None \<Rightarrow> (Inl (SIo f IoNotFound), w)
            | Some base \<Rightarrow> write_synced f base b w)"
      using keeps_write_synced by (auto simp: keeps_path_def split: option.splits)
  qed
qed

lemma keeps_read_required [frame]: "keeps_path (read_required f)"
  unfolding read_required_def by (intro frame) (auto intro: frame split: option.splits)

lemma keeps_verify [frame]: "keeps_path (persist_verify C p store)"
  unfolding persist_verify_def by (intro frame) (auto intro!: frame)

lemma keeps_commit [frame]: "keeps_path (persist_commit C p store)"
  unfolding persist_commit_def Let_def by (auto intro!: frame)

lemma keeps_pathD: "keeps_path m \<Longrightarrow> m w = (r, v) \<Longrightarrow> w_state_extension v = w_state_extension w"
  unfolding keeps_path_def by (metis snd_conv)

subsection \<open>The stages of a commit\<close>

lemma file_len_files: "file_len f w = (r, v) \<Longrightarrow> w_files v = w_files w"
  by (auto simp: file_len_def dest!: io_fault_eq split: prod.splits option.splits)

lemma read_required_files: "read_required f w = (r, v) \<Longrightarrow> w_files v = w_files w"
  unfolding read_required_def
  by (auto elim!: io_bind_cases dest!: read_optional_cases simp: io_return_def io_fail_def
      split: option.splits)

lemma persist_verify_effect:
  assumes "persist_verify C p store w = (r, v)"
  shows "w_files v = w_files w" "r = Inr x \<Longrightarrow> validate_store FState store = Inr ()"
  using assms unfolding persist_verify_def
  by (auto elim!: io_bind_cases dest!: read_optional_cases read_required_files file_len_files
      simp: io_lift_def io_return_def io_fail_def split: if_splits)

definition commit_line :: "'b codec \<Rightarrow> persistence \<Rightarrow> scheduler_store \<Rightarrow> 'b list" where
  "commit_line C p store = jc_record C (commit_record C p store) @ [jc_newline C]"

definition commit_target :: "'b codec \<Rightarrow> persistence \<Rightarrow> scheduler_store \<Rightarrow> checkpoint" where
  "commit_target C p store = commit_checkpoint p (commit_record C p store)"

lemma persist_commit_effect:
  assumes "persist_commit C p store w = (r, v)" "w_files w FLedger = Some L"
  shows "(\<exists>e n. r = Inl e \<and> w_files v FLedger = Some (L @ take n (commit_line C p store)) \<and>
            w_files v FMarker = w_files w FMarker \<and> w_files v FState = w_files w FState) \<or>
    (\<exists>e. r = Inl e \<and> w_files v FLedger = Some (L @ commit_line C p store) \<and>
            w_files v FMarker \<in> {w_files w FMarker, Some (jc_checkpoint C (commit_target C p store))} \<and>
            w_files v FState = w_files w FState) \<or>
    (r = Inr (p \<lparr> pe_checkpoint := commit_target C p store,
                 pe_ledger_len := pe_ledger_len p + length (commit_line C p store),
                 pe_committed := lr_state (commit_record C p store) \<rparr>) \<and>
     w_files v FLedger = Some (L @ commit_line C p store) \<and>
     w_files v FMarker = Some (jc_checkpoint C (commit_target C p store)) \<and>
     w_files v FState = w_files w FState)"
proof (cases "checked_add u64_max (cp_sequence (pe_checkpoint p)) 1 = None")
  case True
  then have "r = Inl (SCorrupt FState ''accounting sequence exhausted'') \<and> v = w"
    using assms(1) by (simp add: persist_commit_def io_fail_def)
  then show ?thesis using assms(2) by (intro disjI1) (auto intro!: exI [of _ 0])
next
  case False
  let ?line = "commit_line C p store" and ?cp = "commit_target C p store"
  have run: "io_bind (append_synced FLedger ?line) (\<lambda>_.
       io_bind (atomic_write FMarker (jc_checkpoint C ?cp)) (\<lambda>_.
       io_return (p \<lparr> pe_checkpoint := ?cp, pe_ledger_len := pe_ledger_len p + length ?line,
         pe_committed := lr_state (commit_record C p store) \<rparr>))) w = (r, v)"
    using assms(1)
    unfolding persist_commit_def Let_def commit_line_def commit_target_def if_not_P [OF False] .
  then show ?thesis
  proof (cases rule: io_bind_cases)
    case (fail e)
    from append_synced_cases [OF fail(1) assms(2)] show ?thesis using fail(2) by fastforce
  next
    case (ok x u)
    from append_synced_cases [OF ok(1) assms(2)] have u: "w_files u = (w_files w)(FLedger := Some (L @ ?line))"
      by auto
    show ?thesis using ok(2)
    proof (cases rule: io_bind_cases)
      case (fail e)
      from atomic_write_cases [OF fail(1)] show ?thesis using fail(2) u by fastforce
    next
      case (ok y s)
      from atomic_write_cases [OF ok(1)] show ?thesis using ok(2) u by (fastforce simp: io_return_def)
    qed
  qed
qed

definition after_commit :: "'b codec \<Rightarrow> persistence \<Rightarrow> scheduler_store \<Rightarrow> persistence" where
  "after_commit C p store =
     (if accounting store = accounting (pe_committed p) then p
      else p \<lparr> pe_checkpoint := commit_target C p store,
               pe_ledger_len := pe_ledger_len p + length (commit_line C p store),
               pe_committed := lr_state (commit_record C p store) \<rparr>)"

text \<open>The four states of the recovery files a commit can leave behind.\<close>

lemma persist_effect:
  assumes "persist C p store w = (r, p', store', w')" "\<not> pe_poisoned p" "w_files w FLedger = Some L"
  defines "new \<equiv> store \<lparr> st_checkpoint := Some (pe_checkpoint (after_commit C p store)) \<rparr>"
  shows "(\<exists>e n. r = Inl e \<and> w_files w' FLedger = Some (L @ take n (commit_line C p store)) \<and>
            w_files w' FMarker = w_files w FMarker \<and> w_files w' FState = w_files w FState \<and>
            (accounting store = accounting (pe_committed p) \<or> validate_store FState store \<noteq> Inr () \<longrightarrow> n = 0)) \<or>
    (\<exists>e. r = Inl e \<and> accounting store \<noteq> accounting (pe_committed p) \<and>
            validate_store FState store = Inr () \<and>
            w_files w' FLedger = Some (L @ commit_line C p store) \<and>
            w_files w' FMarker \<in> {w_files w FMarker, Some (jc_checkpoint C (commit_target C p store))} \<and>
            w_files w' FState = w_files w FState) \<or>
    (validate_store FState store = Inr () \<and> store' = new \<and>
     (if accounting store = accounting (pe_committed p)
      then w_files w' FLedger = Some L \<and> w_files w' FMarker = w_files w FMarker
      else w_files w' FLedger = Some (L @ commit_line C p store) \<and>
           w_files w' FMarker = Some (jc_checkpoint C (commit_target C p store))) \<and>
     w_files w' FState \<in> {w_files w FState, Some (jc_store C new)} \<and>
     (r = Inr () \<longrightarrow> w_files w' FState = Some (jc_store C new) \<and>
        p' = (after_commit C p store) \<lparr> pe_snapshot_digest := Some (jc_digest C (jc_store C new)),
                pe_poisoned := False \<rparr>))"
proof -
  let ?p = "p \<lparr> pe_poisoned := True \<rparr>"
  have same: "commit_line C ?p store = commit_line C p store"
    "commit_target C ?p store = commit_target C p store"
    "commit_record C ?p store = commit_record C p store"
    by (simp_all add: commit_line_def commit_target_def commit_record_def commit_checkpoint_def)
  obtain r1 v where v: "persist_verify C ?p store w = (r1, v)" by force
  note ver = persist_verify_effect [OF v]
  show ?thesis
  proof (cases r1)
    case (Inl e)
    then have "r = Inl e \<and> w' = v"
      using assms(1,2) v by (simp add: persist_def Let_def)
    then show ?thesis using ver(1) assms(3) by (intro disjI1) (auto intro!: exI [of _ 0])
  next
    case (Inr previous)
    have valid: "validate_store FState store = Inr ()" using ver(2) [OF Inr] .
    obtain r2 u where u: "(if accounting store \<noteq> accounting (pe_committed ?p)
        then persist_commit C ?p store v else (Inr ?p, v)) = (r2, u)" by force
    show ?thesis
    proof (cases r2)
      case (Inl e)
      then have "accounting store \<noteq> accounting (pe_committed p)"
        "persist_commit C ?p store v = (Inl e, u)" using u by (auto split: if_splits)
      moreover have "r = Inl e \<and> w' = u"
        using assms(1,2) v u \<open>r1 = Inr previous\<close> Inl by (simp add: persist_def Let_def)
      ultimately show ?thesis
        using persist_commit_effect [of C ?p store v "Inl e" u L] ver(1) assms(3) valid
        by (auto simp: same)
    next
      case (Inr p2)
      define q where "q = after_commit C ?p store"
      have p2: "p2 = q"
        "if accounting store = accounting (pe_committed p)
         then w_files u FLedger = Some L \<and> w_files u FMarker = w_files w FMarker
         else w_files u FLedger = Some (L @ commit_line C p store) \<and>
              w_files u FMarker = Some (jc_checkpoint C (commit_target C p store))"
        "w_files u FState = w_files w FState"
        using u Inr persist_commit_effect [of C ?p store v r2 u L] ver(1) assms(3)
        by (auto simp: q_def after_commit_def same split: if_splits)
      have q: "pe_checkpoint q = pe_checkpoint (after_commit C p store)"
        by (simp add: q_def after_commit_def same)
      obtain r3 s where s: "(case previous of Some b \<Rightarrow> atomic_write FBackup b u
          | None \<Rightarrow> (Inr (), u)) = (r3, s)" by force
      have s_files: "w_files s FLedger = w_files u FLedger" "w_files s FMarker = w_files u FMarker"
        "w_files s FState = w_files u FState"
        using s by (auto dest: atomic_write_other split: option.splits)
      show ?thesis
      proof (cases r3)
        case (Inl e)
        then have "r = Inl e \<and> w' = s \<and> store' = new"
          using assms(1,2) v u s \<open>r1 = Inr previous\<close> \<open>r2 = Inr p2\<close> p2(1) q
          by (auto simp: persist_def Let_def new_def)
        then show ?thesis using p2 s_files valid by auto
      next
        case (Inr x)
        obtain r4 z where z: "atomic_write FState (jc_store C new) s = (r4, z)" by force
        have new: "new = store \<lparr> st_checkpoint := Some (pe_checkpoint p2) \<rparr>"
          by (simp add: new_def p2(1) q)
        have u': "(if accounting store \<noteq> accounting (pe_committed ?p)
            then persist_commit C ?p store v else (Inr ?p, v)) = (Inr p2, u)"
          using u \<open>r2 = Inr p2\<close> by (simp only:)
        have s': "(case previous of Some b \<Rightarrow> atomic_write FBackup b u | None \<Rightarrow> (Inr (), u)) = (Inr (), s)"
          using s Inr by (cases x) simp
        have "persist C p store w =
            (case r4 of Inl e \<Rightarrow> (Inl e, p2, new, z)
             | Inr _ \<Rightarrow> (Inr (), p2 \<lparr> pe_snapshot_digest := Some (jc_digest C (jc_store C new)),
                 pe_poisoned := False \<rparr>, new, z))"
          using assms(2) v \<open>r1 = Inr previous\<close> s'
          by (cases r4) (simp_all only: persist_def Let_def prod.case sum.case u'
              new [symmetric] z if_False unit_eq)
        then have eq: "r = r4 \<and> w' = z \<and> store' = new \<and>
            (r = Inr () \<longrightarrow> p' = q \<lparr> pe_snapshot_digest := Some (jc_digest C (jc_store C new)),
                pe_poisoned := False \<rparr>)"
          unfolding assms(1) p2(1) by (auto split: sum.splits)
        have "q \<lparr> pe_snapshot_digest := d, pe_poisoned := False \<rparr> =
            (after_commit C p store) \<lparr> pe_snapshot_digest := d, pe_poisoned := False \<rparr>" for d
          by (simp add: q_def after_commit_def same)
        moreover have "w_files z FLedger = w_files s FLedger" "w_files z FMarker = w_files s FMarker"
          using atomic_write_other [OF z] by simp_all
        moreover have "w_files z FState \<in> {w_files s FState, Some (jc_store C new)}"
          "r4 = Inr () \<Longrightarrow> w_files z FState = Some (jc_store C new)"
          using atomic_write_cases [OF z] by auto
        ultimately show ?thesis
          using eq p2(2,3) s_files valid by (intro disjI2 conjI) simp_all
      qed
    qed
  qed
qed

subsection \<open>The commit keeps the recovery set\<close>

text \<open>
  The running scheduler's view of the disk: the recovery set is intact and the in-memory
  checkpoint, committed accounting, snapshot digest and log length describe it.
\<close>

definition installed ::
    "'b codec \<Rightarrow> persistence \<Rightarrow> 'b world \<Rightarrow> log \<Rightarrow> scheduler_store \<Rightarrow> bool" where
  "installed C p w lg st \<longleftrightarrow>
     disk_ok C (w_files w) lg st \<and> plain_path w \<and> \<not> pe_poisoned p \<and>
     pe_checkpoint p = last (lg_checkpoints lg) \<and> pe_committed p = last_or_default lg \<and>
     w_files w FMarker = Some (jc_checkpoint C (pe_checkpoint p)) \<and>
     pe_snapshot_digest p = map_option (jc_digest C) (w_files w FState) \<and>
     Some (pe_ledger_len p) = map_option length (w_files w FLedger) \<and>
     bt_ok (st_providers st) \<and> bt_ok (st_providers (pe_committed p)) \<and>
     provider_keys st \<subseteq> provider_keys (pe_committed p)"

text \<open>What the scheduler guarantees of the store it commits.\<close>

definition committable :: "persistence \<Rightarrow> scheduler_store \<Rightarrow> bool" where
  "committable p store \<longleftrightarrow>
     st_schema_version store = STATE_SCHEMA_VERSION \<and> bt_ok (st_providers store) \<and>
     provider_keys (pe_committed p) \<subseteq> provider_keys store"

lemma validate_store_checkpoint [simp]:
  "validate_store f (s \<lparr> st_checkpoint := c \<rparr>) = validate_store f s"
  by (simp add: validate_store_def)

lemma validate_store_path: "validate_store f s = Inr () \<Longrightarrow> validate_store g s = Inr ()"
  by (simp add: validate_store_def split: if_splits)

lemma record_new_simps:
  "lr_sequence (record_new C n d s) = n" "lr_previous_digest (record_new C n d s) = d"
  "lr_state (record_new C n d s) = s"
  "lr_digest (record_new C n d s) = computed_digest C (record_new C n d s)"
  by (simp_all add: record_new_def Let_def computed_digest_def)

lemma commit_record_read:
  assumes "codec_ok C" "committable p store" "validate_store FState store = Inr ()"
  shows "read_record C f (pe_checkpoint p) (jc_record C (commit_record C p store)) =
    Inr (commit_target C p store, lr_state (commit_record C p store))"
proof -
  let ?r = "commit_record C p store"
  have r: "lr_sequence ?r = cp_sequence (pe_checkpoint p) + 1"
    "lr_previous_digest ?r = cp_digest (pe_checkpoint p)"
    "lr_state ?r = store \<lparr> st_checkpoint := None \<rparr>" "lr_digest ?r = computed_digest C ?r"
    unfolding commit_record_def by (simp_all only: record_new_simps)
  have "jc_parse_record C (jc_record C ?r) = Inr ?r" using assms(1) by (simp add: codec_ok_def)
  moreover have "validate_store f (lr_state ?r) = Inr ()"
    using validate_store_path [OF assms(3), of f] by (simp add: r(3))
  moreover have "st_schema_version (lr_state ?r) = STATE_SCHEMA_VERSION" "st_checkpoint (lr_state ?r) = None"
    using assms(2) by (simp_all add: r(3) committable_def)
  ultimately show ?thesis
    using r(1,2,4) by (simp add: read_record_def parse_at_def commit_target_def commit_checkpoint_def)
qed

lemma commit_state: "lr_state (commit_record C p store) = store \<lparr> st_checkpoint := None \<rparr>"
  by (simp add: commit_record_def record_new_simps)

lemma last_or_default_extend [simp]: "last_or_default (extend_log lg x) = snd x"
  by (simp add: last_or_default_def extend_log_def)

lemma provider_keys_checkpoint [simp]: "provider_keys (s \<lparr> st_checkpoint := c \<rparr>) = provider_keys s"
  by (simp add: provider_keys_def)

lemma disk_states: "disk_ok C fs lg st \<Longrightarrow> lg_states lg \<noteq> [] \<and> log_ok lg"
  by (auto simp: disk_ok_def check_baseline_Inr dest: read_log_ok)

lemma last_sequence:
  assumes "log_ok lg" shows "cp_sequence (last (lg_checkpoints lg)) = length (lg_states lg)"
proof -
  have "lg_checkpoints lg \<noteq> []" using assms by (auto simp: log_ok_def)
  then show ?thesis using assms by (auto simp: log_ok_def last_conv_nth)
qed

text \<open>A snapshot taken at the last checkpoint matches the log.\<close>

lemma baseline_last:
  assumes "log_ok lg" "lg_states lg \<noteq> []" "accounting store = accounting (last_or_default lg)"
  shows "check_baseline (store \<lparr> st_checkpoint := Some (last (lg_checkpoints lg)) \<rparr>) lg = Inr ()"
  using assms validate_last [OF assms(1), of FState] last_sequence [OF assms(1)]
  by (simp add: check_baseline_Inr last_or_default_def last_conv_nth)

text \<open>Accounting after reopening a recovery set is the accounting of its last record.\<close>

lemma reopened_accounting:
  assumes "disk_ok C fs lg st" "bt_ok (st_providers st)" "bt_ok (st_providers (last_or_default lg))"
    "provider_keys st \<subseteq> provider_keys (last_or_default lg)"
  shows "accounting (if st_checkpoint st = Some (last (lg_checkpoints lg)) then st
             else replay_store (last_or_default lg) st) = accounting (last_or_default lg)"
proof (cases "st_checkpoint st = Some (last (lg_checkpoints lg))")
  case True
  have "log_ok lg" "lg_states lg \<noteq> []" using disk_states [OF assms(1)] by simp_all
  then show ?thesis
    using True assms(1) last_sequence [of lg]
    by (auto simp: disk_ok_def check_baseline_Inr last_or_default_def last_conv_nth)
next
  case False
  then show ?thesis using accounting_replay [OF assms(3,2,4)] by simp
qed

definition reopened_as :: "'b codec \<Rightarrow> 'b world \<Rightarrow> (string, accounting) btree \<Rightarrow> bool" where
  "reopened_as C w acc \<longleftrightarrow>
     (\<exists>p store recovered v. persistence_open C (reboot w) = (Inr (p, store, recovered), v) \<and>
        accounting store = acc \<and> accounting (pe_committed p) = acc)"

text \<open>Files from which the next process resumes, with the log they hold and the snapshot.\<close>

definition recoverable :: "'b codec \<Rightarrow> 'b world \<Rightarrow> log \<Rightarrow> scheduler_store \<Rightarrow> bool" where
  "recoverable C w lg st \<longleftrightarrow>
     disk_ok C (w_files w) lg st \<and> plain_path w \<and> bt_ok (st_providers st) \<and>
     bt_ok (st_providers (last_or_default lg)) \<and> provider_keys st \<subseteq> provider_keys (last_or_default lg)"

lemma recoverable_reboot: "recoverable C (reboot w) lg st = recoverable C w lg st"
  by (simp add: recoverable_def reboot_def plain_path_def)

lemma reopen:
  assumes "codec_ok C" "recoverable C w lg st"
  shows "reopened_as C w (accounting (last_or_default lg))"
proof -
  have "disk_ok C (w_files (reboot w)) lg st" "w_faults (reboot w) = []"
    "\<not> w_locked_elsewhere (reboot w)" "plain_path (reboot w)"
    using assms(2) by (simp_all add: recoverable_def reboot_def plain_path_def)
  from open_disk [OF assms(1) this] reopened_accounting [of C "w_files w" lg st] assms(2) show ?thesis
    unfolding reopened_as_def recoverable_def by force
qed

text \<open>Opening fails closed on a log whose last record is torn.\<close>

definition torn :: "'b codec \<Rightarrow> 'b world \<Rightarrow> bool" where
  "torn C w \<longleftrightarrow> plain_path w \<and>
     (\<exists>L b st m. w_files w FLedger = Some L \<and> w_files w FState = Some b \<and> w_files w FMarker = Some m \<and>
        parse_store C FState b = Inr st \<and> m \<noteq> [] \<and>
        read_log C FLedger L = Inl (SCorrupt FLedger ''accounting log has an incomplete final record''))"

lemma open_torn:
  assumes "torn C w"
  shows "\<exists>v. persistence_open C (reboot w) =
    (Inl (SCorrupt FLedger ''accounting log has an incomplete final record''), v)"
proof -
  let ?w = "reboot w"
  obtain L b st m where L: "w_files w FLedger = Some L" "w_files w FState = Some b" "w_files w FMarker = Some m"
    "parse_store C FState b = Inr st" "m \<noteq> []"
    "read_log C FLedger L = Inl (SCorrupt FLedger ''accounting log has an incomplete final record'')"
    using assms by (auto simp: torn_def)
  have w: "w_faults ?w = []" "\<not> w_locked_elsewhere ?w" "w_files ?w = w_files w" "plain_path ?w"
    using assms by (simp_all add: torn_def reboot_def plain_path_def)
  define v where "v = set_file FLock (Some []) (?w \<lparr> w_missing_dirs := 0 \<rparr>)"
  have v: "w_faults v = []" "w_files v FLedger = Some L" "w_files v FState = Some b"
    "w_files v FMarker = Some m"
    using L w by (simp_all add: v_def set_file_def)
  then show ?thesis
    using w L
    by (simp add: persistence_open_def plain_path_def io_bind_def no_fault_lock v_def [symmetric]
        no_fault_steps io_return_def io_lift_def open_log_def)
qed

lemma persist_path:
  assumes "persist C p store w = (r, p', store', w')"
  shows "w_state_extension w' = w_state_extension w"
proof -
  note k = keeps_pathD [OF keeps_verify] keeps_pathD [OF keeps_commit] keeps_pathD [OF keeps_writes(1)]
  show ?thesis
    using assms unfolding persist_def Let_def
    by (auto split: if_splits prod.splits sum.splits option.splits dest!: k)
qed

text \<open>The recovery sets of the four outcomes.\<close>

lemma disk_same:
  assumes "disk_ok C fs lg st" "fs' FLedger = fs FLedger" "fs' FMarker = fs FMarker" "fs' FState = fs FState"
  shows "disk_ok C fs' lg st"
  using assms by (simp add: disk_ok_def)

lemma disk_extended:
  assumes "codec_ok C" "disk_ok C fs lg st" "fs FLedger = Some L" "pe_checkpoint p = last (lg_checkpoints lg)"
    "committable p store" "validate_store FState store = Inr ()"
    "fs' FLedger = Some (L @ commit_line C p store)"
    "fs' FMarker \<in> {fs FMarker, Some (jc_checkpoint C (commit_target C p store))}"
    "fs' FState = fs FState"
  defines "lg' \<equiv> extend_log lg (commit_target C p store, store \<lparr> st_checkpoint := None \<rparr>)"
  shows "disk_ok C fs' lg' st"
proof -
  have log: "read_log C FLedger L = Inr lg" using assms(2,3) by (auto simp: disk_ok_def)
  have "read_record C FLedger (last (lg_checkpoints lg)) (jc_record C (commit_record C p store)) =
      Inr (commit_target C p store, store \<lparr> st_checkpoint := None \<rparr>)"
    using commit_record_read [OF assms(1,5,6), of FLedger] by (simp add: assms(4) commit_state)
  moreover have "jc_newline C \<notin> set (jc_record C (commit_record C p store))"
    using assms(1) by (simp add: codec_ok_def)
  ultimately have log': "read_log C FLedger (L @ commit_line C p store) = Inr lg'"
    using read_log_append [OF log] unfolding lg'_def commit_line_def by blast
  have last: "last (lg_checkpoints lg') = commit_target C p store"
    by (simp add: lg'_def extend_log_def)
  have "\<exists>cp. fs' FMarker = Some (jc_checkpoint C cp) \<and> validate_checkpoint FMarker cp lg' = Inr ()"
  proof (cases "fs' FMarker = fs FMarker")
    case True
    then show ?thesis
      using assms(2) validate_extend [of FMarker _ lg FMarker] by (auto simp: disk_ok_def lg'_def)
  next
    case False
    then show ?thesis
      using assms(8) validate_last [OF read_log_ok [OF log']] by (auto simp: last)
  qed
  then show ?thesis
    using assms(2,7,9) log' baseline_extend [of st lg]
    by (auto simp: disk_ok_def lg'_def)
qed

lemma disk_new_snapshot:
  assumes "codec_ok C" "disk_ok C fs lg st" "committable p store" "validate_store FState store = Inr ()"
    "accounting store = accounting (last_or_default lg)"
    "fs' FLedger = fs FLedger" "fs' FMarker = fs FMarker"
    "fs' FState = Some (jc_store C (store \<lparr> st_checkpoint := Some (last (lg_checkpoints lg)) \<rparr>))"
  shows "disk_ok C fs' lg (store \<lparr> st_checkpoint := Some (last (lg_checkpoints lg)) \<rparr>)"
proof -
  let ?s = "store \<lparr> st_checkpoint := Some (last (lg_checkpoints lg)) \<rparr>"
  have "parse_store C FState (jc_store C ?s) = Inr ?s"
    using assms(1,3,4) by (simp add: parse_store_def parse_at_def codec_ok_def committable_def)
  moreover have "check_baseline ?s lg = Inr ()"
    using disk_states [OF assms(2)] assms(5) by (intro baseline_last) simp_all
  ultimately show ?thesis using assms(2,6,7,8) by (auto simp: disk_ok_def)
qed

text \<open>The log and the snapshot on disk after a commit that reached the marker.\<close>

definition log_after :: "'b codec \<Rightarrow> persistence \<Rightarrow> scheduler_store \<Rightarrow> log \<Rightarrow> log" where
  "log_after C p store lg =
     (if accounting store = accounting (pe_committed p) then lg
      else extend_log lg (commit_target C p store, store \<lparr> st_checkpoint := None \<rparr>))"

lemma log_after_simps:
  assumes "pe_checkpoint p = last (lg_checkpoints lg)" "pe_committed p = last_or_default lg"
  shows "last (lg_checkpoints (log_after C p store lg)) = pe_checkpoint (after_commit C p store)"
    "last_or_default (log_after C p store lg) = pe_committed (after_commit C p store)"
    "accounting (last_or_default (log_after C p store lg)) = accounting store"
  using assms by (simp_all add: log_after_def after_commit_def extend_log_def commit_state
      last_or_default_def)

lemma persist_full:
  assumes C: "codec_ok C" and inst: "installed C p w lg st" and com: "committable p store"
    and valid: "validate_store FState store = Inr ()"
    and files: "if accounting store = accounting (pe_committed p)
      then fs' FLedger = w_files w FLedger \<and> fs' FMarker = w_files w FMarker
      else fs' FLedger = Some (the (w_files w FLedger) @ commit_line C p store) \<and>
           fs' FMarker = Some (jc_checkpoint C (commit_target C p store))"
  shows "fs' FState = w_files w FState \<Longrightarrow> disk_ok C fs' (log_after C p store lg) st"
    and "fs' FState = Some (jc_store C (store \<lparr> st_checkpoint := Some (pe_checkpoint (after_commit C p store)) \<rparr>))
      \<Longrightarrow> disk_ok C fs' (log_after C p store lg)
            (store \<lparr> st_checkpoint := Some (pe_checkpoint (after_commit C p store)) \<rparr>)"
proof -
  have inst': "disk_ok C (w_files w) lg st" "pe_checkpoint p = last (lg_checkpoints lg)"
    "pe_committed p = last_or_default lg"
    using inst by (simp_all add: installed_def)
  obtain L where L: "w_files w FLedger = Some L" using inst'(1) by (auto simp: disk_ok_def)
  have mid: "disk_ok C (fs' (FState := w_files w FState)) (log_after C p store lg) st"
  proof (cases "accounting store = accounting (pe_committed p)")
    case True
    then show ?thesis using files disk_same [OF inst'(1)] by (simp add: log_after_def)
  next
    case False
    then show ?thesis
      using files disk_extended [OF C inst'(1) L inst'(2) com valid] L by (simp add: log_after_def)
  qed
  then show "fs' FState = w_files w FState \<Longrightarrow> disk_ok C fs' (log_after C p store lg) st"
    by (rule disk_same) simp_all
  show "disk_ok C fs' (log_after C p store lg)
            (store \<lparr> st_checkpoint := Some (pe_checkpoint (after_commit C p store)) \<rparr>)"
    if "fs' FState = Some (jc_store C (store \<lparr> st_checkpoint := Some (pe_checkpoint (after_commit C p store)) \<rparr>))"
    using disk_new_snapshot [OF C mid com valid] log_after_simps [OF inst'(2,3), of C store] that
    by simp
qed

lemma after_commit_keys:
  assumes "installed C p w lg st" "committable p store"
  shows "provider_keys st \<subseteq> provider_keys (pe_committed (after_commit C p store))"
    "bt_ok (st_providers (pe_committed (after_commit C p store)))"
    "accounting store = accounting (pe_committed (after_commit C p store))"
    "provider_keys store = provider_keys (pe_committed (after_commit C p store))"
proof -
  show acc: "accounting store = accounting (pe_committed (after_commit C p store))"
    by (simp add: after_commit_def commit_state)
  have keys: "provider_keys s = fst ` set (accounting s)" for s
    by (force simp: provider_keys_def accounting_def)
  show eq: "provider_keys store = provider_keys (pe_committed (after_commit C p store))"
    by (simp add: keys acc)
  show "bt_ok (st_providers (pe_committed (after_commit C p store)))"
    using assms by (auto simp: after_commit_def commit_state installed_def committable_def)
  show "provider_keys st \<subseteq> provider_keys (pe_committed (after_commit C p store))"
    using assms eq unfolding installed_def committable_def by blast
qed

text \<open>The three ways a commit can leave the files, as cases.\<close>

lemma persist_outcomes:
  assumes "installed C p w lg st" "persist C p store w = (r, p', store', w')"
  defines "q \<equiv> after_commit C p store"
  defines "new \<equiv> store \<lparr> st_checkpoint := Some (pe_checkpoint q) \<rparr>"
  obtains (cut) L e n where "r = Inl e" "w_files w FLedger = Some L"
      "w_files w' FLedger = Some (L @ take n (commit_line C p store))"
      "w_files w' FMarker = w_files w FMarker" "w_files w' FState = w_files w FState"
      "accounting store = accounting (pe_committed p) \<or> validate_store FState store \<noteq> Inr () \<longrightarrow> n = 0"
  | (logged) L e where "r = Inl e" "w_files w FLedger = Some L" "accounting store \<noteq> accounting (pe_committed p)"
      "validate_store FState store = Inr ()"
      "w_files w' FLedger = Some (L @ commit_line C p store)"
      "w_files w' FMarker \<in> {w_files w FMarker, Some (jc_checkpoint C (commit_target C p store))}"
      "w_files w' FState = w_files w FState"
  | (full) L where "validate_store FState store = Inr ()" "store' = new" "w_files w FLedger = Some L"
      "if accounting store = accounting (pe_committed p)
       then w_files w' FLedger = Some L \<and> w_files w' FMarker = w_files w FMarker
       else w_files w' FLedger = Some (L @ commit_line C p store) \<and>
            w_files w' FMarker = Some (jc_checkpoint C (commit_target C p store))"
      "w_files w' FState \<in> {w_files w FState, Some (jc_store C new)}"
      "r = Inr () \<longrightarrow> w_files w' FState = Some (jc_store C new) \<and>
         p' = q \<lparr> pe_snapshot_digest := Some (jc_digest C (jc_store C new)), pe_poisoned := False \<rparr>"
proof -
  obtain L where L: "\<not> pe_poisoned p" "w_files w FLedger = Some L"
    using assms(1) by (auto simp: installed_def disk_ok_def)
  from persist_effect [OF assms(2) L, folded q_def, folded new_def] show ?thesis
    using that L(2) by blast
qed

lemma persist_disk:
  assumes C: "codec_ok C" and inst: "installed C p w lg st" and com: "committable p store"
    and run: "persist C p store w = (r, p', store', w')"
  shows "(\<exists>lg' st'. recoverable C w' lg' st' \<and> st' \<in> {st, store'} \<and>
      accounting (last_or_default lg') \<in> {accounting (pe_committed p), accounting store}) \<or>
    (r \<noteq> Inr () \<and> torn C w')"
proof -
  have inst': "disk_ok C (w_files w) lg st" "plain_path w" "pe_checkpoint p = last (lg_checkpoints lg)"
    "pe_committed p = last_or_default lg" "bt_ok (st_providers st)" "bt_ok (st_providers (pe_committed p))"
    "provider_keys st \<subseteq> provider_keys (pe_committed p)"
    using inst unfolding installed_def by blast+
  have path: "plain_path w'"
    using persist_path [OF run] inst'(2) by (simp add: plain_path_def)
  let ?q = "after_commit C p store" and ?lg = "log_after C p store lg"
  let ?new = "store \<lparr> st_checkpoint := Some (pe_checkpoint ?q) \<rparr>"
  note la = log_after_simps [OF inst'(3,4), of C store]
  note keys = after_commit_keys [OF inst com]
  have ext: "recoverable C w' ?lg s" if "disk_ok C (w_files w') ?lg s" "s = st \<or> s = ?new" for s
    using that path keys inst'(5) com la by (auto simp: recoverable_def committable_def)
  have old: "recoverable C w' lg st" if "disk_ok C (w_files w') lg st"
    using that path inst' by (simp add: recoverable_def)
  show ?thesis using inst run
  proof (cases rule: persist_outcomes)
    case (cut L e n)
    let ?r = "jc_record C (commit_record C p store)"
    consider "n = 0" | "0 < n" "n \<le> length ?r" | "length ?r < n" by linarith
    then show ?thesis
    proof cases
      case 1
      then have "recoverable C w' lg st" using old disk_same [OF inst'(1)] cut by simp
      then show ?thesis by (auto simp: inst'(4))
    next
      case 2
      have "read_log C FLedger (L @ take n (commit_line C p store)) =
          Inl (SCorrupt FLedger ''accounting log has an incomplete final record'')"
        unfolding commit_line_def using C 2 inst'(1) cut(2)
        by (intro read_log_torn) (auto simp: codec_ok_def disk_ok_def)
      then have "torn C w'"
        using inst'(1) C cut path by (auto simp: torn_def disk_ok_def codec_ok_def)
      then show ?thesis using cut(1) by simp
    next
      case 3
      then have "take n (commit_line C p store) = commit_line C p store"
        by (simp add: commit_line_def)
      moreover have "accounting store \<noteq> accounting (pe_committed p)" "validate_store FState store = Inr ()"
        using cut(6) 3 by auto
      ultimately have "disk_ok C (w_files w') ?lg st"
        using disk_extended [OF C inst'(1) _ inst'(3) com] cut by (simp add: log_after_def)
      then show ?thesis using ext la by blast
    qed
  next
    case (logged L e)
    then have "disk_ok C (w_files w') ?lg st"
      using disk_extended [OF C inst'(1) _ inst'(3) com] by (simp add: log_after_def)
    then show ?thesis using ext la by blast
  next
    case (full L)
    have "if accounting store = accounting (pe_committed p)
      then w_files w' FLedger = w_files w FLedger \<and> w_files w' FMarker = w_files w FMarker
      else w_files w' FLedger = Some (the (w_files w FLedger) @ commit_line C p store) \<and>
           w_files w' FMarker = Some (jc_checkpoint C (commit_target C p store))"
      using full(3,4) by simp
    from persist_full [OF C inst com full(1) this]
    have "disk_ok C (w_files w') ?lg st \<or> disk_ok C (w_files w') ?lg ?new"
      using full(5) by blast
    then show ?thesis using ext la full(2) by blast
  qed
qed

lemma persist_installed:
  assumes C: "codec_ok C" and inst: "installed C p w lg st" and com: "committable p store"
    and run: "persist C p store w = (Inr (), p', store', w')"
  shows "installed C p' w' (log_after C p store lg) store'"
  using inst run
proof (cases rule: persist_outcomes)
  case (full L)
  let ?q = "after_commit C p store" and ?lg = "log_after C p store lg"
  let ?new = "store \<lparr> st_checkpoint := Some (pe_checkpoint ?q) \<rparr>"
  have path: "plain_path w'"
    using persist_path [OF run] inst by (simp add: plain_path_def installed_def)
  have pe: "pe_checkpoint p = last (lg_checkpoints lg)" "pe_committed p = last_or_default lg"
    using inst by (simp_all add: installed_def)
  note la = log_after_simps(1,2) [OF pe, of C store]
  have fullr: "w_files w' FState = Some (jc_store C ?new)"
    "p' = ?q \<lparr> pe_snapshot_digest := Some (jc_digest C (jc_store C ?new)), pe_poisoned := False \<rparr>"
    using full(6) by simp_all
  have "disk_ok C (w_files w') ?lg ?new"
    using persist_full(2) [OF C inst com full(1), of "w_files w'"] full(3,4) fullr(1) by simp
  moreover have "w_files w' FMarker = Some (jc_checkpoint C (pe_checkpoint ?q))"
    "Some (pe_ledger_len ?q) = map_option length (w_files w' FLedger)"
    using full(3,4) inst by (auto simp: after_commit_def installed_def)
  ultimately show ?thesis
    using path la after_commit_keys [OF inst com] com fullr full(2)
    by (simp add: installed_def committable_def)
qed simp_all

lemma installed_recoverable: "installed C p w lg st \<Longrightarrow> recoverable C w lg st"
  by (auto simp: installed_def recoverable_def)

lemma persist_reopen:
  assumes C: "codec_ok C" and inst: "installed C p w lg st" and com: "committable p store"
    and run: "persist C p store w = (r, p', store', w')"
  shows "reopened_as C w' (accounting (pe_committed p)) \<or> reopened_as C w' (accounting store) \<or>
    (r \<noteq> Inr () \<and> (\<exists>v. persistence_open C (reboot w') =
       (Inl (SCorrupt FLedger ''accounting log has an incomplete final record''), v)))"
    and "r = Inr () \<Longrightarrow> reopened_as C w' (accounting store)"
    and "r = Inr () \<Longrightarrow> installed C p' w' (log_after C p store lg) store'"
proof -
  show "reopened_as C w' (accounting (pe_committed p)) \<or> reopened_as C w' (accounting store) \<or>
    (r \<noteq> Inr () \<and> (\<exists>v. persistence_open C (reboot w') =
       (Inl (SCorrupt FLedger ''accounting log has an incomplete final record''), v)))"
    using persist_disk [OF assms] reopen [OF C] open_torn by fastforce
  show "installed C p' w' (log_after C p store lg) store'" if "r = Inr ()"
    using persist_installed [OF C inst com] run that by simp
  moreover have "accounting (last_or_default (log_after C p store lg)) = accounting store"
    using inst by (intro log_after_simps(3)) (simp_all add: installed_def)
  ultimately show "reopened_as C w' (accounting store)" if "r = Inr ()"
    using reopen [OF C installed_recoverable] that by metis
qed

lemma persist_ok_reopen:
  assumes "codec_ok C" "installed C p w lg st" "committable p store"
    "persist C p store w = (Inr (), p', store', w')"
  shows "\<exists>q v. persistence_open C (reboot w') = (Inr (q, store', False), v) \<and>
    accounting (pe_committed q) = accounting store"
proof -
  note inst = persist_reopen(3) [OF assms refl]
  let ?lg = "log_after C p store lg"
  have st: "st_checkpoint store' = Some (last (lg_checkpoints ?lg))"
    using persist_effect [OF assms(4), of "the (w_files w FLedger)"] assms(2)
      log_after_simps [of p lg C store]
    by (auto simp: installed_def disk_ok_def)
  have "disk_ok C (w_files (reboot w')) ?lg store'" "w_faults (reboot w') = []"
    "\<not> w_locked_elsewhere (reboot w')" "plain_path (reboot w')"
    using inst by (auto simp: installed_def reboot_def plain_path_def)
  from open_disk [OF assms(1) this] st
  have "\<exists>q v. persistence_open C (reboot w') = (Inr (q, store', False), v) \<and>
      pe_committed q = last_or_default ?lg"
    by force
  moreover have "accounting (last_or_default ?lg) = accounting store"
    using assms(2) by (intro log_after_simps(3)) (auto simp: installed_def)
  ultimately show ?thesis by auto
qed

subsection \<open>Properties\<close>

text \<open>
  C3. Crash safety of the accounting commit. From an intact recovery set, run one
  \<open>persist\<close> under any schedule of I/O failures (each may cut a write after any number of
  bytes, and the process may die there), then reopen: the reopened scheduler holds exactly
  the accounting committed before or exactly the accounting being committed, never a mixture
  or an older one, or else opening fails closed on a torn final log record, and this only if
  the commit had not been acknowledged.
\<close>

theorem commit_survives_crash:
  assumes "codec_ok C" "installed C p w lg st" "committable p store"
    "persist C p store w = (r, p', store', w')"
  shows "reopened_as C w' (accounting (pe_committed p)) \<or> reopened_as C w' (accounting store) \<or>
    (r \<noteq> Inr () \<and> (\<exists>v. persistence_open C (reboot w') =
       (Inl (SCorrupt FLedger ''accounting log has an incomplete final record''), v)))"
  by (rule persist_reopen(1) [OF assms])

text \<open>
  C5. Durability. When \<open>persist\<close> returns success, reopening the files returns exactly the
  store that was persisted, without recovery, with the persisted accounting committed, and
  the running scheduler is again in the state the next commit starts from.
\<close>

theorem acknowledged_commit_durable:
  assumes "codec_ok C" "installed C p w lg st" "committable p store"
    "persist C p store w = (Inr (), p', store', w')"
  shows "(\<exists>q v. persistence_open C (reboot w') = (Inr (q, store', False), v) \<and>
            accounting (pe_committed q) = accounting store) \<and>
    installed C p' w' (log_after C p store lg) store'"
  using persist_ok_reopen [OF assms] persist_reopen(3) [OF assms refl] by blast

lemma failed_persist:
  assumes "persist C p store w = (Inl e, p', store', w')" shows "pe_poisoned p'"
proof (cases "pe_poisoned p")
  case True
  then show ?thesis using assms by (simp add: persist_def)
next
  case False
  have commit: "persist_commit C q s u = (Inr q', u') \<Longrightarrow> pe_poisoned q' = pe_poisoned q" for q q' s u u'
    by (auto simp: persist_commit_def Let_def io_fail_def io_bind_Inr io_return_def split: if_splits)
  show ?thesis
    using assms False unfolding persist_def Let_def
    by (auto split: prod.splits sum.splits option.splits if_splits dest!: commit)
qed

text \<open>
  C6. Fail-stop. A failed \<open>persist\<close> poisons the scheduler: every later \<open>persist\<close> fails
  without touching a file, so nothing is admitted on memory that the disk does not back.
\<close>

theorem failed_persist_poisons:
  assumes "persist C p store w = (Inl e, p', store', w')"
  shows "pe_poisoned p' \<and> (\<forall>next v. \<exists>e'. persist C p' next v = (Inl e', p', next, v))"
  using failed_persist [OF assms] by (simp add: persist_def)

subsection \<open>A concrete recovery set\<close>

datatype demo_byte =
  DNewline | DStore scheduler_store | DRecord log_record | DHeader log_header | DCheckpoint checkpoint

definition demo_codec :: "demo_byte codec" where
  "demo_codec =
     \<lparr> jc_newline = DNewline, jc_store = (\<lambda>s. [DStore s]), jc_record = (\<lambda>r. [DRecord r]),
       jc_header = (\<lambda>h. [DHeader h]), jc_checkpoint = (\<lambda>c. [DCheckpoint c]),
       jc_content = (\<lambda>n d s. [DStore s]),
       jc_parse_store = (\<lambda>b. case b of [DStore s] \<Rightarrow> Inr s | _ \<Rightarrow> Inl ''json''),
       jc_parse_record = (\<lambda>b. case b of [DRecord r] \<Rightarrow> Inr r | _ \<Rightarrow> Inl ''json''),
       jc_parse_header = (\<lambda>b. case b of [DHeader h] \<Rightarrow> Inr h | _ \<Rightarrow> Inl ''json''),
       jc_parse_checkpoint = (\<lambda>b. case b of [DCheckpoint c] \<Rightarrow> Inr c | _ \<Rightarrow> Inl ''json''),
       jc_digest = (\<lambda>b. if b = [] then ''0'' else ''1'') \<rparr>"

definition demo_header :: log_header where
  "demo_header = \<lparr> lh_version = 1, lh_installation = replicate 32 (CHR ''a'') \<rparr>"

definition demo_cp :: "nat \<Rightarrow> checkpoint" where
  "demo_cp n = \<lparr> cp_version = 1, cp_installation = replicate 32 (CHR ''a''), cp_sequence = n,
     cp_digest = ''1'' \<rparr>"

definition demo_log :: log where
  "demo_log = \<lparr> lg_checkpoints = [demo_cp 0, demo_cp 1], lg_states = [store_default] \<rparr>"

definition demo_world :: "demo_byte world" where
  "demo_world =
     \<lparr> w_files = (\<lambda>_. None)
         (FLedger := Some [DHeader demo_header, DNewline, DRecord (record_new demo_codec 1 ''1'' store_default), DNewline],
          FMarker := Some [DCheckpoint (demo_cp 1)],
          FState := Some [DStore (store_default \<lparr> st_checkpoint := Some (demo_cp 1) \<rparr>)]),
       w_faults = [], w_state_extension = Some ''json'', w_missing_dirs = 0,
       w_locked_elsewhere = False, w_random = Some (replicate 16 0), w_next_id = 0 \<rparr>"

definition demo_persistence :: persistence where
  "demo_persistence =
     \<lparr> pe_checkpoint = demo_cp 1, pe_committed = store_default, pe_snapshot_digest = Some ''1'',
       pe_ledger_len = 4, pe_poisoned = False \<rparr>"

lemma demo_codec_ok: "codec_ok demo_codec"
  by (simp add: codec_ok_def demo_codec_def)

lemma demo_read_log:
  "read_log demo_codec FLedger [DHeader demo_header, DNewline,
     DRecord (record_new demo_codec 1 ''1'' store_default), DNewline] = Inr demo_log"
  by (simp add: read_log_def demo_codec_def demo_header_def STATE_SCHEMA_VERSION_def parse_at_def
      header_checkpoint_def read_record_def record_new_def computed_digest_def demo_log_def demo_cp_def
      store_default_def validate_store_def is_hex_digit_def code_def Let_def list_all_iff)

lemma demo_installed:
  "installed demo_codec demo_persistence (demo_world \<lparr> w_faults := fs \<rparr>) demo_log
     (store_default \<lparr> st_checkpoint := Some (demo_cp 1) \<rparr>)"
proof -
  have "parse_store demo_codec FState [DStore (store_default \<lparr> st_checkpoint := Some (demo_cp 1) \<rparr>)] =
      Inr (store_default \<lparr> st_checkpoint := Some (demo_cp 1) \<rparr>)"
    by (simp add: parse_store_def parse_at_def demo_codec_def store_default_def validate_store_def)
  moreover have "check_baseline (store_default \<lparr> st_checkpoint := Some (demo_cp 1) \<rparr>) demo_log = Inr ()"
    by (simp add: check_baseline_def validate_checkpoint_def demo_log_def demo_cp_def)
  moreover have valid: "validate_checkpoint FMarker (demo_cp 1) demo_log = Inr ()"
    by (simp add: validate_checkpoint_def demo_log_def demo_cp_def)
  moreover have marker: "w_files demo_world FMarker = Some (jc_checkpoint demo_codec (demo_cp 1))"
    by (simp add: demo_world_def demo_codec_def)
  moreover have "w_files demo_world FLedger = Some [DHeader demo_header, DNewline,
     DRecord (record_new demo_codec 1 ''1'' store_default), DNewline]"
    "w_files demo_world FState = Some [DStore (store_default \<lparr> st_checkpoint := Some (demo_cp 1) \<rparr>)]"
    by (simp_all add: demo_world_def)
  ultimately have "disk_ok demo_codec (w_files demo_world) demo_log
      (store_default \<lparr> st_checkpoint := Some (demo_cp 1) \<rparr>)"
    unfolding disk_ok_def using demo_read_log by blast
  moreover have "pe_checkpoint demo_persistence = demo_cp 1" by (simp add: demo_persistence_def)
  moreover have "pe_snapshot_digest demo_persistence = map_option (jc_digest demo_codec) (w_files demo_world FState)"
    "Some (pe_ledger_len demo_persistence) = map_option length (w_files demo_world FLedger)"
    by (simp_all add: demo_persistence_def demo_world_def demo_codec_def)
  ultimately show ?thesis
    using marker
    by (simp add: installed_def plain_path_def provider_keys_def)
      (simp add: demo_persistence_def demo_log_def last_or_default_def store_default_def demo_world_def)
qed

definition demo_store :: scheduler_store where
  "demo_store = \<lparr> st_schema_version = 1, st_providers = [(''p'', demo_provider)], st_checkpoint = None \<rparr>"

lemma demo_committable: "committable demo_persistence demo_store"
  by (simp add: committable_def demo_store_def demo_persistence_def store_default_def provider_keys_def
      STATE_SCHEMA_VERSION_def bt_ok_def)

text \<open>The commit of a first provider whose marker write fails: the log record survives.\<close>

theorem commit_survives_crash_witness:
  "\<exists>r p' s' w'. persist demo_codec demo_persistence demo_store
      (demo_world \<lparr> w_faults := [None, None, None, None, None, None, Some (0, IoOther ''disk'')] \<rparr>) = (r, p', s', w') \<and>
    (reopened_as demo_codec w' (accounting store_default) \<or> reopened_as demo_codec w' (accounting demo_store) \<or>
     (r \<noteq> Inr () \<and> (\<exists>v. persistence_open demo_codec (reboot w') =
       (Inl (SCorrupt FLedger ''accounting log has an incomplete final record''), v))))"
proof -
  let ?w = "demo_world \<lparr> w_faults := [None, None, None, None, None, None, Some (0, IoOther ''disk'')] \<rparr>"
  obtain r p' s' w' where run: "persist demo_codec demo_persistence demo_store ?w = (r, p', s', w')"
    by (metis prod_cases4)
  have "pe_committed demo_persistence = store_default" by (simp add: demo_persistence_def)
  with commit_survives_crash [OF demo_codec_ok demo_installed demo_committable run] run
  show ?thesis by auto
qed

lemma no_fault_append:
  assumes "w_faults w = []" "w_files w f = Some base"
  shows "append_synced f b w = (Inr (), set_file f (Some (base @ b)) w)"
  using assms by (simp add: append_synced_def io_bind_def no_fault_steps)

lemma no_fault_file_len:
  assumes "w_faults w = []" "w_files w f = Some c"
  shows "file_len f w = (Inr (length c), w)"
  using assms by (simp add: file_len_def io_fault_def)

lemma set_file_simps [simp]:
  "w_faults (set_file f c w) = w_faults w" "w_files (set_file f c w) = (w_files w)(f := c)"
  by (simp_all add: set_file_def)

text \<open>Without faults a valid store is committed.\<close>

lemma persist_no_fault:
  assumes "codec_ok C" "installed C p w lg st" "validate_store FState store = Inr ()"
    "w_faults w = []" "cp_sequence (pe_checkpoint p) < u64_max"
  shows "\<exists>p' store' w'. persist C p store w = (Inr (), p', store', w') \<and> w_faults w' = []"
proof -
  obtain L b where L: "w_files w FLedger = Some L" "pe_ledger_len p = length L"
    and b: "w_files w FState = Some b" "pe_snapshot_digest p = Some (jc_digest C b)"
    and m: "w_files w FMarker = Some (jc_checkpoint C (pe_checkpoint p))" "\<not> pe_poisoned p"
    using assms(2) by (auto simp: installed_def disk_ok_def)
  have cp: "jc_parse_checkpoint C (jc_checkpoint C (pe_checkpoint p)) = Inr (pe_checkpoint p)"
    using assms(1) by (simp add: codec_ok_def)
  let ?p = "p \<lparr> pe_poisoned := True \<rparr>"
  have ver: "persist_verify C ?p store w = (Inr (Some b), w)"
    using assms(3,4) L b m cp
    by (simp add: persist_verify_def io_bind_def io_lift_def no_fault_steps read_required_def
        io_return_def parse_at_def no_fault_file_len)
  have "\<exists>q v. (if accounting store \<noteq> accounting (pe_committed ?p)
      then persist_commit C ?p store w else (Inr ?p, w)) = (Inr q, v) \<and> w_faults v = []"
    using assms(4,5) L(1)
    by (simp add: persist_commit_def checked_add_def Let_def io_bind_def no_fault_append
        no_fault_atomic_write io_return_def)
  then obtain q v where "(if accounting store \<noteq> accounting (pe_committed ?p)
      then persist_commit C ?p store w else (Inr ?p, w)) = (Inr q, v)" "w_faults v = []" by blast
  then show ?thesis
    using m(2) ver by (simp add: persist_def Let_def no_fault_atomic_write)
qed

lemma demo_valid: "validate_store FState demo_store = Inr ()"
  by (simp add: validate_store_def provider_valid_def demo_store_def demo_provider_def)

theorem acknowledged_commit_durable_witness:
  "\<exists>p' s' w'. persist demo_codec demo_persistence demo_store demo_world = (Inr (), p', s', w') \<and>
     (\<exists>q v. persistence_open demo_codec (reboot w') = (Inr (q, s', False), v) \<and>
        accounting (pe_committed q) = accounting demo_store)"
proof -
  have inst: "installed demo_codec demo_persistence demo_world demo_log
      (store_default \<lparr> st_checkpoint := Some (demo_cp 1) \<rparr>)"
    using demo_installed [of "[]"] by (simp add: demo_world_def)
  obtain p' s' w' where run: "persist demo_codec demo_persistence demo_store demo_world = (Inr (), p', s', w')"
    using persist_no_fault [OF demo_codec_ok inst demo_valid]
    by (auto simp: demo_world_def demo_persistence_def demo_cp_def)
  from acknowledged_commit_durable [OF demo_codec_ok inst demo_committable run] run show ?thesis by blast
qed

theorem failed_persist_poisons_witness:
  "\<exists>e p' s' w'. persist demo_codec demo_persistence demo_store
      (demo_world \<lparr> w_faults := [Some (0, IoPermissionDenied)] \<rparr>) = (Inl e, p', s', w') \<and>
    (\<exists>e'. persist demo_codec p' demo_store demo_world = (Inl e', p', demo_store, demo_world))"
proof -
  let ?w = "demo_world \<lparr> w_faults := [Some (0, IoPermissionDenied)] \<rparr>"
  have "persist_verify demo_codec (demo_persistence \<lparr> pe_poisoned := True \<rparr>) demo_store ?w =
      (Inl (SIo FState IoPermissionDenied), ?w \<lparr> w_faults := [] \<rparr>)"
    using demo_valid
    by (simp add: persist_verify_def io_bind_def io_lift_def read_optional_def io_fault_def)
  then have run: "persist demo_codec demo_persistence demo_store ?w =
      (Inl (SIo FState IoPermissionDenied), demo_persistence \<lparr> pe_poisoned := True \<rparr>, demo_store,
       ?w \<lparr> w_faults := [] \<rparr>)"
    by (simp add: persist_def Let_def demo_persistence_def)
  from failed_persist_poisons [OF run] run show ?thesis by blast
qed

end
