(* ===== verification/SchedulerProps.thy ===== *)
theory SchedulerProps
  imports Scheduler PersistenceProps
begin

text \<open>
  The invariant of the scheduler and its preservation by every operation. The operations are
  first reduced to what they do to the active provider's state; the pure functions keep the
  provider invariant, the rest is framing.
\<close>

subsection \<open>Framing\<close>

lemma persist_store:
  assumes "persist C p store w = (r, p', store', w')"
  shows "\<exists>c. store' = store \<lparr> st_checkpoint := c \<rparr>"
proof -
  have id: "store = store \<lparr> st_checkpoint := st_checkpoint store \<rparr>" by simp
  show ?thesis
    using assms unfolding persist_def Let_def
    by (auto split: if_splits prod.splits sum.splits option.splits intro: exI [of _ "st_checkpoint store"])
qed

lemma sched_persist_frame [frame]:
  assumes "sched_persist C s = (r, s')"
  shows "sc_policy s' = sc_policy s" "st_providers (sc_store s') = st_providers (sc_store s)"
    "st_schema_version (sc_store s') = st_schema_version (sc_store s)" "sstate s' = sstate s"
  using assms persist_store
  by (fastforce simp: sched_persist_def sstate_def split: prod.splits)+

lemma sched_event_frame [frame]:
  assumes "sched_event run now out reason ctx d s = (ev, s')"
  shows "sc_policy s' = sc_policy s" "sc_store s' = sc_store s" "sc_persistence s' = sc_persistence s"
    "w_files (sc_world s') = w_files (sc_world s)" "w_faults (sc_world s') = w_faults (sc_world s)"
    "sstate s' = sstate s"
  using assms by (auto simp: sched_event_def fresh_id_def Let_def sstate_def split: prod.splits)

lemma update_state_simps [simp]:
  "sstate (update_state f s) = f (sstate s)" "sc_policy (update_state f s) = sc_policy s"
  "sc_persistence (update_state f s) = sc_persistence s" "sc_world (update_state f s) = sc_world s"
  "st_schema_version (sc_store (update_state f s)) = st_schema_version (sc_store s)"
  by (simp_all add: update_state_def sstate_def)

lemma update_state_other:
  "pid \<noteq> po_provider_id (sc_policy s) \<Longrightarrow>
   bt_get (st_providers (sc_store (update_state f s))) pid = bt_get (st_providers (sc_store s)) pid"
  by (simp add: update_state_def bt.put_frame)

subsection \<open>The provider invariant\<close>

definition policy_ok :: "scheduler_policy \<Rightarrow> bool" where
  "policy_ok po \<longleftrightarrow>
     po_provider_id po \<noteq> [] \<and> po_slot_jitter_pct po \<le> 100 \<and> duration_millis (po_min_spacing po) \<noteq> 0"

definition runs_ok :: "provider_state \<Rightarrow> bool" where
  "runs_ok st \<longleftrightarrow> sorted (ps_runs st) \<and>
     (\<forall>r \<in> set (ps_runs st). \<exists>t. ps_last_started_at_utc st = Some t \<and> r \<le> t)"

definition deferred_ok :: "provider_state \<Rightarrow> bool" where
  "deferred_ok st \<longleftrightarrow>
     (case ps_deferred st of None \<Rightarrow> True
      | Some d \<Rightarrow> df_rate_limit_attempts d < MAX_RATE_LIMIT_ATTEMPTS)"

definition provider_inv :: "scheduler_policy \<Rightarrow> provider_state \<Rightarrow> bool" where
  "provider_inv po st \<longleftrightarrow>
     ps_rng_state st \<noteq> 0 \<and> ps_backoff_step st \<le> 4 \<and> runs_ok st \<and> deferred_ok st \<and>
     ps_policy_slot_jitter_pct st = po_slot_jitter_pct po \<and>
     ps_policy_min_spacing_ms st = duration_millis (po_min_spacing po)"

lemma provider_inv_valid:
  assumes "policy_ok po" "provider_inv po st"
  shows "provider_valid (po_provider_id po) st"
proof -
  have "\<exists>t. ps_last_started_at_utc st = Some t \<and> last (ps_runs st) \<le> t" if "ps_runs st \<noteq> []"
    using assms(2) last_in_set [OF that] by (auto simp: provider_inv_def runs_ok_def)
  then have "\<not> (ps_runs st \<noteq> [] \<and> (case ps_last_started_at_utc st of None \<Rightarrow> True
      | Some t \<Rightarrow> t < last (ps_runs st)))"
    by (cases "ps_runs st = []") (auto split: option.splits)
  then show ?thesis
    using assms by (simp add: provider_valid_def provider_inv_def policy_ok_def runs_ok_def)
qed

text \<open>Updates of fields the invariant does not read.\<close>

lemma provider_inv_frame [simp]:
  "provider_inv po (st \<lparr> ps_slots := x \<rparr>) = provider_inv po st"
  "provider_inv po (st \<lparr> ps_day_utc := d \<rparr>) = provider_inv po st"
  "provider_inv po (st \<lparr> ps_last_observed_utc := t \<rparr>) = provider_inv po st"
  "provider_inv po (st \<lparr> ps_interface_triggers := i \<rparr>) = provider_inv po st"
  "provider_inv po (st \<lparr> ps_cooldown_until_utc := c \<rparr>) = provider_inv po st"
  by (simp_all add: provider_inv_def runs_ok_def deferred_ok_def)

lemma provider_inv_no_deferred [inv_intros]:
  "provider_inv po st \<Longrightarrow> provider_inv po (st \<lparr> ps_deferred := None \<rparr>)"
  by (simp add: provider_inv_def runs_ok_def deferred_ok_def)

lemma provider_inv_backoff [inv_intros]:
  "provider_inv po st \<Longrightarrow> b \<le> 4 \<Longrightarrow> provider_inv po (st \<lparr> ps_backoff_step := b \<rparr>)"
  by (simp add: provider_inv_def runs_ok_def deferred_ok_def)

lemma provider_inv_filter_runs [inv_intros]:
  "provider_inv po st \<Longrightarrow> provider_inv po (st \<lparr> ps_runs := filter P (ps_runs st) \<rparr>)"
  by (simp add: provider_inv_def runs_ok_def deferred_ok_def sorted_filter [where f = id, simplified])

lemma provider_inv_rng [inv_intros]:
  "same_but_rng st st' \<Longrightarrow> provider_inv po st \<Longrightarrow> provider_inv po st'"
  using same_but_rng_fields [of st st']
  by (auto simp: provider_inv_def runs_ok_def deferred_ok_def same_but_rng_def)

lemma update_trigger_inv [simp]: "provider_inv po (update_trigger i f st) = provider_inv po st"
  by (simp add: update_trigger_def)

lemma clear_pending_inv [simp]: "provider_inv po (clear_pending i st) = provider_inv po st"
  by (simp add: clear_pending_def)

lemma plan_interval_inv [inv_intros]:
  "provider_inv po' st \<Longrightarrow> provider_inv po' (snd (plan_interval X po a b n st))"
  using provider_inv_rng plan_interval_rng by blast

lemma plan_full_day_inv [inv_intros]:
  "provider_inv po' st \<Longrightarrow> provider_inv po' (snd (plan_full_day X po now st))"
  using provider_inv_rng plan_full_day_rng by blast

lemma reconcile_day_inv [inv_intros]:
  assumes "policy_ok po" "provider_inv po st"
  shows "provider_inv po (reconcile_day_state X po now st)"
proof -
  let ?st = "st \<lparr> ps_day_utc := date_naive now,
       ps_runs := filter (\<lambda>run. date_naive now \<le> date_naive run) (ps_runs st),
       ps_deferred := None, ps_interface_triggers := [],
       ps_cooldown_until_utc := (case ps_cooldown_until_utc st of
          Some d \<Rightarrow> if now < d then Some d else None | None \<Rightarrow> None) \<rparr>"
  have "provider_inv po ?st"
    using provider_inv_filter_runs [OF assms(2)]
    by (simp add: provider_inv_def runs_ok_def deferred_ok_def)
  then have "provider_inv po (snd (plan_full_day X po now ?st))"
    by (rule plan_full_day_inv)
  then show ?thesis
    using assms(2) by (simp add: reconcile_day_state_def Let_def split_beta)
qed

lemma replan_inv [inv_intros]:
  "policy_ok po \<Longrightarrow> provider_inv po st \<Longrightarrow> provider_inv po (replan_remaining_state X po now st)"
  by (simp add: replan_remaining_state_def Let_def split_beta plan_interval_inv)

lemma jitter_inv [inv_intros]:
  "provider_inv po st \<Longrightarrow> provider_inv po (snd (jitter_duration d st))"
  using provider_inv_rng jitter_duration_rng by blast

lemma next_backoff_inv [inv_intros]:
  "provider_inv po st \<Longrightarrow> provider_inv po (snd (next_backoff_state po' st))"
  by (simp add: next_backoff_state_def Let_def jitter_inv provider_inv_backoff)

lemma record_start_inv [inv_intros]:
  "provider_inv po st \<Longrightarrow> provider_inv po (record_start now st)"
  by (fastforce simp: provider_inv_def record_start_def runs_ok_def deferred_ok_def opt_max_def
      split: option.splits)

lemma latch_inv [inv_intros]:
  assumes "provider_inv po st" shows "provider_inv po (latch_degraded i now e r st)"
proof -
  have "provider_inv po (st \<lparr> ps_deferred :=
      map_option (\<lambda>d. d \<lparr> df_reason := r, df_interface := i \<rparr>) (ps_deferred st) \<rparr>)"
    using assms by (auto simp: provider_inv_def runs_ok_def deferred_ok_def split: option.splits)
  then show ?thesis by (simp add: latch_degraded_def Let_def)
qed

lemma expire_key_inv [simp]: "provider_inv po (expire_key k st) = provider_inv po st"
  by (simp add: expire_key_def split: option.splits)

lemma expire_keys_inv [simp]:
  "provider_inv po (fold (\<lambda>(k, _). expire_key k) ks st) = provider_inv po st"
  by (induction ks arbitrary: st) (simp_all add: split_beta)

lemma remove_slots_inv [simp]:
  "provider_inv po (remove_due_slots now st) = provider_inv po st"
  "provider_inv po (remove_slot slot st) = provider_inv po st"
  "provider_inv po (consume_slots now due r st) = provider_inv po st"
  by (simp_all add: remove_due_slots_def remove_slot_def consume_slots_def Let_def)

lemma apply_rate_limit_inv [inv_intros]:
  "provider_inv po st \<Longrightarrow> provider_inv po (apply_rate_limit d dd rl reserved op st)"
  by (auto simp: apply_rate_limit_def Let_def provider_inv_def runs_ok_def deferred_ok_def)

lemma rate_limit_deadline_inv [inv_intros]:
  "provider_inv po st \<Longrightarrow> provider_inv po (snd (rate_limit_deadline X po' now rl st))"
  using next_backoff_inv [of po st po']
  by (auto simp: rate_limit_deadline_def Let_def split_beta split: option.splits)

lemma rate_limited_inv [inv_intros]:
  "policy_ok po \<Longrightarrow> provider_inv po st \<Longrightarrow>
   provider_inv po (snd (rate_limited_state X po now rl reserved op st))"
  by (simp add: rate_limited_state_def Let_def split_beta)
    (intro replan_inv; simp add: apply_rate_limit_inv rate_limit_deadline_inv)

lemma completed_inv [inv_intros]:
  assumes "policy_ok po" "provider_inv po st"
  shows "provider_inv po (completed_state X po now op report st)"
proof -
  have "provider_inv po (st \<lparr> ps_deferred := None \<rparr>)"
    "provider_inv po (st \<lparr> ps_deferred := None, ps_cooldown_until_utc := None, ps_backoff_step := 0 \<rparr>)"
    using assms(2) by (simp_all add: provider_inv_def runs_ok_def deferred_ok_def)
  then show ?thesis
    using assms(1) by (simp add: completed_state_def Let_def replan_inv)
qed

lemma initial_provider_inv [inv_intros]:
  assumes "policy_ok po" shows "provider_inv po (initial_provider X po now seed)"
proof -
  let ?st = "\<lparr> ps_day_utc = date_naive now, ps_slots = [], ps_runs = [], ps_last_started_at_utc = None,
          ps_cooldown_until_utc = None, ps_backoff_step = 0, ps_deferred = None,
          ps_interface_triggers = [], ps_policy_daily_max = po_daily_max po,
          ps_policy_min_spacing_ms = duration_millis (po_min_spacing po),
          ps_policy_slot_jitter_pct = po_slot_jitter_pct po, ps_rng_state = max seed 1,
          ps_last_observed_utc = now \<rparr>"
  have "max seed 1 \<noteq> 0" by (metis max.cobounded2 word_le_0_iff zero_neq_one)
  then have "provider_inv po ?st" by (simp add: provider_inv_def runs_ok_def deferred_ok_def)
  then have "provider_inv po (snd (plan_full_day X po now ?st))"
    by (rule plan_full_day_inv)
  then show ?thesis by (simp add: initial_provider_def Let_def split_beta)
qed

subsection \<open>The scheduler invariant\<close>

text \<open>
  A scheduler is well formed if its policy is admissible, its store is an ordered map of
  providers of the current schema, each valid, and the active provider satisfies the
  provider invariant.
\<close>

definition store_ok :: "scheduler_policy \<Rightarrow> scheduler_store \<Rightarrow> bool" where
  "store_ok po store \<longleftrightarrow>
     st_schema_version store = STATE_SCHEMA_VERSION \<and> bt_ok (st_providers store) \<and>
     list_all (\<lambda>(pid, st). provider_valid pid st) (st_providers store) \<and>
     (\<exists>st. bt_get (st_providers store) (po_provider_id po) = Some st \<and> provider_inv po st)"

definition sched_ok :: "'b sched \<Rightarrow> bool" where
  "sched_ok s \<longleftrightarrow> policy_ok (sc_policy s) \<and> store_ok (sc_policy s) (sc_store s)"

lemma sched_okD:
  assumes "sched_ok s"
  shows "policy_ok (sc_policy s)" "provider_inv (sc_policy s) (sstate s)"
    "validate_store f (sc_store s) = Inr ()"
  using assms by (auto simp: sched_ok_def store_ok_def sstate_def validate_store_def)

lemma sched_ok_cong:
  assumes "sched_ok s" "sc_policy s' = sc_policy s"
    "st_providers (sc_store s') = st_providers (sc_store s)"
    "st_schema_version (sc_store s') = st_schema_version (sc_store s)"
  shows "sched_ok s'"
  using assms by (simp add: sched_ok_def store_ok_def)

lemma sched_ok_update [inv_intros]:
  assumes "sched_ok s" "provider_inv (sc_policy s) (f (sstate s))"
  shows "sched_ok (update_state f s)"
proof -
  let ?po = "sc_policy s" and ?m = "st_providers (sc_store s)"
  have m: "bt_ok ?m" "list_all (\<lambda>(pid, st). provider_valid pid st) ?m" "policy_ok ?po"
    using assms(1) by (auto simp: sched_ok_def store_ok_def)
  have "provider_valid (po_provider_id ?po) (f (sstate s))"
    using provider_inv_valid [OF m(3) assms(2)] .
  then have "list_all (\<lambda>(pid, st). provider_valid pid st) (bt_insert (po_provider_id ?po) (f (sstate s)) ?m)"
    using m(2) by (auto simp: list_all_iff set_bt_insert [OF m(1)])
  then show ?thesis
    using assms m by (auto simp: sched_ok_def store_ok_def update_state_def)
qed

lemma sched_ok_persist [inv_intros]:
  assumes "sched_ok s" "sched_persist C s = (r, s')" shows "sched_ok s'"
  by (rule sched_ok_cong [OF assms(1)]) (simp_all add: sched_persist_frame [OF assms(2)])

lemma sched_ok_event [inv_intros]:
  assumes "sched_ok s" "sched_event run now out reason ctx d s = (ev, s')" shows "sched_ok s'"
  by (rule sched_ok_cong [OF assms(1)]) (simp_all add: sched_event_frame [OF assms(2)])

subsection \<open>Steps\<close>

text \<open>
  The elementary changes of the active provider's state. Every operation other than a
  reservation is a sequence of them; a reservation is a day reconciliation and then, if it is
  granted, \<open>record_start\<close>.
\<close>

inductive pstep :: "ext \<Rightarrow> scheduler_policy \<Rightarrow> time \<Rightarrow> provider_state \<Rightarrow> provider_state \<Rightarrow> bool"
  for X :: ext and po :: scheduler_policy and now :: time where
  ps_day: "pstep X po now st (reconcile_day_state X po now st)"
| ps_observed: "ps_last_observed_utc st \<le> now \<Longrightarrow> pstep X po now st (st \<lparr> ps_last_observed_utc := now \<rparr>)"
| ps_latch: "\<not> it_latched (trigger_of i st) \<Longrightarrow> pstep X po now st (latch_degraded i now e r st)"
| ps_unlatch: "pstep X po now st
    (update_trigger i (\<lambda>t. t \<lparr> it_pending := None, it_latched := False \<rparr>) st)"
| ps_expire: "pstep X po now st (expire_key k st)"
| ps_drop: "pstep X po now st (st \<lparr> ps_deferred := None \<rparr>)"
| ps_due: "pstep X po now st (remove_due_slots now st)"
| ps_slot: "pstep X po now st (remove_slot slot st)"
| ps_clear: "pstep X po now st (clear_pending i st)"
| ps_limited: "pstep X po now st (snd (rate_limited_state X po now rl reserved op st))"
| ps_completed: "pstep X po now st (completed_state X po now op report st)"

lemma pstep_inv:
  "pstep X po now st st' \<Longrightarrow> policy_ok po \<Longrightarrow> provider_inv po st \<Longrightarrow> provider_inv po st'"
  by (induction rule: pstep.induct) (simp_all add: inv_intros)

lemma psteps_inv:
  "(pstep X po now)\<^sup>*\<^sup>* st st' \<Longrightarrow> policy_ok po \<Longrightarrow> provider_inv po st \<Longrightarrow> provider_inv po st'"
  by (induction rule: rtranclp_induct) (auto intro: pstep_inv)

lemma psteps_expire: "(pstep X po now)\<^sup>*\<^sup>* st (fold (\<lambda>(k, _). expire_key k) ks st)"
proof (induction ks arbitrary: st)
  case Nil
  then show ?case by simp
next
  case (Cons k ks)
  then show ?case
    using converse_rtranclp_into_rtranclp [OF ps_expire [of X po now st "fst k"] Cons.IH]
    by (simp add: split_beta)
qed

lemma psteps_consume: "(pstep X po now)\<^sup>*\<^sup>* st (consume_slots now due r st)"
proof -
  let ?m = "if due \<noteq> None then remove_due_slots now st else st"
  have "(pstep X po now)\<^sup>*\<^sup>* st ?m"
    by (simp add: ps_due r_into_rtranclp)
  moreover have "(pstep X po now)\<^sup>*\<^sup>* ?m (consume_slots now due r st)"
    by (simp add: consume_slots_def Let_def ps_slot r_into_rtranclp)
  ultimately show ?thesis by (rule rtranclp_trans)
qed

text \<open>
  An operation other than a reservation changes the scheduler by updates of the active
  provider's state, attempts to persist the store, and fresh events. So it leaves the policy
  and every other provider's entry alone and keeps the invariant.
\<close>

inductive micro :: "ext \<Rightarrow> 'b codec \<Rightarrow> time \<Rightarrow> 'b sched \<Rightarrow> 'b sched \<Rightarrow> bool"
  for X :: ext and C :: "'b codec" and now :: time where
  mi_update: "(pstep X (sc_policy s) now)\<^sup>*\<^sup>* (sstate s) (f (sstate s)) \<Longrightarrow> micro X C now s (update_state f s)"
| mi_persist: "sched_persist C s = (r, s') \<Longrightarrow> micro X C now s s'"
| mi_event: "sched_event run t out reason ctx d s = (ev, s') \<Longrightarrow> micro X C now s s'"

definition step_ok :: "ext \<Rightarrow> 'b codec \<Rightarrow> time \<Rightarrow> 'b sched \<Rightarrow> 'b sched \<Rightarrow> bool" where
  "step_ok X C now s s' \<longleftrightarrow> (micro X C now)\<^sup>*\<^sup>* s s'"

lemma step_ok_refl [simp]: "step_ok X C now s s"
  by (simp add: step_ok_def)

lemma step_ok_trans: "step_ok X C now a b \<Longrightarrow> step_ok X C now b c \<Longrightarrow> step_ok X C now a c"
  unfolding step_ok_def by (rule rtranclp_trans)

lemma step_ok_update:
  assumes "(pstep X (sc_policy s) now)\<^sup>*\<^sup>* (sstate s) (f (sstate s))"
  shows "step_ok X C now s (update_state f s)"
  unfolding step_ok_def by (rule r_into_rtranclp) (rule mi_update [where f = f], rule assms)

lemma step_ok_pstep:
  "pstep X (sc_policy s) now (sstate s) (f (sstate s)) \<Longrightarrow> step_ok X C now s (update_state f s)"
  by (rule step_ok_update) (rule r_into_rtranclp)

lemma step_ok_persist: "sched_persist C s = (r, s') \<Longrightarrow> step_ok X C now s s'"
  unfolding step_ok_def by (rule r_into_rtranclp) (rule mi_persist)

lemma step_ok_event: "sched_event run now out reason ctx d s = (ev, s') \<Longrightarrow> step_ok X C t s s'"
  unfolding step_ok_def by (rule r_into_rtranclp) (rule mi_event)

lemma step_ok_update_persist:
  assumes "sched_persist C (update_state f s) = (r, s')"
    "(pstep X (sc_policy s) now)\<^sup>*\<^sup>* (sstate s) (f (sstate s))"
  shows "step_ok X C now s s'"
  using step_ok_trans [OF step_ok_update [of X s now f C, OF assms(2)] step_ok_persist [OF assms(1)]] .

definition frame_ok :: "'b sched \<Rightarrow> 'b sched \<Rightarrow> bool" where
  "frame_ok s s' \<longleftrightarrow>
     (sched_ok s \<longrightarrow> sched_ok s') \<and> sc_policy s' = sc_policy s \<and>
     (\<forall>pid. pid \<noteq> po_provider_id (sc_policy s) \<longrightarrow>
        bt_get (st_providers (sc_store s')) pid = bt_get (st_providers (sc_store s)) pid)"

lemma frame_ok_refl [simp]: "frame_ok s s"
  by (simp add: frame_ok_def)

lemma frame_ok_trans: "frame_ok a b \<Longrightarrow> frame_ok b c \<Longrightarrow> frame_ok a c"
  unfolding frame_ok_def by auto

lemma persist_frame: "sched_persist C s = (r, s') \<Longrightarrow> frame_ok s s'"
  using sched_persist_frame [of C s r s'] sched_ok_persist [of s C r s'] by (auto simp: frame_ok_def)

lemma event_frame: "sched_event run now out reason ctx d s = (ev, s') \<Longrightarrow> frame_ok s s'"
  using sched_event_frame [of run now out reason ctx d s ev s']
    sched_ok_event [of s run now out reason ctx d ev s'] by (auto simp: frame_ok_def)

lemma frame_ok_update: "(sched_ok s \<Longrightarrow> provider_inv (sc_policy s) (f (sstate s))) \<Longrightarrow> frame_ok s (update_state f s)"
  using sched_ok_update [of s f] by (auto simp: frame_ok_def update_state_other)

lemma micro_frame:
  assumes "micro X C now s s'"
  shows "frame_ok s s' \<and> (pstep X (sc_policy s) now)\<^sup>*\<^sup>* (sstate s) (sstate s')"
  using assms
proof cases
  case (mi_update f)
  then show ?thesis
    using psteps_inv [OF mi_update(2)] sched_okD(1,2) [of s] by (auto intro: frame_ok_update)
next
  case (mi_persist r)
  then show ?thesis using persist_frame sched_persist_frame(4) [OF mi_persist] by auto
next
  case (mi_event run t out reason ctx d ev)
  then show ?thesis using event_frame [OF mi_event] sched_event_frame(6) [OF mi_event] by simp
qed

lemma step_okD:
  assumes "step_ok X C now s s'"
  shows "frame_ok s s'" "(pstep X (sc_policy s) now)\<^sup>*\<^sup>* (sstate s) (sstate s')"
proof -
  have "frame_ok s s' \<and> (pstep X (sc_policy s) now)\<^sup>*\<^sup>* (sstate s) (sstate s')"
    using assms unfolding step_ok_def
  proof (induction rule: rtranclp_induct)
    case (step y z)
    moreover from this have "sc_policy y = sc_policy s" by (simp add: frame_ok_def)
    ultimately show ?case using micro_frame [OF step(2)] frame_ok_trans by (auto intro: rtranclp_trans)
  qed simp
  then show "frame_ok s s'" "(pstep X (sc_policy s) now)\<^sup>*\<^sup>* (sstate s) (sstate s')" by blast+
qed

lemmas step_ok_frame = step_okD(1)

lemma reconcile_day_step: "step_ok X C now s (reconcile_day X now s)"
  unfolding reconcile_day_def by (rule step_ok_pstep) (rule ps_day)

lemma reconcile_day_observed [simp]:
  "ps_last_observed_utc (reconcile_day_state X po now st) = ps_last_observed_utc st"
proof -
  have "ps_last_observed_utc (snd (plan_full_day X po now st')) = ps_last_observed_utc st'" for st'
    by (rule same_but_rng_fields(12) [OF plan_full_day_rng])
  then show ?thesis by (simp add: reconcile_day_state_def Let_def split_beta)
qed

lemma advance_clock_step:
  assumes "advance_clock X C run now s = (r, s')" shows "step_ok X C now s s'"
proof (cases "now < ps_last_observed_utc (sstate s)")
  case True
  then show ?thesis
    using assms by (auto simp: advance_clock_def Let_def dest: step_ok_event split: prod.splits)
next
  case False
  let ?s = "update_state (\<lambda>st. st \<lparr> ps_last_observed_utc := now \<rparr>) (reconcile_day X now s)"
  have "step_ok X C now (reconcile_day X now s) ?s"
    using False by (intro step_ok_pstep ps_observed) (simp add: reconcile_day_def)
  then have "step_ok X C now s ?s" using reconcile_day_step step_ok_trans by blast
  moreover have "\<exists>r0. sched_persist C ?s = (r0, s')"
    using assms False by (auto simp: advance_clock_def Let_def split: prod.splits sum.splits)
  ultimately show ?thesis using step_ok_trans step_ok_persist by blast
qed

text \<open>A reservation: refused after the day reconciliation, or a recorded start.\<close>

lemma reserve_run_cases:
  assumes "reserve_run X C now s = (r, s')"
  obtains (blocked) b where "block_reason_state X (sc_policy s) now (reconcile_day_state X (sc_policy s) now (sstate s)) = Some b"
      "r = Inl (SAdmission (''reservation rejected after preflight: '' @ bk_message b))"
      "s' = reconcile_day X now s"
  | (started) r0 where "block_reason_state X (sc_policy s) now (reconcile_day_state X (sc_policy s) now (sstate s)) = None"
      "sched_persist C (update_state (record_start now) (reconcile_day X now s)) = (r0, s')"
      "r = (case r0 of Inl e \<Rightarrow> Inl e | Inr _ \<Rightarrow>
         Inr \<lparr> rv_accounting_date = date_naive now,
               rv_daily_bandwidth_starts = runs_on_day (sstate s') (date_naive now) \<rparr>)"
      "sstate s' = record_start now (reconcile_day_state X (sc_policy s) now (sstate s))"
proof (cases "block_reason X now (reconcile_day X now s)")
  case None
  obtain r0 s0 where p: "sched_persist C (update_state (record_start now) (reconcile_day X now s)) = (r0, s0)"
    by force
  moreover from this have "s0 = s'" "r = (case r0 of Inl e \<Rightarrow> Inl e | Inr _ \<Rightarrow>
      Inr \<lparr> rv_accounting_date = date_naive now,
        rv_daily_bandwidth_starts = runs_on_day (sstate s') (date_naive now) \<rparr>)"
    using assms None sched_persist_frame(4) [OF p]
    by (auto simp: reserve_run_def Let_def split: prod.splits sum.splits)
  ultimately show ?thesis
    using None sched_persist_frame(4) [OF p] started [of r0]
    by (simp add: block_reason_def reconcile_day_def)
next
  case (Some b)
  then show ?thesis
    using assms blocked [of b] by (auto simp: reserve_run_def Let_def block_reason_def reconcile_day_def)
qed

lemma reserve_run_frame:
  assumes "reserve_run X C now s = (r, s')" shows "frame_ok s s'"
  using assms
proof (cases rule: reserve_run_cases)
  case (blocked b)
  then show ?thesis using reconcile_day_step step_ok_frame by blast
next
  case (started r0)
  have "frame_ok s (reconcile_day X now s)" using reconcile_day_step step_ok_frame by blast
  moreover have "frame_ok (reconcile_day X now s) (update_state (record_start now) (reconcile_day X now s))"
    by (rule frame_ok_update) (simp add: sched_okD record_start_inv)
  ultimately show ?thesis
    using persist_frame [OF started(2)] frame_ok_trans by blast
qed

lemma preflight_step:
  assumes "preflight_manual X C run now s = (r, s')" shows "step_ok X C now s s'"
proof -
  obtain r0 s0 where a: "advance_clock X C run now s = (r0, s0)" by force
  have "step_ok X C now s0 s'"
    using assms a
    by (auto simp: preflight_manual_def Let_def dest: step_ok_event
        split: sum.splits if_splits option.splits prod.splits)
  then show ?thesis using advance_clock_step [OF a] step_ok_trans by blast
qed

lemma finish_attempt_step:
  assumes "finish_attempt X C run now op report s = (r, s')" shows "step_ok X C now s s'"
proof (cases "rate_limit_from_report report (po_provider_kind (sc_policy s))")
  case None
  then obtain r0 where "sched_persist C
      (update_state (completed_state X (sc_policy s) now op report) s) = (r0, s')"
    using assms by (auto simp: finish_attempt_def Let_def split: prod.splits sum.splits)
  then show ?thesis by (rule step_ok_update_persist) (rule r_into_rtranclp, rule ps_completed)
next
  case (Some rl)
  then obtain r0 s0 where p: "sched_persist C (update_state
      (\<lambda>st. snd (rate_limited_state X (sc_policy s) now rl (br_reserved report) op st)) s) = (r0, s0)"
    by (metis surj_pair)
  have "step_ok X C now s s0"
    using p by (rule step_ok_update_persist) (rule r_into_rtranclp, rule ps_limited)
  moreover have "step_ok X C now s0 s'"
    using assms Some p
    by (auto simp: finish_attempt_def Let_def dest: step_ok_event split: prod.splits sum.splits)
  ultimately show ?thesis using step_ok_trans by blast
qed

lemma observe_step:
  assumes "observe_interface_health X C run now i d s = (r, s')" shows "step_ok X C now s s'"
proof -
  obtain r0 s0 where a: "advance_clock X C run now s = (r0, s0)" by force
  note s0 = advance_clock_step [OF a]
  show ?thesis
  proof (cases r0)
    case (Inl e)
    then show ?thesis using assms a s0 by (simp add: observe_interface_health_def)
  next
    case (Inr events)
    have "step_ok X C now s0 s'"
    proof (cases d)
      case (HdHealthy sn)
      then show ?thesis using assms a Inr by (simp add: observe_interface_health_def)
    next
      case (HdDegraded sn reason)
      let ?f = "latch_degraded i now (add_duration X now (po_pending_ttl (sc_policy s0))) (trigger_reason_of reason)"
      obtain r1 s1 where p: "sched_persist C (update_state ?f s0) = (r1, s1)" by force
      have "step_ok X C now s0 s1" if fresh: "\<not> it_latched (trigger_of i (sstate s0))"
        using p by (rule step_ok_update_persist) (rule r_into_rtranclp, rule ps_latch, rule fresh)
      moreover have "s' = s0 \<or> \<not> it_latched (trigger_of i (sstate s0)) \<and> step_ok X C now s1 s'"
        using assms a Inr HdDegraded p
        by (auto simp: observe_interface_health_def Let_def dest: step_ok_event
            split: if_splits sum.splits prod.splits)
      ultimately show ?thesis using step_ok_trans by auto
    next
      case (HdRecovered sn)
      let ?f = "update_trigger i (\<lambda>t. t \<lparr> it_pending := None, it_latched := False \<rparr>)"
      obtain r1 s1 where p: "sched_persist C (update_state ?f s0) = (r1, s1)" by force
      have "step_ok X C now s0 s1"
        using p by (rule step_ok_update_persist) (rule r_into_rtranclp, rule ps_unlatch)
      moreover have "s' = s0 \<or> step_ok X C now s0 s' \<or> step_ok X C now s1 s'"
        using assms a Inr HdRecovered p
        by (auto simp: observe_interface_health_def Let_def dest: step_ok_event
            split: if_splits sum.splits prod.splits option.splits)
      ultimately show ?thesis using step_ok_trans by auto
    qed
    then show ?thesis using s0 step_ok_trans by blast
  qed
qed

lemma expiry_events_step:
  "expiry_events run now xs s = (evs, s') \<Longrightarrow> step_ok X C now s s'"
proof (induction xs arbitrary: s evs)
  case Nil
  then show ?case by simp
next
  case (Cons x xs)
  obtain k t where x: "x = (k, t)" by force
  obtain ev s0 where e: "sched_event run now Expired (pt_reason t)
      (context_for_interface (interface_from_key k)) (TriggerExpired, TriggerTtlExpired,
       ''reason=ttl latch=retained rearm=health_recovery'') s = (ev, s0)" by force
  then obtain evs' where "expiry_events run now xs s0 = (evs', s')"
    using Cons.prems x by (auto split: prod.splits)
  then show ?case using Cons.IH step_ok_event [OF e] step_ok_trans by blast
qed

lemma poll_expire_step:
  assumes "poll_expire C run now s = (r, s')" shows "step_ok X C now s s'"
proof (cases "expired_triggers now (sstate s) = []")
  case True
  then show ?thesis using assms by (simp add: poll_expire_def)
next
  case False
  let ?f = "fold (\<lambda>(key, _). expire_key key) (expired_triggers now (sstate s))"
  obtain r1 s1 where p: "sched_persist C (update_state ?f s) = (r1, s1)" by force
  have "step_ok X C now s s1"
    using p by (rule step_ok_update_persist) (rule psteps_expire)
  moreover have "s' = s1 \<or> step_ok X C now s1 s'"
    using assms False p
    by (auto simp: poll_expire_def Let_def dest: expiry_events_step split: sum.splits prod.splits)
  ultimately show ?thesis using step_ok_trans by auto
qed

lemma poll_deferred_step:
  assumes "poll_deferred C run now s = (r, s')" shows "step_ok X C now s s'"
proof -
  let ?f = "\<lambda>st. st \<lparr> ps_deferred := None \<rparr>"
  obtain r1 s1 where p: "sched_persist C (update_state ?f s) = (r1, s1)" by force
  have "step_ok X C now s s1"
    using p by (rule step_ok_update_persist) (rule r_into_rtranclp, rule ps_drop)
  moreover have "s' = s \<or> s' = s1 \<or> step_ok X C now s1 s'"
    using assms p
    by (auto simp: poll_deferred_def Let_def dest: step_ok_event
        split: sum.splits prod.splits option.splits if_splits)
  ultimately show ?thesis using step_ok_trans by auto
qed

lemma poll_decide_step:
  assumes "poll_decide X C run now ls evs s = (r, s')" shows "step_ok X C now s s'"
proof -
  have chain: "step_ok X C now s s'"
    if "step_ok X C now s s0" "sched_persist C s0 = (r1, s1)" "s' = s1 \<or> step_ok X C now s1 s'" for s0 s1 r1
    using that step_ok_persist step_ok_trans by metis
  define due where "due = (if filter (\<lambda>slot. slot \<le> now) (ps_slots (sstate s)) = [] then None
    else Some (hd (filter (\<lambda>slot. slot \<le> now) (ps_slots (sstate s)))))"
  define pending where "pending = oldest_eligible_pending_trigger ls (due \<noteq> None) (sstate s)"
  define pi where "pi = (case pending of Some (key, _) \<Rightarrow> interface_from_key key | None \<Rightarrow> None)"
  define reason where "reason = (case pending of Some (_, p) \<Rightarrow> pt_reason p | None \<Rightarrow> TrScheduled)"
  note run = assms [unfolded poll_decide_def Let_def, folded due_def, folded pending_def,
      folded pi_def, folded reason_def]
  have slots: "step_ok X C now v (update_state (remove_due_slots now) v)"
    "step_ok X C now v (update_state (clear_pending pi) v)"
    "step_ok X C now v (update_state (consume_slots now due reason) v)" for v :: "'a sched"
    by (rule step_ok_pstep, rule ps_due) (rule step_ok_pstep, rule ps_clear,
      rule step_ok_update, rule psteps_consume)
  show ?thesis
  proof (cases "pending = None \<and> due = None")
    case True
    then show ?thesis using run by simp
  next
    case False
    show ?thesis
    proof (cases "block_reason X now s")
      case None
      obtain r1 s1 where p: "sched_persist C (update_state (consume_slots now due reason) s) = (r1, s1)"
        by force
      have "s' = s1 \<or> step_ok X C now s1 s'"
        using run unfolding if_not_P [OF False] None option.case p
        by (auto dest: step_ok_event split: sum.splits prod.splits)
      then show ?thesis using chain [OF slots(3) p] by blast
    next
      case (Some b)
      define final where "final \<longleftrightarrow> bk_kind b = EkDailyCap
          \<or> day_end (date_naive now) \<le> add_duration X now (po_min_spacing (sc_policy s))"
      define s0 where "s0 = (if due \<noteq> None then update_state (remove_due_slots now) s else s)"
      define s2 where "s2 = (if final \<and> pending \<noteq> None then update_state (clear_pending pi) s0 else s0)"
      have "step_ok X C now s s2"
        using slots step_ok_trans [OF slots(1) [of s] slots(2)] by (simp add: s0_def s2_def)
      moreover obtain r1 s1 where p: "sched_persist C s2 = (r1, s1)" by force
      moreover have "s' = s1 \<or> step_ok X C now s1 s'"
        using run unfolding if_not_P [OF False] Some option.case final_def [symmetric]
          s0_def [symmetric] s2_def [symmetric] p
        by (auto dest: step_ok_event split: sum.splits prod.splits)
      ultimately show ?thesis using chain by blast
    qed
  qed
qed

lemma poll_interfaces_step:
  assumes "poll_interfaces X C run now ls s = (r, s')" shows "step_ok X C now s s'"
proof -
  obtain r0 s0 where a: "advance_clock X C run now s = (r0, s0)" by force
  obtain r1 s1 where b: "poll_expire C run now s0 = (r1, s1)" by force
  obtain r2 s2 where c: "poll_deferred C run now s1 = (r2, s2)" by force
  note steps = advance_clock_step [OF a] poll_expire_step [OF b] poll_deferred_step [OF c]
  have "s' = s0 \<or> s' = s1 \<or> s' = s2 \<or> step_ok X C now s2 s'"
    using assms a b c
    by (auto simp: poll_interfaces_def dest: poll_decide_step split: sum.splits if_splits prod.splits)
  moreover have "step_ok X C now s s1" by (rule step_ok_trans [OF steps(1,2)])
  moreover from this have "step_ok X C now s s2" by (rule step_ok_trans [OF _ steps(3)])
  ultimately show ?thesis using steps(1) step_ok_trans [of X C now s s2 s'] by auto
qed

subsection \<open>Traces\<close>

text \<open>The calls a client makes, and the instants at which a start was granted.\<close>

datatype sched_op =
    OpObserve run_id time "string option" health_decision
  | OpPoll run_id time "(string, bool) btree"
  | OpPreflight run_id time
  | OpReserve time
  | OpFinish run_id time bandwidth_opportunity bandwidth_report
  | OpFlush

definition exec_op :: "ext \<Rightarrow> 'b codec \<Rightarrow> sched_op \<Rightarrow> 'b sched \<Rightarrow> time list \<times> 'b sched" where
  "exec_op X C op s =
     (case op of
        OpObserve run now i d \<Rightarrow> ([], snd (observe_interface_health X C run now i d s))
      | OpPoll run now ls \<Rightarrow> ([], snd (poll_interfaces X C run now ls s))
      | OpPreflight run now \<Rightarrow> ([], snd (preflight_manual X C run now s))
      | OpReserve now \<Rightarrow>
          (case reserve_run X C now s of (Inl e, s) \<Rightarrow> ([], s) | (Inr r, s) \<Rightarrow> ([now], s))
      | OpFinish run now p report \<Rightarrow> ([], snd (finish_attempt X C run now p report s))
      | OpFlush \<Rightarrow> ([], snd (sched_flush C s)))"

fun exec_ops :: "ext \<Rightarrow> 'b codec \<Rightarrow> sched_op list \<Rightarrow> 'b sched \<Rightarrow> time list \<times> 'b sched" where
  "exec_ops X C [] s = ([], s)"
| "exec_ops X C (op # ops) s =
     (let (g, s) = exec_op X C op s; (gs, s) = exec_ops X C ops s in (g @ gs, s))"

lemma exec_op_frame: "frame_ok s (snd (exec_op X C op s))"
proof (cases op)
  case (OpReserve now)
  obtain r s0 where "reserve_run X C now s = (r, s0)" by force
  then show ?thesis
    using OpReserve reserve_run_frame [of X C now s r s0] by (auto simp: exec_op_def split: sum.splits)
next
  case (OpFlush)
  then show ?thesis
    using persist_frame [of C s] by (cases "sched_persist C s") (simp add: exec_op_def sched_flush_def)
qed (auto simp: exec_op_def
    intro: step_ok_frame observe_step poll_interfaces_step preflight_step finish_attempt_step
    surjective_pairing)

lemma exec_ops_frame: "frame_ok s (snd (exec_ops X C ops s))"
proof (induction ops arbitrary: s)
  case Nil
  then show ?case by simp
next
  case (Cons op ops)
  then show ?case
    using exec_op_frame [of s X C op] frame_ok_trans by (fastforce simp: Let_def split_beta)
qed

subsection \<open>Opening\<close>

lemma reconcile_policy_inv:
  assumes "policy_ok po" "ps_rng_state st \<noteq> 0" "ps_backoff_step st \<le> 4" "runs_ok st" "deferred_ok st"
  shows "provider_inv po (reconcile_policy X po now st)"
proof -
  let ?st = "st \<lparr> ps_policy_daily_max := po_daily_max po,
                  ps_policy_min_spacing_ms := duration_millis (po_min_spacing po),
                  ps_policy_slot_jitter_pct := po_slot_jitter_pct po \<rparr>"
  have "provider_inv po ?st"
    "provider_inv po (?st \<lparr> ps_slots := [], ps_interface_triggers := [], ps_deferred := None \<rparr>)"
    using assms by (simp_all add: provider_inv_def runs_ok_def deferred_ok_def)
  then show ?thesis
    using assms replan_inv [OF assms(1), of ?st X now]
    by (auto simp: reconcile_policy_def Let_def provider_inv_def)
qed

subsection \<open>Accounting of starts\<close>

definition starts_on :: "time list \<Rightarrow> date \<Rightarrow> nat" where
  "starts_on ts d = length (filter (\<lambda>t. date_naive t = d) ts)"

lemma starts_on_append [simp]: "starts_on (xs @ ys) d = starts_on xs d + starts_on ys d"
  by (simp add: starts_on_def)

lemma starts_on_simps [simp]:
  "starts_on [] d = 0" "starts_on [t] d = (if date_naive t = d then 1 else 0)"
  "starts_on (sort xs) d = starts_on xs d"
  by (simp_all add: starts_on_def)

lemma starts_on_insort [simp]: "starts_on (insort t xs) d = starts_on (t # xs) d"
  using starts_on_simps(3) [of "insort t xs"] by (induction xs) (auto simp: starts_on_def)

lemma starts_on_filter:
  "a \<le> d \<Longrightarrow> starts_on (filter (\<lambda>r. a \<le> date_naive r) rs) d = starts_on rs d"
  unfolding starts_on_def filter_filter by (rule arg_cong [where f = length], rule filter_cong) auto

lemma plan_fields [simp]:
  "ps_runs (snd (plan_interval X po a b n st)) = ps_runs st"
  "ps_last_started_at_utc (snd (plan_interval X po a b n st)) = ps_last_started_at_utc st"
  "ps_cooldown_until_utc (snd (plan_interval X po a b n st)) = ps_cooldown_until_utc st"
  "ps_backoff_step (snd (plan_interval X po a b n st)) = ps_backoff_step st"
  "ps_deferred (snd (plan_interval X po a b n st)) = ps_deferred st"
  "ps_interface_triggers (snd (plan_interval X po a b n st)) = ps_interface_triggers st"
  "ps_day_utc (snd (plan_interval X po a b n st)) = ps_day_utc st"
  "ps_last_observed_utc (snd (plan_interval X po a b n st)) = ps_last_observed_utc st"
  using same_but_rng_fields [OF plan_interval_rng [of st X po a b n]] by simp_all

lemma jitter_fields [simp]:
  "ps_runs (snd (jitter_duration b st)) = ps_runs st"
  "ps_last_started_at_utc (snd (jitter_duration b st)) = ps_last_started_at_utc st"
  "ps_cooldown_until_utc (snd (jitter_duration b st)) = ps_cooldown_until_utc st"
  "ps_deferred (snd (jitter_duration b st)) = ps_deferred st"
  "ps_backoff_step (snd (jitter_duration b st)) = ps_backoff_step st"
  "ps_interface_triggers (snd (jitter_duration b st)) = ps_interface_triggers st"
  using same_but_rng_fields [OF jitter_duration_rng [of st b]] by simp_all

lemma replan_fields [simp]:
  "ps_runs (replan_remaining_state X po now st) = ps_runs st"
  "ps_last_started_at_utc (replan_remaining_state X po now st) = ps_last_started_at_utc st"
  "ps_cooldown_until_utc (replan_remaining_state X po now st) = ps_cooldown_until_utc st"
  "ps_backoff_step (replan_remaining_state X po now st) = ps_backoff_step st"
  "ps_deferred (replan_remaining_state X po now st) = ps_deferred st"
  "ps_interface_triggers (replan_remaining_state X po now st) = ps_interface_triggers st"
  by (simp_all add: replan_remaining_state_def Let_def split_beta)

lemma trigger_fields [simp]:
  "ps_runs (update_trigger i f st) = ps_runs st"
  "ps_last_started_at_utc (update_trigger i f st) = ps_last_started_at_utc st"
  "ps_cooldown_until_utc (update_trigger i f st) = ps_cooldown_until_utc st"
  "ps_deferred (update_trigger i f st) = ps_deferred st"
  "ps_slots (update_trigger i f st) = ps_slots st"
  "ps_last_observed_utc (update_trigger i f st) = ps_last_observed_utc st"
  "ps_backoff_step (update_trigger i f st) = ps_backoff_step st"
  by (simp_all add: update_trigger_def)

lemma reconcile_day_fields:
  "ps_runs (reconcile_day_state X po now st) =
     (if date_naive now \<le> ps_day_utc st then ps_runs st
      else filter (\<lambda>r. date_naive now \<le> date_naive r) (ps_runs st))"
  "ps_last_started_at_utc (reconcile_day_state X po now st) = ps_last_started_at_utc st"
  by (simp_all add: reconcile_day_state_def plan_full_day_def Let_def split_beta)

lemma rate_limit_deadline_fields [simp]:
  "ps_runs (snd (rate_limit_deadline X po now rl st)) = ps_runs st"
  "ps_last_started_at_utc (snd (rate_limit_deadline X po now rl st)) = ps_last_started_at_utc st"
  "ps_deferred (snd (rate_limit_deadline X po now rl st)) = ps_deferred st"
  "ps_interface_triggers (snd (rate_limit_deadline X po now rl st)) = ps_interface_triggers st"
  by (simp_all add: rate_limit_deadline_def next_backoff_state_def Let_def split_beta split: option.splits)

lemma rate_limited_fields [simp]:
  "ps_runs (snd (rate_limited_state X po now rl reserved op st)) = ps_runs st"
  "ps_last_started_at_utc (snd (rate_limited_state X po now rl reserved op st)) = ps_last_started_at_utc st"
  by (simp_all add: rate_limited_state_def apply_rate_limit_def clear_pending_def Let_def split_beta)

lemma completed_fields [simp]:
  "ps_runs (completed_state X po now op report st) = ps_runs st"
  "ps_last_started_at_utc (completed_state X po now op report st) = ps_last_started_at_utc st"
  by (simp_all add: completed_state_def clear_pending_def Let_def)

lemma pstep_accounting:
  assumes "pstep X po now st st'"
  shows "ps_last_started_at_utc st' = ps_last_started_at_utc st \<and>
    (\<forall>d. date_naive now \<le> d \<longrightarrow> starts_on (ps_runs st') d = starts_on (ps_runs st) d)"
  using assms
  by (cases rule: pstep.cases)
    (simp_all add: reconcile_day_fields starts_on_filter latch_degraded_def expire_key_def
      remove_due_slots_def remove_slot_def clear_pending_def Let_def split: option.splits)

lemma psteps_accounting:
  "(pstep X po now)\<^sup>*\<^sup>* st st' \<Longrightarrow>
   ps_last_started_at_utc st' = ps_last_started_at_utc st \<and>
   (\<forall>d. date_naive now \<le> d \<longrightarrow> starts_on (ps_runs st') d = starts_on (ps_runs st) d)"
  by (induction rule: rtranclp_induct) (auto dest: pstep_accounting)

subsection \<open>What admission guarantees\<close>

definition within_caps :: "scheduler_policy \<Rightarrow> nat \<Rightarrow> bool" where
  "within_caps po n \<longleftrightarrow>
     (po_provider_kind po = PkMlab \<longrightarrow> n \<le> 4) \<and> (\<not> po_force_limits po \<longrightarrow> n \<le> po_daily_max po)"

lemma runs_on_day_eq: "runs_on_day st d = min (starts_on (ps_runs st) d) u32_max"
  by (simp add: runs_on_day_def starts_on_def Let_def)

lemma admitted_state:
  assumes "block_reason_state X po now st = None" "po_daily_max po \<le> u32_max"
  shows "within_caps po (starts_on (ps_runs st) (date_naive now) + 1)"
    "\<not> po_force_limits po \<Longrightarrow> ps_last_started_at_utc st = Some l \<Longrightarrow>
       add_duration X l (po_min_spacing po) \<le> now"
    "\<not> po_force_limits po \<Longrightarrow> ps_cooldown_until_utc st = Some c \<Longrightarrow> c \<le> now"
    "\<not> po_force_limits po \<Longrightarrow> po_daily_max po \<noteq> 0"
  using assms
  by (auto simp: block_reason_state_def spacing_block_def within_caps_def runs_on_day_eq Let_def
      split: if_splits option.splits)

definition op_time :: "sched_op \<Rightarrow> time option" where
  "op_time op =
     (case op of OpObserve _ t _ _ \<Rightarrow> Some t | OpPoll _ t _ \<Rightarrow> Some t | OpPreflight _ t \<Rightarrow> Some t
      | OpReserve t \<Rightarrow> Some t | OpFinish _ t _ _ \<Rightarrow> Some t | OpFlush \<Rightarrow> None)"

text \<open>A clock that does not run backwards from \<open>t\<close> on.\<close>

fun clock_ok :: "time \<Rightarrow> sched_op list \<Rightarrow> bool" where
  "clock_ok t [] = True"
| "clock_ok t (op # ops) =
     (case op_time op of None \<Rightarrow> clock_ok t ops | Some u \<Rightarrow> t \<le> u \<and> clock_ok u ops)"

definition grants_inv :: "ext \<Rightarrow> time \<Rightarrow> time list \<Rightarrow> 'b sched \<Rightarrow> bool" where
  "grants_inv X t G s \<longleftrightarrow>
     (\<forall>d. date_naive t \<le> d \<longrightarrow> starts_on G d \<le> starts_on (ps_runs (sstate s)) d) \<and>
     (\<forall>d. within_caps (sc_policy s) (starts_on G d)) \<and>
     (\<forall>g \<in> set G. \<exists>l. ps_last_started_at_utc (sstate s) = Some l \<and> g \<le> l) \<and>
     (\<not> po_force_limits (sc_policy s) \<longrightarrow> spaced X (po_min_spacing (sc_policy s)) G)"

lemma grants_inv_steps:
  assumes "grants_inv X t G s" "t \<le> u" "step_ok X C u s s'"
  shows "grants_inv X u G s'"
proof -
  have "date_naive t \<le> date_naive u" using assms(2) by (rule date_naive_mono)
  moreover note psteps_accounting [of X "sc_policy s" u "sstate s" "sstate s'"]
  ultimately show ?thesis
    using assms(1) step_okD [OF assms(3)] unfolding grants_inv_def frame_ok_def by fastforce
qed

lemma grants_inv_start:
  assumes inv: "grants_inv X t G s" and u: "t \<le> u"
    and free: "block_reason_state X (sc_policy s) u (reconcile_day_state X (sc_policy s) u (sstate s)) = None"
    and st': "sstate s' = record_start u (reconcile_day_state X (sc_policy s) u (sstate s))"
    and po: "sc_policy s' = sc_policy s" "po_daily_max (sc_policy s) \<le> u32_max"
  shows "grants_inv X u (G @ [u]) s'" "grants_inv X u G s'"
proof -
  let ?po = "sc_policy s"
  let ?st = "reconcile_day_state X ?po u (sstate s)"
  have du: "date_naive t \<le> date_naive u" using u by (rule date_naive_mono)
  have acc: "ps_last_started_at_utc ?st = ps_last_started_at_utc (sstate s)"
    "\<And>d. date_naive u \<le> d \<Longrightarrow> starts_on (ps_runs ?st) d = starts_on (ps_runs (sstate s)) d"
    using pstep_accounting [OF ps_day [of X ?po u "sstate s"]] by auto
  note adm = admitted_state [OF free po(2)]
  have runs: "starts_on G d \<le> starts_on (ps_runs ?st) d" if "date_naive u \<le> d" for d
    using inv du that acc(2) [OF that] by (auto simp: grants_inv_def)
  have caps: "within_caps ?po (starts_on (G @ [u]) d)" for d
  proof (cases "d = date_naive u")
    case True
    have "starts_on G (date_naive u) + 1 \<le> starts_on (ps_runs ?st) (date_naive u) + 1"
      using runs [of "date_naive u"] by simp
    then show ?thesis using adm(1) True by (auto simp: within_caps_def)
  next
    case False
    then show ?thesis using inv by (simp add: grants_inv_def)
  qed
  have last': "\<exists>l. ps_last_started_at_utc (sstate s') = Some l \<and> g \<le> l" if "g = u \<or> g \<in> set G" for g
    using inv acc(1) that by (fastforce simp: st' record_start_def opt_max_def grants_inv_def split: option.splits)
  have spc: "spaced X (po_min_spacing ?po) (G @ [u])" if force: "\<not> po_force_limits ?po"
  proof -
    have "add_duration X g (po_min_spacing ?po) \<le> u" if gin: "g \<in> set G" for g
    proof -
      obtain l where l: "ps_last_started_at_utc ?st = Some l" "g \<le> l"
        using inv gin acc(1) by (auto simp: grants_inv_def)
      show ?thesis
        by (rule order_trans [OF add_duration_mono [OF l(2)] adm(2) [OF force l(1)]])
    qed
    then show ?thesis
      using inv force by (auto simp: spaced_def sorted_wrt_append grants_inv_def)
  qed
  show "grants_inv X u (G @ [u]) s'"
    using runs caps last' spc
    by (auto simp: grants_inv_def po(1) st' record_start_def)
  show "grants_inv X u G s'"
    using runs last' inv
    by (auto simp: grants_inv_def po(1) st' record_start_def le_SucI)
qed

lemma exec_op_grants:
  assumes "grants_inv X t G s" "po_daily_max (sc_policy s) \<le> u32_max"
    "case op_time op of None \<Rightarrow> u = t | Some v \<Rightarrow> t \<le> v \<and> u = v"
    "exec_op X C op s = (g, s')"
  shows "grants_inv X u (G @ g) s'"
proof -
  note steps = grants_inv_steps [OF assms(1)]
  show ?thesis
  proof (cases op)
    case (OpReserve now)
    then have u: "u = now" "t \<le> now" using assms(3) by (simp_all add: op_time_def)
    obtain r s0 where res: "reserve_run X C now s = (r, s0)" by force
    then have g: "s' = s0" "g = (case r of Inl e \<Rightarrow> [] | Inr _ \<Rightarrow> [now])"
      using assms(4) OpReserve by (auto simp: exec_op_def split: sum.splits)
    from res show ?thesis
    proof (cases rule: reserve_run_cases)
      case (blocked b)
      then show ?thesis using steps [OF u(2) reconcile_day_step] g u by simp
    next
      case (started r0)
      have "sc_policy s0 = sc_policy s"
        using reserve_run_frame [OF res] by (simp add: frame_ok_def)
      from grants_inv_start [OF assms(1) u(2) started(1,4) this assms(2)] show ?thesis
        using g u started(3) by (auto split: sum.splits)
    qed
  next
    case (OpObserve run now i d)
    obtain r where "observe_interface_health X C run now i d s = (r, s')" "g = []"
      using assms(4) OpObserve
      by (cases "observe_interface_health X C run now i d s") (simp add: exec_op_def)
    then show ?thesis using steps [OF _ observe_step] OpObserve assms(3) by (simp add: op_time_def)
  next
    case (OpPoll run now ls)
    obtain r where "poll_interfaces X C run now ls s = (r, s')" "g = []"
      using assms(4) OpPoll by (cases "poll_interfaces X C run now ls s") (simp add: exec_op_def)
    then show ?thesis using steps [OF _ poll_interfaces_step] OpPoll assms(3) by (simp add: op_time_def)
  next
    case (OpPreflight run now)
    obtain r where "preflight_manual X C run now s = (r, s')" "g = []"
      using assms(4) OpPreflight by (cases "preflight_manual X C run now s") (simp add: exec_op_def)
    then show ?thesis using steps [OF _ preflight_step] OpPreflight assms(3) by (simp add: op_time_def)
  next
    case (OpFinish run now p report)
    obtain r where "finish_attempt X C run now p report s = (r, s')" "g = []"
      using assms(4) OpFinish by (cases "finish_attempt X C run now p report s") (simp add: exec_op_def)
    then show ?thesis using steps [OF _ finish_attempt_step] OpFinish assms(3) by (simp add: op_time_def)
  next
    case OpFlush
    obtain r where "sched_persist C s = (r, s')" "g = []"
      using assms(4) OpFlush by (cases "sched_persist C s") (simp add: exec_op_def sched_flush_def)
    then show ?thesis using steps [OF _ step_ok_persist, of t] OpFlush assms(3) by (simp add: op_time_def)
  qed
qed

lemma exec_ops_grants:
  assumes "grants_inv X t G s" "po_daily_max (sc_policy s) \<le> u32_max" "clock_ok t ops"
    "exec_ops X C ops s = (gs, s')"
  shows "\<exists>u. grants_inv X u (G @ gs) s' \<and> sc_policy s' = sc_policy s"
  using assms
proof (induction ops arbitrary: t G s gs)
  case Nil
  then show ?case by auto
next
  case (Cons op ops)
  obtain g s0 where op: "exec_op X C op s = (g, s0)" by force
  obtain gs' where ops: "exec_ops X C ops s0 = (gs', s')" "gs = g @ gs'"
    using Cons.prems(4) op by (auto simp: Let_def split: prod.splits)
  define u where "u = (case op_time op of None \<Rightarrow> t | Some v \<Rightarrow> v)"
  have "grants_inv X u (G @ g) s0"
    using Cons.prems(3) exec_op_grants [OF Cons.prems(1,2) _ op, of u]
    by (auto simp: u_def split: option.splits)
  moreover have "sc_policy s0 = sc_policy s"
    using exec_op_frame [of s X C op] op by (simp add: frame_ok_def)
  moreover have "clock_ok u ops" using Cons.prems(3) by (auto simp: u_def split: option.splits)
  ultimately show ?case using Cons.IH [of u "G @ g" s0 gs'] ops Cons.prems(2) by auto
qed

subsection \<open>Properties\<close>

text \<open>
  C2. Admission limits. In any sequence of scheduler calls with a clock that never runs
  backwards, whatever I/O fails, the granted starts respect the caps: at most four per UTC
  date for M-Lab even when local limits are forced off, at most the configured daily maximum
  unless forced, and without force any two grants are at least the minimum spacing apart.
\<close>

theorem admission_limits:
  assumes "clock_ok t ops" "exec_ops X C ops s = (granted, s')" "po_daily_max (sc_policy s) \<le> u32_max"
  shows "(po_provider_kind (sc_policy s) = PkMlab \<longrightarrow> starts_on granted d \<le> 4) \<and>
    (\<not> po_force_limits (sc_policy s) \<longrightarrow>
       starts_on granted d \<le> po_daily_max (sc_policy s) \<and>
       spaced X (po_min_spacing (sc_policy s)) granted)"
proof -
  have "grants_inv X t [] s"
    by (simp add: grants_inv_def within_caps_def spaced_def)
  from exec_ops_grants [OF this assms(3,1,2)] obtain u
    where "grants_inv X u granted s'" "sc_policy s' = sc_policy s" by auto
  then show ?thesis by (auto simp: grants_inv_def within_caps_def)
qed

text \<open>
  C4. Well-formedness and isolation. Every sequence of scheduler calls, failing ones
  included, keeps the invariant (ordered map, valid providers, generator never zero, backoff
  at most 4, runs sorted and not after the last start, fewer than five deferred attempts), so
  the scheduler never writes a state its own validation would reject on reopening; and no
  call touches the entry of another provider.
\<close>

theorem scheduler_invariant:
  assumes "sched_ok s" "exec_ops X C ops s = (granted, s')"
  shows "sched_ok s' \<and> validate_store FState (sc_store s') = Inr () \<and>
    (\<forall>pid. pid \<noteq> po_provider_id (sc_policy s) \<longrightarrow>
       bt_get (st_providers (sc_store s')) pid = bt_get (st_providers (sc_store s)) pid)"
  using exec_ops_frame [of s X C ops] assms sched_okD(3) [of s'] by (simp add: frame_ok_def)

text \<open>
  A clock that runs backwards is inert. Polling at an instant before the last observed
  one offers nothing, reports exactly one clock-rollback event, and leaves the whole
  persisted state, the persistence handle and every file as they were.
\<close>

theorem rollback_inert:
  assumes "now < ps_last_observed_utc (sstate s)" "poll_interfaces X C run now ls s = (r, s')"
  shows "\<exists>ev. r = Inr \<lparr> sp_opportunity = None, sp_events = [ev] \<rparr> \<and>
    ev_scheduler_action ev = Some ClockRollbackAction \<and> ev_outcome ev = Suppressed \<and>
    sc_store s' = sc_store s \<and> sc_persistence s' = sc_persistence s \<and>
    w_files (sc_world s') = w_files (sc_world s)"
proof -
  obtain ev s1 where e: "sched_event run now Suppressed TrScheduled (context_new (Some EkInternal) None)
       (ClockRollbackAction, ClockRollbackReason,
        ''previous='' @ x_rfc3339 X (ps_last_observed_utc (sstate s)) @ '' current='' @ x_rfc3339 X now) s
      = (ev, s1)" by force
  note f = sched_event_frame [OF e]
  have "ev_scheduler_action ev = Some ClockRollbackAction" "ev_outcome ev = Suppressed"
    using e by (auto simp: sched_event_def Let_def event_new_def split: prod.splits)
  then show ?thesis
    using assms e f by (auto simp: poll_interfaces_def advance_clock_def Let_def)
qed


text \<open>The three outcomes of the last part of a poll.\<close>

definition due_slot_at :: "time \<Rightarrow> provider_state \<Rightarrow> time option" where
  "due_slot_at now st =
     (if filter (\<lambda>slot. slot \<le> now) (ps_slots st) = [] then None
      else Some (hd (filter (\<lambda>slot. slot \<le> now) (ps_slots st))))"

definition pending_at ::
    "time \<Rightarrow> (string, bool) btree \<Rightarrow> provider_state \<Rightarrow> (string \<times> pending_trigger) option" where
  "pending_at now ls st = oldest_eligible_pending_trigger ls (due_slot_at now st \<noteq> None) st"

definition reason_at :: "time \<Rightarrow> (string, bool) btree \<Rightarrow> provider_state \<Rightarrow> trigger_reason" where
  "reason_at now ls st = (case pending_at now ls st of Some (_, p) \<Rightarrow> pt_reason p | None \<Rightarrow> TrScheduled)"

lemma poll_decide_offer:
  assumes "poll_decide X C run now ls evs s = (Inr p, s')" "sp_opportunity p = Some op"
  obtains ev s1 where
    "block_reason_state X (sc_policy s) now (sstate s) = None"
    "\<not> (pending_at now ls (sstate s) = None \<and> due_slot_at now (sstate s) = None)"
    "sched_persist C (update_state (consume_slots now (due_slot_at now (sstate s))
       (reason_at now ls (sstate s))) s) = (Inr (), s1)"
    "sched_event run now Scheduled (reason_at now ls (sstate s)) context_none
       (BandwidthStart, OpportunityReady, ''bandwidth start'') s1 = (ev, s')"
    "op_reason op = reason_at now ls (sstate s)" "sp_events p = evs @ [ev]"
proof -
  note run = assms(1) [unfolded poll_decide_def Let_def, folded due_slot_at_def, folded pending_at_def,
      folded reason_at_def]
  let ?due = "due_slot_at now (sstate s)" and ?reason = "reason_at now ls (sstate s)"
  have busy: "\<not> (pending_at now ls (sstate s) = None \<and> ?due = None)"
  proof
    assume idle: "pending_at now ls (sstate s) = None \<and> ?due = None"
    from run [unfolded if_P [OF idle]] assms(2) show False by auto
  qed
  have free: "block_reason X now s = None"
    using run [unfolded if_not_P [OF busy]] assms(2)
    by (cases "block_reason X now s") (auto split: prod.splits sum.splits)
  obtain r1 s1 where p: "sched_persist C (update_state (consume_slots now ?due ?reason) s) = (r1, s1)"
    by force
  obtain ev s2 where e: "sched_event run now Scheduled ?reason context_none
      (BandwidthStart, OpportunityReady, ''bandwidth start'') s1 = (ev, s2)" by force
  have "r1 = Inr () \<and> s2 = s' \<and> op_reason op = ?reason \<and> sp_events p = evs @ [ev]"
    using run [unfolded if_not_P [OF busy] free option.case p] e assms(2)
    by (auto split: sum.splits)
  then show ?thesis using that free busy p e by (simp add: block_reason_def)
qed

lemma block_reason_cong:
  assumes "ps_runs st' = ps_runs st" "ps_cooldown_until_utc st' = ps_cooldown_until_utc st"
    "ps_last_started_at_utc st' = ps_last_started_at_utc st"
  shows "block_reason_state X po now st' = block_reason_state X po now st"
  unfolding block_reason_state_def spacing_block_def runs_on_day_def assms ..

lemma consume_fields [simp]:
  "ps_runs (consume_slots now due r st) = ps_runs st"
  "ps_cooldown_until_utc (consume_slots now due r st) = ps_cooldown_until_utc st"
  "ps_last_started_at_utc (consume_slots now due r st) = ps_last_started_at_utc st"
  "ps_deferred (consume_slots now due r st) = ps_deferred st"
  "ps_day_utc (consume_slots now due r st) = ps_day_utc st"
  by (simp_all add: consume_slots_def remove_due_slots_def remove_slot_def Let_def)

lemma block_reason_consume [simp]:
  "block_reason_state X po now (consume_slots now' due r st) = block_reason_state X po now st"
  by (rule block_reason_cong) simp_all

lemma reconcile_day_deferred:
  "ps_deferred st = None \<Longrightarrow> ps_deferred (reconcile_day_state X po now st) = None"
  using same_but_rng_fields(7) [OF plan_full_day_rng]
  by (simp add: reconcile_day_state_def Let_def split_beta)

lemma day_le_reconcile: "date_naive now \<le> ps_day_utc (reconcile_day_state X po now st)"
  using same_but_rng_fields(1) [OF plan_full_day_rng]
  by (simp add: reconcile_day_state_def Let_def split_beta)

lemma reconcile_day_id: "date_naive now \<le> ps_day_utc st \<Longrightarrow> reconcile_day_state X po now st = st"
  by (simp add: reconcile_day_state_def)

text \<open>The state a poll reaches before it looks for work.\<close>

lemma poll_stages:
  assumes "poll_interfaces X C run now ls s = (Inr p, s')" "\<not> now < ps_last_observed_utc (sstate s)"
  obtains s0 s1 s2 evs0 evs1 d where
    "advance_clock X C run now s = (Inr evs0, s0)" "poll_expire C run now s0 = (Inr evs1, s1)"
    "poll_deferred C run now s1 = (Inr d, s2)"
    "case d of Inl op \<Rightarrow> p = \<lparr> sp_opportunity = Some op, sp_events = evs0 @ evs1 \<rparr> \<and> s' = s2
     | Inr evs2 \<Rightarrow> poll_decide X C run now ls (evs0 @ evs1 @ evs2) s2 = (Inr p, s')"
    "sstate s0 = (reconcile_day_state X (sc_policy s) now (sstate s)) \<lparr> ps_last_observed_utc := now \<rparr>"
    "ps_deferred (sstate s1) = ps_deferred (sstate s0)" "ps_day_utc (sstate s1) = ps_day_utc (sstate s0)"
proof -
  obtain r0 s0 where a: "advance_clock X C run now s = (r0, s0)" by force
  have "\<exists>r. sched_persist C (update_state (\<lambda>st. st \<lparr> ps_last_observed_utc := now \<rparr>)
      (reconcile_day X now s)) = (r, s0)"
    using a assms(2) by (auto simp: advance_clock_def Let_def split: prod.splits sum.splits)
  then have st0: "sstate s0 = (reconcile_day_state X (sc_policy s) now (sstate s)) \<lparr> ps_last_observed_utc := now \<rparr>"
    using sched_persist_frame(4) by (fastforce simp: reconcile_day_def)
  obtain r1 s1 where b: "poll_expire C run now s0 = (r1, s1)" by force
  have expire: "ps_deferred (fold (\<lambda>(k, _). expire_key k) ks st) = ps_deferred st \<and>
      ps_day_utc (fold (\<lambda>(k, _). expire_key k) ks st) = ps_day_utc st"
    for ks :: "(string \<times> pending_trigger) list" and st
    by (induction ks arbitrary: st) (auto simp: expire_key_def split_beta split: option.splits)
  have evs: "sstate s2 = sstate s" if "expiry_events run now xs s = (es, s2)" for xs es and s s2 :: "'a sched"
    using that by (induction xs arbitrary: s es) (auto split: prod.splits dest!: sched_event_frame(6))
  have st1: "ps_deferred (sstate s1) = ps_deferred (sstate s0)" "ps_day_utc (sstate s1) = ps_day_utc (sstate s0)"
    using b expire by (auto simp: poll_expire_def Let_def dest!: evs sched_persist_frame(4)
        split: if_splits prod.splits sum.splits)
  obtain r2 s2 where c: "poll_deferred C run now s1 = (r2, s2)" by force
  have obs: "\<not> now < ps_last_observed_utc (sstate s0)" by (simp add: st0)
  obtain evs0 where "r0 = Inr evs0" using assms(1) a by (cases r0) (auto simp: poll_interfaces_def)
  moreover obtain evs1 where "r1 = Inr evs1"
    using assms(1) a b obs calculation by (cases r1) (auto simp: poll_interfaces_def)
  moreover obtain d where "r2 = Inr d"
    using assms(1) a b c obs calculation by (cases r2) (auto simp: poll_interfaces_def)
  ultimately show ?thesis
    using that [of evs0 s0 evs1 s1 d s2, OF _ _ _ _ st0 st1] a b c obs assms(1)
    by (auto simp: poll_interfaces_def split: sum.splits)
qed

text \<open>
  C8. A fresh offer can be taken. When no opportunity is deferred, an opportunity a poll offers
  passes the admission check at the same instant: a reservation made then is not refused (it
  can only fail to be written).
\<close>

theorem fresh_offer_admissible:
  assumes "\<not> now < ps_last_observed_utc (sstate s)" "ps_deferred (sstate s) = None"
    "poll_interfaces X C run now ls s = (Inr p, s')" "sp_opportunity p \<noteq> None"
  shows "block_reason_state X (sc_policy s') now
      (reconcile_day_state X (sc_policy s') now (sstate s')) = None \<and>
    (\<exists>r0 s1. sched_persist C (update_state (record_start now) (reconcile_day X now s')) = (r0, s1) \<and>
       snd (reserve_run X C now s') = s1 \<and> isl (fst (reserve_run X C now s')) = isl r0)"
proof -
  from poll_stages [OF assms(3,1)] obtain s0 s1 s2 evs0 evs1 d where
    st: "advance_clock X C run now s = (Inr evs0, s0)" "poll_expire C run now s0 = (Inr evs1, s1)"
    "poll_deferred C run now s1 = (Inr d, s2)"
    "case d of Inl op \<Rightarrow> p = \<lparr> sp_opportunity = Some op, sp_events = evs0 @ evs1 \<rparr> \<and> s' = s2
     | Inr evs2 \<Rightarrow> poll_decide X C run now ls (evs0 @ evs1 @ evs2) s2 = (Inr p, s')"
    "sstate s0 = (reconcile_day_state X (sc_policy s) now (sstate s)) \<lparr> ps_last_observed_utc := now \<rparr>"
    "ps_deferred (sstate s1) = ps_deferred (sstate s0)" "ps_day_utc (sstate s1) = ps_day_utc (sstate s0)" .
  have "ps_deferred (sstate s0) = None"
    using assms(2) by (simp add: st(5) reconcile_day_deferred)
  then have "d = Inr []" "s2 = s1"
    using st(3,6) by (simp_all add: poll_deferred_def)
  with st(4) obtain p' where dec: "poll_decide X C run now ls (evs0 @ evs1) s1 = (Inr p, s')" by simp
  obtain op where "sp_opportunity p = Some op" using assms(4) by auto
  from poll_decide_offer [OF dec this] obtain ev s3 where
    free: "block_reason_state X (sc_policy s1) now (sstate s1) = None"
    and p3: "sched_persist C (update_state (consume_slots now (due_slot_at now (sstate s1))
       (reason_at now ls (sstate s1))) s1) = (Inr (), s3)"
    and e3: "sched_event run now Scheduled (reason_at now ls (sstate s1)) context_none
       (BandwidthStart, OpportunityReady, ''bandwidth start'') s3 = (ev, s')" .
  have s': "sc_policy s' = sc_policy s1" "sstate s' = consume_slots now (due_slot_at now (sstate s1))
       (reason_at now ls (sstate s1)) (sstate s1)"
    using sched_persist_frame(1,4) [OF p3] sched_event_frame(1,6) [OF e3] by simp_all
  have "date_naive now \<le> ps_day_utc (sstate s')"
    using st(5,7) day_le_reconcile by (simp add: s'(2))
  then have free': "block_reason_state X (sc_policy s') now
      (reconcile_day_state X (sc_policy s') now (sstate s')) = None"
    using free by (simp add: reconcile_day_id s')
  obtain r s4 where res: "reserve_run X C now s' = (r, s4)" by force
  from res have "\<exists>r0. sched_persist C (update_state (record_start now) (reconcile_day X now s')) = (r0, s4) \<and>
      isl r = isl r0"
  proof (cases rule: reserve_run_cases)
    case (blocked b)
    then show ?thesis using free' by simp
  next
    case (started r0)
    then show ?thesis by (auto split: sum.splits)
  qed
  then show ?thesis using free' res by simp
qed

end
