(* ===== verification/Restart.thy ===== *)
theory Restart
  imports SchedulerProps
begin

text \<open>
  The scheduler together with its files: without I/O failures no call fails, and across any
  number of crashes and restarts the admission limits hold for the starts of all sessions
  together.
\<close>

subsection \<open>A scheduler whose files are in order\<close>

definition seated :: "'b codec \<Rightarrow> 'b sched \<Rightarrow> bool" where
  "seated C s \<longleftrightarrow> sched_ok s \<and>
     (\<exists>lg st. installed C (sc_persistence s) (sc_world s) lg st) \<and>
     provider_keys (pe_committed (sc_persistence s)) \<subseteq> provider_keys (sc_store s)"

text \<open>No fault is scheduled and there are \<open>n\<close> sequence numbers left.\<close>

definition quiet :: "'b codec \<Rightarrow> nat \<Rightarrow> 'b sched \<Rightarrow> bool" where
  "quiet C n s \<longleftrightarrow> seated C s \<and> w_faults (sc_world s) = [] \<and>
     cp_sequence (pe_checkpoint (sc_persistence s)) + n \<le> u64_max"

lemma quiet_mono: "quiet C n s \<Longrightarrow> m \<le> n \<Longrightarrow> quiet C m s"
  by (simp add: quiet_def)

lemma provider_keys_bt: "provider_keys s = fst ` set (st_providers s)"
  by (auto simp: provider_keys_def)

lemma keys_update:
  assumes "bt_ok (st_providers (sc_store s))"
  shows "provider_keys (sc_store s) \<subseteq> provider_keys (sc_store (update_state f s))"
  using assms by (force simp: provider_keys_bt update_state_def set_bt_insert)

lemma seated_committable:
  "seated C s \<Longrightarrow> committable (sc_persistence s) (sc_store s)"
  by (auto simp: seated_def committable_def sched_ok_def store_ok_def)

lemma seated_update:
  assumes "seated C s" "provider_inv (sc_policy s) (sstate s) \<Longrightarrow> provider_inv (sc_policy s) (f (sstate s))"
  shows "seated C (update_state f s)"
proof -
  have ok: "sched_ok s" using assms(1) by (simp add: seated_def)
  then have "bt_ok (st_providers (sc_store s))" by (simp add: sched_ok_def store_ok_def)
  from keys_update [OF this] show ?thesis
    using assms sched_ok_update [OF ok] sched_okD(2) [OF ok] by (fastforce simp: seated_def)
qed

lemma installed_next_id:
  "installed C p (w \<lparr> w_next_id := n \<rparr>) lg st = installed C p w lg st"
  by (simp add: installed_def plain_path_def)

lemma seated_event:
  assumes "seated C s" "sched_event run now out reason ctx d s = (ev, s')"
  shows "seated C s'"
proof -
  have "sc_world s' = (sc_world s) \<lparr> w_next_id := w_next_id (sc_world s) + 1 \<rparr>"
    using assms(2) by (auto simp: sched_event_def fresh_id_def Let_def split: prod.splits)
  then show ?thesis
    using assms sched_event_frame [OF assms(2)] sched_ok_event [OF _ assms(2)]
    by (auto simp: seated_def installed_next_id)
qed

lemma commit_steps:
  "cp_sequence (pe_checkpoint (after_commit C p store)) \<le> cp_sequence (pe_checkpoint p) + 1"
  by (simp add: after_commit_def commit_target_def commit_checkpoint_def commit_record_def record_new_def Let_def)

lemma persisted_seated:
  assumes C: "codec_ok C" and s: "seated C s" and run: "sched_persist C s = (Inr (), s')"
  shows "seated C s'"
    "cp_sequence (pe_checkpoint (sc_persistence s')) \<le> cp_sequence (pe_checkpoint (sc_persistence s)) + 1"
proof -
  obtain lg st where inst: "installed C (sc_persistence s) (sc_world s) lg st"
    using s by (auto simp: seated_def)
  note com = seated_committable [OF s]
  obtain p' store' w' where p: "persist C (sc_persistence s) (sc_store s) (sc_world s) = (Inr (), p', store', w')"
    and s': "s' = s \<lparr> sc_persistence := p', sc_store := store', sc_world := w' \<rparr>"
    using run by (auto simp: sched_persist_def split: prod.splits)
  note inst' = persist_reopen(3) [OF C inst com p refl]
  have p': "p' = (after_commit C (sc_persistence s) (sc_store s))
      \<lparr> pe_snapshot_digest := pe_snapshot_digest p', pe_poisoned := pe_poisoned p' \<rparr>"
    using persist_effect [OF p, of "the (w_files (sc_world s) FLedger)"] inst
    by (auto simp: installed_def disk_ok_def)
  have "pe_committed p' = pe_committed (after_commit C (sc_persistence s) (sc_store s))"
    "pe_checkpoint p' = pe_checkpoint (after_commit C (sc_persistence s) (sc_store s))"
    by (subst p', simp)+
  moreover have "provider_keys store' = provider_keys (sc_store s)"
    using persist_store [OF p] by auto
  ultimately show "seated C s'"
    using inst' s sched_ok_persist [OF _ run] after_commit_keys(4) [OF inst com]
    by (auto simp: seated_def s')
  show "cp_sequence (pe_checkpoint (sc_persistence s')) \<le> cp_sequence (pe_checkpoint (sc_persistence s)) + 1"
    using commit_steps [of C "sc_persistence s" "sc_store s"]
    by (simp add: s' \<open>pe_checkpoint p' = _\<close>)
qed

lemma quiet_persist:
  assumes C: "codec_ok C" and s: "quiet C (Suc n) s"
  obtains s' where "sched_persist C s = (Inr (), s')" "quiet C n s'"
proof -
  have seat: "seated C s" and faults: "w_faults (sc_world s) = []"
    and seq: "cp_sequence (pe_checkpoint (sc_persistence s)) + Suc n \<le> u64_max"
    using s by (simp_all add: quiet_def)
  obtain lg st where inst: "installed C (sc_persistence s) (sc_world s) lg st"
    using seat by (auto simp: seated_def)
  have "validate_store FState (sc_store s) = Inr ()"
    using seat sched_okD(3) [of s FState] by (simp add: seated_def)
  from persist_no_fault [OF C inst this faults] seq
  obtain p' store' w' where p: "persist C (sc_persistence s) (sc_store s) (sc_world s) = (Inr (), p', store', w')"
    "w_faults w' = []" by auto
  let ?s = "s \<lparr> sc_persistence := p', sc_store := store', sc_world := w' \<rparr>"
  have run: "sched_persist C s = (Inr (), ?s)" using p by (simp add: sched_persist_def)
  from persisted_seated [OF C seat run] p(2) seq have "quiet C n ?s" by (simp add: quiet_def)
  with run show ?thesis by (rule that)
qed

lemma quiet_event:
  assumes "quiet C n s" "sched_event run now out reason ctx d s = (ev, s')"
  shows "quiet C n s'"
  using assms seated_event [OF _ assms(2)] sched_event_frame [OF assms(2)] by (simp add: quiet_def)

lemma quiet_update:
  assumes "quiet C n s" "provider_inv (sc_policy s) (sstate s) \<Longrightarrow> provider_inv (sc_policy s) (f (sstate s))"
  shows "quiet C n (update_state f s)"
  using assms seated_update [of C s f] by (simp add: quiet_def)

subsection \<open>Without faults nothing fails\<close>

lemma quiet_inv: "quiet C n s \<Longrightarrow> policy_ok (sc_policy s) \<and> provider_inv (sc_policy s) (sstate s)"
  using sched_okD by (auto simp: quiet_def seated_def)

lemma quiet_commit:
  assumes "codec_ok C" "quiet C (Suc n) s"
    "policy_ok (sc_policy s) \<Longrightarrow> provider_inv (sc_policy s) (sstate s) \<Longrightarrow>
     provider_inv (sc_policy s) (f (sstate s))"
  obtains s' where "sched_persist C (update_state f s) = (Inr (), s')" "quiet C n s'"
  using quiet_persist [OF assms(1) quiet_update [OF assms(2)]] assms(3) quiet_inv [OF assms(2)] by blast

lemma quiet_advance:
  assumes C: "codec_ok C" and s: "quiet C (Suc n) s"
  obtains evs s' where "advance_clock X C run now s = (Inr evs, s')" "quiet C n s'"
proof (cases "now < ps_last_observed_utc (sstate s)")
  case True
  obtain ev s' where e: "sched_event run now Suppressed TrScheduled (context_new (Some EkInternal) None)
       (ClockRollbackAction, ClockRollbackReason,
        ''previous='' @ x_rfc3339 X (ps_last_observed_utc (sstate s)) @ '' current='' @ x_rfc3339 X now) s
      = (ev, s')" by force
  then show ?thesis
    using True that quiet_mono [OF quiet_event [OF s e]] by (simp add: advance_clock_def Let_def)
next
  case False
  let ?f = "\<lambda>st. st \<lparr> ps_last_observed_utc := now \<rparr>"
  have day: "quiet C (Suc n) (reconcile_day X now s)"
    unfolding reconcile_day_def by (rule quiet_update [OF s]) (simp add: inv_intros quiet_inv [OF s])
  obtain s' where "sched_persist C (update_state ?f (reconcile_day X now s)) = (Inr (), s')" "quiet C n s'"
    using quiet_commit [OF C day, of ?f] by auto
  then show ?thesis using False that by (simp add: advance_clock_def Let_def)
qed

lemma quiet_expiry_events:
  "quiet C n s \<Longrightarrow> expiry_events run now xs s = (evs, s') \<Longrightarrow> quiet C n s'"
proof (induction xs arbitrary: s evs)
  case (Cons x xs)
  then show ?case by (cases x) (auto split: prod.splits dest: quiet_event)
qed simp

lemma quiet_expire:
  assumes C: "codec_ok C" and s: "quiet C (Suc n) s"
  obtains evs s' where "poll_expire C run now s = (Inr evs, s')" "quiet C n s'"
proof (cases "expired_triggers now (sstate s) = []")
  case True
  then show ?thesis using that quiet_mono [OF s] by (simp add: poll_expire_def)
next
  case False
  let ?xs = "expired_triggers now (sstate s)"
  obtain s1 where p: "sched_persist C (update_state (fold (\<lambda>(key, _). expire_key key) ?xs) s) = (Inr (), s1)"
    and q: "quiet C n s1"
    using quiet_commit [OF C s, of "fold (\<lambda>(key, _). expire_key key) ?xs"] by auto
  obtain evs s' where e: "expiry_events run now ?xs s1 = (evs, s')" by force
  show ?thesis using that [OF _ quiet_expiry_events [OF q e]] False p e by (simp add: poll_expire_def Let_def)
qed

lemma quiet_deferred:
  assumes C: "codec_ok C" and s: "quiet C (Suc n) s"
  obtains d s' where "poll_deferred C run now s = (Inr d, s')" "quiet C n s'"
proof -
  obtain s1 where p: "sched_persist C (update_state (\<lambda>st. st \<lparr> ps_deferred := None \<rparr>) s) = (Inr (), s1)"
    and q: "quiet C n s1"
    using quiet_commit [OF C s, of "\<lambda>st. st \<lparr> ps_deferred := None \<rparr>"] provider_inv_no_deferred by auto
  have "\<exists>d s'. poll_deferred C run now s = (Inr d, s') \<and> quiet C n s'"
    using p quiet_mono [OF s, of n] quiet_event [OF q]
    by (auto simp: poll_deferred_def Let_def split: option.splits prod.splits)
  then show ?thesis using that by blast
qed

lemma quiet_decide:
  assumes C: "codec_ok C" and s: "quiet C (Suc n) s"
  obtains p s' where "poll_decide X C run now ls evs s = (Inr p, s')" "quiet C n s'"
proof -
  define due where "due = (if filter (\<lambda>slot. slot \<le> now) (ps_slots (sstate s)) = [] then None
    else Some (hd (filter (\<lambda>slot. slot \<le> now) (ps_slots (sstate s)))))"
  define pending where "pending = oldest_eligible_pending_trigger ls (due \<noteq> None) (sstate s)"
  define pi where "pi = (case pending of Some (key, _) \<Rightarrow> interface_from_key key | None \<Rightarrow> None)"
  define reason where "reason = (case pending of Some (_, p) \<Rightarrow> pt_reason p | None \<Rightarrow> TrScheduled)"
  note defs = poll_decide_def [of X C run now ls evs s, unfolded Let_def, folded due_def,
      folded pending_def, folded pi_def, folded reason_def]
  have "\<exists>p s'. poll_decide X C run now ls evs s = (Inr p, s') \<and> quiet C n s'"
  proof (cases "pending = None \<and> due = None")
    case True
    then show ?thesis using defs quiet_mono [OF s] by auto
  next
    case False
    note run = defs [unfolded if_not_P [OF False]]
    show ?thesis
    proof (cases "block_reason X now s")
      case None
      obtain s1 where p: "sched_persist C (update_state (consume_slots now due reason) s) = (Inr (), s1)"
        and q: "quiet C n s1"
        using quiet_commit [OF C s, of "consume_slots now due reason"] by auto
      show ?thesis
        unfolding run None option.case p using quiet_event [OF q] by (auto split: prod.splits)
    next
      case (Some b)
      define final where "final \<longleftrightarrow> bk_kind b = EkDailyCap
          \<or> day_end (date_naive now) \<le> add_duration X now (po_min_spacing (sc_policy s))"
      define s0 where "s0 = (if due \<noteq> None then update_state (remove_due_slots now) s else s)"
      define s2 where "s2 = (if final \<and> pending \<noteq> None then update_state (clear_pending pi) s0 else s0)"
      have "quiet C (Suc n) s0" using s quiet_update [OF s, of "remove_due_slots now"] by (simp add: s0_def)
      then have "quiet C (Suc n) s2"
        using quiet_update [of C "Suc n" s0 "clear_pending pi"] by (simp add: s2_def)
      from quiet_persist [OF C this] obtain s1 where p: "sched_persist C s2 = (Inr (), s1)"
        and q: "quiet C n s1" .
      show ?thesis
        unfolding run Some option.case final_def [symmetric] s0_def [symmetric] s2_def [symmetric] p
        using quiet_event [OF q] by (auto split: prod.splits)
    qed
  qed
  then show ?thesis using that by blast
qed

lemma quiet_poll:
  assumes C: "codec_ok C" and s: "quiet C (n + 4) s"
  obtains p s' where "poll_interfaces X C run now ls s = (Inr p, s')" "quiet C n s'"
proof -
  obtain evs0 s0 where a: "advance_clock X C run now s = (Inr evs0, s0)" "quiet C (n + 3) s0"
    using quiet_advance [OF C, of "n + 3" s X run now] s by (simp add: eval_nat_numeral) blast
  obtain evs1 s1 where b: "poll_expire C run now s0 = (Inr evs1, s1)" "quiet C (n + 2) s1"
    using quiet_expire [OF C, of "n + 2" s0 run now] a(2) by (simp add: eval_nat_numeral) blast
  obtain d s2 where c: "poll_deferred C run now s1 = (Inr d, s2)" "quiet C (n + 1) s2"
    using quiet_deferred [OF C, of "n + 1" s1 run now] b(2) by (simp add: eval_nat_numeral) blast
  show ?thesis
  proof (cases "now < ps_last_observed_utc (sstate s0)")
    case True
    then show ?thesis using that a quiet_mono [OF a(2), of n] by (auto simp: poll_interfaces_def)
  next
    case False
    then show ?thesis
      using that a b c quiet_mono [OF c(2), of n] quiet_decide [OF C, of n s2 X run now ls]
      by (cases d) (auto simp: poll_interfaces_def)
  qed
qed

lemma quiet_preflight:
  assumes C: "codec_ok C" and s: "quiet C (Suc n) s"
  obtains d s' where "preflight_manual X C run now s = (Inr d, s')" "quiet C n s'"
proof -
  obtain evs0 s0 where a: "advance_clock X C run now s = (Inr evs0, s0)" "quiet C n s0"
    using quiet_advance [OF C s] .
  have "\<exists>d s'. preflight_manual X C run now s = (Inr d, s') \<and> quiet C n s'"
    using a quiet_event [OF a(2)]
    by (auto simp: preflight_manual_def Let_def split: option.splits prod.splits)
  then show ?thesis using that by blast
qed

lemma quiet_finish:
  assumes C: "codec_ok C" and s: "quiet C (Suc n) s"
  obtains d s' where "finish_attempt X C run now op report s = (Inr d, s')" "quiet C n s'"
proof (cases "rate_limit_from_report report (po_provider_kind (sc_policy s))")
  case None
  obtain s1 where "sched_persist C (update_state (completed_state X (sc_policy s) now op report) s) = (Inr (), s1)"
    "quiet C n s1"
    using quiet_commit [OF C s, of "completed_state X (sc_policy s) now op report"] completed_inv by blast
  then show ?thesis using that None by (auto simp: finish_attempt_def Let_def)
next
  case (Some rl)
  let ?f = "\<lambda>st. snd (rate_limited_state X (sc_policy s) now rl (br_reserved report) op st)"
  obtain s1 where p: "sched_persist C (update_state ?f s) = (Inr (), s1)" and q: "quiet C n s1"
    using quiet_commit [OF C s, of ?f] rate_limited_inv by blast
  have "\<exists>d s'. finish_attempt X C run now op report s = (Inr d, s') \<and> quiet C n s'"
    using Some p quiet_event [OF q] by (auto simp: finish_attempt_def Let_def split: prod.splits)
  then show ?thesis using that by blast
qed

lemma quiet_observe:
  assumes C: "codec_ok C" and s: "quiet C (n + 2) s"
  obtains evs s' where "observe_interface_health X C run now i d s = (Inr evs, s')" "quiet C n s'"
proof -
  obtain evs0 s0 where a: "advance_clock X C run now s = (Inr evs0, s0)" and q0: "quiet C (Suc n) s0"
    using quiet_advance [OF C, of "Suc n" s X run now] s by (simp add: eval_nat_numeral) blast
  note q0' = quiet_mono [OF q0, of n, simplified]
  have "\<exists>evs s'. observe_interface_health X C run now i d s = (Inr evs, s') \<and> quiet C n s'"
  proof (cases d)
    case (HdHealthy sn)
    then show ?thesis using a q0' by (simp add: observe_interface_health_def)
  next
    case (HdDegraded sn reason)
    let ?f = "latch_degraded i now (add_duration X now (po_pending_ttl (sc_policy s0))) (trigger_reason_of reason)"
    obtain s1 where p: "sched_persist C (update_state ?f s0) = (Inr (), s1)" and q: "quiet C n s1"
      using quiet_commit [OF C q0, of ?f] latch_inv by blast
    show ?thesis
      using HdDegraded a q0' p q quiet_event [OF q]
      by (auto simp: observe_interface_health_def Let_def split: prod.splits)
  next
    case (HdRecovered sn)
    let ?f = "update_trigger i (\<lambda>t. t \<lparr> it_pending := None, it_latched := False \<rparr>)"
    obtain s1 where p: "sched_persist C (update_state ?f s0) = (Inr (), s1)" and q: "quiet C n s1"
      using quiet_commit [OF C q0, of ?f] by auto
    show ?thesis
      using HdRecovered a q0' p q quiet_event [OF q] quiet_event [OF q0']
      by (auto simp: observe_interface_health_def Let_def split: prod.splits option.splits)
  qed
  then show ?thesis using that by blast
qed

lemma quiet_reserve:
  assumes C: "codec_ok C" and s: "quiet C (Suc n) s" and run: "reserve_run X C now s = (r, s')"
  shows "quiet C n s'"
    "isl r \<longleftrightarrow> block_reason_state X (sc_policy s) now (reconcile_day_state X (sc_policy s) now (sstate s)) \<noteq> None"
proof -
  have day: "quiet C (Suc n) (reconcile_day X now s)"
    unfolding reconcile_day_def by (rule quiet_update [OF s]) (simp add: inv_intros quiet_inv [OF s])
  obtain s1 where p: "sched_persist C (update_state (record_start now) (reconcile_day X now s)) = (Inr (), s1)"
    and q: "quiet C n s1"
    using quiet_commit [OF C day, of "record_start now"] record_start_inv by blast
  show "quiet C n s'" using run
  proof (cases rule: reserve_run_cases)
    case (blocked b)
    then show ?thesis using quiet_mono [OF day, of n] by simp
  next
    case (started r0)
    then show ?thesis using p q by simp
  qed
  show "isl r \<longleftrightarrow> block_reason_state X (sc_policy s) now (reconcile_day_state X (sc_policy s) now (sstate s)) \<noteq> None"
    using run
  proof (cases rule: reserve_run_cases)
    case (blocked b)
    then show ?thesis by simp
  next
    case (started r0)
    have "r0 = Inr ()" using started(2) p by simp
    then show ?thesis using started(1,3) by simp
  qed
qed

text \<open>
  C7. Progress without I/O failures. As long as storage does not fail and the sequence number
  is not exhausted, no scheduler call returns an error, except that a reservation is refused
  exactly when a cap, a cooldown or the spacing blocks it; and every call leaves the scheduler
  and its files in a state from which this holds again.
\<close>

theorem calls_succeed:
  assumes "codec_ok C" "quiet C (n + 4) s"
  shows "quiet C n (snd (exec_op X C op s)) \<and>
    (case op of
       OpObserve run now i d \<Rightarrow> \<not> isl (fst (observe_interface_health X C run now i d s))
     | OpPoll run now ls \<Rightarrow> \<not> isl (fst (poll_interfaces X C run now ls s))
     | OpPreflight run now \<Rightarrow> \<not> isl (fst (preflight_manual X C run now s))
     | OpReserve now \<Rightarrow> isl (fst (reserve_run X C now s)) =
         (block_reason_state X (sc_policy s) now (reconcile_day_state X (sc_policy s) now (sstate s)) \<noteq> None)
     | OpFinish run now p report \<Rightarrow> \<not> isl (fst (finish_attempt X C run now p report s))
     | OpFlush \<Rightarrow> \<not> isl (fst (sched_flush C s)))"
proof (cases op)
  case (OpObserve run now i d)
  have "quiet C (n + 2) s" using quiet_mono [OF assms(2)] by simp
  from quiet_observe [OF assms(1) this, where X = X and run = run and now = now and i = i and d = d]
  obtain evs s' where "observe_interface_health X C run now i d s = (Inr evs, s')" "quiet C n s'" .
  then show ?thesis using OpObserve by (simp add: exec_op_def)
next
  case (OpPoll run now ls)
  from quiet_poll [OF assms, where X = X and run = run and now = now and ls = ls]
  obtain p s' where "poll_interfaces X C run now ls s = (Inr p, s')" "quiet C n s'" .
  then show ?thesis using OpPoll by (simp add: exec_op_def)
next
  case (OpPreflight run now)
  have "quiet C (Suc n) s" using quiet_mono [OF assms(2)] by simp
  from quiet_preflight [OF assms(1) this, where X = X and run = run and now = now]
  obtain p s' where "preflight_manual X C run now s = (Inr p, s')" "quiet C n s'" .
  then show ?thesis using OpPreflight by (simp add: exec_op_def)
next
  case (OpReserve now)
  have q: "quiet C (Suc n) s" using quiet_mono [OF assms(2)] by simp
  obtain r s' where res: "reserve_run X C now s = (r, s')" by force
  from quiet_reserve [OF assms(1) q res] show ?thesis
    using OpReserve res by (auto simp: exec_op_def split: sum.splits)
next
  case (OpFinish run now p report)
  have "quiet C (Suc n) s" using quiet_mono [OF assms(2)] by simp
  from quiet_finish [OF assms(1) this, where X = X and run = run and now = now and op = p and report = report]
  obtain v s' where "finish_attempt X C run now p report s = (Inr v, s')" "quiet C n s'" .
  then show ?thesis using OpFinish by (simp add: exec_op_def)
next
  case OpFlush
  have "quiet C (Suc n) s" using quiet_mono [OF assms(2)] by simp
  from quiet_persist [OF assms(1) this] obtain s' where "sched_persist C s = (Inr (), s')" "quiet C n s'" .
  then show ?thesis using OpFlush by (simp add: exec_op_def sched_flush_def)
qed

subsection \<open>Demonstration values\<close>

definition demo_sched :: "provider_state \<Rightarrow> demo_byte sched" where
  "demo_sched st = \<lparr> sc_persistence = demo_persistence,
     sc_store = demo_store \<lparr> st_providers := [(''p'', st)] \<rparr>, sc_policy = demo_policy,
     sc_world = demo_world \<rparr>"

lemma demo_sched_simps [simp]:
  "sstate (demo_sched st) = st" "sc_policy (demo_sched st) = demo_policy"
  by (simp_all add: sstate_def demo_sched_def demo_policy_def bt_get_def)

lemma demo_quiet:
  assumes "provider_inv demo_policy st" "n < u64_max"
  shows "quiet demo_codec n (demo_sched st)"
proof -
  have "sched_ok (demo_sched st)"
    using assms(1) provider_inv_valid [of demo_policy st]
    by (simp add: sched_ok_def store_ok_def policy_ok_def demo_sched_def demo_store_def demo_policy_def
        bt_ok_def bt_get_def STATE_SCHEMA_VERSION_def duration_millis_def)
  moreover have "installed demo_codec demo_persistence demo_world demo_log
      (store_default \<lparr> st_checkpoint := Some (demo_cp 1) \<rparr>)"
    using demo_installed [of "[]"] by (simp add: demo_world_def)
  ultimately show ?thesis
    using assms(2)
    by (auto simp: quiet_def seated_def demo_sched_def demo_world_def demo_persistence_def demo_cp_def
        provider_keys_def store_default_def)
qed

lemma demo_inv: "provider_inv demo_policy (demo_provider \<lparr> ps_slots := xs \<rparr>)"
  by (simp add: provider_inv_def runs_ok_def deferred_ok_def demo_provider_def demo_policy_def
      duration_millis_def)

lemma demo_reserve:
  assumes "quiet demo_codec (Suc n) s" "sc_policy s = demo_policy" "date_naive now \<le> ps_day_utc (sstate s)"
  obtains s' where "quiet demo_codec n s'" "sc_policy s' = demo_policy"
    "exec_op demo_ext demo_codec (OpReserve now) s =
      (if block_reason_state demo_ext demo_policy now (sstate s) = None then [now] else [], s')"
    "sstate s' = (if block_reason_state demo_ext demo_policy now (sstate s) = None
      then record_start now (sstate s) else sstate s)"
proof -
  obtain r s' where run: "reserve_run demo_ext demo_codec now s = (r, s')" by force
  note q = quiet_reserve [OF demo_codec_ok assms(1) run]
  note day = reconcile_day_id [OF assms(3)]
  have "sc_policy s' = demo_policy" using reserve_run_frame [OF run] assms(2) by (simp add: frame_ok_def)
  moreover have "sstate s' = (if block_reason_state demo_ext demo_policy now (sstate s) = None
      then record_start now (sstate s) else sstate s)"
    using run by (cases rule: reserve_run_cases) (simp_all add: assms(2) day reconcile_day_def)
  ultimately show ?thesis
    using that [of s'] q run by (cases r) (simp_all add: exec_op_def assms(2) day)
qed

abbreviation demo_hour :: time where "demo_hour \<equiv> 3600 * int ns_per_sec"

lemma demo_grants:
  "\<exists>s'. exec_ops demo_ext demo_codec [OpReserve 0, OpReserve demo_hour, OpReserve (2 * demo_hour)]
      (demo_sched demo_provider) = ([0, demo_hour], s')"
proof -
  have "quiet demo_codec (Suc (Suc (Suc 0))) (demo_sched demo_provider)"
    using demo_quiet [of demo_provider "Suc (Suc (Suc 0))"] demo_inv [of "[]"] by (simp add: demo_provider_def)
  from demo_reserve [OF this, of 0] obtain s1 where s1: "quiet demo_codec (Suc (Suc 0)) s1"
    "sc_policy s1 = demo_policy" "sstate s1 = record_start 0 demo_provider"
    "exec_op demo_ext demo_codec (OpReserve 0) (demo_sched demo_provider) = ([0], s1)"
    by (auto simp: demo_provider_def demo_policy_def block_reason_state_def runs_on_day_def spacing_block_def
        date_naive_def)
  from demo_reserve [OF s1(1,2), of demo_hour] obtain s2 where s2: "quiet demo_codec (Suc 0) s2"
    "sc_policy s2 = demo_policy" "sstate s2 = record_start demo_hour (record_start 0 demo_provider)"
    "exec_op demo_ext demo_codec (OpReserve demo_hour) s1 = ([demo_hour], s2)"
    by (auto simp: s1(3) record_start_def opt_max_def demo_provider_def demo_policy_def block_reason_state_def
        runs_on_day_def spacing_block_def date_naive_def day_ns_def add_duration_def demo_ext_def)
  from demo_reserve [OF s2(1,2), of "2 * demo_hour"] obtain s3 where
    "exec_op demo_ext demo_codec (OpReserve (2 * demo_hour)) s2 = ([], s3)"
    by (auto simp: s2(3) record_start_def opt_max_def demo_provider_def demo_policy_def block_reason_state_def
        runs_on_day_def spacing_block_def date_naive_def day_ns_def)
  with s1(4) s2(4) show ?thesis by simp
qed

subsection \<open>Witnesses of the scheduler's properties\<close>

theorem admission_limits_witness:
  "\<exists>granted s'. exec_ops demo_ext demo_codec [OpReserve 0, OpReserve demo_hour, OpReserve (2 * demo_hour)]
      (demo_sched demo_provider) = (granted, s') \<and> length granted = 2 \<and> starts_on granted 0 \<le> 2 \<and>
    spaced demo_ext (po_min_spacing demo_policy) granted"
proof -
  obtain s' where run: "exec_ops demo_ext demo_codec
      [OpReserve 0, OpReserve demo_hour, OpReserve (2 * demo_hour)] (demo_sched demo_provider) =
      ([0, demo_hour], s')"
    using demo_grants by blast
  have "po_daily_max demo_policy = 2" "\<not> po_force_limits demo_policy" by (simp_all add: demo_policy_def)
  moreover have "clock_ok 0 [OpReserve 0, OpReserve demo_hour, OpReserve (2 * demo_hour)]"
    by (simp add: op_time_def)
  ultimately show ?thesis
    using admission_limits [OF _ run, of 0 0] run by (simp del: exec_ops.simps)
qed

theorem scheduler_invariant_witness:
  "\<exists>granted s'. exec_ops demo_ext demo_codec [OpReserve 0, OpReserve demo_hour, OpReserve (2 * demo_hour)]
      (demo_sched demo_provider) = (granted, s') \<and> granted \<noteq> [] \<and> sched_ok s' \<and>
    validate_store FState (sc_store s') = Inr ()"
proof -
  obtain s' where run: "exec_ops demo_ext demo_codec
      [OpReserve 0, OpReserve demo_hour, OpReserve (2 * demo_hour)] (demo_sched demo_provider) =
      ([0, demo_hour], s')"
    using demo_grants by blast
  have "sched_ok (demo_sched demo_provider)"
    using demo_quiet [of demo_provider 0] demo_inv [of "[]"]
    by (simp add: demo_provider_def quiet_def seated_def)
  from scheduler_invariant [OF this run] run show ?thesis by blast
qed

theorem rollback_inert_witness:
  "\<exists>r s'. poll_interfaces demo_ext demo_codec 5 (- 1) [] (demo_sched demo_provider) = (r, s') \<and>
    (\<exists>ev. r = Inr \<lparr> sp_opportunity = None, sp_events = [ev] \<rparr>) \<and>
    sc_store s' = sc_store (demo_sched demo_provider)"
proof -
  obtain r s' where run: "poll_interfaces demo_ext demo_codec 5 (- 1) [] (demo_sched demo_provider) = (r, s')"
    by force
  have "- 1 < ps_last_observed_utc (sstate (demo_sched demo_provider))" by (simp add: demo_provider_def)
  from rollback_inert [OF this run] run show ?thesis by auto
qed


theorem calls_succeed_witness:
  "quiet demo_codec 0 (snd (exec_op demo_ext demo_codec (OpPoll 5 0 []) (demo_sched demo_provider))) \<and>
   \<not> isl (fst (poll_interfaces demo_ext demo_codec 5 0 [] (demo_sched demo_provider)))"
proof -
  have "quiet demo_codec (0 + 4) (demo_sched demo_provider)"
    using demo_quiet [of demo_provider 4] demo_inv [of "[]"] by (simp add: demo_provider_def)
  from calls_succeed [OF demo_codec_ok this, of demo_ext "OpPoll 5 0 []"] show ?thesis by simp
qed

text \<open>A slot is due at the start of the day: it is offered and can be taken.\<close>

theorem fresh_offer_admissible_witness:
  "\<exists>p s'. poll_interfaces demo_ext demo_codec 5 0 [] (demo_sched (demo_provider \<lparr> ps_slots := [0] \<rparr>)) =
      (Inr p, s') \<and> sp_opportunity p \<noteq> None \<and>
    block_reason_state demo_ext (sc_policy s') 0
      (reconcile_day_state demo_ext (sc_policy s') 0 (sstate s')) = None"
proof -
  let ?s = "demo_sched (demo_provider \<lparr> ps_slots := [0] \<rparr>)"
  let ?st = "demo_provider \<lparr> ps_slots := [0] \<rparr>"
  have "quiet demo_codec (0 + 4) ?s" using demo_quiet [OF demo_inv, of 4] by simp
  from quiet_poll [OF demo_codec_ok this, of demo_ext 5 0 "[]"] obtain p s' where
    run: "poll_interfaces demo_ext demo_codec 5 0 [] ?s = (Inr p, s')" .
  have st: "\<not> 0 < ps_last_observed_utc (sstate ?s)" "ps_deferred (sstate ?s) = None"
    "reconcile_day_state demo_ext demo_policy 0 ?st = ?st"
    by (simp_all add: demo_provider_def reconcile_day_id date_naive_def)
  from poll_stages [OF run st(1)] obtain s0 s1 s2 evs0 evs1 d where
    st0: "advance_clock demo_ext demo_codec 5 0 ?s = (Inr evs0, s0)" "poll_expire demo_codec 5 0 s0 = (Inr evs1, s1)"
    "poll_deferred demo_codec 5 0 s1 = (Inr d, s2)"
    "case d of Inl op \<Rightarrow> p = \<lparr> sp_opportunity = Some op, sp_events = evs0 @ evs1 \<rparr> \<and> s' = s2
     | Inr evs2 \<Rightarrow> poll_decide demo_ext demo_codec 5 0 [] (evs0 @ evs1 @ evs2) s2 = (Inr p, s')"
    "sstate s0 = (reconcile_day_state demo_ext (sc_policy ?s) 0 (sstate ?s)) \<lparr> ps_last_observed_utc := 0 \<rparr>" .
  have po: "sc_policy s0 = demo_policy" using step_okD(1) [OF advance_clock_step [OF st0(1)]] by (simp add: frame_ok_def)
  have s0: "sstate s0 = ?st" using st0(5) st(3) by (simp add: demo_provider_def)
  then have "s1 = s0" using st0(2) by (simp add: poll_expire_def expired_triggers_def demo_provider_def map_filter_def)
  then have "d = Inr [] \<and> s2 = s0" using st0(3) s0 by (simp add: poll_deferred_def demo_provider_def)
  then have dec: "poll_decide demo_ext demo_codec 5 0 [] (evs0 @ evs1) s0 = (Inr p, s')" using st0(4) by simp
  have "block_reason demo_ext 0 s0 = None"
    by (simp add: block_reason_def po s0 demo_provider_def demo_policy_def block_reason_state_def
        runs_on_day_def spacing_block_def)
  then have offer: "sp_opportunity p \<noteq> None"
    using dec s0 by (auto simp: poll_decide_def Let_def demo_provider_def split: sum.splits prod.splits)
  from fresh_offer_admissible [OF st(1,2) run offer] run offer show ?thesis by blast
qed

subsection \<open>The scheduler as a reservation gate\<close>

text \<open>What one start more may bring a day to, from the policy alone.\<close>

definition gate_limit :: "'b sched \<Rightarrow> nat" where
  "gate_limit s =
     (if po_provider_kind (sc_policy s) = PkMlab
      then if po_force_limits (sc_policy s) then 4 else min 4 (po_daily_max (sc_policy s))
      else if po_force_limits (sc_policy s) then u32_max else po_daily_max (sc_policy s))"

definition gate_ok :: "'b sched \<Rightarrow> bool" where
  "gate_ok s \<longleftrightarrow> sched_ok s \<and> po_daily_max (sc_policy s) \<le> u32_max"

lemma sched_reserve_snd: "snd (sched_reserve X C D t s) = snd (reserve_run X C t s)"
  by (simp add: sched_reserve_def split: prod.splits sum.splits)

lemma sched_reserve_frame: "frame_ok s (snd (sched_reserve X C D t s))"
  unfolding sched_reserve_snd by (rule reserve_run_frame [OF surjective_pairing])

lemma sched_reserve_counts:
  assumes "gate_ok s" "fst (sched_reserve X C D t s) = Inr (Reserved d n)"
  shows "n = runs_on_day (sstate (snd (sched_reserve X C D t s))) d \<and> n \<le> gate_limit s"
proof -
  obtain r s' where run: "reserve_run X C t s = (r, s')" by force
  then obtain rv where rv: "r = Inr rv" "rv_accounting_date rv = d" "rv_daily_bandwidth_starts rv = n"
    using assms(2) by (auto simp: sched_reserve_def split: sum.splits)
  from run show ?thesis
  proof (cases rule: reserve_run_cases)
    case (blocked b)
    then show ?thesis using rv by simp
  next
    case (started r0)
    have max: "po_daily_max (sc_policy s) \<le> u32_max" using assms(1) by (simp add: gate_ok_def)
    have n: "d = date_naive t" "n = runs_on_day (sstate s') (date_naive t)"
      using started(3) rv by (auto split: sum.splits)
    have "n \<le> starts_on (ps_runs (reconcile_day_state X (sc_policy s) t (sstate s))) (date_naive t) + 1"
      by (simp add: n started(4) runs_on_day_eq record_start_def)
    moreover have "n \<le> u32_max" by (simp add: n runs_on_day_eq)
    moreover note admitted_state(1) [OF started(1) max]
    ultimately show ?thesis
      using n run by (auto simp: sched_reserve_snd gate_limit_def within_caps_def)
  qed
qed

interpretation sched_gate: reservation_gate
  "\<lambda>t s. sched_reserve X C D t s" gate_ok "\<lambda>s d. runs_on_day (sstate s) d" gate_limit for X C D
proof unfold_locales
  fix s :: "'a sched" and t :: time
  show "gate_ok (snd (sched_reserve X C D t s))" if "gate_ok s"
    using that sched_reserve_frame [of s X C D t] by (simp add: gate_ok_def frame_ok_def)
  show "gate_limit (snd (sched_reserve X C D t s)) = gate_limit s"
    using sched_reserve_frame [of s X C D t] by (simp add: gate_limit_def frame_ok_def)
  show "n = runs_on_day (sstate (snd (sched_reserve X C D t s))) d \<and> n \<le> gate_limit s"
    if "gate_ok s" "fst (sched_reserve X C D t s) = Inr (Reserved d n)" for d n
    by (rule sched_reserve_counts [OF that])
qed

end
