(* ===== verification/Crash.thy ===== *)
theory Crash
  imports Restart
begin

text \<open>
  Admission across processes. The scheduler is opened on the files an earlier process left
  behind, runs, fails or dies at any write, and is opened again, any number of times; the
  starts granted by all processes together respect the limits. What the files say of past
  starts is \<open>covered\<close>; a running scheduler is \<open>backed\<close> by its files until its first failed
  commit, after which it grants nothing.
\<close>

subsection \<open>What a committed store knows of past starts\<close>

definition covers :: "time \<Rightarrow> time list \<Rightarrow> accounting \<Rightarrow> bool" where
  "covers t G a \<longleftrightarrow>
     (\<forall>d. date_naive t \<le> d \<longrightarrow> starts_on G d \<le> starts_on (ac_runs a) d) \<and>
     (\<forall>g \<in> set G. \<exists>l. ac_last_start a = Some l \<and> g \<le> l)"

definition covered :: "scheduler_policy \<Rightarrow> time \<Rightarrow> time list \<Rightarrow> scheduler_store \<Rightarrow> bool" where
  "covered po t G store \<longleftrightarrow>
     (case bt_get (accounting store) (po_provider_id po) of None \<Rightarrow> G = [] | Some a \<Rightarrow> covers t G a)"

lemma covers_mono: "covers t G a \<Longrightarrow> t \<le> u \<Longrightarrow> covers u G a"
  using date_naive_mono [of t u] by (auto simp: covers_def)

lemma covered_mono: "covered po t G s \<Longrightarrow> t \<le> u \<Longrightarrow> covered po u G s"
  by (auto simp: covered_def covers_mono split: option.splits)

lemma covered_cong: "accounting s = accounting s' \<Longrightarrow> covered po t G s = covered po t G s'"
  by (simp add: covered_def)

lemma covered_Nil [simp]: "covered po t [] s"
  by (simp add: covered_def covers_def split: option.splits)

definition present :: "'b sched \<Rightarrow> bool" where
  "present s \<longleftrightarrow> bt_get (st_providers (sc_store s)) (po_provider_id (sc_policy s)) \<noteq> None"

lemma present_update [simp]: "present (update_state f s)"
  by (simp add: present_def update_state_def)

lemma grants_covered:
  "grants_inv X t G s \<Longrightarrow> present s \<Longrightarrow> covered (sc_policy s) t G (sc_store s)"
  by (auto simp: grants_inv_def covered_def covers_def accounting_get present_def sstate_def
      provider_accounting_def)

subsection \<open>Schedulers backed by their files\<close>

definition placed :: "'b codec \<Rightarrow> 'b sched \<Rightarrow> bool" where
  "placed C s \<longleftrightarrow> committable (sc_persistence s) (sc_store s) \<and>
     (\<exists>lg st. installed C (sc_persistence s) (sc_world s) lg st)"

definition resumable :: "'b codec \<Rightarrow> scheduler_policy \<Rightarrow> time \<Rightarrow> time list \<Rightarrow> 'b world \<Rightarrow> bool" where
  "resumable C po t G w \<longleftrightarrow>
     (\<exists>lg st. recoverable C w lg st \<and> covered po t G (last_or_default lg)) \<or> torn C w"

definition backed :: "'b codec \<Rightarrow> time \<Rightarrow> time list \<Rightarrow> 'b sched \<Rightarrow> bool" where
  "backed C t G s \<longleftrightarrow>
     (placed C s \<and> covered (sc_policy s) t G (pe_committed (sc_persistence s))) \<or>
     (pe_poisoned (sc_persistence s) \<and> resumable C (sc_policy s) t G (sc_world s))"

lemma backed_mono: "backed C t G s \<Longrightarrow> t \<le> u \<Longrightarrow> backed C u G s"
  unfolding backed_def resumable_def by (auto dest: covered_mono)

lemma resumable_world:
  "w_files w' = w_files w \<Longrightarrow> w_state_extension w' = w_state_extension w \<Longrightarrow>
   resumable C po t G w' = resumable C po t G w"
  by (simp add: resumable_def recoverable_def torn_def plain_path_def)

lemma backed_resumable: "backed C t G s \<Longrightarrow> resumable C (sc_policy s) t G (sc_world s)"
  by (fastforce simp: backed_def resumable_def placed_def installed_def recoverable_def)

lemma backed_update:
  assumes "backed C t G s" shows "backed C t G (update_state f s)"
proof -
  have "committable (sc_persistence s) (sc_store (update_state f s))"
    if "committable (sc_persistence s) (sc_store s)"
    using that keys_update [of s f] by (auto simp: committable_def) (simp add: update_state_def)
  then show ?thesis using assms by (auto simp: backed_def placed_def)
qed

lemma event_world:
  assumes "sched_event run t out reason ctx d s = (ev, s')"
  shows "sc_world s' = (sc_world s) \<lparr> w_next_id := w_next_id (sc_world s) + 1 \<rparr>"
  using assms by (auto simp: sched_event_def fresh_id_def Let_def split: prod.splits)

lemma backed_event:
  assumes "sched_event run t out reason ctx d s = (ev, s')" "backed C u G s"
  shows "backed C u G s'"
  using assms(2) sched_event_frame [OF assms(1)] event_world [OF assms(1)]
  by (simp add: backed_def placed_def installed_next_id resumable_def recoverable_def torn_def plain_path_def)

lemma backed_persist:
  assumes C: "codec_ok C" and s: "backed C t G s" and store: "covered (sc_policy s) t G (sc_store s)"
    and run: "sched_persist C s = (r, s')"
  shows "backed C t G s'"
    "r = Inr () \<Longrightarrow> placed C s' \<and> accounting (pe_committed (sc_persistence s')) = accounting (sc_store s')"
proof -
  obtain p' store' w' where p: "persist C (sc_persistence s) (sc_store s) (sc_world s) = (r, p', store', w')"
    and s': "s' = s \<lparr> sc_persistence := p', sc_store := store', sc_world := w' \<rparr>"
    using run by (auto simp: sched_persist_def split: prod.splits)
  have good: "placed C s' \<and> accounting (pe_committed (sc_persistence s')) = accounting (sc_store s')"
    if r: "r = Inr ()" and pl: "placed C s"
  proof -
    obtain lg st where inst: "installed C (sc_persistence s) (sc_world s) lg st"
      and com: "committable (sc_persistence s) (sc_store s)" using pl by (auto simp: placed_def)
    note inst' = persist_installed [OF C inst com p [unfolded r]]
    have "accounting (pe_committed p') = accounting (sc_store s)"
      using inst' log_after_simps(3) [of "sc_persistence s" lg C "sc_store s"] inst by (simp add: installed_def)
    moreover obtain c where c: "store' = (sc_store s) \<lparr> st_checkpoint := c \<rparr>" using persist_store [OF p] by blast
    moreover have "provider_keys (pe_committed p') = provider_keys store'"
    proof -
      have keys: "provider_keys s = fst ` set (accounting s)" for s
        by (force simp: provider_keys_def accounting_def)
      show ?thesis using calculation by (simp add: keys)
    qed
    ultimately show ?thesis using inst' com by (auto simp: placed_def committable_def s')
  qed
  show "backed C t G s'"
  proof (cases "pe_poisoned (sc_persistence s)")
    case True
    then have "s' = s" using p by (auto simp: persist_def s')
    then show ?thesis using s by simp
  next
    case False
    then have pl: "placed C s" and cov: "covered (sc_policy s) t G (pe_committed (sc_persistence s))"
      using s by (auto simp: backed_def)
    obtain lg st where inst: "installed C (sc_persistence s) (sc_world s) lg st"
      and com: "committable (sc_persistence s) (sc_store s)" using pl by (auto simp: placed_def)
    show ?thesis
    proof (cases r)
      case (Inr x)
      then have "placed C s' \<and> accounting (pe_committed (sc_persistence s')) = accounting (sc_store s')"
        using good pl by simp
      moreover obtain c where "store' = (sc_store s) \<lparr> st_checkpoint := c \<rparr>" using persist_store [OF p] by blast
      ultimately show ?thesis
        using store covered_cong [of "pe_committed p'" "sc_store s"] by (simp add: backed_def s')
    next
      case (Inl e)
      have "pe_poisoned p'" using failed_persist [OF p [unfolded Inl]] .
      moreover have "resumable C (sc_policy s) t G w'"
        using persist_disk [OF C inst com p] cov store covered_cong unfolding resumable_def by blast
      ultimately show ?thesis by (simp add: backed_def s')
    qed
  qed
  show "placed C s' \<and> accounting (pe_committed (sc_persistence s')) = accounting (sc_store s')" if "r = Inr ()"
  proof (cases "pe_poisoned (sc_persistence s)")
    case True
    then show ?thesis using p that by (auto simp: persist_def)
  next
    case False
    then show ?thesis using good s that by (auto simp: backed_def)
  qed
qed

subsection \<open>Running and reopening\<close>

definition live :: "ext \<Rightarrow> 'b codec \<Rightarrow> time \<Rightarrow> time list \<Rightarrow> 'b sched \<Rightarrow> bool" where
  "live X C t G s \<longleftrightarrow> present s \<and> grants_inv X t G s \<and> backed C t G s"

lemma live_micro:
  assumes C: "codec_ok C" and s: "live X C t G s" and t: "t \<le> u" and step: "micro X C u s s'"
  shows "live X C u G s'"
proof -
  have g: "grants_inv X u G s'"
    using s by (intro grants_inv_steps [OF _ t, of X G s C]) (auto simp: live_def step_ok_def step)
  have b: "backed C u G s" using s t by (auto simp: live_def intro: backed_mono)
  have "present s' \<and> backed C u G s'"
    using step
  proof cases
    case (mi_update f)
    then show ?thesis using backed_update [OF b] by simp
  next
    case (mi_persist r)
    have "covered (sc_policy s) u G (sc_store s)"
      using s t by (auto simp: live_def intro: covered_mono grants_covered)
    from backed_persist(1) [OF C b this mi_persist]
    show ?thesis using s sched_persist_frame [OF mi_persist] by (simp add: live_def present_def)
  next
    case (mi_event run t out reason ctx d ev)
    then show ?thesis
      using s backed_event [OF mi_event b] sched_event_frame [OF mi_event] by (simp add: live_def present_def)
  qed
  then show ?thesis using g by (simp add: live_def)
qed

lemma live_step:
  assumes C: "codec_ok C" and s: "live X C t G s" and t: "t \<le> u" and step: "step_ok X C u s s'"
  shows "live X C u G s'"
proof -
  have s0: "live X C u G s"
    using s t backed_mono [OF _ t] grants_inv_steps [OF _ t step_ok_refl] by (auto simp: live_def)
  show ?thesis
    using step unfolding step_ok_def
    by (induction rule: rtranclp_induct) (auto intro: s0 live_micro [OF C _ order_refl])
qed

lemma live_reserve:
  assumes C: "codec_ok C" and s: "live X C t G s" and t: "t \<le> u"
    and po: "po_daily_max (sc_policy s) \<le> u32_max" and run: "reserve_run X C u s = (r, s')"
  shows "live X C u (G @ (case r of Inl e \<Rightarrow> [] | Inr _ \<Rightarrow> [u])) s'"
  using run
proof (cases rule: reserve_run_cases)
  case (blocked b)
  then show ?thesis using live_step [OF C s t reconcile_day_step] by simp
next
  case (started r0)
  let ?s = "update_state (record_start u) (reconcile_day X u s)"
  have g: "grants_inv X t G s" using s by (simp add: live_def)
  have st: "sstate ?s = record_start u (reconcile_day_state X (sc_policy s) u (sstate s))"
    "sc_policy ?s = sc_policy s"
    by (simp_all add: reconcile_day_def)
  note g1 = grants_inv_start [OF g t started(1) st po]
  have b1: "backed C u G ?s"
    using s t unfolding reconcile_day_def by (auto simp: live_def intro: backed_update backed_mono)
  have cov: "covered (sc_policy ?s) u G (sc_store ?s)" "covered (sc_policy ?s) u (G @ [u]) (sc_store ?s)"
    by (rule grants_covered [OF g1(2) present_update], rule grants_covered [OF g1(1) present_update])
  note b2 = backed_persist [OF C b1 cov(1) started(2)]
  have frame: "sc_policy s' = sc_policy ?s" "present s'" "sstate s' = sstate ?s" "accounting (sc_store s') = accounting (sc_store ?s)"
    using sched_persist_frame [OF started(2)] present_update [of "record_start u" "reconcile_day X u s"]
    by (simp_all add: present_def accounting_def)
  show ?thesis
  proof (cases r0)
    case (Inl e)
    have "grants_inv X u G s'"
      using g1(2) frame(1,3) by (simp add: grants_inv_def)
    then show ?thesis using b2(1) frame Inl started(3) by (simp add: live_def)
  next
    case (Inr x)
    have "grants_inv X u (G @ [u]) s'"
      using g1(1) frame(1,3) by (simp add: grants_inv_def)
    moreover have "backed C u (G @ [u]) s'"
      using b2(2) Inr cov(2) frame covered_cong [of "pe_committed (sc_persistence s')" "sc_store ?s"]
      by (simp add: backed_def)
    ultimately show ?thesis using frame Inr started(3) by (simp add: live_def)
  qed
qed

lemma exec_op_cases:
  assumes "exec_op X C op s = (g, s')"
  obtains (reserve) now r where "op = OpReserve now" "reserve_run X C now s = (r, s')"
      "g = (case r of Inl e \<Rightarrow> [] | Inr _ \<Rightarrow> [now])"
  | (other) "g = []" "\<And>u. op_time op = None \<or> op_time op = Some u \<Longrightarrow> step_ok X C u s s'"
proof (cases op)
  case (OpReserve now)
  then show ?thesis
    using assms reserve by (auto simp: exec_op_def split: prod.splits sum.splits)
next
  case (OpObserve run now i d)
  then show ?thesis
    using assms other observe_step [OF surjective_pairing [of "observe_interface_health X C run now i d s"]] by (auto simp: exec_op_def op_time_def)
next
  case (OpPoll run now ls)
  then show ?thesis
    using assms other poll_interfaces_step [OF surjective_pairing [of "poll_interfaces X C run now ls s"]] by (auto simp: exec_op_def op_time_def)
next
  case (OpPreflight run now)
  then show ?thesis
    using assms other preflight_step [OF surjective_pairing [of "preflight_manual X C run now s"]] by (auto simp: exec_op_def op_time_def)
next
  case (OpFinish run now p report)
  then show ?thesis
    using assms other finish_attempt_step [OF surjective_pairing [of "finish_attempt X C run now p report s"]]
    by (auto simp: exec_op_def op_time_def)
next
  case OpFlush
  then show ?thesis
    using assms other step_ok_persist [OF surjective_pairing [of "sched_persist C s"]] by (auto simp: exec_op_def sched_flush_def op_time_def)
qed

fun clock_end :: "time \<Rightarrow> sched_op list \<Rightarrow> time" where
  "clock_end t [] = t"
| "clock_end t (op # ops) = clock_end (case op_time op of None \<Rightarrow> t | Some u \<Rightarrow> u) ops"

lemma exec_ops_live:
  assumes C: "codec_ok C"
  shows "live X C t G s \<Longrightarrow> po_daily_max (sc_policy s) \<le> u32_max \<Longrightarrow> clock_ok t ops \<Longrightarrow>
    exec_ops X C ops s = (gs, s') \<Longrightarrow> live X C (clock_end t ops) (G @ gs) s' \<and> sc_policy s' = sc_policy s"
proof (induction ops arbitrary: t G s gs)
  case Nil
  then show ?case by simp
next
  case (Cons op ops)
  obtain g s0 where op: "exec_op X C op s = (g, s0)" by force
  obtain gs' where ops: "exec_ops X C ops s0 = (gs', s')" "gs = g @ gs'"
    using Cons.prems(4) op by (auto simp: Let_def split: prod.splits)
  define u where "u = (case op_time op of None \<Rightarrow> t | Some v \<Rightarrow> v)"
  have u: "t \<le> u" "clock_ok u ops" using Cons.prems(3) by (auto simp: u_def split: option.splits)
  have "live X C u (G @ g) s0"
    using op
  proof (cases rule: exec_op_cases)
    case (reserve now r)
    then have "u = now" by (simp add: u_def op_time_def)
    then show ?thesis
      using live_reserve [OF C Cons.prems(1) _ Cons.prems(2) reserve(2)] u(1) reserve(3) by simp
  next
    case other
    have "step_ok X C u s s0" by (rule other) (simp add: u_def split: option.splits)
    then show ?thesis using live_step [OF C Cons.prems(1) u(1)] other(1) by simp
  qed
  moreover have po: "sc_policy s0 = sc_policy s"
    using exec_op_frame [of s X C op] op by (simp add: frame_ok_def)
  ultimately show ?case
    using Cons.IH [of u "G @ g" s0 gs'] ops u Cons.prems(2) by (auto simp: u_def)
qed

subsection \<open>Opening\<close>

lemma replay_schema: "st_schema_version (replay_store c s) = st_schema_version s"
proof -
  have "st_schema_version (fold (\<lambda>(pid, recorded) store.
         store \<lparr> st_providers :=
           (case bt_get (st_providers store) pid of
              Some st \<Rightarrow> bt_insert pid (replay_accounting st recorded) (st_providers store)
            | None \<Rightarrow> bt_insert pid recorded (st_providers store)) \<rparr>) ps s) = st_schema_version s" for ps
    by (induction ps arbitrary: s) auto
  then show ?thesis by (simp add: replay_store_def)
qed

lemma opened_placed:
  assumes C: "codec_ok C" and rec: "recoverable C w lg st"
    and opened: "persistence_open C (reboot w) = (Inr (p, store, recovered), v)"
    and s: "sc_persistence s = p" "sc_store s = store" "sc_world s = v"
  shows "placed C s" "pe_committed p = last_or_default lg" "accounting store = accounting (last_or_default lg)"
proof -
  have r: "disk_ok C (w_files w) lg st" "plain_path w" "bt_ok (st_providers st)"
    "bt_ok (st_providers (last_or_default lg))" "provider_keys st \<subseteq> provider_keys (last_or_default lg)"
    using rec by (simp_all add: recoverable_def)
  have w: "disk_ok C (w_files (reboot w)) lg st" "w_faults (reboot w) = []"
    "\<not> w_locked_elsewhere (reboot w)" "plain_path (reboot w)"
    using r by (simp_all add: reboot_def plain_path_def)
  let ?core = "if st_checkpoint st = Some (last (lg_checkpoints lg)) then st
             else replay_store (last_or_default lg) st"
  from open_disk [OF C w] opened have o: "pe_committed p = last_or_default lg"
    "pe_checkpoint p = last (lg_checkpoints lg)" "store = ?core \<lparr> st_checkpoint := Some (last (lg_checkpoints lg)) \<rparr>"
    "disk_ok C (w_files v) lg st" "w_files v FMarker = Some (jc_checkpoint C (last (lg_checkpoints lg)))"
    "pe_snapshot_digest p = map_option (jc_digest C) (w_files v FState)"
    "Some (pe_ledger_len p) = map_option length (w_files v FLedger)" "\<not> pe_poisoned p" "plain_path v"
    by auto
  show "pe_committed p = last_or_default lg" by (rule o(1))
  show acc: "accounting store = accounting (last_or_default lg)"
    using reopened_accounting [OF r(1,3,4,5)] by (simp add: o(3))
  have keys: "provider_keys s = fst ` set (accounting s)" for s
    by (force simp: provider_keys_def accounting_def)
  obtain b where "parse_store C FState b = Inr st" using r(1) by (auto simp: disk_ok_def)
  then have "st_schema_version st = STATE_SCHEMA_VERSION"
    by (cases "parse_at FState (jc_parse_store C b)")
      (auto simp: parse_store_def validate_store_def split: if_splits)
  then have "st_schema_version store = STATE_SCHEMA_VERSION" by (simp add: o(3) replay_schema)
  moreover have "bt_ok (st_providers store)"
    using r(3) replay_fold_ok [OF r(3)] by (simp add: o(3) replay_store_step)
  ultimately have "committable p store" using acc o(1) by (simp add: committable_def keys)
  moreover have "installed C p v lg st" using o r by (simp add: installed_def)
  ultimately show "placed C s" using s by (auto simp: placed_def)
qed

lemma reconcile_accounting:
  "ps_last_started_at_utc (reconcile_state X po now st) = ps_last_started_at_utc st"
  "date_naive now \<le> d \<Longrightarrow> starts_on (ps_runs (reconcile_state X po now st)) d = starts_on (ps_runs st) d"
  using pstep_accounting [OF ps_day [of X po now st]]
  by (simp_all add: reconcile_state_def reconcile_policy_def remove_due_slots_def Let_def)

text \<open>What the history so far owes: caps and spacing of the starts granted before.\<close>

definition history_ok :: "ext \<Rightarrow> scheduler_policy \<Rightarrow> time list \<Rightarrow> bool" where
  "history_ok X po G \<longleftrightarrow>
     (\<forall>d. within_caps po (starts_on G d)) \<and> (\<not> po_force_limits po \<longrightarrow> spaced X (po_min_spacing po) G)"

lemma grants_inv_split:
  "grants_inv X t G s \<longleftrightarrow> covers t G (provider_accounting (sstate s)) \<and> history_ok X (sc_policy s) G"
  by (auto simp: grants_inv_def covers_def history_ok_def provider_accounting_def)

lemma reconciled_live:
  assumes pl: "placed C s" and com: "accounting (pe_committed (sc_persistence s)) = accounting (sc_store s)"
    and cov: "covered (sc_policy s) t G (sc_store s)" and hist: "history_ok X (sc_policy s) G"
    and t: "t \<le> u" and run: "reconcile X u seed s = (changed, s')"
  shows "live X C u G s'"
proof -
  have b: "backed C u G s"
    using pl cov covered_cong [OF com] t by (auto simp: backed_def intro: covered_mono)
  show ?thesis
  proof (cases "bt_get (st_providers (sc_store s)) (po_provider_id (sc_policy s))")
    case None
    then have "G = []" using cov by (simp add: covered_def accounting_get)
    moreover have "s' = update_state (\<lambda>_. initial_provider X (sc_policy s) u seed) s"
      using run None by (simp add: reconcile_def)
    ultimately show ?thesis
      using backed_update [OF b] hist by (simp add: live_def grants_inv_split covers_def)
  next
    case (Some st)
    have s': "s' = update_state (reconcile_state X (sc_policy s) u) s"
      using run Some by (simp add: reconcile_def Let_def)
    have "covers u G (provider_accounting (sstate s))"
      using cov Some t by (auto simp: covered_def accounting_get sstate_def intro: covers_mono)
    then have "covers u G (provider_accounting (sstate s'))"
      by (simp add: s' covers_def provider_accounting_def reconcile_accounting)
    then show ?thesis using s' backed_update [OF b] hist by (simp add: live_def grants_inv_split)
  qed
qed

lemma replan_live: "live X C u G s \<Longrightarrow> live X C u G (replan_remaining X u s)"
  using backed_update [of C u G s]
  by (simp add: live_def replan_remaining_def grants_inv_split covers_def provider_accounting_def)

lemma opened_live:
  assumes C: "codec_ok C" and w: "resumable C po t G w" and hist: "history_ok X po G" and t: "t \<le> u"
    and run: "open_seeded X C po u seed (reboot w) = Inr s"
  shows "live X C u G s \<and> sc_policy s = po"
proof -
  obtain p store recovered v where opened: "persistence_open C (reboot w) = (Inr (p, store, recovered), v)"
    using run by (auto simp: open_seeded_def split: prod.splits sum.splits)
  have "\<not> torn C w" using open_torn [of C w] opened by auto
  then obtain lg st where rec: "recoverable C w lg st" "covered po t G (last_or_default lg)"
    using w by (auto simp: resumable_def)
  let ?s = "\<lparr> sc_persistence = p, sc_store = store, sc_policy = po, sc_world = v \<rparr>"
  have pl: "placed C ?s" "pe_committed p = last_or_default lg" "accounting store = accounting (last_or_default lg)"
    using opened_placed [OF C rec(1) opened, of ?s] by simp_all
  obtain changed s1 where r: "reconcile X u seed ?s = (changed, s1)" by force
  have "live X C u G s1"
    using reconciled_live [OF pl(1) _ _ _ t r] pl rec(2) covered_cong [OF pl(3)] hist by simp
  then have l2: "live X C u G (if recovered then replan_remaining X u s1 else s1)" (is "live X C u G ?s2")
    using replan_live by auto
  have po: "sc_policy ?s2 = po"
    using r by (auto simp: reconcile_def replan_remaining_def Let_def split: if_splits)
  have "s = ?s2 \<or> sched_persist C ?s2 = (Inr (), s)"
    using run opened r by (auto simp: open_seeded_def Let_def split: if_splits prod.splits sum.splits)
  then show ?thesis
  proof
    assume p: "sched_persist C ?s2 = (Inr (), s)"
    have "live X C u G s" by (rule live_micro [OF C l2 order_refl mi_persist [OF p]])
    then show ?thesis using po sched_persist_frame(1) [OF p] by simp
  qed (use l2 po in simp)
qed

subsection \<open>The life of an installation\<close>

text \<open>
  A session: the instant and seed it opens with, the I/O faults that will strike it once it
  runs, and the calls it makes. A session that fails to open ends the history (the process
  refuses to run until someone repairs the files).
\<close>

record session =
  se_open :: time
  se_seed :: u64
  se_faults :: "(nat \<times> io_kind) option list"
  se_ops :: "sched_op list"

fun run_sessions ::
    "ext \<Rightarrow> 'b codec \<Rightarrow> scheduler_policy \<Rightarrow> session list \<Rightarrow> 'b world \<Rightarrow> time list \<times> 'b world" where
  "run_sessions X C po [] w = ([], w)"
| "run_sessions X C po (se # rest) w =
     (case open_seeded X C po (se_open se) (se_seed se) (reboot w) of
        Inl (e, w) \<Rightarrow> ([], w)
      | Inr s \<Rightarrow>
          (let (g, s) = exec_ops X C (se_ops se)
                 (s \<lparr> sc_world := (sc_world s) \<lparr> w_faults := se_faults se \<rparr> \<rparr>);
               (gs, w) = run_sessions X C po rest (sc_world s)
           in (g @ gs, w)))"

fun sessions_ok :: "time \<Rightarrow> session list \<Rightarrow> bool" where
  "sessions_ok t [] = True"
| "sessions_ok t (se # rest) =
     (t \<le> se_open se \<and> clock_ok (se_open se) (se_ops se) \<and>
      sessions_ok (clock_end (se_open se) (se_ops se)) rest)"

lemma live_faults:
  "live X C t G s \<Longrightarrow> live X C t G (s \<lparr> sc_world := (sc_world s) \<lparr> w_faults := fs \<rparr> \<rparr>)"
  by (simp add: live_def present_def grants_inv_def sstate_def backed_def placed_def installed_def
      plain_path_def resumable_def recoverable_def torn_def)

lemma live_history: "live X C t G s \<Longrightarrow> history_ok X (sc_policy s) G"
  by (simp add: live_def grants_inv_split)

lemma run_sessions_history:
  assumes C: "codec_ok C" and max: "po_daily_max po \<le> u32_max"
  shows "resumable C po t G w \<Longrightarrow> history_ok X po G \<Longrightarrow> sessions_ok t ses \<Longrightarrow>
    run_sessions X C po ses w = (gs, w') \<Longrightarrow> history_ok X po (G @ gs)"
proof (induction ses arbitrary: t G w gs)
  case Nil
  then show ?case by simp
next
  case (Cons se rest)
  show ?case
  proof (cases "open_seeded X C po (se_open se) (se_seed se) (reboot w)")
    case (Inl e)
    then show ?thesis using Cons.prems by (cases e) simp
  next
    case (Inr s)
    let ?s = "s \<lparr> sc_world := (sc_world s) \<lparr> w_faults := se_faults se \<rparr> \<rparr>"
    have ok: "t \<le> se_open se" "clock_ok (se_open se) (se_ops se)"
      "sessions_ok (clock_end (se_open se) (se_ops se)) rest"
      using Cons.prems(3) by simp_all
    have s: "live X C (se_open se) G ?s" "sc_policy ?s = po"
      using opened_live [OF C Cons.prems(1,2) ok(1) Inr] live_faults by auto
    obtain g s1 where ops: "exec_ops X C (se_ops se) ?s = (g, s1)" by force
    obtain gs' where rest: "run_sessions X C po rest (sc_world s1) = (gs', w')" "gs = g @ gs'"
      using Cons.prems(4) Inr ops by (auto simp: Let_def split: prod.splits)
    have l: "live X C (clock_end (se_open se) (se_ops se)) (G @ g) s1" "sc_policy s1 = po"
      using exec_ops_live [OF C s(1) _ ok(2) ops] s(2) max by auto
    have "resumable C po (clock_end (se_open se) (se_ops se)) (G @ g) (sc_world s1)"
      using backed_resumable [of C _ "G @ g" s1] l by (auto simp: live_def)
    from Cons.IH [OF this _ ok(3) rest(1)] live_history [OF l(1)] l(2) rest(2)
    show ?thesis by simp
  qed
qed


text \<open>A first session on a new provider grants a start at its opening instant; a second one follows.\<close>

lemma demo_recoverable:
  "recoverable demo_codec demo_world demo_log (store_default \<lparr> st_checkpoint := Some (demo_cp 1) \<rparr>)"
  using installed_recoverable [OF demo_installed [of "[]"]] by (simp add: demo_world_def)

lemma demo_open:
  obtains s where "open_seeded demo_ext demo_codec demo_policy 0 1 (reboot demo_world) = Inr s"
    "quiet demo_codec 1 s" "sc_policy s = demo_policy" "sstate s = initial_provider demo_ext demo_policy 0 1"
proof -
  let ?st = "store_default \<lparr> st_checkpoint := Some (demo_cp 1) \<rparr>"
  have disk: "disk_ok demo_codec (w_files (reboot demo_world)) demo_log ?st" "w_faults (reboot demo_world) = []"
    "\<not> w_locked_elsewhere (reboot demo_world)" "plain_path (reboot demo_world)"
    using demo_recoverable by (simp_all add: recoverable_def reboot_def plain_path_def)
  have last: "last (lg_checkpoints demo_log) = demo_cp 1" by (simp add: demo_log_def)
  obtain p store v where o: "persistence_open demo_codec (reboot demo_world) = (Inr (p, store, False), v)"
    "pe_checkpoint p = demo_cp 1" "store = ?st" "w_faults v = []"
    using open_disk [OF demo_codec_ok disk] last by auto
  let ?s = "\<lparr> sc_persistence = p, sc_store = store, sc_policy = demo_policy, sc_world = v \<rparr>"
  let ?init = "initial_provider demo_ext demo_policy 0 1"
  let ?s1 = "update_state (\<lambda>_. ?init) ?s"
  have absent: "bt_get (st_providers store) ''p'' = None" by (simp add: o(3) store_default_def)
  have rec: "reconcile demo_ext 0 1 ?s = (True, ?s1)"
    using absent by (simp add: reconcile_def demo_policy_def)
  have po: "policy_ok demo_policy" by (simp add: policy_ok_def demo_policy_def duration_millis_def)
  have inv: "provider_inv demo_policy ?init" by (rule initial_provider_inv [OF po])
  have "sched_ok ?s1"
    using provider_inv_valid [OF po inv] inv po
    by (simp add: sched_ok_def store_ok_def update_state_def o(3) store_default_def demo_policy_def bt_ok_def
        bt_get_def STATE_SCHEMA_VERSION_def)
  moreover have "placed demo_codec ?s1"
    using backed_update [of demo_codec 0 "[]" ?s "\<lambda>_. ?init"]
      opened_placed [OF demo_codec_ok demo_recoverable o(1), of ?s]
    by (auto simp: backed_def) (simp add: placed_def installed_def)
  ultimately have "quiet demo_codec (Suc 1) ?s1"
    using o by (auto simp: quiet_def seated_def placed_def committable_def demo_cp_def)
  from quiet_persist [OF demo_codec_ok this] obtain s where
    s: "sched_persist demo_codec ?s1 = (Inr (), s)" "quiet demo_codec 1 s" .
  have "open_seeded demo_ext demo_codec demo_policy 0 1 (reboot demo_world) = Inr s"
    using o rec s by (simp add: open_seeded_def)
  then show ?thesis using that s sched_persist_frame [OF s(1)] by simp
qed


end
