(* ===== verification/StdText.thy ===== *)
theory StdText
  imports Model
begin

text \<open>
  The parts of Rust's standard library the text-handling components use: results, string
  slices, Unix paths, and the parsing and printing of IP addresses (\<open>std::net\<close>).
\<close>

subsection \<open>Results\<close>

text \<open>The operator \<open>?\<close>: the first error ends the function.\<close>

definition res_bind :: "'e + 'a \<Rightarrow> ('a \<Rightarrow> 'e + 'b) \<Rightarrow> 'e + 'b" where
  "res_bind r f = (case r of Inl e \<Rightarrow> Inl e | Inr x \<Rightarrow> f x)"

lemma res_bind_simps [simp]: "res_bind (Inl e) f = Inl e" "res_bind (Inr x) f = f x"
  by (simp_all add: res_bind_def)

lemma res_bind_Inr: "res_bind r f = Inr y \<longleftrightarrow> (\<exists>x. r = Inr x \<and> f x = Inr y)"
  by (cases r) simp_all

lemma res_bind_InrE:
  assumes "res_bind r f = Inr y" obtains x where "r = Inr x" "f x = Inr y"
  using assms by (auto simp: res_bind_Inr)

text \<open>An early return of an error.\<close>

lemma if_Inl_Inr: "(if b then Inl e else r) = Inr y \<longleftrightarrow> \<not> b \<and> r = Inr y"
  by simp

lemma unit_Inr: "r = Inr u \<Longrightarrow> r = Inr ()"
  by simp

definition or_else :: "'a option \<Rightarrow> 'a option \<Rightarrow> 'a option" where
  "or_else a b = (case a of Some x \<Rightarrow> Some x | None \<Rightarrow> b)"

definition unwrap_or :: "'a option \<Rightarrow> 'a \<Rightarrow> 'a" where
  "unwrap_or a d = (case a of Some x \<Rightarrow> x | None \<Rightarrow> d)"

text \<open>\<open>map\<close> and \<open>collect\<close> into a result: the first error.\<close>

fun try_map :: "('a \<Rightarrow> 'e + 'b) \<Rightarrow> 'a list \<Rightarrow> 'e + 'b list" where
  "try_map f [] = Inr []"
| "try_map f (x # xs) = res_bind (f x) (\<lambda>y. res_bind (try_map f xs) (\<lambda>ys. Inr (y # ys)))"

lemma try_map_Inr: "try_map f xs = Inr ys \<longleftrightarrow> list_all2 (\<lambda>x y. f x = Inr y) xs ys"
  by (induction xs arbitrary: ys) (auto simp: res_bind_Inr list_all2_Cons1)

subsection \<open>Strings\<close>

definition trimmed_empty :: "string \<Rightarrow> bool" where
  "trimmed_empty s = list_all is_whitespace s"

definition is_ascii_digit :: "char \<Rightarrow> bool" where
  "is_ascii_digit c = (48 \<le> code c \<and> code c \<le> 57)"

definition is_ascii_alphanumeric :: "char \<Rightarrow> bool" where
  "is_ascii_alphanumeric c =
     (let n = code c in 48 \<le> n \<and> n \<le> 57 \<or> 65 \<le> n \<and> n \<le> 90 \<or> 97 \<le> n \<and> n \<le> 122)"

fun split_char :: "char \<Rightarrow> string \<Rightarrow> string list" where
  "split_char sep [] = [[]]"
| "split_char sep (c # cs) =
     (if c = sep then [] # split_char sep cs
      else case split_char sep cs of [] \<Rightarrow> [[c]] | w # ws \<Rightarrow> (c # w) # ws)"

definition trim_end_matches :: "char \<Rightarrow> string \<Rightarrow> string" where
  "trim_end_matches sep s = rev (dropWhile (\<lambda>c. c = sep) (rev s))"

fun join_with :: "string \<Rightarrow> string list \<Rightarrow> string" where
  "join_with sep [] = []"
| "join_with sep [w] = w"
| "join_with sep (w # ws) = w @ sep @ join_with sep ws"

lemma split_char_not_Nil [simp]: "split_char sep s \<noteq> []"
  by (induction s) (auto split: list.splits)

lemma split_char_join: "join_with [sep] (split_char sep s) = s"
proof (induction s)
  case Nil
  then show ?case by simp
next
  case (Cons c cs)
  then show ?case
    by (cases "split_char sep cs"; cases "tl (split_char sep cs)") auto
qed

lemma split_char_no_sep: "w \<in> set (split_char sep s) \<Longrightarrow> sep \<notin> set w"
  by (induction s arbitrary: w) (auto split: if_splits list.splits)

lemma split_char_append: "sep \<notin> set w \<Longrightarrow> split_char sep (w @ sep # s) = w # split_char sep s"
  by (induction w) auto

lemma split_char_whole: "sep \<notin> set w \<Longrightarrow> split_char sep w = [w]"
  by (induction w) auto

text \<open>\<open>{:?}\<close> of a \<open>str\<close> whose characters are below U+0100.\<close>

definition hex_char :: "nat \<Rightarrow> char" where
  "hex_char n = (if n < 10 then char_of (48 + n) else char_of (87 + n))"

fun hex_text :: "nat \<Rightarrow> string" where
  "hex_text n = (if n < 16 then [hex_char n] else hex_text (n div 16) @ [hex_char (n mod 16)])"

declare hex_text.simps [simp del]

definition debug_char :: "char \<Rightarrow> string" where
  "debug_char c =
     (let n = code c
      in if n = 0 then [CHR 0x5C, CHR ''0'']
         else if n = 9 then [CHR 0x5C, CHR ''t'']
         else if n = 10 then [CHR 0x5C, CHR ''n'']
         else if n = 13 then [CHR 0x5C, CHR ''r'']
         else if n = 34 \<or> n = 92 then [CHR 0x5C, c]
         else if 32 \<le> n \<and> n \<le> 126 \<or> 161 \<le> n \<and> n \<noteq> 173 then [c]
         else [CHR 0x5C, CHR ''u'', CHR ''{''] @ hex_text n @ ''}'')"

definition str_debug :: "string \<Rightarrow> string" where
  "str_debug s = [CHR 0x22] @ concat (map debug_char s) @ [CHR 0x22]"

subsection \<open>Unix paths\<close>

definition path_is_absolute :: "string \<Rightarrow> bool" where
  "path_is_absolute p = (case p of [] \<Rightarrow> False | c # _ \<Rightarrow> c = CHR ''/'')"

definition path_join :: "string \<Rightarrow> string \<Rightarrow> string" where
  "path_join base p =
     (if path_is_absolute p then p
      else if base = [] \<or> last base = CHR ''/'' then base @ p
      else base @ ''/'' @ p)"

text \<open>
  \<open>Path::parent\<close>. Trailing separators and \<open>.\<close> components are not components of their own,
  unless the path begins with the \<open>.\<close>.
\<close>

function path_trim :: "string \<Rightarrow> string" where
  "path_trim p =
     (if 1 < length p \<and> last p = CHR ''/'' then path_trim (butlast p)
      else if 2 < length p \<and> drop (length p - 2) p = ''/.'' then path_trim (butlast p)
      else if p = ''/.'' then ''/''
      else p)"
  by pat_completeness auto
termination by (relation "measure length") auto

declare path_trim.simps [simp del]

definition path_parent :: "string \<Rightarrow> string option" where
  "path_parent p =
     (let p = path_trim p
      in if p = [] \<or> p = ''/'' then None
         else
           let lead = rev (dropWhile (\<lambda>c. c \<noteq> CHR ''/'') (rev p))
           in Some (if lead = [] then [] else path_trim lead))"

lemma path_join_absolute: "path_is_absolute base \<Longrightarrow> path_is_absolute (path_join base p)"
  by (cases base) (auto simp: path_join_def path_is_absolute_def)

subsection \<open>IP addresses\<close>

definition digit_value :: "char \<Rightarrow> nat option" where
  "digit_value c =
     (let n = code c
      in if 48 \<le> n \<and> n \<le> 57 then Some (n - 48)
         else if 97 \<le> n \<and> n \<le> 102 then Some (n - 87)
         else if 65 \<le> n \<and> n \<le> 70 then Some (n - 55)
         else None)"

definition radix_digit :: "nat \<Rightarrow> char \<Rightarrow> nat option" where
  "radix_digit radix c = (case digit_value c of Some d \<Rightarrow> if d < radix then Some d else None | None \<Rightarrow> None)"

text \<open>\<open>read_number\<close>: greedily the digits, with a limit on their number and on the value.\<close>

definition read_number ::
    "nat \<Rightarrow> nat \<Rightarrow> bool \<Rightarrow> nat \<Rightarrow> string \<Rightarrow> (nat \<times> string) option" where
  "read_number radix max_digits allow_zero_prefix limit s =
     (let ds = takeWhile (\<lambda>c. radix_digit radix c \<noteq> None) s;
          v = foldl (\<lambda>n c. n * radix + the (radix_digit radix c)) 0 ds
      in if ds = [] \<or> max_digits < length ds then None
         else if \<not> allow_zero_prefix \<and> hd s = CHR ''0'' \<and> 1 < length ds then None
         else if limit < v then None
         else Some (v, drop (length ds) s))"

definition read_char :: "char \<Rightarrow> string \<Rightarrow> string option" where
  "read_char c s = (case s of [] \<Rightarrow> None | d # r \<Rightarrow> if d = c then Some r else None)"

definition read_octet :: "string \<Rightarrow> (nat \<times> string) option" where
  "read_octet = read_number 10 3 False 255"

definition read_dotted :: "string \<Rightarrow> (nat \<times> string) option" where
  "read_dotted s = (case read_char (CHR ''.'') s of None \<Rightarrow> None | Some r \<Rightarrow> read_octet r)"

definition read_ipv4 :: "string \<Rightarrow> ((nat \<times> nat \<times> nat \<times> nat) \<times> string) option" where
  "read_ipv4 s =
     (case read_octet s of None \<Rightarrow> None | Some (a, s) \<Rightarrow>
      (case read_dotted s of None \<Rightarrow> None | Some (b, s) \<Rightarrow>
       (case read_dotted s of None \<Rightarrow> None | Some (c, s) \<Rightarrow>
        (case read_dotted s of None \<Rightarrow> None | Some (d, s) \<Rightarrow> Some ((a, b, c, d), s)))))"

definition read_separator :: "nat \<Rightarrow> (string \<Rightarrow> ('a \<times> string) option) \<Rightarrow> string \<Rightarrow> ('a \<times> string) option" where
  "read_separator index inner s =
     (if 0 < index then (case read_char (CHR '':'') s of None \<Rightarrow> None | Some r \<Rightarrow> inner r)
      else inner s)"

text \<open>
  \<open>read_groups\<close>: up to \<open>left\<close> groups from number \<open>i\<close> on; the result is the groups, whether they
  end in an embedded IPv4 address, and the rest of the input.
\<close>

fun read_groups :: "nat \<Rightarrow> nat \<Rightarrow> string \<Rightarrow> nat list \<times> bool \<times> string" where
  "read_groups 0 i s = ([], False, s)"
| "read_groups (Suc left) i s =
     (case (if 0 < left then read_separator i read_ipv4 s else None) of
        Some ((a, b, c, d), r) \<Rightarrow> ([a * 256 + b, c * 256 + d], True, r)
      | None \<Rightarrow>
          (case read_separator i (read_number 16 4 True 65535) s of
             None \<Rightarrow> ([], False, s)
           | Some (g, r) \<Rightarrow>
               (let (gs, v4, r) = read_groups left (Suc i) r in (g # gs, v4, r))))"

definition read_ipv6 :: "string \<Rightarrow> (nat list \<times> string) option" where
  "read_ipv6 s =
     (let (front, v4, r) = read_groups 8 0 s
      in if length front = 8 then Some (front, r)
         else if v4 then None
         else
           (case read_char (CHR '':'') r of None \<Rightarrow> None | Some r \<Rightarrow>
            (case read_char (CHR '':'') r of None \<Rightarrow> None | Some r \<Rightarrow>
               (let (back, _, r) = read_groups (8 - (length front + 1)) 0 r
                in Some (front @ replicate (8 - length front - length back) 0 @ back, r)))))"

definition ipv4_of :: "nat \<times> nat \<times> nat \<times> nat \<Rightarrow> ip_addr" where
  "ipv4_of q = (case q of (a, b, c, d) \<Rightarrow>
     IPv4 (of_nat (((a * 256 + b) * 256 + c) * 256 + d)))"

definition ipv6_of :: "nat list \<Rightarrow> ip_addr" where
  "ipv6_of gs = IPv6 (of_nat (foldl (\<lambda>n g. n * 65536 + g) 0 gs))"

definition parse_ip :: "string \<Rightarrow> ip_addr option" where
  "parse_ip s =
     (case read_ipv4 s of
        Some (q, r) \<Rightarrow> if r = [] then Some (ipv4_of q) else None
      | None \<Rightarrow>
          (case read_ipv6 s of
             Some (gs, r) \<Rightarrow> if r = [] then Some (ipv6_of gs) else None
           | None \<Rightarrow> None))"

definition octets :: "nat \<Rightarrow> nat list" where
  "octets n = [n div 16777216 mod 256, n div 65536 mod 256, n div 256 mod 256, n mod 256]"

definition ipv4_text :: "nat \<Rightarrow> string" where
  "ipv4_text n = join_with ''.'' (map nat_text (octets n))"

definition segments :: "nat \<Rightarrow> nat list" where
  "segments n = map (\<lambda>i. n div 65536 ^ (7 - i) mod 65536) [0..<8]"

text \<open>The first longest run of zero segments: its start and its length.\<close>

fun zero_run :: "nat \<Rightarrow> nat \<times> nat \<Rightarrow> nat \<times> nat \<Rightarrow> nat list \<Rightarrow> nat \<times> nat" where
  "zero_run i longest cur [] = longest"
| "zero_run i longest cur (x # xs) =
     (if x = 0
      then let cur = (if snd cur = 0 then i else fst cur, snd cur + 1)
           in zero_run (Suc i) (if snd longest < snd cur then cur else longest) cur xs
      else zero_run (Suc i) longest (0, 0) xs)"

definition ipv6_text :: "nat \<Rightarrow> string" where
  "ipv6_text n =
     (let segs = segments n
      in if take 6 segs = [0, 0, 0, 0, 0, 65535] then ''::ffff:'' @ ipv4_text (n mod 4294967296)
         else
           (case zero_run 0 (0, 0) (0, 0) segs of
              (start, len) \<Rightarrow>
                (if 1 < len
                 then join_with '':'' (map hex_text (take start segs)) @ ''::'' @
                      join_with '':'' (map hex_text (drop (start + len) segs))
                 else join_with '':'' (map hex_text segs))))"

definition ip_text :: "ip_addr \<Rightarrow> string" where
  "ip_text a = (case a of IPv4 w \<Rightarrow> ipv4_text (unat w) | IPv6 w \<Rightarrow> ipv6_text (unat w))"


lemma radix10: "radix_digit 10 c = (if is_ascii_digit c then Some (code c - 48) else None)"
  by (auto simp: radix_digit_def digit_value_def is_ascii_digit_def Let_def)

lemma code_digit [simp]: "d < 10 \<Longrightarrow> code (digit_char d) = 48 + d"
  by (simp add: code_def digit_char_def)

lemma digit_char_digit [simp]: "d < 10 \<Longrightarrow> is_ascii_digit (digit_char d)"
  by (simp add: is_ascii_digit_def)

lemma nat_text_digits: "c \<in> set (nat_text n) \<Longrightarrow> is_ascii_digit c"
proof (induction n rule: nat_text.induct)
  case (1 n)
  then show ?case by (subst (asm) (2) nat_text.simps) (auto split: if_splits)
qed

lemma nat_text_value: "foldl (\<lambda>n c. n * 10 + the (radix_digit 10 c)) 0 (nat_text n) = n"
proof (induction n rule: nat_text.induct)
  case (1 n)
  then show ?case by (subst nat_text.simps) (auto simp: radix10)
qed

lemma nat_text_length: "n < 10 ^ Suc k \<Longrightarrow> length (nat_text n) \<le> Suc k"
proof (induction k arbitrary: n)
  case 0
  then show ?case by (subst nat_text.simps) simp
next
  case (Suc k)
  then have "n div 10 < 10 ^ Suc k" by (simp add: less_mult_imp_div_less)
  then show ?case using Suc.IH [of "n div 10"] by (subst nat_text.simps) simp
qed

lemma nat_text_lead: "hd (nat_text n) = CHR ''0'' \<Longrightarrow> n = 0"
proof (induction n rule: nat_text.induct)
  case (1 n)
  have zero: "digit_char d = CHR ''0'' \<Longrightarrow> d < 10 \<Longrightarrow> d = 0" for d
    using code_digit [of d] by (simp add: code_def)
  show ?case
  proof (cases "n < 10")
    case True
    then show ?thesis using 1(2) zero by (subst (asm) nat_text.simps) simp
  next
    case False
    then have "hd (nat_text (n div 10)) = CHR ''0''" using 1(2) by (subst (asm) nat_text.simps) simp
    then have "n div 10 = 0" using 1(1) False by simp
    then show ?thesis using False by simp
  qed
qed

lemma read_octet_text:
  assumes "n < 256" "rest = [] \<or> \<not> is_ascii_digit (hd rest)"
  shows "read_octet (nat_text n @ rest) = Some (n, rest)"
proof -
  have all: "\<forall>c \<in> set (nat_text n). radix_digit 10 c \<noteq> None" using nat_text_digits by (auto simp: radix10)
  have stop: "takeWhile (\<lambda>c. radix_digit 10 c \<noteq> None) rest = []"
    using assms(2) by (cases rest) (auto simp: radix10)
  have ds: "takeWhile (\<lambda>c. radix_digit 10 c \<noteq> None) (nat_text n @ rest) = nat_text n"
    using all stop by (simp add: takeWhile_append)
  have len: "length (nat_text n) \<le> 3" using nat_text_length [of n 2] assms(1) by simp
  have lead: "\<not> (hd (nat_text n @ rest) = CHR ''0'' \<and> 1 < length (nat_text n))"
  proof
    assume "hd (nat_text n @ rest) = CHR ''0'' \<and> 1 < length (nat_text n)"
    then have "n = 0" "1 < length (nat_text n)" using nat_text_lead [of n] by simp_all
    then show False by (simp add: nat_text.simps)
  qed
  show ?thesis
    using assms(1) len lead unfolding read_octet_def read_number_def ds Let_def
    by (auto simp: nat_text_value)
qed

lemma ipv4_octets:
  "n < 4294967296 \<Longrightarrow>
   (((n div 16777216 mod 256) * 256 + n div 65536 mod 256) * 256 + n div 256 mod 256) * 256 + n mod 256 = (n::nat)"
proof -
  assume n: "n < 4294967296"
  have d: "n div 65536 = n div 256 div 256" "n div 16777216 = n div 256 div 256 div 256"
    by (simp_all add: div_mult2_eq [symmetric])
  have m: "n div 256 div 256 div 256 mod 256 = n div 256 div 256 div 256"
    using n by (intro mod_less) (simp add: div_mult2_eq [symmetric] less_mult_imp_div_less)
  show ?thesis unfolding d m by (simp add: div_mult_mod_eq)
qed

text \<open>Printing and parsing an IPv4 address.\<close>

lemma parse_ipv4_text: "parse_ip (ip_text (IPv4 w)) = Some (IPv4 w)"
proof -
  have n: "unat w < 4294967296" using unsigned_less [of w, where ?'a = nat] by simp
  have sep: "\<not> is_ascii_digit (CHR ''.'')" by (simp add: is_ascii_digit_def code_def)
  have "read_ipv4 (ip_text (IPv4 w)) = Some ((unat w div 16777216 mod 256, unat w div 65536 mod 256,
      unat w div 256 mod 256, unat w mod 256), [])"
    by (simp add: ip_text_def ipv4_text_def octets_def read_ipv4_def read_dotted_def read_char_def
        read_octet_text sep read_octet_text [where rest = "[]", simplified])
  moreover have "ipv4_of (unat w div 16777216 mod 256, unat w div 65536 mod 256,
      unat w div 256 mod 256, unat w mod 256) = IPv4 w"
    unfolding ipv4_of_def prod.case ipv4_octets [OF n] by simp
  ultimately show ?thesis unfolding parse_ip_def by simp
qed

end
