(* ===== verification/Config.thy ===== *)
theory Config
  imports ConfigTypes StdText
begin

text \<open>
  \<open>config.rs\<close>: from the command line and the configuration file to the resolved
  configuration, with every check, and its printed summary. The \<open>url\<close>, \<open>toml\<close>,
  \<open>humantime\<close> and \<open>sha2\<close> crates, reading the file and the shortest-decimal printing of an
  \<open>f64\<close> are the parameter \<open>E\<close>.
\<close>

subsection \<open>Third-party operations\<close>

record 'u url_view = "'u url_ops" +
  url_scheme :: "'u \<Rightarrow> string"
  url_host :: "'u \<Rightarrow> string option"
  url_username :: "'u \<Rightarrow> string"
  url_password :: "'u \<Rightarrow> string option"
  url_fragment :: "'u \<Rightarrow> string option"
  url_path :: "'u \<Rightarrow> string"
  url_port_or_default :: "'u \<Rightarrow> nat option"
  url_set_path :: "string \<Rightarrow> 'u \<Rightarrow> 'u"

record 'u config_env =
  ce_url :: "'u url_view"
  ce_read_file :: "path \<Rightarrow> string + string"
  ce_toml :: "string \<Rightarrow> string + file_config"
  ce_parse_duration :: "string \<Rightarrow> string + duration"
  ce_show_duration :: "duration \<Rightarrow> string"
  ce_sha256 :: "string \<Rightarrow> nat list"
  ce_show_f64 :: "f64 \<Rightarrow> string"

type_synonym 'a config_result = "string + 'a"

subsection \<open>Checks of single values\<close>

definition make_absolute :: "path \<Rightarrow> path \<Rightarrow> path" where
  "make_absolute p current_dir = (if path_is_absolute p then p else path_join current_dir p)"

definition parse_duration :: "'u config_env \<Rightarrow> string \<Rightarrow> string \<Rightarrow> duration config_result" where
  "parse_duration E name value =
     (case ce_parse_duration E value of
        Inl source \<Rightarrow> Inl (''invalid '' @ name @ '' '' @ str_debug value @ '': '' @ source)
      | Inr d \<Rightarrow> if d = 0 then Inl (name @ '' must be greater than zero'') else Inr d)"

definition positive_u32 :: "string \<Rightarrow> nat \<Rightarrow> nat config_result" where
  "positive_u32 name value =
     (if value = 0 then Inl (name @ '' must be greater than zero'') else Inr value)"

definition percentage :: "string \<Rightarrow> f64 \<Rightarrow> f64 config_result" where
  "percentage name value =
     (if is_finite value \<and> f_ge value (Fin 0) \<and> f_ge (Fin 100) value then Inr value
      else Inl (name @ '' must be between 0 and 100 percent''))"

definition optional_positive_f64 :: "string \<Rightarrow> f64 option \<Rightarrow> f64 option config_result" where
  "optional_positive_f64 name value =
     (case value of
        Some v \<Rightarrow> if is_finite v \<and> f_lt (Fin 0) v then Inr (Some v)
                  else Inl (name @ '' must be greater than zero'')
      | None \<Rightarrow> Inr None)"

text \<open>\<open>seen\<close> is the set of the names met so far.\<close>

fun validate_interfaces_from :: "string list \<Rightarrow> string list \<Rightarrow> unit config_result" where
  "validate_interfaces_from seen [] = Inr ()"
| "validate_interfaces_from seen (i # is) =
     (if trimmed_empty i then Inl ''network interface name cannot be empty''
      else if i \<in> set seen then Inl (''duplicate interface: '' @ i)
      else validate_interfaces_from (i # seen) is)"

definition validate_interfaces :: "string list \<Rightarrow> unit config_result" where
  "validate_interfaces is = validate_interfaces_from [] is"

definition valid_dns_label :: "string \<Rightarrow> bool" where
  "valid_dns_label label \<longleftrightarrow>
     label \<noteq> [] \<and> length label \<le> 63 \<and> hd label \<noteq> CHR ''-'' \<and> last label \<noteq> CHR ''-'' \<and>
     list_all (\<lambda>c. is_ascii_alphanumeric c \<or> c = CHR ''-'') label"

definition valid_dns_name :: "string \<Rightarrow> bool" where
  "valid_dns_name name =
     (if 253 < length name \<or> name = [] \<or> parse_ip name \<noteq> None then False
      else list_all valid_dns_label (split_char (CHR ''.'') (trim_end_matches (CHR ''.'') name)))"

subsection \<open>The direct provider\<close>

definition direct_target_urls :: "'u config_env \<Rightarrow> string \<Rightarrow> ('u \<times> 'u) config_result" where
  "direct_target_urls E target =
     (if trimmed_empty target \<or> CHR ''/'' \<in> set target \<or> CHR ''?'' \<in> set target \<or> CHR ''#'' \<in> set target
      then Inl (''invalid direct target: '' @ target)
      else
        let base = (case parse_ip target of
                      Some (IPv4 a) \<Rightarrow> ''wss://'' @ ip_text (IPv4 a)
                    | Some (IPv6 a) \<Rightarrow> ''wss://['' @ ip_text (IPv6 a) @ '']''
                    | None \<Rightarrow> ''wss://'' @ target)
        in case url_parse (ce_url E) base of
             None \<Rightarrow> Inl (''invalid direct target: '' @ target)
           | Some parsed \<Rightarrow>
               (if url_host (ce_url E) parsed = None \<or> url_username (ce_url E) parsed \<noteq> []
                   \<or> url_password (ce_url E) parsed \<noteq> None
                then Inl (''invalid direct target: '' @ target)
                else Inr (url_set_path (ce_url E) ''/ndt/v7/download'' parsed,
                          url_set_path (ce_url E) ''/ndt/v7/upload'' parsed)))"

definition parse_ndt_url :: "'u config_env \<Rightarrow> string \<Rightarrow> string \<Rightarrow> bool \<Rightarrow> 'u config_result" where
  "parse_ndt_url E name value allow_insecure =
     (case url_parse (ce_url E) value of
        None \<Rightarrow> Inl (''invalid '' @ name)
      | Some url \<Rightarrow>
          (if url_scheme (ce_url E) url \<noteq> ''wss'' \<and> url_scheme (ce_url E) url \<noteq> ''ws''
           then Inl (name @ '' must use wss:// or ws://'')
           else if url_scheme (ce_url E) url = ''ws'' \<and> \<not> allow_insecure
           then Inl (name @
             '' uses ws://; pass --allow-insecure-ndt only for a trusted private network'')
           else if url_host (ce_url E) url = None \<or> url_username (ce_url E) url \<noteq> []
             \<or> url_password (ce_url E) url \<noteq> None \<or> url_fragment (ce_url E) url \<noteq> None
           then Inl (''invalid '' @ name @ '': credentials and fragments are not allowed'')
           else Inr url))"

definition parse_http_url :: "'u config_env \<Rightarrow> string \<Rightarrow> string \<Rightarrow> 'u config_result" where
  "parse_http_url E name value =
     (case url_parse (ce_url E) value of
        None \<Rightarrow> Inl (''invalid '' @ name)
      | Some url \<Rightarrow>
          (if url_scheme (ce_url E) url \<notin> {''http'', ''https''} \<or> url_host (ce_url E) url = None
           then Inl (name @ '' must be an http(s) URL'')
           else if url_username (ce_url E) url \<noteq> [] \<or> url_password (ce_url E) url \<noteq> None
             \<or> url_fragment (ce_url E) url \<noteq> None
           then Inl (''invalid '' @ name @ '': credentials and fragments are not allowed'')
           else Inr url))"

definition endpoint_identity :: "'u config_env \<Rightarrow> 'u \<Rightarrow> string" where
  "endpoint_identity E url =
     (let host = map to_ascii_lowercase (unwrap_or (url_host (ce_url E) url) []);
          port = unwrap_or (url_port_or_default (ce_url E) url) 0
      in url_scheme (ce_url E) url @ ''://'' @ host @ '':'' @ nat_text port @ url_path (ce_url E) url)"

definition byte_hex :: "nat \<Rightarrow> string" where
  "byte_hex b = [hex_char (b div 16), hex_char (b mod 16)]"

definition provider_id :: "'u config_env \<Rightarrow> string \<Rightarrow> string" where
  "provider_id E hashed = concat (map byte_hex (take 8 (ce_sha256 E hashed)))"

text \<open>What the hasher was fed, as one string.\<close>

definition direct_identity :: "'u config_env \<Rightarrow> 'u direct_config \<Rightarrow> string" where
  "direct_identity E direct =
     endpoint_identity E (dc_download_url direct) @ [CHR 0x0A] @
     endpoint_identity E (dc_upload_url direct) @
     (case dc_tls_server_name direct of
        None \<Rightarrow> [] | Some name \<Rightarrow> [CHR 0x0A] @ ''sni='' @ map to_ascii_lowercase name)"

definition direct_provider_id :: "'u config_env \<Rightarrow> 'u direct_config \<Rightarrow> string" where
  "direct_provider_id E direct = provider_id E (direct_identity E direct)"

definition direct_urls ::
    "'u config_env \<Rightarrow> string option \<Rightarrow> string option \<Rightarrow> string option \<Rightarrow> bool \<Rightarrow> ('u \<times> 'u) config_result" where
  "direct_urls E target download upload allow_insecure =
     (case target of
        Some raw \<Rightarrow> direct_target_urls E raw
      | None \<Rightarrow>
          res_bind (parse_ndt_url E ''direct download URL'' (the download) allow_insecure) (\<lambda>d.
          res_bind (parse_ndt_url E ''direct upload URL'' (the upload) allow_insecure) (\<lambda>u.
          Inr (d, u))))"

definition resolve_direct ::
    "'u config_env \<Rightarrow> cli \<Rightarrow> file_direct \<Rightarrow> resolve_context \<Rightarrow> 'u direct_config config_result" where
  "resolve_direct E c f ctx =
     (let opts = cli_options c;
          target = or_else (o_ndt_target opts) (fd_target f);
          download = or_else (o_ndt_download_url opts) (fd_download_url f);
          upload = or_else (o_ndt_upload_url opts) (fd_upload_url f);
          allow_insecure = (o_allow_insecure_ndt opts \<or> unwrap_or (fd_allow_insecure f) False);
          tls_server_name = or_else (o_ndt_tls_server_name opts) (fd_tls_server_name f);
          ca_cert = map_option (\<lambda>p. make_absolute p (cx_current_dir ctx))
                      (or_else (o_ndt_ca_cert opts) (fd_ca_cert f))
      in if target \<noteq> None \<and> (download \<noteq> None \<or> upload \<noteq> None)
         then Inl ''direct target and explicit download/upload URLs are mutually exclusive''
         else if (download \<noteq> None) \<noteq> (upload \<noteq> None)
         then Inl ''direct download and upload URLs must be supplied together''
         else if target = None \<and> download = None
         then Inl ''direct provider requires a target or download/upload URL pair''
         else
           res_bind
             (direct_urls E target download upload allow_insecure)
             (\<lambda>(download_url, upload_url).
              let scheme = url_scheme (ce_url E);
                  uses_tls = (scheme download_url = ''wss'' \<or> scheme upload_url = ''wss'')
              in if (scheme download_url = ''ws'' \<or> scheme upload_url = ''ws'') \<and> \<not> allow_insecure
                 then Inl ''plain ws:// requires the explicit --allow-insecure-ndt opt-in''
                 else if tls_server_name \<noteq> None \<and> \<not> valid_dns_name (the tls_server_name)
                 then Inl (''invalid TLS server name: '' @ the tls_server_name)
                 else if tls_server_name \<noteq> None \<and> \<not> uses_tls
                 then Inl ''TLS server name requires wss:// direct endpoints''
                 else if ca_cert \<noteq> None \<and> \<not> uses_tls
                 then Inl ''a private CA certificate requires wss:// direct endpoints''
                 else Inr \<lparr> dc_target = target, dc_download_url = download_url,
                            dc_upload_url = upload_url, dc_tls_server_name = tls_server_name,
                            dc_ca_cert = ca_cert, dc_allow_insecure = allow_insecure \<rparr>))"

subsection \<open>The bandwidth section\<close>

definition resolve_trigger :: "'u config_env \<Rightarrow> cli_options \<Rightarrow> file_trigger \<Rightarrow> trigger_config config_result" where
  "resolve_trigger E opts f =
     res_bind (positive_u32 ''loss window rounds''
       (unwrap_or (or_else (o_loss_window_rounds opts) (ft_window_rounds f)) 6)) (\<lambda>window_rounds.
     res_bind (positive_u32 ''loss minimum samples''
       (unwrap_or (or_else (o_loss_min_samples opts) (ft_min_samples f)) 6)) (\<lambda>min_samples.
     res_bind (percentage ''loss threshold''
       (unwrap_or (or_else (o_loss_threshold_pct opts) (ft_loss_threshold_pct f)) (Fin 50))) (\<lambda>loss_threshold.
     res_bind (optional_positive_f64 ''RTT threshold''
       (or_else (o_rtt_threshold_ms opts) (ft_rtt_threshold_ms f))) (\<lambda>rtt_threshold.
     res_bind (percentage ''recovery loss threshold''
       (unwrap_or (or_else (o_recovery_loss_pct opts) (ft_recovery_loss_pct f)) (Fin 10))) (\<lambda>recovery_loss.
     res_bind (positive_u32 ''recovery rounds''
       (unwrap_or (or_else (o_recovery_rounds opts) (ft_recovery_rounds f)) 3)) (\<lambda>recovery_rounds.
     res_bind (parse_duration E ''pending trigger lifetime''
       (unwrap_or (or_else (o_pending_trigger_ttl opts) (ft_pending_ttl f)) ''30m'')) (\<lambda>pending_ttl.
     if f_ge recovery_loss loss_threshold
     then Inl ''recovery loss threshold must be below the trigger loss threshold''
     else Inr \<lparr> tc_window_rounds = window_rounds, tc_min_samples = min_samples,
                tc_loss_threshold_pct = loss_threshold, tc_rtt_threshold_ms = rtt_threshold,
                tc_recovery_loss_pct = recovery_loss, tc_recovery_rounds = recovery_rounds,
                tc_pending_ttl = pending_ttl \<rparr>)))))))"

definition resolve_cooldown :: "'u config_env \<Rightarrow> cli_options \<Rightarrow> file_cooldown \<Rightarrow> cooldown_config config_result" where
  "resolve_cooldown E opts f =
     res_bind (parse_duration E ''initial cooldown''
       (unwrap_or (or_else (o_cooldown_initial opts) (fcd_initial f)) ''60s'')) (\<lambda>initial.
     res_bind (parse_duration E ''maximum cooldown''
       (unwrap_or (or_else (o_cooldown_max opts) (fcd_max f)) ''16m'')) (\<lambda>maximum.
     if maximum < initial then Inl ''initial cooldown cannot exceed maximum cooldown''
     else Inr \<lparr> cd_initial = initial, cd_max = maximum \<rparr>))"

definition file_trigger_default :: file_trigger where
  "file_trigger_default = \<lparr> ft_window_rounds = None, ft_min_samples = None,
     ft_loss_threshold_pct = None, ft_rtt_threshold_ms = None, ft_recovery_loss_pct = None,
     ft_recovery_rounds = None, ft_pending_ttl = None \<rparr>"

definition file_direct_default :: file_direct where
  "file_direct_default = \<lparr> fd_target = None, fd_download_url = None, fd_upload_url = None,
     fd_tls_server_name = None, fd_ca_cert = None, fd_allow_insecure = None \<rparr>"

definition has_direct_options :: "cli_options \<Rightarrow> file_direct \<Rightarrow> bool" where
  "has_direct_options opts f \<longleftrightarrow>
     o_ndt_target opts \<noteq> None \<or> o_ndt_download_url opts \<noteq> None \<or> o_ndt_upload_url opts \<noteq> None \<or>
     o_ndt_tls_server_name opts \<noteq> None \<or> o_ndt_ca_cert opts \<noteq> None \<or> o_allow_insecure_ndt opts \<or>
     fd_target f \<noteq> None \<or> fd_download_url f \<noteq> None \<or> fd_upload_url f \<noteq> None \<or>
     fd_tls_server_name f \<noteq> None \<or> fd_ca_cert f \<noteq> None \<or> unwrap_or (fd_allow_insecure f) False"

definition default_locate_url :: string where
  "default_locate_url = ''https://locate.measurementlab.net/v2/nearest/ndt/ndt7''"

text \<open>The provider, its identity and whether automatic tests are enabled.\<close>

definition resolve_provider ::
    "'u config_env \<Rightarrow> cli \<Rightarrow> file_bandwidth \<Rightarrow> resolve_context \<Rightarrow> provider_kind \<Rightarrow> nat \<Rightarrow> duration \<Rightarrow>
     ('u provider_config \<times> string \<times> bool) config_result" where
  "resolve_provider E c f ctx kind daily_max min_spacing =
     (let opts = cli_options c;
          direct_file = unwrap_or (fb_direct f) file_direct_default;
          locate_override = or_else (o_mlab_locate_url opts)
            (case fb_mlab f of None \<Rightarrow> None | Some m \<Rightarrow> fm_locate_url m);
          accepted = (o_accept_mlab_policy opts \<or> unwrap_or (fb_accept_mlab_policy f) False)
      in case kind of
           PkMlab \<Rightarrow>
             (if has_direct_options opts direct_file
              then Inl ''direct NDT options require --ndt-provider direct''
              else if 4 < daily_max
              then Inl ''M-Lab permits at most 4 bandwidth runs per UTC day''
              else if min_spacing < secs (36 * 60)
              then Inl ''M-Lab bandwidth minimum spacing must be at least 36m''
              else
                res_bind (parse_http_url E ''M-Lab Locate URL'' (unwrap_or locate_override default_locate_url))
                  (\<lambda>locate_url. Inr
                     (MlabProvider \<lparr> ml_locate_url = locate_url, ml_policy_accepted = accepted \<rparr>,
                      provider_id E ''mlab'', 0 < daily_max \<and> accepted)))
         | PkDirect \<Rightarrow>
             (if locate_override \<noteq> None
              then Inl ''M-Lab Locate URL does not apply to the direct provider''
              else if accepted
              then Inl ''M-Lab policy acknowledgement does not apply to direct provider''
              else
                res_bind (resolve_direct E c direct_file ctx) (\<lambda>direct. Inr
                  (DirectProvider direct, direct_provider_id E direct, 0 < daily_max))))"

text \<open>The spacing and capacity a direct provider needs.\<close>

definition check_direct_spacing ::
    "'u config_env \<Rightarrow> nat \<Rightarrow> duration \<Rightarrow> duration \<Rightarrow> duration \<Rightarrow> unit config_result" where
  "check_direct_spacing E daily_max min_spacing timeout margin =
     (case duration_checked_add timeout margin of
        None \<Rightarrow> Inl ''bandwidth timeout plus shutdown margin is too large''
      | Some whole \<Rightarrow>
          (let minimum = max whole (secs 60)
           in if min_spacing < minimum
              then Inl (''direct bandwidth minimum spacing must be at least '' @ ce_show_duration E minimum)
              else if 86400 div (min_spacing div ns_per_sec) < daily_max
              then Inl (''daily maximum '' @ nat_text daily_max @ '' cannot fit in 24h with '' @
                ce_show_duration E min_spacing @ '' minimum spacing'')
              else Inr ()))"

definition resolve_bandwidth ::
    "'u config_env \<Rightarrow> cli \<Rightarrow> file_bandwidth \<Rightarrow> resolve_context \<Rightarrow> 'u bandwidth_config config_result" where
  "resolve_bandwidth E c f ctx =
     (let opts = cli_options c;
          kind = unwrap_or (or_else (o_ndt_provider opts) (fb_provider f)) PkMlab;
          daily_max = unwrap_or (or_else (o_bandwidth_daily_max opts) (fb_daily_max f)) 4;
          slot_jitter_pct = unwrap_or (or_else (o_bandwidth_slot_jitter_pct opts) (fb_slot_jitter_pct f)) 50
      in
      res_bind (parse_duration E ''bandwidth minimum spacing''
        (unwrap_or (or_else (o_bandwidth_min_spacing opts) (fb_min_spacing f)) ''36m'')) (\<lambda>min_spacing.
      if 100 < slot_jitter_pct
      then Inl ''bandwidth slot jitter must be between 0 and 100 percent''
      else
      res_bind (parse_duration E ''bandwidth timeout''
        (unwrap_or (or_else (o_bandwidth_timeout opts) (fb_whole_test_timeout f)) ''55s'')) (\<lambda>timeout.
      res_bind (parse_duration E ''bandwidth shutdown margin''
        (unwrap_or (or_else (o_bandwidth_shutdown_margin opts) (fb_shutdown_margin f)) ''15s'')) (\<lambda>margin.
      res_bind (resolve_trigger E opts (unwrap_or (fb_trigger f) file_trigger_default)) (\<lambda>trigger.
      res_bind (resolve_cooldown E opts
        (unwrap_or (fb_cooldown f) \<lparr> fcd_initial = None, fcd_max = None \<rparr>)) (\<lambda>cooldown.
      res_bind (resolve_provider E c f ctx kind daily_max min_spacing) (\<lambda>(provider, pid, automatic).
      res_bind (if kind = PkDirect then check_direct_spacing E daily_max min_spacing timeout margin else Inr ())
        (\<lambda>_. Inr
          \<lparr> bw_provider = provider, bw_provider_id = pid, bw_automatic_enabled = automatic,
            bw_force_limits = o_force opts, bw_daily_max = daily_max, bw_min_spacing = min_spacing,
            bw_slot_jitter_pct = slot_jitter_pct, bw_whole_test_timeout = timeout,
            bw_shutdown_margin = margin, bw_trigger = trigger, bw_cooldown = cooldown \<rparr>))))))))"

subsection \<open>The whole configuration\<close>

definition file_config_default :: file_config where
  "file_config_default = \<lparr> fc_console = None, fc_verbosity = None, fc_interfaces = None,
     fc_output = None, fc_output_dir = None, fc_rotate_max_bytes = None, fc_state_file = None,
     fc_shutdown_grace = None, fc_ping = None, fc_bandwidth = None \<rparr>"

definition file_bandwidth_default :: file_bandwidth where
  "file_bandwidth_default = \<lparr> fb_provider = None, fb_daily_max = None, fb_min_spacing = None,
     fb_slot_jitter_pct = None, fb_whole_test_timeout = None, fb_shutdown_margin = None,
     fb_accept_mlab_policy = None, fb_trigger = None, fb_cooldown = None, fb_mlab = None,
     fb_direct = None \<rparr>"

definition load_file :: "'u config_env \<Rightarrow> path option \<Rightarrow> file_config config_result" where
  "load_file E path =
     (case path of
        None \<Rightarrow> Inr file_config_default
      | Some p \<Rightarrow>
          (case ce_read_file E p of
             Inl source \<Rightarrow> Inl (''cannot read config file '' @ p @ '': '' @ source)
           | Inr contents \<Rightarrow>
               (case ce_toml E contents of
                  Inl source \<Rightarrow> Inl (''cannot parse config file '' @ p @ '': '' @ source)
                | Inr f \<Rightarrow> Inr f)))"

definition resolve_output ::
    "path option \<Rightarrow> path option \<Rightarrow> path option \<Rightarrow> path option \<Rightarrow> resolve_context \<Rightarrow> command_kind \<Rightarrow>
     output_target config_result" where
  "resolve_output cli_file cli_dir file_file file_dir ctx command =
     (let absolute = (\<lambda>p. make_absolute p (cx_current_dir ctx))
      in if cli_file = None \<and> cli_dir = None \<and> file_file \<noteq> None \<and> file_dir \<noteq> None
         then Inl ''config cannot set both output and output_dir''
         else case cli_file of Some p \<Rightarrow> Inr (OtFile (absolute p)) | None \<Rightarrow>
              case cli_dir of Some p \<Rightarrow> Inr (OtDirectory (absolute p)) | None \<Rightarrow>
              case file_file of Some p \<Rightarrow> Inr (OtFile (absolute p)) | None \<Rightarrow>
              case file_dir of Some p \<Rightarrow> Inr (OtDirectory (absolute p)) | None \<Rightarrow>
                (let journals = absolute (path_join (cx_data_dir ctx) ''journals'')
                 in Inr (if command = CkOncePing \<or> command = CkOnceBandwidth
                         then OtAutomaticFile (path_join journals ''once'')
                         else OtAutomaticDirectory (path_join journals ''run''))))"

definition resolve_console :: "console_mode option \<Rightarrow> bool \<Rightarrow> command_kind \<Rightarrow> console_mode" where
  "resolve_console requested stdout_is_terminal command =
     (let mode = unwrap_or requested
            (if command = CkRun \<or> command = CkConfigCheck then CmAuto else CmHuman)
      in if mode = CmAuto then (if stdout_is_terminal then CmHuman else CmOff) else mode)"

definition default_targets :: "string list" where
  "default_targets = [''1.1.1.1'', ''8.8.8.8'', ''9.9.9.9'']"

definition parse_target :: "string \<Rightarrow> ip_addr config_result" where
  "parse_target t = (case parse_ip t of Some a \<Rightarrow> Inr a | None \<Rightarrow> Inl (''invalid ping target IP: '' @ t))"

fun check_targets :: "ip_addr list \<Rightarrow> ip_addr list \<Rightarrow> unit config_result" where
  "check_targets seen [] = Inr ()"
| "check_targets seen (t # ts) =
     (if t \<in> set seen then Inl (''duplicate ping target: '' @ ip_text t) else check_targets (t # seen) ts)"

definition resolve_ping :: "'u config_env \<Rightarrow> cli_options \<Rightarrow> file_ping \<Rightarrow> ping_config config_result" where
  "resolve_ping E opts f =
     (let strings = (if o_ping_targets opts \<noteq> [] then o_ping_targets opts
                     else unwrap_or (fp_targets f) default_targets)
      in if strings = [] then Inl ''at least one ping target is required''
         else
           res_bind (try_map parse_target strings) (\<lambda>targets.
           res_bind (check_targets [] targets) (\<lambda>_.
           res_bind (parse_duration E ''ping interval''
             (unwrap_or (or_else (o_ping_interval opts) (fp_interval f)) ''5s'')) (\<lambda>interval.
           res_bind (parse_duration E ''ping timeout''
             (unwrap_or (or_else (o_ping_timeout opts) (fp_timeout f)) ''2s'')) (\<lambda>timeout.
           Inr \<lparr> pc_targets = targets, pc_interval = interval, pc_timeout = timeout \<rparr>)))))"

definition check_rotation :: "nat option \<Rightarrow> output_target \<Rightarrow> unit config_result" where
  "check_rotation limit out =
     (case limit of
        None \<Rightarrow> Inr ()
      | Some n \<Rightarrow>
          (if n = 0 then Inl ''rotate_max_bytes must be positive''
           else if \<not> output_rotates out then Inl ''rotate_max_bytes requires directory output''
           else Inr ()))"

definition mlab_aup_url :: string where
  "mlab_aup_url = ''https://www.measurementlab.net/aup/''"

definition mlab_privacy_url :: string where
  "mlab_privacy_url = ''https://www.measurementlab.net/privacy/''"

definition policy_missing :: "command_kind \<Rightarrow> 'u provider_config \<Rightarrow> bool" where
  "policy_missing command provider \<longleftrightarrow>
     command = CkOnceBandwidth \<and>
     (case provider of MlabProvider m \<Rightarrow> \<not> ml_policy_accepted m | DirectProvider _ \<Rightarrow> False)"

definition resolve :: "'u config_env \<Rightarrow> cli \<Rightarrow> resolve_context \<Rightarrow> 'u resolved_config config_result" where
  "resolve E c ctx =
     (let opts = cli_options c; command = cli_command_kind c in
      res_bind (load_file E (o_config opts)) (\<lambda>f.
      if o_force opts \<and> command \<noteq> CkOnceBandwidth
      then Inl ''--force applies only to once bandwidth''
      else
        let console = resolve_console (or_else (o_console opts) (fc_console f))
              (cx_stdout_is_terminal ctx) command;
            interfaces = (if o_interfaces opts = [] then unwrap_or (fc_interfaces f) []
                          else o_interfaces opts) in
        res_bind (validate_interfaces interfaces) (\<lambda>_.
        res_bind (resolve_ping E opts (unwrap_or (fc_ping f)
          \<lparr> fp_targets = None, fp_interval = None, fp_timeout = None \<rparr>)) (\<lambda>ping.
        res_bind (resolve_output (o_output opts) (o_output_dir opts) (fc_output f) (fc_output_dir f)
          ctx command) (\<lambda>out.
        let rotate = or_else (o_rotate_max_bytes opts) (fc_rotate_max_bytes f) in
        res_bind (check_rotation rotate out) (\<lambda>_.
        let state_file = make_absolute
              (unwrap_or (or_else (o_state_file opts) (fc_state_file f))
                (path_join (cx_state_dir ctx) ''scheduler.json''))
              (cx_current_dir ctx) in
        res_bind (parse_duration E ''shutdown grace period''
          (unwrap_or (or_else (o_shutdown_grace opts) (fc_shutdown_grace f)) ''30s'')) (\<lambda>grace.
        res_bind (resolve_bandwidth E c (unwrap_or (fc_bandwidth f) file_bandwidth_default) ctx)
          (\<lambda>bandwidth.
        if policy_missing command (bw_provider bandwidth)
        then Inl (''M-Lab bandwidth requires explicit policy acceptance; review '' @ mlab_aup_url @
          '' and '' @ mlab_privacy_url @ '', then pass --accept-mlab-policy'')
        else Inr
          \<lparr> rc_command = command, rc_console = console,
            rc_verbosity = unwrap_or (or_else (o_verbosity opts) (fc_verbosity f)) VbInfo,
            rc_interfaces = interfaces, rc_output = out, rc_rotate_max_bytes = rotate,
            rc_state_file = state_file, rc_shutdown_grace = grace,
            rc_no_bandwidth = o_no_bandwidth opts, rc_ping = ping,
            rc_bandwidth =
              (if o_no_bandwidth opts then bandwidth \<lparr> bw_automatic_enabled := False \<rparr>
               else bandwidth) \<rparr>))))))))"

definition output_directory :: "output_target \<Rightarrow> path" where
  "output_directory t =
     (case t of
        OtFile p \<Rightarrow> (case path_parent p of Some d \<Rightarrow> d | None \<Rightarrow> ''.'')
      | OtDirectory p \<Rightarrow> p | OtAutomaticFile p \<Rightarrow> p | OtAutomaticDirectory p \<Rightarrow> p)"

subsection \<open>The summary\<close>

definition redact_url :: "'u config_env \<Rightarrow> 'u \<Rightarrow> string" where
  "redact_url E url =
     (let had_query = url_query (ce_url E) url \<noteq> None;
          redacted = url_set_fragment (ce_url E) None (url_set_query (ce_url E) None url);
          value = url_to_string (ce_url E) redacted
      in if had_query then value @ ''?[redacted]'' else value)"

definition enum_name :: "console_mode \<Rightarrow> string" where
  "enum_name m =
     (case m of CmAuto \<Rightarrow> ''auto'' | CmHuman \<Rightarrow> ''human'' | CmJsonl \<Rightarrow> ''jsonl'' | CmOff \<Rightarrow> ''off'')"

definition command_name :: "command_kind \<Rightarrow> string" where
  "command_name c =
     (case c of CkRun \<Rightarrow> ''run'' | CkOncePing \<Rightarrow> ''once-ping'' | CkOnceBandwidth \<Rightarrow> ''once-bandwidth''
      | CkConfigCheck \<Rightarrow> ''config-check'')"

definition verbosity_name :: "verbosity \<Rightarrow> string" where
  "verbosity_name v =
     (case v of VbError \<Rightarrow> ''error'' | VbWarn \<Rightarrow> ''warn'' | VbInfo \<Rightarrow> ''info'' | VbDebug \<Rightarrow> ''debug''
      | VbTrace \<Rightarrow> ''trace'')"

text \<open>\<open>writeln!(summary, "key=value")\<close>.\<close>

definition entry :: "string \<Rightarrow> string \<Rightarrow> string" where
  "entry key value = key @ ''='' @ value @ [CHR 0x0A]"

definition output_text :: "output_target \<Rightarrow> string" where
  "output_text t =
     (case t of
        OtFile p \<Rightarrow> ''file:'' @ p
      | OtDirectory p \<Rightarrow> ''directory:'' @ p
      | OtAutomaticDirectory p \<Rightarrow> ''directory:'' @ p
      | OtAutomaticFile p \<Rightarrow> ''unique-file-in:'' @ p)"

definition summary_head :: "'u config_env \<Rightarrow> 'u resolved_config \<Rightarrow> string" where
  "summary_head E rc =
     entry ''configuration'' ''valid'' @
     entry ''command'' (command_name (rc_command rc)) @
     entry ''console'' (enum_name (rc_console rc)) @
     entry ''verbosity'' (verbosity_name (rc_verbosity rc)) @
     entry ''interfaces''
       (if rc_interfaces rc = [] then ''default-route'' else join_with '','' (rc_interfaces rc)) @
     entry ''output'' (output_text (rc_output rc)) @
     (if output_rotates (rc_output rc)
      then entry ''rotation'' ''daily-utc'' @
           entry ''rotate_max_bytes''
             (case rc_rotate_max_bytes rc of None \<Rightarrow> ''unset'' | Some n \<Rightarrow> nat_text n)
      else []) @
     entry ''state_file'' (rc_state_file rc) @
     entry ''shutdown_grace'' (ce_show_duration E (rc_shutdown_grace rc)) @
     entry ''ping.targets'' (join_with '','' (map ip_text (pc_targets (rc_ping rc)))) @
     entry ''ping.interval'' (ce_show_duration E (pc_interval (rc_ping rc))) @
     entry ''ping.timeout'' (ce_show_duration E (pc_timeout (rc_ping rc)))"

definition summary_bandwidth :: "'u config_env \<Rightarrow> bool \<Rightarrow> 'u bandwidth_config \<Rightarrow> string" where
  "summary_bandwidth E no_bandwidth bw =
     (let tr = bw_trigger bw; show = ce_show_duration E in
     entry ''bandwidth.provider''
       (case bw_provider bw of MlabProvider _ \<Rightarrow> ''mlab'' | DirectProvider _ \<Rightarrow> ''direct'') @
     entry ''bandwidth.disabled_by_cli'' (bool_text no_bandwidth) @
     entry ''bandwidth.provider_id'' (bw_provider_id bw) @
     entry ''bandwidth.automatic_enabled'' (bool_text (bw_automatic_enabled bw)) @
     entry ''bandwidth.daily_max'' (nat_text (bw_daily_max bw)) @
     entry ''bandwidth.min_spacing'' (show (bw_min_spacing bw)) @
     entry ''bandwidth.slot_jitter_pct'' (nat_text (bw_slot_jitter_pct bw)) @
     entry ''bandwidth.whole_test_timeout'' (show (bw_whole_test_timeout bw)) @
     entry ''bandwidth.shutdown_margin'' (show (bw_shutdown_margin bw)) @
     entry ''trigger.window_rounds'' (nat_text (tc_window_rounds tr)) @
     entry ''trigger.min_samples'' (nat_text (tc_min_samples tr)) @
     entry ''trigger.loss_threshold_pct'' (ce_show_f64 E (tc_loss_threshold_pct tr)) @
     entry ''trigger.rtt_threshold_ms''
       (case tc_rtt_threshold_ms tr of Some v \<Rightarrow> ce_show_f64 E v | None \<Rightarrow> ''disabled'') @
     entry ''trigger.recovery_loss_pct'' (ce_show_f64 E (tc_recovery_loss_pct tr)) @
     entry ''trigger.recovery_rounds'' (nat_text (tc_recovery_rounds tr)) @
     entry ''trigger.pending_ttl'' (show (tc_pending_ttl tr)) @
     entry ''cooldown.initial'' (show (cd_initial (bw_cooldown bw))) @
     entry ''cooldown.max'' (show (cd_max (bw_cooldown bw))))"

definition summary_provider :: "'u config_env \<Rightarrow> 'u provider_config \<Rightarrow> string" where
  "summary_provider E provider =
     (case provider of
        MlabProvider m \<Rightarrow>
          entry ''mlab.locate_url'' (redact_url E (ml_locate_url m)) @
          entry ''mlab.policy_accepted'' (bool_text (ml_policy_accepted m)) @
          entry ''mlab.acceptable_use'' mlab_aup_url @
          entry ''mlab.privacy'' mlab_privacy_url
      | DirectProvider d \<Rightarrow>
          entry ''direct.target'' (unwrap_or (dc_target d) ''explicit-urls'') @
          entry ''direct.download_url'' (redact_url E (dc_download_url d)) @
          entry ''direct.upload_url'' (redact_url E (dc_upload_url d)) @
          entry ''direct.tls_server_name'' (unwrap_or (dc_tls_server_name d) ''default'') @
          entry ''direct.ca_cert'' (unwrap_or (dc_ca_cert d) ''system-roots'') @
          entry ''direct.allow_insecure'' (bool_text (dc_allow_insecure d)))"

definition summary :: "'u config_env \<Rightarrow> 'u resolved_config \<Rightarrow> string" where
  "summary E rc =
     summary_head E rc @ summary_bandwidth E (rc_no_bandwidth rc) (rc_bandwidth rc) @
     summary_provider E (bw_provider (rc_bandwidth rc))"

end
