(* ===== verification/ConfigProps.thy ===== *)
theory ConfigProps
  imports Config SchedulerProps Health
begin

text \<open>
  What a resolved configuration guarantees to the components built from it, and the
  properties of the parsers and of the provider identity.
\<close>

subsection \<open>Checks of single values\<close>

lemma parse_duration_Inr: "parse_duration E name v = Inr d \<Longrightarrow> 0 < d"
  by (auto simp: parse_duration_def split: sum.splits if_splits)

lemma positive_u32_Inr: "positive_u32 name v = Inr n \<longleftrightarrow> n = v \<and> 0 < v"
  by (auto simp: positive_u32_def)

lemma percentage_Inr:
  "percentage name v = Inr x \<longleftrightarrow> x = v \<and> is_finite v \<and> f_ge v (Fin 0) \<and> f_ge (Fin 100) v"
  by (auto simp: percentage_def)

lemma optional_positive_Inr:
  "optional_positive_f64 name v = Inr x \<Longrightarrow>
   x = v \<and> (case x of None \<Rightarrow> True | Some y \<Rightarrow> is_finite y \<and> f_lt (Fin 0) y)"
  by (auto simp: optional_positive_f64_def split: option.splits if_splits)

lemma validate_interfaces_from_Inr:
  "validate_interfaces_from seen is = Inr () \<longleftrightarrow>
   list_all (\<lambda>i. \<not> trimmed_empty i) is \<and> distinct is \<and> set is \<inter> set seen = {}"
  by (induction seen "is" rule: validate_interfaces_from.induct) auto

lemma validate_interfaces_Inr:
  "validate_interfaces is = Inr () \<longleftrightarrow> list_all (\<lambda>i. \<not> trimmed_empty i) is \<and> distinct is"
  by (simp add: validate_interfaces_def validate_interfaces_from_Inr)

lemma check_targets_Inr: "check_targets seen ts = Inr () \<longleftrightarrow> distinct ts \<and> set ts \<inter> set seen = {}"
  by (induction seen ts rule: check_targets.induct) auto

subsection \<open>The bandwidth section\<close>

definition trigger_ok :: "trigger_config \<Rightarrow> bool" where
  "trigger_ok t \<longleftrightarrow>
     0 < tc_window_rounds t \<and> 0 < tc_min_samples t \<and> 0 < tc_recovery_rounds t \<and> 0 < tc_pending_ttl t \<and>
     f_ge (tc_loss_threshold_pct t) (Fin 0) \<and> f_ge (Fin 100) (tc_loss_threshold_pct t) \<and>
     f_ge (tc_recovery_loss_pct t) (Fin 0) \<and> f_lt (tc_recovery_loss_pct t) (tc_loss_threshold_pct t) \<and>
     (case tc_rtt_threshold_ms t of None \<Rightarrow> True | Some r \<Rightarrow> is_finite r \<and> f_lt (Fin 0) r)"

lemma resolve_trigger_ok: "resolve_trigger E opts f = Inr t \<Longrightarrow> trigger_ok t"
  by (auto simp: resolve_trigger_def res_bind_Inr positive_u32_Inr percentage_Inr trigger_ok_def
      f_ge_def f_lt_def dest!: optional_positive_Inr parse_duration_Inr split: if_splits)

definition cooldown_ok :: "cooldown_config \<Rightarrow> bool" where
  "cooldown_ok c \<longleftrightarrow> 0 < cd_initial c \<and> cd_initial c \<le> cd_max c"

lemma resolve_cooldown_ok: "resolve_cooldown E opts f = Inr c \<Longrightarrow> cooldown_ok c"
  by (auto simp: resolve_cooldown_def res_bind_Inr cooldown_ok_def dest!: parse_duration_Inr split: if_splits)

text \<open>The limits each provider kind imposes.\<close>

definition limits_ok :: "'u bandwidth_config \<Rightarrow> bool" where
  "limits_ok bw \<longleftrightarrow>
     bw_slot_jitter_pct bw \<le> 100 \<and> 0 < bw_whole_test_timeout bw \<and> 0 < bw_shutdown_margin bw \<and>
     (case bw_provider bw of
        MlabProvider m \<Rightarrow> bw_daily_max bw \<le> 4 \<and> secs 2160 \<le> bw_min_spacing bw
      | DirectProvider d \<Rightarrow>
          secs 60 \<le> bw_min_spacing bw \<and>
          bw_whole_test_timeout bw + bw_shutdown_margin bw \<le> bw_min_spacing bw \<and>
          bw_daily_max bw * (bw_min_spacing bw div ns_per_sec) \<le> 86400) \<and>
     (bw_automatic_enabled bw \<longrightarrow> 0 < bw_daily_max bw \<and>
        (case bw_provider bw of MlabProvider m \<Rightarrow> ml_policy_accepted m | DirectProvider d \<Rightarrow> True))"

definition bandwidth_ok :: "'u bandwidth_config \<Rightarrow> bool" where
  "bandwidth_ok bw \<longleftrightarrow>
     limits_ok bw \<and> trigger_ok (bw_trigger bw) \<and> cooldown_ok (bw_cooldown bw) \<and> bw_provider_id bw \<noteq> []"

text \<open>A SHA-256 digest has 32 bytes.\<close>

definition sha_ok :: "'u config_env \<Rightarrow> bool" where
  "sha_ok E \<longleftrightarrow> (\<forall>s. length (ce_sha256 E s) = 32)"

lemma provider_id_nonempty:
  assumes "sha_ok E" shows "provider_id E s \<noteq> []"
proof -
  have "length (ce_sha256 E s) = 32" using assms by (simp add: sha_ok_def)
  then obtain b bs where "ce_sha256 E s = b # bs" by (cases "ce_sha256 E s") auto
  then show ?thesis by (simp add: provider_id_def byte_hex_def)
qed

lemma check_direct_spacing_Inr:
  assumes "check_direct_spacing E n spacing timeout margin = Inr ()"
  shows "secs 60 \<le> spacing \<and> timeout + margin \<le> spacing \<and> n * (spacing div ns_per_sec) \<le> 86400"
proof -
  have c: "secs 60 \<le> spacing \<and> timeout + margin \<le> spacing \<and> n \<le> 86400 div (spacing div ns_per_sec)"
    using assms by (auto simp: check_direct_spacing_def duration_checked_add_def checked_add_def Let_def
        split: if_splits option.splits)
  have "n * (spacing div ns_per_sec) \<le> 86400 div (spacing div ns_per_sec) * (spacing div ns_per_sec)"
    using c by (intro mult_right_mono) simp_all
  also have "\<dots> \<le> 86400" by (rule div_times_less_eq_dividend)
  finally show ?thesis using c by simp
qed

lemma resolve_bandwidth_ok:
  assumes "sha_ok E" "resolve_bandwidth E c f ctx = Inr bw"
  shows "bandwidth_ok bw" "bw_force_limits bw = o_force (cli_options c)"
  using assms(2)
  by (auto simp: resolve_bandwidth_def Let_def res_bind_Inr resolve_provider_def bandwidth_ok_def limits_ok_def
      provider_id_nonempty [OF assms(1)] direct_provider_id_def
      split: if_splits provider_kind.splits prod.splits
      dest!: resolve_trigger_ok resolve_cooldown_ok check_direct_spacing_Inr parse_duration_Inr)

subsection \<open>The whole configuration\<close>

definition config_ok :: "'u resolved_config \<Rightarrow> bool" where
  "config_ok rc \<longleftrightarrow>
     bandwidth_ok (rc_bandwidth rc) \<and>
     list_all (\<lambda>i. \<not> trimmed_empty i) (rc_interfaces rc) \<and> distinct (rc_interfaces rc) \<and>
     pc_targets (rc_ping rc) \<noteq> [] \<and> distinct (pc_targets (rc_ping rc)) \<and>
     0 < pc_interval (rc_ping rc) \<and> 0 < pc_timeout (rc_ping rc) \<and> 0 < rc_shutdown_grace rc \<and>
     (case rc_rotate_max_bytes rc of None \<Rightarrow> True | Some n \<Rightarrow> 0 < n \<and> output_rotates (rc_output rc)) \<and>
     rc_console rc \<noteq> CmAuto \<and>
     (rc_no_bandwidth rc \<longrightarrow> \<not> bw_automatic_enabled (rc_bandwidth rc)) \<and>
     (bw_force_limits (rc_bandwidth rc) \<longrightarrow> rc_command rc = CkOnceBandwidth) \<and>
     \<not> policy_missing (rc_command rc) (bw_provider (rc_bandwidth rc))"

lemma check_rotation_Inr:
  "check_rotation limit out = Inr () \<longleftrightarrow>
   (case limit of None \<Rightarrow> True | Some n \<Rightarrow> 0 < n \<and> output_rotates out)"
  by (auto simp: check_rotation_def split: option.splits)

lemma resolve_ping_ok:
  "resolve_ping E opts f = Inr p \<Longrightarrow>
   pc_targets p \<noteq> [] \<and> distinct (pc_targets p) \<and> 0 < pc_interval p \<and> 0 < pc_timeout p"
  by (auto simp: resolve_ping_def Let_def res_bind_Inr check_targets_Inr try_map_Inr
      split: if_splits dest!: parse_duration_Inr)

lemma resolve_console_not_auto: "resolve_console m t c \<noteq> CmAuto"
  by (simp add: resolve_console_def Let_def)

lemma bandwidth_ok_disabled: "bandwidth_ok bw \<Longrightarrow> bandwidth_ok (bw \<lparr> bw_automatic_enabled := False \<rparr>)"
  by (cases "bw_provider bw") (simp_all add: bandwidth_ok_def limits_ok_def)

lemma bandwidth_ok_policy: "bandwidth_ok bw \<Longrightarrow> policy_ok (policy_from bw)"
  by (auto simp: bandwidth_ok_def limits_ok_def policy_ok_def policy_from_def duration_millis_def secs_def
      split: provider_config.splits)

text \<open>The parts of a successful resolution.\<close>

lemma Inr_unit: "Inr (u::unit) = Inr ()"
  by simp

lemma resolve_Inr:
  assumes "resolve E c ctx = Inr rc"
  shows "\<exists>f bw. load_file E (o_config (cli_options c)) = Inr f \<and>
    resolve_bandwidth E c (unwrap_or (fc_bandwidth f) file_bandwidth_default) ctx = Inr bw \<and>
    rc_bandwidth rc = (if o_no_bandwidth (cli_options c) then bw \<lparr> bw_automatic_enabled := False \<rparr> else bw) \<and>
    \<not> (o_force (cli_options c) \<and> cli_command_kind c \<noteq> CkOnceBandwidth) \<and>
    \<not> policy_missing (cli_command_kind c) (bw_provider bw) \<and>
    validate_interfaces (rc_interfaces rc) = Inr () \<and>
    resolve_ping E (cli_options c) (unwrap_or (fc_ping f)
          \<lparr> fp_targets = None, fp_interval = None, fp_timeout = None \<rparr>) = Inr (rc_ping rc) \<and>
    resolve_output (o_output (cli_options c)) (o_output_dir (cli_options c)) (fc_output f) (fc_output_dir f)
      ctx (cli_command_kind c) = Inr (rc_output rc) \<and>
    check_rotation (rc_rotate_max_bytes rc) (rc_output rc) = Inr () \<and>
    0 < rc_shutdown_grace rc \<and> rc_command rc = cli_command_kind c \<and>
    rc_no_bandwidth rc = o_no_bandwidth (cli_options c) \<and>
    rc_console rc = resolve_console (or_else (o_console (cli_options c)) (fc_console f))
      (cx_stdout_is_terminal ctx) (cli_command_kind c) \<and>
    rc_state_file rc = make_absolute (unwrap_or (or_else (o_state_file (cli_options c)) (fc_state_file f))
       (path_join (cx_state_dir ctx) ''scheduler.json'')) (cx_current_dir ctx)"
  using assms unfolding resolve_def Let_def res_bind_Inr if_Inl_Inr
  apply (elim exE conjE)
  apply (rule exI, rule exI, rule conjI, assumption, rule conjI, assumption)
  apply (simp only: sum.inject, hypsubst)
  apply (simp only: resolved_config.simps)
  apply (intro conjI)
  apply (assumption | rule refl not_False_eq_True [THEN iffD2] Inr_unit | erule parse_duration_Inr | erule unit_Inr | simp only: simp_thms)+
  done

lemma resolve_config_ok:
  assumes "sha_ok E" "resolve E c ctx = Inr rc" shows "config_ok rc"
  using resolve_Inr [OF assms(2)]
proof (elim exE conjE)
  fix f bw
  assume bw: "resolve_bandwidth E c (unwrap_or (fc_bandwidth f) file_bandwidth_default) ctx = Inr bw"
    "rc_bandwidth rc = (if o_no_bandwidth (cli_options c) then bw \<lparr> bw_automatic_enabled := False \<rparr> else bw)"
    and r: "\<not> (o_force (cli_options c) \<and> cli_command_kind c \<noteq> CkOnceBandwidth)"
    "\<not> policy_missing (cli_command_kind c) (bw_provider bw)" "validate_interfaces (rc_interfaces rc) = Inr ()"
    "resolve_ping E (cli_options c) (unwrap_or (fc_ping f)
          \<lparr> fp_targets = None, fp_interval = None, fp_timeout = None \<rparr>) = Inr (rc_ping rc)"
    "check_rotation (rc_rotate_max_bytes rc) (rc_output rc) = Inr ()"
    "0 < rc_shutdown_grace rc" "rc_command rc = cli_command_kind c"
    "rc_no_bandwidth rc = o_no_bandwidth (cli_options c)"
    and con: "rc_console rc = resolve_console (or_else (o_console (cli_options c)) (fc_console f))
      (cx_stdout_is_terminal ctx) (cli_command_kind c)"
  note ok = resolve_bandwidth_ok [OF assms(1) bw(1)]
  have "rc_console rc \<noteq> CmAuto" unfolding con by (rule resolve_console_not_auto)
  then show "config_ok rc"
    using r ok bandwidth_ok_disabled [OF ok(1)] resolve_ping_ok [OF r(4)] bw(2)
    by (auto simp: config_ok_def validate_interfaces_Inr check_rotation_Inr)
qed

subsection \<open>Direct endpoints\<close>

text \<open>\<open>Url::set_path\<close> changes the path only.\<close>

definition url_laws :: "'u config_env \<Rightarrow> bool" where
  "url_laws E \<longleftrightarrow>
     (\<forall>p u. url_scheme (ce_url E) (url_set_path (ce_url E) p u) = url_scheme (ce_url E) u \<and>
            url_host (ce_url E) (url_set_path (ce_url E) p u) = url_host (ce_url E) u \<and>
            url_username (ce_url E) (url_set_path (ce_url E) p u) = url_username (ce_url E) u \<and>
            url_password (ce_url E) (url_set_path (ce_url E) p u) = url_password (ce_url E) u)"

definition endpoint_ok :: "'u config_env \<Rightarrow> bool \<Rightarrow> 'u \<Rightarrow> bool" where
  "endpoint_ok E allow_insecure u \<longleftrightarrow>
     url_host (ce_url E) u \<noteq> None \<and> url_username (ce_url E) u = [] \<and> url_password (ce_url E) u = None \<and>
     (url_scheme (ce_url E) u = ''ws'' \<longrightarrow> allow_insecure)"

lemma direct_target_urls_Inr:
  "url_laws E \<Longrightarrow> direct_target_urls E t = Inr (d, u) \<Longrightarrow>
   url_host (ce_url E) d \<noteq> None \<and> url_username (ce_url E) d = [] \<and> url_password (ce_url E) d = None \<and>
   url_host (ce_url E) u \<noteq> None \<and> url_username (ce_url E) u = [] \<and> url_password (ce_url E) u = None"
  by (auto simp: direct_target_urls_def url_laws_def Let_def split: if_splits option.splits)

lemma parse_ndt_url_Inr:
  "parse_ndt_url E name v a = Inr u \<Longrightarrow> endpoint_ok E a u \<and> url_scheme (ce_url E) u \<in> {''ws'', ''wss''}"
  by (auto simp: parse_ndt_url_def endpoint_ok_def split: if_splits option.splits)

definition direct_ok :: "'u config_env \<Rightarrow> 'u direct_config \<Rightarrow> bool" where
  "direct_ok E d \<longleftrightarrow>
     endpoint_ok E (dc_allow_insecure d) (dc_download_url d) \<and>
     endpoint_ok E (dc_allow_insecure d) (dc_upload_url d) \<and>
     (dc_tls_server_name d \<noteq> None \<or> dc_ca_cert d \<noteq> None \<longrightarrow>
        url_scheme (ce_url E) (dc_download_url d) = ''wss'' \<or> url_scheme (ce_url E) (dc_upload_url d) = ''wss'') \<and>
     (case dc_tls_server_name d of None \<Rightarrow> True | Some n \<Rightarrow> valid_dns_name n)"

lemma direct_urls_Inr:
  assumes "url_laws E" "direct_urls E t dl ul a = Inr (d, u)"
  shows "url_host (ce_url E) d \<noteq> None \<and> url_username (ce_url E) d = [] \<and> url_password (ce_url E) d = None \<and>
   url_host (ce_url E) u \<noteq> None \<and> url_username (ce_url E) u = [] \<and> url_password (ce_url E) u = None"
proof (cases t)
  case None
  then show ?thesis
    using assms(2) by (auto simp: direct_urls_def res_bind_Inr endpoint_ok_def dest!: parse_ndt_url_Inr)
next
  case (Some raw)
  then show ?thesis using assms(2) direct_target_urls_Inr [OF assms(1)] by (simp add: direct_urls_def)
qed

lemma resolve_direct_Inr:
  assumes "resolve_direct E c f ctx = Inr d"
  shows "\<exists>t dl ul. direct_urls E t dl ul (dc_allow_insecure d) = Inr (dc_download_url d, dc_upload_url d) \<and>
    (url_scheme (ce_url E) (dc_download_url d) = ''ws'' \<or> url_scheme (ce_url E) (dc_upload_url d) = ''ws'' \<longrightarrow>
       dc_allow_insecure d) \<and>
    (dc_tls_server_name d \<noteq> None \<longrightarrow> valid_dns_name (the (dc_tls_server_name d))) \<and>
    (dc_tls_server_name d \<noteq> None \<or> dc_ca_cert d \<noteq> None \<longrightarrow>
        url_scheme (ce_url E) (dc_download_url d) = ''wss'' \<or> url_scheme (ce_url E) (dc_upload_url d) = ''wss'')"
  using assms unfolding resolve_direct_def Let_def res_bind_Inr if_Inl_Inr
  apply (elim exE conjE)
  apply (case_tac x)
  apply (simp only: prod.case if_Inl_Inr)
  apply (elim conjE)
  apply (simp only: sum.inject)
  apply hypsubst
  apply (simp only: direct_config.simps)
  apply (rule exI, rule exI, rule exI, rule conjI, assumption)
  apply (intro conjI impI)
  apply (blast | force)+
  done

lemma resolve_direct_ok:
  assumes "url_laws E" "resolve_direct E c f ctx = Inr d"
  shows "direct_ok E d"
proof -
  from resolve_direct_Inr [OF assms(2)] obtain t dl ul where
    r: "direct_urls E t dl ul (dc_allow_insecure d) = Inr (dc_download_url d, dc_upload_url d)"
    "url_scheme (ce_url E) (dc_download_url d) = ''ws'' \<or> url_scheme (ce_url E) (dc_upload_url d) = ''ws'' \<longrightarrow>
       dc_allow_insecure d"
    "dc_tls_server_name d \<noteq> None \<longrightarrow> valid_dns_name (the (dc_tls_server_name d))"
    "dc_tls_server_name d \<noteq> None \<or> dc_ca_cert d \<noteq> None \<longrightarrow>
        url_scheme (ce_url E) (dc_download_url d) = ''wss'' \<or> url_scheme (ce_url E) (dc_upload_url d) = ''wss''"
    by blast
  then show ?thesis
    using direct_urls_Inr [OF assms(1) r(1)]
    by (cases "dc_tls_server_name d") (simp_all add: direct_ok_def endpoint_ok_def)
qed

lemma resolve_bandwidth_direct:
  assumes "resolve_bandwidth E c f ctx = Inr bw" "bw_provider bw = DirectProvider d"
  shows "\<exists>f'. resolve_direct E c f' ctx = Inr d \<and> bw_provider_id bw = direct_provider_id E d"
  using assms
  by (auto simp: resolve_bandwidth_def Let_def res_bind_Inr resolve_provider_def
      split: if_splits provider_kind.splits prod.splits)

end
