(* ===== verification/ConfigRules.thy ===== *)
theory ConfigRules
  imports ConfigProps
begin

text \<open>
  The properties of the resolved configuration: its soundness for the components built from
  it, the direct endpoints, DNS names, the identity of a direct provider, absolute paths and
  the reading of printed ping targets. A small environment with URLs of three parts serves
  the concrete instances.
\<close>

subsection \<open>Soundness\<close>

text \<open>
  C28. A configuration that resolves is sound: every limit, threshold, window and duration is
  in the range the monitor and the scheduler rely on (\<open>config_ok\<close>), automatic tests are only
  enabled with a positive daily maximum and an accepted policy, forced runs only exist for the
  one-shot command, and the scheduler policy taken from it is well formed. The digest of the
  \<open>sha2\<close> crate is assumed to have 32 bytes.
\<close>

theorem resolved_config_sound:
  assumes "sha_ok E" "resolve E c ctx = Inr rc"
  shows "config_ok rc \<and> policy_ok (policy_from (rc_bandwidth rc))"
  using resolve_config_ok [OF assms] bandwidth_ok_policy by (auto simp: config_ok_def)


subsection \<open>DNS names\<close>

lemma join_snoc: "ws \<noteq> [] \<Longrightarrow> join_with sep (ws @ [w]) = join_with sep ws @ sep @ w"
  by (induction sep ws rule: join_with.induct) auto

lemma split_join:
  "ws \<noteq> [] \<Longrightarrow> list_all (\<lambda>w. sep \<notin> set w) ws \<Longrightarrow> split_char sep (join_with [sep] ws) = ws"
  by (induction "[sep]" ws rule: join_with.induct) (auto simp: split_char_append split_char_whole)

lemma join_last:
  "ws \<noteq> [] \<Longrightarrow> last ws \<noteq> [] \<Longrightarrow> join_with sep ws \<noteq> [] \<and> last (join_with sep ws) = last (last ws)"
  by (induction sep ws rule: join_with.induct) auto

lemma dropWhile_replicate: "dropWhile (\<lambda>c. c = x) (replicate k x @ ys) = dropWhile (\<lambda>c. c = x) ys"
  by (induction k) auto

lemma trim_end_replicate:
  "s = [] \<or> last s \<noteq> sep \<Longrightarrow> trim_end_matches sep (s @ replicate k sep) = s"
  by (cases s rule: rev_cases) (auto simp: trim_end_matches_def dropWhile_replicate)

lemma trim_end_decompose: "\<exists>k. s = trim_end_matches sep s @ replicate k sep"
proof -
  have "\<exists>k. r = replicate k sep @ dropWhile (\<lambda>c. c = sep) r" for r
  proof (induction r)
    case (Cons a r)
    then obtain k where k: "r = replicate k sep @ dropWhile (\<lambda>c. c = sep) r" by blast
    show ?case
    proof (cases "a = sep")
      case True
      then have "a # r = replicate (Suc k) sep @ dropWhile (\<lambda>c. c = sep) (a # r)" using k by simp
      then show ?thesis by blast
    next
      case False
      then have "a # r = replicate 0 sep @ dropWhile (\<lambda>c. c = sep) (a # r)" by simp
      then show ?thesis by blast
    qed
  qed simp
  then obtain k where "rev s = replicate k sep @ dropWhile (\<lambda>c. c = sep) (rev s)" by blast
  then have "rev (rev s) = trim_end_matches sep s @ replicate k sep"
    unfolding trim_end_matches_def by (metis rev_append rev_replicate)
  then show ?thesis by auto
qed

lemma label_no_dot: "valid_dns_label w \<Longrightarrow> CHR ''.'' \<notin> set w"
  by (auto simp: valid_dns_label_def list_all_iff is_ascii_alphanumeric_def code_def Let_def)

text \<open>
  A name is accepted as TLS server name exactly when it has at most 253 bytes, is no IP
  address, and consists of labels of 1 to 63 letters, digits and inner hyphens joined by single
  dots, followed by any number of dots.
\<close>

theorem valid_dns_name_iff:
  "valid_dns_name name \<longleftrightarrow>
     length name \<le> 253 \<and> parse_ip name = None \<and>
     (\<exists>labels k. labels \<noteq> [] \<and> list_all valid_dns_label labels \<and>
        name = join_with ''.'' labels @ replicate k (CHR ''.''))"
proof
  assume v: "valid_dns_name name"
  let ?t = "trim_end_matches (CHR ''.'') name"
  obtain k where k: "name = ?t @ replicate k (CHR ''.'')" using trim_end_decompose by blast
  have "list_all valid_dns_label (split_char (CHR ''.'') ?t)" "length name \<le> 253" "parse_ip name = None"
    using v by (auto simp: valid_dns_name_def split: if_splits)
  moreover have "name = join_with ''.'' (split_char (CHR ''.'') ?t) @ replicate k (CHR ''.'')"
    using k by (simp add: split_char_join)
  ultimately show "length name \<le> 253 \<and> parse_ip name = None \<and>
     (\<exists>labels k. labels \<noteq> [] \<and> list_all valid_dns_label labels \<and>
        name = join_with ''.'' labels @ replicate k (CHR ''.''))"
    using split_char_not_Nil by blast
next
  assume r: "length name \<le> 253 \<and> parse_ip name = None \<and>
     (\<exists>labels k. labels \<noteq> [] \<and> list_all valid_dns_label labels \<and>
        name = join_with ''.'' labels @ replicate k (CHR ''.''))"
  then obtain labels k where ls: "labels \<noteq> []" "list_all valid_dns_label labels"
    and name: "name = join_with ''.'' labels @ replicate k (CHR ''.'')" by blast
  have last: "valid_dns_label (last labels)" using ls by (simp add: list_all_iff)
  then have ne: "last labels \<noteq> []" by (simp add: valid_dns_label_def)
  have "last (last labels) \<noteq> CHR ''.''" using label_no_dot [OF last] ne by (metis last_in_set)
  then have "trim_end_matches (CHR ''.'') name = join_with ''.'' labels"
    unfolding name using join_last [OF ls(1) ne, of "''.''"] by (intro trim_end_replicate) simp
  moreover have "split_char (CHR ''.'') (join_with ''.'' labels) = labels"
    using ls label_no_dot by (intro split_join) (auto simp: list_all_iff)
  ultimately show "valid_dns_name name"
    using r ls join_last [OF ls(1) ne, of "''.''"] by (simp add: valid_dns_name_def name)
qed

subsection \<open>Identity of a direct provider\<close>

lemma split_first: "c \<notin> set x \<Longrightarrow> c \<notin> set y \<Longrightarrow> x @ c # s = y @ c # t \<longleftrightarrow> x = y \<and> s = t"
  by (induction x arbitrary: y) (case_tac y; auto)+

lemma split_absent: "c \<notin> set y \<Longrightarrow> x @ c # s \<noteq> y"
  by auto

text \<open>
  Two direct configurations feed the hash the same text exactly when their download
  endpoints, their upload endpoints and their lower-cased server names agree, so that the limits
  of one provider are shared by exactly the configurations that reach the same server the same
  way. The URL library never yields a line feed inside a component.
\<close>

theorem direct_identity_injective:
  assumes "\<And>u. CHR 0x0A \<notin> set (endpoint_identity E u)"
  shows "direct_identity E a = direct_identity E b \<longleftrightarrow>
    endpoint_identity E (dc_download_url a) = endpoint_identity E (dc_download_url b) \<and>
    endpoint_identity E (dc_upload_url a) = endpoint_identity E (dc_upload_url b) \<and>
    map_option (map to_ascii_lowercase) (dc_tls_server_name a) =
      map_option (map to_ascii_lowercase) (dc_tls_server_name b)"
  by (cases "dc_tls_server_name a"; cases "dc_tls_server_name b")
    (auto simp: direct_identity_def split_first assms split_absent split_absent [THEN not_sym])

subsection \<open>Paths\<close>

lemma make_absolute_absolute: "path_is_absolute dir \<Longrightarrow> path_is_absolute (make_absolute p dir)"
  by (simp add: make_absolute_def path_join_absolute)

definition output_path :: "output_target \<Rightarrow> path" where
  "output_path t =
     (case t of OtFile p \<Rightarrow> p | OtDirectory p \<Rightarrow> p | OtAutomaticFile p \<Rightarrow> p | OtAutomaticDirectory p \<Rightarrow> p)"

lemma resolve_output_absolute:
  "path_is_absolute (cx_current_dir ctx) \<Longrightarrow> resolve_output a b c d ctx command = Inr out \<Longrightarrow>
   path_is_absolute (output_path out)"
  by (auto simp: resolve_output_def output_path_def make_absolute_absolute path_join_absolute Let_def
      split: if_splits option.splits)

text \<open>
  With an absolute working directory the journal path and the state file of every resolved
  configuration are absolute, whether they come from the command line, the file or the defaults.
\<close>

theorem resolved_paths_absolute:
  assumes "path_is_absolute (cx_current_dir ctx)" "resolve E c ctx = Inr rc"
  shows "path_is_absolute (output_path (rc_output rc)) \<and> path_is_absolute (rc_state_file rc)"
  using resolve_Inr [OF assms(2)] resolve_output_absolute [OF assms(1)] make_absolute_absolute [OF assms(1)]
  by (elim exE conjE) metis

subsection \<open>Ping targets\<close>

lemma nat_text_no: "\<not> is_ascii_digit c \<Longrightarrow> c \<notin> set (nat_text n)"
  using nat_text_digits by blast

lemma ipv4_text_no_comma: "CHR '','' \<notin> set (ip_text (IPv4 w))"
proof -
  have "\<not> is_ascii_digit (CHR '','')" by (simp add: is_ascii_digit_def code_def)
  then show ?thesis by (simp add: ip_text_def ipv4_text_def octets_def nat_text_no)
qed

text \<open>
  The \<open>ping.targets\<close> line of the summary can be read back: its pieces between the commas,
  given as targets, are accepted and are the same IPv4 addresses in the same order.
\<close>

theorem ping_targets_roundtrip:
  assumes "ws \<noteq> []"
  shows "try_map parse_target (split_char (CHR '','') (join_with '','' (map (\<lambda>w. ip_text (IPv4 w)) ws))) =
    Inr (map IPv4 ws)"
proof -
  have "split_char (CHR '','') (join_with '','' (map (\<lambda>w. ip_text (IPv4 w)) ws)) =
      map (\<lambda>w. ip_text (IPv4 w)) ws"
    using assms by (intro split_join) (auto simp: list_all_iff ipv4_text_no_comma)
  then show ?thesis
    by (simp add: try_map_Inr list_all2_conv_all_nth parse_target_def parse_ipv4_text)
qed

subsection \<open>Concrete instances\<close>

text \<open>URLs as scheme, host and path.\<close>

type_synonym demo_url = "string \<times> string \<times> string"

definition demo_split :: "string \<Rightarrow> string \<Rightarrow> demo_url option" where
  "demo_split scheme rest =
     Some (scheme, takeWhile (\<lambda>c. c \<noteq> CHR ''/'') rest, dropWhile (\<lambda>c. c \<noteq> CHR ''/'') rest)"

definition demo_parse :: "string \<Rightarrow> demo_url option" where
  "demo_parse s =
     (if take 6 s = ''wss://'' then demo_split ''wss'' (drop 6 s)
      else if take 5 s = ''ws://'' then demo_split ''ws'' (drop 5 s)
      else if take 8 s = ''https://'' then demo_split ''https'' (drop 8 s)
      else None)"

definition demo_url :: "demo_url url_view" where
  "demo_url = \<lparr> url_parse = demo_parse, url_query = (\<lambda>u. None), url_set_username = (\<lambda>s u. u),
     url_set_password = (\<lambda>p u. u), url_set_query = (\<lambda>q u. u), url_set_fragment = (\<lambda>f u. u),
     url_to_string = (\<lambda>(s, h, p). s @ ''://'' @ h @ p), url_scheme = fst,
     url_host = (\<lambda>u. Some (filter (\<lambda>c. c \<noteq> CHR 0x0A) (fst (snd u)))), url_username = (\<lambda>u. []), url_password = (\<lambda>u. None),
     url_fragment = (\<lambda>u. None), url_path = (\<lambda>u. snd (snd u)), url_port_or_default = (\<lambda>u. Some 443),
     url_set_path = (\<lambda>p (s, h, q). (s, h, p)) \<rparr>"

definition demo_file :: file_config where
  "demo_file = file_config_default \<lparr> fc_output_dir := Some ''logs'',
     fc_bandwidth := Some (file_bandwidth_default \<lparr> fb_accept_mlab_policy := Some True \<rparr>) \<rparr>"

definition demo_direct_file :: file_config where
  "demo_direct_file = file_config_default \<lparr>
     fc_bandwidth := Some (file_bandwidth_default \<lparr> fb_provider := Some PkDirect, fb_daily_max := Some 24,
       fb_direct := Some (file_direct_default \<lparr> fd_target := Some ''ndt.example'' \<rparr>) \<rparr>) \<rparr>"

definition demo_env :: "file_config \<Rightarrow> demo_url config_env" where
  "demo_env f = \<lparr> ce_url = demo_url, ce_read_file = (\<lambda>p. Inr []), ce_toml = (\<lambda>s. Inr f),
     ce_parse_duration = (\<lambda>s. case map_of [(''5s'', secs 5), (''2s'', secs 2), (''30s'', secs 30),
        (''36m'', secs 2160), (''55s'', secs 55), (''15s'', secs 15), (''30m'', secs 1800),
        (''60s'', secs 60), (''16m'', secs 960)] s of Some d \<Rightarrow> Inr d | None \<Rightarrow> Inl ''unknown''),
     ce_show_duration = (\<lambda>d. nat_text d @ ''ns''), ce_sha256 = (\<lambda>s. replicate 32 171),
     ce_show_f64 = (\<lambda>v. []) \<rparr>"

definition demo_options :: cli_options where
  "demo_options = \<lparr> o_config = Some ''/etc/netband.toml'', o_console = None, o_interfaces = [''eth0''],
     o_ping_targets = [], o_ping_interval = None, o_ping_timeout = None, o_no_bandwidth = False,
     o_force = False, o_output = None, o_output_dir = None, o_rotate_max_bytes = None,
     o_state_file = None, o_shutdown_grace = None, o_verbosity = None, o_ndt_provider = None,
     o_mlab_locate_url = None, o_ndt_target = None, o_ndt_download_url = None,
     o_ndt_upload_url = None, o_ndt_tls_server_name = None, o_ndt_ca_cert = None,
     o_allow_insecure_ndt = False, o_bandwidth_daily_max = None, o_bandwidth_min_spacing = None,
     o_bandwidth_slot_jitter_pct = None, o_bandwidth_timeout = None, o_bandwidth_shutdown_margin = None,
     o_loss_window_rounds = None, o_loss_min_samples = None, o_loss_threshold_pct = None,
     o_rtt_threshold_ms = None, o_recovery_loss_pct = None, o_recovery_rounds = None,
     o_pending_trigger_ttl = None, o_cooldown_initial = None, o_cooldown_max = None,
     o_accept_mlab_policy = False \<rparr>"

definition demo_cli :: cli where
  "demo_cli = \<lparr> cli_options = demo_options, cli_command = CmdRun \<rparr>"

definition demo_context :: resolve_context where
  "demo_context = \<lparr> cx_stdout_is_terminal = False, cx_current_dir = ''/srv'', cx_data_dir = ''/var/lib'',
     cx_state_dir = ''/var/state'' \<rparr>"

lemma demo_laws: "url_laws (demo_env f)" "sha_ok (demo_env f)"
  by (auto simp: url_laws_def sha_ok_def demo_env_def demo_url_def)

lemma digit_chars:
  "digit_char (Suc 0) = CHR ''1''" "digit_char 8 = CHR ''8''" "digit_char 9 = CHR ''9''"
  by code_simp+

lemma demo_ips:
  "parse_ip ''1.1.1.1'' = Some (IPv4 16843009)" "parse_ip ''8.8.8.8'' = Some (IPv4 134744072)"
  "parse_ip ''9.9.9.9'' = Some (IPv4 151587081)"
  using parse_ipv4_text [of 16843009] parse_ipv4_text [of 134744072] parse_ipv4_text [of 151587081]
  by (simp_all add: ip_text_def ipv4_text_def octets_def nat_text.simps digit_chars)

lemmas demo_config_defs = demo_env_def demo_cli_def demo_options_def demo_file_def demo_direct_file_def
  file_bandwidth_default_def file_config_default_def demo_context_def unwrap_or_def or_else_def
  parse_duration_def secs_def

lemma demo_ping:
  "resolve_ping (demo_env f) demo_options \<lparr> fp_targets = None, fp_interval = None, fp_timeout = None \<rparr> =
   Inr \<lparr> pc_targets = [IPv4 16843009, IPv4 134744072, IPv4 151587081],
         pc_interval = secs 5, pc_timeout = secs 2 \<rparr>"
  by (simp add: resolve_ping_def demo_config_defs default_targets_def parse_target_def demo_ips)

lemma demo_trigger:
  "resolve_trigger (demo_env f) demo_options file_trigger_default =
   Inr \<lparr> tc_window_rounds = 6, tc_min_samples = 6, tc_loss_threshold_pct = Fin 50,
         tc_rtt_threshold_ms = None, tc_recovery_loss_pct = Fin 10, tc_recovery_rounds = 3,
         tc_pending_ttl = secs 1800 \<rparr>"
  by (simp add: resolve_trigger_def demo_config_defs positive_u32_def percentage_def is_finite_def f_ge_def
      optional_positive_f64_def file_trigger_default_def)

lemma demo_cooldown:
  "resolve_cooldown (demo_env f) demo_options \<lparr> fcd_initial = None, fcd_max = None \<rparr> =
   Inr \<lparr> cd_initial = secs 60, cd_max = secs 960 \<rparr>"
  by (simp add: resolve_cooldown_def demo_config_defs)

lemma demo_locate:
  "parse_http_url (demo_env f) name default_locate_url =
   Inr (''https'', ''locate.measurementlab.net'', ''/v2/nearest/ndt/ndt7'')"
  by (simp add: parse_http_url_def demo_env_def demo_url_def demo_parse_def demo_split_def default_locate_url_def)

lemma demo_letter:
  "radix_digit 10 (CHR ''n'') = None" "radix_digit 16 (CHR ''n'') = None"
  "is_whitespace (CHR ''n'') = False"
  by code_simp+

lemma read_groups_stop:
  "radix_digit 10 c = None \<Longrightarrow> radix_digit 16 c = None \<Longrightarrow> 0 < n \<Longrightarrow>
   read_groups n 0 (c # s) = ([], False, c # s)"
  by (cases n) (simp_all add: read_separator_def read_ipv4_def read_octet_def read_number_def)

lemma demo_name:
  "parse_ip ''ndt.example'' = None" "trimmed_empty ''ndt.example'' = False"
proof -
  have "read_ipv4 ''ndt.example'' = None"
    by (simp add: read_ipv4_def read_octet_def read_number_def demo_letter)
  moreover have "read_ipv6 ''ndt.example'' = None"
    by (simp add: read_ipv6_def read_groups_stop demo_letter read_char_def)
  ultimately show "parse_ip ''ndt.example'' = None" by (simp add: parse_ip_def)
  show "trimmed_empty ''ndt.example'' = False" by (simp add: trimmed_empty_def demo_letter)
qed

lemma demo_target:
  "direct_target_urls (demo_env f) ''ndt.example'' =
   Inr ((''wss'', ''ndt.example'', ''/ndt/v7/download''), (''wss'', ''ndt.example'', ''/ndt/v7/upload''))"
  by (simp add: direct_target_urls_def demo_name demo_env_def demo_url_def
      demo_parse_def demo_split_def)

lemma demo_provider:
  "resolve_provider (demo_env f) demo_cli
     (file_bandwidth_default \<lparr> fb_accept_mlab_policy := Some True \<rparr>) demo_context PkMlab 4 (secs 2160) =
   Inr (MlabProvider \<lparr> ml_locate_url = (''https'', ''locate.measurementlab.net'', ''/v2/nearest/ndt/ndt7''),
          ml_policy_accepted = True \<rparr>, provider_id (demo_env f) ''mlab'', True)"
  by (simp add: resolve_provider_def Let_def has_direct_options_def file_direct_default_def demo_locate
      demo_cli_def demo_options_def file_bandwidth_default_def or_else_def unwrap_or_def)

lemma demo_direct:
  "resolve_direct (demo_env f) demo_cli (file_direct_default \<lparr> fd_target := Some ''ndt.example'' \<rparr>) demo_context =
   Inr \<lparr> dc_target = Some ''ndt.example'',
     dc_download_url = (''wss'', ''ndt.example'', ''/ndt/v7/download''),
     dc_upload_url = (''wss'', ''ndt.example'', ''/ndt/v7/upload''),
     dc_tls_server_name = None, dc_ca_cert = None, dc_allow_insecure = False \<rparr>"
  by (simp add: resolve_direct_def Let_def direct_urls_def file_direct_default_def demo_target
      demo_cli_def demo_options_def or_else_def unwrap_or_def)
    (simp add: demo_env_def demo_url_def)

lemma demo_durations:
  "parse_duration (demo_env f) name ''5s'' = Inr (secs 5)" "parse_duration (demo_env f) name ''2s'' = Inr (secs 2)"
  "parse_duration (demo_env f) name ''30s'' = Inr (secs 30)" "parse_duration (demo_env f) name ''36m'' = Inr (secs 2160)"
  "parse_duration (demo_env f) name ''55s'' = Inr (secs 55)" "parse_duration (demo_env f) name ''15s'' = Inr (secs 15)"
  by (simp_all add: parse_duration_def demo_env_def secs_def)

lemma demo_bandwidth:
  "resolve_bandwidth (demo_env f) demo_cli (file_bandwidth_default \<lparr> fb_accept_mlab_policy := Some True \<rparr>) demo_context =
   Inr \<lparr> bw_provider = MlabProvider \<lparr> ml_locate_url = (''https'', ''locate.measurementlab.net'', ''/v2/nearest/ndt/ndt7''),
          ml_policy_accepted = True \<rparr>, bw_provider_id = provider_id (demo_env f) ''mlab'',
       bw_automatic_enabled = True, bw_force_limits = False, bw_daily_max = 4, bw_min_spacing = secs 2160,
       bw_slot_jitter_pct = 50, bw_whole_test_timeout = secs 55, bw_shutdown_margin = secs 15,
       bw_trigger = \<lparr> tc_window_rounds = 6, tc_min_samples = 6, tc_loss_threshold_pct = Fin 50,
         tc_rtt_threshold_ms = None, tc_recovery_loss_pct = Fin 10, tc_recovery_rounds = 3,
         tc_pending_ttl = secs 1800 \<rparr>,
       bw_cooldown = \<lparr> cd_initial = secs 60, cd_max = secs 960 \<rparr> \<rparr>"
proof -
  have o: "cli_options demo_cli = demo_options" by (simp add: demo_cli_def)
  show ?thesis
    by (simp add: resolve_bandwidth_def Let_def o demo_options_def file_bandwidth_default_def or_else_def unwrap_or_def demo_durations
      demo_trigger [unfolded demo_options_def] demo_cooldown [unfolded demo_options_def] 
      demo_provider [unfolded file_bandwidth_default_def, simplified])
qed

lemma demo_direct_bandwidth:
  "\<exists>bw d. resolve_bandwidth (demo_env f) demo_cli (the (fc_bandwidth demo_direct_file)) demo_context = Inr bw \<and>
     bw_provider bw = DirectProvider d \<and> dc_download_url d = (''wss'', ''ndt.example'', ''/ndt/v7/download'')"
proof -
  have o: "cli_options demo_cli = demo_options" by (simp add: demo_cli_def)
  have cap: "check_direct_spacing (demo_env f) 24 (secs 2160) (secs 55) (secs 15) = Inr ()"
    by (simp add: check_direct_spacing_def duration_checked_add_def checked_add_def secs_def duration_max_def)
  show ?thesis
    by (simp add: resolve_bandwidth_def Let_def o demo_options_def file_bandwidth_default_def demo_direct_file_def
        file_config_default_def or_else_def unwrap_or_def demo_durations cap
        demo_trigger [unfolded demo_options_def] demo_cooldown [unfolded demo_options_def]
        resolve_provider_def demo_direct)
qed

lemma demo_resolves:
  "\<exists>rc. resolve (demo_env demo_file) demo_cli demo_context = Inr rc \<and>
     rc_output rc = OtDirectory ''/srv/logs'' \<and> bw_automatic_enabled (rc_bandwidth rc)"
proof -
  have o: "cli_options demo_cli = demo_options" "o_force demo_options = False" "o_console demo_options = None"
    "o_interfaces demo_options = [''eth0'']" "o_output demo_options = None" "o_output_dir demo_options = None"
    "o_rotate_max_bytes demo_options = None" "o_state_file demo_options = None"
    "o_shutdown_grace demo_options = None" "o_no_bandwidth demo_options = False"
    by (simp_all add: demo_cli_def demo_options_def)
  have load: "load_file (demo_env demo_file) (o_config demo_options) = Inr demo_file"
    by (simp add: load_file_def demo_env_def demo_options_def)
  have ws: "\<not> is_whitespace (CHR ''e'')" by code_simp
  have p: "cli_command_kind demo_cli = CkRun" "validate_interfaces [''eth0''] = Inr ()"
    by (simp_all add: cli_command_kind_def demo_cli_def validate_interfaces_def trimmed_empty_def ws)
  have f: "fc_console demo_file = None" "fc_interfaces demo_file = None" "fc_output demo_file = None"
    "fc_output_dir demo_file = Some ''logs''" "fc_rotate_max_bytes demo_file = None"
    "fc_state_file demo_file = None" "fc_shutdown_grace demo_file = None" "fc_ping demo_file = None"
    "fc_bandwidth demo_file = Some (file_bandwidth_default \<lparr> fb_accept_mlab_policy := Some True \<rparr>)"
    by (simp_all add: demo_file_def file_config_default_def)
  have x: "cx_current_dir demo_context = ''/srv''" by (simp add: demo_context_def)
  show ?thesis
    by (simp add: resolve_def Let_def load o p f x or_else_def unwrap_or_def demo_ping demo_bandwidth
        demo_durations check_rotation_def policy_missing_def resolve_output_def make_absolute_def path_join_def
        path_is_absolute_def)
qed

theorem resolved_config_sound_witness:
  "\<exists>rc. resolve (demo_env demo_file) demo_cli demo_context = Inr rc \<and>
     bw_automatic_enabled (rc_bandwidth rc) \<and> config_ok rc \<and> policy_ok (policy_from (rc_bandwidth rc))"
proof -
  from demo_resolves obtain rc where rc: "resolve (demo_env demo_file) demo_cli demo_context = Inr rc"
    "bw_automatic_enabled (rc_bandwidth rc)" by blast
  show ?thesis using resolved_config_sound [OF demo_laws(2) rc(1)] rc by blast
qed


theorem resolved_paths_absolute_witness:
  "\<exists>rc. resolve (demo_env demo_file) demo_cli demo_context = Inr rc \<and>
     rc_output rc = OtDirectory ''/srv/logs'' \<and> path_is_absolute (rc_state_file rc)"
proof -
  from demo_resolves obtain rc where rc: "resolve (demo_env demo_file) demo_cli demo_context = Inr rc"
    "rc_output rc = OtDirectory ''/srv/logs''" by blast
  have "path_is_absolute (cx_current_dir demo_context)" by (simp add: demo_context_def path_is_absolute_def)
  from resolved_paths_absolute [OF this rc(1)] show ?thesis using rc by blast
qed

theorem ping_targets_roundtrip_witness:
  "try_map parse_target (split_char (CHR '','') (join_with '','' [ip_text (IPv4 16843009), ip_text (IPv4 134744072)])) =
   Inr [IPv4 16843009, IPv4 134744072]"
  using ping_targets_roundtrip [of "[16843009, 134744072]"] by simp

text \<open>Two servers.\<close>

definition two_urls :: "bool config_env" where
  "two_urls =
     \<lparr> ce_url = \<lparr> url_parse = (\<lambda>s. None), url_query = (\<lambda>u. None), url_set_username = (\<lambda>s u. u),
         url_set_password = (\<lambda>p u. u), url_set_query = (\<lambda>q u. u), url_set_fragment = (\<lambda>f u. u),
         url_to_string = (\<lambda>u. []), url_scheme = (\<lambda>u. ''wss''),
         url_host = (\<lambda>u. Some (if u then ''a'' else ''b'')), url_username = (\<lambda>u. []),
         url_password = (\<lambda>u. None), url_fragment = (\<lambda>u. None), url_path = (\<lambda>u. ''/''),
         url_port_or_default = (\<lambda>u. Some 443), url_set_path = (\<lambda>p u. u) \<rparr>,
       ce_read_file = (\<lambda>p. Inr []), ce_toml = (\<lambda>s. Inl []), ce_parse_duration = (\<lambda>s. Inl []),
       ce_show_duration = (\<lambda>d. []), ce_sha256 = (\<lambda>s. replicate 32 0), ce_show_f64 = (\<lambda>v. []) \<rparr>"

definition two_direct :: "bool \<Rightarrow> string option \<Rightarrow> bool direct_config" where
  "two_direct u sni = \<lparr> dc_target = None, dc_download_url = u, dc_upload_url = True,
     dc_tls_server_name = sni, dc_ca_cert = None, dc_allow_insecure = False \<rparr>"

lemma two_identity:
  "endpoint_identity two_urls u = ''wss://'' @ (if u then ''a'' else ''b'') @ '':'' @ nat_text 443 @ ''/''"
proof -
  have "map to_ascii_lowercase ''a'' = ''a''" "map to_ascii_lowercase ''b'' = ''b''" by code_simp+
  then show ?thesis by (simp add: endpoint_identity_def two_urls_def unwrap_or_def)
qed

theorem direct_identity_injective_witness:
  "direct_identity two_urls (two_direct True (Some ''N'')) = direct_identity two_urls (two_direct True (Some ''n'')) \<and>
   direct_identity two_urls (two_direct True None) \<noteq> direct_identity two_urls (two_direct False None) \<and>
   direct_identity two_urls (two_direct True None) \<noteq> direct_identity two_urls (two_direct True (Some ''n''))"
proof -
  have digit: "\<not> is_ascii_digit (CHR 0x0A)" by (simp add: is_ascii_digit_def code_def)
  have hyp: "CHR 0x0A \<notin> set (endpoint_identity two_urls u)" for u
    using nat_text_no [OF digit] by (simp add: two_identity)
  have low: "map to_ascii_lowercase ''N'' = map to_ascii_lowercase ''n''" by code_simp
  show ?thesis
    unfolding direct_identity_injective [OF hyp] using low by (simp add: two_direct_def two_identity)
qed

end
