(* ===== verification/Provider.thy ===== *)
theory Provider
  imports SchedState Config
begin

text \<open>
  \<open>provider.rs\<close>: the measurement servers a bandwidth run may use. A direct provider names its
  server; M-Lab is asked over HTTP. The HTTP client, the JSON parser, HTTP dates, the clocks and
  the random identifiers are the parameter \<open>P\<close>.
\<close>

subsection \<open>Data\<close>

definition DOWNLOAD_KEY :: string where "DOWNLOAD_KEY = ''wss:///ndt/v7/download''"
definition UPLOAD_KEY :: string where "UPLOAD_KEY = ''wss:///ndt/v7/upload''"

record 'u endpoint_candidate =
  ec_download_url :: 'u
  ec_upload_url :: 'u
  ec_logical_server :: string
  ec_provider_id :: string
  ec_provider_kind :: provider_kind
  ec_tls_server_name :: "string option"
  ec_ca_cert :: "path option"
  ec_allow_insecure :: bool

datatype failure_disposition = ProviderWide | TryNextTarget | Terminal

record retry_after =
  ra_delay :: duration
  ra_deadline :: time

text \<open>An instant of the monotonic clock is its number of nanoseconds.\<close>

record request_failure =
  rf_elapsed :: duration
  rf_finished_monotonic :: nat
  rf_started_at_utc :: time
  rf_finished_at_utc :: time
  rf_direction :: "request_direction option"
  rf_stage :: request_stage
  rf_outcome :: outcome
  rf_error_kind :: error_kind
  rf_message :: string
  rf_server_name :: "string option"
  rf_request_url :: "string option"
  rf_local_ip :: "ip_addr option"
  rf_remote_ip :: "ip_addr option"
  rf_os_error_code :: "int option"
  rf_request_id :: request_id
  rf_http_status :: "nat option"
  rf_retry_after :: "retry_after option"
  rf_disposition :: failure_disposition

record 'u endpoint_resolution =
  er_candidates :: "'u endpoint_candidate list"
  er_failures :: "request_failure list"
  er_terminal :: "request_failure option"

record locate_result =
  lr_machine :: string
  lr_urls :: "string \<Rightarrow> string option"

subsection \<open>Third-party operations\<close>

text \<open>
  What the Locate request comes to. \<open>rs_retry_after\<close> is the first \<open>Retry-After\<close> header, with
  its text when it is visible ASCII.
\<close>

record http_response =
  rs_status :: nat
  rs_retry_after :: "string option option"
  rs_body :: "string + string"

datatype http_result =
    BuildFailed string
  | SendFailed bool string
  | Responded http_response

record 'u provider_env =
  pv_url :: "'u url_view"
  pv_ext :: ext
  pv_clock :: "nat \<Rightarrow> time \<times> nat"
  pv_can_bind :: bool
  pv_http_get :: "'u \<Rightarrow> string option \<Rightarrow> http_result"
  pv_parse_locate :: "string \<Rightarrow> string + locate_result list"
  pv_http_date :: "string \<Rightarrow> time option"

text \<open>Clock readings and identifiers are consumed one by one.\<close>

record draws =
  dr_readings :: nat
  dr_next_id :: request_id

definition read_clock :: "'u provider_env \<Rightarrow> draws \<Rightarrow> (time \<times> nat) \<times> draws" where
  "read_clock P s = (pv_clock P (dr_readings s), s \<lparr> dr_readings := dr_readings s + 1 \<rparr>)"

definition new_request_id :: "draws \<Rightarrow> request_id \<times> draws" where
  "new_request_id s = (dr_next_id s, s \<lparr> dr_next_id := dr_next_id s + 1 \<rparr>)"

subsection \<open>Failures\<close>

definition request_failure_simple ::
    "'u provider_env \<Rightarrow> request_stage \<Rightarrow> error_kind \<Rightarrow> string \<Rightarrow> string option \<Rightarrow> request_id \<Rightarrow> draws \<Rightarrow>
     request_failure \<times> draws" where
  "request_failure_simple P stage kind message url rid s =
     (let ((now, mono), s) = read_clock P s in
      (\<lparr> rf_elapsed = 0, rf_finished_monotonic = mono, rf_started_at_utc = now, rf_finished_at_utc = now,
         rf_direction = None, rf_stage = stage, rf_outcome = ErrorOutcome, rf_error_kind = kind,
         rf_message = message, rf_server_name = None, rf_request_url = url, rf_local_ip = None,
         rf_remote_ip = None, rf_os_error_code = None, rf_request_id = rid, rf_http_status = None,
         rf_retry_after = None, rf_disposition = Terminal \<rparr>, s))"

definition terminal_resolution :: "request_failure \<Rightarrow> 'u endpoint_resolution" where
  "terminal_resolution f = \<lparr> er_candidates = [], er_failures = [], er_terminal = Some f \<rparr>"

text \<open>A terminal failure with an identifier of its own.\<close>

definition locate_terminal ::
    "'u provider_env \<Rightarrow> error_kind \<Rightarrow> string \<Rightarrow> 'u \<Rightarrow> draws \<Rightarrow> 'u endpoint_resolution \<times> draws" where
  "locate_terminal P kind message url s =
     (let (rid, s) = new_request_id s;
          (f, s) = request_failure_simple P StLocate kind message (Some (url_to_string (pv_url P) url)) rid s
      in (terminal_resolution f, s))"

definition missing_url_failure ::
    "'u provider_env \<Rightarrow> string \<Rightarrow> string \<Rightarrow> request_id \<Rightarrow> 'u \<Rightarrow> draws \<Rightarrow> request_failure \<times> draws" where
  "missing_url_failure P machine key rid locate_url s =
     (let (f, s) = request_failure_simple P StLocate EkProtocol (''Locate candidate is missing '' @ key)
            (Some (url_to_string (pv_url P) locate_url)) rid s
      in (f \<lparr> rf_server_name := Some machine, rf_disposition := TryNextTarget \<rparr>, s))"

subsection \<open>Retry-After\<close>

definition str_trim :: "string \<Rightarrow> string" where
  "str_trim s = rev (dropWhile is_whitespace (rev (dropWhile is_whitespace s)))"

text \<open>\<open>str::parse::<u64>\<close> of a text that is digits only.\<close>

definition parse_u64 :: "string \<Rightarrow> nat option" where
  "parse_u64 s =
     (let v = foldl (\<lambda>n c. n * 10 + (code c - 48)) 0 s in if v \<le> u64_max then Some v else None)"

text \<open>
  \<open>chrono::Duration::from_std\<close> holds at most \<open>i64::MAX\<close> milliseconds, and
  \<open>checked_add_signed\<close> ends at the last instant of chrono.
\<close>

definition time_checked_add :: "ext \<Rightarrow> time \<Rightarrow> duration \<Rightarrow> time option" where
  "time_checked_add X t d =
     (if d \<le> 9223372036854775807 * ns_per_ms \<and> t + int d \<le> x_max_utc X then Some (t + int d) else None)"

definition parse_retry_after_value :: "'u provider_env \<Rightarrow> string \<Rightarrow> time \<Rightarrow> retry_after option" where
  "parse_retry_after_value P value received_at =
     (let value = str_trim value
      in if value \<noteq> [] \<and> list_all is_ascii_digit value
         then
           (case parse_u64 value of
              None \<Rightarrow> None
            | Some n \<Rightarrow>
                Some \<lparr> ra_delay = secs n,
                       ra_deadline = unwrap_or (time_checked_add (pv_ext P) received_at (secs n))
                         (x_max_utc (pv_ext P)) \<rparr>)
         else
           (case pv_http_date P value of
              None \<Rightarrow> None
            | Some deadline \<Rightarrow>
                Some \<lparr> ra_delay = nat (deadline - received_at), ra_deadline = deadline \<rparr>))"

definition parse_retry_after :: "'u provider_env \<Rightarrow> string option option \<Rightarrow> time \<Rightarrow> retry_after option" where
  "parse_retry_after P header received_at =
     (case header of Some (Some value) \<Rightarrow> parse_retry_after_value P value received_at | _ \<Rightarrow> None)"

subsection \<open>Locate\<close>

definition locate_status :: "nat \<Rightarrow> bool \<Rightarrow> outcome \<times> string" where
  "locate_status status has_retry =
     (if status = 204 then (NoCapacity, ''Locate returned no capacity'')
      else if status = 429 then (RateLimited, ''Locate rate limit'')
      else if status = 503 \<and> has_retry then (RateLimited, ''Locate service requested a retry delay'')
      else if status = 503 then (ErrorOutcome, ''Locate service unavailable'')
      else (ErrorOutcome, ''Locate returned an unexpected status''))"

definition retry_detail :: "bool \<Rightarrow> bool \<Rightarrow> string" where
  "retry_detail present parsed =
     (if present then (if parsed then ''Retry-After parsed'' else ''Retry-After malformed'')
      else ''Retry-After missing'')"

text \<open>One entry of the response: a candidate, or why it is none.\<close>

definition locate_candidate ::
    "'u provider_env \<Rightarrow> string \<Rightarrow> 'u \<Rightarrow> request_id \<Rightarrow> locate_result \<Rightarrow> draws \<Rightarrow>
     (request_failure + 'u endpoint_candidate) \<times> draws" where
  "locate_candidate P pid locate_url rid r s =
     (case lr_urls r DOWNLOAD_KEY of
        None \<Rightarrow> (let (f, s) = missing_url_failure P (lr_machine r) DOWNLOAD_KEY rid locate_url s in (Inl f, s))
      | Some download \<Rightarrow>
     (case lr_urls r UPLOAD_KEY of
        None \<Rightarrow> (let (f, s) = missing_url_failure P (lr_machine r) UPLOAD_KEY rid locate_url s in (Inl f, s))
      | Some upload \<Rightarrow>
          (let parsed =
             (case (url_parse (pv_url P) download, url_parse (pv_url P) upload) of
                (Some d, Some u) \<Rightarrow>
                  if url_scheme (pv_url P) d = ''wss'' \<and> url_scheme (pv_url P) u = ''wss'' then Some (d, u) else None
              | _ \<Rightarrow> None)
           in case parsed of
                None \<Rightarrow>
                  (let (f, s) = request_failure_simple P StLocate EkProtocol
                         ''Locate candidate has invalid or insecure NDT7 URLs''
                         (Some (url_to_string (pv_url P) locate_url)) rid s
                   in (Inl (f \<lparr> rf_server_name := Some (lr_machine r) \<rparr>), s))
              | Some (d, u) \<Rightarrow>
                  (Inr \<lparr> ec_download_url = d, ec_upload_url = u, ec_logical_server = lr_machine r,
                         ec_provider_id = pid, ec_provider_kind = PkMlab,
                         ec_tls_server_name = None, ec_ca_cert = None, ec_allow_insecure = False \<rparr>, s))))"

fun locate_results ::
    "'u provider_env \<Rightarrow> string \<Rightarrow> 'u \<Rightarrow> request_id \<Rightarrow> locate_result list \<Rightarrow> draws \<Rightarrow>
     (request_failure list \<times> 'u endpoint_candidate list) \<times> draws" where
  "locate_results P pid locate_url rid [] s = (([], []), s)"
| "locate_results P pid locate_url rid (r # rs) s =
     (let (e, s) = locate_candidate P pid locate_url rid r s;
          ((fs, cs), s) = locate_results P pid locate_url rid rs s
      in ((case e of Inl f \<Rightarrow> (f # fs, cs) | Inr c \<Rightarrow> (fs, c # cs)), s))"

definition parse_locate_candidates ::
    "'u provider_env \<Rightarrow> string \<Rightarrow> string \<Rightarrow> 'u \<Rightarrow> draws \<Rightarrow> 'u endpoint_resolution \<times> draws" where
  "parse_locate_candidates P body pid locate_url s =
     (case pv_parse_locate P body of
        Inl e \<Rightarrow> locate_terminal P EkProtocol (''invalid Locate response: '' @ e) locate_url s
      | Inr results \<Rightarrow>
          (let (rid, s) = new_request_id s;
               ((failures, candidates), s) = locate_results P pid locate_url rid results s
           in if candidates = []
              then
                (let (f, s) = request_failure_simple P StLocate EkProtocol
                       ''Locate returned no usable secure NDT7 targets''
                       (Some (url_to_string (pv_url P) locate_url)) rid s
                 in (\<lparr> er_candidates = [], er_failures = failures, er_terminal = Some f \<rparr>, s))
              else (\<lparr> er_candidates = candidates, er_failures = failures, er_terminal = None \<rparr>, s)))"

definition provider_resolve_direct :: "'u provider_env \<Rightarrow> string \<Rightarrow> 'u direct_config \<Rightarrow> 'u endpoint_resolution" where
  "provider_resolve_direct P pid direct =
     \<lparr> er_candidates =
         [\<lparr> ec_download_url = dc_download_url direct, ec_upload_url = dc_upload_url direct,
            ec_logical_server =
              (case dc_tls_server_name direct of
                 Some name \<Rightarrow> name
               | None \<Rightarrow> unwrap_or (url_host (pv_url P) (dc_download_url direct)) ''unknown''),
            ec_provider_id = pid, ec_provider_kind = PkDirect,
            ec_tls_server_name = dc_tls_server_name direct, ec_ca_cert = dc_ca_cert direct,
            ec_allow_insecure = dc_allow_insecure direct \<rparr>],
       er_failures = [], er_terminal = None \<rparr>"

text \<open>Platforms without \<open>SO_BINDTODEVICE\<close> cannot bind the request.\<close>

definition bind_http_interface :: "'u provider_env \<Rightarrow> string option \<Rightarrow> string + string option" where
  "bind_http_interface P interface =
     (case interface of
        None \<Rightarrow> Inr None
      | Some i \<Rightarrow> if pv_can_bind P then Inr (Some i)
                  else Inl (''binding Locate requests to interface '' @ i @ '' is unsupported''))"

definition resolve_mlab ::
    "'u provider_env \<Rightarrow> string \<Rightarrow> 'u mlab_config \<Rightarrow> string option \<Rightarrow> draws \<Rightarrow> 'u endpoint_resolution \<times> draws" where
  "resolve_mlab P pid mlab interface s =
     (let url = ml_locate_url mlab in
      case bind_http_interface P interface of Inl message \<Rightarrow> locate_terminal P EkConnect message url s | Inr bound \<Rightarrow>
      case pv_http_get P url bound of
        BuildFailed e \<Rightarrow> locate_terminal P EkConnect (''cannot configure Locate client: '' @ e) url s
      | SendFailed timeout e \<Rightarrow>
          locate_terminal P (if timeout then EkConnect else EkIo) (''Locate request failed: '' @ e) url s
      | Responded response \<Rightarrow>
          (let ((received_at, mono), s) = read_clock P s;
               retry = parse_retry_after P (rs_retry_after response) received_at
           in if rs_status response \<noteq> 200
              then
                (let (outcome, base) = locate_status (rs_status response) (retry \<noteq> None);
                     (rid, s) = new_request_id s
                 in (terminal_resolution
                       \<lparr> rf_elapsed = 0, rf_finished_monotonic = mono, rf_started_at_utc = received_at,
                         rf_finished_at_utc = received_at, rf_direction = None, rf_stage = StLocate,
                         rf_outcome = outcome, rf_error_kind = EkHttpStatus,
                         rf_message = base @ ''; '' @ retry_detail (rs_retry_after response \<noteq> None) (retry \<noteq> None),
                         rf_server_name = None, rf_request_url = Some (url_to_string (pv_url P) url),
                         rf_local_ip = None, rf_remote_ip = None, rf_os_error_code = None,
                         rf_request_id = rid, rf_http_status = Some (rs_status response),
                         rf_retry_after = retry, rf_disposition = ProviderWide \<rparr>, s))
              else
                (case rs_body response of
                   Inl e \<Rightarrow> locate_terminal P EkProtocol (''cannot read Locate response: '' @ e) url s
                 | Inr body \<Rightarrow> parse_locate_candidates P body pid url s)))"

text \<open>All failures of one resolution get its identifier, its start and the time since then.\<close>

definition stamp_failure :: "request_id \<Rightarrow> time \<Rightarrow> nat \<Rightarrow> request_failure \<Rightarrow> request_failure" where
  "stamp_failure rid started_at started_monotonic f =
     f \<lparr> rf_request_id := rid, rf_started_at_utc := started_at,
         rf_elapsed := rf_finished_monotonic f - started_monotonic \<rparr>"

definition resolve_endpoints ::
    "'u provider_env \<Rightarrow> 'u bandwidth_config \<Rightarrow> string option \<Rightarrow> draws \<Rightarrow> 'u endpoint_resolution \<times> draws" where
  "resolve_endpoints P config interface s =
     (let (rid, s) = new_request_id s;
          ((started_at, started_monotonic), s) = read_clock P s;
          (r, s) =
            (case bw_provider config of
               DirectProvider direct \<Rightarrow> (provider_resolve_direct P (bw_provider_id config) direct, s)
             | MlabProvider mlab \<Rightarrow>
                 (if ml_policy_accepted mlab
                  then resolve_mlab P (bw_provider_id config) mlab interface s
                  else locate_terminal P EkPermissionDenied
                         ''M-Lab bandwidth requires explicit policy acceptance'' (ml_locate_url mlab) s))
      in (r \<lparr> er_failures := map (stamp_failure rid started_at started_monotonic) (er_failures r),
              er_terminal := map_option (stamp_failure rid started_at started_monotonic) (er_terminal r) \<rparr>, s))"

subsection \<open>Reading \<open>Retry-After\<close>\<close>

lemma dropWhile_all: "list_all P xs \<Longrightarrow> dropWhile P (xs @ ys) = dropWhile P ys"
  by (induction xs) auto

lemma str_trim_around:
  assumes "list_all is_whitespace a" "list_all is_whitespace b" "m \<noteq> []"
    "\<not> is_whitespace (hd m)" "\<not> is_whitespace (last m)"
  shows "str_trim (a @ m @ b) = m"
proof -
  have front: "dropWhile is_whitespace (a @ m @ b) = m @ b"
    using assms(1,3,4) by (cases m) (simp_all add: dropWhile_all)
  have "dropWhile is_whitespace (rev b @ rev m) = rev m"
    using assms(2,3,5) by (cases m rule: rev_cases) (simp_all add: dropWhile_all)
  then show ?thesis unfolding str_trim_def front by simp
qed

lemma digit_not_space: "is_ascii_digit c \<Longrightarrow> \<not> is_whitespace c"
  by (auto simp: is_ascii_digit_def is_whitespace_def Let_def)

lemma foldl_digits_cong:
  "list_all is_ascii_digit s \<Longrightarrow>
   foldl (\<lambda>n c. n * 10 + (code c - 48)) v s = foldl (\<lambda>n c. n * 10 + the (radix_digit 10 c)) v s"
  by (induction s arbitrary: v) (auto simp: radix10)

lemma parse_u64_text: "parse_u64 (nat_text n) = (if n \<le> u64_max then Some n else None)"
proof -
  have "list_all is_ascii_digit (nat_text n)" using nat_text_digits by (auto simp: list_all_iff)
  then show ?thesis unfolding parse_u64_def by (simp add: foldl_digits_cong nat_text_value)
qed

text \<open>The range of chrono's timestamps, below what a \<open>TimeDelta\<close> can hold.\<close>

definition chrono_range :: "ext \<Rightarrow> bool" where
  "chrono_range X \<longleftrightarrow> x_max_utc X \<le> 9223372036854775807 * 1000000"

text \<open>
  A \<open>Retry-After\<close> of \<open>n\<close> seconds, with any white space around it, is read as exactly that
  delay with the deadline that much after the response, and as the last representable instant
  when it lies beyond it, so that no long delay lifts the provider's limit; only a number that
  does not fit 64 bits is refused.
\<close>

theorem retry_after_seconds:
  assumes "list_all is_whitespace a" "list_all is_whitespace b" "chrono_range (pv_ext P)" "0 \<le> t"
  shows "parse_retry_after_value P (a @ nat_text n @ b) t =
    (if n \<le> u64_max
     then Some \<lparr> ra_delay = secs n, ra_deadline = min (t + int (secs n)) (x_max_utc (pv_ext P)) \<rparr>
     else None)"
proof -
  have digits: "list_all is_ascii_digit (nat_text n)" using nat_text_digits by (auto simp: list_all_iff)
  have "hd (nat_text n) \<in> set (nat_text n)" "last (nat_text n) \<in> set (nat_text n)" by simp_all
  then have "\<not> is_whitespace (hd (nat_text n))" "\<not> is_whitespace (last (nat_text n))"
    using nat_text_digits digit_not_space by blast+
  then have trim: "str_trim (a @ nat_text n @ b) = nat_text n"
    using assms by (intro str_trim_around) simp_all
  have "unwrap_or (time_checked_add (pv_ext P) t (secs n)) (x_max_utc (pv_ext P)) =
      min (t + int (secs n)) (x_max_utc (pv_ext P))"
    using assms(3,4) by (auto simp: unwrap_or_def time_checked_add_def chrono_range_def min_def)
  then show ?thesis
    unfolding parse_retry_after_value_def trim Let_def using digits by (simp add: parse_u64_text)
qed

text \<open>
  Whatever the header, an accepted delay and deadline agree: the deadline is the reception
  plus the delay, or the delay was cut to zero because the deadline has passed, or the deadline
  is the last representable instant.
\<close>

theorem retry_after_consistent:
  assumes "parse_retry_after P header t = Some r"
  shows "ra_deadline r = t + int (ra_delay r) \<or> ra_delay r = 0 \<and> ra_deadline r < t \<or>
    ra_deadline r = x_max_utc (pv_ext P)"
  using assms
  by (auto simp: parse_retry_after_def parse_retry_after_value_def time_checked_add_def unwrap_or_def Let_def
      split: option.splits if_splits)

subsection \<open>Resolutions\<close>

definition secure_candidate :: "'u provider_env \<Rightarrow> string \<Rightarrow> 'u endpoint_candidate \<Rightarrow> bool" where
  "secure_candidate P pid c \<longleftrightarrow>
     url_scheme (pv_url P) (ec_download_url c) = ''wss'' \<and> url_scheme (pv_url P) (ec_upload_url c) = ''wss'' \<and>
     ec_provider_id c = pid \<and> ec_provider_kind c = PkMlab \<and> \<not> ec_allow_insecure c"

lemma locate_candidate_secure:
  "locate_candidate P pid url rid r s = (Inr c, s') \<Longrightarrow> secure_candidate P pid c"
  by (auto simp: locate_candidate_def secure_candidate_def Let_def split: option.splits prod.splits if_splits)

lemma locate_results_secure:
  "locate_results P pid url rid rs s = ((fs, cs), s') \<Longrightarrow>
   list_all (secure_candidate P pid) cs \<and> length fs + length cs = length rs"
proof (induction rs arbitrary: fs cs s s')
  case (Cons r rs)
  obtain e s1 where e: "locate_candidate P pid url rid r s = (e, s1)" by fastforce
  obtain fs1 cs1 s2 where l: "locate_results P pid url rid rs s1 = ((fs1, cs1), s2)"
    by (metis prod.collapse)
  show ?case
    using Cons.prems Cons.IH [OF l] locate_candidate_secure [of P pid url rid r s _ s1]
    by (cases e) (auto simp: e l)
qed simp

lemma locate_terminal_shape:
  "locate_terminal P kind m url s = (r, s') \<Longrightarrow> er_candidates r = [] \<and> er_failures r = [] \<and> er_terminal r \<noteq> None"
  by (auto simp: locate_terminal_def terminal_resolution_def split: prod.splits)

lemma parse_locate_shape:
  "parse_locate_candidates P body pid url s = (r, s') \<Longrightarrow>
   list_all (secure_candidate P pid) (er_candidates r) \<and> (er_terminal r = None \<longleftrightarrow> er_candidates r \<noteq> [])"
  by (auto simp: parse_locate_candidates_def Let_def split: sum.splits prod.splits if_splits
      dest!: locate_terminal_shape locate_results_secure)

lemma resolve_mlab_shape:
  assumes "resolve_mlab P pid m i s = (r, s')"
  shows "list_all (secure_candidate P pid) (er_candidates r) \<and> (er_terminal r = None \<longleftrightarrow> er_candidates r \<noteq> [])"
  using assms
  by (auto simp: resolve_mlab_def Let_def terminal_resolution_def
      split: sum.splits prod.splits if_splits http_result.splits
      dest!: locate_terminal_shape parse_locate_shape)

text \<open>
  C33. A candidate from M-Lab is only ever used with the policy accepted, over TLS in both
  directions, and under the identity the limits are kept for.
\<close>

theorem mlab_candidates_secure:
  assumes "resolve_endpoints P config i s = (r, s')" "bw_provider config = MlabProvider m" "c \<in> set (er_candidates r)"
  shows "ml_policy_accepted m \<and> secure_candidate P (bw_provider_id config) c"
  using assms
  by (auto simp: resolve_endpoints_def Let_def list_all_iff split: prod.splits if_splits
      dest!: locate_terminal_shape resolve_mlab_shape)

text \<open>
  A resolution ends in one of two ways, with candidates or with a terminal failure; every
  failure it reports carries its own fresh identifier and start.
\<close>

theorem resolution_complete:
  assumes "resolve_endpoints P config i s = (r, s')"
  shows "(er_terminal r = None \<longleftrightarrow> er_candidates r \<noteq> []) \<and>
    (\<forall>f. f \<in> set (er_failures r) \<or> er_terminal r = Some f \<longrightarrow>
       rf_request_id f = dr_next_id s \<and> rf_started_at_utc f = fst (pv_clock P (dr_readings s)))"
  using assms
  by (auto simp: resolve_endpoints_def provider_resolve_direct_def new_request_id_def read_clock_def
      stamp_failure_def Let_def split: provider_config.splits prod.splits if_splits
      dest!: locate_terminal_shape resolve_mlab_shape)


end
