(* ===== verification/ProviderDemo.thy ===== *)
theory ProviderDemo
  imports Provider ConfigRules
begin

text \<open>Concrete answers of the Locate service, on which the properties of \<open>Provider\<close> are applied.\<close>

definition demo_provider_env :: "http_result \<Rightarrow> demo_url provider_env" where
  "demo_provider_env answer =
     \<lparr> pv_url = demo_url, pv_ext = \<lparr> x_max_utc = 8210266876799 * 1000000000, x_rfc3339 = int_text \<rparr>,
       pv_clock = (\<lambda>n. (1000 + int n, n)), pv_can_bind = True, pv_http_get = (\<lambda>u i. answer),
       pv_parse_locate = (\<lambda>s. Inr
         [\<lparr> lr_machine = ''m1'', lr_urls = [DOWNLOAD_KEY \<mapsto> ''wss://a/d'', UPLOAD_KEY \<mapsto> ''wss://a/u''] \<rparr>,
          \<lparr> lr_machine = ''m2'', lr_urls = [DOWNLOAD_KEY \<mapsto> ''ws://b/d'', UPLOAD_KEY \<mapsto> ''wss://b/u''] \<rparr>]),
       pv_http_date = (\<lambda>s. if s = ''soon'' then Some 5000 else None) \<rparr>"

definition demo_mlab :: "demo_url bandwidth_config" where
  "demo_mlab =
     \<lparr> bw_provider = MlabProvider \<lparr> ml_locate_url = (''https'', ''l'', ''/''), ml_policy_accepted = True \<rparr>,
       bw_provider_id = ''p'', bw_automatic_enabled = True, bw_force_limits = False, bw_daily_max = 4,
       bw_min_spacing = secs 2160, bw_slot_jitter_pct = 50, bw_whole_test_timeout = secs 55,
       bw_shutdown_margin = secs 15,
       bw_trigger = \<lparr> tc_window_rounds = 6, tc_min_samples = 6, tc_loss_threshold_pct = Fin 50,
         tc_rtt_threshold_ms = None, tc_recovery_loss_pct = Fin 10, tc_recovery_rounds = 3,
         tc_pending_ttl = secs 1800 \<rparr>,
       bw_cooldown = \<lparr> cd_initial = secs 60, cd_max = secs 960 \<rparr> \<rparr>"

abbreviation demo_ok :: http_result where
  "demo_ok \<equiv> Responded \<lparr> rs_status = 200, rs_retry_after = None, rs_body = Inr [] \<rparr>"

abbreviation demo_busy :: http_result where
  "demo_busy \<equiv> Responded \<lparr> rs_status = 503, rs_retry_after = Some (Some ''soon''), rs_body = Inr [] \<rparr>"

abbreviation demo_draws :: draws where
  "demo_draws \<equiv> \<lparr> dr_readings = 0, dr_next_id = 7 \<rparr>"

lemma demo_soon:
  "parse_retry_after_value (demo_provider_env a) ''soon'' 1001 = Some \<lparr> ra_delay = 3999, ra_deadline = 5000 \<rparr>"
proof -
  have "str_trim ''soon'' = ''soon''" "is_ascii_digit (CHR ''s'') = False" by code_simp+
  then show ?thesis by (simp add: parse_retry_after_value_def demo_provider_env_def)
qed

lemma demo_candidates:
  "map ec_logical_server (er_candidates (fst (resolve_endpoints (demo_provider_env demo_ok) demo_mlab None demo_draws))) = [''m1''] \<and>
   map rf_server_name (er_failures (fst (resolve_endpoints (demo_provider_env demo_ok) demo_mlab None demo_draws))) = [Some ''m2'']"
  by (simp add: resolve_endpoints_def resolve_mlab_def bind_http_interface_def new_request_id_def read_clock_def
      parse_retry_after_def parse_locate_candidates_def locate_candidate_def request_failure_simple_def
      stamp_failure_def demo_provider_env_def demo_mlab_def demo_url_def demo_parse_def demo_split_def
      DOWNLOAD_KEY_def UPLOAD_KEY_def Let_def)

theorem retry_after_seconds_witness:
  "parse_retry_after_value (demo_provider_env demo_ok) ('' '' @ nat_text 60 @ []) 1000 =
     Some \<lparr> ra_delay = secs 60, ra_deadline = 1000 + int (secs 60) \<rparr>"
proof -
  have "is_whitespace (CHR '' '')" by code_simp
  then show ?thesis
    using retry_after_seconds [of "'' ''" "[]" "demo_provider_env demo_ok" 1000 60]
    by (simp add: chrono_range_def demo_provider_env_def secs_def)
qed

theorem retry_after_consistent_witness:
  "\<exists>r. parse_retry_after (demo_provider_env demo_ok) (Some (Some ''soon'')) 1001 = Some r \<and>
     ra_deadline r = 1001 + int (ra_delay r)"
proof -
  have p: "parse_retry_after (demo_provider_env demo_ok) (Some (Some ''soon'')) 1001 =
      Some \<lparr> ra_delay = 3999, ra_deadline = 5000 \<rparr>"
    by (simp add: parse_retry_after_def demo_soon)
  then show ?thesis using retry_after_consistent [OF p] by simp
qed

theorem mlab_candidates_secure_witness:
  "\<exists>r s' c. resolve_endpoints (demo_provider_env demo_ok) demo_mlab None demo_draws = (r, s') \<and>
     c \<in> set (er_candidates r) \<and> ec_logical_server c = ''m1'' \<and> secure_candidate (demo_provider_env demo_ok) ''p'' c"
proof -
  obtain r s' where r: "resolve_endpoints (demo_provider_env demo_ok) demo_mlab None demo_draws = (r, s')"
    by fastforce
  obtain c where c: "er_candidates r = [c]" "ec_logical_server c = ''m1''" using demo_candidates r by auto
  have m: "bw_provider demo_mlab = MlabProvider \<lparr> ml_locate_url = (''https'', ''l'', ''/''), ml_policy_accepted = True \<rparr>"
    by (simp add: demo_mlab_def)
  have "secure_candidate (demo_provider_env demo_ok) (bw_provider_id demo_mlab) c"
    using mlab_candidates_secure [OF r m, of c] c(1) by simp
  moreover have "bw_provider_id demo_mlab = ''p''" by (simp add: demo_mlab_def)
  ultimately show ?thesis using r c by (intro exI [of _ r] exI [of _ s'] exI [of _ c]) simp
qed

theorem resolution_complete_witness:
  "\<exists>r s' f. resolve_endpoints (demo_provider_env demo_ok) demo_mlab None demo_draws = (r, s') \<and>
     er_failures r = [f] \<and> rf_request_id f = 7 \<and> er_terminal r = None"
proof -
  obtain r s' where r: "resolve_endpoints (demo_provider_env demo_ok) demo_mlab None demo_draws = (r, s')"
    by fastforce
  obtain f where f: "er_failures r = [f]" using demo_candidates r by auto
  have "er_candidates r \<noteq> []" using demo_candidates r by auto
  then have "er_terminal r = None" using resolution_complete [OF r] by blast
  moreover have "rf_request_id f = dr_next_id demo_draws" using resolution_complete [OF r] f by (metis list.set_intros(1))
  ultimately show ?thesis using r f by simp
qed


end
