(* ===== verification/Interfaces.thy ===== *)
theory Interfaces
  imports ConfigTypes "HOL-Library.Product_Lexorder"
begin

text \<open>
  \<open>interfaces.rs\<close>: the addresses of the configured network interfaces, and the fair choice of
  the interface a scheduled bandwidth test uses. The listing of the machine's interfaces
  (\<open>if_addrs\<close>) is an argument.
\<close>

subsection \<open>The order of addresses\<close>

text \<open>\<open>IpAddr\<close> orders IPv4 before IPv6 and each by value.\<close>

fun ip_key :: "ip_addr \<Rightarrow> nat \<times> nat" where
  "ip_key (IPv4 w) = (0, unat w)"
| "ip_key (IPv6 w) = (1, unat w)"

lemma ip_key_inject [simp]: "ip_key a = ip_key b \<longleftrightarrow> a = b"
  by (cases a; cases b) (auto simp: word_unat_eq_iff)

instantiation ip_addr :: linorder
begin

definition less_eq_ip_addr :: "ip_addr \<Rightarrow> ip_addr \<Rightarrow> bool" where
  "less_eq_ip_addr a b \<longleftrightarrow> ip_key a \<le> ip_key b"

definition less_ip_addr :: "ip_addr \<Rightarrow> ip_addr \<Rightarrow> bool" where
  "less_ip_addr a b \<longleftrightarrow> ip_key a < ip_key b"

instance
  by standard (auto simp: less_eq_ip_addr_def less_ip_addr_def simp flip: ip_key_inject)

end

definition ip_is_unspecified :: "ip_addr \<Rightarrow> bool" where
  "ip_is_unspecified a = (case a of IPv4 w \<Rightarrow> w = 0 | IPv6 w \<Rightarrow> w = 0)"

subsection \<open>Configured interfaces\<close>

text \<open>What \<open>if_addrs\<close> lists: one entry per address of an interface.\<close>

record if_entry =
  if_name :: string
  if_oper_up :: bool
  if_ip :: ip_addr

record resolved_interface =
  ri_name :: string
  ri_addresses :: "ip_addr list"

datatype interface_error =
    IfInspect string
  | IfMissing string
  | IfDown string
  | IfAddressless string

definition interface_error_text :: "interface_error \<Rightarrow> string" where
  "interface_error_text e =
     (case e of
        IfInspect message \<Rightarrow> ''cannot inspect network interfaces: '' @ message
      | IfMissing name \<Rightarrow> ''network interface does not exist: '' @ name
      | IfDown name \<Rightarrow> ''network interface is not up: '' @ name
      | IfAddressless name \<Rightarrow> ''network interface has no usable source address: '' @ name)"

definition resolve_from :: "string \<Rightarrow> if_entry list \<Rightarrow> interface_error + resolved_interface" where
  "resolve_from name entries =
     (let named = filter (\<lambda>i. if_name i = name) entries
      in if named = [] then Inl (IfMissing name)
         else if \<not> list_ex if_oper_up named then Inl (IfDown name)
         else
           let addresses = remdups_adj (sort
                 (filter (\<lambda>a. \<not> ip_is_unspecified a) (map if_ip (filter if_oper_up named))))
           in if addresses = [] then Inl (IfAddressless name)
              else Inr \<lparr> ri_name = name, ri_addresses = addresses \<rparr>)"

text \<open>\<open>Iterator::collect\<close> into a \<open>Result\<close> stops at the first error.\<close>

fun resolve_all :: "string list \<Rightarrow> if_entry list \<Rightarrow> interface_error + resolved_interface list" where
  "resolve_all [] entries = Inr []"
| "resolve_all (name # names) entries =
     (case resolve_from name entries of
        Inl e \<Rightarrow> Inl e
      | Inr r \<Rightarrow>
          (case resolve_all names entries of
             Inl e \<Rightarrow> Inl e
           | Inr rs \<Rightarrow> Inr (r # rs)))"

definition resolve_configured_with ::
    "string list \<Rightarrow> (string + if_entry list) \<Rightarrow> interface_error + resolved_interface list" where
  "resolve_configured_with names inspect =
     (if names = [] then Inr []
      else case inspect of
             Inl message \<Rightarrow> Inl (IfInspect message)
           | Inr entries \<Rightarrow> resolve_all names entries)"

definition system_resolve :: "string \<Rightarrow> (string + if_entry list) \<Rightarrow> interface_error + resolved_interface" where
  "system_resolve name inspect =
     (case inspect of Inl message \<Rightarrow> Inl (IfInspect message) | Inr entries \<Rightarrow> resolve_from name entries)"

subsection \<open>Fair selection\<close>

record fairness_state =
  fs_attempts :: nat
  fs_last_turn :: "u64 option"

definition fairness_default :: fairness_state where
  "fairness_default = \<lparr> fs_attempts = 0, fs_last_turn = None \<rparr>"

record selector =
  se_order :: "string list"
  se_state :: "(string, fairness_state) btree"
  se_turn :: u64

definition selector_new :: "string list \<Rightarrow> selector" where
  "selector_new interfaces =
     \<lparr> se_order = interfaces,
       se_state = fold (\<lambda>i m. bt_insert i fairness_default m) interfaces [],
       se_turn = 0 \<rparr>"

definition select_key :: "selector \<Rightarrow> nat \<times> string \<Rightarrow> nat \<times> u64 \<times> nat" where
  "select_key s e =
     (let st = (case bt_get (se_state s) (snd e) of Some x \<Rightarrow> x | None \<Rightarrow> fairness_default)
      in (fs_attempts st, (case fs_last_turn st of Some t \<Rightarrow> t | None \<Rightarrow> 0), fst e))"

definition selector_select :: "selector \<Rightarrow> string set \<Rightarrow> string option" where
  "selector_select s eligible =
     map_option snd
       (min_by_key (select_key s) (filter (\<lambda>e. snd e \<in> eligible) (List.enumerate 0 (se_order s))))"

definition selector_record :: "string \<Rightarrow> selector \<Rightarrow> selector" where
  "selector_record i s =
     (case bt_get (se_state s) i of
        None \<Rightarrow> s
      | Some st \<Rightarrow>
          (let turn = se_turn s + 1
           in s \<lparr> se_turn := turn,
                  se_state := bt_insert i \<lparr> fs_attempts = sat_add u64_max (fs_attempts st) 1,
                                            fs_last_turn = Some turn \<rparr> (se_state s) \<rparr>))"

definition selector_attempts :: "selector \<Rightarrow> string \<Rightarrow> nat" where
  "selector_attempts s i = (case bt_get (se_state s) i of None \<Rightarrow> 0 | Some st \<Rightarrow> fs_attempts st)"

subsection \<open>Resolution\<close>

definition usable :: "string \<Rightarrow> if_entry list \<Rightarrow> ip_addr set" where
  "usable name entries =
     {if_ip i |i. i \<in> set entries \<and> if_name i = name \<and> if_oper_up i \<and> \<not> ip_is_unspecified (if_ip i)}"

lemma sorted_distinct_remdups_adj: "sorted xs \<Longrightarrow> distinct (remdups_adj xs)"
  by (induction xs rule: remdups_adj.induct) (auto simp: less_le)

lemma sort_dedup: "remdups_adj (sort xs) = sorted_list_of_set (set xs)"
  by (rule sorted_distinct_set_unique) (simp_all add: sorted_distinct_remdups_adj sorted_remdups_adj)

text \<open>
  The addresses an interface may send from are exactly the specified addresses of its
  operational entries, each once and in ascending order, whatever the order and repetition in
  which the system lists them; the error tells a missing interface from one that is down and
  from one without such an address.
\<close>

theorem resolve_from_spec:
  "resolve_from name entries =
     (if \<not> (\<exists>i \<in> set entries. if_name i = name) then Inl (IfMissing name)
      else if \<not> (\<exists>i \<in> set entries. if_name i = name \<and> if_oper_up i) then Inl (IfDown name)
      else if usable name entries = {} then Inl (IfAddressless name)
      else Inr \<lparr> ri_name = name, ri_addresses = sorted_list_of_set (usable name entries) \<rparr>)"
proof -
  have u: "set (filter (\<lambda>a. \<not> ip_is_unspecified a) (map if_ip (filter if_oper_up (filter (\<lambda>i. if_name i = name) entries))))
      = usable name entries"
    by (auto simp: usable_def)
  then have fin: "finite (usable name entries)" by (metis List.finite_set)
  show ?thesis
    unfolding resolve_from_def Let_def sort_dedup u
    using fin by (auto simp: filter_empty_conv list_ex_iff)
qed

subsection \<open>Fairness\<close>

text \<open>A scheduled turn: select among the eligible, then record the attempt.\<close>

definition selector_turn :: "string set \<Rightarrow> selector \<Rightarrow> selector" where
  "selector_turn eligible s =
     (case selector_select s eligible of None \<Rightarrow> s | Some i \<Rightarrow> selector_record i s)"

definition tracked :: "selector \<Rightarrow> bool" where
  "tracked s \<longleftrightarrow> (\<forall>i \<in> set (se_order s). bt_get (se_state s) i \<noteq> None)"

lemma enumerate_snd: "snd ` set (List.enumerate n xs) = set xs"
  by (metis list.set_map map_snd_enumerate)

lemma select_None:
  "selector_select s eligible = None \<longleftrightarrow> set (se_order s) \<inter> eligible = {}"
proof -
  have "selector_select s eligible = None \<longleftrightarrow> (\<forall>e \<in> set (List.enumerate 0 (se_order s)). snd e \<notin> eligible)"
    by (auto simp: selector_select_def filter_empty_conv)
  also have "\<dots> \<longleftrightarrow> (\<forall>i \<in> snd ` set (List.enumerate 0 (se_order s)). i \<notin> eligible)" by blast
  finally show ?thesis unfolding enumerate_snd by blast
qed

lemma select_least:
  assumes "selector_select s eligible = Some i"
  shows "i \<in> set (se_order s)" "i \<in> eligible"
    "j \<in> set (se_order s) \<Longrightarrow> j \<in> eligible \<Longrightarrow> selector_attempts s i \<le> selector_attempts s j"
proof -
  obtain n where m: "min_by_key (select_key s) (filter (\<lambda>e. snd e \<in> eligible) (List.enumerate 0 (se_order s))) = Some (n, i)"
    using assms by (auto simp: selector_select_def)
  note l = min_by_key_least [OF m]
  then have in_order: "(n, i) \<in> set (List.enumerate 0 (se_order s))" and "i \<in> eligible" by auto
  then show "i \<in> eligible" by blast
  show "i \<in> set (se_order s)" using in_order enumerate_snd by (metis imageI snd_conv)
  assume j: "j \<in> set (se_order s)" "j \<in> eligible"
  then obtain k where "(k, j) \<in> set (List.enumerate 0 (se_order s))"
    using enumerate_snd [of 0 "se_order s"] by (metis imageE prod.collapse)
  then have "select_key s (n, i) \<le> select_key s (k, j)" using l j by auto
  then show "selector_attempts s i \<le> selector_attempts s j"
    by (auto simp: select_key_def selector_attempts_def fairness_default_def Let_def less_eq_prod_def
        split: option.splits)
qed

lemma record_attempts:
  "selector_attempts (selector_record i s) j =
     (if j = i \<and> bt_get (se_state s) i \<noteq> None then sat_add u64_max (selector_attempts s j) 1 else selector_attempts s j)"
  by (auto simp: selector_attempts_def selector_record_def Let_def split: option.splits)

lemma record_frame [simp]:
  "se_order (selector_record i s) = se_order s" "tracked s \<Longrightarrow> tracked (selector_record i s)"
  by (auto simp: selector_record_def tracked_def Let_def split: option.splits)

lemma turn_frame [simp]:
  "se_order (selector_turn e s) = se_order s" "tracked s \<Longrightarrow> tracked (selector_turn e s)"
  by (auto simp: selector_turn_def split: option.splits)

lemma new_state:
  "bt_get (fold (\<lambda>i m. bt_insert i fairness_default m) is m) i =
     (if i \<in> set is then Some fairness_default else bt_get m i)"
  by (induction "is" arbitrary: m) auto

lemma tracked_new [simp]: "tracked (selector_new is)"
  by (simp add: tracked_def selector_new_def new_state)

lemma attempts_new [simp]: "selector_attempts (selector_new is) i = 0"
  by (simp add: selector_attempts_def selector_new_def new_state) (simp add: fairness_default_def)

lemma order_new [simp]: "se_order (selector_new is) = is"
  by (simp add: selector_new_def)

lemma turn_lead:
  assumes "tracked s" "i \<in> set (se_order s)" "i \<in> e"
    "\<And>j. selector_attempts s j \<le> u64_max \<and> selector_attempts s j \<le> selector_attempts s i + 1"
  shows "selector_attempts (selector_turn e s) j \<le> u64_max \<and>
    selector_attempts (selector_turn e s) j \<le> selector_attempts (selector_turn e s) i + 1"
proof -
  obtain k where k: "selector_select s e = Some k" using assms(2,3) select_None [of s e] by fastforce
  have "selector_attempts s k \<le> selector_attempts s i" using select_least(3) [OF k assms(2,3)] .
  moreover have "selector_attempts (selector_turn e s) = selector_attempts (selector_record k s)"
    using k by (simp add: selector_turn_def)
  ultimately show ?thesis
    using assms(4) [of j] assms(4) [of i] by (auto simp: record_attempts sat_add_def)
qed

text \<open>
  No interface overtakes an always eligible one by more than one scheduled attempt: after
  any sequence of turns in which interface \<open>i\<close> was eligible every time, whatever the other
  interfaces did, every count is at most that of \<open>i\<close> plus one.
\<close>

theorem always_eligible_keeps_up:
  assumes "i \<in> set order" "\<forall>e \<in> set turns. i \<in> e"
  shows "selector_attempts (fold selector_turn turns (selector_new order)) j \<le>
    selector_attempts (fold selector_turn turns (selector_new order)) i + 1"
proof -
  have "selector_attempts (fold selector_turn turns s) j \<le> selector_attempts (fold selector_turn turns s) i + 1"
    if "tracked s" "i \<in> set (se_order s)"
      "\<And>j. selector_attempts s j \<le> u64_max \<and> selector_attempts s j \<le> selector_attempts s i + 1" for s
    using that assms(2)
  proof (induction turns arbitrary: s)
    case (Cons e turns)
    then show ?case using turn_lead [OF Cons.prems(1,2)] by simp
  qed simp
  then show ?thesis using assms(1) by simp
qed

subsection \<open>Rotation\<close>

definition rotations :: "nat \<Rightarrow> nat \<Rightarrow> nat \<Rightarrow> nat" where
  "rotations n k i = k div n + (if i < k mod n then 1 else 0)"

definition rotated :: "string list \<Rightarrow> nat \<Rightarrow> selector \<Rightarrow> bool" where
  "rotated order k s \<longleftrightarrow>
     se_order s = order \<and> se_turn s = of_nat k \<and>
     (\<forall>i < length order. bt_get (se_state s) (order ! i) =
        Some \<lparr> fs_attempts = rotations (length order) k i,
               fs_last_turn = (if rotations (length order) k i = 0 then None
                 else Some (of_nat ((rotations (length order) k i - 1) * length order + i + 1))) \<rparr>)"

lemma rotations_Suc:
  assumes "0 < n" "i < n"
  shows "rotations n (Suc k) i = rotations n k i + (if i = k mod n then 1 else 0)"
  using assms by (auto simp: rotations_def div_Suc mod_Suc)

lemma rotations_now: "0 < n \<Longrightarrow> rotations n k (k mod n) = k div n"
  by (simp add: rotations_def)

lemma select_rotated:
  assumes rot: "rotated order k s" and n: "order \<noteq> []" and k: "k < 2 ^ 64" and el: "set order \<subseteq> e"
  shows "selector_select s e = Some (order ! (k mod length order))"
proof -
  let ?n = "length order" and ?m = "k mod length order"
  let ?es = "List.enumerate 0 order"
  have m: "?m < ?n" using n by simp
  have order: "se_order s = order" using rot by (simp add: rotated_def)
  have all: "filter (\<lambda>x. snd x \<in> e) ?es = ?es"
    using el enumerate_snd [of 0 order] by (fastforce simp: filter_id_conv)
  have key: "select_key s (i, order ! i) = (rotations ?n k i,
      (if rotations ?n k i = 0 then 0 else of_nat ((rotations ?n k i - 1) * ?n + i + 1)), i)" if "i < ?n" for i
    using rot that by (simp add: select_key_def rotated_def)
  have mem: "x \<in> set ?es \<longleftrightarrow> (\<exists>i < ?n. x = (i, order ! i))" for x
    by (cases x) (auto simp: in_set_enumerate_eq)
  have q: "k div ?n * ?n + ?m = k" by simp
  have least: "select_key s (?m, order ! ?m) \<le> select_key s (i, order ! i)" if i: "i < ?n" for i
  proof (cases "i < ?m \<or> k div ?n = 0")
    case True
    then show ?thesis
      using m i by (auto simp: key rotations_def less_eq_prod_def)
  next
    case False
    then obtain r where r: "k div ?n = Suc r" by (cases "k div ?n") auto
    have le: "r * ?n + i + 1 \<le> k" using q i r by (metis Suc_leI add.commute add_leD1 add_le_mono1 mult_Suc nat_add_left_cancel_le not_less_eq_eq plus_1_eq_Suc)
    have "r * ?n + ?m + 1 \<le> r * ?n + i + 1" using False by simp
    then have "(of_nat (r * ?n + ?m + 1) :: u64) \<le> of_nat (r * ?n + i + 1)"
      using le k by (simp add: word_le_nat_alt unat_of_nat take_bit_nat_eq_self del: of_nat_Suc of_nat_add of_nat_mult)
    moreover have "rotations ?n k i = Suc r" "rotations ?n k ?m = Suc r"
      using False r by (simp_all add: rotations_def)
    moreover have "?m < i \<or> ?m = i" using False by linarith
    ultimately show ?thesis using m i False by (simp add: key less_eq_prod_def le_less)
  qed
  obtain x where x: "min_by_key (select_key s) ?es = Some x"
    using n mem [of "(0, order ! 0)"] by (cases "min_by_key (select_key s) ?es") auto
  note l = min_by_key_least [OF x]
  then obtain i where i: "i < ?n" "x = (i, order ! i)" using mem by blast
  have "select_key s x \<le> select_key s (?m, order ! ?m)" using l m mem by blast
  then have "select_key s x = select_key s (?m, order ! ?m)" using least [OF i(1)] i(2) by (simp add: antisym)
  then have "i = ?m" using key [OF i(1)] key [OF m] i(2) by simp
  then show ?thesis unfolding selector_select_def order all x using i by simp
qed

lemma rotated_turn:
  assumes rot: "rotated order k s" and n: "order \<noteq> []" "distinct order" and k: "Suc k < 2 ^ 64"
    and el: "set order \<subseteq> e"
  shows "rotated order (Suc k) (selector_turn e s)"
proof -
  let ?n = "length order" and ?m = "k mod length order"
  have m: "?m < ?n" using n by simp
  have sel: "selector_turn e s = selector_record (order ! ?m) s"
    using select_rotated [OF rot n(1) _ el] k by (simp add: selector_turn_def)
  have at: "bt_get (se_state s) (order ! ?m) = Some \<lparr> fs_attempts = rotations ?n k ?m,
       fs_last_turn = (if rotations ?n k ?m = 0 then None
         else Some (of_nat ((rotations ?n k ?m - 1) * ?n + ?m + 1))) \<rparr>"
    using rot m by (simp add: rotated_def)
  have "k div ?n < 18446744073709551615" using k by (intro le_less_trans [OF div_le_dividend]) simp
  then have sat: "sat_add u64_max (k div ?n) 1 = Suc (k div ?n)" by (simp add: sat_add_def)
  have other: "i < ?n \<Longrightarrow> order ! i = order ! ?m \<longleftrightarrow> i = ?m" for i
    using m n(2) by (simp add: nth_eq_iff_index_eq)
  have turn: "(of_nat k :: u64) + 1 = of_nat (k div ?n * ?n + ?m + 1)" by simp
  show ?thesis
    unfolding sel using rot m n(1) sat turn
    by (auto simp: rotated_def selector_record_def at Let_def other rotations_Suc rotations_now)
qed

text \<open>
  C35. While all of the distinct configured interfaces are eligible, selection is round robin in
  configuration order: turn \<open>k\<close>, counted from zero, goes to interface \<open>k mod n\<close>.
\<close>

theorem selection_round_robin:
  assumes "order \<noteq> []" "distinct order" "set order \<subseteq> e" "k < 2 ^ 64"
  shows "selector_select ((selector_turn e ^^ k) (selector_new order)) e = Some (order ! (k mod length order))"
proof -
  have "rotated order k ((selector_turn e ^^ k) (selector_new order))"
    using assms(4)
  proof (induction k)
    case 0
    then show ?case
      by (simp add: rotated_def rotations_def new_state selector_new_def) (simp add: fairness_default_def)
  next
    case (Suc k)
    then show ?case using rotated_turn [OF _ assms(1,2) _ assms(3), of k] by simp
  qed
  then show ?thesis using select_rotated assms by blast
qed

subsection \<open>Concrete instances\<close>

theorem always_eligible_keeps_up_witness:
  "selector_attempts (fold selector_turn [{''a''}, {''a'', ''b''}, {''a'', ''b''}] (selector_new [''a'', ''b''])) ''b'' \<le>
   selector_attempts (fold selector_turn [{''a''}, {''a'', ''b''}, {''a'', ''b''}] (selector_new [''a'', ''b''])) ''a'' + 1 \<and>
   selector_select (selector_new [''a'', ''b'']) {''b''} = Some ''b''"
proof
  show "selector_attempts (fold selector_turn [{''a''}, {''a'', ''b''}, {''a'', ''b''}] (selector_new [''a'', ''b''])) ''b'' \<le>
   selector_attempts (fold selector_turn [{''a''}, {''a'', ''b''}, {''a'', ''b''}] (selector_new [''a'', ''b''])) ''a'' + 1"
    by (rule always_eligible_keeps_up) simp_all
  show "selector_select (selector_new [''a'', ''b'']) {''b''} = Some ''b''"
    by (simp add: selector_select_def selector_new_def)
qed

theorem selection_round_robin_witness:
  "selector_select ((selector_turn {''a'', ''b''} ^^ 5) (selector_new [''b'', ''a''])) {''a'', ''b''} = Some ''a''"
  using selection_round_robin [of "[''b'', ''a'']" "{''a'', ''b''}" 5] by (simp add: numeral_2_eq_2 [symmetric])

end
