(* ===== verification/Coordinator.thy ===== *)
theory Coordinator
  imports ConfigTypes
begin

text \<open>
  The upper half of \<open>journal.rs\<close>: the coordinator numbers the events of a session, keeps the
  tree of active runs, and gives each batch to the journal before the console sees it. The
  journal and the console are the operations \<open>S\<close>; an instant of the clocks is an argument of
  each call.
\<close>

subsection \<open>Errors and sinks\<close>

datatype jio_kind = JioPermissionDenied | JioAlreadyExists | JioNotFound | JioInvalidInput | JioOther

datatype journal_error =
    JIo jio_kind string
  | JCsv string
  | JHeader path
  | JCorrupt path
  | JLocked path

definition journal_is_permission_denied :: "journal_error \<Rightarrow> bool" where
  "journal_is_permission_denied e = (case e of JIo k _ \<Rightarrow> k = JioPermissionDenied | _ \<Rightarrow> False)"

definition journal_other :: "string \<Rightarrow> journal_error" where
  "journal_other message = JIo JioOther message"

type_synonym 'j journal_append = "measurement_event list \<Rightarrow> 'j \<Rightarrow> (journal_error + unit) \<times> 'j"

record ('j, 'c) sinks =
  sk_append :: "'j journal_append"
  sk_flush :: "'j \<Rightarrow> (journal_error + unit) \<times> 'j"
  sk_offer :: "measurement_event \<Rightarrow> 'c \<Rightarrow> 'c"
  sk_version :: string
  sk_process_id :: nat

subsection \<open>State\<close>

record run_context =
  rx_interface :: "string option"
  rx_provider_id :: "string option"
  rx_provider_kind :: "provider_kind option"
  rx_trigger_reason :: "trigger_reason option"
  rx_load_run_id :: "run_id option"
  rx_load_phase :: "load_phase option"

definition run_context_default :: run_context where
  "run_context_default = \<lparr> rx_interface = None, rx_provider_id = None, rx_provider_kind = None,
     rx_trigger_reason = None, rx_load_run_id = None, rx_load_phase = None \<rparr>"

record active_run =
  ar_root :: run_id
  ar_parent :: "run_id option"
  ar_kind :: run_kind
  ar_started_at :: time
  ar_started :: nat

record ('j, 'c) coordinator =
  oc_journal :: 'j
  oc_console :: 'c
  oc_sequence :: nat
  oc_failed :: bool
  oc_runs :: "(run_id, active_run) btree"

definition coordinator_new :: "'j \<Rightarrow> 'c \<Rightarrow> ('j, 'c) coordinator" where
  "coordinator_new journal console =
     \<lparr> oc_journal = journal, oc_console = console, oc_sequence = 0, oc_failed = False, oc_runs = [] \<rparr>"

text \<open>The instant of a call: wall clock, monotonic clock, and the identifier of its event.\<close>

record moment =
  mo_utc :: time
  mo_mono :: nat
  mo_event_id :: event_id

subsection \<open>Publication\<close>

text \<open>An event of an active run takes its place in the tree.\<close>

definition place_event :: "(run_id, active_run) btree \<Rightarrow> nat \<Rightarrow> measurement_event \<Rightarrow> measurement_event" where
  "place_event runs n ev =
     (let ev = ev \<lparr> ev_event_sequence := Some n \<rparr> in
      case bt_get runs (ev_run_id ev) of
        None \<Rightarrow> ev
      | Some run \<Rightarrow> ev \<lparr> ev_parent_run_id := ar_parent run, ev_root_run_id := ar_root run,
                         ev_run_kind := ar_kind run \<rparr>)"

text \<open>The counter reached, and the numbered events unless it is exhausted.\<close>

fun number_events ::
    "(run_id, active_run) btree \<Rightarrow> nat \<Rightarrow> measurement_event list \<Rightarrow> nat \<times> measurement_event list option" where
  "number_events runs n [] = (n, Some [])"
| "number_events runs n (ev # evs) =
     (case checked_add u64_max n 1 of
        None \<Rightarrow> (n, None)
      | Some n' \<Rightarrow>
          (let (m, rest) = number_events runs n' evs
           in (m, map_option ((#) (place_event runs n' ev)) rest)))"

definition publish_batch ::
    "('j, 'c) sinks \<Rightarrow> measurement_event list \<Rightarrow> ('j, 'c) coordinator \<Rightarrow>
     (journal_error + unit) \<times> ('j, 'c) coordinator" where
  "publish_batch S evs s =
     (if oc_failed s then (Inl (journal_other ''journal publication previously failed''), s)
      else
        (let (n, numbered) = number_events (oc_runs s) (oc_sequence s) evs;
             s = s \<lparr> oc_sequence := n \<rparr>
         in case numbered of
              None \<Rightarrow> (Inl (journal_other ''event sequence exhausted''), s)
            | Some evs \<Rightarrow>
                (case sk_append S evs (oc_journal s) of
                   (Inl e, j) \<Rightarrow> (Inl e, s \<lparr> oc_journal := j, oc_failed := True \<rparr>)
                 | (Inr _, j) \<Rightarrow>
                     (Inr (), s \<lparr> oc_journal := j, oc_console := fold (sk_offer S) evs (oc_console s) \<rparr>))))"

definition coordinator_flush ::
    "('j, 'c) sinks \<Rightarrow> ('j, 'c) coordinator \<Rightarrow> (journal_error + unit) \<times> ('j, 'c) coordinator" where
  "coordinator_flush S s = (let (r, j) = sk_flush S (oc_journal s) in (r, s \<lparr> oc_journal := j \<rparr>))"

subsection \<open>Runs\<close>

definition run_started_event ::
    "('j, 'c) sinks \<Rightarrow> moment \<Rightarrow> run_id \<Rightarrow> run_id option \<Rightarrow> run_id \<Rightarrow> run_kind \<Rightarrow> string option \<Rightarrow> run_context \<Rightarrow>
     measurement_event" where
  "run_started_event S m i parent root_id kind command ctx =
     (let ev = (event_new (mo_event_id m) i RunStarted Started (mo_utc m))
            \<lparr> ev_parent_run_id := parent, ev_root_run_id := root_id, ev_run_kind := kind,
              ev_started_at_utc := Some (mo_utc m), ev_finished_at_utc := None,
              ev_interface := rx_interface ctx, ev_provider_id := rx_provider_id ctx,
              ev_provider_kind := rx_provider_kind ctx, ev_trigger_reason := rx_trigger_reason ctx,
              ev_load_run_id := rx_load_run_id ctx, ev_load_phase := rx_load_phase ctx \<rparr>
      in case command of
           None \<Rightarrow> ev
         | Some c \<Rightarrow> ev \<lparr> ev_command := Some c, ev_netband_version := Some (sk_version S),
                          ev_process_id := Some (sk_process_id S) \<rparr>)"

text \<open>Callers have found the parent active, where the source indexes the map.\<close>

definition begin_run ::
    "('j, 'c) sinks \<Rightarrow> moment \<Rightarrow> run_id \<Rightarrow> run_id option \<Rightarrow> run_kind \<Rightarrow> string option \<Rightarrow> run_context \<Rightarrow>
     ('j, 'c) coordinator \<Rightarrow> (journal_error + unit) \<times> ('j, 'c) coordinator" where
  "begin_run S m i parent kind command ctx s =
     (if bt_get (oc_runs s) i \<noteq> None then (Inl (journal_other ''run is already active''), s)
      else
        (let root_id = (case parent of None \<Rightarrow> i | Some p \<Rightarrow> ar_root (the (bt_get (oc_runs s) p)))
         in case publish_batch S [run_started_event S m i parent root_id kind command ctx] s of
              (Inl e, s) \<Rightarrow> (Inl e, s)
            | (Inr _, s) \<Rightarrow>
                (Inr (), s \<lparr> oc_runs := bt_insert i
                   \<lparr> ar_root = root_id, ar_parent = parent, ar_kind = kind, ar_started_at = mo_utc m,
                     ar_started = mo_mono m \<rparr> (oc_runs s) \<rparr>)))"

definition start_session ::
    "('j, 'c) sinks \<Rightarrow> moment \<Rightarrow> run_id \<Rightarrow> string \<Rightarrow> ('j, 'c) coordinator \<Rightarrow>
     (journal_error + unit) \<times> ('j, 'c) coordinator" where
  "start_session S m i command s =
     (if oc_runs s \<noteq> [] then (Inl (journal_other ''session is already active''), s)
      else begin_run S m i None RkSession (Some command) run_context_default (s \<lparr> oc_sequence := 0 \<rparr>))"

definition start_run_with_context ::
    "('j, 'c) sinks \<Rightarrow> moment \<Rightarrow> run_id \<Rightarrow> run_id \<Rightarrow> run_kind \<Rightarrow> run_context \<Rightarrow> ('j, 'c) coordinator \<Rightarrow>
     (journal_error + unit) \<times> ('j, 'c) coordinator" where
  "start_run_with_context S m i parent kind ctx s =
     (if bt_get (oc_runs s) parent = None then (Inl (journal_other ''parent run is not active''), s)
      else begin_run S m i (Some parent) kind None ctx s)"

definition start_run ::
    "('j, 'c) sinks \<Rightarrow> moment \<Rightarrow> run_id \<Rightarrow> run_id \<Rightarrow> run_kind \<Rightarrow> ('j, 'c) coordinator \<Rightarrow>
     (journal_error + unit) \<times> ('j, 'c) coordinator" where
  "start_run S m i parent kind s = start_run_with_context S m i parent kind run_context_default s"

definition has_child :: "run_id \<Rightarrow> (run_id, active_run) btree \<Rightarrow> bool" where
  "has_child i runs = list_ex (\<lambda>e. ar_parent (snd e) = Some i) runs"

definition run_finished_event ::
    "moment \<Rightarrow> run_id \<Rightarrow> outcome \<Rightarrow> string option \<Rightarrow> active_run \<Rightarrow> measurement_event" where
  "run_finished_event m i out err run =
     (let ev = (event_new (mo_event_id m) i RunFinished out (mo_utc m))
            \<lparr> ev_started_at_utc := Some (ar_started_at run),
              ev_elapsed_ms := Some (duration_ms_f64 (mo_mono m - ar_started run)) \<rparr>
      in case err of
           None \<Rightarrow> ev
         | Some e \<Rightarrow> ev \<lparr> ev_error_kind := Some EkInternal, ev_message := Some e \<rparr>)"

definition finish_run ::
    "('j, 'c) sinks \<Rightarrow> moment \<Rightarrow> run_id \<Rightarrow> outcome \<Rightarrow> string option \<Rightarrow> ('j, 'c) coordinator \<Rightarrow>
     (journal_error + unit) \<times> ('j, 'c) coordinator" where
  "finish_run S m i out err s =
     (if has_child i (oc_runs s) then (Inl (journal_other ''run has active children''), s)
      else case bt_get (oc_runs s) i of
             None \<Rightarrow> (Inl (journal_other ''run is not active''), s)
           | Some run \<Rightarrow>
               (case publish_batch S [run_finished_event m i out err run] s of
                  (Inl e, s) \<Rightarrow> (Inl e, s)
                | (Inr _, s) \<Rightarrow> (Inr (), s \<lparr> oc_runs := bt_remove i (oc_runs s) \<rparr>)))"

definition open_leaf :: "run_id \<Rightarrow> (run_id, active_run) btree \<Rightarrow> run_id option" where
  "open_leaf i runs =
     map_option fst (find (\<lambda>e. fst e \<noteq> i \<and> ar_root (snd e) = i \<and> \<not> has_child (fst e) runs) runs)"


lemma publish_runs:
  "publish_batch S evs s = (r, s') \<Longrightarrow> oc_runs s' = oc_runs s"
  by (auto simp: publish_batch_def Let_def split: if_splits prod.splits option.splits sum.splits)

lemma finish_run_runs:
  assumes "finish_run S m i out err s = (Inr u, s')"
  shows "oc_runs s' = bt_remove i (oc_runs s)" "bt_get (oc_runs s) i \<noteq> None" "\<not> has_child i (oc_runs s)"
  using assms publish_runs
  by (fastforce simp: finish_run_def split: if_splits prod.splits option.splits sum.splits)+

lemma length_bt_remove: "bt_get m k \<noteq> None \<Longrightarrow> length (bt_remove k m) < length m"
  by (induction m) (auto simp: bt_get_def bt_remove_def le_imp_less_Suc split: if_splits)

lemma finish_run_shrinks:
  assumes "finish_run S m i out err s = (Inr u, s')"
  shows "length (oc_runs s') < length (oc_runs s)"
  unfolding finish_run_runs(1) [OF assms] by (rule length_bt_remove) (rule finish_run_runs(2) [OF assms])

text \<open>
  \<open>while let\<close>: the failing session closes its runs from the leaves up. The call made while
  \<open>n\<close> runs are active happens at \<open>ms n\<close>.
\<close>

function close_children ::
    "('j, 'c) sinks \<Rightarrow> (nat \<Rightarrow> moment) \<Rightarrow> run_id \<Rightarrow> string option \<Rightarrow> ('j, 'c) coordinator \<Rightarrow>
     (journal_error + unit) \<times> ('j, 'c) coordinator" where
  "close_children S ms i err s =
     (case open_leaf i (oc_runs s) of
        None \<Rightarrow> (Inr (), s)
      | Some c \<Rightarrow>
          (case finish_run S (ms (length (oc_runs s))) c ErrorOutcome err s of
             (Inl e, s) \<Rightarrow> (Inl e, s)
           | (Inr _, s) \<Rightarrow> close_children S ms i err s))"
  by pat_completeness auto
termination
  by (relation "measure (\<lambda>(S, ms, i, err, s). length (oc_runs s))")
    (auto dest!: sym [of "(Inr _, _)"] dest: finish_run_shrinks)

declare close_children.simps [simp del]

definition finish_session ::
    "('j, 'c) sinks \<Rightarrow> (nat \<Rightarrow> moment) \<Rightarrow> run_id \<Rightarrow> outcome \<Rightarrow> string option \<Rightarrow> ('j, 'c) coordinator \<Rightarrow>
     (journal_error + unit) \<times> ('j, 'c) coordinator" where
  "finish_session S ms i out err s =
     (case (if err \<noteq> None then close_children S ms i err s else (Inr (), s)) of
        (Inl e, s) \<Rightarrow> (Inl e, s)
      | (Inr _, s) \<Rightarrow> finish_run S (ms (length (oc_runs s))) i out err s)"

end
