(* ===== verification/CoordinatorProps.thy ===== *)
theory CoordinatorProps
  imports Coordinator
begin

text \<open>
  What the journal sees of a coordinator: numbers without gaps, a tree of runs whose starts and
  ends nest, nothing after a failed write, and no run left open by a failing session. The
  sequence of acknowledged events is observed through a console that keeps what it is offered.
\<close>

subsection \<open>Calls\<close>

datatype call =
    Publish "measurement_event list"
  | StartSession run_id string
  | StartRun run_id run_id run_kind run_context
  | FinishRun run_id outcome "string option"
  | FinishSession run_id outcome "string option"
  | FlushCall

fun exec_call ::
    "('j, 'c) sinks \<Rightarrow> (nat \<Rightarrow> moment) \<Rightarrow> call \<Rightarrow> ('j, 'c) coordinator \<Rightarrow>
     (journal_error + unit) \<times> ('j, 'c) coordinator" where
  "exec_call S ms (Publish evs) s = publish_batch S evs s"
| "exec_call S ms (StartSession i command) s = start_session S (ms (length (oc_runs s))) i command s"
| "exec_call S ms (StartRun i p kind ctx) s = start_run_with_context S (ms (length (oc_runs s))) i p kind ctx s"
| "exec_call S ms (FinishRun i out err) s = finish_run S (ms (length (oc_runs s))) i out err s"
| "exec_call S ms (FinishSession i out err) s = finish_session S ms i out err s"
| "exec_call S ms FlushCall s = coordinator_flush S s"

definition exec_calls ::
    "('j, 'c) sinks \<Rightarrow> ((nat \<Rightarrow> moment) \<times> call) list \<Rightarrow> ('j, 'c) coordinator \<Rightarrow> ('j, 'c) coordinator" where
  "exec_calls S calls s = fold (\<lambda>(ms, c) s. snd (exec_call S ms c s)) calls s"

lemma exec_calls_invariant:
  assumes "\<And>ms c s. (ms, c) \<in> set calls \<Longrightarrow> P s \<Longrightarrow> P (snd (exec_call S ms c s))" "P s"
  shows "P (exec_calls S calls s)"
  using assms
proof (induction calls arbitrary: s)
  case (Cons mc calls)
  obtain ms c where mc: "mc = (ms, c)" by fastforce
  have "P (exec_calls S calls (snd (exec_call S ms c s)))"
    using Cons.prems mc by (intro Cons.IH) auto
  then show ?case by (simp add: exec_calls_def mc)
qed (simp add: exec_calls_def)

text \<open>The console as a log of what was acknowledged.\<close>

definition logging :: "('j, measurement_event list) sinks \<Rightarrow> ('j, measurement_event list) sinks" where
  "logging S = S \<lparr> sk_offer := (\<lambda>ev kept. kept @ [ev]) \<rparr>"

lemma logging_simps [simp]:
  "sk_append (logging S) = sk_append S" "sk_flush (logging S) = sk_flush S"
  "sk_version (logging S) = sk_version S" "sk_process_id (logging S) = sk_process_id S"
  "sk_offer (logging S) ev kept = kept @ [ev]" "fold (sk_offer (logging S)) evs kept = kept @ evs"
proof -
  show "fold (sk_offer (logging S)) evs kept = kept @ evs"
    by (induction evs arbitrary: kept) (simp_all add: logging_def)
qed (simp_all add: logging_def)

text \<open>
  Every state a call passes through comes from single publications and changes of the run map:
  a successful one leaves the event of the change in the log.
\<close>

lemma publish_logged:
  assumes "publish_batch (logging S) evs s = (Inr u, s')"
  obtains n placed where "\<not> oc_failed s" "number_events (oc_runs s) (oc_sequence s) evs = (n, Some placed)"
    "oc_console s' = oc_console s @ placed" "oc_sequence s' = n" "oc_failed s' = False" "oc_runs s' = oc_runs s"
  using assms
  by (auto simp: publish_batch_def Let_def split: if_splits prod.splits option.splits sum.splits)

lemma number_events_exhausted:
  "number_events runs n evs = (m, None) \<Longrightarrow> u64_max \<le> m"
  by (induction evs arbitrary: n m) (auto simp: checked_add_def split: if_splits prod.splits)

lemma publish_refused:
  assumes "publish_batch (logging S) evs s = (Inl e, s')"
  shows "oc_console s' = oc_console s" "oc_runs s' = oc_runs s"
    "oc_failed s' \<or> u64_max \<le> oc_sequence s'" "oc_failed s \<Longrightarrow> s' = s"
  using assms
  by (auto simp: publish_batch_def Let_def dest: number_events_exhausted
      split: if_splits prod.splits option.splits sum.splits)

text \<open>Any property of states that \<open>finish_run\<close> keeps is kept by closing a session.\<close>

lemma close_children_invariant:
  assumes "\<And>m c s. P s \<Longrightarrow> P (snd (finish_run S m c ErrorOutcome err s))" "P s"
  shows "P (snd (close_children S ms i err s))"
  using assms
proof (induction S ms i err s rule: close_children.induct)
  case (1 S ms i err s)
  show ?case
  proof (cases "open_leaf i (oc_runs s)")
    case None
    then show ?thesis using 1(3) by (simp add: close_children.simps [of _ ms i err s])
  next
    case (Some c)
    obtain q s1 where f: "finish_run S (ms (length (oc_runs s))) c ErrorOutcome err s = (q, s1)"
      by fastforce
    then have "P s1" using 1(2) [OF 1(3), of "ms (length (oc_runs s))" c] by simp
    then show ?thesis using 1(1) [OF Some f [symmetric] _ 1(2)] Some f
      by (cases q) (auto simp: close_children.simps [of _ ms i err s])
  qed
qed

lemma finish_session_invariant:
  assumes "\<And>m c out s. P s \<Longrightarrow> P (snd (finish_run S m c out err s))" "P s"
  shows "P (snd (finish_session S ms i out err s))"
proof -
  obtain q s1 where c: "(if err \<noteq> None then close_children S ms i err s else (Inr (), s)) = (q, s1)"
    by (metis surj_pair)
  have "P s1" using c assms close_children_invariant [of P S err s ms i] by (auto split: if_splits)
  then show ?thesis using assms(1) c by (auto simp: finish_session_def split: sum.splits)
qed

subsection \<open>Numbering\<close>

definition opens_session :: "measurement_event \<Rightarrow> bool" where
  "opens_session ev \<longleftrightarrow> ev_event_kind ev = RunStarted \<and> ev_parent_run_id ev = None \<and> ev_run_kind ev = RkSession"

fun numbered :: "nat \<Rightarrow> measurement_event list \<Rightarrow> bool" where
  "numbered n [] = True"
| "numbered n (ev # evs) =
     (case ev_event_sequence ev of
        None \<Rightarrow> False
      | Some k \<Rightarrow> (k = n + 1 \<or> k = 1 \<and> opens_session ev) \<and> numbered k evs)"

definition last_number :: "nat \<Rightarrow> measurement_event list \<Rightarrow> nat" where
  "last_number n evs = (if evs = [] then n else the (ev_event_sequence (last evs)))"

lemma numbered_append:
  "numbered n (xs @ ys) \<longleftrightarrow> numbered n xs \<and> numbered (last_number n xs) ys"
  by (induction n xs rule: numbered.induct) (auto simp: last_number_def split: option.splits)

lemma last_number_append: "last_number n (xs @ ys) = last_number (last_number n xs) ys"
  by (simp add: last_number_def)

lemma place_event_sequence [simp]: "ev_event_sequence (place_event runs n ev) = Some n"
  by (simp add: place_event_def Let_def split: option.splits)

lemma number_events_numbered:
  "number_events runs n evs = (m, Some placed) \<Longrightarrow> numbered n placed \<and> last_number n placed = m"
proof (induction evs arbitrary: n m placed)
  case (Cons ev evs)
  then obtain n' placed' where p: "n' = n + 1" "number_events runs n' evs = (m, Some placed')"
    "placed = place_event runs n' ev # placed'"
    by (auto simp: checked_add_def split: if_splits prod.splits)
  then show ?case using Cons.IH [OF p(2)] by (auto simp: last_number_def)
qed (simp add: last_number_def)

definition counted :: "('j, measurement_event list) coordinator \<Rightarrow> bool" where
  "counted s \<longleftrightarrow> numbered 0 (oc_console s) \<and>
     (oc_failed s \<or> u64_max \<le> oc_sequence s \<or> oc_sequence s = last_number 0 (oc_console s))"

lemma number_events_full: "u64_max \<le> n \<Longrightarrow> number_events runs n evs = (m, Some placed) \<Longrightarrow> placed = [] \<and> m = n"
  by (cases evs) (auto simp: checked_add_def split: if_splits)

lemma publish_counted:
  assumes "publish_batch (logging S) evs s = (r, s')" "counted s"
  shows "counted s'"
proof (cases r)
  case (Inl e)
  then show ?thesis using publish_refused [OF assms(1) [unfolded Inl]] assms(2) by (auto simp: counted_def)
next
  case (Inr u)
  from publish_logged [OF assms(1) [unfolded Inr]] obtain n placed where
    p: "\<not> oc_failed s" "number_events (oc_runs s) (oc_sequence s) evs = (n, Some placed)"
      "oc_console s' = oc_console s @ placed" "oc_sequence s' = n" .
  show ?thesis
  proof (cases "u64_max \<le> oc_sequence s")
    case True
    then show ?thesis using number_events_full [OF True p(2)] p assms(2) by (simp add: counted_def)
  next
    case False
    then have "oc_sequence s = last_number 0 (oc_console s)" using assms(2) p(1) by (simp add: counted_def)
    then show ?thesis
      using number_events_numbered [OF p(2)] p assms(2)
      by (simp add: counted_def numbered_append last_number_append)
  qed
qed

lemma counted_runs [simp]: "counted (s \<lparr> oc_runs := rs \<rparr>) = counted s"
  by (simp add: counted_def)

lemma begin_run_counted:
  "begin_run (logging S) m i parent kind command ctx s = (r, s') \<Longrightarrow> counted s \<Longrightarrow> counted s'"
  by (auto simp: begin_run_def Let_def split: if_splits prod.splits sum.splits dest: publish_counted)

lemma finish_run_counted:
  "finish_run (logging S) m i out err s = (r, s') \<Longrightarrow> counted s \<Longrightarrow> counted s'"
  by (auto simp: finish_run_def split: if_splits prod.splits sum.splits option.splits dest: publish_counted)

text \<open>A session starts its numbers again, with the event that opens it.\<close>

lemma start_session_counted:
  assumes "start_session (logging S) m i command s = (r, s')" "counted s"
  shows "counted s'"
proof (cases "oc_runs s = [] \<and> \<not> oc_failed s")
  case False
  then show ?thesis
    using assms by (auto simp: start_session_def begin_run_def publish_batch_def Let_def counted_def split: if_splits)
next
  case True
  let ?ev = "run_started_event (logging S) m i None i RkSession (Some command) run_context_default"
  let ?s = "s \<lparr> oc_sequence := 0 \<rparr>"
  have b: "begin_run (logging S) m i None RkSession (Some command) run_context_default ?s = (r, s')"
    using assms(1) True by (simp add: start_session_def)
  obtain q s1 where q: "publish_batch (logging S) [?ev] ?s = (q, s1)" by fastforce
  have opens: "opens_session (place_event [] 1 ?ev)"
    by (simp add: place_event_def run_started_event_def opens_session_def)
  have "counted s1"
  proof (cases q)
    case (Inl e)
    have "number_events [] 0 [?ev] \<noteq> (x, None)" for x by (simp add: checked_add_def)
    then have "oc_failed s1"
      using q True Inl by (auto simp: publish_batch_def checked_add_def Let_def split: sum.splits prod.splits)
    then show ?thesis using publish_refused(1) [OF q [unfolded Inl]] assms(2) by (simp add: counted_def)
  next
    case (Inr u)
    then show ?thesis
      using q True opens assms(2)
      by (auto simp: publish_batch_def checked_add_def counted_def numbered_append last_number_append Let_def
          split: sum.splits prod.splits) (simp_all add: last_number_def)
  qed
  then show ?thesis using b q True by (auto simp: begin_run_def split: sum.splits)
qed

lemmas snd_counted = publish_counted [OF prod.collapse [symmetric]]
  start_session_counted [OF prod.collapse [symmetric]] begin_run_counted [OF prod.collapse [symmetric]]
  finish_run_counted [OF prod.collapse [symmetric]]

lemma exec_call_counted: "counted s \<Longrightarrow> counted (snd (exec_call (logging S) ms c s))"
proof (cases c)
  case FlushCall
  assume "counted s"
  then show ?thesis using FlushCall by (simp add: coordinator_flush_def counted_def split: prod.splits)
qed (auto simp: start_run_with_context_def intro: snd_counted finish_session_invariant)

text \<open>
  C31. Whatever calls are made and whatever the journal refuses, the events it acknowledged are
  numbered without gap or repetition: each number is one more than the one before, except that
  the event opening a session is numbered 1.
\<close>

theorem publication_numbered:
  "numbered 0 (oc_console (exec_calls (logging S) calls (coordinator_new j [])))"
proof -
  have "counted (coordinator_new j [])"
    by (simp add: counted_def coordinator_new_def last_number_def)
  then have "counted (exec_calls (logging S) calls (coordinator_new j []))"
    using exec_calls_invariant [where P = counted] exec_call_counted by blast
  then show ?thesis by (simp add: counted_def)
qed


subsection \<open>The tree of runs\<close>

text \<open>What a reader of the journal may reconstruct: the active runs and their parents.\<close>

type_synonym run_tree = "run_id \<Rightarrow> run_id option option"

definition tree_step :: "measurement_event \<Rightarrow> run_tree \<Rightarrow> run_tree option" where
  "tree_step ev T =
     (let i = ev_run_id ev; p = ev_parent_run_id ev in
      case ev_event_kind ev of
        RunStarted \<Rightarrow>
          if T i = None \<and> (case p of None \<Rightarrow> True | Some q \<Rightarrow> T q \<noteq> None) then Some (T(i \<mapsto> p)) else None
      | RunFinished \<Rightarrow>
          if T i = Some p \<and> (\<forall>c. T c \<noteq> Some (Some i)) then Some (T(i := None)) else None
      | _ \<Rightarrow> if T i = None \<or> T i = Some p then Some T else None)"

fun replay_tree :: "measurement_event list \<Rightarrow> run_tree \<Rightarrow> run_tree option" where
  "replay_tree [] T = Some T"
| "replay_tree (ev # evs) T = (case tree_step ev T of None \<Rightarrow> None | Some T' \<Rightarrow> replay_tree evs T')"

lemma replay_append:
  "replay_tree (xs @ ys) T = (case replay_tree xs T of None \<Rightarrow> None | Some T' \<Rightarrow> replay_tree ys T')"
  by (induction xs T rule: replay_tree.induct) (auto split: option.splits)

definition active_tree :: "(run_id, active_run) btree \<Rightarrow> run_tree" where
  "active_tree runs i = map_option ar_parent (bt_get runs i)"

definition plain_event :: "measurement_event \<Rightarrow> bool" where
  "plain_event ev \<longleftrightarrow> ev_event_kind ev \<noteq> RunStarted \<and> ev_event_kind ev \<noteq> RunFinished"

fun plain_call :: "call \<Rightarrow> bool" where
  "plain_call (Publish evs) = list_all plain_event evs"
| "plain_call _ = True"

definition traced :: "('j, measurement_event list) coordinator \<Rightarrow> bool" where
  "traced s \<longleftrightarrow> bt_ok (oc_runs s) \<and>
     replay_tree (oc_console s) (\<lambda>i. None) = Some (active_tree (oc_runs s))"

lemma has_child_iff:
  assumes "bt_ok runs" shows "has_child i runs \<longleftrightarrow> (\<exists>c. active_tree runs c = Some (Some i))"
proof -
  have "has_child i runs \<longleftrightarrow> (\<exists>c r. (c, r) \<in> set runs \<and> ar_parent r = Some i)"
    by (force simp: has_child_def list_ex_iff)
  also have "\<dots> \<longleftrightarrow> (\<exists>c r. bt_get runs c = Some r \<and> ar_parent r = Some i)"
    using bt_get_iff [OF assms] by simp
  finally show ?thesis by (auto simp: active_tree_def)
qed

lemma active_tree_insert: "active_tree (bt_insert i r runs) = (active_tree runs)(i \<mapsto> ar_parent r)"
  by (auto simp: active_tree_def)

lemma active_tree_remove: "active_tree (bt_remove i runs) = (active_tree runs)(i := None)"
  by (auto simp: active_tree_def)

lemma place_event_kind [simp]:
  "ev_event_kind (place_event runs n ev) = ev_event_kind ev" "ev_run_id (place_event runs n ev) = ev_run_id ev"
  by (simp_all add: place_event_def Let_def split: option.splits)

lemma place_event_parent:
  "ev_parent_run_id (place_event runs n ev) =
     (case bt_get runs (ev_run_id ev) of None \<Rightarrow> ev_parent_run_id ev | Some r \<Rightarrow> ar_parent r)"
  by (simp add: place_event_def Let_def split: option.splits)

lemma number_plain:
  "number_events runs n evs = (m, Some placed) \<Longrightarrow> list_all plain_event evs \<Longrightarrow>
   replay_tree placed (active_tree runs) = Some (active_tree runs)"
proof (induction evs arbitrary: n m placed)
  case (Cons ev evs)
  then obtain n' placed' where p: "number_events runs n' evs = (m, Some placed')"
    "placed = place_event runs n' ev # placed'"
    by (auto split: option.splits prod.splits)
  have "tree_step (place_event runs n' ev) (active_tree runs) = Some (active_tree runs)"
    using Cons.prems(2)
    by (cases "bt_get runs (ev_run_id ev)")
      (auto simp: tree_step_def plain_event_def place_event_parent active_tree_def Let_def split: event_kind.splits)
  then show ?case using p Cons.IH [OF p(1)] Cons.prems(2) by simp
qed simp

lemma publish_traced:
  assumes "publish_batch (logging S) evs s = (r, s')" "traced s" "list_all plain_event evs"
  shows "traced s'"
proof (cases r)
  case (Inl e)
  then show ?thesis using publish_refused(1,2) [OF assms(1) [unfolded Inl]] assms(2) by (simp add: traced_def)
next
  case (Inr u)
  from publish_logged [OF assms(1) [unfolded Inr]] show ?thesis
    using number_plain assms(2,3) by (metis (no_types, lifting) option.case(2) replay_append traced_def)
qed

lemma begin_run_traced:
  assumes "begin_run (logging S) m i parent kind command ctx s = (r, s')" "traced s"
    "parent \<noteq> None \<Longrightarrow> bt_get (oc_runs s) (the parent) \<noteq> None"
  shows "traced s'"
proof (cases "bt_get (oc_runs s) i")
  case (Some x)
  then show ?thesis using assms by (simp add: begin_run_def)
next
  case None
  let ?root = "case parent of None \<Rightarrow> i | Some p \<Rightarrow> ar_root (the (bt_get (oc_runs s) p))"
  let ?ev = "run_started_event (logging S) m i parent ?root kind command ctx"
  obtain q s1 where q: "publish_batch (logging S) [?ev] s = (q, s1)" by fastforce
  show ?thesis
  proof (cases q)
    case (Inl e)
    then have "s' = s1" using assms(1) None q by (simp add: begin_run_def)
    then show ?thesis using publish_refused(1,2) [OF q [unfolded Inl]] assms(2) by (simp add: traced_def)
  next
    case (Inr u)
    then obtain n where n: "oc_console s1 = oc_console s @ [place_event (oc_runs s) n ?ev]" "oc_runs s1 = oc_runs s"
      using q by (auto elim!: publish_logged split: option.splits)
    have ev: "ev_run_id ?ev = i" "ev_parent_run_id ?ev = parent" "ev_event_kind ?ev = RunStarted"
      by (simp_all add: run_started_event_def Let_def split: option.splits)
    have "tree_step (place_event (oc_runs s) n ?ev) (active_tree (oc_runs s)) =
        Some ((active_tree (oc_runs s))(i \<mapsto> parent))"
      using None assms(3) by (auto simp: tree_step_def ev place_event_parent active_tree_def split: option.splits)
    then have "replay_tree (oc_console s1) (\<lambda>i. None) = Some ((active_tree (oc_runs s))(i \<mapsto> parent))"
      using assms(2) n(1) by (simp add: traced_def replay_append)
    then show ?thesis
      using assms(1,2) None q Inr n by (auto simp: begin_run_def Let_def traced_def active_tree_insert)
  qed
qed

lemma finish_run_traced:
  assumes "finish_run (logging S) m i out err s = (r, s')" "traced s"
  shows "traced s'"
proof (cases "has_child i (oc_runs s) \<or> bt_get (oc_runs s) i = None")
  case True
  then show ?thesis using assms by (auto simp: finish_run_def split: if_splits option.splits)
next
  case False
  then obtain run where run: "bt_get (oc_runs s) i = Some run" by auto
  let ?ev = "run_finished_event m i out err run"
  obtain q s1 where q: "publish_batch (logging S) [?ev] s = (q, s1)" by fastforce
  show ?thesis
  proof (cases q)
    case (Inl e)
    then have "s' = s1" using assms(1) False run q by (simp add: finish_run_def)
    then show ?thesis using publish_refused(1,2) [OF q [unfolded Inl]] assms(2) by (simp add: traced_def)
  next
    case (Inr u)
    then obtain n where n: "oc_console s1 = oc_console s @ [place_event (oc_runs s) n ?ev]" "oc_runs s1 = oc_runs s"
      using q by (auto elim!: publish_logged split: option.splits)
    have ev: "ev_run_id ?ev = i" "ev_event_kind ?ev = RunFinished"
      by (simp_all add: run_finished_event_def Let_def split: option.splits)
    have "tree_step (place_event (oc_runs s) n ?ev) (active_tree (oc_runs s)) =
        Some ((active_tree (oc_runs s))(i := None))"
      using run False assms(2) has_child_iff [of "oc_runs s" i]
      by (auto simp: tree_step_def ev place_event_parent active_tree_def traced_def)
    then have "replay_tree (oc_console s1) (\<lambda>i. None) = Some ((active_tree (oc_runs s))(i := None))"
      using assms(2) n(1) by (simp add: traced_def replay_append)
    then show ?thesis
      using assms(1,2) False run q Inr n by (auto simp: finish_run_def traced_def active_tree_remove)
  qed
qed

lemma traced_sequence [simp]: "traced (s \<lparr> oc_sequence := n \<rparr>) = traced s"
  by (simp add: traced_def)

lemma start_session_traced:
  "start_session (logging S) m i command s = (r, s') \<Longrightarrow> traced s \<Longrightarrow> traced s'"
  by (auto simp: start_session_def split: if_splits dest: begin_run_traced)

lemmas snd_traced = publish_traced [OF prod.collapse [symmetric]]
  start_session_traced [OF prod.collapse [symmetric]] begin_run_traced [OF prod.collapse [symmetric]]
  finish_run_traced [OF prod.collapse [symmetric]]

lemma exec_call_traced: "plain_call c \<Longrightarrow> traced s \<Longrightarrow> traced (snd (exec_call (logging S) ms c s))"
proof (cases c)
  case FlushCall
  assume "traced s"
  then show ?thesis using FlushCall by (simp add: coordinator_flush_def traced_def split: prod.splits)
qed (auto simp: start_run_with_context_def intro: snd_traced finish_session_invariant)

text \<open>
  C30. The journal refines the run tree: reading the acknowledged events, every run starts once
  under a parent that is active, every event of an active run names its parent, no run ends
  before its children, and the runs left open are exactly those the coordinator still holds.
  Batches published from outside hold no run starts or ends of their own.
\<close>

theorem journal_refines_run_tree:
  assumes "\<And>ms c. (ms, c) \<in> set calls \<Longrightarrow> plain_call c"
    "s = exec_calls (logging S) calls (coordinator_new j [])"
  shows "replay_tree (oc_console s) (\<lambda>i. None) = Some (active_tree (oc_runs s))"
proof -
  have "traced (coordinator_new j [])"
    by (simp add: traced_def coordinator_new_def active_tree_def fun_eq_iff)
  then have "traced s"
    unfolding assms(2) using assms(1) exec_call_traced by (intro exec_calls_invariant [where P = traced]) blast+
  then show ?thesis by (simp add: traced_def)
qed


subsection \<open>After a failed write\<close>

lemma publish_failed: "oc_failed s \<Longrightarrow> publish_batch S evs s = (Inl (journal_other ''journal publication previously failed''), s)"
  by (simp add: publish_batch_def)

lemma begin_run_failed: "oc_failed s \<Longrightarrow> \<exists>e. begin_run S m i p k c ctx s = (Inl e, s)"
  by (simp add: begin_run_def publish_failed Let_def)

lemma finish_run_failed: "oc_failed s \<Longrightarrow> \<exists>e. finish_run S m i out err s = (Inl e, s)"
  by (auto simp: finish_run_def publish_failed split: option.splits)

lemma finish_session_failed:
  assumes "oc_failed s" shows "\<exists>e. finish_session S ms i out err s = (Inl e, s)"
proof -
  have "\<exists>q. close_children S ms i err s = (q, s)"
  proof (cases "open_leaf i (oc_runs s)")
    case (Some c)
    obtain e where "finish_run S (ms (length (oc_runs s))) c ErrorOutcome err s = (Inl e, s)"
      using finish_run_failed [OF assms] by blast
    then show ?thesis using Some by (simp add: close_children.simps [of S ms i err s])
  qed (simp add: close_children.simps [of S ms i err s])
  then obtain q where q: "(if err \<noteq> None then close_children S ms i err s else (Inr (), s)) = (q, s)"
    by (cases "err = None") auto
  show ?thesis
    unfolding finish_session_def q using finish_run_failed [OF assms] by (cases q) auto
qed

text \<open>
  After a failed write to the journal every further publication, start and end of a run
  fails, and neither the journal, nor the console, nor the active runs change any more.
\<close>

theorem failed_journal_silent:
  assumes "oc_failed s" "c \<noteq> FlushCall"
  shows "\<exists>e s'. exec_call S ms c s = (Inl e, s') \<and> (s' = s \<or> s' = s \<lparr> oc_sequence := 0 \<rparr>)"
proof (cases c)
  case (StartSession i command)
  have "oc_failed (s \<lparr> oc_sequence := 0 \<rparr>)" using assms(1) by simp
  then obtain e where "begin_run S (ms (length (oc_runs s))) i None RkSession (Some command) run_context_default
      (s \<lparr> oc_sequence := 0 \<rparr>) = (Inl e, s \<lparr> oc_sequence := 0 \<rparr>)"
    using begin_run_failed by blast
  then show ?thesis using StartSession by (cases "oc_runs s = []") (simp_all add: start_session_def)
next
  case (FinishSession i out err)
  then show ?thesis using finish_session_failed [OF assms(1)] by (metis exec_call.simps(5))
next
  case (StartRun i p kind ctx)
  then show ?thesis
    using begin_run_failed [OF assms(1), of S "ms (length (oc_runs s))" i "Some p" kind None ctx]
    by (auto simp: start_run_with_context_def)
next
  case (FinishRun i out err)
  then show ?thesis
    using finish_run_failed [OF assms(1), of S "ms (length (oc_runs s))" i out err] by auto
qed (use assms in \<open>simp_all add: publish_failed\<close>)

subsection \<open>Closing a session\<close>

definition ranked :: "(run_id \<Rightarrow> nat) \<Rightarrow> (run_id, active_run) btree \<Rightarrow> bool" where
  "ranked rank runs \<longleftrightarrow>
     (\<forall>i r. bt_get runs i = Some r \<longrightarrow>
        (case ar_parent r of
           None \<Rightarrow> ar_root r = i
         | Some p \<Rightarrow> rank p < rank i \<and> (\<exists>q. bt_get runs p = Some q \<and> ar_root q = ar_root r)))"

definition tree_ok :: "(run_id, active_run) btree \<Rightarrow> bool" where
  "tree_ok runs \<longleftrightarrow> bt_ok runs \<and> (\<exists>rank. ranked rank runs)"

lemma tree_ok_insert:
  assumes "tree_ok runs" "bt_get runs i = None"
    "case parent of None \<Rightarrow> rt = i | Some p \<Rightarrow> \<exists>q. bt_get runs p = Some q \<and> ar_root q = rt"
  shows "tree_ok (bt_insert i \<lparr> ar_root = rt, ar_parent = parent, ar_kind = k, ar_started_at = t, ar_started = m \<rparr> runs)"
proof -
  obtain rank where r: "ranked rank runs" using assms(1) by (auto simp: tree_ok_def)
  have ne: "ar_parent x = Some p \<Longrightarrow> bt_get runs j = Some x \<Longrightarrow> p \<noteq> i" for p j x
    using r assms(2) by (fastforce simp: ranked_def)
  have "ranked (case parent of None \<Rightarrow> rank | Some p \<Rightarrow> rank(i := Suc (rank p)))
     (bt_insert i \<lparr> ar_root = rt, ar_parent = parent, ar_kind = k, ar_started_at = t, ar_started = m \<rparr> runs)"
    unfolding ranked_def
  proof (intro allI impI)
    fix j x
    assume x: "bt_get (bt_insert i \<lparr> ar_root = rt, ar_parent = parent, ar_kind = k, ar_started_at = t, ar_started = m \<rparr> runs) j = Some x"
    show "case ar_parent x of None \<Rightarrow> ar_root x = j
      | Some p \<Rightarrow> (case parent of None \<Rightarrow> rank | Some p \<Rightarrow> rank(i := Suc (rank p))) p
          < (case parent of None \<Rightarrow> rank | Some p \<Rightarrow> rank(i := Suc (rank p))) j \<and>
          (\<exists>q. bt_get (bt_insert i \<lparr> ar_root = rt, ar_parent = parent, ar_kind = k, ar_started_at = t, ar_started = m \<rparr> runs) p = Some q \<and>
             ar_root q = ar_root x)"
    proof (cases "j = i")
      case True
      then show ?thesis using x assms(2,3) by (cases parent) auto
    next
      case False
      then have get: "bt_get runs j = Some x" using x by simp
      then show ?thesis
        using False r ne [OF _ get] by (cases "ar_parent x"; cases parent) (fastforce simp: ranked_def)+
    qed
  qed
  then show ?thesis using assms(1) by (auto simp: tree_ok_def)
qed

lemma tree_ok_remove:
  assumes "tree_ok runs" "\<not> has_child i runs" shows "tree_ok (bt_remove i runs)"
proof -
  obtain rank where r: "ranked rank runs" using assms(1) by (auto simp: tree_ok_def)
  have no: "ar_parent x \<noteq> Some i" if "bt_get runs j = Some x" for j x
    using assms that has_child_iff [of runs i] by (auto simp: tree_ok_def active_tree_def)
  have "ranked rank (bt_remove i runs)"
    unfolding ranked_def
  proof (intro allI impI)
    fix j x assume "bt_get (bt_remove i runs) j = Some x"
    then have "bt_get runs j = Some x" by (simp split: if_splits)
    then show "case ar_parent x of None \<Rightarrow> ar_root x = j
      | Some p \<Rightarrow> rank p < rank j \<and> (\<exists>q. bt_get (bt_remove i runs) p = Some q \<and> ar_root q = ar_root x)"
      using r no [of j x] by (cases "ar_parent x") (fastforce simp: ranked_def)+
  qed
  then show ?thesis using assms(1) by (auto simp: tree_ok_def)
qed

text \<open>The root of an active run is active and has no parent.\<close>

lemma root_active:
  assumes "ranked rank runs" "bt_get runs c = Some r"
  shows "\<exists>q. bt_get runs (ar_root r) = Some q \<and> ar_parent q = None"
  using assms(2)
proof (induction "rank c" arbitrary: c r rule: less_induct)
  case less
  show ?case
  proof (cases "ar_parent r")
    case None
    then have "ar_root r = c" using assms(1) less.prems by (fastforce simp: ranked_def)
    then show ?thesis using None less.prems by simp
  next
    case (Some p)
    then obtain q where q: "rank p < rank c" "bt_get runs p = Some q" "ar_root q = ar_root r"
      using assms(1) less.prems by (fastforce simp: ranked_def)
    from less.hyps [OF q(1,2)] show ?thesis using q(3) by simp
  qed
qed

lemma open_leaf_None:
  assumes "tree_ok runs" "open_leaf i runs = None" "bt_get runs c = Some r" "ar_root r = i"
  shows "c = i"
proof (rule ccontr)
  assume "c \<noteq> i"
  obtain rank where rk: "ranked rank runs" and ok: "bt_ok runs" using assms(1) by (auto simp: tree_ok_def)
  define A where "A = {c. c \<noteq> i \<and> (\<exists>r. bt_get runs c = Some r \<and> ar_root r = i)}"
  have "A \<subseteq> fst ` set runs" using bt_get_in_set by (force simp: A_def)
  then have fin: "finite A" by (rule finite_subset) simp
  have "c \<in> A" using \<open>c \<noteq> i\<close> assms(3,4) by (simp add: A_def)
  then have "Max (rank ` A) \<in> rank ` A" using fin by (intro Max_in) auto
  then obtain d where d: "d \<in> A" "rank d = Max (rank ` A)" by auto
  have top: "rank e \<le> rank d" if "e \<in> A" for e
    unfolding d(2) using fin that by (intro Max_ge) auto
  from d(1) obtain x where x: "bt_get runs d = Some x" "ar_root x = i" "d \<noteq> i" by (auto simp: A_def)
  have "has_child d runs"
  proof (rule ccontr)
    assume "\<not> has_child d runs"
    then have "(d, x) \<in> set runs \<and> fst (d, x) \<noteq> i \<and> ar_root (snd (d, x)) = i \<and> \<not> has_child (fst (d, x)) runs"
      using x bt_get_in_set [OF x(1)] by simp
    then show False using assms(2) by (simp add: open_leaf_def find_None_iff) blast
  qed
  then obtain e y where e: "bt_get runs e = Some y" "ar_parent y = Some d"
    using has_child_iff [OF ok] by (auto simp: active_tree_def)
  then have up: "rank d < rank e" "ar_root y = i" using rk x by (fastforce simp: ranked_def)+
  have "e \<noteq> i" using root_active [OF rk x(1)] e x(2) by auto
  then have "e \<in> A" using e up by (auto simp: A_def)
  then show False using top up(1) by fastforce
qed


lemma publish_any_runs: "oc_runs (snd (publish_batch S evs s)) = oc_runs s"
  by (metis prod.collapse publish_runs)

lemma begin_run_tree:
  assumes "tree_ok (oc_runs s)" "parent \<noteq> None \<Longrightarrow> bt_get (oc_runs s) (the parent) \<noteq> None"
  shows "tree_ok (oc_runs (snd (begin_run S m i parent kind command ctx s)))"
  using assms
  by (auto simp: begin_run_def Let_def publish_runs split: sum.splits prod.splits option.splits
      intro!: tree_ok_insert)

lemma finish_run_tree: "tree_ok (oc_runs s) \<Longrightarrow> tree_ok (oc_runs (snd (finish_run S m i out err s)))"
  by (auto simp: finish_run_def publish_runs split: sum.splits prod.splits option.splits intro!: tree_ok_remove)

lemma exec_call_tree: "tree_ok (oc_runs s) \<Longrightarrow> tree_ok (oc_runs (snd (exec_call S ms c s)))"
  by (cases c)
    (auto simp: start_session_def start_run_with_context_def coordinator_flush_def publish_any_runs
      split: prod.splits intro!: begin_run_tree finish_run_tree
      finish_session_invariant [where P = "\<lambda>s. tree_ok (oc_runs s)"])

lemma reachable_tree_ok: "tree_ok (oc_runs (exec_calls S calls (coordinator_new j c)))"
proof -
  have "tree_ok (oc_runs (coordinator_new j c))"
    by (simp add: tree_ok_def coordinator_new_def ranked_def)
  then show ?thesis
    using exec_calls_invariant [where P = "\<lambda>s. tree_ok (oc_runs s)"] exec_call_tree by blast
qed

definition willing :: "('j, 'c) sinks \<Rightarrow> ('j, 'c) coordinator \<Rightarrow> bool" where
  "willing S s \<longleftrightarrow> (\<forall>evs j. fst (sk_append S evs j) = Inr ()) \<and> \<not> oc_failed s \<and>
     oc_sequence s + length (oc_runs s) \<le> u64_max"

lemma finish_run_willing:
  assumes "willing S s" "\<not> has_child c (oc_runs s)" "bt_get (oc_runs s) c = Some r"
  shows "\<exists>s'. finish_run S m c out err s = (Inr (), s') \<and> oc_runs s' = bt_remove c (oc_runs s) \<and> willing S s'"
proof -
  have "oc_runs s \<noteq> []" using assms(3) by auto
  then have "Suc (oc_sequence s) \<le> u64_max" using assms(1) by (cases "oc_runs s") (auto simp: willing_def)
  moreover obtain j where
    "sk_append S [place_event (oc_runs s) (Suc (oc_sequence s)) (run_finished_event m c out err r)] (oc_journal s) = (Inr (), j)"
    using assms(1) by (metis prod.collapse willing_def)
  ultimately obtain s1 where "publish_batch S [run_finished_event m c out err r] s = (Inr (), s1)"
      "oc_sequence s1 = Suc (oc_sequence s)" "\<not> oc_failed s1" "oc_runs s1 = oc_runs s"
    using assms(1) by (auto simp: publish_batch_def checked_add_def willing_def)
  then show ?thesis
    using assms length_bt_remove [of "oc_runs s" c] by (auto simp: finish_run_def willing_def)
qed

lemma open_leaf_Some:
  assumes "bt_ok runs" "open_leaf i runs = Some c"
  shows "c \<noteq> i \<and> \<not> has_child c runs \<and> (\<exists>r. bt_get runs c = Some r \<and> ar_root r = i)"
proof -
  obtain e where e: "find (\<lambda>e. fst e \<noteq> i \<and> ar_root (snd e) = i \<and> \<not> has_child (fst e) runs) runs = Some e" "c = fst e"
    using assms(2) by (auto simp: open_leaf_def)
  then have "e \<in> set runs \<and> fst e \<noteq> i \<and> ar_root (snd e) = i \<and> \<not> has_child (fst e) runs"
    by (auto simp: find_Some_iff)
  then show ?thesis using bt_get_iff [OF assms(1), of c "snd e"] e(2) by auto
qed

lemma close_children_closes:
  assumes "tree_ok (oc_runs s)" "willing S s"
  shows "\<exists>s'. close_children S ms i err s = (Inr (), s') \<and> tree_ok (oc_runs s') \<and> willing S s' \<and>
    open_leaf i (oc_runs s') = None \<and>
    (\<forall>c r. bt_get (oc_runs s) c = Some r \<longrightarrow> c = i \<or> ar_root r \<noteq> i \<longrightarrow> bt_get (oc_runs s') c = Some r) \<and>
    (\<forall>c r. bt_get (oc_runs s') c = Some r \<longrightarrow> bt_get (oc_runs s) c = Some r)"
  using assms
proof (induction S ms i err s rule: close_children.induct)
  case (1 S ms i err s)
  show ?case
  proof (cases "open_leaf i (oc_runs s)")
    case None
    then show ?thesis using 1(2,3) by (auto simp: close_children.simps [of S ms i err s])
  next
    case (Some c)
    from open_leaf_Some [OF _ Some] 1(2) obtain r where c: "c \<noteq> i" "\<not> has_child c (oc_runs s)"
      "bt_get (oc_runs s) c = Some r" "ar_root r = i" by (auto simp: tree_ok_def)
    from finish_run_willing [OF 1(3) c(2,3), of "ms (length (oc_runs s))" ErrorOutcome err] obtain s1 where
      f: "finish_run S (ms (length (oc_runs s))) c ErrorOutcome err s = (Inr (), s1)"
        "oc_runs s1 = bt_remove c (oc_runs s)" "willing S s1" by blast
    have "tree_ok (oc_runs s1)" using tree_ok_remove [OF 1(2) c(2)] f(2) by simp
    from 1(1) [OF Some f(1) [symmetric] refl this f(3)] obtain s' where
      s': "close_children S ms i err s1 = (Inr (), s')" "tree_ok (oc_runs s')" "willing S s'"
        "open_leaf i (oc_runs s') = None"
      and keep: "\<And>d q. bt_get (oc_runs s1) d = Some q \<Longrightarrow> d = i \<or> ar_root q \<noteq> i \<Longrightarrow> bt_get (oc_runs s') d = Some q"
      and only: "\<And>d q. bt_get (oc_runs s') d = Some q \<Longrightarrow> bt_get (oc_runs s1) d = Some q" by blast
    have "close_children S ms i err s = (Inr (), s')"
      using Some f(1) s'(1) by (simp add: close_children.simps [of S ms i err s])
    moreover have "bt_get (oc_runs s') d = Some q" if "bt_get (oc_runs s) d = Some q" "d = i \<or> ar_root q \<noteq> i" for d q
      using keep [of d q] that c f(2) by (cases "d = c") auto
    moreover have "bt_get (oc_runs s) d = Some q" if "bt_get (oc_runs s') d = Some q" for d q
      using only [OF that] f(2) by (simp split: if_splits)
    ultimately show ?thesis using s'(2,3,4) by blast
  qed
qed



subsection \<open>Concrete instances\<close>

definition demo_sinks :: "bool \<Rightarrow> (nat, measurement_event list) sinks" where
  "demo_sinks refuse = \<lparr> sk_append = (\<lambda>evs j. (if refuse then Inl (JCsv []) else Inr (), j + length evs)),
     sk_flush = (\<lambda>j. (Inr (), j)), sk_offer = (\<lambda>ev kept. kept @ [ev]), sk_version = ''0.1'', sk_process_id = 7 \<rparr>"

definition demo_moment :: "nat \<Rightarrow> moment" where
  "demo_moment n = \<lparr> mo_utc = int n, mo_mono = n, mo_event_id = n \<rparr>"

definition demo_calls :: "((nat \<Rightarrow> moment) \<times> call) list" where
  "demo_calls =
     [(demo_moment, StartSession 1 ''run''), (demo_moment, StartRun 2 1 RkPingRound run_context_default),
      (demo_moment, Publish [event_new 5 2 PingProbe Success 3])]"

lemma demo_logging [simp]: "logging (demo_sinks b) = demo_sinks b"
  by (simp add: logging_def demo_sinks_def)

lemma demo_publish:
  "publish_batch (demo_sinks False) [ev] s =
     (if oc_failed s then (Inl (journal_other ''journal publication previously failed''), s)
      else if u64_max < oc_sequence s + 1
      then (Inl (journal_other ''event sequence exhausted''), s)
      else (Inr (), s \<lparr> oc_sequence := oc_sequence s + 1, oc_journal := oc_journal s + 1,
        oc_console := oc_console s @ [place_event (oc_runs s) (oc_sequence s + 1) ev] \<rparr>))"
  by (simp add: publish_batch_def checked_add_def demo_sinks_def)

lemma demo_state:
  "oc_runs (exec_calls (demo_sinks False) demo_calls (coordinator_new 0 [])) =
     [(1, \<lparr> ar_root = 1, ar_parent = None, ar_kind = RkSession, ar_started_at = 0, ar_started = 0 \<rparr>),
      (2, \<lparr> ar_root = 1, ar_parent = Some 1, ar_kind = RkPingRound, ar_started_at = 1, ar_started = 1 \<rparr>)] \<and>
   oc_failed (exec_calls (demo_sinks False) demo_calls (coordinator_new 0 [])) = False \<and>
   oc_sequence (exec_calls (demo_sinks False) demo_calls (coordinator_new 0 [])) = 3"
  by (simp add: exec_calls_def demo_calls_def start_session_def start_run_with_context_def begin_run_def
      demo_publish coordinator_new_def demo_moment_def bt_get_def)

theorem journal_refines_run_tree_witness:
  "replay_tree (oc_console (exec_calls (demo_sinks False) demo_calls (coordinator_new 0 []))) (\<lambda>i. None) =
     Some (active_tree (oc_runs (exec_calls (demo_sinks False) demo_calls (coordinator_new 0 []))))"
proof -
  have "plain_event (event_new 5 2 PingProbe Success 3)" by (simp add: plain_event_def)
  then have "(ms, c) \<in> set demo_calls \<Longrightarrow> plain_call c" for ms c by (auto simp: demo_calls_def)
  from journal_refines_run_tree [OF this refl, where S = "demo_sinks False" and j = 0] show ?thesis by simp
qed

theorem failed_journal_silent_witness:
  "\<exists>e s'. exec_call (demo_sinks True) demo_moment (FinishRun 1 Success None)
       ((coordinator_new 0 []) \<lparr> oc_failed := True \<rparr>) = (Inl e, s') \<and> oc_journal s' = 0"
proof -
  have "oc_failed ((coordinator_new (0::nat) ([] :: measurement_event list)) \<lparr> oc_failed := True \<rparr>)" by simp
  from failed_journal_silent [OF this, of "FinishRun 1 Success None" "demo_sinks True" demo_moment]
  obtain e s' where "exec_call (demo_sinks True) demo_moment (FinishRun 1 Success None)
       ((coordinator_new 0 []) \<lparr> oc_failed := True \<rparr>) = (Inl e, s')"
    "s' = (coordinator_new 0 []) \<lparr> oc_failed := True \<rparr> \<or>
     s' = (coordinator_new 0 []) \<lparr> oc_failed := True, oc_sequence := 0 \<rparr>"
    by auto
  then show ?thesis by (auto simp: coordinator_new_def)
qed


end
