(* ===== verification/JournalRow.thy ===== *)
theory JournalRow
  imports Coordinator StdText
begin

text \<open>
  The columns of the journal (\<open>csv_event!\<close> in \<open>journal.rs\<close>) with the names serde gives the
  enumerations of \<open>model.rs\<close>. How a cell and a record become bytes is the \<open>csv\<close> crate's.
\<close>

datatype csv_value =
    CvEmpty
  | CvNat nat
  | CvInt int
  | CvFloat f64
  | CvBool bool
  | CvText string
  | CvTime time
  | CvDate date
  | CvUuid uuid
  | CvIp ip_addr
  | CvJson "(string \<times> json_value) list"

definition opt_cell :: "('a \<Rightarrow> csv_value) \<Rightarrow> 'a option \<Rightarrow> csv_value" where
  "opt_cell f x = (case x of None \<Rightarrow> CvEmpty | Some v \<Rightarrow> f v)"

subsection \<open>Names of the enumerations\<close>

definition event_kind_text :: "event_kind \<Rightarrow> string" where
  "event_kind_text x =
     (case x of
        RunStarted \<Rightarrow> ''run_started''
      | RunFinished \<Rightarrow> ''run_finished''
      | PingProbe \<Rightarrow> ''ping_probe''
      | BandwidthEvent \<Rightarrow> ''bandwidth''
      | RequestFailureEvent \<Rightarrow> ''request_failure''
      | SchedulerEvent \<Rightarrow> ''scheduler'')"

definition run_kind_text :: "run_kind \<Rightarrow> string" where
  "run_kind_text x =
     (case x of
        RkSession \<Rightarrow> ''session''
      | RkPingRound \<Rightarrow> ''ping_round''
      | RkBandwidth \<Rightarrow> ''bandwidth'')"

definition outcome_text :: "outcome \<Rightarrow> string" where
  "outcome_text x =
     (case x of
        Started \<Rightarrow> ''started''
      | Success \<Rightarrow> ''success''
      | PartialOutcome \<Rightarrow> ''partial''
      | TimeoutOutcome \<Rightarrow> ''timeout''
      | Unreachable \<Rightarrow> ''unreachable''
      | PermissionDeniedOutcome \<Rightarrow> ''permission_denied''
      | CancelledOutcome \<Rightarrow> ''cancelled''
      | ErrorOutcome \<Rightarrow> ''error''
      | NoCapacity \<Rightarrow> ''no_capacity''
      | RateLimited \<Rightarrow> ''rate_limited''
      | Scheduled \<Rightarrow> ''scheduled''
      | Rescheduled \<Rightarrow> ''rescheduled''
      | Deferred \<Rightarrow> ''deferred''
      | Suppressed \<Rightarrow> ''suppressed''
      | Expired \<Rightarrow> ''expired'')"

definition provider_kind_text :: "provider_kind \<Rightarrow> string" where
  "provider_kind_text x =
     (case x of
        PkMlab \<Rightarrow> ''mlab''
      | PkDirect \<Rightarrow> ''direct'')"

definition scheduler_action_text :: "scheduler_action \<Rightarrow> string" where
  "scheduler_action_text x =
     (case x of
        TriggerPending \<Rightarrow> ''trigger_pending''
      | TriggerMergedWithDeferred \<Rightarrow> ''trigger_merged_with_deferred''
      | TriggerCancelled \<Rightarrow> ''trigger_cancelled''
      | TriggerExpired \<Rightarrow> ''trigger_expired''
      | DeferredExpired \<Rightarrow> ''deferred_expired''
      | BandwidthStart \<Rightarrow> ''bandwidth_start''
      | RateLimitAction \<Rightarrow> ''rate_limit''
      | ClockRollbackAction \<Rightarrow> ''clock_rollback''
      | SuppressedAction \<Rightarrow> ''suppressed''
      | DeferredAction \<Rightarrow> ''deferred''
      | InterfaceRecovered \<Rightarrow> ''interface_recovered''
      | InterfaceRetry \<Rightarrow> ''interface_retry''
      | BandwidthSuppressed \<Rightarrow> ''bandwidth_suppressed''
      | BandwidthInterfaceSkipped \<Rightarrow> ''bandwidth_interface_skipped'')"

definition scheduler_reason_text :: "scheduler_reason \<Rightarrow> string" where
  "scheduler_reason_text x =
     (case x of
        HealthDegraded \<Rightarrow> ''health_degraded''
      | HealthRecovered \<Rightarrow> ''health_recovered''
      | TriggerTtlExpired \<Rightarrow> ''trigger_ttl_expired''
      | DayLimit \<Rightarrow> ''day_limit''
      | AttemptLimit \<Rightarrow> ''attempt_limit''
      | OpportunityReady \<Rightarrow> ''opportunity_ready''
      | ProviderRateLimit \<Rightarrow> ''provider_rate_limit''
      | ClockRollbackReason \<Rightarrow> ''clock_rollback''
      | DailyCapReason \<Rightarrow> ''daily_cap''
      | ProviderCooldownReason \<Rightarrow> ''provider_cooldown''
      | MinimumSpacing \<Rightarrow> ''minimum_spacing''
      | InterfaceAvailable \<Rightarrow> ''interface_available''
      | InterfaceUnavailable \<Rightarrow> ''interface_unavailable''
      | TriggerInterfaceMissing \<Rightarrow> ''trigger_interface_missing''
      | TriggerInterfaceBackoff \<Rightarrow> ''trigger_interface_backoff''
      | TriggerInterfaceUnavailable \<Rightarrow> ''trigger_interface_unavailable''
      | NoHealthyInterface \<Rightarrow> ''no_healthy_interface'')"

definition trigger_reason_text :: "trigger_reason \<Rightarrow> string" where
  "trigger_reason_text x =
     (case x of
        TrScheduled \<Rightarrow> ''scheduled''
      | TrPingLoss \<Rightarrow> ''ping_loss''
      | TrPingRtt \<Rightarrow> ''ping_rtt''
      | TrManual \<Rightarrow> ''manual'')"

definition load_phase_text :: "load_phase \<Rightarrow> string" where
  "load_phase_text x =
     (case x of
        PhaseSetup \<Rightarrow> ''setup''
      | PhaseDownload \<Rightarrow> ''download''
      | PhaseUpload \<Rightarrow> ''upload'')"

definition request_direction_text :: "request_direction \<Rightarrow> string" where
  "request_direction_text x =
     (case x of
        DirDownload \<Rightarrow> ''download''
      | DirUpload \<Rightarrow> ''upload'')"

definition request_stage_text :: "request_stage \<Rightarrow> string" where
  "request_stage_text x =
     (case x of
        StLocate \<Rightarrow> ''locate''
      | StDns \<Rightarrow> ''dns''
      | StConnect \<Rightarrow> ''connect''
      | StTls \<Rightarrow> ''tls''
      | StWebsocketHandshake \<Rightarrow> ''websocket_handshake''
      | StDownload \<Rightarrow> ''download''
      | StUpload \<Rightarrow> ''upload''
      | StCleanup \<Rightarrow> ''cleanup'')"

definition error_kind_text :: "error_kind \<Rightarrow> string" where
  "error_kind_text x =
     (case x of
        EkIcmpTimeout \<Rightarrow> ''icmp_timeout''
      | EkIcmpUnreachable \<Rightarrow> ''icmp_unreachable''
      | EkPermissionDenied \<Rightarrow> ''permission_denied''
      | EkDns \<Rightarrow> ''dns''
      | EkConnect \<Rightarrow> ''connect''
      | EkTls \<Rightarrow> ''tls''
      | EkHttpStatus \<Rightarrow> ''http_status''
      | EkWebsocketHandshake \<Rightarrow> ''websocket_handshake''
      | EkDownloadFailed \<Rightarrow> ''download_failed''
      | EkUploadFailed \<Rightarrow> ''upload_failed''
      | EkProviderCooldown \<Rightarrow> ''provider_cooldown''
      | EkDailyCap \<Rightarrow> ''daily_cap''
      | EkCancelled \<Rightarrow> ''cancelled''
      | EkTimeout \<Rightarrow> ''timeout''
      | EkIo \<Rightarrow> ''io''
      | EkProtocol \<Rightarrow> ''protocol''
      | EkInternal \<Rightarrow> ''internal'')"

subsection \<open>Columns\<close>

text \<open>One declaration gives the header and the cells.\<close>

definition csv_columns :: "(string \<times> (measurement_event \<Rightarrow> csv_value)) list" where
  "csv_columns =
     [
      (''schema_version'', (\<lambda>ev. CvNat (ev_schema_version ev))),
      (''event_id'', (\<lambda>ev. CvUuid (ev_event_id ev))),
      (''event_kind'', (\<lambda>ev. (CvText \<circ> event_kind_text) (ev_event_kind ev))),
      (''event_sequence'', (\<lambda>ev. opt_cell CvNat (ev_event_sequence ev))),
      (''run_id'', (\<lambda>ev. CvUuid (ev_run_id ev))),
      (''parent_run_id'', (\<lambda>ev. opt_cell CvUuid (ev_parent_run_id ev))),
      (''root_run_id'', (\<lambda>ev. CvUuid (ev_root_run_id ev))),
      (''run_kind'', (\<lambda>ev. (CvText \<circ> run_kind_text) (ev_run_kind ev))),
      (''scheduled_at_utc'', (\<lambda>ev. opt_cell CvTime (ev_scheduled_at_utc ev))),
      (''requested_at_utc'', (\<lambda>ev. opt_cell CvTime (ev_requested_at_utc ev))),
      (''started_at_utc'', (\<lambda>ev. opt_cell CvTime (ev_started_at_utc ev))),
      (''finished_at_utc'', (\<lambda>ev. opt_cell CvTime (ev_finished_at_utc ev))),
      (''elapsed_ms'', (\<lambda>ev. opt_cell CvFloat (ev_elapsed_ms ev))),
      (''outcome'', (\<lambda>ev. (CvText \<circ> outcome_text) (ev_outcome ev))),
      (''message'', (\<lambda>ev. opt_cell CvText (ev_message ev))),
      (''command'', (\<lambda>ev. opt_cell CvText (ev_command ev))),
      (''netband_version'', (\<lambda>ev. opt_cell CvText (ev_netband_version ev))),
      (''process_id'', (\<lambda>ev. opt_cell CvNat (ev_process_id ev))),
      (''interface'', (\<lambda>ev. opt_cell CvText (ev_interface ev))),
      (''connection_details'', (\<lambda>ev. opt_cell CvJson (ev_connection_details ev))),
      (''provider_id'', (\<lambda>ev. opt_cell CvText (ev_provider_id ev))),
      (''provider_kind'', (\<lambda>ev. opt_cell (CvText \<circ> provider_kind_text) (ev_provider_kind ev))),
      (''server_name'', (\<lambda>ev. opt_cell CvText (ev_server_name ev))),
      (''scheduler_action'', (\<lambda>ev. opt_cell (CvText \<circ> scheduler_action_text) (ev_scheduler_action ev))),
      (''scheduler_reason'', (\<lambda>ev. opt_cell (CvText \<circ> scheduler_reason_text) (ev_scheduler_reason ev))),
      (''trigger_reason'', (\<lambda>ev. opt_cell (CvText \<circ> trigger_reason_text) (ev_trigger_reason ev))),
      (''scheduler_not_before_utc'', (\<lambda>ev. opt_cell CvTime (ev_scheduler_not_before_utc ev))),
      (''provider_accounting_date'', (\<lambda>ev. opt_cell CvDate (ev_provider_accounting_date ev))),
      (''provider_daily_starts'', (\<lambda>ev. opt_cell CvNat (ev_provider_daily_starts ev))),
      (''bandwidth_start_reserved'', (\<lambda>ev. opt_cell CvBool (ev_bandwidth_start_reserved ev))),
      (''ping_target_ip'', (\<lambda>ev. opt_cell CvText (ev_ping_target_ip ev))),
      (''ping_local_ip'', (\<lambda>ev. opt_cell CvIp (ev_ping_local_ip ev))),
      (''ping_sequence'', (\<lambda>ev. opt_cell CvNat (ev_ping_sequence ev))),
      (''ping_packets_sent'', (\<lambda>ev. opt_cell CvNat (ev_ping_packets_sent ev))),
      (''ping_packets_received'', (\<lambda>ev. opt_cell CvNat (ev_ping_packets_received ev))),
      (''ping_rtt_ms'', (\<lambda>ev. opt_cell CvFloat (ev_ping_rtt_ms ev))),
      (''ping_icmp_type'', (\<lambda>ev. opt_cell CvNat (ev_ping_icmp_type ev))),
      (''ping_icmp_code'', (\<lambda>ev. opt_cell CvNat (ev_ping_icmp_code ev))),
      (''load_run_id'', (\<lambda>ev. opt_cell CvUuid (ev_load_run_id ev))),
      (''load_phase'', (\<lambda>ev. opt_cell (CvText \<circ> load_phase_text) (ev_load_phase ev))),
      (''request_id'', (\<lambda>ev. opt_cell CvUuid (ev_request_id ev))),
      (''request_direction'', (\<lambda>ev. opt_cell (CvText \<circ> request_direction_text) (ev_request_direction ev))),
      (''request_stage'', (\<lambda>ev. opt_cell (CvText \<circ> request_stage_text) (ev_request_stage ev))),
      (''request_url'', (\<lambda>ev. opt_cell CvText (ev_request_url ev))),
      (''request_local_ip'', (\<lambda>ev. opt_cell CvIp (ev_request_local_ip ev))),
      (''request_remote_ip'', (\<lambda>ev. opt_cell CvIp (ev_request_remote_ip ev))),
      (''request_http_status'', (\<lambda>ev. opt_cell CvNat (ev_request_http_status ev))),
      (''request_retry_after_ms'', (\<lambda>ev. opt_cell CvNat (ev_request_retry_after_ms ev))),
      (''request_retry_at_utc'', (\<lambda>ev. opt_cell CvTime (ev_request_retry_at_utc ev))),
      (''download_request_id'', (\<lambda>ev. opt_cell CvUuid (ev_download_request_id ev))),
      (''download_local_ip'', (\<lambda>ev. opt_cell CvIp (ev_download_local_ip ev))),
      (''download_remote_ip'', (\<lambda>ev. opt_cell CvIp (ev_download_remote_ip ev))),
      (''download_bytes'', (\<lambda>ev. opt_cell CvNat (ev_download_bytes ev))),
      (''download_measurement_duration_ms'', (\<lambda>ev. opt_cell CvFloat (ev_download_measurement_duration_ms ev))),
      (''download_mbps'', (\<lambda>ev. opt_cell CvFloat (ev_download_mbps ev))),
      (''download_server_tcp_min_rtt_ms'', (\<lambda>ev. opt_cell CvFloat (ev_download_server_tcp_min_rtt_ms ev))),
      (''download_server_tcp_rtt_ms'', (\<lambda>ev. opt_cell CvFloat (ev_download_server_tcp_rtt_ms ev))),
      (''download_server_tcp_retransmitted_bytes'', (\<lambda>ev. opt_cell CvNat (ev_download_server_tcp_retransmitted_bytes ev))),
      (''upload_request_id'', (\<lambda>ev. opt_cell CvUuid (ev_upload_request_id ev))),
      (''upload_local_ip'', (\<lambda>ev. opt_cell CvIp (ev_upload_local_ip ev))),
      (''upload_remote_ip'', (\<lambda>ev. opt_cell CvIp (ev_upload_remote_ip ev))),
      (''upload_bytes'', (\<lambda>ev. opt_cell CvNat (ev_upload_bytes ev))),
      (''upload_measurement_duration_ms'', (\<lambda>ev. opt_cell CvFloat (ev_upload_measurement_duration_ms ev))),
      (''upload_mbps'', (\<lambda>ev. opt_cell CvFloat (ev_upload_mbps ev))),
      (''upload_server_tcp_min_rtt_ms'', (\<lambda>ev. opt_cell CvFloat (ev_upload_server_tcp_min_rtt_ms ev))),
      (''upload_server_tcp_rtt_ms'', (\<lambda>ev. opt_cell CvFloat (ev_upload_server_tcp_rtt_ms ev))),
      (''upload_server_tcp_retransmitted_bytes'', (\<lambda>ev. opt_cell CvNat (ev_upload_server_tcp_retransmitted_bytes ev))),
      (''error_kind'', (\<lambda>ev. opt_cell (CvText \<circ> error_kind_text) (ev_error_kind ev))),
      (''os_error_code'', (\<lambda>ev. opt_cell CvInt (ev_os_error_code ev)))
     ]"

definition CSV_FIELDS :: "string list" where
  "CSV_FIELDS = map fst csv_columns"

definition CSV_HEADER :: string where
  "CSV_HEADER = join_with '','' CSV_FIELDS"

definition csv_row :: "measurement_event \<Rightarrow> csv_value list" where
  "csv_row ev = map (\<lambda>c. snd c ev) csv_columns"

lemma csv_row_length: "length (csv_row ev) = length CSV_FIELDS"
  by (simp add: csv_row_def CSV_FIELDS_def)

end
