(* ===== verification/JournalDisk.thy ===== *)
theory JournalDisk
  imports JournalRow
begin

text \<open>
  The lower half of \<open>journal.rs\<close>, with \<open>journal/output.rs\<close> and \<open>journal/durability.rs\<close>: a
  journal is one CSV file or a directory of segments. Files are inodes reached by names, every
  system call may fail, and a failing write may have written a part; a crash is a failure after
  which nothing runs. The bytes of a file are the characters U+0000 to U+00FF.
\<close>

subsection \<open>The file system\<close>

datatype jentry = JFile nat | JSpecial

text \<open>
  \<open>jw_locks\<close> holds the inodes other processes have locked. The faults are consumed one per
  system call: how much of a write got through, whether the cause is a missing permission, and
  the message.
\<close>

record jworld =
  jw_names :: "(path, jentry) btree"
  jw_data :: "nat \<Rightarrow> string"
  jw_locks :: "nat list"
  jw_next :: nat
  jw_faults :: "(nat \<times> bool \<times> string) option list"

type_synonym 'a jio = "jworld \<Rightarrow> (journal_error + 'a) \<times> jworld"

definition jreturn :: "'a \<Rightarrow> 'a jio" where
  "jreturn x w = (Inr x, w)"

definition jfail :: "journal_error \<Rightarrow> 'a jio" where
  "jfail e w = (Inl e, w)"

definition jbind :: "'a jio \<Rightarrow> ('a \<Rightarrow> 'b jio) \<Rightarrow> 'b jio" where
  "jbind m f w = (case m w of (Inl e, w) \<Rightarrow> (Inl e, w) | (Inr x, w) \<Rightarrow> f x w)"

definition fault_error :: "nat \<times> bool \<times> string \<Rightarrow> journal_error" where
  "fault_error f = (case f of (_, denied, m) \<Rightarrow> JIo (if denied then JioPermissionDenied else JioOther) m)"

text \<open>A system call: it fails with what it had done by then (\<open>part\<close>), or takes effect.\<close>

definition syscall :: "(nat \<Rightarrow> jworld \<Rightarrow> jworld) \<Rightarrow> (jworld \<Rightarrow> (journal_error + 'a) \<times> jworld) \<Rightarrow> 'a jio" where
  "syscall part eff w =
     (case jw_faults w of
        [] \<Rightarrow> eff w
      | f # fs \<Rightarrow>
          (let w = w \<lparr> jw_faults := fs \<rparr> in
           case f of None \<Rightarrow> eff w | Some x \<Rightarrow> (Inl (fault_error x), part (fst x) w)))"

abbreviation simple_call :: "(jworld \<Rightarrow> (journal_error + 'a) \<times> jworld) \<Rightarrow> 'a jio" where
  "simple_call \<equiv> syscall (\<lambda>n w. w)"

definition add_name :: "path \<Rightarrow> nat \<Rightarrow> jworld \<Rightarrow> jworld" where
  "add_name p i w = w \<lparr> jw_names := bt_insert p (JFile i) (jw_names w) \<rparr>"

definition set_data :: "nat \<Rightarrow> string \<Rightarrow> jworld \<Rightarrow> jworld" where
  "set_data i d w = w \<lparr> jw_data := (jw_data w)(i := d) \<rparr>"

definition new_file :: "path \<Rightarrow> jworld \<Rightarrow> (journal_error + nat) \<times> jworld" where
  "new_file p w =
     (Inr (jw_next w), add_name p (jw_next w) (set_data (jw_next w) [] (w \<lparr> jw_next := jw_next w + 1 \<rparr>)))"

definition symlink_metadata :: "path \<Rightarrow> jentry option jio" where
  "symlink_metadata p = simple_call (\<lambda>w. (Inr (bt_get (jw_names w) p), w))"

definition open_create :: "path \<Rightarrow> nat jio" where
  "open_create p = simple_call (\<lambda>w.
     case bt_get (jw_names w) p of
       None \<Rightarrow> new_file p w
     | Some (JFile i) \<Rightarrow> (Inr i, w)
     | Some JSpecial \<Rightarrow> (Inl (JIo JioOther ''not a regular file''), w))"

definition open_create_new :: "path \<Rightarrow> nat jio" where
  "open_create_new p = simple_call (\<lambda>w.
     case bt_get (jw_names w) p of
       None \<Rightarrow> new_file p w
     | Some _ \<Rightarrow> (Inl (JIo JioAlreadyExists ''file exists''), w))"

definition open_existing :: "path \<Rightarrow> nat jio" where
  "open_existing p = simple_call (\<lambda>w.
     case bt_get (jw_names w) p of
       None \<Rightarrow> (Inl (JIo JioNotFound ''no such file''), w)
     | Some (JFile i) \<Rightarrow> (Inr i, w)
     | Some JSpecial \<Rightarrow> (Inl (JIo JioOther ''not a regular file''), w))"

definition file_len :: "nat \<Rightarrow> nat jio" where
  "file_len i = simple_call (\<lambda>w. (Inr (length (jw_data w i)), w))"

definition read_file :: "nat \<Rightarrow> string jio" where
  "read_file i = simple_call (\<lambda>w. (Inr (jw_data w i), w))"

text \<open>All writes of the journal go to the end of the file.\<close>

definition write_all :: "nat \<Rightarrow> string \<Rightarrow> unit jio" where
  "write_all i s = syscall (\<lambda>n w. set_data i (jw_data w i @ take n s) w)
     (\<lambda>w. (Inr (), set_data i (jw_data w i @ s) w))"

definition set_len :: "nat \<Rightarrow> nat \<Rightarrow> unit jio" where
  "set_len i n = simple_call (\<lambda>w. (Inr (), set_data i (take n (jw_data w i)) w))"

definition sync_file :: "nat \<Rightarrow> unit jio" where
  "sync_file i = simple_call (\<lambda>w. (Inr (), w))"

definition sync_directory :: "path \<Rightarrow> unit jio" where
  "sync_directory p = simple_call (\<lambda>w. (Inr (), w))"

definition create_directory :: "path \<Rightarrow> unit jio" where
  "create_directory p = jbind (simple_call (\<lambda>w. (Inr (), w))) (\<lambda>_. sync_directory p)"

definition sync_parent :: "path \<Rightarrow> unit jio" where
  "sync_parent p =
     sync_directory (case path_parent p of None \<Rightarrow> ''.'' | Some d \<Rightarrow> if d = [] then ''.'' else d)"

definition remove_file :: "path \<Rightarrow> unit jio" where
  "remove_file p = simple_call (\<lambda>w.
     if bt_get (jw_names w) p = None then (Inl (JIo JioNotFound ''no such file''), w)
     else (Inr (), w \<lparr> jw_names := bt_remove p (jw_names w) \<rparr>))"

definition hard_link :: "path \<Rightarrow> path \<Rightarrow> unit jio" where
  "hard_link src dst = simple_call (\<lambda>w.
     case bt_get (jw_names w) dst of
       Some _ \<Rightarrow> (Inl (JIo JioAlreadyExists ''file exists''), w)
     | None \<Rightarrow>
         (case bt_get (jw_names w) src of
            Some (JFile i) \<Rightarrow> (Inr (), add_name dst i w)
          | _ \<Rightarrow> (Inl (JIo JioNotFound ''no such file''), w)))"

definition rename_file :: "path \<Rightarrow> path \<Rightarrow> unit jio" where
  "rename_file src dst = simple_call (\<lambda>w.
     case bt_get (jw_names w) src of
       Some (JFile i) \<Rightarrow> (Inr (), add_name dst i (w \<lparr> jw_names := bt_remove src (jw_names w) \<rparr>))
     | _ \<Rightarrow> (Inl (JIo JioNotFound ''no such file''), w))"

definition lock_file :: "nat \<Rightarrow> path \<Rightarrow> unit jio" where
  "lock_file i p = simple_call (\<lambda>w. (if i \<in> set (jw_locks w) then Inl (JLocked p) else Inr (), w))"

definition regular_or_missing :: "path \<Rightarrow> bool jio" where
  "regular_or_missing p =
     jbind (symlink_metadata p) (\<lambda>m.
       case m of None \<Rightarrow> jreturn False | Some (JFile _) \<Rightarrow> jreturn True | Some JSpecial \<Rightarrow> jfail (JCorrupt p))"

subsection \<open>CSV\<close>

text \<open>
  The \<open>csv\<close> crate: a record with its line end, the error of a value it cannot write, and the
  records of a byte string with their start, the position after them and their fields. Also the
  time stamp of a segment name, the text of a random identifier, whether bytes are UTF-8, and
  the \<open>url\<close> operations redaction needs.
\<close>

record 'u csv_env =
  cv_record :: "csv_value list \<Rightarrow> string + string"
  cv_read :: "string \<Rightarrow> (nat \<times> nat \<times> string list) list"
  cv_utf8 :: "string \<Rightarrow> bool"
  cv_stamp :: "time \<Rightarrow> string"
  cv_uuid :: "uuid \<Rightarrow> string"
  cv_url :: "'u url_ops"

definition crlf :: string where
  "crlf = [CHR 0x0D, CHR 0x0A]"

definition line_end :: "char \<Rightarrow> bool" where
  "line_end c \<longleftrightarrow> c = CHR 0x0A \<or> c = CHR 0x0D"

definition encode_batch :: "'u csv_env \<Rightarrow> measurement_event list \<Rightarrow> journal_error + string" where
  "encode_batch C evs =
     (case try_map (\<lambda>ev. cv_record C (csv_row (event_sanitized (cv_url C) ev))) evs of
        Inl e \<Rightarrow> Inl (JCsv e)
      | Inr rs \<Rightarrow> Inr (concat rs))"

subsection \<open>Writers\<close>

record journal_writer =
  wr_file :: nat
  wr_sync :: bool

definition writer_flush :: "journal_writer \<Rightarrow> unit jio" where
  "writer_flush wr = (if wr_sync wr then sync_file (wr_file wr) else jreturn ())"

definition from_writer :: "nat \<Rightarrow> journal_writer jio" where
  "from_writer i = jbind (write_all i (CSV_HEADER @ crlf)) (\<lambda>_. jreturn \<lparr> wr_file = i, wr_sync = False \<rparr>)"

definition without_header :: "nat \<Rightarrow> journal_writer" where
  "without_header i = \<lparr> wr_file = i, wr_sync = False \<rparr>"

text \<open>
  The writer hands its bytes to the file when its buffer is full and when it is flushed; here
  the batch is one write, of which any part may get through.
\<close>

definition writer_append :: "'u csv_env \<Rightarrow> journal_writer \<Rightarrow> measurement_event list \<Rightarrow> unit jio" where
  "writer_append C wr evs =
     (case encode_batch C evs of
        Inl e \<Rightarrow> jfail e
      | Inr bytes \<Rightarrow> jbind (write_all (wr_file wr) bytes) (\<lambda>_. writer_flush wr))"

subsection \<open>Recovery\<close>

definition validate_header :: "nat \<Rightarrow> path \<Rightarrow> unit jio" where
  "validate_header i p =
     jbind (read_file i) (\<lambda>d.
       let first = takeWhile (\<lambda>c. c \<noteq> CHR 0x0A) d;
           header = rev (dropWhile line_end (rev first))
       in if header = CSV_HEADER then jreturn () else jfail (JHeader p))"

definition structurally_valid :: "'u csv_env \<Rightarrow> string list \<Rightarrow> bool" where
  "structurally_valid C fs \<longleftrightarrow> length fs = length CSV_FIELDS \<and> list_all (cv_utf8 C) fs"

text \<open>Where to truncate, if anywhere; \<open>Inl\<close> for a malformed record that is not a torn tail.\<close>

fun scan_records ::
    "'u csv_env \<Rightarrow> bool \<Rightarrow> nat \<Rightarrow> nat \<Rightarrow> (nat \<times> nat \<times> string list) list \<Rightarrow> unit + nat option" where
  "scan_records C terminated len k [] = Inr None"
| "scan_records C terminated len k ((start, fin, fs) # rs) =
     (if 0 < k \<and> \<not> structurally_valid C fs
      then (if \<not> terminated \<and> fin = len then Inr (Some start) else Inl ())
      else if 0 < k \<and> \<not> terminated \<and> fin = len then Inr (Some start)
      else scan_records C terminated len (k + 1) rs)"

definition truncate_tail :: "nat \<Rightarrow> nat \<Rightarrow> unit jio" where
  "truncate_tail i offset =
     jbind (read_file i) (\<lambda>d.
     let offset = (if offset < length d \<and> d ! offset = CHR 0x0A then offset + 1 else offset) in
     jbind (set_len i offset) (\<lambda>_. sync_file i))"

text \<open>An I/O error the CSV reader meets is one of its own errors.\<close>

definition as_csv_error :: "'a jio \<Rightarrow> 'a jio" where
  "as_csv_error m w = (case m w of (Inl (JIo k e), w) \<Rightarrow> (Inl (JCsv e), w) | r \<Rightarrow> r)"

definition recover_trailing_record :: "'u csv_env \<Rightarrow> nat \<Rightarrow> path \<Rightarrow> unit jio" where
  "recover_trailing_record C i p =
     jbind (file_len i) (\<lambda>len.
     if len = length CSV_HEADER
     then jbind (write_all i crlf) (\<lambda>_. sync_file i)
     else
       jbind (read_file i) (\<lambda>d.
       let terminated = line_end (last d) in
       jbind (as_csv_error (read_file i)) (\<lambda>d.
       case scan_records C terminated len 0 (cv_read C d) of
         Inl _ \<Rightarrow> jfail (JCorrupt p)
       | Inr None \<Rightarrow> jreturn ()
       | Inr (Some offset) \<Rightarrow> truncate_tail i offset)))"


subsection \<open>Opening a writer\<close>

definition open_explicit :: "'u csv_env \<Rightarrow> path \<Rightarrow> (journal_writer \<times> path) jio" where
  "open_explicit C p =
     jbind (open_create p) (\<lambda>i.
     jbind (lock_file i p) (\<lambda>_.
     jbind (file_len i) (\<lambda>len.
     jbind (if len = 0 then jreturn ()
            else jbind (validate_header i p) (\<lambda>_. recover_trailing_record C i p)) (\<lambda>_.
     jbind (if len = 0 then from_writer i else jreturn (without_header i)) (\<lambda>wr.
     let wr = wr \<lparr> wr_sync := True \<rparr> in
     jbind (writer_flush wr) (\<lambda>_.
     jbind (sync_parent p) (\<lambda>_. jreturn (wr, p))))))))"

definition create_new :: "path \<Rightarrow> (journal_writer \<times> path) jio" where
  "create_new p =
     jbind (open_create_new p) (\<lambda>i.
     jbind (lock_file i p) (\<lambda>_.
     jbind (from_writer i) (\<lambda>wr.
     let wr = wr \<lparr> wr_sync := True \<rparr> in
     jbind (writer_flush wr) (\<lambda>_.
     jbind (sync_parent p) (\<lambda>_. jreturn (wr, p))))))"

definition stamped_name :: "'u csv_env \<Rightarrow> time \<Rightarrow> string" where
  "stamped_name C t = ''netband-'' @ cv_stamp C t"

text \<open>\<open>uid\<close> is the random identifier of an automatic file.\<close>

definition writer_open_at ::
    "'u csv_env \<Rightarrow> uuid \<Rightarrow> output_target \<Rightarrow> time \<Rightarrow> (journal_writer \<times> path) jio" where
  "writer_open_at C uid out started_at =
     jbind (case out of
              OtAutomaticFile d \<Rightarrow> create_directory d
            | OtAutomaticDirectory d \<Rightarrow> create_directory d
            | _ \<Rightarrow> jreturn ()) (\<lambda>_.
     case out of
       OtFile p \<Rightarrow> open_explicit C p
     | OtDirectory d \<Rightarrow> create_new (path_join d (stamped_name C started_at @ ''.csv''))
     | OtAutomaticDirectory d \<Rightarrow> create_new (path_join d (stamped_name C started_at @ ''.csv''))
     | OtAutomaticFile d \<Rightarrow>
         create_new (path_join d (stamped_name C started_at @ ''-'' @ cv_uuid C uid @ ''.csv'')))"

subsection \<open>A directory of segments\<close>

definition LOCK_NAME :: string where "LOCK_NAME = ''.netband-output.lock''"
definition ACTIVE_NAME :: string where "ACTIVE_NAME = ''.netband-active''"
definition PENDING_NAME :: string where "PENDING_NAME = ''.netband-header.tmp''"
definition MARKER_TEMP :: string where "MARKER_TEMP = ''.netband-active.tmp''"

record journal_directory =
  jd_path :: path
  jd_date :: date
  jd_max_bytes :: "nat option"

record journal =
  jo_writer :: journal_writer
  jo_path :: path
  jo_directory :: "journal_directory option"
  jo_bytes :: nat
  jo_has_events :: bool
  jo_poisoned :: bool

definition contextual :: "path \<Rightarrow> string \<Rightarrow> journal_error \<Rightarrow> journal_error" where
  "contextual p operation e =
     (case e of JIo k m \<Rightarrow> JIo k (operation @ '' '' @ p @ '': '' @ m) | _ \<Rightarrow> e)"

definition with_context :: "path \<Rightarrow> string \<Rightarrow> 'a jio \<Rightarrow> 'a jio" where
  "with_context p operation m w = (case m w of (Inl e, w) \<Rightarrow> (Inl (contextual p operation e), w) | r \<Rightarrow> r)"

definition str_prefix :: "string \<Rightarrow> string \<Rightarrow> bool" where
  "str_prefix p s \<longleftrightarrow> take (length p) s = p"

definition str_suffix :: "string \<Rightarrow> string \<Rightarrow> bool" where
  "str_suffix p s \<longleftrightarrow> str_prefix (rev p) (rev s)"

definition segment_name_ok :: "string \<Rightarrow> bool" where
  "segment_name_ok name \<longleftrightarrow>
     str_prefix ''netband-'' name \<and> str_suffix ''.csv'' name \<and>
     list_all (\<lambda>c. is_ascii_alphanumeric c \<or> c \<in> {CHR ''-'', CHR ''.'', CHR ''_''}) name"

definition directory_recover :: "'u csv_env \<Rightarrow> path \<Rightarrow> unit jio" where
  "directory_recover C dir =
     (let marker = path_join dir ACTIVE_NAME in
      jbind (regular_or_missing marker) (\<lambda>there.
      if \<not> there then jreturn ()
      else
        jbind (open_existing marker) (\<lambda>m.
        jbind (read_file m) (\<lambda>text.
        let name = trim_end_matches (CHR 0x0A) text in
        if \<not> segment_name_ok name then jfail (JCorrupt marker)
        else
          let p = path_join dir name in
          jbind (regular_or_missing p) (\<lambda>there.
          if \<not> there then jfail (JCorrupt p)
          else
            jbind (open_existing p) (\<lambda>i.
            jbind (lock_file i p) (\<lambda>_.
            jbind (validate_header i p) (\<lambda>_.
            jbind (recover_trailing_record C i p) (\<lambda>_.
            sync_file i)))))))))"

definition segment_path :: "'u csv_env \<Rightarrow> path \<Rightarrow> time \<Rightarrow> nat \<Rightarrow> path" where
  "segment_path C dir now k =
     path_join dir (stamped_name C now @ (if k = 0 then [] else ''-'' @ nat_text k) @ ''.csv'')"

text \<open>
  The staged header is linked under the first free name. Among \<open>n + 1\<close> names one is free when
  the directory has \<open>n\<close> entries, so that many attempts are enough.
\<close>

fun publish_segment :: "'u csv_env \<Rightarrow> path \<Rightarrow> time \<Rightarrow> nat \<Rightarrow> nat \<Rightarrow> path jio" where
  "publish_segment C dir now 0 k = jfail (JIo JioOther ''no free segment name'')"
| "publish_segment C dir now (Suc fuel) k =
     (\<lambda>w. case hard_link (path_join dir PENDING_NAME) (segment_path C dir now k) w of
            (Inr _, w) \<Rightarrow> (Inr (segment_path C dir now k), w)
          | (Inl (JIo JioAlreadyExists _), w) \<Rightarrow> publish_segment C dir now fuel (k + 1) w
          | (Inl e, w) \<Rightarrow> (Inl e, w))"

definition clear_pending :: "path \<Rightarrow> unit jio" where
  "clear_pending dir =
     (let pending = path_join dir PENDING_NAME in
      jbind (regular_or_missing pending) (\<lambda>stale.
      if stale
      then jbind (open_existing pending) (\<lambda>i. jbind (lock_file i pending) (\<lambda>_. remove_file pending))
      else jreturn ()))"

definition file_name :: "path \<Rightarrow> string" where
  "file_name p = rev (takeWhile (\<lambda>c. c \<noteq> CHR ''/'') (rev p))"

text \<open>The marker names the segment that may be torn.\<close>

definition write_marker :: "path \<Rightarrow> path \<Rightarrow> unit jio" where
  "write_marker dir p =
     (let temporary = path_join dir MARKER_TEMP in
      jbind (regular_or_missing temporary) (\<lambda>_.
      jbind (open_create temporary) (\<lambda>m.
      jbind (lock_file m temporary) (\<lambda>_.
      jbind (set_len m 0) (\<lambda>_.
      jbind (write_all m (file_name p @ [CHR 0x0A])) (\<lambda>_.
      jbind (sync_file m) (\<lambda>_.
      jbind (rename_file temporary (path_join dir ACTIVE_NAME)) (\<lambda>_.
      sync_directory dir))))))))"

definition create_segment_raw :: "'u csv_env \<Rightarrow> path \<Rightarrow> time \<Rightarrow> (journal_writer \<times> path) jio" where
  "create_segment_raw C dir now =
     (let pending = path_join dir PENDING_NAME in
      jbind (clear_pending dir) (\<lambda>_.
      jbind (open_create_new pending) (\<lambda>i.
      jbind (lock_file i pending) (\<lambda>_.
      jbind (from_writer i) (\<lambda>wr.
      let wr = wr \<lparr> wr_sync := True \<rparr> in
      jbind (writer_flush wr) (\<lambda>_.
      jbind (\<lambda>w. publish_segment C dir now (length (jw_names w) + 1) 0 w) (\<lambda>p.
      jbind (remove_file pending) (\<lambda>_.
      jbind (sync_directory dir) (\<lambda>_.
      jbind (write_marker dir p) (\<lambda>_. jreturn (wr, p)))))))))))"

definition create_segment :: "'u csv_env \<Rightarrow> path \<Rightarrow> time \<Rightarrow> (journal_writer \<times> path) jio" where
  "create_segment C dir now = with_context dir ''create segment'' (create_segment_raw C dir now)"

subsection \<open>The journal\<close>

definition open_directory :: "'u csv_env \<Rightarrow> path \<Rightarrow> nat option \<Rightarrow> time \<Rightarrow> journal_directory jio" where
  "open_directory C dir max_bytes now =
     (let lock_path = path_join dir LOCK_NAME in
      jbind (regular_or_missing lock_path) (\<lambda>_.
      jbind (open_create lock_path) (\<lambda>i.
      jbind (lock_file i lock_path) (\<lambda>_.
      jbind (directory_recover C dir) (\<lambda>_.
      jreturn \<lparr> jd_path = dir, jd_date = date_naive now, jd_max_bytes = max_bytes \<rparr>)))))"

definition journal_open_at ::
    "'u csv_env \<Rightarrow> uuid \<Rightarrow> output_target \<Rightarrow> nat option \<Rightarrow> time \<Rightarrow> journal jio" where
  "journal_open_at C uid target max_bytes now =
     (if max_bytes = Some 0 \<or> max_bytes \<noteq> None \<and> \<not> output_rotates target
      then jfail (JIo JioInvalidInput ''positive rotate_max_bytes requires directory output'')
      else
        jbind (case target of OtAutomaticDirectory p \<Rightarrow> create_directory p | _ \<Rightarrow> jreturn ()) (\<lambda>_.
        jbind (case target of
                 OtDirectory p \<Rightarrow> jbind (open_directory C p max_bytes now) (\<lambda>d. jreturn (Some d))
               | OtAutomaticDirectory p \<Rightarrow> jbind (open_directory C p max_bytes now) (\<lambda>d. jreturn (Some d))
               | _ \<Rightarrow> jreturn None) (\<lambda>directory.
        jbind (case directory of
                 Some d \<Rightarrow> create_segment C (jd_path d) now
               | None \<Rightarrow> writer_open_at C uid target now) (\<lambda>(wr, p).
        jbind (file_len (wr_file wr)) (\<lambda>bytes.
        jreturn \<lparr> jo_writer = wr, jo_path = p, jo_directory = directory, jo_bytes = bytes,
                  jo_has_events = False, jo_poisoned = False \<rparr>)))))"

text \<open>The journal is left as it stands when the call fails.\<close>

definition journal_write :: "string \<Rightarrow> journal \<Rightarrow> jworld \<Rightarrow> (journal_error + unit) \<times> journal \<times> jworld" where
  "journal_write encoded j w =
     (case write_all (wr_file (jo_writer j)) encoded w of
        (Inl e, w) \<Rightarrow> (Inl e, j, w)
      | (Inr _, w) \<Rightarrow>
          (case writer_flush (jo_writer j) w of
             (Inl e, w) \<Rightarrow> (Inl e, j, w)
           | (Inr _, w) \<Rightarrow>
               (Inr (), j \<lparr> jo_bytes := jo_bytes j + length encoded, jo_has_events := True \<rparr>, w)))"

definition rotates_now :: "journal \<Rightarrow> journal_directory \<Rightarrow> nat \<Rightarrow> time \<Rightarrow> bool" where
  "rotates_now j d extra now \<longleftrightarrow>
     jd_date d < date_naive now \<or>
     jo_has_events j \<and> (case jd_max_bytes d of None \<Rightarrow> False | Some limit \<Rightarrow> limit < sat_add u64_max (jo_bytes j) extra)"

text \<open>Journal and directory after the new segment exists, then the size of its header.\<close>

definition journal_rotate ::
    "'u csv_env \<Rightarrow> journal_directory \<Rightarrow> time \<Rightarrow> journal \<Rightarrow> jworld \<Rightarrow> (journal_error + unit) \<times> journal \<times> jworld" where
  "journal_rotate C d now j w =
     (case writer_flush (jo_writer j) w of
        (Inl e, w) \<Rightarrow> (Inl e, j, w)
      | (Inr _, w) \<Rightarrow>
          (case create_segment C (jd_path d) now w of
             (Inl e, w) \<Rightarrow> (Inl e, j, w)
           | (Inr (wr, p), w) \<Rightarrow>
               (let j = j \<lparr> jo_writer := wr, jo_path := p,
                      jo_directory := Some (d \<lparr> jd_date := max (jd_date d) (date_naive now) \<rparr>) \<rparr>
                in case file_len (wr_file wr) w of
                     (Inl e, w) \<Rightarrow> (Inl e, j, w)
                   | (Inr bytes, w) \<Rightarrow> (Inr (), j \<lparr> jo_bytes := bytes, jo_has_events := False \<rparr>, w))))"

definition journal_append ::
    "'u csv_env \<Rightarrow> measurement_event list \<Rightarrow> time \<Rightarrow> journal \<Rightarrow> jworld \<Rightarrow>
     (journal_error + unit) \<times> journal \<times> jworld" where
  "journal_append C evs now j w =
     (if evs = [] then (Inr (), j, w)
      else case jo_directory j of
        None \<Rightarrow> (let (r, w) = writer_append C (jo_writer j) evs w in (r, j, w))
      | Some d \<Rightarrow>
          (case encode_batch C evs of
             Inl e \<Rightarrow> (Inl e, j, w)
           | Inr encoded \<Rightarrow>
               (if rotates_now j d (length encoded) now
                then (case journal_rotate C d now j w of
                        (Inl e, j, w) \<Rightarrow> (Inl e, j, w)
                      | (Inr _, j, w) \<Rightarrow> journal_write encoded j w)
                else journal_write encoded j w)))"

definition journal_poisoned_error :: journal_error where
  "journal_poisoned_error = JIo JioOther ''journal failed; reopen and recover before writing again''"

definition append_batch_at ::
    "'u csv_env \<Rightarrow> measurement_event list \<Rightarrow> time \<Rightarrow> journal \<Rightarrow> jworld \<Rightarrow>
     (journal_error + unit) \<times> journal \<times> jworld" where
  "append_batch_at C evs now j w =
     (if jo_poisoned j then (Inl journal_poisoned_error, j, w)
      else case journal_append C evs now j w of
        (Inl e, j, w) \<Rightarrow> (Inl (contextual (jo_path j) ''append/rotate'' e), j \<lparr> jo_poisoned := True \<rparr>, w)
      | (Inr _, j, w) \<Rightarrow> (Inr (), j, w))"

definition journal_flush :: "journal \<Rightarrow> jworld \<Rightarrow> (journal_error + unit) \<times> journal \<times> jworld" where
  "journal_flush j w =
     (if jo_poisoned j then (Inl journal_poisoned_error, j, w)
      else case writer_flush (jo_writer j) w of
        (Inl e, w) \<Rightarrow> (Inl (contextual (jo_path j) ''flush'' e), j \<lparr> jo_poisoned := True \<rparr>, w)
      | (Inr _, w) \<Rightarrow> (Inr (), j, w))"

end
