(* ===== verification/JournalProps.thy ===== *)
theory JournalProps
  imports JournalDisk
begin

text \<open>
  The journal under failing system calls. Triples \<open>jspec P m Q E\<close> say where an operation ends
  when it succeeds (\<open>Q\<close>) and when it fails (\<open>E\<close>); a crash is a failure. The first part is the
  recovery of a torn file.
\<close>

subsection \<open>Triples\<close>

definition jspec :: "(jworld \<Rightarrow> bool) \<Rightarrow> 'a jio \<Rightarrow> ('a \<Rightarrow> jworld \<Rightarrow> bool) \<Rightarrow> (jworld \<Rightarrow> bool) \<Rightarrow> bool" where
  "jspec P m Q E \<longleftrightarrow>
     (\<forall>w. P w \<longrightarrow> (case m w of (Inr x, w') \<Rightarrow> Q x w' | (Inl e, w') \<Rightarrow> E w'))"

lemma jspecD_ok: "jspec P m Q E \<Longrightarrow> P w \<Longrightarrow> m w = (Inr x, w') \<Longrightarrow> Q x w'"
  by (fastforce simp: jspec_def)

lemma jspecD_err: "jspec P m Q E \<Longrightarrow> P w \<Longrightarrow> m w = (Inl e, w') \<Longrightarrow> E w'"
  by (fastforce simp: jspec_def)

lemma jspecI:
  "(\<And>w x w'. P w \<Longrightarrow> m w = (Inr x, w') \<Longrightarrow> Q x w') \<Longrightarrow> (\<And>w e w'. P w \<Longrightarrow> m w = (Inl e, w') \<Longrightarrow> E w') \<Longrightarrow>
   jspec P m Q E"
  by (auto simp: jspec_def split: sum.splits prod.splits)

lemma jspec_bind:
  assumes "jspec P m R E" "\<And>x. jspec (R x) (f x) Q E" shows "jspec P (jbind m f) Q E"
proof (rule jspecI)
  fix w x w' assume "P w" "jbind m f w = (Inr x, w')"
  then show "Q x w'" using assms
    by (auto simp: jbind_def split: prod.splits sum.splits dest!: jspecD_ok)
next
  fix w e w' assume P: "P w" and b: "jbind m f w = (Inl e, w')"
  obtain r v where r: "m w = (r, v)" by fastforce
  show "E w'"
  proof (cases r)
    case (Inl e')
    then show ?thesis using b r jspecD_err [OF assms(1) P] by (simp add: jbind_def)
  next
    case (Inr x)
    then show ?thesis
      using b r jspecD_ok [OF assms(1) P] jspecD_err [OF assms(2)] by (simp add: jbind_def)
  qed
qed

lemma jspec_return: "(\<And>w. P w \<Longrightarrow> Q x w) \<Longrightarrow> jspec P (jreturn x) Q E"
  by (simp add: jspec_def jreturn_def)

lemma jspec_fail: "(\<And>w. P w \<Longrightarrow> E w) \<Longrightarrow> jspec P (jfail e) Q E"
  by (simp add: jspec_def jfail_def)

lemma jspec_pre: "jspec P m Q E \<Longrightarrow> (\<And>w. P' w \<Longrightarrow> P w) \<Longrightarrow> jspec P' m Q E"
  by (simp add: jspec_def)

lemma jspec_post:
  "jspec P m Q E \<Longrightarrow> (\<And>x w. Q x w \<Longrightarrow> Q' x w) \<Longrightarrow> (\<And>w. E w \<Longrightarrow> E' w) \<Longrightarrow> jspec P m Q' E'"
  by (fastforce simp: jspec_def split: sum.splits prod.splits)

lemma jspec_absurd: "(\<And>w. \<not> P w) \<Longrightarrow> jspec P m Q E"
  by (simp add: jspec_def)

lemma jspec_bind_weak:
  "jspec P m R E' \<Longrightarrow> (\<And>w. E' w \<Longrightarrow> E w) \<Longrightarrow> (\<And>x. jspec (R x) (f x) Q E) \<Longrightarrow> jspec P (jbind m f) Q E"
  by (rule jspec_bind [where R = R]) (auto elim: jspec_post)

lemma jspec_syscall:
  assumes "\<And>w fs n. P w \<Longrightarrow> E (part n (w \<lparr> jw_faults := fs \<rparr>))"
    "\<And>w fs. P w \<Longrightarrow> (case eff (w \<lparr> jw_faults := fs \<rparr>) of (Inr x, w') \<Rightarrow> Q x w' | (Inl e, w') \<Rightarrow> E w')"
  shows "jspec P (syscall part eff) Q E"
  unfolding jspec_def
proof (intro allI impI)
  fix w assume P: "P w"
  have nil: "w \<lparr> jw_faults := jw_faults w \<rparr> = w" by simp
  show "case syscall part eff w of (Inr x, w') \<Rightarrow> Q x w' | (Inl e, w') \<Rightarrow> E w'"
    using assms(1) [OF P] assms(2) [OF P, of "jw_faults w", unfolded nil] assms(2) [OF P]
    by (cases "jw_faults w") (simp_all add: syscall_def Let_def split: option.splits)
qed

subsection \<open>Laws of the CSV library\<close>

definition row_bytes :: "'u csv_env \<Rightarrow> string \<Rightarrow> bool" where
  "row_bytes C b \<longleftrightarrow> (\<exists>row. length row = length CSV_FIELDS \<and> cv_record C row = Inr b)"

text \<open>A proper beginning of a record, and a record short of its line feed.\<close>

definition torn_row :: "'u csv_env \<Rightarrow> string \<Rightarrow> bool" where
  "torn_row C t \<longleftrightarrow> t = [] \<or> (\<exists>b n. row_bytes C b \<and> n < length b \<and> t = take n b)"

definition whole_row :: "'u csv_env \<Rightarrow> string \<Rightarrow> bool" where
  "whole_row C t \<longleftrightarrow> row_bytes C (t @ [CHR 0x0A])"

abbreviation journal_text :: "string list \<Rightarrow> string \<Rightarrow> string" where
  "journal_text bs t \<equiv> CSV_HEADER @ crlf @ concat bs @ t"

text \<open>
  A record is a nonempty line that ends in CR LF and does not begin with a line feed. Of a header,
  whole records and a torn tail, the reader yields the header, one valid record for each whole
  one, and one record for a nonempty tail. That one reaches the end of the file and starts where
  the tail starts, or at the line feed before it; where the tail ends in a line break it is valid
  only if nothing but its line feed is missing. Segment time stamps consist of letters, digits,
  hyphens, dots and underscores.
\<close>

definition csv_ok :: "'u csv_env \<Rightarrow> bool" where
  "csv_ok C \<longleftrightarrow>
     (\<forall>b. row_bytes C b \<longrightarrow> (\<exists>body. b = body @ crlf \<and> body \<noteq> [] \<and> hd body \<noteq> CHR 0x0A)) \<and>
     (\<forall>bs t. list_all (row_bytes C) bs \<and> torn_row C t \<longrightarrow>
        (\<exists>h es. cv_read C (journal_text bs []) = h # es \<and> list_all (\<lambda>e. structurally_valid C (snd (snd e))) es) \<and>
        (t \<noteq> [] \<longrightarrow>
          (\<exists>h es start fs.
             cv_read C (journal_text bs t) = h # es @ [(start, length (journal_text bs t), fs)] \<and>
             list_all (\<lambda>e. structurally_valid C (snd (snd e)) \<and> fst (snd e) < length (journal_text bs t)) es \<and>
             (start = length (journal_text bs []) \<or> start + 1 = length (journal_text bs [])) \<and>
             (line_end (last t) \<and> structurally_valid C fs \<longrightarrow> whole_row C t)))) \<and>
     (\<forall>t. list_all (\<lambda>c. is_ascii_alphanumeric c \<or> c \<in> {CHR ''-'', CHR ''.'', CHR ''_''}) (cv_stamp C t))"

lemma csv_row_shape:
  assumes "csv_ok C" "row_bytes C b"
  obtains body where "b = body @ crlf" "body \<noteq> []" "hd body \<noteq> CHR 0x0A"
  using assms by (auto simp: csv_ok_def)

lemma csv_read_whole:
  "csv_ok C \<Longrightarrow> list_all (row_bytes C) bs \<Longrightarrow>
   \<exists>h es. cv_read C (journal_text bs []) = h # es \<and> list_all (\<lambda>e. structurally_valid C (snd (snd e))) es"
  unfolding csv_ok_def torn_row_def by blast

lemma csv_read_torn:
  assumes "csv_ok C" "list_all (row_bytes C) bs" "torn_row C t" "t \<noteq> []"
  obtains h es start fs where
    "cv_read C (journal_text bs t) = h # es @ [(start, length (journal_text bs t), fs)]"
    "list_all (\<lambda>e. structurally_valid C (snd (snd e)) \<and> fst (snd e) < length (journal_text bs t)) es"
    "start = length (journal_text bs []) \<or> start + 1 = length (journal_text bs [])"
    "line_end (last t) \<Longrightarrow> structurally_valid C fs \<Longrightarrow> whole_row C t"
proof -
  have "\<exists>h es start fs.
             cv_read C (journal_text bs t) = h # es @ [(start, length (journal_text bs t), fs)] \<and>
             list_all (\<lambda>e. structurally_valid C (snd (snd e)) \<and> fst (snd e) < length (journal_text bs t)) es \<and>
             (start = length (journal_text bs []) \<or> start + 1 = length (journal_text bs [])) \<and>
             (line_end (last t) \<and> structurally_valid C fs \<longrightarrow> whole_row C t)"
    using assms unfolding csv_ok_def by blast
  then show ?thesis using that by blast
qed

lemma journal_text_line_feed:
  assumes "csv_ok C" "list_all (row_bytes C) bs"
  shows "last (journal_text bs []) = CHR 0x0A"
proof (cases bs rule: rev_cases)
  case Nil
  then show ?thesis by (simp add: crlf_def)
next
  case (snoc bs' b)
  then have "row_bytes C b" using assms(2) by simp
  then obtain body where "b = body @ crlf" using csv_row_shape [OF assms(1)] by blast
  then show ?thesis using snoc by (simp add: crlf_def)
qed

lemma torn_first:
  assumes "csv_ok C" "torn_row C t" "t \<noteq> []" shows "hd t \<noteq> CHR 0x0A"
proof -
  obtain b n where b: "row_bytes C b" "n < length b" "t = take n b" using assms(2,3) by (auto simp: torn_row_def)
  from csv_row_shape [OF assms(1) b(1)] obtain body where "b = body @ crlf" "body \<noteq> []" "hd body \<noteq> CHR 0x0A" .
  then show ?thesis using b(3) assms(3) by (cases body; cases n) auto
qed

subsection \<open>Recovery of a torn file\<close>

lemma scan_valid:
  "list_all (\<lambda>e. structurally_valid C (snd (snd e)) \<and> (terminated \<or> fst (snd e) < len)) es \<Longrightarrow> 0 < k \<Longrightarrow>
   scan_records C terminated len k (es @ rest) = scan_records C terminated len (k + length es) rest"
  by (induction es arbitrary: k) auto

lemma scan_whole:
  "list_all (\<lambda>e. structurally_valid C (snd (snd e))) es \<Longrightarrow> scan_records C True len 0 (h # es) = Inr None"
  using scan_valid [of C True len es 1 "[]"] by (cases h) auto

lemma scan_torn:
  assumes "list_all (\<lambda>e. structurally_valid C (snd (snd e)) \<and> fst (snd e) < len) es"
  shows "scan_records C False len 0 (h # es @ [(start, len, fs)]) = Inr (Some start)"
  using assms scan_valid [of C False len es 1 "[(start, len, fs)]"] by (cases h) auto

lemma scan_torn_terminated:
  assumes "list_all (\<lambda>e. structurally_valid C (snd (snd e)) \<and> fst (snd e) < len) es"
  shows "scan_records C True len 0 (h # es @ [(start, len, fs)]) =
    (if structurally_valid C fs then Inr None else Inl ())"
proof -
  have "list_all (\<lambda>e. structurally_valid C (snd (snd e)) \<and> (True \<or> fst (snd e) < len)) es"
    using assms by (auto simp: list_all_iff)
  then show ?thesis using scan_valid [of C True len es 1 "[(start, len, fs)]"] by (cases h) auto
qed


subsection \<open>System calls\<close>

definition stable :: "(jworld \<Rightarrow> bool) \<Rightarrow> bool" where
  "stable P \<longleftrightarrow> (\<forall>w fs. P w \<longrightarrow> P (w \<lparr> jw_faults := fs \<rparr>))"

lemma stableD: "stable P \<Longrightarrow> P w \<Longrightarrow> P (w \<lparr> jw_faults := fs \<rparr>)"
  by (simp add: stable_def)

text \<open>A call whose effect is described on the world after the fault has been taken off.\<close>

lemma jspec_call:
  assumes "stable P" "\<And>w n. P w \<Longrightarrow> E (part n w)"
    "\<And>w. P w \<Longrightarrow> (case eff w of (Inr x, w') \<Rightarrow> Q x w' | (Inl e, w') \<Rightarrow> E w')"
  shows "jspec P (syscall part eff) Q E"
proof (rule jspec_syscall)
  fix w fs n assume "P w"
  then have P: "P (w \<lparr> jw_faults := fs \<rparr>)" by (rule stableD [OF assms(1)])
  show "E (part n (w \<lparr> jw_faults := fs \<rparr>))" using assms(2) [OF P] .
  show "case eff (w \<lparr> jw_faults := fs \<rparr>) of (Inr x, w') \<Rightarrow> Q x w' | (Inl e, w') \<Rightarrow> E w'"
    using assms(3) [OF P] .
qed

lemma jspec_read: "stable P \<Longrightarrow> jspec P (read_file i) (\<lambda>d w. P w \<and> d = jw_data w i) P"
  unfolding read_file_def by (rule jspec_call) auto

lemma jspec_len: "stable P \<Longrightarrow> jspec P (file_len i) (\<lambda>n w. P w \<and> n = length (jw_data w i)) P"
  unfolding file_len_def by (rule jspec_call) auto

lemma jspec_sync: "stable P \<Longrightarrow> jspec P (sync_file i) (\<lambda>_. P) P"
  unfolding sync_file_def by (rule jspec_call) auto

lemma jspec_sync_directory: "stable P \<Longrightarrow> jspec P (sync_directory p) (\<lambda>_. P) P"
  unfolding sync_directory_def by (rule jspec_call) auto

lemma jspec_lock: "stable P \<Longrightarrow> jspec P (lock_file i p) (\<lambda>_. P) P"
  unfolding lock_file_def by (rule jspec_call) auto

lemma jspec_metadata: "stable P \<Longrightarrow> jspec P (symlink_metadata p) (\<lambda>m w. P w \<and> m = bt_get (jw_names w) p) P"
  unfolding symlink_metadata_def by (rule jspec_call) auto

lemma jspec_regular:
  assumes "stable P"
  shows "jspec P (regular_or_missing p) (\<lambda>b w. P w \<and> (if b then \<exists>i. bt_get (jw_names w) p = Some (JFile i)
    else bt_get (jw_names w) p = None)) P"
  unfolding regular_or_missing_def
proof (rule jspec_bind [OF jspec_metadata [OF assms]])
  fix m
  show "jspec (\<lambda>w. P w \<and> m = bt_get (jw_names w) p)
    (case m of None \<Rightarrow> jreturn False | Some (JFile x) \<Rightarrow> jreturn True | Some JSpecial \<Rightarrow> jfail (JCorrupt p))
    (\<lambda>b w. P w \<and> (if b then \<exists>i. bt_get (jw_names w) p = Some (JFile i) else bt_get (jw_names w) p = None)) P"
    by (auto simp: jspec_def jreturn_def jfail_def split: option.splits jentry.splits)
qed

lemma jspec_open_existing:
  "stable P \<Longrightarrow> jspec P (open_existing p) (\<lambda>i w. P w \<and> bt_get (jw_names w) p = Some (JFile i)) P"
  unfolding open_existing_def by (rule jspec_call) (auto split: option.splits jentry.splits)

text \<open>Changing the error of an operation.\<close>

lemma jspec_map_error:
  assumes "jspec P m Q E" "\<And>w. snd (m' w) = snd (m w)" "\<And>w x. fst (m' w) = Inr x \<longleftrightarrow> fst (m w) = Inr x"
  shows "jspec P m' Q E"
proof (rule jspecI)
  fix w x w' assume P: "P w" and r: "m' w = (Inr x, w')"
  then have "m w = (Inr x, w')" using assms(2) [of w] assms(3) [of w x] by (simp add: prod_eq_iff)
  then show "Q x w'" by (rule jspecD_ok [OF assms(1) P])
next
  fix w e w' assume P: "P w" and r: "m' w = (Inl e, w')"
  have "\<not> (\<exists>x. fst (m w) = Inr x)" using assms(3) [of w] r by simp
  then obtain e' where "fst (m w) = Inl e'" by (cases "fst (m w)") auto
  then have "m w = (Inl e', w')" using assms(2) [of w] r by (simp add: prod_eq_iff)
  then show "E w'" by (rule jspecD_err [OF assms(1) P])
qed

lemma jspec_csv_error: "jspec P m Q E \<Longrightarrow> jspec P (as_csv_error m) Q E"
  by (erule jspec_map_error) (auto simp: as_csv_error_def split: prod.splits sum.splits journal_error.splits)

lemma jspec_context: "jspec P m Q E \<Longrightarrow> jspec P (with_context p operation m) Q E"
  by (erule jspec_map_error) (auto simp: with_context_def split: prod.splits sum.splits)

lemma jspec_flush: "stable P \<Longrightarrow> jspec P (writer_flush wr) (\<lambda>_. P) P"
  unfolding writer_flush_def by (auto intro: jspec_sync jspec_return)

lemma jspec_write:
  assumes "stable P" "\<And>w n. P w \<Longrightarrow> E (set_data i (jw_data w i @ take n s) w)"
    "\<And>w. P w \<Longrightarrow> Q (set_data i (jw_data w i @ s) w)"
  shows "jspec P (write_all i s) (\<lambda>_. Q) E"
  unfolding write_all_def by (rule jspec_call) (use assms in auto)

lemma jspec_set_len:
  assumes "stable P" "\<And>w. P w \<Longrightarrow> Q (set_data i (take n (jw_data w i)) w)"
  shows "jspec P (set_len i n) (\<lambda>_. Q) P"
  unfolding set_len_def by (rule jspec_call) (use assms in auto)

lemma jspec_validate: "stable P \<Longrightarrow> jspec P (validate_header i p) (\<lambda>_. P) P"
  unfolding validate_header_def Let_def
  by (rule jspec_bind [OF jspec_read]) (auto intro: jspec_return jspec_fail)

subsection \<open>One file\<close>

text \<open>\<open>w\<close> differs from \<open>w0\<close> in the data of file \<open>i\<close> at most, which is \<open>d\<close>.\<close>

definition frames :: "nat \<Rightarrow> jworld \<Rightarrow> jworld \<Rightarrow> bool" where
  "frames i w0 w \<longleftrightarrow> jw_names w = jw_names w0 \<and> jw_next w = jw_next w0 \<and>
     (\<forall>j. j \<noteq> i \<longrightarrow> jw_data w j = jw_data w0 j)"

definition file_is :: "nat \<Rightarrow> jworld \<Rightarrow> string \<Rightarrow> jworld \<Rightarrow> bool" where
  "file_is i w0 d w \<longleftrightarrow> frames i w0 w \<and> jw_data w i = d"

lemma stable_frames [simp]: "stable (frames i w0)" "stable (file_is i w0 d)"
  by (simp_all add: stable_def frames_def file_is_def)

lemma stable_and [simp]: "stable P \<Longrightarrow> stable (\<lambda>w. P w \<and> Q)" "stable P \<Longrightarrow> stable R \<Longrightarrow> stable (\<lambda>w. P w \<and> R w)"
  by (simp_all add: stable_def)

lemma frames_set_data [simp]: "frames i w0 (set_data i d w) = frames i w0 w"
  by (auto simp: frames_def set_data_def)

lemma set_data_same [simp]: "jw_data (set_data i d w) i = d"
  by (simp add: set_data_def)

lemma file_is_set_data [simp]: "file_is i w0 d (set_data i d' w) \<longleftrightarrow> frames i w0 w \<and> d' = d"
  by (auto simp: file_is_def)

lemma file_is_other: "x \<noteq> d \<Longrightarrow> \<not> (file_is i w0 d w \<and> x = jw_data w i)"
  "n \<noteq> length d \<Longrightarrow> \<not> (file_is i w0 d w \<and> n = length (jw_data w i))"
  "x \<noteq> d \<Longrightarrow> \<not> ((file_is i w0 d w \<and> d = jw_data w i) \<and> x = jw_data w i)"
  "stable (\<lambda>w. file_is i w0 d w \<and> x = jw_data w i)"
  by (auto simp: file_is_def stable_def frames_def)

lemma truncate_spec:
  assumes "offset = n \<or> offset + 1 = n \<and> offset < length d \<and> d ! offset = CHR 0x0A"
    "offset = n \<Longrightarrow> offset < length d \<Longrightarrow> d ! offset \<noteq> CHR 0x0A"
  shows "jspec (file_is i w0 d) (truncate_tail i offset) (\<lambda>_. file_is i w0 (take n d))
    (\<lambda>w. file_is i w0 d w \<or> file_is i w0 (take n d) w)"
  unfolding truncate_tail_def
proof (rule jspec_bind_weak [OF jspec_read])
  fix x
  have n: "(if offset < length d \<and> d ! offset = CHR 0x0A then offset + 1 else offset) = n"
    using assms by auto
  have "jspec (file_is i w0 d) (set_len i n) (\<lambda>_. file_is i w0 (take n d)) (file_is i w0 d)"
    by (rule jspec_set_len) (simp_all add: file_is_def [of i w0 d])
  then have s: "jspec (file_is i w0 d) (jbind (set_len i n) (\<lambda>_. sync_file i)) (\<lambda>_. file_is i w0 (take n d))
     (\<lambda>w. file_is i w0 d w \<or> file_is i w0 (take n d) w)"
    by (rule jspec_bind_weak) (auto intro: jspec_post [OF jspec_sync])
  show "jspec (\<lambda>w. file_is i w0 d w \<and> x = jw_data w i)
     (let offset = if offset < length x \<and> x ! offset = CHR 0x0A then offset + 1 else offset
      in jbind (set_len i offset) (\<lambda>_. sync_file i))
     (\<lambda>_. file_is i w0 (take n d)) (\<lambda>w. file_is i w0 d w \<or> file_is i w0 (take n d) w)"
  proof (cases "x = d")
    case True
    show ?thesis unfolding True Let_def n by (rule jspec_pre [OF s]) blast
  next
    case False
    then show ?thesis by (auto simp: jspec_def file_is_def)
  qed
qed auto


text \<open>Recovery touches no other file.\<close>

lemma recover_frames:
  "jspec (frames i w0) (recover_trailing_record C i p) (\<lambda>_. frames i w0) (frames i w0)"
proof -
  have cut: "jspec (frames i w0) (jbind (set_len i n) (\<lambda>_. sync_file i)) (\<lambda>_. frames i w0) (frames i w0)" for n
    by (rule jspec_bind_weak [OF jspec_set_len [where Q = "frames i w0"]]) (auto intro: jspec_sync)
  have trunc: "jspec (frames i w0) (truncate_tail i n) (\<lambda>_. frames i w0) (frames i w0)" for n
    unfolding truncate_tail_def Let_def
    by (rule jspec_bind_weak [OF jspec_read]) (auto intro: jspec_pre [OF cut])
  have scan: "jspec (frames i w0)
     (case r of Inl _ \<Rightarrow> jfail (JCorrupt p) | Inr None \<Rightarrow> jreturn () | Inr (Some n) \<Rightarrow> truncate_tail i n)
     (\<lambda>_. frames i w0) (frames i w0)" for r :: "unit + nat option"
    by (auto split: sum.splits option.splits intro: trunc jspec_fail jspec_return)
  have read: "jspec (frames i w0) (jbind (read_file i) f) (\<lambda>_. frames i w0) (frames i w0)"
    if "\<And>d. jspec (frames i w0) (f d) (\<lambda>_. frames i w0) (frames i w0)" for f
    by (rule jspec_bind_weak [OF jspec_read]) (auto intro: jspec_pre [OF that])
  have csv: "jspec (frames i w0) (jbind (as_csv_error (read_file i)) f) (\<lambda>_. frames i w0) (frames i w0)"
    if "\<And>d. jspec (frames i w0) (f d) (\<lambda>_. frames i w0) (frames i w0)" for f
    by (rule jspec_bind_weak [OF jspec_csv_error [OF jspec_read]]) (auto intro: jspec_pre [OF that])
  have head: "jspec (frames i w0) (jbind (write_all i crlf) (\<lambda>_. sync_file i)) (\<lambda>_. frames i w0) (frames i w0)"
    by (rule jspec_bind_weak [OF jspec_write [where Q = "frames i w0" and E = "frames i w0"]])
      (auto intro: jspec_post [OF jspec_sync])
  show ?thesis
    unfolding recover_trailing_record_def
  proof (rule jspec_bind_weak [OF jspec_len])
    fix len
    show "jspec (\<lambda>w. frames i w0 w \<and> len = length (jw_data w i))
      (if len = length CSV_HEADER then jbind (write_all i crlf) (\<lambda>_. sync_file i)
       else jbind (read_file i) (\<lambda>d. let terminated = line_end (last d)
         in jbind (as_csv_error (read_file i)) (\<lambda>d.
           case scan_records C terminated len 0 (cv_read C d) of Inl _ \<Rightarrow> jfail (JCorrupt p)
           | Inr None \<Rightarrow> jreturn () | Inr (Some offset) \<Rightarrow> truncate_tail i offset)))
      (\<lambda>_. frames i w0) (frames i w0)"
      unfolding Let_def by (rule jspec_pre [where P = "frames i w0"]) (auto intro: head read csv scan)
  qed simp_all
qed

lemma nth_before_end: "x \<noteq> [] \<Longrightarrow> (x @ y) ! (length x - 1) = last x"
  by (simp add: nth_append last_conv_nth)

text \<open>
  A torn tail is cut off; a record short of its line feed alone may stay. When the tail ends in
  a line break within a field, recovery refuses the file instead and leaves it as it is.
\<close>

lemma recover_spec:
  assumes C: "csv_ok C" and rows: "list_all (row_bytes C) bs" and t: "torn_row C t"
  shows "jspec (file_is i w0 (journal_text bs t)) (recover_trailing_record C i p)
    (\<lambda>_ w. file_is i w0 (journal_text bs []) w \<or> whole_row C t \<and> file_is i w0 (journal_text bs t) w)
    (\<lambda>w. file_is i w0 (journal_text bs []) w \<or> file_is i w0 (journal_text bs t) w)"
proof -
  let ?d = "journal_text bs t" and ?n = "length (journal_text bs [])"
  let ?Q = "\<lambda>_ w. file_is i w0 (journal_text bs []) w \<or> whole_row C t \<and> file_is i w0 ?d w"
  let ?E = "\<lambda>w. file_is i w0 (journal_text bs []) w \<or> file_is i w0 ?d w"
  have scan: "jspec (file_is i w0 ?d)
     (case scan_records C (line_end (last ?d)) (length ?d) 0 (cv_read C ?d) of Inl _ \<Rightarrow> jfail (JCorrupt p)
      | Inr None \<Rightarrow> jreturn () | Inr (Some n) \<Rightarrow> truncate_tail i n) ?Q ?E"
  proof (cases "t = []")
    case True
    obtain h es where r: "cv_read C ?d = h # es" "list_all (\<lambda>e. structurally_valid C (snd (snd e))) es"
      using csv_read_whole [OF C rows] True by blast
    have "line_end (last ?d)" using journal_text_line_feed [OF C rows] True by (simp add: line_end_def)
    then have "scan_records C (line_end (last ?d)) (length ?d) 0 (cv_read C ?d) = Inr None"
      unfolding r(1) using scan_whole [OF r(2)] by simp
    then show ?thesis using True by (simp only: sum.case option.case) (rule jspec_return, simp)
  next
    case False
    from csv_read_torn [OF C rows t False] obtain h es start fs where
      r: "cv_read C ?d = h # es @ [(start, length ?d, fs)]"
      and es: "list_all (\<lambda>e. structurally_valid C (snd (snd e)) \<and> fst (snd e) < length ?d) es"
      and start: "start = ?n \<or> start + 1 = ?n"
      and whole: "line_end (last t) \<Longrightarrow> structurally_valid C fs \<Longrightarrow> whole_row C t" by blast
    have last: "last ?d = last t" using False by simp
    show ?thesis
    proof (cases "line_end (last t)")
      case True
      then show ?thesis
        unfolding last r using scan_torn_terminated [OF es] whole by (auto intro: jspec_return jspec_fail)
    next
      case not_end: False
      have split: "?d = journal_text bs [] @ t" by simp
      have at_n: "?d ! ?n = hd t" "?n < length ?d"
        using False by (simp_all add: nth_append hd_conv_nth)
      have "journal_text bs [] \<noteq> []" by (simp add: crlf_def)
      then have "?d ! (?n - 1) = last (journal_text bs [])" unfolding split by (rule nth_before_end)
      then have before: "?d ! (?n - 1) = CHR 0x0A" using journal_text_line_feed [OF C rows] by simp
      have "jspec (file_is i w0 ?d) (truncate_tail i start) (\<lambda>_. file_is i w0 (take ?n ?d))
          (\<lambda>w. file_is i w0 ?d w \<or> file_is i w0 (take ?n ?d) w)"
      proof (rule truncate_spec)
        show "start = ?n \<or> start + 1 = ?n \<and> start < length ?d \<and> ?d ! start = CHR 0x0A"
        proof (rule disjE [OF start])
          assume s1: "start + 1 = ?n"
          then have eq: "start = ?n - 1" by simp
          have "?d ! start = CHR 0x0A" unfolding eq by (rule before)
          then show ?thesis using s1 at_n(2) by simp
        qed simp
        show "start = ?n \<Longrightarrow> start < length ?d \<Longrightarrow> ?d ! start \<noteq> CHR 0x0A"
          using at_n(1) torn_first [OF C t False] by simp
      qed
      moreover have "take ?n ?d = journal_text bs []" by simp
      ultimately show ?thesis
        unfolding last r using scan_torn [OF es] not_end by (auto elim: jspec_post)
    qed
  qed
  have body: "jspec (\<lambda>w. file_is i w0 ?d w \<and> x = jw_data w i)
      (jbind (as_csv_error (read_file i)) (\<lambda>d. case scan_records C (line_end (last x)) (length ?d) 0 (cv_read C d)
         of Inl _ \<Rightarrow> jfail (JCorrupt p) | Inr None \<Rightarrow> jreturn () | Inr (Some offset) \<Rightarrow> truncate_tail i offset)) ?Q ?E" for x
  proof (cases "x = ?d")
    case True
    show ?thesis
      unfolding True
    proof (rule jspec_bind_weak [OF jspec_csv_error [OF jspec_read]])
      fix y
      show "jspec (\<lambda>w. (file_is i w0 ?d w \<and> ?d = jw_data w i) \<and> y = jw_data w i)
        (case scan_records C (line_end (last ?d)) (length ?d) 0 (cv_read C y)
         of Inl _ \<Rightarrow> jfail (JCorrupt p) | Inr None \<Rightarrow> jreturn () | Inr (Some offset) \<Rightarrow> truncate_tail i offset) ?Q ?E"
      proof (cases "y = ?d")
        case True
        show ?thesis unfolding True by (rule jspec_pre [OF scan]) (erule conjunct1 [OF conjunct1])
      next
        case False
        show ?thesis by (rule jspec_absurd) (rule file_is_other(3) [OF False])
      qed
    next
      show "stable (\<lambda>w. file_is i w0 ?d w \<and> ?d = jw_data w i)" by (rule file_is_other(4))
    next
      fix w assume "file_is i w0 ?d w \<and> ?d = jw_data w i"
      then show "?E w" by (rule disjI2 [OF conjunct1])
    qed
  next
    case False
    show ?thesis by (rule jspec_absurd) (rule file_is_other(1) [OF False])
  qed
  show ?thesis
    unfolding recover_trailing_record_def
  proof (rule jspec_bind_weak [OF jspec_len])
    fix len
    have len: "length ?d \<noteq> length CSV_HEADER" by (simp add: crlf_def)
    show "jspec (\<lambda>w. file_is i w0 ?d w \<and> len = length (jw_data w i))
      (if len = length CSV_HEADER then jbind (write_all i crlf) (\<lambda>_. sync_file i)
       else jbind (read_file i) (\<lambda>d. let terminated = line_end (last d)
         in jbind (as_csv_error (read_file i)) (\<lambda>d.
           case scan_records C terminated len 0 (cv_read C d) of Inl _ \<Rightarrow> jfail (JCorrupt p)
           | Inr None \<Rightarrow> jreturn () | Inr (Some offset) \<Rightarrow> truncate_tail i offset))) ?Q ?E"
    proof (cases "len = length ?d")
      case True
      have neq: "(length ?d = length CSV_HEADER) = False" using len by simp
      show ?thesis
        unfolding True neq if_False Let_def
        by (rule jspec_pre [where P = "file_is i w0 ?d"], rule jspec_bind_weak [OF jspec_read [OF stable_frames(2)]])
          (erule disjI2, rule body, erule conjunct1)
    next
      case False
      show ?thesis by (rule jspec_absurd) (rule file_is_other(2) [OF False])
    qed
    show "stable (file_is i w0 ?d)" by (rule stable_frames)
    show "file_is i w0 ?d w \<Longrightarrow> file_is i w0 (journal_text bs []) w \<or> file_is i w0 ?d w" for w by (rule disjI2)
  qed
qed

end
