(* ===== verification/Effects.thy ===== *)
theory Effects
  imports Coordinator
begin

text \<open>
  Operations on a state that may return early with an error, as Rust's \<open>?\<close> makes them: the error
  ends the sequence, the state reached so far stays.
\<close>

definition st_return :: "'a \<Rightarrow> 's \<Rightarrow> ('e + 'a) \<times> 's" where
  "st_return x s = (Inr x, s)"

definition st_fail :: "'e \<Rightarrow> 's \<Rightarrow> ('e + 'a) \<times> 's" where
  "st_fail e s = (Inl e, s)"

definition st_bind :: "('s \<Rightarrow> ('e + 'a) \<times> 's) \<Rightarrow> ('a \<Rightarrow> 's \<Rightarrow> ('e + 'b) \<times> 's) \<Rightarrow> 's \<Rightarrow> ('e + 'b) \<times> 's" where
  "st_bind m f s = (case m s of (Inl e, s) \<Rightarrow> (Inl e, s) | (Inr x, s) \<Rightarrow> f x s)"

text \<open>\<open>From\<close>: the error of a part becomes one of the whole.\<close>

definition st_error :: "('e \<Rightarrow> 'f) \<Rightarrow> ('s \<Rightarrow> ('e + 'a) \<times> 's) \<Rightarrow> 's \<Rightarrow> ('f + 'a) \<times> 's" where
  "st_error g m s = (case m s of (Inl e, s) \<Rightarrow> (Inl (g e), s) | (Inr x, s) \<Rightarrow> (Inr x, s))"

text \<open>A part that works on a component of the state.\<close>

definition st_on :: "('s \<Rightarrow> 't) \<Rightarrow> ('t \<Rightarrow> 's \<Rightarrow> 's) \<Rightarrow> ('t \<Rightarrow> ('e + 'a) \<times> 't) \<Rightarrow> 's \<Rightarrow> ('e + 'a) \<times> 's" where
  "st_on get put m s = (case m (get s) of (r, t) \<Rightarrow> (r, put t s))"

lemma st_return_iff [simp]: "st_return x s = (r, s') \<longleftrightarrow> r = Inr x \<and> s' = s"
  by (auto simp: st_return_def)

lemma st_fail_iff [simp]: "st_fail e s = (r, s') \<longleftrightarrow> r = Inl e \<and> s' = s"
  by (auto simp: st_fail_def)

lemma st_bind_ok: "m s = (Inr x, s1) \<Longrightarrow> st_bind m f s = f x s1"
  by (simp add: st_bind_def)

lemma st_bind_err: "m s = (Inl e, s1) \<Longrightarrow> st_bind m f s = (Inl e, s1)"
  by (simp add: st_bind_def)

lemma st_bind_Inr:
  "st_bind m f s = (Inr y, s') \<longleftrightarrow> (\<exists>x s1. m s = (Inr x, s1) \<and> f x s1 = (Inr y, s'))"
  by (auto simp: st_bind_def split: prod.splits sum.splits)

lemma st_bind_Inl:
  "st_bind m f s = (Inl e, s') \<longleftrightarrow>
     m s = (Inl e, s') \<or> (\<exists>x s1. m s = (Inr x, s1) \<and> f x s1 = (Inl e, s'))"
  by (auto simp: st_bind_def split: prod.splits sum.splits)

lemma st_error_Inr [simp]: "st_error g m s = (Inr x, s') \<longleftrightarrow> m s = (Inr x, s')"
  by (auto simp: st_error_def split: prod.splits sum.splits)

lemma st_error_Inl [simp]: "st_error g m s = (Inl e, s') \<longleftrightarrow> (\<exists>d. m s = (Inl d, s') \<and> e = g d)"
  by (auto simp: st_error_def split: prod.splits sum.splits)

lemma snd_st_error [simp]: "snd (st_error g m s) = snd (m s)"
  by (auto simp: st_error_def split: prod.splits sum.splits)

text \<open>An error of the operating system: its code, whether it is a missing permission, its text.\<close>

record os_error =
  oe_code :: "int option"
  oe_denied :: bool
  oe_text :: string

text \<open>Invariants pass through.\<close>

definition keeps :: "('s \<Rightarrow> bool) \<Rightarrow> ('s \<Rightarrow> ('e + 'a) \<times> 's) \<Rightarrow> bool" where
  "keeps I m \<longleftrightarrow> (\<forall>s. I s \<longrightarrow> I (snd (m s)))"

lemma keepsD: "keeps I m \<Longrightarrow> I s \<Longrightarrow> I (snd (m s))"
  by (simp add: keeps_def)

lemma st_keeps_return [simp]: "keeps I (st_return x)"
  by (simp add: keeps_def st_return_def)

lemma keeps_fail [simp]: "keeps I (st_fail e)"
  by (simp add: keeps_def st_fail_def)

lemma st_keeps_bind: "keeps I m \<Longrightarrow> (\<And>x. keeps I (f x)) \<Longrightarrow> keeps I (st_bind m f)"
  by (fastforce simp: keeps_def st_bind_def split: prod.splits sum.splits)

lemma keeps_error [simp]: "keeps I (st_error g m) = keeps I m"
  by (simp add: keeps_def)


end
