(* ===== verification/Ping.thy ===== *)
theory Ping
  imports Effects Interfaces StdText
begin

text \<open>
  \<open>ping.rs\<close>: one round of probes, one per target, and how the answer of the ICMP library becomes
  an event. The library, the routing table and the list of interfaces are the parameter \<open>N\<close>;
  what the tasks of a round come to is a function of the probe. Sequence numbers and identifiers
  are machine words, as they wrap.
\<close>

subsection \<open>Data\<close>

record probe_request =
  pq_target :: ip_addr
  pq_identifier :: "16 word"
  pq_sequence :: "16 word"
  pq_timeout :: duration

record probe_binding =
  pb_interface :: "string option"
  pb_local_ip :: "ip_addr option"

definition binding_default :: probe_binding where
  "binding_default = \<lparr> pb_interface = None, pb_local_ip = None \<rparr>"

record probe_reply =
  pr_target :: ip_addr
  pr_identifier :: "16 word option"
  pr_sequence :: "16 word"
  pr_rtt :: duration
  pr_icmp_type :: nat
  pr_icmp_code :: nat

datatype probe_failure =
    PfTimeout
  | PfUnreachable nat nat string
  | PfPermissionDenied "int option" string
  | PfCancelled
  | PfIo "int option" string
  | PfProtocol string

record probe_attempt =
  pa_binding :: probe_binding
  pa_sent :: bool
  pa_result :: "probe_failure + probe_reply"

record ping_round_request =
  pg_run_id :: run_id
  pg_round_number :: u64
  pg_targets :: "ip_addr list"
  pg_timeout :: duration
  pg_scheduled_at_utc :: "time option"
  pg_identifier :: "16 word"
  pg_load_phase :: "load_phase option"
  pg_load_run_id :: "run_id option"

record ping_round_report =
  pp_events :: "measurement_event list"
  pp_successful :: nat
  pp_failed :: nat

definition report_outcome :: "ping_round_report \<Rightarrow> outcome" where
  "report_outcome r =
     (if pp_failed r = 0 then Success else if 0 < pp_successful r then PartialOutcome else ErrorOutcome)"

datatype ping_exit_status = PingSuccess | PingPartialFailure

definition report_exit_status :: "ping_round_report \<Rightarrow> ping_exit_status" where
  "report_exit_status r = (if pp_failed r = 0 then PingSuccess else PingPartialFailure)"

definition ping_exit_code :: "ping_exit_status \<Rightarrow> nat" where
  "ping_exit_code s = (case s of PingSuccess \<Rightarrow> 0 | PingPartialFailure \<Rightarrow> 1)"

datatype ping_round_error =
    NoTargets
  | DuplicateTarget ip_addr
  | TooManyTargets

definition ping_round_error_text :: "ping_round_error \<Rightarrow> string" where
  "ping_round_error_text e =
     (case e of
        NoTargets \<Rightarrow> ''a ping round requires at least one target''
      | DuplicateTarget a \<Rightarrow> ''duplicate ping target: '' @ ip_text a
      | TooManyTargets \<Rightarrow> ''a ping round supports at most 65536 targets'')"

datatype ping_command_error = PcJournal journal_error | PcRound ping_round_error

subsection \<open>Reading a reply\<close>

definition word_text :: "'a::len word \<Rightarrow> string" where
  "word_text w = nat_text (unat w)"

definition validate_reply :: "probe_request \<Rightarrow> probe_reply \<Rightarrow> probe_failure + probe_reply" where
  "validate_reply q r =
     (if pr_target r \<noteq> pq_target q
      then Inl (PfProtocol (''reply target mismatch: expected '' @ ip_text (pq_target q) @
                            '', received '' @ ip_text (pr_target r)))
      else
        case (case pr_identifier r of Some i \<Rightarrow> if i \<noteq> pq_identifier q then Some i else None | None \<Rightarrow> None) of
          Some i \<Rightarrow> Inl (PfProtocol (''reply identifier mismatch: expected '' @ word_text (pq_identifier q) @
                                     '', received '' @ word_text i))
        | None \<Rightarrow>
            (if pr_sequence r \<noteq> pq_sequence q
             then Inl (PfProtocol (''reply sequence mismatch: expected '' @ word_text (pq_sequence q) @
                                   '', received '' @ word_text (pr_sequence r)))
             else
               let echo_reply_type = (case pq_target q of IPv4 _ \<Rightarrow> 0 | IPv6 _ \<Rightarrow> 129)
               in if pr_icmp_type r \<noteq> echo_reply_type \<or> pr_icmp_code r \<noteq> 0
                  then Inl (PfUnreachable (pr_icmp_type r) (pr_icmp_code r)
                              (''ICMP error reply type '' @ nat_text (pr_icmp_type r) @
                               '' code '' @ nat_text (pr_icmp_code r)))
                  else Inr r))"

record failure_fields =
  ff_outcome :: outcome
  ff_icmp_type :: "nat option"
  ff_icmp_code :: "nat option"
  ff_error_kind :: error_kind
  ff_os_error_code :: "int option"
  ff_message :: string

text \<open>\<open>show_duration\<close> is \<open>humantime::format_duration\<close>.\<close>

definition failure_fields_of :: "(duration \<Rightarrow> string) \<Rightarrow> probe_failure \<Rightarrow> duration \<Rightarrow> failure_fields" where
  "failure_fields_of show_duration failure timeout =
     (case failure of
        PfTimeout \<Rightarrow>
          \<lparr> ff_outcome = TimeoutOutcome, ff_icmp_type = None, ff_icmp_code = None,
            ff_error_kind = EkIcmpTimeout, ff_os_error_code = None,
            ff_message = ''ping timed out after '' @ show_duration timeout \<rparr>
      | PfUnreachable t c m \<Rightarrow>
          \<lparr> ff_outcome = Unreachable, ff_icmp_type = Some t, ff_icmp_code = Some c,
            ff_error_kind = EkIcmpUnreachable, ff_os_error_code = None, ff_message = m \<rparr>
      | PfPermissionDenied os m \<Rightarrow>
          \<lparr> ff_outcome = PermissionDeniedOutcome, ff_icmp_type = None, ff_icmp_code = None,
            ff_error_kind = EkPermissionDenied, ff_os_error_code = os,
            ff_message = m @ ''; on Linux, allow this service user'' @ [CHR 0x27] @
              ''s group in net.ipv4.ping_group_range, or grant only cap_net_raw when datagram ICMP is unavailable'' \<rparr>
      | PfCancelled \<Rightarrow>
          \<lparr> ff_outcome = CancelledOutcome, ff_icmp_type = None, ff_icmp_code = None,
            ff_error_kind = EkCancelled, ff_os_error_code = None, ff_message = ''ping was cancelled'' \<rparr>
      | PfIo os m \<Rightarrow>
          \<lparr> ff_outcome = ErrorOutcome, ff_icmp_type = None, ff_icmp_code = None,
            ff_error_kind = EkIo, ff_os_error_code = os, ff_message = m \<rparr>
      | PfProtocol m \<Rightarrow>
          \<lparr> ff_outcome = ErrorOutcome, ff_icmp_type = None, ff_icmp_code = None,
            ff_error_kind = EkProtocol, ff_os_error_code = None, ff_message = m \<rparr>)"

subsection \<open>The event of a probe\<close>

record measurement_context =
  mc_run_id :: run_id
  mc_scheduled_at :: "time option"
  mc_load_phase :: "load_phase option"
  mc_load_run_id :: "run_id option"

definition apply_common ::
    "measurement_context \<Rightarrow> time \<Rightarrow> probe_binding \<Rightarrow> string \<Rightarrow> 16 word \<Rightarrow> measurement_event \<Rightarrow> measurement_event" where
  "apply_common c started_at b target sq ev =
     ev \<lparr> ev_scheduled_at_utc := mc_scheduled_at c, ev_started_at_utc := Some started_at,
          ev_interface := pb_interface b, ev_ping_local_ip := pb_local_ip b,
          ev_load_phase := mc_load_phase c, ev_load_run_id := mc_load_run_id c,
          ev_ping_target_ip := Some target, ev_ping_sequence := Some (unat sq) \<rparr>"

definition attempt_validated :: "probe_request \<Rightarrow> probe_attempt \<Rightarrow> probe_failure + probe_reply" where
  "attempt_validated q a = (case pa_result a of Inl f \<Rightarrow> Inl f | Inr r \<Rightarrow> validate_reply q r)"

definition attempt_success :: "probe_request \<Rightarrow> probe_attempt \<Rightarrow> bool" where
  "attempt_success q a = (case attempt_validated q a of Inl _ \<Rightarrow> False | Inr _ \<Rightarrow> True)"

text \<open>When a probe started and ended, how long it took, and the identifier of its event.\<close>

record probe_clock =
  pk_started_at :: time
  pk_finished_at :: time
  pk_duration :: duration
  pk_event_id :: event_id

definition build_measurement ::
    "(duration \<Rightarrow> string) \<Rightarrow> measurement_context \<Rightarrow> probe_clock \<Rightarrow> probe_request \<Rightarrow> probe_attempt \<Rightarrow>
     measurement_event \<times> bool" where
  "build_measurement show_duration c k q a =
     (let validated = attempt_validated q a;
          success = attempt_success q a;
          bare = (\<lambda>out. apply_common c (pk_started_at k) (pa_binding a) (ip_text (pq_target q)) (pq_sequence q)
                    (event_new (pk_event_id k) (mc_run_id c) PingProbe out (pk_finished_at k))
                    \<lparr> ev_elapsed_ms := Some (duration_ms_f64 (pk_duration k)),
                      ev_ping_packets_sent := Some (if pa_sent a then 1 else 0),
                      ev_ping_packets_received := Some (if success then 1 else 0) \<rparr>)
      in (case validated of
            Inr r \<Rightarrow>
              (bare Success)
                \<lparr> ev_ping_rtt_ms := Some (duration_ms_f64 (pr_rtt r)),
                  ev_ping_icmp_type := Some (pr_icmp_type r), ev_ping_icmp_code := Some (pr_icmp_code r) \<rparr>
          | Inl f \<Rightarrow>
              (let ff = failure_fields_of show_duration f (pq_timeout q)
               in (bare (ff_outcome ff))
                    \<lparr> ev_ping_icmp_type := ff_icmp_type ff, ev_ping_icmp_code := ff_icmp_code ff,
                      ev_os_error_code := ff_os_error_code ff, ev_error_kind := Some (ff_error_kind ff),
                      ev_message := Some (ff_message ff) \<rparr>),
          success))"

subsection \<open>A round\<close>

fun first_duplicate :: "'a set \<Rightarrow> 'a list \<Rightarrow> 'a option" where
  "first_duplicate seen [] = None"
| "first_duplicate seen (x # xs) = (if x \<in> seen then Some x else first_duplicate (insert x seen) xs)"

definition validate_round_request :: "ping_round_request \<Rightarrow> ping_round_error + unit" where
  "validate_round_request g =
     (if pg_targets g = [] then Inl NoTargets
      else if 65536 < length (pg_targets g) then Inl TooManyTargets
      else case first_duplicate {} (pg_targets g) of
        Some t \<Rightarrow> Inl (DuplicateTarget t)
      | None \<Rightarrow> Inr ())"

definition round_sequence :: "ping_round_request \<Rightarrow> nat \<Rightarrow> 16 word" where
  "round_sequence g index =
     ucast (pg_round_number g * (of_nat (length (pg_targets g)) :: u64) + of_nat index)"

definition round_probe :: "ping_round_request \<Rightarrow> nat \<Rightarrow> probe_request" where
  "round_probe g index =
     \<lparr> pq_target = pg_targets g ! index, pq_identifier = pg_identifier g,
       pq_sequence = round_sequence g index, pq_timeout = pg_timeout g \<rparr>"

definition round_context :: "ping_round_request \<Rightarrow> measurement_context" where
  "round_context g =
     \<lparr> mc_run_id = pg_run_id g, mc_scheduled_at = pg_scheduled_at_utc g,
       mc_load_phase = pg_load_phase g, mc_load_run_id = pg_load_run_id g \<rparr>"

text \<open>What the task of a probe comes to: it ends with the attempt, or is lost.\<close>

datatype probe_task =
    ProbeDone probe_clock probe_attempt
  | ProbeLost string time event_id

definition internal_failure ::
    "(duration \<Rightarrow> string) \<Rightarrow> ping_round_request \<Rightarrow> ip_addr \<Rightarrow> 16 word \<Rightarrow> string \<Rightarrow> time \<Rightarrow> event_id \<Rightarrow>
     measurement_event \<times> bool" where
  "internal_failure show_duration g target sq message now eid =
     build_measurement show_duration (round_context g)
       \<lparr> pk_started_at = now, pk_finished_at = now, pk_duration = 0, pk_event_id = eid \<rparr>
       \<lparr> pq_target = target, pq_identifier = 0, pq_sequence = sq, pq_timeout = 0 \<rparr>
       \<lparr> pa_binding = binding_default, pa_sent = False, pa_result = Inl (PfProtocol message) \<rparr>"

definition measure_target ::
    "(duration \<Rightarrow> string) \<Rightarrow> (probe_request \<Rightarrow> probe_task) \<Rightarrow> ping_round_request \<Rightarrow> nat \<Rightarrow> measurement_event \<times> bool" where
  "measure_target show_duration tasks g index =
     (case tasks (round_probe g index) of
        ProbeDone k a \<Rightarrow> build_measurement show_duration (round_context g) k (round_probe g index) a
      | ProbeLost e now eid \<Rightarrow>
          internal_failure show_duration g (pg_targets g ! index) (round_sequence g index)
            (''ping task failed: '' @ e) now eid)"

definition measure_round ::
    "(duration \<Rightarrow> string) \<Rightarrow> (probe_request \<Rightarrow> probe_task) \<Rightarrow> ping_round_request \<Rightarrow>
     ping_round_error + ping_round_report" where
  "measure_round show_duration tasks g =
     (case validate_round_request g of
        Inl e \<Rightarrow> Inl e
      | Inr _ \<Rightarrow>
          (let ms = map (measure_target show_duration tasks g) [0..<length (pg_targets g)]
           in Inr \<lparr> pp_events = map fst ms, pp_successful = length (filter snd ms),
                    pp_failed = length (filter (\<lambda>m. \<not> snd m) ms) \<rparr>))"

subsection \<open>Choosing a source address\<close>

definition map_io :: "os_error \<Rightarrow> probe_failure" where
  "map_io e = (if oe_denied e then PfPermissionDenied (oe_code e) (oe_text e) else PfIo (oe_code e) (oe_text e))"

record ping_interface = if_entry +
  if_index :: "nat option"

record source_selection =
  ss_address :: ip_addr
  ss_index :: "nat option"

definition is_unicast_link_local :: "128 word \<Rightarrow> bool" where
  "is_unicast_link_local w \<longleftrightarrow> unat (drop_bit 118 w) = 1018"

definition is_loopback4 :: "32 word \<Rightarrow> bool" where
  "is_loopback4 w \<longleftrightarrow> unat (drop_bit 24 w) = 127"

definition link_local6 :: "ip_addr \<Rightarrow> bool" where
  "link_local6 a = (case a of IPv4 _ \<Rightarrow> False | IPv6 w \<Rightarrow> is_unicast_link_local w)"

fun same_family :: "ip_addr \<Rightarrow> ip_addr \<Rightarrow> bool" where
  "same_family (IPv4 _) (IPv4 _) = True"
| "same_family (IPv6 _) (IPv6 _) = True"
| "same_family _ _ = False"

fun source_rank :: "ip_addr \<Rightarrow> ip_addr \<Rightarrow> nat" where
  "source_rank (IPv6 s) (IPv6 t) = (if is_unicast_link_local s = is_unicast_link_local t then 0 else 1)"
| "source_rank (IPv4 s) (IPv4 t) = (if is_loopback4 s = is_loopback4 t then 0 else 1)"
| "source_rank _ _ = 1"

text \<open>
  The ICMP library and the operating system. \<open>nt_route\<close> is the local address of a UDP socket
  connected to the target, or the error of one of its calls; an answer carries the type, code
  and sequence of the packet, its identifier where the socket keeps one, and the time it took.
\<close>

datatype surge_result =
    SurgeReply "16 word option" "16 word" duration nat nat
  | SurgeTimeout
  | SurgeIo os_error
  | SurgeNetwork
  | SurgeClientDestroyed
  | SurgeOther string

record 'c ping_net =
  nt_interfaces :: "os_error + ping_interface list"
  nt_route :: "ip_addr \<Rightarrow> os_error + ip_addr"
  nt_client :: "ip_addr \<Rightarrow> string option \<Rightarrow> nat option \<Rightarrow> os_error + 'c"
  nt_ping :: "'c \<Rightarrow> nat option \<Rightarrow> probe_request \<Rightarrow> surge_result"

definition named_interface :: "string \<Rightarrow> ip_addr \<Rightarrow> ping_interface list \<Rightarrow> probe_failure + source_selection" where
  "named_interface interface target interfaces =
     (let named = filter (\<lambda>c. if_name c = interface) interfaces in
      if named = [] then Inl (PfIo None (''network interface does not exist: '' @ interface))
      else if \<not> list_ex if_oper_up named then Inl (PfIo None (''network interface is not up: '' @ interface))
      else
        case min_by_key (\<lambda>c. source_rank (if_ip c) target) (filter (\<lambda>c. same_family (if_ip c) target) named) of
          None \<Rightarrow> Inl (PfIo None (''network interface '' @ interface @ '' has no address matching target '' @ ip_text target))
        | Some c \<Rightarrow> Inr \<lparr> ss_address = if_ip c, ss_index = if_index c \<rparr>)"

definition resolve_source ::
    "'c ping_net \<Rightarrow> ip_addr \<Rightarrow> string option \<Rightarrow> probe_failure + source_selection" where
  "resolve_source N target interface =
     (case interface of
        Some i \<Rightarrow>
          (case nt_interfaces N of
             Inl e \<Rightarrow> Inl (map_io e)
           | Inr interfaces \<Rightarrow> named_interface i target interfaces)
      | None \<Rightarrow>
          (if link_local6 target
           then Inl (PfIo None ''an interface is required for an IPv6 link-local ping target'')
           else case nt_route N target of
                  Inl e \<Rightarrow> Inl (map_io e)
                | Inr a \<Rightarrow> Inr \<lparr> ss_address = a, ss_index = None \<rparr>))"

subsection \<open>The transport\<close>

datatype 'c target_transport =
    TtReady 'c probe_binding nat
  | TtFailed probe_binding probe_failure

text \<open>An index of zero is no index.\<close>

definition create_client :: "'c ping_net \<Rightarrow> ip_addr \<Rightarrow> string option \<Rightarrow> nat option \<Rightarrow> probe_failure + 'c" where
  "create_client N source interface index =
     (case nt_client N source interface (case index of Some i \<Rightarrow> if i = 0 then None else Some i | None \<Rightarrow> None) of
        Inl e \<Rightarrow> Inl (map_io e)
      | Inr c \<Rightarrow> Inr c)"

text \<open>One client per source address, made when the first target needs it.\<close>

definition target_transport_for ::
    "'c ping_net \<Rightarrow> string option \<Rightarrow> ip_addr \<Rightarrow> (ip_addr \<rightharpoonup> probe_failure + 'c) \<Rightarrow>
     'c target_transport \<times> (ip_addr \<rightharpoonup> probe_failure + 'c)" where
  "target_transport_for N interface target clients =
     (case resolve_source N target interface of
        Inl failure \<Rightarrow> (TtFailed \<lparr> pb_interface = interface, pb_local_ip = None \<rparr> failure, clients)
      | Inr source \<Rightarrow>
          (let binding = \<lparr> pb_interface = interface, pb_local_ip = Some (ss_address source) \<rparr>;
               client = (case clients (ss_address source) of
                           Some c \<Rightarrow> c
                         | None \<Rightarrow> create_client N (ss_address source) interface (ss_index source))
           in (case client of
                 Inr c \<Rightarrow> TtReady c binding (case ss_index source of Some i \<Rightarrow> i | None \<Rightarrow> 0)
               | Inl failure \<Rightarrow> TtFailed binding failure,
               clients(ss_address source \<mapsto> client))))"

fun configure_targets ::
    "'c ping_net \<Rightarrow> string option \<Rightarrow> ip_addr list \<Rightarrow> (ip_addr \<rightharpoonup> probe_failure + 'c) \<Rightarrow>
     (ip_addr \<rightharpoonup> 'c target_transport) \<Rightarrow> (ip_addr \<rightharpoonup> 'c target_transport)" where
  "configure_targets N interface [] clients configured = configured"
| "configure_targets N interface (t # ts) clients configured =
     (let (tt, clients) = target_transport_for N interface t clients
      in configure_targets N interface ts clients (configured(t \<mapsto> tt)))"

definition surge_transport :: "'c ping_net \<Rightarrow> string option \<Rightarrow> ip_addr list \<Rightarrow> (ip_addr \<rightharpoonup> 'c target_transport)" where
  "surge_transport N interface targets = configure_targets N interface targets Map.empty Map.empty"

definition map_surge_error :: "surge_result \<Rightarrow> probe_failure \<times> bool" where
  "map_surge_error r =
     (case r of
        SurgeTimeout \<Rightarrow> (PfTimeout, True)
      | SurgeIo e \<Rightarrow> (map_io e, False)
      | SurgeNetwork \<Rightarrow> (PfIo None ''ICMP receive task stopped before a reply arrived'', True)
      | SurgeClientDestroyed \<Rightarrow> (PfCancelled, False)
      | SurgeOther m \<Rightarrow> (PfProtocol m, False)
      | SurgeReply _ _ _ _ _ \<Rightarrow> (PfProtocol [], False))"

definition probe :: "'c ping_net \<Rightarrow> (ip_addr \<rightharpoonup> 'c target_transport) \<Rightarrow> probe_request \<Rightarrow> probe_attempt" where
  "probe N targets q =
     (case targets (pq_target q) of
        None \<Rightarrow>
          \<lparr> pa_binding = binding_default, pa_sent = False,
            pa_result = Inl (PfProtocol ''target was not configured in the ICMP transport'') \<rparr>
      | Some (TtFailed binding failure) \<Rightarrow>
          \<lparr> pa_binding = binding, pa_sent = False, pa_result = Inl failure \<rparr>
      | Some (TtReady client binding scope_id) \<Rightarrow>
          (let scope = (if scope_id \<noteq> 0 \<and> link_local6 (pq_target q) then Some scope_id else None)
           in case nt_ping N client scope q of
                SurgeReply ident sq rtt t c \<Rightarrow>
                  \<lparr> pa_binding = binding, pa_sent = True,
                    pa_result = Inr \<lparr> pr_target = pq_target q, pr_identifier = ident, pr_sequence = sq,
                                       pr_rtt = rtt, pr_icmp_type = t, pr_icmp_code = c \<rparr> \<rparr>
              | r \<Rightarrow>
                  \<lparr> pa_binding = binding, pa_sent = snd (map_surge_error r),
                    pa_result = Inl (fst (map_surge_error r)) \<rparr>))"

subsection \<open>\<open>once ping\<close>\<close>

definition probe_identifier :: "nat \<Rightarrow> u64 \<Rightarrow> 16 word" where
  "probe_identifier process_id run_number = ucast (xor (of_nat process_id) run_number)"

definition once_request :: "'u resolved_config \<Rightarrow> run_id \<Rightarrow> 16 word \<Rightarrow> ping_round_request" where
  "once_request config i identifier =
     \<lparr> pg_run_id = i, pg_round_number = 0, pg_targets = pc_targets (rc_ping config),
       pg_timeout = pc_timeout (rc_ping config), pg_scheduled_at_utc = None,
       pg_identifier = identifier, pg_load_phase = None, pg_load_run_id = None \<rparr>"

text \<open>The session of the command; \<open>ms\<close> are the instants of its calls of the coordinator.\<close>

definition ping_session ::
    "('j, 'c) sinks \<Rightarrow> (duration \<Rightarrow> string) \<Rightarrow> (probe_request \<Rightarrow> probe_task) \<Rightarrow> (nat \<Rightarrow> moment) \<Rightarrow>
     string option \<Rightarrow> run_id \<Rightarrow> ping_round_request \<Rightarrow> ('j, 'c) coordinator \<Rightarrow>
     (ping_command_error + ping_exit_status) \<times> ('j, 'c) coordinator" where
  "ping_session S show_duration tasks ms interface session g =
     st_bind (st_error PcJournal (start_session S (ms 0) session ''once ping'')) (\<lambda>_.
     st_bind (st_error PcJournal (start_run_with_context S (ms 1) (pg_run_id g) session RkPingRound
                (run_context_default \<lparr> rx_interface := interface \<rparr>))) (\<lambda>_.
     case measure_round show_duration tasks g of
       Inl e \<Rightarrow> st_fail (PcRound e)
     | Inr report \<Rightarrow>
         st_bind (st_error PcJournal (publish_batch S (pp_events report))) (\<lambda>_.
         st_bind (st_error PcJournal (finish_run S (ms 2) (pg_run_id g) (report_outcome report) None)) (\<lambda>_.
         st_bind (st_error PcJournal (finish_run S (ms 3) session (report_outcome report) None)) (\<lambda>_.
         st_return (report_exit_status report))))))"

text \<open>
  \<open>open_journal\<close> opens the output in the world \<open>w\<close>. The result comes with the coordinator as it
  is left, or with the world when none was made.
\<close>

definition execute_ping_once ::
    "('j, 'c) sinks \<Rightarrow> (duration \<Rightarrow> string) \<Rightarrow> (probe_request \<Rightarrow> probe_task) \<Rightarrow> (nat \<Rightarrow> moment) \<Rightarrow>
     'u resolved_config \<Rightarrow> run_id \<Rightarrow> run_id \<Rightarrow> u64 \<Rightarrow> ('w \<Rightarrow> (journal_error + 'j) \<times> 'w) \<Rightarrow> 'c \<Rightarrow> 'w \<Rightarrow>
     (ping_command_error + ping_exit_status) \<times> ('w + ('j, 'c) coordinator)" where
  "execute_ping_once S show_duration tasks ms config session i run_number open_journal console w =
     (let g = once_request config i (probe_identifier (sk_process_id S) run_number)
      in case validate_round_request g of
           Inl e \<Rightarrow> (Inl (PcRound e), Inl w)
         | Inr _ \<Rightarrow>
             (case open_journal w of
                (Inl e, w) \<Rightarrow> (Inl (PcJournal e), Inl w)
              | (Inr j, w) \<Rightarrow>
                  (let interface = (case rc_interfaces config of [] \<Rightarrow> None | n # _ \<Rightarrow> Some n);
                       (result, s) = ping_session S show_duration tasks ms interface session g
                         (coordinator_new j console);
                       (flushed, s) = coordinator_flush S s
                   in (case result of
                         Inl e \<Rightarrow> Inl e
                       | Inr status \<Rightarrow> (case flushed of Inl e \<Rightarrow> Inl (PcJournal e) | Inr _ \<Rightarrow> Inr status),
                       Inr s))))"

end
