(* ===== verification/RunLog.thy ===== *)
theory RunLog
  imports CoordinatorProps Effects
begin

text \<open>
  What successful calls of the coordinator add to the log of acknowledged events, up to the place
  in the run tree that each event is given: kind, run and outcome of every event, in order.
\<close>

type_synonym event_shape = "event_kind \<times> run_id \<times> outcome"

definition shape :: "measurement_event \<Rightarrow> event_shape" where
  "shape ev = (ev_event_kind ev, ev_run_id ev, ev_outcome ev)"

lemma shape_place [simp]: "shape (place_event runs n ev) = shape ev"
  by (simp add: shape_def place_event_def Let_def split: option.splits)

lemma number_shapes:
  "number_events runs n evs = (m, Some placed) \<Longrightarrow> map shape placed = map shape evs"
proof (induction evs arbitrary: n m placed)
  case (Cons ev evs)
  then show ?case by (auto split: option.splits prod.splits)
qed simp

text \<open>Console contents and active runs, before and after.\<close>

definition grows ::
    "('j, measurement_event list) coordinator \<Rightarrow> event_shape list \<Rightarrow> ('j, measurement_event list) coordinator \<Rightarrow> bool" where
  "grows s shapes s' \<longleftrightarrow> map shape (oc_console s') = map shape (oc_console s) @ shapes"

lemma grows_refl [simp]: "grows s [] s"
  by (simp add: grows_def)

lemma grows_trans: "grows s xs s1 \<Longrightarrow> grows s1 ys s2 \<Longrightarrow> grows s (xs @ ys) s2"
  by (simp add: grows_def)

lemma grows_runs [simp]: "grows s xs (s' \<lparr> oc_runs := r \<rparr>) = grows s xs s'"
  "grows (s \<lparr> oc_sequence := n \<rparr>) xs s' = grows s xs s'"
  by (simp_all add: grows_def)

lemma publish_grows:
  assumes "publish_batch (logging S) evs s = (Inr u, s')"
  shows "grows s (map shape evs) s'" "oc_runs s' = oc_runs s"
proof -
  from publish_logged [OF assms] obtain n placed where
    p: "number_events (oc_runs s) (oc_sequence s) evs = (n, Some placed)"
    "oc_console s' = oc_console s @ placed" "oc_runs s' = oc_runs s" by blast
  show "grows s (map shape evs) s'" by (simp add: grows_def p(2) number_shapes [OF p(1)])
  show "oc_runs s' = oc_runs s" by (rule p(3))
qed

lemma shape_started [simp]: "shape (run_started_event S m i parent root_id kind command ctx) = (RunStarted, i, Started)"
  by (simp add: shape_def run_started_event_def Let_def split: option.splits)

lemma shape_finished [simp]: "shape (run_finished_event m i out err run) = (RunFinished, i, out)"
  by (simp add: shape_def run_finished_event_def Let_def split: option.splits)

lemma begin_run_grows:
  assumes "begin_run (logging S) m i parent kind command ctx s = (Inr u, s')"
  shows "grows s [(RunStarted, i, Started)] s'"
    "\<exists>r. oc_runs s' = bt_insert i r (oc_runs s) \<and> ar_parent r = parent" "bt_get (oc_runs s) i = None"
  using assms publish_grows
  by (fastforce simp: begin_run_def Let_def split: if_splits sum.splits prod.splits)+

lemma start_session_grows:
  assumes "start_session (logging S) m i command s = (Inr u, s')"
  shows "grows s [(RunStarted, i, Started)] s'" "oc_runs s = []"
    "\<exists>r. oc_runs s' = [(i, r)] \<and> ar_parent r = None"
  using assms begin_run_grows [of S m i None RkSession "Some command" run_context_default "s \<lparr> oc_sequence := 0 \<rparr>" u s']
  by (auto simp: start_session_def split: if_splits)

lemma start_run_grows:
  assumes "start_run_with_context (logging S) m i parent kind ctx s = (Inr u, s')"
  shows "grows s [(RunStarted, i, Started)] s'"
    "\<exists>r. oc_runs s' = bt_insert i r (oc_runs s) \<and> ar_parent r = Some parent" "bt_get (oc_runs s) i = None"
    "bt_get (oc_runs s) parent \<noteq> None"
  using assms begin_run_grows [of S m i "Some parent" kind None ctx s u s']
  by (auto simp: start_run_with_context_def split: if_splits)

lemma finish_run_grows:
  assumes "finish_run (logging S) m i out err s = (Inr u, s')"
  shows "grows s [(RunFinished, i, out)] s'" "oc_runs s' = bt_remove i (oc_runs s)"
    "bt_get (oc_runs s) i \<noteq> None"
  using assms publish_grows
  by (fastforce simp: finish_run_def split: if_splits sum.splits prod.splits option.splits)+

end
