(* ===== verification/PingProps.thy ===== *)
theory PingProps
  imports Ping RunLog
begin

text \<open>
  A round of probes is complete and its sequence numbers tell its probes apart; a probe on an
  interface leaves by that interface.
\<close>

subsection \<open>Valid rounds\<close>

lemma first_duplicate_None: "first_duplicate seen xs = None \<longleftrightarrow> distinct xs \<and> set xs \<inter> seen = {}"
  by (induction seen xs rule: first_duplicate.induct) auto

lemma valid_round:
  "validate_round_request g = Inr u \<longleftrightarrow>
     pg_targets g \<noteq> [] \<and> length (pg_targets g) \<le> 65536 \<and> distinct (pg_targets g)"
  using first_duplicate_None [of "{}" "pg_targets g"]
  by (auto simp: validate_round_request_def split: option.splits)

lemma measure_round_Inr:
  assumes "measure_round show_duration tasks g = Inr r"
  shows "pg_targets g \<noteq> []" "length (pg_targets g) \<le> 65536" "distinct (pg_targets g)"
    "pp_events r = map (fst \<circ> measure_target show_duration tasks g) [0..<length (pg_targets g)]"
    "pp_successful r = length (filter (snd \<circ> measure_target show_duration tasks g) [0..<length (pg_targets g)])"
    "pp_failed r = length (filter (Not \<circ> snd \<circ> measure_target show_duration tasks g) [0..<length (pg_targets g)])"
  using assms valid_round [of g]
  by (auto simp: measure_round_def Let_def comp_def length_filter_map split: sum.splits)

subsection \<open>Sequence numbers\<close>

lemma unat_round_sequence:
  "unat (round_sequence g i) = (unat (pg_round_number g) * length (pg_targets g) + i) mod 65536"
proof -
  have "unat (pg_round_number g * (of_nat (length (pg_targets g)) :: u64) + of_nat i) =
      (unat (pg_round_number g) * length (pg_targets g) + i) mod 2 ^ 64"
    by (simp add: unat_word_ariths unat_of_nat mod_simps)
  then show ?thesis
    by (simp add: round_sequence_def unsigned_ucast_eq unsigned_take_bit_eq take_bit_eq_mod mod_mod_cancel)
qed

lemma mod_offsets_differ:
  fixes a i j n :: nat
  assumes "i < n" "j < n" "i \<noteq> j" shows "(a + i) mod n \<noteq> (a + j) mod n"
proof -
  have "(a + i) mod n \<noteq> (a + j) mod n" if "i < j" "j < n" for i j
  proof
    assume "(a + i) mod n = (a + j) mod n"
    then have "n dvd (a + j) - (a + i)" using that(1) by (metis less_imp_le mod_eq_dvd_iff_nat nat_add_left_cancel_le)
    then have "n \<le> j - i" using that(1) by (auto dest: dvd_imp_le)
    then show False using that(2) by simp
  qed
  then show ?thesis using assms by (metis linorder_neqE_nat)
qed

text \<open>
  Probes are numbered through: the probes of all rounds counted from the start of the monitor,
  probe \<open>k\<close> carries \<open>k mod 65536\<close>, also after the 64-bit product of round and target count has
  wrapped, and no two probes of one round share a number.
\<close>

theorem probe_numbering:
  assumes "validate_round_request g = Inr ()"
  shows "map (\<lambda>i. unat (pq_sequence (round_probe g i))) [0..<length (pg_targets g)] =
      map (\<lambda>i. (unat (pg_round_number g) * length (pg_targets g) + i) mod 65536) [0..<length (pg_targets g)] \<and>
    distinct (map (\<lambda>i. pq_sequence (round_probe g i)) [0..<length (pg_targets g)])"
proof (intro conjI)
  let ?n = "length (pg_targets g)"
  have n: "?n \<le> 65536" using assms by (simp add: valid_round)
  show "map (\<lambda>i. unat (pq_sequence (round_probe g i))) [0..<?n] =
      map (\<lambda>i. (unat (pg_round_number g) * ?n + i) mod 65536) [0..<?n]"
    by (simp add: round_probe_def unat_round_sequence)
  have "inj_on (\<lambda>i. pq_sequence (round_probe g i)) {..<?n}"
  proof (rule inj_onI)
    fix i j assume b: "i \<in> {..<?n}" "j \<in> {..<?n}"
      and eq: "pq_sequence (round_probe g i) = pq_sequence (round_probe g j)"
    then have "(unat (pg_round_number g) * ?n + i) mod 65536 = (unat (pg_round_number g) * ?n + j) mod 65536"
      by (simp add: round_probe_def flip: unat_round_sequence)
    then show "i = j" using mod_offsets_differ [of i 65536 j] b n by fastforce
  qed
  then show "distinct (map (\<lambda>i. pq_sequence (round_probe g i)) [0..<?n])"
    by (simp add: distinct_map lessThan_atLeast0)
qed

subsection \<open>Answers\<close>

text \<open>The answers that count: an echo reply to this very probe.\<close>

definition echo_answer :: "probe_request \<Rightarrow> probe_reply \<Rightarrow> bool" where
  "echo_answer q r \<longleftrightarrow>
     pr_target r = pq_target q \<and> pr_sequence r = pq_sequence q \<and>
     (pr_identifier r = None \<or> pr_identifier r = Some (pq_identifier q)) \<and>
     pr_icmp_type r = (case pq_target q of IPv4 _ \<Rightarrow> 0 | IPv6 _ \<Rightarrow> 129) \<and> pr_icmp_code r = 0"

lemma validate_reply_Inr: "validate_reply q r = Inr r' \<longleftrightarrow> r' = r \<and> echo_answer q r"
  by (auto simp: validate_reply_def echo_answer_def Let_def split: option.splits if_splits)

lemma attempt_success_iff: "attempt_success q a \<longleftrightarrow> (\<exists>r. pa_result a = Inr r \<and> echo_answer q r)"
proof -
  have "attempt_success q a \<longleftrightarrow> (\<exists>r. attempt_validated q a = Inr r)"
    by (auto simp: attempt_success_def split: sum.splits)
  also have "\<dots> \<longleftrightarrow> (\<exists>r. pa_result a = Inr r \<and> echo_answer q r)"
    by (auto simp: attempt_validated_def validate_reply_Inr split: sum.splits)
  finally show ?thesis .
qed

lemma failure_not_success [simp]: "ff_outcome (failure_fields_of show_duration f timeout) \<noteq> Success"
  by (simp add: failure_fields_of_def split: probe_failure.splits)

lemma apply_common_simps [simp]:
  "ev_event_kind (apply_common c t b target sq ev) = ev_event_kind ev"
  "ev_run_id (apply_common c t b target sq ev) = ev_run_id ev"
  "ev_outcome (apply_common c t b target sq ev) = ev_outcome ev"
  "ev_ping_target_ip (apply_common c t b target sq ev) = Some target"
  "ev_ping_sequence (apply_common c t b target sq ev) = Some (unat sq)"
  "ev_interface (apply_common c t b target sq ev) = pb_interface b"
  "ev_ping_local_ip (apply_common c t b target sq ev) = pb_local_ip b"
  "ev_load_phase (apply_common c t b target sq ev) = mc_load_phase c"
  "ev_load_run_id (apply_common c t b target sq ev) = mc_load_run_id c"
  by (simp_all add: apply_common_def)

lemma build_measurement_simps [simp]:
  "snd (build_measurement sd c k q a) = attempt_success q a"
  "ev_event_kind (fst (build_measurement sd c k q a)) = PingProbe"
  "ev_run_id (fst (build_measurement sd c k q a)) = mc_run_id c"
  "ev_ping_target_ip (fst (build_measurement sd c k q a)) = Some (ip_text (pq_target q))"
  "ev_ping_sequence (fst (build_measurement sd c k q a)) = Some (unat (pq_sequence q))"
  "ev_ping_local_ip (fst (build_measurement sd c k q a)) = pb_local_ip (pa_binding a)"
  "ev_interface (fst (build_measurement sd c k q a)) = pb_interface (pa_binding a)"
  "ev_load_phase (fst (build_measurement sd c k q a)) = mc_load_phase c"
  "ev_load_run_id (fst (build_measurement sd c k q a)) = mc_load_run_id c"
  "ev_outcome (fst (build_measurement sd c k q a)) = Success \<longleftrightarrow> attempt_success q a"
  "ev_ping_packets_received (fst (build_measurement sd c k q a)) = Some (if attempt_success q a then 1 else 0)"
  by (simp_all add: build_measurement_def Let_def attempt_success_def split: sum.splits)

lemma internal_failure_simps [simp]:
  "\<not> snd (internal_failure sd g target sq m now eid)"
  "ev_event_kind (fst (internal_failure sd g target sq m now eid)) = PingProbe"
  "ev_run_id (fst (internal_failure sd g target sq m now eid)) = pg_run_id g"
  "ev_ping_target_ip (fst (internal_failure sd g target sq m now eid)) = Some (ip_text target)"
  "ev_ping_sequence (fst (internal_failure sd g target sq m now eid)) = Some (unat sq)"
  "ev_outcome (fst (internal_failure sd g target sq m now eid)) \<noteq> Success"
  "ev_load_phase (fst (internal_failure sd g target sq m now eid)) = pg_load_phase g"
  "ev_load_run_id (fst (internal_failure sd g target sq m now eid)) = pg_load_run_id g"
  by (simp_all add: internal_failure_def attempt_success_iff round_context_def)

definition probe_answered :: "(probe_request \<Rightarrow> probe_task) \<Rightarrow> probe_request \<Rightarrow> bool" where
  "probe_answered tasks q =
     (case tasks q of
        ProbeDone k a \<Rightarrow> (case pa_result a of Inr r \<Rightarrow> echo_answer q r | Inl _ \<Rightarrow> False)
      | ProbeLost _ _ _ \<Rightarrow> False)"

lemma measure_target_simps [simp]:
  "snd (measure_target sd tasks g i) = probe_answered tasks (round_probe g i)"
  "ev_event_kind (fst (measure_target sd tasks g i)) = PingProbe"
  "ev_run_id (fst (measure_target sd tasks g i)) = pg_run_id g"
  "ev_ping_target_ip (fst (measure_target sd tasks g i)) = Some (ip_text (pg_targets g ! i))"
  "ev_ping_sequence (fst (measure_target sd tasks g i)) = Some (unat (round_sequence g i))"
  "ev_outcome (fst (measure_target sd tasks g i)) = Success \<longleftrightarrow> probe_answered tasks (round_probe g i)"
  "ev_load_phase (fst (measure_target sd tasks g i)) = pg_load_phase g"
  "ev_load_run_id (fst (measure_target sd tasks g i)) = pg_load_run_id g"
  by (auto simp: measure_target_def probe_answered_def attempt_success_iff round_context_def round_probe_def
      split: probe_task.splits sum.splits)

lemma length_filter_compl: "length (filter P xs) + length (filter (Not \<circ> P) xs) = length xs"
  by (induction xs) auto

lemma round_counts:
  assumes "measure_round show_duration tasks g = Inr r"
  shows "pp_successful r + pp_failed r = length (pg_targets g)"
  using measure_round_Inr(5,6) [OF assms]
    length_filter_compl [of "snd \<circ> measure_target show_duration tasks g" "[0..<length (pg_targets g)]"]
  by (simp add: comp_assoc)

text \<open>
  C24. A round reports every target once, in the order of the request, under its own sequence
  number. A probe counts as a success exactly when its task ended with an echo reply from its
  target that carries its sequence number and, where known, its identifier; a late answer to
  another probe never does. The counts add up, and the outcome of the round follows from them.
\<close>

theorem round_reports_targets:
  assumes "measure_round show_duration tasks g = Inr r"
  shows "map ev_ping_target_ip (pp_events r) = map (Some \<circ> ip_text) (pg_targets g) \<and>
    map ev_ping_sequence (pp_events r) =
      map (\<lambda>i. Some (unat (pq_sequence (round_probe g i)))) [0..<length (pg_targets g)] \<and>
    map (\<lambda>ev. ev_outcome ev = Success) (pp_events r) =
      map (\<lambda>i. probe_answered tasks (round_probe g i)) [0..<length (pg_targets g)] \<and>
    pp_successful r = length (filter (\<lambda>ev. ev_outcome ev = Success) (pp_events r)) \<and>
    pp_successful r + pp_failed r = length (pg_targets g) \<and>
    (report_outcome r = Success \<longleftrightarrow> pp_successful r = length (pg_targets g)) \<and>
    (report_outcome r = ErrorOutcome \<longleftrightarrow> pp_successful r = 0)"
proof -
  let ?n = "length (pg_targets g)" and ?P = "\<lambda>i. probe_answered tasks (round_probe g i)"
  note R = measure_round_Inr [OF assms]
  have targets: "map ((!) (pg_targets g)) [0..<?n] = pg_targets g" by (rule map_nth)
  have counts: "pp_successful r = length (filter ?P [0..<?n])" "pp_failed r = length (filter (Not \<circ> ?P) [0..<?n])"
    by (simp_all add: R(5,6) comp_def)
  have sum: "pp_successful r + pp_failed r = ?n" by (rule round_counts [OF assms])
  have "0 < ?n" using R(1) by simp
  then have outcome: "(report_outcome r = Success \<longleftrightarrow> pp_successful r = ?n)"
    "(report_outcome r = ErrorOutcome \<longleftrightarrow> pp_successful r = 0)"
    using sum by (auto simp: report_outcome_def)
  have "map ev_ping_target_ip (pp_events r) = map (Some \<circ> ip_text) (map ((!) (pg_targets g)) [0..<?n])"
    by (simp add: R(4))
  then have texts: "map ev_ping_target_ip (pp_events r) = map (Some \<circ> ip_text) (pg_targets g)"
    by (simp only: targets)
  show ?thesis
    using texts outcome sum by (auto simp: R(4) counts length_filter_map comp_def round_probe_def)
qed

subsection \<open>Sources\<close>

lemma resolve_source_named:
  assumes "resolve_source N target (Some i) = Inr s"
  obtains entries c where "nt_interfaces N = Inr entries" "c \<in> set entries" "if_name c = i"
    "\<exists>u \<in> set entries. if_name u = i \<and> if_oper_up u" "same_family (if_ip c) target"
    "\<forall>d \<in> set entries. if_name d = i \<and> same_family (if_ip d) target \<longrightarrow>
       source_rank (if_ip c) target \<le> source_rank (if_ip d) target"
    "ss_address s = if_ip c"
proof -
  obtain entries where e: "nt_interfaces N = Inr entries" "named_interface i target entries = Inr s"
    using assms by (auto simp: resolve_source_def split: sum.splits)
  let ?named = "filter (\<lambda>c. if_name c = i) entries"
  obtain c where c: "list_ex if_oper_up ?named"
    "min_by_key (\<lambda>c. source_rank (if_ip c) target) (filter (\<lambda>c. same_family (if_ip c) target) ?named) = Some c"
    "s = \<lparr> ss_address = if_ip c, ss_index = if_index c \<rparr>"
    using e(2) by (auto simp: named_interface_def Let_def split: if_splits option.splits)
  show ?thesis
    using that [of entries c] e(1) c(1,3) min_by_key_least [OF c(2)] by (auto simp: list_ex_iff)
qed

text \<open>What a configured target knows: a binding chosen for it, and a client for that address.\<close>

definition transport_ok :: "'c ping_net \<Rightarrow> string option \<Rightarrow> ip_addr \<Rightarrow> 'c target_transport \<Rightarrow> bool" where
  "transport_ok N interface t tt \<longleftrightarrow>
     (case tt of
        TtFailed _ _ \<Rightarrow> True
      | TtReady c b sc \<Rightarrow>
          pb_interface b = interface \<and>
          (\<exists>s index. resolve_source N t interface = Inr s \<and> pb_local_ip b = Some (ss_address s) \<and>
             nt_client N (ss_address s) interface index = Inr c))"

definition clients_ok :: "'c ping_net \<Rightarrow> string option \<Rightarrow> (ip_addr \<rightharpoonup> probe_failure + 'c) \<Rightarrow> bool" where
  "clients_ok N interface clients \<longleftrightarrow>
     (\<forall>a c. clients a = Some (Inr c) \<longrightarrow> (\<exists>index. nt_client N a interface index = Inr c))"

lemma create_client_Inr:
  "create_client N a interface index = Inr c \<Longrightarrow> \<exists>index. nt_client N a interface index = Inr c"
  unfolding create_client_def by (auto split: sum.splits)

lemma target_transport_ok:
  assumes "target_transport_for N interface t clients = (tt, clients')" "clients_ok N interface clients"
  shows "transport_ok N interface t tt \<and> clients_ok N interface clients'"
proof (cases "resolve_source N t interface")
  case (Inl f)
  then show ?thesis using assms by (auto simp: target_transport_for_def transport_ok_def)
next
  case (Inr s)
  let ?c = "case clients (ss_address s) of Some c \<Rightarrow> c | None \<Rightarrow> create_client N (ss_address s) interface (ss_index s)"
  have known: "\<exists>index. nt_client N (ss_address s) interface index = Inr c" if "?c = Inr c" for c
    using that assms(2) create_client_Inr by (auto simp: clients_ok_def split: option.splits)
  have parts: "clients' = clients(ss_address s \<mapsto> ?c)"
    "tt = (case ?c of
       Inr c \<Rightarrow> TtReady c \<lparr> pb_interface = interface, pb_local_ip = Some (ss_address s) \<rparr>
                  (case ss_index s of Some i \<Rightarrow> i | None \<Rightarrow> 0)
     | Inl f \<Rightarrow> TtFailed \<lparr> pb_interface = interface, pb_local_ip = Some (ss_address s) \<rparr> f)"
    using assms(1) Inr by (simp_all add: target_transport_for_def Let_def)
  have "clients_ok N interface clients'"
    using assms(2) known unfolding parts(1) clients_ok_def by auto
  moreover have "transport_ok N interface t tt"
    using known Inr unfolding parts(2) transport_ok_def by (auto split: sum.splits)
  ultimately show ?thesis by simp
qed

lemma configure_targets_ok:
  assumes "clients_ok N interface clients" "\<And>t tt. configured t = Some tt \<Longrightarrow> transport_ok N interface t tt"
    "configure_targets N interface ts clients configured t = Some tt"
  shows "transport_ok N interface t tt \<and> (t \<in> set ts \<or> configured t \<noteq> None)"
  using assms
proof (induction ts arbitrary: clients configured)
  case (Cons t' ts)
  obtain tt' clients' where r: "target_transport_for N interface t' clients = (tt', clients')" by fastforce
  have ok: "transport_ok N interface t' tt'" "clients_ok N interface clients'"
    using target_transport_ok [OF r Cons.prems(1)] by simp_all
  have more: "\<And>t tt. (configured(t' \<mapsto> tt')) t = Some tt \<Longrightarrow> transport_ok N interface t tt"
    using ok(1) Cons.prems(2) by (auto split: if_splits)
  have "configure_targets N interface ts clients' (configured(t' \<mapsto> tt')) t = Some tt"
    using Cons.prems(3) r by simp
  from Cons.IH [OF ok(2) more this]
  have "transport_ok N interface t tt \<and> (t \<in> set ts \<or> (configured(t' \<mapsto> tt')) t \<noteq> None)" .
  then show ?case by (auto split: if_splits)
qed auto

text \<open>
  C36. A monitor pinned to an interface never sends by another: every probe that was sent went to a
  configured target from an address of that interface, of the family of the target and of the best
  rank among its addresses, through a client made for that address, on an interface that is up.
  Whatever else happens the probe is reported as not sent.
\<close>

theorem probe_leaves_by_interface:
  assumes "pa_sent (probe N (surge_transport N (Some i) targets) q)"
  shows "pq_target q \<in> set targets \<and>
    (\<exists>entries c client index. nt_interfaces N = Inr entries \<and> c \<in> set entries \<and> if_name c = i \<and>
       (\<exists>u \<in> set entries. if_name u = i \<and> if_oper_up u) \<and>
       same_family (if_ip c) (pq_target q) \<and>
       (\<forall>d \<in> set entries. if_name d = i \<and> same_family (if_ip d) (pq_target q) \<longrightarrow>
          source_rank (if_ip c) (pq_target q) \<le> source_rank (if_ip d) (pq_target q)) \<and>
       nt_client N (if_ip c) (Some i) index = Inr client \<and>
       pa_binding (probe N (surge_transport N (Some i) targets) q) =
         \<lparr> pb_interface = Some i, pb_local_ip = Some (if_ip c) \<rparr>)"
proof -
  let ?T = "surge_transport N (Some i) targets"
  obtain client b sc where tt: "?T (pq_target q) = Some (TtReady client b sc)"
    using assms by (auto simp: probe_def split: option.splits target_transport.splits)
  have ok: "transport_ok N (Some i) (pq_target q) (TtReady client b sc) \<and> pq_target q \<in> set targets"
    using configure_targets_ok [OF _ _ tt [unfolded surge_transport_def]] by (auto simp: clients_ok_def)
  then obtain s index where s: "resolve_source N (pq_target q) (Some i) = Inr s"
    "pb_interface b = Some i" "pb_local_ip b = Some (ss_address s)"
    "nt_client N (ss_address s) (Some i) index = Inr client"
    by (auto simp: transport_ok_def)
  have "pa_binding (probe N ?T q) = b"
    using tt by (auto simp: probe_def Let_def split: surge_result.splits)
  then have b: "pa_binding (probe N ?T q) = \<lparr> pb_interface = Some i, pb_local_ip = Some (ss_address s) \<rparr>"
    using s(2,3) by (cases b) simp
  from resolve_source_named [OF s(1)] obtain entries c where c:
    "nt_interfaces N = Inr entries" "c \<in> set entries" "if_name c = i"
    "\<exists>u \<in> set entries. if_name u = i \<and> if_oper_up u" "same_family (if_ip c) (pq_target q)"
    "\<forall>d \<in> set entries. if_name d = i \<and> same_family (if_ip d) (pq_target q) \<longrightarrow>
       source_rank (if_ip c) (pq_target q) \<le> source_rank (if_ip d) (pq_target q)"
    "ss_address s = if_ip c" .
  show ?thesis using ok b c s(4) by metis
qed

subsection \<open>\<open>once ping\<close>\<close>

lemma report_events_shape:
  assumes "measure_round sd tasks g = Inr r" "ev \<in> set (pp_events r)"
  shows "ev_event_kind ev = PingProbe" "ev_run_id ev = pg_run_id g"
  using assms(2) unfolding measure_round_Inr(4) [OF assms(1)] by auto

text \<open>
  C37. \<open>once ping\<close> exits with success only when every target answered and all of it is in the
  journal: the session and the round start, each probe, then round and session end with the
  outcome of the round, nothing else, and no run stays open.
\<close>

theorem ping_once_journals:
  assumes "execute_ping_once (logging S) sd tasks ms config session i n open_journal [] w = (Inr status, state)"
  shows "\<exists>j r s. open_journal w = (Inr j, snd (open_journal w)) \<and> state = Inr s \<and>
    measure_round sd tasks (once_request config i (probe_identifier (sk_process_id S) n)) = Inr r \<and>
    (ping_exit_code status = 0 \<longleftrightarrow> pp_successful r = length (pc_targets (rc_ping config))) \<and>
    map shape (oc_console s) =
      [(RunStarted, session, Started), (RunStarted, i, Started)] @
      map (\<lambda>ev. (PingProbe, i, ev_outcome ev)) (pp_events r) @
      [(RunFinished, i, report_outcome r), (RunFinished, session, report_outcome r)] \<and>
    oc_runs s = []"
proof -
  let ?g = "once_request config i (probe_identifier (sk_process_id S) n)"
  obtain j w' where j: "open_journal w = (Inr j, w')" "validate_round_request ?g = Inr ()"
    using assms by (auto simp: execute_ping_once_def Let_def split: sum.splits prod.splits)
  obtain result s0 flushed s where run:
    "ping_session (logging S) sd tasks ms (case rc_interfaces config of [] \<Rightarrow> None | n # _ \<Rightarrow> Some n) session ?g
       (coordinator_new j []) = (result, s0)"
    "coordinator_flush (logging S) s0 = (flushed, s)" "result = Inr status" "state = Inr s"
    using assms j
    by (auto simp: execute_ping_once_def Let_def split: sum.splits prod.splits)
  from run(1) [unfolded run(3) ping_session_def] obtain u1 s1 where
    1: "start_session (logging S) (ms 0) session ''once ping'' (coordinator_new j []) = (Inr u1, s1)"
    by (auto simp: st_bind_Inr)
  from run(1) [unfolded run(3) ping_session_def] obtain r s2 s3 s4 u2 u3 u4 u5 where
    2: "start_run_with_context (logging S) (ms 1) i session RkPingRound
         (run_context_default \<lparr> rx_interface := (case rc_interfaces config of [] \<Rightarrow> None | n # _ \<Rightarrow> Some n) \<rparr>) s1 = (Inr u2, s2)"
    and r: "measure_round sd tasks ?g = Inr r"
    and 3: "publish_batch (logging S) (pp_events r) s2 = (Inr u3, s3)"
    and 4: "finish_run (logging S) (ms 2) i (report_outcome r) None s3 = (Inr u4, s4)"
    and 5: "finish_run (logging S) (ms 3) session (report_outcome r) None s4 = (Inr u5, s0)"
    and st: "status = report_exit_status r"
    by (auto simp: st_bind_Inr 1 once_request_def split: sum.splits)
  have g1: "map shape (oc_console s1) = [(RunStarted, session, Started)]"
    using start_session_grows(1) [OF 1] by (simp add: grows_def coordinator_new_def)
  have "grows s1 ([(RunStarted, i, Started)] @ (map shape (pp_events r) @ ([(RunFinished, i, report_outcome r)] @
      [(RunFinished, session, report_outcome r)]))) s0"
    by (rule grows_trans [OF start_run_grows(1) [OF 2] grows_trans [OF publish_grows(1) [OF 3]
      grows_trans [OF finish_run_grows(1) [OF 4] finish_run_grows(1) [OF 5]]]])
  moreover have "oc_console s = oc_console s0" "oc_runs s = oc_runs s0"
    using run(2) by (auto simp: coordinator_flush_def Let_def split: prod.splits)
  moreover have "map shape (pp_events r) = map (\<lambda>ev. (PingProbe, i, ev_outcome ev)) (pp_events r)"
    using report_events_shape [OF r] by (simp add: shape_def once_request_def)
  ultimately have log: "map shape (oc_console s) = [(RunStarted, session, Started), (RunStarted, i, Started)] @
      map (\<lambda>ev. (PingProbe, i, ev_outcome ev)) (pp_events r) @
      [(RunFinished, i, report_outcome r), (RunFinished, session, report_outcome r)]"
    using g1 by (simp add: grows_def)
  obtain a b where runs: "oc_runs s1 = [(session, a)]" "oc_runs s2 = bt_insert i b (oc_runs s1)"
    using start_session_grows(3) [OF 1] start_run_grows(2) [OF 2] by blast
  have "oc_runs s0 = bt_remove session (bt_remove i (oc_runs s2))"
    by (simp only: finish_run_grows(2) [OF 5] finish_run_grows(2) [OF 4] publish_grows(2) [OF 3])
  then have "oc_runs s0 = []" by (auto simp: runs bt_remove_def)
  moreover have "ping_exit_code status = 0 \<longleftrightarrow> pp_successful r = length (pc_targets (rc_ping config))"
  proof -
    have "pp_successful r + pp_failed r = length (pg_targets ?g)" by (rule round_counts [OF r])
    then show ?thesis by (auto simp: st ping_exit_code_def report_exit_status_def once_request_def)
  qed
  ultimately show ?thesis
    using j(1) run(4) r log \<open>oc_runs s = oc_runs s0\<close> by auto
qed

subsection \<open>Concrete rounds\<close>

definition demo_targets :: "ip_addr list" where
  "demo_targets = [IPv4 1, IPv4 2]"

definition demo_round :: ping_round_request where
  "demo_round =
     \<lparr> pg_run_id = 7, pg_round_number = 18446744073709551615, pg_targets = demo_targets, pg_timeout = 1000,
       pg_scheduled_at_utc = None, pg_identifier = 5, pg_load_phase = None, pg_load_run_id = None \<rparr>"

text \<open>The first target answers; the answer of the second is one to an earlier probe.\<close>

definition demo_task :: "probe_request \<Rightarrow> probe_task" where
  "demo_task q =
     ProbeDone \<lparr> pk_started_at = 0, pk_finished_at = 9, pk_duration = 9, pk_event_id = 1 \<rparr>
       \<lparr> pa_binding = binding_default, pa_sent = True,
         pa_result = Inr \<lparr> pr_target = pq_target q, pr_identifier = None,
           pr_sequence = (if pq_target q = IPv4 1 then pq_sequence q else 3), pr_rtt = 9, pr_icmp_type = 0,
           pr_icmp_code = 0 \<rparr> \<rparr>"

lemma demo_round_valid: "validate_round_request demo_round = Inr ()"
  by (simp add: valid_round demo_round_def demo_targets_def)

lemma demo_sequences:
  "unat (round_sequence demo_round 0) = 65534" "unat (round_sequence demo_round 1) = 65535"
  by (simp_all add: unat_round_sequence demo_round_def demo_targets_def)

theorem probe_numbering_witness:
  "unat (pq_sequence (round_probe demo_round 0)) = 65534 \<and> unat (pq_sequence (round_probe demo_round 1)) = 65535"
  using probe_numbering [OF demo_round_valid] by (simp add: demo_round_def demo_targets_def upt_rec)

lemma demo_measured:
  "measure_round show_duration demo_task demo_round = Inr r \<Longrightarrow> length (pp_events r) = 2"
  by (simp add: measure_round_Inr(4) demo_round_def demo_targets_def)

theorem round_reports_targets_witness:
  "\<exists>r. measure_round (\<lambda>d. []) demo_task demo_round = Inr r \<and> pp_successful r = 1 \<and> pp_failed r = 1 \<and>
    map ev_ping_sequence (pp_events r) = [Some 65534, Some 65535]"
proof -
  obtain r where r: "measure_round (\<lambda>d. []) demo_task demo_round = Inr r"
    using demo_round_valid by (simp add: measure_round_def Let_def)
  have a: "probe_answered demo_task (round_probe demo_round 0)" "\<not> probe_answered demo_task (round_probe demo_round 1)"
    by (simp_all add: probe_answered_def demo_task_def echo_answer_def round_probe_def demo_round_def
        demo_targets_def round_sequence_def)
  note t = round_reports_targets [OF r]
  have n: "length (pg_targets demo_round) = 2" by (simp add: demo_round_def demo_targets_def)
  have e: "map (\<lambda>ev. ev_outcome ev = Success) (pp_events r) = [True, False]"
    using t a by (simp add: n upt_rec)
  have len: "length (filter P evs) = length (filter id (map P evs))" for P and evs :: "measurement_event list"
    by (induction evs) auto
  have "pp_successful r = length (filter (\<lambda>ev. ev_outcome ev = Success) (pp_events r))" using t by blast
  then have "pp_successful r = 1" using e unfolding len [of _ "pp_events r"] by simp
  moreover have "map ev_ping_sequence (pp_events r) = [Some 65534, Some 65535]"
    using t demo_sequences by (simp add: n upt_rec round_probe_def)
  ultimately show ?thesis using r t n by simp
qed

text \<open>One interface with two addresses, of which the loopback one ranks second.\<close>

definition demo_net :: "nat ping_net" where
  "demo_net =
     \<lparr> nt_interfaces = Inr [\<lparr> if_name = ''eth0'', if_oper_up = True, if_ip = IPv4 2130706433, if_index = Some 2 \<rparr>,
                            \<lparr> if_name = ''eth0'', if_oper_up = True, if_ip = IPv4 9, if_index = Some 2 \<rparr>],
       nt_route = (\<lambda>a. Inr a), nt_client = (\<lambda>a i index. Inr 0),
       nt_ping = (\<lambda>c scope q. SurgeTimeout) \<rparr>"

definition demo_probe :: probe_request where
  "demo_probe = \<lparr> pq_target = IPv4 1, pq_identifier = 5, pq_sequence = 0, pq_timeout = 1000 \<rparr>"

lemma demo_sent:
  "probe demo_net (surge_transport demo_net (Some ''eth0'') demo_targets) demo_probe =
     \<lparr> pa_binding = \<lparr> pb_interface = Some ''eth0'', pb_local_ip = Some (IPv4 9) \<rparr>, pa_sent = True,
       pa_result = Inl PfTimeout \<rparr>"
  by (simp add: probe_def surge_transport_def demo_targets_def target_transport_for_def resolve_source_def
      named_interface_def demo_net_def demo_probe_def is_loopback4_def create_client_def map_surge_error_def
      link_local6_def Let_def)

theorem probe_leaves_by_interface_witness:
  "\<exists>entries c. nt_interfaces demo_net = Inr entries \<and> c \<in> set entries \<and> if_ip c = IPv4 9 \<and>
    pb_local_ip (pa_binding (probe demo_net (surge_transport demo_net (Some ''eth0'') demo_targets) demo_probe)) =
      Some (if_ip c)"
  using probe_leaves_by_interface [of demo_net "''eth0''" demo_targets demo_probe] demo_sent by auto

text \<open>A whole command.\<close>

definition demo_config :: "unit resolved_config" where
  "demo_config =
     \<lparr> rc_command = CkOncePing, rc_console = CmOff, rc_verbosity = VbInfo, rc_interfaces = [''eth0''],
       rc_output = OtFile ''out.csv'', rc_rotate_max_bytes = None, rc_state_file = ''state.json'',
       rc_shutdown_grace = secs 30, rc_no_bandwidth = True,
       rc_ping = \<lparr> pc_targets = [IPv4 1], pc_interval = secs 5, pc_timeout = secs 1 \<rparr>,
       rc_bandwidth =
         \<lparr> bw_provider = MlabProvider \<lparr> ml_locate_url = (), ml_policy_accepted = False \<rparr>, bw_provider_id = ''mlab'',
           bw_automatic_enabled = False, bw_force_limits = False, bw_daily_max = 4, bw_min_spacing = secs 2160,
           bw_slot_jitter_pct = 50, bw_whole_test_timeout = secs 55, bw_shutdown_margin = secs 15,
           bw_trigger = \<lparr> tc_window_rounds = 6, tc_min_samples = 6, tc_loss_threshold_pct = Fin 50,
             tc_rtt_threshold_ms = None, tc_recovery_loss_pct = Fin 10, tc_recovery_rounds = 3,
             tc_pending_ttl = secs 1800 \<rparr>,
           bw_cooldown = \<lparr> cd_initial = secs 60, cd_max = secs 960 \<rparr> \<rparr> \<rparr>"

definition demo_once :: "(ping_command_error + ping_exit_status) \<times> (unit + (nat, measurement_event list) coordinator)" where
  "demo_once = execute_ping_once (demo_sinks False) (\<lambda>d. []) demo_task demo_moment demo_config 1 2 5 (\<lambda>w. (Inr 0, w)) [] ()"

lemma demo_once_status: "fst demo_once = Inr PingSuccess"
proof -
  define g where "g = once_request demo_config 2 (probe_identifier (sk_process_id (demo_sinks False)) 5)"
  have g: "pg_run_id g = 2" "pg_targets g = [IPv4 1]" "pg_round_number g = 0"
    by (simp_all add: g_def once_request_def demo_config_def)
  have p: "round_probe g 0 = \<lparr> pq_target = IPv4 1, pq_identifier = pg_identifier g, pq_sequence = 0, pq_timeout = pg_timeout g \<rparr>"
    by (simp add: round_probe_def g round_sequence_def)
  have "probe_answered demo_task (round_probe g 0)"
    by (simp add: p probe_answered_def demo_task_def echo_answer_def)
  then have m: "\<exists>ev. measure_round (\<lambda>d. []) demo_task g =
      Inr \<lparr> pp_events = [ev], pp_successful = 1, pp_failed = 0 \<rparr>"
    using valid_round [of g "()"] by (simp add: measure_round_def g Let_def)
  then obtain ev where m: "measure_round (\<lambda>d. []) demo_task g =
      Inr \<lparr> pp_events = [ev], pp_successful = 1, pp_failed = 0 \<rparr>" by blast
  show ?thesis
    unfolding demo_once_def execute_ping_once_def g_def [symmetric] Let_def
    using valid_round [of g "()"]
    by (simp add: g ping_session_def st_bind_def st_error_def start_session_def start_run_with_context_def
        begin_run_def demo_publish coordinator_new_def bt_get_def m finish_run_def has_child_def bt_remove_def
        coordinator_flush_def report_exit_status_def st_return_def split_beta) (simp add: demo_sinks_def)
qed

theorem ping_once_journals_witness:
  "\<exists>s. demo_once = (Inr PingSuccess, Inr s) \<and> length (oc_console s) = 5 \<and> oc_runs s = []"
proof -
  obtain state where s: "execute_ping_once (logging (demo_sinks False)) (\<lambda>d. []) demo_task demo_moment demo_config 1 2 5
      (\<lambda>w. (Inr 0, w)) [] () = (Inr PingSuccess, state)"
    using demo_once_status unfolding demo_once_def by (metis demo_logging prod.collapse)
  from ping_once_journals [OF s] obtain r s' where
    r: "measure_round (\<lambda>d. []) demo_task (once_request demo_config 2 (probe_identifier (sk_process_id (demo_sinks False)) 5)) = Inr r"
    and s': "state = Inr s'" "oc_runs s' = []"
      "map shape (oc_console s') = [(RunStarted, 1, Started), (RunStarted, 2, Started)] @
        map (\<lambda>ev. (PingProbe, 2, ev_outcome ev)) (pp_events r) @ [(RunFinished, 2, report_outcome r), (RunFinished, 1, report_outcome r)]"
    by auto
  have "length (pp_events r) = 1"
    unfolding measure_round_Inr(4) [OF r] by (simp add: once_request_def demo_config_def)
  then have "length (oc_console s') = 5" using arg_cong [OF s'(3), of length] by simp
  then show ?thesis using s s'(1,2) by (auto simp: demo_once_def)
qed

end
