(* ===== verification/Upload.thy ===== *)
theory Upload
  imports Provider
begin

text \<open>
  The upload half of an NDT7 test (\<open>bandwidth.rs\<close>): the loop that sends bulk frames and the close
  frame while it reads the server's measurements. What the socket and the timer report each time
  the task is woken is a list of events; the frames handed to the socket are kept.
\<close>

subsection \<open>Measurements\<close>

record tcp_metrics =
  tm_min_rtt_ms :: "f64 option"
  tm_rtt_ms :: "f64 option"
  tm_retransmitted_bytes :: "nat option"

definition tcp_metrics_default :: tcp_metrics where
  "tcp_metrics_default = \<lparr> tm_min_rtt_ms = None, tm_rtt_ms = None, tm_retransmitted_bytes = None \<rparr>"

record wire_tcp_info =
  wt_bytes_received :: "nat option"
  wt_elapsed_time :: "nat option"
  wt_min_rtt :: "nat option"
  wt_rtt :: "nat option"
  wt_bytes_retrans :: "nat option"

record wire_measurement =
  wm_origin :: "string option"
  wm_test :: "string option"
  wm_tcp_info :: "wire_tcp_info option"

record upload_measurement =
  um_bytes :: nat
  um_elapsed :: duration

definition wire_upload :: "wire_measurement \<Rightarrow> upload_measurement option" where
  "wire_upload m =
     (if (case wm_origin m of Some v \<Rightarrow> v \<noteq> ''server'' | None \<Rightarrow> False) \<or>
         (case wm_test m of Some v \<Rightarrow> v \<noteq> ''upload'' | None \<Rightarrow> False)
      then None
      else
        case wm_tcp_info m of None \<Rightarrow> None | Some tcp \<Rightarrow>
        case wt_bytes_received tcp of None \<Rightarrow> None | Some bytes \<Rightarrow>
        case wt_elapsed_time tcp of None \<Rightarrow> None | Some micros \<Rightarrow>
        (if 0 < bytes \<and> 0 < micros
         then Some \<lparr> um_bytes = bytes, um_elapsed = micros * 1000 \<rparr> else None))"

text \<open>\<open>read_json\<close> parses the text of a message.\<close>

definition update_metrics ::
    "(string \<Rightarrow> wire_measurement option) \<Rightarrow> tcp_metrics \<Rightarrow> string \<Rightarrow> wire_measurement option \<times> tcp_metrics" where
  "update_metrics read_json metrics text =
     (case read_json text of
        None \<Rightarrow> (None, metrics)
      | Some m \<Rightarrow>
          (Some m,
           case wm_tcp_info m of
             None \<Rightarrow> metrics
           | Some tcp \<Rightarrow>
               \<lparr> tm_min_rtt_ms = map_option (\<lambda>v. f_div (f64_of_nat v) (Fin 1000)) (wt_min_rtt tcp),
                 tm_rtt_ms = map_option (\<lambda>v. f_div (f64_of_nat v) (Fin 1000)) (wt_rtt tcp),
                 tm_retransmitted_bytes = wt_bytes_retrans tcp \<rparr>))"

subsection \<open>Frame sizes and contents\<close>

definition INITIAL_UPLOAD_MESSAGE_SIZE :: nat where "INITIAL_UPLOAD_MESSAGE_SIZE = 2 ^ 13"
definition MAX_UPLOAD_MESSAGE_SIZE :: nat where "MAX_UPLOAD_MESSAGE_SIZE = 2 ^ 20"
definition UPLOAD_SCALING_FRACTION :: nat where "UPLOAD_SCALING_FRACTION = 16"
definition UPLOAD_DURATION :: duration where "UPLOAD_DURATION = secs 10"
definition UPLOAD_CLOSE_TIMEOUT :: duration where "UPLOAD_CLOSE_TIMEOUT = secs 2"

definition next_upload_message_size :: "nat \<Rightarrow> nat \<Rightarrow> nat" where
  "next_upload_message_size current_size total_bytes =
     (if MAX_UPLOAD_MESSAGE_SIZE \<le> current_size \<or> total_bytes div UPLOAD_SCALING_FRACTION \<le> current_size
      then current_size
      else min (sat_mul u64_max current_size 2) MAX_UPLOAD_MESSAGE_SIZE)"

definition payload_step :: "u64 \<Rightarrow> u64" where
  "payload_step state =
     (let state = xor state (push_bit 13 state);
          state = xor state (drop_bit 7 state)
      in xor state (push_bit 17 state))"

fun payload_bytes :: "nat \<Rightarrow> u64 \<Rightarrow> 8 word list" where
  "payload_bytes 0 state = []"
| "payload_bytes (Suc n) state = (let state = payload_step state in ucast state # payload_bytes n state)"

text \<open>\<open>nanos\<close> is the clock in nanoseconds, where it can be told.\<close>

definition upload_payload_with_size :: "int option \<Rightarrow> nat \<Rightarrow> 8 word list" where
  "upload_payload_with_size nanos len =
     payload_bytes len (or (of_int (case nanos of Some n \<Rightarrow> n | None \<Rightarrow> 0)) 1)"

definition upload_payload :: "int option \<Rightarrow> 8 word list" where
  "upload_payload nanos = upload_payload_with_size nanos INITIAL_UPLOAD_MESSAGE_SIZE"

subsection \<open>The socket\<close>

datatype ws_message = WsBinary nat | WsText string | WsPing | WsClose | WsOther

datatype ws_error = WsIo "int option" string | WsProtocol string

definition websocket_os_error :: "ws_error \<Rightarrow> int option" where
  "websocket_os_error e = (case e of WsIo os _ \<Rightarrow> os | WsProtocol _ \<Rightarrow> None)"

definition ws_error_text :: "ws_error \<Rightarrow> string" where
  "ws_error_text e = (case e of WsIo _ m \<Rightarrow> m | WsProtocol m \<Rightarrow> m)"

text \<open>What the stream yields, and whether an operation of the sink is done.\<close>

datatype ws_item = WsItem ws_message | WsFailed ws_error | WsEnded

datatype sink_poll = SinkPending | SinkReady | SinkFailed ws_error

text \<open>The caller ends the whole test at its timeout or when it is cancelled.\<close>

datatype interruption = ByTimeout | ByCancellation

text \<open>
  One wake-up of the task: the time, and what polling the socket would give; \<open>uw_send\<close> is the
  error of handing it a frame.
\<close>

record upload_wakeup =
  uw_now :: nat
  uw_incoming :: "ws_item option"
  uw_flush :: sink_poll
  uw_ready :: sink_poll
  uw_send :: "ws_error option"

datatype upload_event = UploadWake upload_wakeup | UploadInterrupt interruption

datatype upload_progress =
    UpIncoming "ws_message option"
  | UpAccepted
  | UpFlushed

definition poll_upload_io :: "bool \<Rightarrow> bool \<Rightarrow> upload_wakeup \<Rightarrow> (ws_error + upload_progress) option" where
  "poll_upload_io payload flushing w =
     (case uw_incoming w of
        Some (WsItem m) \<Rightarrow> Some (Inr (UpIncoming (Some m)))
      | Some (WsFailed e) \<Rightarrow> Some (Inl e)
      | Some WsEnded \<Rightarrow> Some (Inr (UpIncoming None))
      | None \<Rightarrow>
          (if flushing
           then (case uw_flush w of
                   SinkPending \<Rightarrow> None | SinkReady \<Rightarrow> Some (Inr UpFlushed) | SinkFailed e \<Rightarrow> Some (Inl e))
           else if payload
           then (case uw_ready w of
                   SinkPending \<Rightarrow> None
                 | SinkFailed e \<Rightarrow> Some (Inl e)
                 | SinkReady \<Rightarrow> (case uw_send w of Some e \<Rightarrow> Some (Inl e) | None \<Rightarrow> Some (Inr UpAccepted)))
           else None))"

subsection \<open>The loop\<close>

datatype upload_error = UploadTransport ws_error | MissingClose | CloseTimeout

definition upload_error_text :: "upload_error \<Rightarrow> string" where
  "upload_error_text e =
     (case e of
        UploadTransport e \<Rightarrow> ws_error_text e
      | MissingClose \<Rightarrow> ''upload connection ended without a close frame''
      | CloseTimeout \<Rightarrow> ''upload close handshake timed out after 2s'')"

record upload_transfer =
  ut_measurement :: "upload_measurement option"
  ut_metrics :: tcp_metrics
  ut_error :: "upload_error option"

datatype upload_frame = DataFrame nat | CloseFrame

record upload_state =
  us_deadline :: nat
  us_closing :: bool
  us_sent_bytes :: nat
  us_measurement :: "upload_measurement option"
  us_metrics :: tcp_metrics
  us_payload :: nat
  us_flushing :: bool
  us_close_queued :: bool
  us_peer_closed :: bool
  us_frames :: "upload_frame list"

definition upload_start :: "nat \<Rightarrow> upload_state" where
  "upload_start now =
     \<lparr> us_deadline = now + UPLOAD_DURATION, us_closing = False, us_sent_bytes = 0, us_measurement = None,
       us_metrics = tcp_metrics_default, us_payload = INITIAL_UPLOAD_MESSAGE_SIZE, us_flushing = False,
       us_close_queued = False, us_peer_closed = False, us_frames = [] \<rparr>"

type_synonym 'o observer = "upload_measurement option \<Rightarrow> tcp_metrics \<Rightarrow> request_stage \<Rightarrow> 'o \<Rightarrow> 'o"

text \<open>A measurement replaces an older one only if it is later and counts no fewer bytes.\<close>

definition supersedes :: "upload_measurement \<Rightarrow> upload_measurement option \<Rightarrow> bool" where
  "supersedes m previous =
     (case previous of None \<Rightarrow> True | Some p \<Rightarrow> um_elapsed p < um_elapsed m \<and> um_bytes p \<le> um_bytes m)"

definition upload_text :: "(string \<Rightarrow> wire_measurement option) \<Rightarrow> string \<Rightarrow> upload_state \<Rightarrow> upload_state" where
  "upload_text read_json text s =
     (let (m, metrics) = update_metrics read_json (us_metrics s) text
      in s \<lparr> us_metrics := metrics,
             us_measurement :=
               (case (case m of Some m \<Rightarrow> wire_upload m | None \<Rightarrow> None) of
                  None \<Rightarrow> us_measurement s
                | Some next_m \<Rightarrow>
                    (if supersedes next_m (us_measurement s) then Some next_m else us_measurement s)) \<rparr>)"

definition start_closing :: "nat \<Rightarrow> upload_state \<Rightarrow> upload_state" where
  "start_closing now s = s \<lparr> us_closing := True, us_deadline := now + UPLOAD_CLOSE_TIMEOUT \<rparr>"

text \<open>\<open>None\<close> while the loop goes on, otherwise the error it ends with.\<close>

definition upload_progressed ::
    "(string \<Rightarrow> wire_measurement option) \<Rightarrow> 'o observer \<Rightarrow> nat \<Rightarrow> upload_progress \<Rightarrow> upload_state \<Rightarrow> 'o \<Rightarrow>
     upload_error option option \<times> upload_state \<times> 'o" where
  "upload_progressed read_json observed now p s ob =
     (case p of
        UpIncoming (Some (WsText text)) \<Rightarrow>
          (let s = upload_text read_json text s
           in (None, s, observed (us_measurement s) (us_metrics s)
                          (if us_closing s then StCleanup else StUpload) ob))
      | UpIncoming (Some WsClose) \<Rightarrow>
          (let ob = (if us_closing s then ob else observed (us_measurement s) (us_metrics s) StCleanup ob);
               s = (if us_closing s then s else start_closing now s)
           in (None, s \<lparr> us_peer_closed := True, us_close_queued := True, us_flushing := True \<rparr>, ob))
      | UpIncoming (Some _) \<Rightarrow> (None, s, ob)
      | UpIncoming None \<Rightarrow> (Some (if us_peer_closed s then None else Some MissingClose), s, ob)
      | UpAccepted \<Rightarrow>
          (None,
           (if us_closing s
            then s \<lparr> us_flushing := True, us_close_queued := True, us_frames := us_frames s @ [CloseFrame] \<rparr>
            else s \<lparr> us_flushing := True, us_sent_bytes := sat_add u64_max (us_sent_bytes s) (us_payload s),
                     us_frames := us_frames s @ [DataFrame (us_payload s)] \<rparr>), ob)
      | UpFlushed \<Rightarrow>
          (None,
           (if us_closing s then s \<lparr> us_flushing := False \<rparr>
            else s \<lparr> us_flushing := False,
                     us_payload := next_upload_message_size (us_payload s) (us_sent_bytes s) \<rparr>), ob))"

definition upload_step ::
    "(string \<Rightarrow> wire_measurement option) \<Rightarrow> 'o observer \<Rightarrow> upload_wakeup \<Rightarrow> upload_state \<Rightarrow> 'o \<Rightarrow>
     upload_error option option \<times> upload_state \<times> 'o" where
  "upload_step read_json observed w s ob =
     (if us_deadline s \<le> uw_now w
      then
        (if us_closing s then (Some (Some CloseTimeout), s, ob)
         else (None, start_closing (uw_now w) s, observed (us_measurement s) (us_metrics s) StCleanup ob))
      else
        case poll_upload_io (\<not> us_closing s \<or> \<not> us_close_queued s) (us_flushing s) w of
          None \<Rightarrow> (None, s, ob)
        | Some (Inl e) \<Rightarrow> (Some (Some (UploadTransport e)), s, ob)
        | Some (Inr p) \<Rightarrow> upload_progressed read_json observed (uw_now w) p s ob)"

text \<open>The caller's timeout ends a test whose events run out.\<close>

fun transfer_upload ::
    "(string \<Rightarrow> wire_measurement option) \<Rightarrow> 'o observer \<Rightarrow> upload_event list \<Rightarrow> upload_state \<Rightarrow> 'o \<Rightarrow>
     (interruption + upload_transfer) \<times> upload_state \<times> 'o" where
  "transfer_upload read_json observed [] s ob = (Inl ByTimeout, s, ob)"
| "transfer_upload read_json observed (UploadInterrupt out # es) s ob = (Inl out, s, ob)"
| "transfer_upload read_json observed (UploadWake w # es) s ob =
     (case upload_step read_json observed w s ob of
        (None, s, ob) \<Rightarrow> transfer_upload read_json observed es s ob
      | (Some err, s, ob) \<Rightarrow>
          (Inr \<lparr> ut_measurement = us_measurement s, ut_metrics = us_metrics s, ut_error = err \<rparr>, s, ob))"

end
