(* ===== verification/Bandwidth.thy ===== *)
theory Bandwidth
  imports Upload Effects
begin

text \<open>
  \<open>bandwidth.rs\<close>: one NDT7 test. The state is the progress the caller can still see when the test
  is interrupted; the network is a parameter whose every wait may also end in an interruption
  (\<open>Inl\<close>). Clocks and identifiers are drawn one by one.
\<close>

subsection \<open>Data\<close>

record direction_measurement =
  dm_request_id :: request_id
  dm_bytes :: nat
  dm_elapsed :: duration
  dm_remote_ip :: ip_addr
  dm_local_ip :: ip_addr
  dm_metrics :: tcp_metrics

record attempt_progress =
  ap_started_monotonic :: nat
  ap_stage_started_monotonic :: nat
  ap_started_at_utc :: time
  ap_download :: "direction_measurement option"
  ap_upload :: "direction_measurement option"
  ap_failures :: "request_failure list"
  ap_server_name :: "string option"
  ap_active :: request_failure

type_synonym socket_addr = "ip_addr \<times> nat"

datatype ws_handshake =
    HsConnected "string option"
  | HsHttp nat "string option option"
  | HsFailed string

datatype download_event = DlItem ws_item | DlInterrupt interruption

text \<open>
  The network. \<open>nw_connect\<close> gives the local address of the stream where it can be told;
  \<open>nw_roots\<close>, \<open>nw_server_name\<close> and \<open>nw_request\<close> give the text of an error; \<open>nw_host_ok\<close> says
  whether a \<open>Host\<close> header can hold a text; \<open>nw_port\<close> is the port a URL spells out. What a
  connected socket delivers until the test ends is a finite list.
\<close>

record ('u, 'n) network =
  nw_locate :: "'n \<Rightarrow> (interruption + unit) \<times> 'n"
  nw_resolve :: "string \<Rightarrow> nat \<Rightarrow> 'n \<Rightarrow> (interruption + (string + socket_addr list)) \<times> 'n"
  nw_connect :: "socket_addr \<Rightarrow> string option \<Rightarrow> 'n \<Rightarrow> (interruption + (os_error + ip_addr option)) \<times> 'n"
  nw_roots :: "path option \<Rightarrow> string option"
  nw_server_name :: "string \<Rightarrow> string option"
  nw_tls :: "string \<Rightarrow> 'n \<Rightarrow> (interruption + (string + unit)) \<times> 'n"
  nw_request :: "'u \<Rightarrow> string option"
  nw_host_ok :: "string \<Rightarrow> bool"
  nw_port :: "'u \<Rightarrow> nat option"
  nw_handshake :: "'u \<Rightarrow> string option \<Rightarrow> 'n \<Rightarrow> (interruption + ws_handshake) \<times> 'n"
  nw_download :: "'n \<Rightarrow> download_event list \<times> 'n"
  nw_upload :: "'n \<Rightarrow> upload_event list \<times> 'n"
  nw_json :: "string \<Rightarrow> wire_measurement option"
  nw_show_duration :: "duration \<Rightarrow> string"

text \<open>\<open>at_phase\<close> is the value of the phase channel, where there is one.\<close>

record ('n, 'g) attempt =
  at_progress :: attempt_progress
  at_draws :: draws
  at_net :: 'n
  at_gate :: 'g
  at_phase :: "load_phase option"
  at_admission :: admission_reservation
  at_reservation_error :: "string option"

type_synonym ('n, 'g, 'a) aop = "('n, 'g) attempt \<Rightarrow> (interruption + 'a) \<times> ('n, 'g) attempt"

subsection \<open>Progress\<close>

definition at_clock :: "'u provider_env \<Rightarrow> ('n, 'g) attempt \<Rightarrow> (time \<times> nat) \<times> ('n, 'g) attempt" where
  "at_clock P s = (let (r, d) = read_clock P (at_draws s) in (r, s \<lparr> at_draws := d \<rparr>))"

definition at_request_id :: "('n, 'g) attempt \<Rightarrow> request_id \<times> ('n, 'g) attempt" where
  "at_request_id s = (let (r, d) = new_request_id (at_draws s) in (r, s \<lparr> at_draws := d \<rparr>))"

definition at_failure ::
    "'u provider_env \<Rightarrow> request_stage \<Rightarrow> error_kind \<Rightarrow> string \<Rightarrow> string option \<Rightarrow> request_id \<Rightarrow> ('n, 'g) attempt \<Rightarrow>
     request_failure \<times> ('n, 'g) attempt" where
  "at_failure P stage kind message url rid s =
     (let (f, d) = request_failure_simple P stage kind message url rid (at_draws s) in (f, s \<lparr> at_draws := d \<rparr>))"

definition on_progress :: "(attempt_progress \<Rightarrow> attempt_progress) \<Rightarrow> ('n, 'g) attempt \<Rightarrow> ('n, 'g) attempt" where
  "on_progress f s = s \<lparr> at_progress := f (at_progress s) \<rparr>"

definition on_active :: "(request_failure \<Rightarrow> request_failure) \<Rightarrow> ('n, 'g) attempt \<Rightarrow> ('n, 'g) attempt" where
  "on_active f = on_progress (\<lambda>p. p \<lparr> ap_active := f (ap_active p) \<rparr>)"

definition progress_new :: "'u provider_env \<Rightarrow> request_stage \<Rightarrow> draws \<Rightarrow> attempt_progress \<times> draws" where
  "progress_new P stage d =
     (let (rid, d) = new_request_id d;
          (active, d) = request_failure_simple P stage EkInternal [] None rid d
      in (\<lparr> ap_started_monotonic = rf_finished_monotonic active,
            ap_stage_started_monotonic = rf_finished_monotonic active,
            ap_started_at_utc = rf_started_at_utc active, ap_download = None, ap_upload = None,
            ap_failures = [], ap_server_name = None, ap_active = active \<rparr>, d))"

definition stage_begun :: "request_stage \<Rightarrow> time \<times> nat \<Rightarrow> attempt_progress \<Rightarrow> attempt_progress" where
  "stage_begun stage now p =
     p \<lparr> ap_active := ap_active p \<lparr> rf_stage := stage, rf_started_at_utc := fst now \<rparr>,
         ap_stage_started_monotonic := snd now \<rparr>"

definition begin_stage :: "'u provider_env \<Rightarrow> request_stage \<Rightarrow> ('n, 'g) attempt \<Rightarrow> ('n, 'g) attempt" where
  "begin_stage P stage s = (let (now, s) = at_clock P s in on_progress (stage_begun stage now) s)"

definition record_failure :: "request_failure \<Rightarrow> attempt_progress \<Rightarrow> attempt_progress" where
  "record_failure f p =
     (let active = ap_active p;
          f = f \<lparr> rf_started_at_utc := rf_started_at_utc active,
                  rf_elapsed := rf_finished_monotonic f - ap_stage_started_monotonic p,
                  rf_direction := rf_direction active, rf_request_id := rf_request_id active,
                  rf_server_name := (if rf_server_name f = None then rf_server_name active else rf_server_name f) \<rparr>
      in p \<lparr> ap_failures := ap_failures p @ [f] \<rparr>)"

definition fail_simple ::
    "'u provider_env \<Rightarrow> request_stage \<Rightarrow> error_kind \<Rightarrow> string \<Rightarrow> string option \<Rightarrow> request_id \<Rightarrow>
     (request_failure \<Rightarrow> request_failure) \<Rightarrow> ('n, 'g) attempt \<Rightarrow> ('n, 'g) attempt" where
  "fail_simple P stage kind message url rid change s =
     (let (f, s) = at_failure P stage kind message url rid s in on_progress (record_failure (change f)) s)"

definition progress_interrupt ::
    "(duration \<Rightarrow> string) \<Rightarrow> outcome \<Rightarrow> duration \<Rightarrow> time \<Rightarrow> nat \<Rightarrow> attempt_progress \<Rightarrow> attempt_progress" where
  "progress_interrupt show_duration out timeout finished_at finished_monotonic p =
     (let f = ap_active p
            \<lparr> rf_finished_at_utc := finished_at, rf_finished_monotonic := finished_monotonic,
              rf_elapsed := finished_monotonic - ap_stage_started_monotonic p, rf_outcome := out,
              rf_error_kind := (if out = TimeoutOutcome then EkTimeout else EkCancelled),
              rf_message := (if out = TimeoutOutcome then ''NDT7 test timed out after '' @ show_duration timeout
                             else ''NDT7 test was cancelled'') \<rparr>
      in p \<lparr> ap_failures := ap_failures p @ [f] \<rparr>)"

definition report_phase :: "load_phase \<Rightarrow> ('n, 'g) attempt \<Rightarrow> ('n, 'g) attempt" where
  "report_phase v s = s \<lparr> at_phase := map_option (\<lambda>_. v) (at_phase s) \<rparr>"

definition on_net :: "('n \<Rightarrow> (interruption + 'a) \<times> 'n) \<Rightarrow> ('n, 'g, 'a) aop" where
  "on_net = st_on at_net (\<lambda>n s. s \<lparr> at_net := n \<rparr>)"

subsection \<open>Failures of the stream\<close>

definition classify_handshake_status :: "provider_kind \<Rightarrow> nat option \<Rightarrow> outcome \<times> failure_disposition" where
  "classify_handshake_status kind status =
     (if status = Some 429 then (RateLimited, ProviderWide)
      else if status = Some 503
      then (if kind = PkMlab then (NoCapacity, TryNextTarget) else (NoCapacity, Terminal))
      else (ErrorOutcome, Terminal))"

definition handshake_failure ::
    "'u provider_env \<Rightarrow> 'u endpoint_candidate \<Rightarrow> 'u \<Rightarrow> ip_addr \<Rightarrow> ip_addr \<Rightarrow> request_id \<Rightarrow>
     (nat \<times> retry_after option) option \<Rightarrow> string \<Rightarrow> ('n, 'g) attempt \<Rightarrow> request_failure \<times> ('n, 'g) attempt" where
  "handshake_failure P c url remote_ip local_ip rid response message s =
     (let status = map_option fst response;
          (outcome, disposition) = classify_handshake_status (ec_provider_kind c) status;
          ((now, mono), s) = at_clock P s
      in (\<lparr> rf_elapsed = 0, rf_finished_monotonic = mono, rf_started_at_utc = now, rf_finished_at_utc = now,
            rf_direction = None, rf_stage = StWebsocketHandshake, rf_outcome = outcome,
            rf_error_kind = EkWebsocketHandshake, rf_message = message, rf_server_name = Some (ec_logical_server c),
            rf_request_url = Some (url_to_string (pv_url P) url), rf_local_ip = Some local_ip,
            rf_remote_ip = Some remote_ip, rf_os_error_code = None, rf_request_id = rid, rf_http_status = status,
            rf_retry_after = (case response of Some (_, r) \<Rightarrow> r | None \<Rightarrow> None), rf_disposition = disposition \<rparr>, s))"

definition stream_failure ::
    "'u provider_env \<Rightarrow> 'u endpoint_candidate \<Rightarrow> request_stage \<Rightarrow> ip_addr \<Rightarrow> ip_addr \<Rightarrow> string \<Rightarrow> int option \<Rightarrow>
     ('n, 'g) attempt \<Rightarrow> ('n, 'g) attempt" where
  "stream_failure P c stage remote_ip local_ip message os s =
     (let ((now, mono), s) = at_clock P s;
          (rid, s) = at_request_id s;
          f = \<lparr> rf_elapsed = 0, rf_finished_monotonic = mono, rf_started_at_utc = now, rf_finished_at_utc = now,
                rf_direction = None, rf_stage = stage, rf_outcome = ErrorOutcome,
                rf_error_kind = (case stage of StDownload \<Rightarrow> EkDownloadFailed | StUpload \<Rightarrow> EkUploadFailed
                                 | StCleanup \<Rightarrow> EkUploadFailed | _ \<Rightarrow> EkIo),
                rf_message = message, rf_server_name = Some (ec_logical_server c),
                rf_request_url = Some (url_to_string (pv_url P)
                  (if stage = StUpload \<or> stage = StCleanup then ec_upload_url c else ec_download_url c)),
                rf_local_ip = Some local_ip, rf_remote_ip = Some remote_ip, rf_os_error_code = os,
                rf_request_id = rid, rf_http_status = None, rf_retry_after = None, rf_disposition = Terminal \<rparr>
      in on_progress (record_failure f) s)"

subsection \<open>Connecting\<close>

record connected_socket =
  cs_remote_ip :: ip_addr
  cs_local_ip :: ip_addr

definition NDT7_SUBPROTOCOL :: string where "NDT7_SUBPROTOCOL = ''net.measurementlab.ndt.v7''"

definition wrap_stream ::
    "'u provider_env \<Rightarrow> ('u, 'n) network \<Rightarrow> 'u \<Rightarrow> 'u endpoint_candidate \<Rightarrow> ('n, 'g, string + unit) aop" where
  "wrap_stream P N url c =
     (let scheme = url_scheme (pv_url P) url in
      if scheme = ''ws'' \<and> ec_allow_insecure c then st_return (Inr ())
      else if scheme = ''wss'' then
        (case nw_roots N (ec_ca_cert c) of Some e \<Rightarrow> st_return (Inl e) | None \<Rightarrow>
         case or_else (ec_tls_server_name c) (url_host (pv_url P) url) of
           None \<Rightarrow> st_return (Inl ''TLS endpoint has no server name'')
         | Some name \<Rightarrow>
             (case nw_server_name N name of
                Some e \<Rightarrow> st_return (Inl (''invalid TLS server name: '' @ e))
              | None \<Rightarrow>
                  st_bind (on_net (nw_tls N name)) (\<lambda>r.
                  st_return (case r of Inl e \<Rightarrow> Inl (''TLS handshake failed: '' @ e) | Inr _ \<Rightarrow> Inr ()))))
      else st_return (Inl (''unsupported WebSocket scheme: '' @ scheme)))"

text \<open>The \<open>Host\<close> header of the request, where it is not the URL's own.\<close>

definition websocket_request :: "('u, 'n) network \<Rightarrow> 'u \<Rightarrow> 'u endpoint_candidate \<Rightarrow> string + string option" where
  "websocket_request N url c =
     (case nw_request N url of Some e \<Rightarrow> Inl (''invalid WebSocket request: '' @ e) | None \<Rightarrow>
      case ec_tls_server_name c of
        None \<Rightarrow> Inr None
      | Some name \<Rightarrow>
          (let host = (case nw_port N url of
                         Some port \<Rightarrow> if port \<noteq> 443 then name @ '':'' @ nat_text port else name
                       | None \<Rightarrow> name)
           in if nw_host_ok N host then Inr (Some host) else Inl ''invalid TLS Host header''))"

definition begin_request ::
    "'u provider_env \<Rightarrow> 'u \<Rightarrow> request_direction \<Rightarrow> 'u endpoint_candidate \<Rightarrow> ('n, 'g) attempt \<Rightarrow>
     request_id \<times> ('n, 'g) attempt" where
  "begin_request P url direction c s =
     (let (rid, s) = at_request_id s;
          (f, s) = at_failure P StDns EkInternal [] (Some (url_to_string (pv_url P) url)) rid s
      in (rid, on_progress (\<lambda>p. p
            \<lparr> ap_active := f \<lparr> rf_direction := Some direction, rf_server_name := Some (ec_logical_server c) \<rparr>,
              ap_stage_started_monotonic := rf_finished_monotonic f \<rparr>) s))"

text \<open>The answer to the handshake: connected, the whole direction lost, or this address only.\<close>

datatype address_result = ArConnected connected_socket | ArLost | ArNext

definition record_handshake ::
    "'u provider_env \<Rightarrow> 'u endpoint_candidate \<Rightarrow> 'u \<Rightarrow> ip_addr \<Rightarrow> ip_addr \<Rightarrow> request_id \<Rightarrow> string \<Rightarrow>
     ('n, 'g) attempt \<Rightarrow> ('n, 'g) attempt" where
  "record_handshake P c url remote_ip local_ip rid message s =
     (let (f, s) = handshake_failure P c url remote_ip local_ip rid None message s
      in on_progress (record_failure f) s)"

definition handshake_refused ::
    "'u provider_env \<Rightarrow> 'u endpoint_candidate \<Rightarrow> 'u \<Rightarrow> ip_addr \<Rightarrow> ip_addr \<Rightarrow> request_id \<Rightarrow> nat \<Rightarrow>
     string option option \<Rightarrow> ('n, 'g) attempt \<Rightarrow> ('n, 'g) attempt" where
  "handshake_refused P c url remote_ip local_ip rid status header s =
     (let ((received_at, received_monotonic), s) = at_clock P s;
          retry = parse_retry_after P header received_at;
          (f, s) = handshake_failure P c url remote_ip local_ip rid (Some (status, retry))
            (''WebSocket handshake returned HTTP '' @ nat_text status @ ''; '' @
             retry_detail (header \<noteq> None) (retry \<noteq> None)) s
      in on_progress (record_failure
           (f \<lparr> rf_finished_at_utc := received_at, rf_finished_monotonic := received_monotonic \<rparr>)) s)"

definition handshake_result ::
    "'u provider_env \<Rightarrow> 'u endpoint_candidate \<Rightarrow> 'u \<Rightarrow> ip_addr \<Rightarrow> ip_addr \<Rightarrow> request_id \<Rightarrow> ws_handshake \<Rightarrow>
     ('n, 'g, address_result) aop" where
  "handshake_result P c url remote_ip local_ip rid h s =
     (case h of
        HsConnected selected \<Rightarrow>
          (if selected \<noteq> Some NDT7_SUBPROTOCOL
           then (Inr ArLost, record_handshake P c url remote_ip local_ip rid
                               ''server did not select the NDT7 WebSocket subprotocol'' s)
           else (Inr (ArConnected \<lparr> cs_remote_ip = remote_ip, cs_local_ip = local_ip \<rparr>), s))
      | HsHttp status header \<Rightarrow> (Inr ArLost, handshake_refused P c url remote_ip local_ip rid status header s)
      | HsFailed e \<Rightarrow> (Inr ArNext, record_handshake P c url remote_ip local_ip rid
                                       (''WebSocket handshake failed: '' @ e) s))"

definition unspecified_ip :: "ip_addr \<Rightarrow> ip_addr" where
  "unspecified_ip a = (case a of IPv4 _ \<Rightarrow> IPv4 0 | IPv6 _ \<Rightarrow> IPv6 0)"

definition handshake_address ::
    "'u provider_env \<Rightarrow> ('u, 'n) network \<Rightarrow> 'u \<Rightarrow> 'u endpoint_candidate \<Rightarrow> ip_addr \<Rightarrow> ip_addr \<Rightarrow> request_id \<Rightarrow>
     ('n, 'g, address_result) aop" where
  "handshake_address P N url c remote_ip local_ip rid s =
     (let url_text = url_to_string (pv_url P) url;
          s = begin_stage P StWebsocketHandshake s
      in case websocket_request N url c of
           Inl message \<Rightarrow>
             (Inr ArLost,
              fail_simple P StWebsocketHandshake EkWebsocketHandshake message (Some url_text) rid (\<lambda>f. f) s)
         | Inr host \<Rightarrow>
             st_bind (on_net (nw_handshake N url host)) (handshake_result P c url remote_ip local_ip rid) s)"

definition tls_address ::
    "'u provider_env \<Rightarrow> ('u, 'n) network \<Rightarrow> 'u \<Rightarrow> 'u endpoint_candidate \<Rightarrow> ip_addr \<Rightarrow> ip_addr \<Rightarrow> request_id \<Rightarrow>
     ('n, 'g, address_result) aop" where
  "tls_address P N url c remote_ip local_ip rid s =
     (let url_text = url_to_string (pv_url P) url;
          s = on_active (\<lambda>f. f \<lparr> rf_local_ip := Some local_ip \<rparr>) s;
          s = begin_stage P StTls s
      in st_bind (wrap_stream P N url c) (\<lambda>r.
           (case r of
              Inl message \<Rightarrow>
                (\<lambda>s. (Inr ArNext,
                  fail_simple P StTls EkTls message (Some url_text) rid
                    (\<lambda>f. f \<lparr> rf_local_ip := Some local_ip, rf_remote_ip := Some remote_ip \<rparr>) s))
            | Inr _ \<Rightarrow> handshake_address P N url c remote_ip local_ip rid)) s)"

definition connect_address ::
    "'u provider_env \<Rightarrow> ('u, 'n) network \<Rightarrow> string option \<Rightarrow> 'u \<Rightarrow> 'u endpoint_candidate \<Rightarrow> request_id \<Rightarrow>
     socket_addr \<Rightarrow> ('n, 'g, address_result) aop" where
  "connect_address P N interface url c rid remote s =
     (let url_text = url_to_string (pv_url P) url;
          s = begin_stage P StConnect s;
          s = on_active (\<lambda>f. f \<lparr> rf_request_id := rid, rf_remote_ip := Some (fst remote), rf_local_ip := None \<rparr>) s
      in st_bind (on_net (nw_connect N remote interface)) (\<lambda>r.
           (case r of
              Inl e \<Rightarrow>
                (\<lambda>s. (Inr ArNext,
                  fail_simple P StConnect EkConnect (''TCP connect failed: '' @ oe_text e) (Some url_text) rid
                    (\<lambda>f. f \<lparr> rf_remote_ip := Some (fst remote), rf_os_error_code := oe_code e \<rparr>) s))
            | Inr local_addr \<Rightarrow>
                tls_address P N url c (fst remote) (unwrap_or local_addr (unspecified_ip (fst remote))) rid)) s)"

text \<open>The first address keeps the identifier of the request, each later one gets its own.\<close>

fun connect_addresses ::
    "'u provider_env \<Rightarrow> ('u, 'n) network \<Rightarrow> string option \<Rightarrow> 'u \<Rightarrow> 'u endpoint_candidate \<Rightarrow> request_id option \<Rightarrow>
     socket_addr list \<Rightarrow> ('n, 'g, connected_socket option) aop" where
  "connect_addresses P N interface url c first [] s = (Inr None, s)"
| "connect_addresses P N interface url c first (remote # rest) s =
     (let (rid, s) = (case first of Some rid \<Rightarrow> (rid, s) | None \<Rightarrow> at_request_id s)
      in case connect_address P N interface url c rid remote s of
           (Inl out, s) \<Rightarrow> (Inl out, s)
         | (Inr (ArConnected socket), s) \<Rightarrow> (Inr (Some socket), s)
         | (Inr ArLost, s) \<Rightarrow> (Inr None, s)
         | (Inr ArNext, s) \<Rightarrow> connect_addresses P N interface url c None rest s)"

definition connect_websocket ::
    "'u provider_env \<Rightarrow> ('u, 'n) network \<Rightarrow> string option \<Rightarrow> 'u \<Rightarrow> request_direction \<Rightarrow> 'u endpoint_candidate \<Rightarrow>
     ('n, 'g, connected_socket option) aop" where
  "connect_websocket P N interface url direction c s =
     (let url_text = url_to_string (pv_url P) url;
          (rid, s) = begin_request P url direction c s
      in case url_host (pv_url P) url of
           None \<Rightarrow>
             (Inr None, fail_simple P StDns EkDns ''NDT7 URL has no host'' (Some url_text) rid (\<lambda>f. f) s)
         | Some host \<Rightarrow>
             st_bind (on_net (nw_resolve N host (unwrap_or (url_port_or_default (pv_url P) url) 443))) (\<lambda>r.
               (case r of
                  Inl message \<Rightarrow>
                    (\<lambda>s. (Inr None, fail_simple P StDns EkDns message (Some url_text) rid (\<lambda>f. f) s))
                | Inr addresses \<Rightarrow> connect_addresses P N interface url c (Some rid) addresses)) s)"

subsection \<open>Download\<close>

record download_state =
  ds_bytes :: nat
  ds_metrics :: tcp_metrics
  ds_completed :: bool

definition download_start :: download_state where
  "download_start = \<lparr> ds_bytes = 0, ds_metrics = tcp_metrics_default, ds_completed = False \<rparr>"

text \<open>Where the events run out the caller's timeout ends the test.\<close>

fun download_loop ::
    "'u provider_env \<Rightarrow> ('u, 'n) network \<Rightarrow> 'u endpoint_candidate \<Rightarrow> connected_socket \<Rightarrow> download_event list \<Rightarrow>
     download_state \<Rightarrow> ('n, 'g, download_state) aop" where
  "download_loop P N c socket [] ds s = (Inl ByTimeout, s)"
| "download_loop P N c socket (DlInterrupt out # es) ds s = (Inl out, s)"
| "download_loop P N c socket (DlItem (WsItem m) # es) ds s =
     (case m of
        WsBinary n \<Rightarrow> download_loop P N c socket es (ds \<lparr> ds_bytes := sat_add u64_max (ds_bytes ds) n \<rparr>) s
      | WsText text \<Rightarrow>
          download_loop P N c socket es
            (ds \<lparr> ds_metrics := snd (update_metrics (nw_json N) (ds_metrics ds) text) \<rparr>) s
      | WsPing \<Rightarrow> download_loop P N c socket es ds s
      | WsClose \<Rightarrow> (Inr (ds \<lparr> ds_completed := True \<rparr>), s)
      | WsOther \<Rightarrow> download_loop P N c socket es ds s)"
| "download_loop P N c socket (DlItem (WsFailed e) # es) ds s =
     (Inr ds, stream_failure P c StDownload (cs_remote_ip socket) (cs_local_ip socket)
                (ws_error_text e) (websocket_os_error e) s)"
| "download_loop P N c socket (DlItem WsEnded # es) ds s = (Inr ds, s)"

definition failure_count :: "('n, 'g) attempt \<Rightarrow> nat" where
  "failure_count s = length (ap_failures (at_progress s))"

definition finish_download ::
    "'u provider_env \<Rightarrow> 'u endpoint_candidate \<Rightarrow> connected_socket \<Rightarrow> nat \<Rightarrow> duration \<Rightarrow> download_state \<Rightarrow>
     ('n, 'g) attempt \<Rightarrow> direction_measurement option \<times> ('n, 'g) attempt" where
  "finish_download P c socket failures_before elapsed ds s =
     (let failed = (\<lambda>message.
            if failure_count s = failures_before
            then stream_failure P c StDownload (cs_remote_ip socket) (cs_local_ip socket) message None s else s)
      in if ds_bytes ds = 0 then (None, failed ''download ended without measurement bytes'')
         else
           let s = (if ds_completed ds then s else failed ''download connection ended without a close frame'')
           in (Some \<lparr> dm_request_id = rf_request_id (ap_active (at_progress s)), dm_bytes = ds_bytes ds,
                      dm_elapsed = elapsed, dm_remote_ip = cs_remote_ip socket, dm_local_ip = cs_local_ip socket,
                      dm_metrics = ds_metrics ds \<rparr>, s))"

definition transfer_download ::
    "'u provider_env \<Rightarrow> ('u, 'n) network \<Rightarrow> 'u endpoint_candidate \<Rightarrow> nat \<Rightarrow> connected_socket \<Rightarrow>
     ('n, 'g, direction_measurement option) aop" where
  "transfer_download P N c failures_before socket s =
     (let s = report_phase PhaseDownload (begin_stage P StDownload s);
          (started, s) = at_clock P s;
          (events, n) = nw_download N (at_net s);
          s = s \<lparr> at_net := n \<rparr>
      in st_bind (download_loop P N c socket events download_start) (\<lambda>ds s.
           let (ended, s) = at_clock P s;
               s = report_phase PhaseSetup s;
               (m, s) = finish_download P c socket failures_before (snd ended - snd started) ds s
           in (Inr m, s)) s)"

definition run_download ::
    "'u provider_env \<Rightarrow> ('u, 'n) network \<Rightarrow> string option \<Rightarrow> 'u endpoint_candidate \<Rightarrow>
     ('n, 'g, direction_measurement option) aop" where
  "run_download P N interface c s =
     st_bind (connect_websocket P N interface (ec_download_url c) DirDownload c)
       (\<lambda>connected. case connected of
          None \<Rightarrow> st_return None
        | Some socket \<Rightarrow> transfer_download P N c (failure_count s) socket) s"

subsection \<open>Upload\<close>

definition upload_direction ::
    "connected_socket \<Rightarrow> request_id \<Rightarrow> tcp_metrics \<Rightarrow> upload_measurement \<Rightarrow> direction_measurement" where
  "upload_direction socket rid metrics m =
     \<lparr> dm_request_id = rid, dm_bytes = um_bytes m, dm_elapsed = um_elapsed m,
       dm_remote_ip = cs_remote_ip socket, dm_local_ip = cs_local_ip socket, dm_metrics = metrics \<rparr>"

definition upload_observed :: "'u provider_env \<Rightarrow> connected_socket \<Rightarrow> ('n, 'g) attempt observer" where
  "upload_observed P socket m metrics stage s =
     (let s = (if rf_stage (ap_active (at_progress s)) \<noteq> stage then begin_stage P stage s else s)
      in on_progress (\<lambda>p. p \<lparr> ap_upload :=
           map_option (upload_direction socket (rf_request_id (ap_active p)) metrics) m \<rparr>) s)"

definition finish_upload ::
    "'u provider_env \<Rightarrow> 'u endpoint_candidate \<Rightarrow> connected_socket \<Rightarrow> nat \<Rightarrow> time \<times> nat \<Rightarrow> upload_transfer \<Rightarrow>
     ('n, 'g) attempt \<Rightarrow> direction_measurement option \<times> ('n, 'g) attempt" where
  "finish_upload P c socket failures_before started t s =
     (let s = (case ut_error t of
                 None \<Rightarrow> s
               | Some e \<Rightarrow>
                   stream_failure P c (rf_stage (ap_active (at_progress s))) (cs_remote_ip socket) (cs_local_ip socket)
                     (upload_error_text e)
                     (case e of UploadTransport e \<Rightarrow> websocket_os_error e | _ \<Rightarrow> None) s)
      in case ut_measurement t of
           Some m \<Rightarrow>
             (Some (upload_direction socket (rf_request_id (ap_active (at_progress s))) (ut_metrics t) m), s)
         | None \<Rightarrow>
             (None,
              (if failure_count s = failures_before
               then stream_failure P c StUpload (cs_remote_ip socket) (cs_local_ip socket)
                      ''upload ended without a valid server measurement'' None
                      (on_progress (stage_begun StUpload started) s)
               else s)))"

definition transfer_upload_socket ::
    "'u provider_env \<Rightarrow> ('u, 'n) network \<Rightarrow> 'u endpoint_candidate \<Rightarrow> nat \<Rightarrow> connected_socket \<Rightarrow>
     ('n, 'g, direction_measurement option) aop" where
  "transfer_upload_socket P N c failures_before socket s =
     (let s = begin_stage P StUpload s;
          p = at_progress s;
          started = (rf_started_at_utc (ap_active p), ap_stage_started_monotonic p);
          s = report_phase PhaseUpload s;
          (events, n) = nw_upload N (at_net s);
          s = s \<lparr> at_net := n \<rparr>;
          (now, s) = at_clock P s;
          (r, us, s) = transfer_upload (nw_json N) (upload_observed P socket) events (upload_start (snd now)) s
      in case r of
           Inl out \<Rightarrow> (Inl out, s)
         | Inr t \<Rightarrow>
             (let (m, s) = finish_upload P c socket failures_before started t (report_phase PhaseSetup s)
              in (Inr m, s)))"

definition run_upload ::
    "'u provider_env \<Rightarrow> ('u, 'n) network \<Rightarrow> string option \<Rightarrow> 'u endpoint_candidate \<Rightarrow>
     ('n, 'g, direction_measurement option) aop" where
  "run_upload P N interface c s =
     st_bind (connect_websocket P N interface (ec_upload_url c) DirUpload c)
       (\<lambda>connected. case connected of
          None \<Rightarrow> st_return None
        | Some socket \<Rightarrow> transfer_upload_socket P N c (failure_count s) socket) s"

subsection \<open>Candidates\<close>

definition provider_stop_outcome :: "request_failure \<Rightarrow> outcome option" where
  "provider_stop_outcome f = (if rf_disposition f = ProviderWide then Some (rf_outcome f) else None)"

definition last_failure :: "attempt_progress \<Rightarrow> request_failure option" where
  "last_failure p = (if ap_failures p = [] then None else Some (last (ap_failures p)))"

definition stop_outcome :: "attempt_progress \<Rightarrow> outcome option" where
  "stop_outcome p = (case last_failure p of Some f \<Rightarrow> provider_stop_outcome f | None \<Rightarrow> None)"

definition directions_outcome :: "bool \<Rightarrow> bool \<Rightarrow> outcome" where
  "directions_outcome download upload =
     (if download \<and> upload then Success else if download \<or> upload then PartialOutcome else ErrorOutcome)"

definition next_target :: "attempt_progress \<Rightarrow> bool" where
  "next_target p \<longleftrightarrow>
     ap_download p = None \<and>
     (case last_failure p of Some f \<Rightarrow> rf_disposition f = TryNextTarget | None \<Rightarrow> False)"

fun run_candidates ::
    "'u provider_env \<Rightarrow> ('u, 'n) network \<Rightarrow> string option \<Rightarrow> 'u endpoint_candidate list \<Rightarrow> ('n, 'g, outcome) aop" where
  "run_candidates P N interface [] s = (Inr NoCapacity, s)"
| "run_candidates P N interface (c # cs) s =
     (let s = report_phase PhaseSetup (on_progress (\<lambda>p. p \<lparr> ap_server_name := Some (ec_logical_server c) \<rparr>) s)
      in case run_download P N interface c s of
           (Inl out, s) \<Rightarrow> (Inl out, s)
         | (Inr download, s) \<Rightarrow>
             (let s = on_progress (\<lambda>p. p \<lparr> ap_download := download \<rparr>) s in
              case stop_outcome (at_progress s) of
                Some out \<Rightarrow> (Inr out, s)
              | None \<Rightarrow>
                  (if next_target (at_progress s) then run_candidates P N interface cs s
                   else
                     st_bind (run_upload P N interface c) (\<lambda>upload s.
                       let s = on_progress (\<lambda>p. p \<lparr> ap_upload := upload \<rparr>) s;
                           p = at_progress s
                       in (Inr (unwrap_or (stop_outcome p)
                                  (directions_outcome (ap_download p \<noteq> None) (ap_upload p \<noteq> None))), s))
                       (report_phase PhaseSetup s))))"

subsection \<open>The attempt\<close>

type_synonym 'g gate = "time \<Rightarrow> 'g \<Rightarrow> (string + admission_reservation) \<times> 'g"

definition provider_kind_of :: "'u resolved_config \<Rightarrow> provider_kind" where
  "provider_kind_of config = (case bw_provider (rc_bandwidth config) of MlabProvider _ \<Rightarrow> PkMlab | DirectProvider _ \<Rightarrow> PkDirect)"

definition config_interface :: "'u resolved_config \<Rightarrow> string option" where
  "config_interface config = (case rc_interfaces config of [] \<Rightarrow> None | i # _ \<Rightarrow> Some i)"

definition stamp_request :: "request_id \<Rightarrow> request_failure \<Rightarrow> request_failure" where
  "stamp_request rid f = f \<lparr> rf_request_id := rid \<rparr>"

definition keep_failures :: "request_failure list \<Rightarrow> attempt_progress \<Rightarrow> attempt_progress" where
  "keep_failures fs p =
     p \<lparr> ap_failures := ap_failures p @ map (stamp_request (rf_request_id (ap_active p))) fs \<rparr>"

text \<open>The reservation stands between the resolution and the first connection.\<close>

definition reserve_start ::
    "'u provider_env \<Rightarrow> 'g gate \<Rightarrow> ('n, 'g) attempt \<Rightarrow> bool \<times> ('n, 'g) attempt" where
  "reserve_start P reserve s =
     (let s = begin_stage P StConnect s;
          (now, s) = at_clock P s;
          (r, g) = reserve (fst now) (at_gate s);
          s = s \<lparr> at_gate := g \<rparr>
      in case r of
           Inr admission \<Rightarrow> (True, s \<lparr> at_admission := admission \<rparr>)
         | Inl message \<Rightarrow>
             (let (rid, s) = at_request_id s;
                  s = fail_simple P StConnect EkInternal (''cannot persist bandwidth reservation: '' @ message)
                        None rid (\<lambda>f. f \<lparr> rf_outcome := ErrorOutcome \<rparr>) s
              in (False, s \<lparr> at_reservation_error := Some message \<rparr>)))"

definition run_attempt ::
    "'u provider_env \<Rightarrow> ('u, 'n) network \<Rightarrow> 'g gate \<Rightarrow> 'u resolved_config \<Rightarrow> ('n, 'g, outcome) aop" where
  "run_attempt P N reserve config =
     st_bind (on_net (nw_locate N)) (\<lambda>_ s.
       let (r, d) = resolve_endpoints P (rc_bandwidth config) (config_interface config) (at_draws s);
           s = on_progress (keep_failures (er_failures r)) (s \<lparr> at_draws := d \<rparr>)
       in case er_terminal r of
            Some f \<Rightarrow> (Inr (rf_outcome f), on_progress (keep_failures [f]) s)
          | None \<Rightarrow>
              (let (granted, s) = reserve_start P reserve s
               in if granted then run_candidates P N (config_interface config) (er_candidates r) s
                  else (Inr ErrorOutcome, s)))"

definition attempt_start ::
    "'u provider_env \<Rightarrow> 'u resolved_config \<Rightarrow> load_phase option \<Rightarrow> draws \<Rightarrow> 'n \<Rightarrow> 'g \<Rightarrow> ('n, 'g) attempt" where
  "attempt_start P config phase d net gate =
     (let (p, d) = progress_new P (case provider_kind_of config of PkMlab \<Rightarrow> StLocate | PkDirect \<Rightarrow> StDns) d;
          p = (case bw_provider (rc_bandwidth config) of
                 MlabProvider mlab \<Rightarrow>
                   p \<lparr> ap_active := ap_active p
                        \<lparr> rf_request_url := Some (url_to_string (pv_url P) (ml_locate_url mlab)) \<rparr> \<rparr>
               | DirectProvider _ \<Rightarrow> p)
      in report_phase PhaseSetup
           \<lparr> at_progress = p, at_draws = d, at_net = net, at_gate = gate, at_phase = phase,
             at_admission = Untracked, at_reservation_error = None \<rparr>)"

subsection \<open>The report\<close>

record report_input =
  ri_elapsed :: duration
  ri_started_at_utc :: time
  ri_finished_at_utc :: time
  ri_run_id :: run_id
  ri_interface :: "string option"
  ri_provider_id :: string
  ri_provider_kind :: provider_kind
  ri_server_name :: "string option"
  ri_failures :: "request_failure list"
  ri_download :: "direction_measurement option"
  ri_upload :: "direction_measurement option"
  ri_outcome :: outcome

definition throughput_mbps :: "nat \<Rightarrow> duration \<Rightarrow> f64 option" where
  "throughput_mbps bytes elapsed =
     (let seconds = as_secs_f64 elapsed in
      if seconds \<le> Fin 0 then None
      else
        let v = f_div (f_div (f_mul (f64_of_nat bytes) (Fin 8)) seconds) (Fin 1000000)
        in if is_finite v then Some v else None)"

definition failure_event :: "report_input \<Rightarrow> event_id \<Rightarrow> request_failure \<Rightarrow> measurement_event" where
  "failure_event ri eid f =
     (event_new eid (ri_run_id ri) RequestFailureEvent (rf_outcome f) (rf_finished_at_utc f))
       \<lparr> ev_started_at_utc := Some (rf_started_at_utc f), ev_elapsed_ms := Some (duration_ms_f64 (rf_elapsed f)),
         ev_interface := ri_interface ri, ev_provider_id := Some (ri_provider_id ri),
         ev_provider_kind := Some (ri_provider_kind ri), ev_server_name := rf_server_name f,
         ev_request_url := rf_request_url f, ev_request_local_ip := rf_local_ip f,
         ev_request_remote_ip := rf_remote_ip f, ev_request_direction := rf_direction f,
         ev_request_stage := Some (rf_stage f), ev_request_id := Some (rf_request_id f),
         ev_request_http_status := rf_http_status f,
         ev_request_retry_after_ms :=
           (case rf_retry_after f of
              None \<Rightarrow> None
            | Some r \<Rightarrow> if ra_delay r div ns_per_ms \<le> u64_max then Some (ra_delay r div ns_per_ms) else None),
         ev_request_retry_at_utc := map_option ra_deadline (rf_retry_after f),
         ev_error_kind := Some (rf_error_kind f), ev_os_error_code := rf_os_error_code f,
         ev_message := Some (rf_message f) \<rparr>"

definition metrics_of :: "direction_measurement option \<Rightarrow> tcp_metrics" where
  "metrics_of m = (case m of Some m \<Rightarrow> dm_metrics m | None \<Rightarrow> tcp_metrics_default)"

definition direction_mbps :: "direction_measurement option \<Rightarrow> f64 option" where
  "direction_mbps m = (case m of Some m \<Rightarrow> throughput_mbps (dm_bytes m) (dm_elapsed m) | None \<Rightarrow> None)"

definition with_download :: "direction_measurement option \<Rightarrow> measurement_event \<Rightarrow> measurement_event" where
  "with_download m ev =
     ev \<lparr> ev_download_mbps := direction_mbps m, ev_download_request_id := map_option dm_request_id m,
          ev_download_bytes := map_option dm_bytes m,
          ev_download_measurement_duration_ms := map_option (\<lambda>m. duration_ms_f64 (dm_elapsed m)) m,
          ev_download_local_ip := map_option dm_local_ip m, ev_download_remote_ip := map_option dm_remote_ip m,
          ev_download_server_tcp_min_rtt_ms := tm_min_rtt_ms (metrics_of m),
          ev_download_server_tcp_rtt_ms := tm_rtt_ms (metrics_of m),
          ev_download_server_tcp_retransmitted_bytes := tm_retransmitted_bytes (metrics_of m) \<rparr>"

definition with_upload :: "direction_measurement option \<Rightarrow> measurement_event \<Rightarrow> measurement_event" where
  "with_upload m ev =
     ev \<lparr> ev_upload_mbps := direction_mbps m, ev_upload_request_id := map_option dm_request_id m,
          ev_upload_bytes := map_option dm_bytes m,
          ev_upload_measurement_duration_ms := map_option (\<lambda>m. duration_ms_f64 (dm_elapsed m)) m,
          ev_upload_local_ip := map_option dm_local_ip m, ev_upload_remote_ip := map_option dm_remote_ip m,
          ev_upload_server_tcp_min_rtt_ms := tm_min_rtt_ms (metrics_of m),
          ev_upload_server_tcp_rtt_ms := tm_rtt_ms (metrics_of m),
          ev_upload_server_tcp_retransmitted_bytes := tm_retransmitted_bytes (metrics_of m) \<rparr>"

definition bandwidth_event :: "report_input \<Rightarrow> event_id \<Rightarrow> measurement_event" where
  "bandwidth_event ri eid =
     (let ev = (event_new eid (ri_run_id ri) BandwidthEvent (ri_outcome ri) (ri_finished_at_utc ri))
            \<lparr> ev_started_at_utc := Some (ri_started_at_utc ri), ev_interface := ri_interface ri,
              ev_trigger_reason := Some TrManual, ev_provider_id := Some (ri_provider_id ri),
              ev_provider_kind := Some (ri_provider_kind ri), ev_server_name := ri_server_name ri,
              ev_elapsed_ms := Some (duration_ms_f64 (ri_elapsed ri)) \<rparr>;
          ev = with_upload (ri_upload ri) (with_download (ri_download ri) ev)
      in if ri_outcome ri = Success \<or> ri_failures ri = [] then ev
         else ev \<lparr> ev_error_kind := Some (rf_error_kind (last (ri_failures ri))),
                   ev_message := Some (rf_message (last (ri_failures ri))) \<rparr>)"

text \<open>\<open>eid\<close> are the identifiers of the events.\<close>

definition report_from_result ::
    "'u provider_env \<Rightarrow> (nat \<Rightarrow> event_id) \<Rightarrow> report_input \<Rightarrow> bandwidth_report" where
  "report_from_result P eid ri =
     (let events = map (\<lambda>i. failure_event ri (eid i) (ri_failures ri ! i)) [0..<length (ri_failures ri)]
                   @ [bandwidth_event ri (eid (length (ri_failures ri)))]
      in \<lparr> br_events = map (event_sanitized (url_ops.truncate (pv_url P))) events, br_outcome = ri_outcome ri,
           br_reserved = False, br_reservation_error = None \<rparr>)"

definition admission_event :: "admission_reservation \<Rightarrow> measurement_event \<Rightarrow> measurement_event" where
  "admission_event a ev =
     (if ev_event_kind ev \<noteq> BandwidthEvent then ev
      else case a of
             Untracked \<Rightarrow> ev \<lparr> ev_bandwidth_start_reserved := Some False \<rparr>
           | Reserved day n \<Rightarrow>
               ev \<lparr> ev_bandwidth_start_reserved := Some True, ev_provider_accounting_date := Some day,
                    ev_provider_daily_starts := Some n \<rparr>)"

definition apply_admission :: "bandwidth_report \<Rightarrow> admission_reservation \<Rightarrow> bandwidth_report" where
  "apply_admission r a =
     r \<lparr> br_reserved := (a \<noteq> Untracked), br_events := map (admission_event a) (br_events r) \<rparr>"

subsection \<open>The measurement\<close>

definition report_of ::
    "'u provider_env \<Rightarrow> (nat \<Rightarrow> event_id) \<Rightarrow> 'u resolved_config \<Rightarrow> run_id \<Rightarrow> time \<times> nat \<Rightarrow> outcome \<Rightarrow>
     ('n, 'g) attempt \<Rightarrow> bandwidth_report" where
  "report_of P eid config i finished out s =
     (let p = at_progress s;
          r = report_from_result P eid
            \<lparr> ri_elapsed = snd finished - ap_started_monotonic p, ri_started_at_utc = ap_started_at_utc p,
              ri_finished_at_utc = fst finished, ri_run_id = i, ri_interface = config_interface config,
              ri_provider_id = bw_provider_id (rc_bandwidth config), ri_provider_kind = provider_kind_of config,
              ri_server_name = ap_server_name p, ri_failures = ap_failures p, ri_download = ap_download p,
              ri_upload = ap_upload p, ri_outcome = out \<rparr>
      in apply_admission (r \<lparr> br_reservation_error := at_reservation_error s \<rparr>) (at_admission s))"

definition interruption_outcome :: "interruption \<Rightarrow> outcome" where
  "interruption_outcome by = (case by of ByTimeout \<Rightarrow> TimeoutOutcome | ByCancellation \<Rightarrow> CancelledOutcome)"

definition measure_bandwidth_with_network_and_gate_observed ::
    "'u provider_env \<Rightarrow> ('u, 'n) network \<Rightarrow> (nat \<Rightarrow> event_id) \<Rightarrow> 'g gate \<Rightarrow> 'u resolved_config \<Rightarrow> run_id \<Rightarrow>
     load_phase option \<Rightarrow> draws \<Rightarrow> 'n \<Rightarrow> 'g \<Rightarrow> bandwidth_report \<times> ('n, 'g) attempt" where
  "measure_bandwidth_with_network_and_gate_observed P N eid reserve config i phase d net gate =
     (let (result, s) = run_attempt P N reserve config (attempt_start P config phase d net gate);
          (finished, s) = at_clock P s;
          (out, s) =
            (case result of
               Inr out \<Rightarrow> (out, s)
             | Inl by \<Rightarrow>
                 let out = interruption_outcome by in
                 (out, on_progress (progress_interrupt (nw_show_duration N) out
                         (bw_whole_test_timeout (rc_bandwidth config)) (fst finished) (snd finished)) s))
      in (report_of P eid config i finished out s, s))"

definition measure_bandwidth_with_network_and_gate ::
    "'u provider_env \<Rightarrow> ('u, 'n) network \<Rightarrow> (nat \<Rightarrow> event_id) \<Rightarrow> 'g gate \<Rightarrow> 'u resolved_config \<Rightarrow> run_id \<Rightarrow>
     draws \<Rightarrow> 'n \<Rightarrow> 'g \<Rightarrow> bandwidth_report \<times> ('n, 'g) attempt" where
  "measure_bandwidth_with_network_and_gate P N eid reserve config i =
     measure_bandwidth_with_network_and_gate_observed P N eid reserve config i None"

definition measure_bandwidth_with_network ::
    "'u provider_env \<Rightarrow> ('u, 'n) network \<Rightarrow> (nat \<Rightarrow> event_id) \<Rightarrow> 'u resolved_config \<Rightarrow> run_id \<Rightarrow>
     draws \<Rightarrow> 'n \<Rightarrow> bandwidth_report \<times> ('n, unit) attempt" where
  "measure_bandwidth_with_network P N eid config i d net =
     measure_bandwidth_with_network_and_gate P N eid untracked_reserve config i d net ()"

subsection \<open>The system's network\<close>

text \<open>
  The operating system below the connector. \<open>no_tcp\<close> is \<open>None\<close> when the connection is not made
  within the ten seconds of \<open>connect_tcp\<close>; \<open>no_lookup\<close> is the resolver of the system.
\<close>

record 'n net_os =
  no_socket :: "bool \<Rightarrow> os_error option"
  no_bind_supported :: bool
  no_bind_device :: "string \<Rightarrow> os_error option"
  no_addresses :: "os_error + (string \<times> ip_addr) list"
  no_bind_source :: "ip_addr \<Rightarrow> os_error option"
  no_tcp :: "socket_addr \<Rightarrow> 'n \<Rightarrow> (interruption + (os_error + ip_addr option) option) \<times> 'n"
  no_nodelay :: "os_error option"
  no_lookup :: "string \<Rightarrow> nat \<Rightarrow> 'n \<Rightarrow> (interruption + (string + socket_addr list)) \<times> 'n"

definition MAX_RESOLVED_ADDRESSES :: nat where "MAX_RESOLVED_ADDRESSES = 8"

definition io_error :: "string \<Rightarrow> os_error" where
  "io_error message = \<lparr> oe_code = None, oe_denied = False, oe_text = message \<rparr>"

definition is_ipv4 :: "ip_addr \<Rightarrow> bool" where
  "is_ipv4 a = (case a of IPv4 _ \<Rightarrow> True | IPv6 _ \<Rightarrow> False)"

definition bind_socket :: "'n net_os \<Rightarrow> string \<Rightarrow> bool \<Rightarrow> os_error option" where
  "bind_socket K interface ipv4 =
     (if \<not> no_bind_supported K
      then Some (io_error (''binding TCP to interface '' @ interface @ '' is unsupported''))
      else case no_bind_device K interface of Some e \<Rightarrow> Some e | None \<Rightarrow>
        case no_addresses K of Inl e \<Rightarrow> Some e | Inr addresses \<Rightarrow>
        case find (\<lambda>(name, ip). name = interface \<and> is_ipv4 ip = ipv4) addresses of
          None \<Rightarrow> Some (io_error (''interface '' @ interface @ '' has no matching source address''))
        | Some (_, source) \<Rightarrow> no_bind_source K source)"

definition connect_tcp ::
    "'n net_os \<Rightarrow> socket_addr \<Rightarrow> string option \<Rightarrow> 'n \<Rightarrow> (interruption + (os_error + ip_addr option)) \<times> 'n" where
  "connect_tcp K remote interface n =
     (let ipv4 = is_ipv4 (fst remote) in
      case no_socket K ipv4 of Some e \<Rightarrow> (Inr (Inl e), n) | None \<Rightarrow>
      case (case interface of None \<Rightarrow> None | Some i \<Rightarrow> bind_socket K i ipv4) of
        Some e \<Rightarrow> (Inr (Inl e), n)
      | None \<Rightarrow>
          (case no_tcp K remote n of
             (Inl out, n) \<Rightarrow> (Inl out, n)
           | (Inr None, n) \<Rightarrow> (Inr (Inl (io_error ''TCP connect timed out'')), n)
           | (Inr (Some (Inl e)), n) \<Rightarrow> (Inr (Inl e), n)
           | (Inr (Some (Inr local_addr)), n) \<Rightarrow>
               (Inr (case no_nodelay K of Some e \<Rightarrow> Inl e | None \<Rightarrow> Inr local_addr), n)))"

text \<open>The first occurrence of each address is kept.\<close>

definition unique_addresses :: "socket_addr list \<Rightarrow> socket_addr list" where
  "unique_addresses addresses = take MAX_RESOLVED_ADDRESSES (rev (remdups (rev addresses)))"

definition resolve_addresses ::
    "'n net_os \<Rightarrow> string \<Rightarrow> nat \<Rightarrow> 'n \<Rightarrow> (interruption + (string + socket_addr list)) \<times> 'n" where
  "resolve_addresses K host port n =
     (case parse_ip host of
        Some ip \<Rightarrow> (Inr (Inr [(ip, port)]), n)
      | None \<Rightarrow>
          (case no_lookup K host port n of
             (Inl out, n) \<Rightarrow> (Inl out, n)
           | (Inr (Inl e), n) \<Rightarrow> (Inr (Inl (''DNS resolution failed: '' @ e)), n)
           | (Inr (Inr resolved), n) \<Rightarrow>
               (let addresses = unique_addresses resolved
                in (Inr (if addresses = [] then Inl ''DNS resolution returned no addresses'' else Inr addresses), n))))"

definition system_network :: "'n net_os \<Rightarrow> ('u, 'n) network \<Rightarrow> ('u, 'n) network" where
  "system_network K N = N \<lparr> nw_connect := connect_tcp K, nw_resolve := resolve_addresses K \<rparr>"

definition measure_bandwidth_with_gate ::
    "'u provider_env \<Rightarrow> 'n net_os \<Rightarrow> ('u, 'n) network \<Rightarrow> (nat \<Rightarrow> event_id) \<Rightarrow> 'g gate \<Rightarrow> 'u resolved_config \<Rightarrow>
     run_id \<Rightarrow> draws \<Rightarrow> 'n \<Rightarrow> 'g \<Rightarrow> bandwidth_report \<times> ('n, 'g) attempt" where
  "measure_bandwidth_with_gate P K N = measure_bandwidth_with_network_and_gate P (system_network K N)"

definition measure_bandwidth_with_gate_and_phase ::
    "'u provider_env \<Rightarrow> 'n net_os \<Rightarrow> ('u, 'n) network \<Rightarrow> (nat \<Rightarrow> event_id) \<Rightarrow> 'g gate \<Rightarrow> 'u resolved_config \<Rightarrow>
     run_id \<Rightarrow> load_phase \<Rightarrow> draws \<Rightarrow> 'n \<Rightarrow> 'g \<Rightarrow> bandwidth_report \<times> ('n, 'g) attempt" where
  "measure_bandwidth_with_gate_and_phase P K N eid reserve config i phase =
     measure_bandwidth_with_network_and_gate_observed P (system_network K N) eid reserve config i (Some phase)"

definition measure_bandwidth_with_connector ::
    "'u provider_env \<Rightarrow> 'n net_os \<Rightarrow> ('u, 'n) network \<Rightarrow> (nat \<Rightarrow> event_id) \<Rightarrow> 'u resolved_config \<Rightarrow> run_id \<Rightarrow>
     draws \<Rightarrow> 'n \<Rightarrow> bandwidth_report \<times> ('n, unit) attempt" where
  "measure_bandwidth_with_connector P K N =
     measure_bandwidth_with_network P (N \<lparr> nw_resolve := resolve_addresses K \<rparr>)"

definition measure_bandwidth ::
    "'u provider_env \<Rightarrow> 'n net_os \<Rightarrow> ('u, 'n) network \<Rightarrow> (nat \<Rightarrow> event_id) \<Rightarrow> 'u resolved_config \<Rightarrow> run_id \<Rightarrow>
     draws \<Rightarrow> 'n \<Rightarrow> bandwidth_report \<times> ('n, unit) attempt" where
  "measure_bandwidth P K N = measure_bandwidth_with_network P (system_network K N)"

end
