(* ===== verification/BandwidthOnce.thy ===== *)
theory BandwidthOnce
  imports Bandwidth Scheduler
begin

text \<open>
  \<open>once bandwidth\<close> (\<open>execute_bandwidth_once\<close>): the session around one test, with the scheduler
  as the gate of the test. The state is the coordinator and the scheduler; an error ends the
  sequence, and the session is then closed with its text.
\<close>

datatype bandwidth_command_error = BcJournal journal_error | BcScheduler scheduler_error

definition journal_error_text :: "journal_error \<Rightarrow> string" where
  "journal_error_text e =
     (case e of
        JIo _ m \<Rightarrow> ''journal I/O failed: '' @ m
      | JCsv m \<Rightarrow> ''journal CSV serialization failed: '' @ m
      | JHeader p \<Rightarrow> ''existing output has an incompatible CSV header: '' @ p
      | JCorrupt p \<Rightarrow> ''existing output contains a malformed CSV record: '' @ p
      | JLocked p \<Rightarrow> ''output file is already locked by another Netband process: '' @ p)"

definition bandwidth_error_text :: "display \<Rightarrow> bandwidth_command_error \<Rightarrow> string" where
  "bandwidth_error_text D e =
     (case e of BcJournal e \<Rightarrow> journal_error_text e | BcScheduler e \<Rightarrow> error_text D e)"

text \<open>What the commands use of the outside: one record for the parameters of the parts.\<close>

record ('u, 'n, 'b, 'j, 'c) command_env =
  be_provider :: "'u provider_env"
  be_net :: "('u, 'n) network"
  be_os :: "'n net_os"
  be_ext :: ext
  be_codec :: "'b codec"
  be_display :: display
  be_sinks :: "('j, 'c) sinks"

record ('b, 'j, 'c) session_world =
  sw_coordinator :: "('j, 'c) coordinator"
  sw_sched :: "'b sched"

definition on_coordinator ::
    "(('j, 'c) coordinator \<Rightarrow> (journal_error + 'a) \<times> ('j, 'c) coordinator) \<Rightarrow> ('b, 'j, 'c) session_world \<Rightarrow>
     (bandwidth_command_error + 'a) \<times> ('b, 'j, 'c) session_world" where
  "on_coordinator f = st_error BcJournal (st_on sw_coordinator (\<lambda>c w. w \<lparr> sw_coordinator := c \<rparr>) f)"

definition on_sched ::
    "('b, 'a) sop \<Rightarrow> ('b, 'j, 'c) session_world \<Rightarrow>
     (bandwidth_command_error + 'a) \<times> ('b, 'j, 'c) session_world" where
  "on_sched f = st_error BcScheduler (st_on sw_sched (\<lambda>c w. w \<lparr> sw_sched := c \<rparr>) f)"

definition bandwidth_run_context :: "'u resolved_config \<Rightarrow> trigger_reason \<Rightarrow> run_context" where
  "bandwidth_run_context config reason =
     run_context_default
       \<lparr> rx_interface := config_interface config,
         rx_provider_id := Some (bw_provider_id (rc_bandwidth config)),
         rx_provider_kind := Some (provider_kind_of config), rx_trigger_reason := Some reason \<rparr>"

text \<open>What the command draws: identifiers, clocks, and the network it meets.\<close>

record 'n once_input =
  oi_session :: run_id
  oi_run_id :: run_id
  oi_started_at :: time
  oi_finished_at :: time
  oi_moments :: "nat \<Rightarrow> moment"
  oi_event_ids :: "nat \<Rightarrow> event_id"
  oi_draws :: draws
  oi_net :: 'n

definition manual_opportunity :: "'u resolved_config \<Rightarrow> time \<Rightarrow> bandwidth_opportunity" where
  "manual_opportunity config started_at =
     \<lparr> op_reason = TrManual, op_scheduled_at_utc = None, op_requested_at_utc = started_at,
       op_interface = config_interface config \<rparr>"

definition measure_admitted ::
    "('u, 'n, 'b, 'j, 'c) command_env \<Rightarrow> 'u resolved_config \<Rightarrow> 'n once_input \<Rightarrow>
     ('b, 'j, 'c) session_world \<Rightarrow> (bandwidth_command_error + bandwidth_report) \<times> ('b, 'j, 'c) session_world" where
  "measure_admitted E config i w =
     (let (report, s) = measure_bandwidth_with_gate (be_provider E) (be_os E) (be_net E) (oi_event_ids i)
            (sched_reserve (be_ext E) (be_codec E) (be_display E)) config (oi_run_id i) (oi_draws i) (oi_net i)
            (sw_sched w)
      in (Inr (opportunity_apply_timing (manual_opportunity config (oi_started_at i)) report),
          w \<lparr> sw_sched := at_gate s \<rparr>))"

definition settle_attempt ::
    "('u, 'n, 'b, 'j, 'c) command_env \<Rightarrow> 'u resolved_config \<Rightarrow> 'n once_input \<Rightarrow> bandwidth_report \<Rightarrow>
     ('b, 'j, 'c) session_world \<Rightarrow> (bandwidth_command_error + bandwidth_report) \<times> ('b, 'j, 'c) session_world" where
  "settle_attempt E config i report =
     (if br_reservation_error report = None
      then st_bind (on_sched (finish_attempt (be_ext E) (be_codec E) (oi_run_id i) (oi_finished_at i)
                      (manual_opportunity config (oi_started_at i)) report))
             (\<lambda>(events, report). st_return (report \<lparr> br_events := br_events report @ events \<rparr>))
      else st_return report)"

definition blocked_report :: "measurement_event \<Rightarrow> bandwidth_report" where
  "blocked_report ev =
     \<lparr> br_events = [ev], br_outcome = Suppressed, br_reserved = False, br_reservation_error = None \<rparr>"

definition bandwidth_session ::
    "('u, 'n, 'b, 'j, 'c) command_env \<Rightarrow> 'u resolved_config \<Rightarrow> 'n once_input \<Rightarrow>
     ('b, 'j, 'c) session_world \<Rightarrow> (bandwidth_command_error + bandwidth_report) \<times> ('b, 'j, 'c) session_world" where
  "bandwidth_session E config i =
     (let S = be_sinks E; ms = oi_moments i in
      st_bind (on_coordinator (start_session S (ms 0) (oi_session i) ''once bandwidth'')) (\<lambda>_.
      st_bind (on_sched (preflight_manual (be_ext E) (be_codec E) (oi_session i) (oi_started_at i))) (\<lambda>decision.
      st_bind
        (case decision of
           ManualAllowed \<Rightarrow>
             st_bind (on_coordinator (start_run_with_context S (ms 1) (oi_run_id i) (oi_session i) RkBandwidth
                        (bandwidth_run_context config TrManual))) (\<lambda>_.
             st_bind (measure_admitted E config i) (\<lambda>report.
             st_bind (settle_attempt E config i report) (\<lambda>report.
             st_bind (on_coordinator (publish_batch S (br_events report))) (\<lambda>_.
             st_bind (on_coordinator (finish_run S (ms 2) (oi_run_id i) (br_outcome report) None)) (\<lambda>_.
             st_return report)))))
         | ManualBlocked ev \<Rightarrow>
             st_bind (on_coordinator (publish_batch S (br_events (blocked_report ev)))) (\<lambda>_.
             st_return (blocked_report ev))) (\<lambda>report.
      st_bind (on_sched (sched_flush (be_codec E))) (\<lambda>_.
      case br_reservation_error report of
        Some message \<Rightarrow> st_fail (BcScheduler (SAdmission message))
      | None \<Rightarrow> st_return report)))))"

text \<open>The session is closed and the journal flushed whatever the result.\<close>

definition close_session ::
    "('u, 'n, 'b, 'j, 'c) command_env \<Rightarrow> (nat \<Rightarrow> moment) \<Rightarrow> run_id \<Rightarrow> bandwidth_command_error + bandwidth_report \<Rightarrow>
     ('j, 'c) coordinator \<Rightarrow> (bandwidth_command_error + bandwidth_report) \<times> ('j, 'c) coordinator" where
  "close_session E ms session result c =
     (let S = be_sinks E;
          (finished, c) = finish_session S ms session
            (case result of Inl _ \<Rightarrow> ErrorOutcome | Inr report \<Rightarrow> br_outcome report)
            (case result of Inl e \<Rightarrow> Some (bandwidth_error_text (be_display E) e) | Inr _ \<Rightarrow> None) c;
          (flushed, c) = coordinator_flush S c
      in (case result of Inl e \<Rightarrow> Inl e | Inr report \<Rightarrow>
          case finished of Inl e \<Rightarrow> Inl (BcJournal e) | Inr _ \<Rightarrow>
          case flushed of Inl e \<Rightarrow> Inl (BcJournal e) | Inr _ \<Rightarrow> Inr report, c))"

text \<open>
  \<open>open_journal\<close> opens the output. The scheduler's state file is opened after it; the result
  comes with the coordinator and the scheduler where they were made.
\<close>

definition execute_bandwidth_once ::
    "('u, 'n, 'b, 'j, 'c) command_env \<Rightarrow> 'u resolved_config \<Rightarrow> 'n once_input \<Rightarrow> u64 \<Rightarrow>
     ('w \<Rightarrow> (journal_error + 'j) \<times> 'w) \<Rightarrow> 'c \<Rightarrow> 'w \<Rightarrow> 'b world \<Rightarrow>
     (bandwidth_command_error + bandwidth_report) \<times> ('b, 'j, 'c) session_world option" where
  "execute_bandwidth_once E config i seed open_journal console w bw =
     (case open_journal w of
        (Inl e, w) \<Rightarrow> (Inl (BcJournal e), None)
      | (Inr j, w) \<Rightarrow>
          (case open_seeded (be_ext E) (be_codec E) (policy_from (rc_bandwidth config)) (oi_started_at i) seed bw of
             Inl (e, _) \<Rightarrow> (Inl (BcScheduler e), None)
           | Inr sched \<Rightarrow>
               (let (result, sw) = bandwidth_session E config i
                      \<lparr> sw_coordinator = coordinator_new j console, sw_sched = sched \<rparr>;
                    (result, c) = close_session E (\<lambda>n. oi_moments i (3 + n)) (oi_session i) result (sw_coordinator sw)
                in (result, Some (sw \<lparr> sw_coordinator := c \<rparr>)))))"

end
