(* ===== verification/UploadProps.thy ===== *)
theory UploadProps
  imports Upload
begin

text \<open>
  What the upload loop sends, what it measures, and that it ends: invariants of single wake-ups,
  lifted to whole transfers.
\<close>

subsection \<open>Invariants of transfers\<close>

text \<open>An invariant of state and observer that every wake-up keeps.\<close>

lemma transfer_invariant:
  assumes "\<And>w s ob. UploadWake w \<in> set es \<Longrightarrow> I s ob \<Longrightarrow>
      case upload_step read_json observed w s ob of (r, s', ob') \<Rightarrow> I s' ob'"
    "I s ob" "transfer_upload read_json observed es s ob = (r, s', ob')"
  shows "I s' ob'"
  using assms
proof (induction read_json observed es s ob rule: transfer_upload.induct)
  case (3 read_json observed w es s ob)
  obtain q s1 ob1 where step: "upload_step read_json observed w s ob = (q, s1, ob1)"
    by (cases "upload_step read_json observed w s ob")
  have inv: "I s1 ob1" using 3(2) [of w s ob] 3(3) step by simp
  show ?case
  proof (cases q)
    case None
    show ?thesis
      by (rule 3(1) [OF step [symmetric] None]) (use 3(2,4) step None inv in auto)
  next
    case (Some e)
    then show ?thesis using 3(4) step inv by simp
  qed
qed auto

lemma transfer_result:
  "transfer_upload read_json observed es s ob = (Inr t, s', ob') \<Longrightarrow>
   ut_measurement t = us_measurement s' \<and> ut_metrics t = us_metrics s'"
  by (induction read_json observed es s ob rule: transfer_upload.induct)
    (auto split: prod.splits option.splits)

text \<open>The cases of a wake-up.\<close>

lemma upload_step_cases:
  assumes "upload_step read_json observed w s ob = (r, s', ob')"
  obtains
    (deadline) "us_deadline s \<le> uw_now w" "\<not> us_closing s" "s' = start_closing (uw_now w) s" "r = None"
      "ob' = observed (us_measurement s) (us_metrics s) StCleanup ob"
  | (late) "us_deadline s \<le> uw_now w" "us_closing s" "s' = s" "ob' = ob" "r = Some (Some CloseTimeout)"
  | (idle) "s' = s" "ob' = ob" "\<not> us_deadline s \<le> uw_now w" "r = None"
  | (broken) e where "s' = s" "ob' = ob" "\<not> us_deadline s \<le> uw_now w" "r = Some (Some (UploadTransport e))"
  | (progress) p where "\<not> us_deadline s \<le> uw_now w"
      "poll_upload_io (\<not> us_closing s \<or> \<not> us_close_queued s) (us_flushing s) w = Some (Inr p)"
      "upload_progressed read_json observed (uw_now w) p s ob = (r, s', ob')"
proof (cases "us_deadline s \<le> uw_now w")
  case True
  show ?thesis
  proof (cases "us_closing s")
    case closing: True
    then have "s' = s \<and> ob' = ob \<and> r = Some (Some CloseTimeout)"
      using assms True by (simp add: upload_step_def)
    then show ?thesis using that(2) True closing by blast
  next
    case closing: False
    then have "s' = start_closing (uw_now w) s \<and> r = None \<and>
        ob' = observed (us_measurement s) (us_metrics s) StCleanup ob"
      using assms True by (simp add: upload_step_def)
    then show ?thesis using that(1) True closing by blast
  qed
next
  case False
  show ?thesis
  proof (cases "poll_upload_io (\<not> us_closing s \<or> \<not> us_close_queued s) (us_flushing s) w")
    case None
    then have "s' = s \<and> ob' = ob \<and> r = None" using assms False by (simp add: upload_step_def)
    then show ?thesis using that(3) False by blast
  next
    case (Some q)
    show ?thesis
    proof (cases q)
      case (Inl e)
      then have "s' = s \<and> ob' = ob \<and> r = Some (Some (UploadTransport e))"
        using assms False Some by (simp add: upload_step_def)
      then show ?thesis using that(4) False by blast
    next
      case (Inr p)
      then have "upload_progressed read_json observed (uw_now w) p s ob = (r, s', ob')"
        using assms False Some by (simp add: upload_step_def)
      then show ?thesis using that(5) False Some Inr by blast
    qed
  qed
qed

text \<open>A frame is only handed over when none is in flight.\<close>

lemma poll_accepted:
  "poll_upload_io payload flushing w = Some (Inr UpAccepted) \<Longrightarrow> payload \<and> \<not> flushing"
  by (auto simp: poll_upload_io_def split: option.splits ws_item.splits if_splits sink_poll.splits)

subsection \<open>The frames\<close>

definition frame_size :: "nat \<Rightarrow> bool" where
  "frame_size n \<longleftrightarrow> (\<exists>k. 13 \<le> k \<and> k \<le> 20 \<and> n = 2 ^ k)"

lemma frame_size_initial: "frame_size INITIAL_UPLOAD_MESSAGE_SIZE"
  unfolding frame_size_def INITIAL_UPLOAD_MESSAGE_SIZE_def by (rule exI [of _ 13]) simp

lemma next_size:
  assumes "frame_size n" "n \<le> max (2 ^ 13) (sent div 8)"
  shows "frame_size (next_upload_message_size n sent)" "n \<le> next_upload_message_size n sent"
    "next_upload_message_size n sent \<le> max (2 ^ 13) (sent div 8)"
proof -
  obtain k where k: "13 \<le> k" "k \<le> 20" "n = 2 ^ k" using assms(1) by (auto simp: frame_size_def)
  let ?m = "next_upload_message_size n sent"
  have "frame_size ?m \<and> n \<le> ?m \<and> ?m \<le> max (2 ^ 13) (sent div 8)"
  proof (cases "MAX_UPLOAD_MESSAGE_SIZE \<le> n \<or> sent div UPLOAD_SCALING_FRACTION \<le> n")
    case True
    then show ?thesis using assms by (simp add: next_upload_message_size_def)
  next
    case False
    then have lt: "n < 2 ^ 20" "n < sent div 16"
      by (simp_all add: MAX_UPLOAD_MESSAGE_SIZE_def UPLOAD_SCALING_FRACTION_def)
    then have "k < 20" using k(3) by (metis nat_power_less_imp_less one_less_numeral_iff power_strict_increasing_iff semiring_norm(76))
    then have le: "(2::nat) ^ Suc k \<le> 2 ^ 20" by (intro power_increasing) auto
    then have "sat_mul u64_max n 2 = 2 ^ Suc k" by (simp add: sat_mul_def k(3))
    then have m: "?m = 2 ^ Suc k"
      using False le by (simp add: next_upload_message_size_def MAX_UPLOAD_MESSAGE_SIZE_def)
    have "2 * n \<le> sent div 8" using lt(2) by linarith
    moreover have "frame_size (2 ^ Suc k)"
      unfolding frame_size_def using k(1) \<open>k < 20\<close> by (intro exI [of _ "Suc k"]) simp
    ultimately show ?thesis unfolding m using k(3) by simp
  qed
  then show "frame_size ?m" "n \<le> ?m" "?m \<le> max (2 ^ 13) (sent div 8)" by simp_all
qed

text \<open>The frames sent so far: bulk frames that grow with the volume sent, then at most one close.\<close>

definition bulk_ok :: "nat list \<Rightarrow> bool" where
  "bulk_ok ns \<longleftrightarrow> sorted ns \<and> list_all frame_size ns \<and>
     (\<forall>i < length ns. ns ! i \<le> max (2 ^ 13) (sum_list (take i ns) div 8))"

lemma bulk_append:
  assumes "bulk_ok ns" "frame_size n" "\<forall>m \<in> set ns. m \<le> n" "n \<le> max (2 ^ 13) (sum_list ns div 8)"
  shows "bulk_ok (ns @ [n])"
  using assms by (auto simp: bulk_ok_def sorted_append nth_append less_Suc_eq)

definition frames_rep :: "nat list \<Rightarrow> upload_frame list \<Rightarrow> upload_state \<Rightarrow> bool" where
  "frames_rep ns closes s \<longleftrightarrow>
     us_frames s = map DataFrame ns @ closes \<and> bulk_ok ns \<and> (\<forall>n \<in> set ns. n \<le> us_payload s) \<and>
     us_sent_bytes s = min u64_max (sum_list ns) \<and>
     (closes = [] \<or> closes = [CloseFrame] \<and> us_closing s \<and> us_close_queued s) \<and>
     frame_size (us_payload s) \<and> us_payload s \<le> max (2 ^ 13) (us_sent_bytes s div 8) \<and>
     (us_close_queued s \<longrightarrow> us_closing s)"

definition frames_ok :: "upload_state \<Rightarrow> bool" where
  "frames_ok s \<longleftrightarrow> (\<exists>ns closes. frames_rep ns closes s)"

lemma frames_start: "frames_ok (upload_start now)"
proof -
  have "frames_rep [] [] (upload_start now)"
    by (simp add: frames_rep_def upload_start_def frame_size_initial bulk_ok_def)
      (simp add: INITIAL_UPLOAD_MESSAGE_SIZE_def)
  then show ?thesis unfolding frames_ok_def by blast
qed

text \<open>A change that leaves the frames, the sizes and the count alone.\<close>

lemma frames_unchanged:
  assumes "frames_ok s" "us_frames s' = us_frames s" "us_payload s' = us_payload s" "us_sent_bytes s' = us_sent_bytes s"
    "us_closing s \<longrightarrow> us_closing s'" "us_close_queued s \<longrightarrow> us_close_queued s'"
    "us_close_queued s' \<longrightarrow> us_closing s'"
  shows "frames_ok s'"
  using assms unfolding frames_ok_def frames_rep_def by metis

lemma frames_accepted:
  assumes "frames_ok s" "\<not> us_closing s \<or> \<not> us_close_queued s"
    "upload_progressed read_json observed now UpAccepted s ob = (r, s', ob')"
  shows "frames_ok s'"
proof -
  obtain ns closes where rep: "frames_rep ns closes s" using assms(1) by (auto simp: frames_ok_def)
  then have closes: "closes = []" and queued: "\<not> us_close_queued s" using assms(2) by (auto simp: frames_rep_def)
  show ?thesis
  proof (cases "us_closing s")
    case True
    then have "s' = s \<lparr> us_flushing := True, us_close_queued := True, us_frames := us_frames s @ [CloseFrame] \<rparr>"
      using assms(3) by (simp add: upload_progressed_def)
    then have "frames_rep ns [CloseFrame] s'" using rep closes True by (auto simp: frames_rep_def)
    then show ?thesis unfolding frames_ok_def by blast
  next
    case False
    then have s': "s' = s \<lparr> us_flushing := True, us_sent_bytes := sat_add u64_max (us_sent_bytes s) (us_payload s),
        us_frames := us_frames s @ [DataFrame (us_payload s)] \<rparr>"
      using assms(3) by (simp add: upload_progressed_def)
    have bytes: "us_sent_bytes s = min u64_max (sum_list ns)" using rep by (simp add: frames_rep_def)
    then have le: "us_sent_bytes s div 8 \<le> sum_list ns div 8" by (intro div_le_mono) simp
    have "us_payload s \<le> max (2 ^ 13) (us_sent_bytes s div 8)" using rep unfolding frames_rep_def by blast
    then have "us_payload s \<le> max (2 ^ 13) (sum_list ns div 8)" using le by linarith
    then have bulk: "bulk_ok (ns @ [us_payload s])"
      using rep unfolding frames_rep_def by (intro bulk_append) blast+
    have sent: "us_sent_bytes s' = min u64_max (sum_list (ns @ [us_payload s]))"
      by (simp add: s' bytes sat_add_def)
    have "us_sent_bytes s div 8 \<le> us_sent_bytes s' div 8" using bytes by (intro div_le_mono) (simp add: s' sat_add_def)
    moreover have "us_payload s \<le> max (2 ^ 13) (us_sent_bytes s div 8)" using rep unfolding frames_rep_def by blast
    ultimately have size: "us_payload s \<le> max (2 ^ 13) (us_sent_bytes s' div 8)" by linarith
    have "frames_rep (ns @ [us_payload s]) [] s'"
      unfolding frames_rep_def using rep bulk sent size closes queued
      by (auto simp: frames_rep_def s')
    then show ?thesis unfolding frames_ok_def by blast
  qed
qed

lemma frames_flushed:
  assumes "frames_ok s" "upload_progressed read_json observed now UpFlushed s ob = (r, s', ob')"
  shows "frames_ok s'"
proof (cases "us_closing s")
  case True
  then have "s' = s \<lparr> us_flushing := False \<rparr>" using assms(2) by (simp add: upload_progressed_def)
  then show ?thesis
    using assms(1) by (intro frames_unchanged [OF assms(1)]) (auto simp: frames_ok_def frames_rep_def)
next
  case False
  then have s': "s' = s \<lparr> us_flushing := False,
      us_payload := next_upload_message_size (us_payload s) (us_sent_bytes s) \<rparr>"
    using assms(2) by (simp add: upload_progressed_def)
  obtain ns closes where rep: "frames_rep ns closes s" using assms(1) by (auto simp: frames_ok_def)
  then have p: "frame_size (us_payload s)" "us_payload s \<le> max (2 ^ 13) (us_sent_bytes s div 8)"
    unfolding frames_rep_def by blast+
  have "frames_rep ns closes s'"
    using rep next_size [OF p] by (auto simp: frames_rep_def s' intro: order_trans)
  then show ?thesis unfolding frames_ok_def by blast
qed

lemma frames_step:
  assumes "frames_ok s" "upload_step read_json observed w s ob = (r, s', ob')" shows "frames_ok s'"
  using assms(2)
proof (cases rule: upload_step_cases)
  case deadline
  then show ?thesis
    using assms(1) by (intro frames_unchanged [OF assms(1)]) (auto simp: start_closing_def)
next
  case (progress p)
  show ?thesis
  proof (cases p)
    case (UpIncoming m)
    have q: "us_close_queued s \<longrightarrow> us_closing s" using assms(1) by (auto simp: frames_ok_def frames_rep_def)
    show ?thesis
      by (rule frames_unchanged [OF assms(1)])
        (use progress(3) UpIncoming q in \<open>auto simp: upload_progressed_def upload_text_def start_closing_def Let_def
          split: option.splits ws_message.splits prod.splits if_splits\<close>)
  next
    case UpAccepted
    show ?thesis
      using poll_accepted [OF progress(2) [unfolded UpAccepted]] progress(3) UpAccepted
      by (intro frames_accepted [OF assms(1)]) auto
  next
    case UpFlushed
    then show ?thesis using progress(3) by (intro frames_flushed [OF assms(1)]) auto
  qed
qed (use assms(1) in simp_all)

text \<open>
  C38. An upload sends bulk frames first and at most one close frame after them, none of it twice.
  Frame sizes are powers of two from 8 KiB to 1 MiB, never shrink, and each larger than the
  first is at most an eighth of what was sent before it. The bytes counted are those of the frames.
\<close>

theorem upload_frames:
  assumes "transfer_upload read_json observed es (upload_start now) ob = (r, s, ob')"
  shows "\<exists>ns closes. us_frames s = map DataFrame ns @ closes \<and> (closes = [] \<or> closes = [CloseFrame]) \<and>
    sorted ns \<and> (\<forall>n \<in> set ns. \<exists>k \<in> {13..20}. n = 2 ^ k) \<and>
    (\<forall>i < length ns. ns ! i \<le> max (2 ^ 13) (sum_list (take i ns) div 8)) \<and>
    us_sent_bytes s = min u64_max (sum_list ns)"
proof -
  have "frames_ok s"
    by (rule transfer_invariant [where I = "\<lambda>s ob. frames_ok s", OF _ frames_start assms])
      (auto dest: frames_step split: prod.splits)
  then obtain ns closes where "us_frames s = map DataFrame ns @ closes" "bulk_ok ns"
    "us_sent_bytes s = min u64_max (sum_list ns)" "closes = [] \<or> closes = [CloseFrame]"
    by (auto simp: frames_ok_def frames_rep_def)
  moreover from this(2) have "\<forall>n \<in> set ns. \<exists>k \<in> {13..20}. n = 2 ^ k"
    by (auto simp: bulk_ok_def list_all_iff frame_size_def)
  ultimately show ?thesis unfolding bulk_ok_def by blast
qed

subsection \<open>The measurement\<close>

definition later :: "upload_measurement \<Rightarrow> upload_measurement \<Rightarrow> bool" where
  "later p m \<longleftrightarrow> p = m \<or> um_elapsed p < um_elapsed m \<and> um_bytes p \<le> um_bytes m"

lemma later_refl [simp]: "later m m"
  by (simp add: later_def)

lemma later_trans: "later a b \<Longrightarrow> later b c \<Longrightarrow> later a c"
  by (auto simp: later_def)

text \<open>What is kept of a measurement: a chain in which each is later than those before.\<close>

definition measured_ok :: "upload_state \<Rightarrow> upload_measurement list \<Rightarrow> bool" where
  "measured_ok s ms \<longleftrightarrow> sorted_wrt later ms \<and>
     (\<forall>m \<in> set ms. \<exists>c. us_measurement s = Some c \<and> later m c) \<and>
     (\<forall>m. us_measurement s = Some m \<longrightarrow> 0 < um_bytes m \<and> 0 < um_elapsed m)"

abbreviation collect :: "upload_measurement list observer" where
  "collect \<equiv> (\<lambda>m metrics stage ms. ms @ (case m of None \<Rightarrow> [] | Some m \<Rightarrow> [m]))"

lemma wire_upload_pos: "wire_upload w = Some m \<Longrightarrow> 0 < um_bytes m \<and> 0 < um_elapsed m"
  by (auto simp: wire_upload_def Let_def split: option.splits if_splits)

lemma measured_replaced:
  assumes "measured_ok s ms" "us_measurement s' = us_measurement s \<or>
    (\<exists>m. us_measurement s' = Some m \<and> supersedes m (us_measurement s) \<and> 0 < um_bytes m \<and> 0 < um_elapsed m)"
  shows "measured_ok s' ms"
  using assms(2)
proof (elim disjE exE)
  fix m assume m: "us_measurement s' = Some m \<and> supersedes m (us_measurement s) \<and> 0 < um_bytes m \<and> 0 < um_elapsed m"
  have "later x m" if "x \<in> set ms" for x
  proof -
    from that assms(1) obtain c where c: "us_measurement s = Some c" "later x c"
      unfolding measured_ok_def by blast
    then have "later c m" using m by (auto simp: supersedes_def later_def)
    with c(2) show ?thesis by (rule later_trans)
  qed
  then show ?thesis using assms(1) m by (auto simp: measured_ok_def)
qed (use assms(1) in \<open>simp add: measured_ok_def\<close>)

lemma measured_collect:
  "measured_ok s ms \<Longrightarrow> measured_ok s (collect (us_measurement s) metrics stage ms)"
  by (auto simp: measured_ok_def sorted_wrt_append split: option.splits)

lemma upload_text_measurement:
  "us_measurement (upload_text read_json text s) = us_measurement s \<or>
   (\<exists>m. us_measurement (upload_text read_json text s) = Some m \<and> supersedes m (us_measurement s) \<and>
      0 < um_bytes m \<and> 0 < um_elapsed m)"
  using wire_upload_pos
  by (auto simp: upload_text_def Let_def split: prod.splits option.splits)

lemma measured_step:
  assumes "measured_ok s ms" "upload_step read_json collect w s ms = (r, s', ms')"
  shows "measured_ok s' ms'"
  using assms(2)
proof (cases rule: upload_step_cases)
  case deadline
  have "measured_ok s' ms" using deadline(3) assms(1) by (simp add: measured_ok_def start_closing_def)
  moreover have "us_measurement s' = us_measurement s" by (simp add: deadline(3) start_closing_def)
  ultimately show ?thesis using measured_collect [of s' ms] deadline(5) by simp
next
  case (progress p)
  show ?thesis
  proof (cases "\<exists>m. p = UpIncoming (Some (WsText m))")
    case True
    then obtain m where p: "p = UpIncoming (Some (WsText m))" by blast
    let ?s = "upload_text read_json m s"
    have "measured_ok ?s ms" by (rule measured_replaced [OF assms(1) upload_text_measurement])
    from measured_collect [OF this] show ?thesis
      using progress(3) by (auto simp: p upload_progressed_def Let_def)
  next
    case False
    then have m: "us_measurement s' = us_measurement s \<and>
        (ms' = ms \<or> (\<exists>metrics stage. ms' = collect (us_measurement s) metrics stage ms))"
      using progress(3)
      by (cases p) (auto simp: upload_progressed_def start_closing_def Let_def
          split: option.splits ws_message.splits if_splits)
    then have "measured_ok s' ms" using assms(1) by (simp add: measured_ok_def)
    then show ?thesis using m measured_collect [of s' ms] by auto
  qed
qed (use assms(1) in simp_all)

text \<open>
  C39. The measurement of an upload only moves forward: the ones reported while it runs form a
  chain in which each is later and counts no fewer bytes, the result is the last of them or later
  still, and none without bytes or time is ever reported.
\<close>

theorem upload_measurement_monotone:
  assumes "transfer_upload read_json collect es (upload_start now) [] = (Inr t, s, ms)"
  shows "sorted_wrt later ms \<and>
    (\<forall>m \<in> set ms. \<exists>c. ut_measurement t = Some c \<and> later m c) \<and>
    (\<forall>m. ut_measurement t = Some m \<longrightarrow> 0 < um_bytes m \<and> 0 < um_elapsed m)"
proof -
  have "measured_ok (upload_start now) []" by (simp add: measured_ok_def upload_start_def)
  from transfer_invariant [where I = measured_ok, OF _ this assms] have "measured_ok s ms"
    by (auto dest: measured_step split: prod.splits)
  moreover have "ut_measurement t = us_measurement s" using transfer_result [OF assms] by simp
  ultimately show ?thesis unfolding measured_ok_def by simp
qed

subsection \<open>The end\<close>

definition wakes :: "upload_wakeup list \<Rightarrow> upload_event list" where
  "wakes ws = map UploadWake ws"

text \<open>A stretch without interruption ends the transfer or leads to a state that keeps the invariant.\<close>

lemma transfer_stretch:
  assumes "\<And>w s ob s' ob'. w \<in> set ws \<Longrightarrow> I s \<Longrightarrow> upload_step read_json observed w s ob = (None, s', ob') \<Longrightarrow> I s'"
    "I s"
  shows "(\<exists>t s' ob'. transfer_upload read_json observed (wakes ws @ es) s ob = (Inr t, s', ob')) \<or>
    (\<exists>s' ob'. I s' \<and> transfer_upload read_json observed (wakes ws @ es) s ob =
       transfer_upload read_json observed es s' ob')"
  using assms
proof (induction ws arbitrary: s ob)
  case (Cons w ws)
  obtain q s1 ob1 where step: "upload_step read_json observed w s ob = (q, s1, ob1)"
    by (cases "upload_step read_json observed w s ob")
  show ?case
  proof (cases q)
    case None
    have "I s1" using Cons.prems(1) [of w s ob s1 ob1] Cons.prems(2) step None by simp
    moreover have "\<And>v s ob s' ob'. v \<in> set ws \<Longrightarrow> I s \<Longrightarrow>
        upload_step read_json observed v s ob = (None, s', ob') \<Longrightarrow> I s'"
      using Cons.prems(1) by (meson list.set_intros(2))
    ultimately show ?thesis using Cons.IH [where s = s1 and ob = ob1] step None by (simp add: wakes_def)
  next
    case (Some e)
    then show ?thesis using step by (simp add: wakes_def)
  qed
qed (auto simp: wakes_def)

lemma step_closing:
  assumes "upload_step read_json observed w s ob = (None, s', ob')"
  shows "us_closing s \<Longrightarrow> us_closing s' \<and> us_deadline s' = us_deadline s \<and> \<not> us_deadline s \<le> uw_now w"
    "\<not> us_closing s \<Longrightarrow>
      \<not> us_closing s' \<and> us_deadline s' = us_deadline s \<and> \<not> us_deadline s \<le> uw_now w \<or>
      us_closing s' \<and> us_deadline s' = uw_now w + UPLOAD_CLOSE_TIMEOUT"
  using assms
  by (cases rule: upload_step_cases;
      auto simp: start_closing_def upload_progressed_def upload_text_def Let_def
        split: upload_progress.splits option.splits ws_message.splits prod.splits if_splits)+

text \<open>
  C40. An upload ends by itself: once the task has been woken ten seconds after its start, and again
  two seconds after that, the transfer has come to its result, whatever the server and the socket
  do. The whole-test timeout is not needed for it.
\<close>

theorem upload_ends:
  assumes "now + UPLOAD_DURATION \<le> uw_now w1" "uw_now w1 + UPLOAD_CLOSE_TIMEOUT \<le> uw_now w2"
    "\<forall>w \<in> set before. uw_now w \<le> uw_now w1"
  shows "\<exists>t s ob'. transfer_upload read_json observed
    (wakes (before @ [w1] @ between @ [w2]) @ es) (upload_start now) ob = (Inr t, s, ob')"
proof -
  let ?I = "\<lambda>s. if us_closing s then us_deadline s \<le> uw_now w1 + UPLOAD_CLOSE_TIMEOUT
    else us_deadline s = now + UPLOAD_DURATION"
  let ?J = "\<lambda>s. us_closing s \<and> us_deadline s \<le> uw_now w1 + UPLOAD_CLOSE_TIMEOUT"
  let ?T = "\<lambda>es. transfer_upload read_json observed es"
  let ?ended = "\<lambda>r. \<exists>t s' ob'. r = (Inr t, s', ob')"
  let ?e3 = "wakes [w2] @ es" and ?e2 = "wakes between @ (wakes [w2] @ es)"
  have all: "wakes (before @ [w1] @ between @ [w2]) @ es = wakes before @ (wakes [w1] @ ?e2)"
    by (simp add: wakes_def)
  have last: "?ended (?T ?e3 s ob)" if "?J s" for s ob
  proof -
    have "upload_step read_json observed w2 s ob = (Some (Some CloseTimeout), s, ob)"
      using that assms(2) by (simp add: upload_step_def)
    then show ?thesis by (simp add: wakes_def)
  qed
  have J: "?ended (?T ?e2 s ob)" if "?J s" for s ob
    using transfer_stretch [of between ?J read_json observed s ?e3 ob] that last step_closing(1) by fastforce
  have I: "?ended (?T (wakes [w1] @ ?e2) s ob)" if "?I s" for s ob
  proof -
    obtain q s1 ob1 where step: "upload_step read_json observed w1 s ob = (q, s1, ob1)"
      by (cases "upload_step read_json observed w1 s ob")
    show ?thesis
    proof (cases q)
      case None
      have "?J s1"
        using step_closing [OF step [unfolded None]] that assms(1) by (cases "us_closing s") auto
      then show ?thesis using J [of s1 ob1] step None by (simp add: wakes_def)
    next
      case (Some e)
      then show ?thesis using step by (simp add: wakes_def)
    qed
  qed
  have keep: "?I s'" if "w \<in> set before" "?I s" "upload_step read_json observed w s ob = (None, s', ob')" for w s ob s' ob'
    using step_closing [OF that(3)] that(1,2) assms(3) by (cases "us_closing s") (auto split: if_splits)
  have start: "?I (upload_start now)" by (simp add: upload_start_def)
  have "?ended (?T (wakes before @ (wakes [w1] @ ?e2)) (upload_start now) ob) \<or>
      (\<exists>s' ob'. ?I s' \<and> ?T (wakes before @ (wakes [w1] @ ?e2)) (upload_start now) ob = ?T (wakes [w1] @ ?e2) s' ob')"
    by (rule transfer_stretch [where I = ?I]) (rule keep, assumption+, rule start)
  then show ?thesis
    unfolding all
  proof (elim disjE exE conjE)
    fix s' ob' assume "?I s'"
      and eq: "?T (wakes before @ (wakes [w1] @ ?e2)) (upload_start now) ob = ?T (wakes [w1] @ ?e2) s' ob'"
    then show "?ended (?T (wakes before @ (wakes [w1] @ ?e2)) (upload_start now) ob)" using I [of s' ob'] by simp
  qed blast
qed

subsection \<open>A concrete upload\<close>

definition demo_wake :: "nat \<Rightarrow> ws_item option \<Rightarrow> upload_wakeup" where
  "demo_wake now item =
     \<lparr> uw_now = now, uw_incoming = item, uw_flush = SinkReady, uw_ready = SinkReady, uw_send = None \<rparr>"

definition demo_json :: "string \<Rightarrow> wire_measurement option" where
  "demo_json s =
     Some \<lparr> wm_origin = Some ''server'', wm_test = None,
            wm_tcp_info = Some \<lparr> wt_bytes_received = Some (length s), wt_elapsed_time = Some (length s),
              wt_min_rtt = None, wt_rtt = None, wt_bytes_retrans = None \<rparr> \<rparr>"

text \<open>A frame, its flush, two measurements of which the second is older, then the server closes.\<close>

definition demo_upload :: "upload_event list" where
  "demo_upload = wakes
     [demo_wake 1 None, demo_wake 2 None, demo_wake 3 (Some (WsItem (WsText ''mm''))),
      demo_wake 4 (Some (WsItem (WsText ''m''))), demo_wake 5 (Some (WsItem WsClose)), demo_wake 6 (Some WsEnded)]"

lemmas demo_upload_defs =
  demo_upload_def wakes_def demo_wake_def demo_json_def upload_step_def poll_upload_io_def upload_progressed_def
  upload_text_def update_metrics_def wire_upload_def supersedes_def start_closing_def upload_start_def
  UPLOAD_DURATION_def UPLOAD_CLOSE_TIMEOUT_def secs_def sat_add_def next_upload_message_size_def
  INITIAL_UPLOAD_MESSAGE_SIZE_def MAX_UPLOAD_MESSAGE_SIZE_def UPLOAD_SCALING_FRACTION_def tcp_metrics_default_def Let_def

lemma demo_upload_run:
  "\<exists>t s. transfer_upload demo_json collect demo_upload (upload_start 0) [] = (Inr t, s,
       [\<lparr> um_bytes = 2, um_elapsed = 2000 \<rparr>, \<lparr> um_bytes = 2, um_elapsed = 2000 \<rparr>, \<lparr> um_bytes = 2, um_elapsed = 2000 \<rparr>]) \<and>
     us_frames s = [DataFrame 8192] \<and> ut_measurement t = Some \<lparr> um_bytes = 2, um_elapsed = 2000 \<rparr> \<and> ut_error t = None"
  by (simp add: demo_upload_defs)

theorem upload_frames_witness:
  "\<exists>t s ms ns. transfer_upload demo_json collect demo_upload (upload_start 0) [] = (Inr t, s, ms) \<and>
     us_frames s = map DataFrame ns \<and> sorted ns \<and> us_sent_bytes s = sum_list ns"
proof -
  obtain t s ms where run: "transfer_upload demo_json collect demo_upload (upload_start 0) [] = (Inr t, s, ms)"
    "us_frames s = [DataFrame 8192]" using demo_upload_run by blast
  from upload_frames [OF run(1)] obtain ns closes where
    ns: "us_frames s = map DataFrame ns @ closes" "closes = [] \<or> closes = [CloseFrame]" "sorted ns"
      "us_sent_bytes s = min u64_max (sum_list ns)" by blast
  then have "ns = [8192] \<and> closes = []" using run(2) by (auto simp: Cons_eq_append_conv)
  then have "us_frames s = map DataFrame ns \<and> sorted ns \<and> us_sent_bytes s = sum_list ns" using ns by simp
  then show ?thesis using run(1) by blast
qed

theorem upload_measurement_monotone_witness:
  "\<exists>t s ms. transfer_upload demo_json collect demo_upload (upload_start 0) [] = (Inr t, s, ms) \<and>
     sorted_wrt later ms \<and> ut_measurement t = Some (last ms)"
proof -
  obtain t s ms where run: "transfer_upload demo_json collect demo_upload (upload_start 0) [] = (Inr t, s, ms)"
    "ut_measurement t = Some (last ms)" using demo_upload_run by fastforce
  then show ?thesis using upload_measurement_monotone [OF run(1)] by blast
qed

theorem upload_ends_witness:
  "\<exists>t s ob. transfer_upload demo_json (\<lambda>m metrics stage. id)
     (wakes [demo_wake UPLOAD_DURATION None, demo_wake (secs 12) None]) (upload_start 0) () = (Inr t, s, ob)"
  using upload_ends [of 0 "demo_wake UPLOAD_DURATION None" "demo_wake (secs 12) None" "[]" demo_json
      "\<lambda>m metrics stage. id" "[]" "[]" "()"]
  by (simp add: wakes_def) (simp add: demo_wake_def UPLOAD_DURATION_def UPLOAD_CLOSE_TIMEOUT_def secs_def)

end
