(* ===== verification/BandwidthProps.thy ===== *)
theory BandwidthProps
  imports Bandwidth UploadProps
begin

text \<open>
  What a test does to the state its caller keeps: each part adds failures and leaves the rest
  alone, so that the reservation, the outcome and the report can be read off the end.
\<close>

subsection \<open>What the parts leave alone\<close>

definition test_frame :: "('n, 'g) attempt \<Rightarrow> _" where
  "test_frame s =
     (at_gate s, at_admission s, at_reservation_error s, ap_started_monotonic (at_progress s),
      ap_started_at_utc (at_progress s), ap_download (at_progress s))"

definition attempt_failures :: "('n, 'g) attempt \<Rightarrow> request_failure list" where
  "attempt_failures s = ap_failures (at_progress s)"

definition attempt_upload :: "('n, 'g) attempt \<Rightarrow> direction_measurement option" where
  "attempt_upload s = ap_upload (at_progress s)"

text \<open>A failure is an error, a rate limit or a lack of capacity; only a rate limit stops the provider.\<close>

definition recorded :: "request_failure \<Rightarrow> bool" where
  "recorded f \<longleftrightarrow>
     rf_outcome f \<in> {ErrorOutcome, RateLimited, NoCapacity} \<and>
     (rf_disposition f = ProviderWide \<longrightarrow> rf_outcome f = RateLimited)"

definition soft :: "request_failure \<Rightarrow> bool" where
  "soft f \<longleftrightarrow> rf_disposition f \<noteq> ProviderWide"

definition adds :: "('n, 'g) attempt \<Rightarrow> request_failure list \<Rightarrow> ('n, 'g) attempt \<Rightarrow> bool" where
  "adds s fs s' \<longleftrightarrow>
     test_frame s' = test_frame s \<and> attempt_failures s' = attempt_failures s @ fs \<and> list_all recorded fs"

definition adds_only :: "('n, 'g) attempt \<Rightarrow> request_failure list \<Rightarrow> ('n, 'g) attempt \<Rightarrow> bool" where
  "adds_only s fs s' \<longleftrightarrow> adds s fs s' \<and> attempt_upload s' = attempt_upload s"

lemma adds_refl [simp]: "adds s [] s" "adds_only s [] s"
  by (simp_all add: adds_def adds_only_def)

lemma adds_trans: "adds s fs s1 \<Longrightarrow> adds s1 gs s2 \<Longrightarrow> adds s (fs @ gs) s2"
  by (simp add: adds_def)

lemma adds_only_trans: "adds_only s fs s1 \<Longrightarrow> adds_only s1 gs s2 \<Longrightarrow> adds_only s (fs @ gs) s2"
  by (simp add: adds_def adds_only_def)

lemma adds_only_adds: "adds_only s fs s' \<Longrightarrow> adds s fs s'"
  by (simp add: adds_only_def)

text \<open>The primitive changes.\<close>

lemma at_clock_fields [simp]:
  "test_frame (snd (at_clock P s)) = test_frame s"
  "attempt_failures (snd (at_clock P s)) = attempt_failures s"
  "attempt_upload (snd (at_clock P s)) = attempt_upload s"
  "at_progress (snd (at_clock P s)) = at_progress s"
  by (simp_all add: at_clock_def test_frame_def attempt_failures_def attempt_upload_def split: prod.splits)

lemma at_request_id_fields [simp]:
  "test_frame (snd (at_request_id s)) = test_frame s"
  "attempt_failures (snd (at_request_id s)) = attempt_failures s"
  "attempt_upload (snd (at_request_id s)) = attempt_upload s"
  "at_progress (snd (at_request_id s)) = at_progress s"
  by (simp_all add: at_request_id_def test_frame_def attempt_failures_def attempt_upload_def split: prod.splits)

lemma at_failure_fields [simp]:
  "test_frame (snd (at_failure P stage kind m url rid s)) = test_frame s"
  "attempt_failures (snd (at_failure P stage kind m url rid s)) = attempt_failures s"
  "attempt_upload (snd (at_failure P stage kind m url rid s)) = attempt_upload s"
  "at_progress (snd (at_failure P stage kind m url rid s)) = at_progress s"
  "rf_outcome (fst (at_failure P stage kind m url rid s)) = ErrorOutcome"
  "rf_disposition (fst (at_failure P stage kind m url rid s)) = Terminal"
  by (simp_all add: at_failure_def request_failure_simple_def test_frame_def attempt_failures_def
      attempt_upload_def split: prod.splits)

lemma begin_stage_adds [simp]: "adds_only s fs (begin_stage P stage s') = adds_only s fs s'"
  by (simp add: adds_only_def adds_def begin_stage_def on_progress_def stage_begun_def test_frame_def
      attempt_failures_def attempt_upload_def at_clock_def split: prod.splits)

lemma on_active_adds [simp]: "adds_only s fs (on_active f s') = adds_only s fs s'"
  by (simp add: adds_only_def adds_def on_active_def on_progress_def test_frame_def attempt_failures_def
      attempt_upload_def)

lemma report_phase_adds [simp]: "adds_only s fs (report_phase v s') = adds_only s fs s'"
  by (simp add: adds_only_def adds_def report_phase_def test_frame_def attempt_failures_def attempt_upload_def)

lemma net_adds [simp]: "adds_only s fs (s' \<lparr> at_net := n \<rparr>) = adds_only s fs s'"
  by (simp add: adds_only_def adds_def test_frame_def attempt_failures_def attempt_upload_def)

lemma clock_adds [simp]: "adds_only s fs (snd (at_clock P s')) = adds_only s fs s'"
  by (simp add: adds_only_def adds_def)

lemma request_id_adds [simp]: "adds_only s fs (snd (at_request_id s')) = adds_only s fs s'"
  by (simp add: adds_only_def adds_def)

lemma on_net_adds: "on_net m s = (r, s') \<Longrightarrow> adds_only s [] s'"
  by (auto simp: on_net_def st_on_def split: prod.splits)

lemma record_failure_adds:
  assumes "recorded f"
  shows "\<exists>g. adds_only s [g] (on_progress (record_failure f) s) \<and> rf_disposition g = rf_disposition f"
  using assms
  by (auto simp: record_failure_def on_progress_def adds_only_def adds_def test_frame_def attempt_failures_def
      attempt_upload_def recorded_def Let_def)

lemma fail_simple_adds:
  assumes "\<And>f. rf_outcome (change f) = rf_outcome f \<and> rf_disposition (change f) = rf_disposition f"
  shows "\<exists>f. adds_only s [f] (fail_simple P stage kind m url rid change s) \<and> soft f"
proof -
  obtain f s1 where f: "at_failure P stage kind m url rid s = (f, s1)" by fastforce
  have "rf_outcome f = ErrorOutcome" "rf_disposition f = Terminal" and q: "adds_only s [] s1"
    using at_failure_fields [of P stage kind m url rid s] f by (simp_all add: adds_only_def adds_def)
  then have "recorded (change f)" "soft (change f)" using assms by (simp_all add: recorded_def soft_def)
  then obtain g where "adds_only s1 [g] (on_progress (record_failure (change f)) s1)" "soft g"
    using record_failure_adds [of "change f" s1] by (auto simp: soft_def)
  then show ?thesis using adds_only_trans [OF q] by (auto simp: fail_simple_def f)
qed

lemma clock_only: "at_clock P s = (r, s') \<Longrightarrow> adds_only s [] s'" "(r, s') = at_clock P s \<Longrightarrow> adds_only s [] s'"
  using clock_adds [of s "[]" P s] by (simp, metis snd_conv adds_refl(2))

lemma stream_failure_adds: "\<exists>f. adds_only s [f] (stream_failure P c stage remote local m os s) \<and> soft f"
proof -
  obtain t k s1 where c: "at_clock P s = ((t, k), s1)" by (metis prod.collapse)
  obtain rid s2 where i: "at_request_id s1 = (rid, s2)" by fastforce
  have q: "adds_only s [] s2" using clock_only(1) [OF c] request_id_adds [of s "[]" s1] i by simp
  have "\<exists>f. stream_failure P c stage remote local m os s = on_progress (record_failure f) s2 \<and>
      rf_outcome f = ErrorOutcome \<and> rf_disposition f = Terminal"
    unfolding stream_failure_def Let_def c i prod.case by (rule exI, rule conjI, rule refl, simp)
  then obtain f where f: "stream_failure P c stage remote local m os s = on_progress (record_failure f) s2"
    "recorded f" "soft f" by (auto simp: recorded_def soft_def)
  then obtain g where "adds_only s2 [g] (on_progress (record_failure f) s2)" "soft g"
    using record_failure_adds [of f s2] by (auto simp: soft_def)
  then show ?thesis unfolding f(1) using adds_only_trans [OF q] by fastforce
qed

lemma handshake_failure_fields:
  assumes "handshake_failure P c url remote local rid response m s = (f, s')"
  shows "adds_only s [] s'" "recorded f" "response = None \<Longrightarrow> soft f"
  using assms
  by (auto simp: handshake_failure_def classify_handshake_status_def recorded_def soft_def Let_def
      split: prod.splits if_splits intro: clock_only)

lemma record_handshake_adds:
  "\<exists>f. adds_only s [f] (record_handshake P c url remote local rid m s) \<and> soft f"
proof -
  obtain f s1 where f: "handshake_failure P c url remote local rid None m s = (f, s1)" by fastforce
  note q = handshake_failure_fields [OF f]
  obtain g where "adds_only s1 [g] (on_progress (record_failure f) s1)" "soft g"
    using record_failure_adds [OF q(2), of s1] q(3) by (auto simp: soft_def)
  then show ?thesis using adds_only_trans [OF q(1)] by (auto simp: record_handshake_def f)
qed

lemma handshake_refused_adds:
  "\<exists>f. adds_only s [f] (handshake_refused P c url remote local rid status header s)"
proof -
  obtain t m s1 where c: "at_clock P s = ((t, m), s1)" by (metis prod.collapse)
  obtain f s2 where f: "handshake_failure P c url remote local rid
      (Some (status, parse_retry_after P header t))
      (''WebSocket handshake returned HTTP '' @ nat_text status @ ''; '' @
       retry_detail (header \<noteq> None) (parse_retry_after P header t \<noteq> None)) s1 = (f, s2)" by fastforce
  note q = handshake_failure_fields [OF f]
  have "recorded (f \<lparr> rf_finished_at_utc := t, rf_finished_monotonic := m \<rparr>)"
    using q(2) by (simp add: recorded_def)
  then obtain g where "adds_only s2 [g]
      (on_progress (record_failure (f \<lparr> rf_finished_at_utc := t, rf_finished_monotonic := m \<rparr>)) s2)"
    using record_failure_adds by blast
  then have "adds_only s [g]
      (on_progress (record_failure (f \<lparr> rf_finished_at_utc := t, rf_finished_monotonic := m \<rparr>)) s2)"
    using adds_only_trans [OF clock_only(1) [OF c]] adds_only_trans [OF q(1)] by fastforce
  then show ?thesis unfolding handshake_refused_def Let_def c f prod.case by blast
qed

subsection \<open>Connecting\<close>

text \<open>One address adds at most one failure; a rate limit loses the direction.\<close>

definition address_adds :: "('n, 'g) attempt \<Rightarrow> interruption + address_result \<Rightarrow> ('n, 'g) attempt \<Rightarrow> bool" where
  "address_adds s r s' \<longleftrightarrow>
     (\<exists>fs. adds_only s fs s' \<and> (list_all soft fs \<or> r = Inr ArLost \<and> length fs = 1))"

lemma address_none: "adds_only s [] s' \<Longrightarrow> address_adds s r s'"
  by (auto simp: address_adds_def)

lemma address_one: "\<exists>f. adds_only s [f] s' \<and> soft f \<Longrightarrow> address_adds s r s'"
  by (force simp: address_adds_def)

lemma address_after: "adds_only s [] s1 \<Longrightarrow> address_adds s1 r s' \<Longrightarrow> address_adds s r s'"
  using adds_only_trans by (fastforce simp: address_adds_def)

lemma handshake_result_adds:
  "handshake_result P c url remote local rid h s = (r, s') \<Longrightarrow> address_adds s r s'"
  using record_handshake_adds [of s P c url remote local rid] handshake_refused_adds [of s P c url remote local rid]
  by (auto simp: handshake_result_def split: ws_handshake.splits if_splits intro: address_one address_none)
    (fastforce simp: address_adds_def)

lemma on_net_bind:
  assumes "st_bind (on_net m) k s = (r, s')"
  obtains (stop) i where "adds_only s [] s'" "r = Inl i"
  | (go) x s1 where "adds_only s [] s1" "k x s1 = (r, s')"
proof (cases "on_net m s")
  case (Pair q s1)
  then show ?thesis using that assms on_net_adds [OF Pair] by (cases q) (auto simp: st_bind_def)
qed

lemma handshake_address_adds:
  assumes "handshake_address P N url c remote local rid s = (r, s')"
  shows "address_adds s r s'"
proof -
  let ?s = "begin_stage P StWebsocketHandshake s"
  have q: "adds_only s [] ?s" by simp
  show ?thesis
  proof (cases "websocket_request N url c")
    case (Inl m)
    have "\<exists>f. adds_only ?s [f] s' \<and> soft f"
      using assms Inl fail_simple_adds [of "\<lambda>f. f"] by (auto simp: handshake_address_def Let_def)
    then show ?thesis using address_after [OF q address_one] by blast
  next
    case (Inr host)
    from assms Inr have "st_bind (on_net (nw_handshake N url host)) (handshake_result P c url remote local rid) ?s = (r, s')"
      by (simp add: handshake_address_def Let_def)
    then have "address_adds ?s r s'"
      by (cases rule: on_net_bind) (auto intro: address_none address_after handshake_result_adds)
    then show ?thesis by (rule address_after [OF q])
  qed
qed

lemma address_bind:
  assumes "st_bind (on_net m) k s = (r, s')" "\<And>x s1. k x s1 = (r, s') \<Longrightarrow> address_adds s1 r s'"
  shows "address_adds s r s'"
  using assms(1) by (cases rule: on_net_bind) (auto intro: address_none address_after assms(2))

lemma fail_next:
  assumes "(Inr ArNext, fail_simple P stage kind m url rid change s) = (r, s')"
    "\<And>f. rf_outcome (change f) = rf_outcome f \<and> rf_disposition (change f) = rf_disposition f"
  shows "address_adds s r s'"
  using assms(1) fail_simple_adds [of change s P stage kind m url rid, OF assms(2)] by (auto intro: address_one)

lemma wrap_stream_adds:
  assumes "wrap_stream P N url c s = (r, s')"
  shows "adds_only s [] s'"
  using assms
  by (auto simp: wrap_stream_def Let_def st_bind_Inr st_bind_Inl split: if_splits option.splits
      dest: on_net_adds intro: adds_refl elim!: on_net_bind)

lemma tls_address_adds:
  assumes "tls_address P N url c remote local rid s = (r, s')"
  shows "address_adds s r s'"
proof -
  let ?s = "begin_stage P StTls (on_active (\<lambda>f. f \<lparr> rf_local_ip := Some local \<rparr>) s)"
  have q: "adds_only s [] ?s" by simp
  obtain w s1 where w: "wrap_stream P N url c ?s = (w, s1)" by fastforce
  note q1 = wrap_stream_adds [OF w]
  have "address_adds s1 r s'"
  proof (cases w)
    case (Inl i)
    then show ?thesis using assms w by (auto simp: tls_address_def Let_def st_bind_def intro: address_none)
  next
    case (Inr x)
    show ?thesis
    proof (cases x)
      case (Inl m)
      have "(Inr ArNext, fail_simple P StTls EkTls m (Some (url_to_string (pv_url P) url)) rid
          (\<lambda>f. f \<lparr> rf_local_ip := Some local, rf_remote_ip := Some remote \<rparr>) s1) = (r, s')"
        using assms w \<open>w = Inr x\<close> Inl by (simp add: tls_address_def Let_def st_bind_def)
      then show ?thesis by (rule fail_next) simp
    next
      case (Inr u)
      then show ?thesis using assms w \<open>w = Inr x\<close>
        by (auto simp: tls_address_def Let_def st_bind_def intro: handshake_address_adds)
    qed
  qed
  then show ?thesis using address_after [OF q] address_after [OF q1] by blast
qed

lemma connect_address_adds:
  assumes "connect_address P N interface url c rid remote s = (r, s')"
  shows "address_adds s r s'"
proof -
  let ?s = "on_active (\<lambda>f. f \<lparr> rf_request_id := rid, rf_remote_ip := Some (fst remote), rf_local_ip := None \<rparr>)
    (begin_stage P StConnect s)"
  have q: "adds_only s [] ?s" by simp
  show ?thesis
  proof (rule address_after [OF q], rule address_bind)
    show "st_bind (on_net (nw_connect N remote interface)) (\<lambda>r.
           (case r of
              Inl e \<Rightarrow>
                (\<lambda>s. (Inr ArNext,
                  fail_simple P StConnect EkConnect (''TCP connect failed: '' @ oe_text e)
                    (Some (url_to_string (pv_url P) url)) rid
                    (\<lambda>f. f \<lparr> rf_remote_ip := Some (fst remote), rf_os_error_code := oe_code e \<rparr>) s))
            | Inr local_addr \<Rightarrow>
                tls_address P N url c (fst remote) (unwrap_or local_addr (unspecified_ip (fst remote))) rid)) ?s
        = (r, s')"
      using assms by (simp only: connect_address_def Let_def)
  next
    fix x s1
    assume "(case x of
              Inl e \<Rightarrow>
                (\<lambda>s. (Inr ArNext,
                  fail_simple P StConnect EkConnect (''TCP connect failed: '' @ oe_text e)
                    (Some (url_to_string (pv_url P) url)) rid
                    (\<lambda>f. f \<lparr> rf_remote_ip := Some (fst remote), rf_os_error_code := oe_code e \<rparr>) s))
            | Inr local_addr \<Rightarrow>
                tls_address P N url c (fst remote) (unwrap_or local_addr (unspecified_ip (fst remote))) rid) s1
        = (r, s')"
    then show "address_adds s1 r s'"
      by (cases x) (simp_all only: sum.case, erule fail_next, simp, erule tls_address_adds)
  qed
qed

text \<open>A direction adds failures, of which only the last may be a rate limit.\<close>

definition direction_adds :: "('n, 'g) attempt \<Rightarrow> interruption + 'a option \<Rightarrow> ('n, 'g) attempt \<Rightarrow> bool" where
  "direction_adds s r s' \<longleftrightarrow>
     (\<exists>fs. adds_only s fs s' \<and> (list_all soft fs \<or> r = Inr None \<and> fs \<noteq> [] \<and> list_all soft (butlast fs)))"

lemma direction_none: "adds_only s [] s' \<Longrightarrow> direction_adds s r s'"
  unfolding direction_adds_def by (rule exI [of _ "[]"]) simp

lemma direction_one: "\<exists>f. adds_only s [f] s' \<and> soft f \<Longrightarrow> direction_adds s r s'"
  by (force simp: direction_adds_def)

lemma direction_after:
  assumes "adds_only s fs s1" "list_all soft fs" "direction_adds s1 r s'"
  shows "direction_adds s r s'"
proof -
  obtain gs where g: "adds_only s1 gs s'"
    "list_all soft gs \<or> r = Inr None \<and> gs \<noteq> [] \<and> list_all soft (butlast gs)"
    using assms(3) by (auto simp: direction_adds_def)
  then have "list_all soft (fs @ gs) \<or> r = Inr None \<and> fs @ gs \<noteq> [] \<and> list_all soft (butlast (fs @ gs))"
    using assms(2) by (auto simp: butlast_append)
  then show ?thesis unfolding direction_adds_def using adds_only_trans [OF assms(1) g(1)] by blast
qed

lemma connect_addresses_adds:
  "connect_addresses P N interface url c first addrs s = (r, s') \<Longrightarrow> direction_adds s r s'"
proof (induction addrs arbitrary: first s)
  case Nil
  then show ?case by (auto intro: direction_none)
next
  case (Cons remote rest)
  define s1 where "s1 = (case first of Some _ \<Rightarrow> s | None \<Rightarrow> snd (at_request_id s))"
  define rid where "rid = (case first of Some rid \<Rightarrow> rid | None \<Rightarrow> fst (at_request_id s))"
  have q: "adds_only s [] s1" by (simp add: s1_def split: option.split)
  obtain a s2 where a: "connect_address P N interface url c rid remote s1 = (a, s2)" by fastforce
  obtain fs where fs: "adds_only s1 fs s2" "list_all soft fs \<or> a = Inr ArLost \<and> length fs = 1"
    using connect_address_adds [OF a] by (auto simp: address_adds_def)
  have run: "(case a of
        Inl out \<Rightarrow> (Inl out, s2)
      | Inr (ArConnected socket) \<Rightarrow> (Inr (Some socket), s2)
      | Inr ArLost \<Rightarrow> (Inr None, s2)
      | Inr ArNext \<Rightarrow> connect_addresses P N interface url c None rest s2) = (r, s')"
    using Cons.prems a by (auto simp: s1_def rid_def split: option.splits prod.splits sum.splits address_result.splits)
  show ?case
  proof (cases "a = Inr ArLost \<or> (\<exists>i. a = Inl i) \<or> (\<exists>k. a = Inr (ArConnected k))")
    case True
    then have "s' = s2" "a = Inr ArLost \<longrightarrow> r = Inr None" using run by auto
    then have "direction_adds s1 r s'"
      using fs by (cases fs) (auto simp: direction_adds_def)
    then show ?thesis by (rule direction_after [OF q, rotated]) simp
  next
    case False
    then have "a = Inr ArNext" by (cases a) (auto, metis address_result.exhaust)
    then have "direction_adds s2 r s'" "list_all soft fs" using run Cons.IH fs(2) by auto
    then show ?thesis using direction_after [OF q] direction_after [OF fs(1)] by fastforce
  qed
qed

lemma direction_bind:
  assumes "st_bind (on_net m) k s = (r, s')" "\<And>x s1. k x s1 = (r, s') \<Longrightarrow> direction_adds s1 r s'"
  shows "direction_adds s r s'"
  using assms(1)
  by (cases rule: on_net_bind) (auto intro: direction_none direction_after [where fs = "[]"] assms(2))

lemma begin_request_adds:
  assumes "begin_request P url direction c s = (rid, s')"
  shows "adds_only s [] s'"
proof -
  obtain i s1 where i: "at_request_id s = (i, s1)" by fastforce
  obtain f s2 where f: "at_failure P StDns EkInternal [] (Some (url_to_string (pv_url P) url)) i s1 = (f, s2)"
    by fastforce
  have "test_frame s2 = test_frame s" "attempt_failures s2 = attempt_failures s" "attempt_upload s2 = attempt_upload s"
    using at_failure_fields [of P StDns EkInternal "[]" "Some (url_to_string (pv_url P) url)" i s1] f
      at_request_id_fields [of s] i by simp_all
  then show ?thesis
    using assms
    by (auto simp: begin_request_def i f adds_only_def adds_def on_progress_def test_frame_def
        attempt_failures_def attempt_upload_def)
qed

lemma fail_direction:
  assumes "(Inr None, fail_simple P stage kind m url rid (\<lambda>f. f) s) = (r, s')"
  shows "direction_adds s r s'"
  using assms fail_simple_adds [of "\<lambda>f. f" s P stage kind m url rid] by (auto intro: direction_one)

lemma connect_websocket_adds:
  assumes "connect_websocket P N interface url direction c s = (r, s')"
  shows "direction_adds s r s'"
proof -
  obtain rid s1 where b: "begin_request P url direction c s = (rid, s1)" by fastforce
  note q = begin_request_adds [OF b]
  have "direction_adds s1 r s'"
  proof (cases "url_host (pv_url P) url")
    case None
    have "(Inr None, fail_simple P StDns EkDns ''NDT7 URL has no host''
        (Some (url_to_string (pv_url P) url)) rid (\<lambda>f. f) s1) = (r, s')"
      using assms b None by (simp add: connect_websocket_def Let_def)
    then show ?thesis by (rule fail_direction)
  next
    case (Some host)
    from assms b Some have
      "st_bind (on_net (nw_resolve N host (unwrap_or (url_port_or_default (pv_url P) url) 443))) (\<lambda>r.
         (case r of
            Inl message \<Rightarrow>
              (\<lambda>s. (Inr None, fail_simple P StDns EkDns message (Some (url_to_string (pv_url P) url)) rid (\<lambda>f. f) s))
          | Inr addresses \<Rightarrow> connect_addresses P N interface url c (Some rid) addresses)) s1 = (r, s')"
      by (simp add: connect_websocket_def Let_def)
    then show ?thesis
    proof (rule direction_bind)
      fix x s2
      assume "(case x of
            Inl message \<Rightarrow>
              (\<lambda>s. (Inr None, fail_simple P StDns EkDns message (Some (url_to_string (pv_url P) url)) rid (\<lambda>f. f) s))
          | Inr addresses \<Rightarrow> connect_addresses P N interface url c (Some rid) addresses) s2 = (r, s')"
      then show "direction_adds s2 r s'"
        by (cases x) (auto intro: fail_direction connect_addresses_adds)
    qed
  qed
  then show ?thesis by (rule direction_after [OF q, rotated]) simp
qed

subsection \<open>Download\<close>

text \<open>With a connection, a direction adds no rate limit any more.\<close>

definition transfer_adds :: "('n, 'g) attempt \<Rightarrow> ('n, 'g) attempt \<Rightarrow> bool" where
  "transfer_adds s s' \<longleftrightarrow> (\<exists>fs. adds_only s fs s' \<and> list_all soft fs)"

lemma transfer_none: "adds_only s [] s' \<Longrightarrow> transfer_adds s s'"
  unfolding transfer_adds_def by (rule exI [of _ "[]"]) simp

lemma transfer_trans: "transfer_adds s s1 \<Longrightarrow> transfer_adds s1 s2 \<Longrightarrow> transfer_adds s s2"
  unfolding transfer_adds_def using adds_only_trans by (metis list_all_append)

lemma transfer_failure: "transfer_adds s (stream_failure P c stage remote local m os s)"
  using stream_failure_adds [of s P c stage remote local m os] by (force simp: transfer_adds_def)

lemma transfer_direction: "transfer_adds s s' \<Longrightarrow> direction_adds s r s'"
  by (auto simp: transfer_adds_def direction_adds_def)

lemma download_loop_adds:
  "download_loop P N c socket es ds s = (r, s') \<Longrightarrow> transfer_adds s s'"
  by (induction P N c socket es ds s rule: download_loop.induct)
    (auto split: ws_message.splits intro: transfer_none transfer_failure)

lemma finish_download_adds:
  assumes "finish_download P c socket n elapsed ds s = (m, s')"
  shows "transfer_adds s s'"
  using assms
  by (auto simp: finish_download_def Let_def split: if_splits intro: transfer_none transfer_failure)

lemma transfer_download_adds:
  assumes "transfer_download P N c n socket s = (r, s')"
  shows "transfer_adds s s'"
proof -
  define s0 where "s0 = report_phase PhaseDownload (begin_stage P StDownload s)"
  obtain started s1 where c: "at_clock P s0 = (started, s1)" by fastforce
  obtain events n where n: "nw_download N (at_net s1) = (events, n)" by fastforce
  obtain q s2 where l: "download_loop P N c socket events download_start (s1 \<lparr> at_net := n \<rparr>) = (q, s2)"
    by fastforce
  have "adds_only s [] s0" by (simp add: s0_def)
  then have "adds_only s [] (s1 \<lparr> at_net := n \<rparr>)" using adds_only_trans [OF _ clock_only(1) [OF c]] by fastforce
  then have first: "transfer_adds s s2" using transfer_trans [OF transfer_none download_loop_adds [OF l]] by blast
  show ?thesis
  proof (cases q)
    case (Inl i)
    then have "s' = s2" using assms c n l by (simp add: transfer_download_def s0_def Let_def st_bind_def)
    then show ?thesis using first by simp
  next
    case (Inr ds)
    obtain ended s3 where e: "at_clock P s2 = (ended, s3)" by fastforce
    have t: "transfer_adds s2 (report_phase PhaseSetup s3)" using clock_only(1) [OF e] by (intro transfer_none) simp
    obtain m where "finish_download P c socket (failure_count s) (snd ended - snd started) ds (report_phase PhaseSetup s3) = (m, s')
        \<or> (\<exists>k. finish_download P c socket k (snd ended - snd started) ds (report_phase PhaseSetup s3) = (m, s'))"
      using assms c n l Inr e by (auto simp: transfer_download_def s0_def Let_def st_bind_def split: prod.splits)
    then show ?thesis using transfer_trans [OF first] transfer_trans [OF t] finish_download_adds by blast
  qed
qed

lemma run_download_adds:
  assumes "run_download P N interface c s = (r, s')"
  shows "direction_adds s r s'"
proof -
  obtain q s1 where q: "connect_websocket P N interface (ec_download_url c) DirDownload c s = (q, s1)" by fastforce
  note d = connect_websocket_adds [OF q]
  show ?thesis
  proof (cases "\<exists>socket. q = Inr (Some socket)")
    case True
    then obtain socket where k: "q = Inr (Some socket)" ..
    then have "transfer_adds s1 s'"
      using assms q by (auto simp: run_download_def st_bind_def intro: transfer_download_adds)
    then show ?thesis
      using d k by (auto simp: direction_adds_def intro: direction_after transfer_direction)
        (meson direction_after direction_adds_def transfer_direction)
  next
    case False
    then have "s' = s1 \<and> (q = Inr None \<longrightarrow> r = Inr None)"
      using assms q by (cases q) (auto simp: run_download_def st_bind_def split: option.splits)
    then show ?thesis using d by (auto simp: direction_adds_def)
  qed
qed

subsection \<open>Upload\<close>

text \<open>A wake-up shows its observer the measurement it leaves, or leaves both alone.\<close>

lemma upload_step_effect:
  assumes "upload_step read_json observed w s ob = (r, s', ob')"
  shows "(ob' = ob \<and> us_measurement s' = us_measurement s \<and> us_metrics s' = us_metrics s) \<or>
    (\<exists>stage. ob' = observed (us_measurement s') (us_metrics s') stage ob)"
  using assms
proof (cases rule: upload_step_cases)
  case deadline
  then show ?thesis by (auto simp: start_closing_def)
next
  case (progress p)
  then show ?thesis
    by (cases p) (auto simp: upload_progressed_def start_closing_def Let_def
        split: option.splits ws_message.splits if_splits)
qed simp_all

text \<open>What the test keeps of an upload is its last measurement.\<close>

definition upload_kept :: "connected_socket \<Rightarrow> upload_state \<Rightarrow> ('n, 'g) attempt \<Rightarrow> bool" where
  "upload_kept socket us s \<longleftrightarrow>
     attempt_upload s =
       map_option (upload_direction socket (rf_request_id (ap_active (at_progress s))) (us_metrics us)) (us_measurement us)"

lemma begin_stage_id [simp]:
  "rf_request_id (ap_active (at_progress (begin_stage P stage s))) = rf_request_id (ap_active (at_progress s))"
  by (simp add: begin_stage_def on_progress_def stage_begun_def at_clock_def split: prod.splits)

lemma upload_observed_kept:
  "us_measurement us = m \<Longrightarrow> us_metrics us = metrics \<Longrightarrow>
   upload_kept socket us (upload_observed P socket m metrics stage s)"
  by (simp add: upload_kept_def upload_observed_def on_progress_def attempt_upload_def Let_def)

lemma on_upload_adds: "adds s fs (on_progress (\<lambda>p. p \<lparr> ap_upload := u p \<rparr>) s') = adds s fs s'"
  by (simp add: adds_def on_progress_def test_frame_def attempt_failures_def)

lemma upload_observed_adds:
  "adds s fs s' \<Longrightarrow> adds s fs (upload_observed P socket m metrics stage s')"
  using adds_trans [of s fs s' "[]"] adds_only_adds [of s' "[]" "begin_stage P stage s'"]
  by (simp add: upload_observed_def Let_def on_upload_adds)

lemma transfer_observed:
  assumes "transfer_upload read_json (upload_observed P socket) es (upload_start t) s = (r, us, s')"
    "attempt_upload s = None"
  shows "adds s [] s'" "upload_kept socket us s'"
proof -
  have "adds s [] s' \<and> upload_kept socket us s'"
  proof (rule transfer_invariant [where I = "\<lambda>us s'. adds s [] s' \<and> upload_kept socket us s'", OF _ _ assms(1)])
    show "adds s [] s \<and> upload_kept socket (upload_start t) s"
      using assms(2) by (simp add: upload_kept_def upload_start_def)
  next
    fix w us1 s1
    assume inv: "adds s [] s1 \<and> upload_kept socket us1 s1"
    obtain q us2 s2 where step: "upload_step read_json (upload_observed P socket) w us1 s1 = (q, us2, s2)"
      by (metis prod.collapse)
    from upload_step_effect [OF step] inv have "adds s [] s2 \<and> upload_kept socket us2 s2"
      by (auto intro: upload_observed_adds upload_observed_kept) (simp add: upload_kept_def)
    with step show "case upload_step read_json (upload_observed P socket) w us1 s1 of
        (r, s', ob') \<Rightarrow> adds s [] ob' \<and> upload_kept socket s' ob'" by simp
  qed
  then show "adds s [] s'" "upload_kept socket us s'" by auto
qed

lemma transfer_addsD: "transfer_adds s s' \<Longrightarrow> \<exists>fs. adds s fs s' \<and> list_all soft fs"
  by (auto simp: transfer_adds_def intro: adds_only_adds)

lemma finish_upload_adds:
  assumes "finish_upload P c socket n started t s = (m, s')"
  shows "transfer_adds s s'"
proof -
  define s1 where "s1 = (case ut_error t of None \<Rightarrow> s
     | Some e \<Rightarrow> stream_failure P c (rf_stage (ap_active (at_progress s))) (cs_remote_ip socket) (cs_local_ip socket)
         (upload_error_text e) (case e of UploadTransport e \<Rightarrow> websocket_os_error e | _ \<Rightarrow> None) s)"
  have first: "transfer_adds s s1"
    by (auto simp: s1_def split: option.split intro: transfer_none transfer_failure)
  have stage: "transfer_adds s1 (on_progress (stage_begun StUpload started) s1)"
    by (rule transfer_none)
      (simp add: adds_only_def adds_def on_progress_def stage_begun_def test_frame_def attempt_failures_def
        attempt_upload_def)
  have "s' = s1 \<or> s' = stream_failure P c StUpload (cs_remote_ip socket) (cs_local_ip socket)
      ''upload ended without a valid server measurement'' None (on_progress (stage_begun StUpload started) s1)"
    using assms by (auto simp: finish_upload_def Let_def s1_def [symmetric] split: option.splits if_splits)
  then show ?thesis
    using first transfer_trans [OF first transfer_trans [OF stage transfer_failure]] by blast
qed

lemma transfer_upload_socket_adds:
  assumes "transfer_upload_socket P N c n socket s = (r, s')" "attempt_upload s = None"
  shows "\<exists>fs. adds s fs s' \<and> list_all soft fs"
    "r = Inl i \<Longrightarrow> \<exists>es t us s1. transfer_upload (nw_json N) (upload_observed P socket) es (upload_start t) s1 =
       (Inl i, us, s') \<and> upload_kept socket us s'"
proof -
  define s0 where "s0 = report_phase PhaseUpload (begin_stage P StUpload s)"
  obtain events m where n: "nw_upload N (at_net s0) = (events, m)" by fastforce
  obtain now s1 where c: "at_clock P (s0 \<lparr> at_net := m \<rparr>) = (now, s1)" by fastforce
  obtain q us s2 where t: "transfer_upload (nw_json N) (upload_observed P socket) events (upload_start (snd now)) s1
      = (q, us, s2)" by (metis prod.collapse)
  have "adds_only s [] (s0 \<lparr> at_net := m \<rparr>)" by (simp add: s0_def)
  then have a: "adds_only s [] s1" using adds_only_trans [OF _ clock_only(1) [OF c]] by fastforce
  then have "attempt_upload s1 = None" using assms(2) by (simp add: adds_only_def)
  note k = transfer_observed [OF t this]
  have a2: "adds s [] s2" using adds_trans [OF adds_only_adds [OF a] k(1)] by simp
  define started where "started = (rf_started_at_utc (ap_active (at_progress (begin_stage P StUpload s))),
    ap_stage_started_monotonic (at_progress (begin_stage P StUpload s)))"
  have run: "(case q of Inl out \<Rightarrow> (Inl out, s2)
      | Inr u \<Rightarrow> (let (m, s) = finish_upload P c socket n started u (report_phase PhaseSetup s2) in (Inr m, s)))
      = (r, s')"
    using assms(1) n c t unfolding started_def by (simp add: transfer_upload_socket_def s0_def Let_def)
  show "\<exists>fs. adds s fs s' \<and> list_all soft fs"
  proof (cases q)
    case (Inl out)
    then have "s' = s2" using run by simp
    then show ?thesis using a2 by (intro exI [of _ "[]"]) simp
  next
    case (Inr u)
    obtain m s3 where f: "finish_upload P c socket n started u (report_phase PhaseSetup s2) = (m, s3)" by fastforce
    then have "s' = s3" using run Inr by simp
    moreover obtain fs where "adds (report_phase PhaseSetup s2) fs s3" "list_all soft fs"
      using transfer_addsD [OF finish_upload_adds [OF f]] by blast
    moreover have "adds s [] (report_phase PhaseSetup s2)"
      using a2 by (simp add: adds_def report_phase_def test_frame_def attempt_failures_def)
    ultimately show ?thesis using adds_trans [of s "[]" "report_phase PhaseSetup s2" fs s3] by auto
  qed
  assume r: "r = Inl i"
  with run have "q = Inl i \<and> s' = s2" by (cases q) (auto split: prod.splits)
  then show "\<exists>es t us s1. transfer_upload (nw_json N) (upload_observed P socket) es (upload_start t) s1 =
       (Inl i, us, s') \<and> upload_kept socket us s'" using t k(2) by blast
qed

subsection \<open>Candidates\<close>

definition upload_adds :: "('n, 'g) attempt \<Rightarrow> interruption + 'a option \<Rightarrow> ('n, 'g) attempt \<Rightarrow> bool" where
  "upload_adds s r s' \<longleftrightarrow>
     (\<exists>fs. adds s fs s' \<and> (list_all soft fs \<or> r = Inr None \<and> fs \<noteq> [] \<and> list_all soft (butlast fs)))"

lemma run_upload_adds:
  assumes "run_upload P N interface c s = (r, s')" "attempt_upload s = None"
  shows "upload_adds s r s'"
proof -
  obtain q s1 where q: "connect_websocket P N interface (ec_upload_url c) DirUpload c s = (q, s1)" by fastforce
  obtain fs where fs: "adds_only s fs s1"
    "list_all soft fs \<or> q = Inr None \<and> fs \<noteq> [] \<and> list_all soft (butlast fs)"
    using connect_websocket_adds [OF q] by (auto simp: direction_adds_def)
  show ?thesis
  proof (cases "\<exists>socket. q = Inr (Some socket)")
    case True
    then obtain socket where k: "q = Inr (Some socket)" ..
    then have "transfer_upload_socket P N c (failure_count s) socket s1 = (r, s')"
      using assms q by (simp add: run_upload_def st_bind_def)
    moreover have "attempt_upload s1 = None" using fs(1) assms(2) by (simp add: adds_only_def)
    ultimately obtain gs where gs: "adds s1 gs s'" "list_all soft gs"
      using transfer_upload_socket_adds(1) by blast
    have "adds s (fs @ gs) s'" by (rule adds_trans [OF adds_only_adds [OF fs(1)] gs(1)])
    moreover have "list_all soft (fs @ gs)" using fs(2) gs(2) k by simp
    ultimately show ?thesis unfolding upload_adds_def by blast
  next
    case False
    then have "s' = s1 \<and> (q = Inr None \<longrightarrow> r = Inr None)"
      using assms q by (cases q) (auto simp: run_upload_def st_bind_def split: option.splits)
    then show ?thesis using fs adds_only_adds [OF fs(1)] by (auto simp: upload_adds_def)
  qed
qed

definition core_frame :: "('n, 'g) attempt \<Rightarrow> _" where
  "core_frame s =
     (at_gate s, at_admission s, at_reservation_error s, ap_started_monotonic (at_progress s),
      ap_started_at_utc (at_progress s))"

lemma core_of_test_frame: "test_frame s' = test_frame s \<Longrightarrow> core_frame s' = core_frame s"
  by (simp add: test_frame_def core_frame_def)

text \<open>How a test that was not interrupted is judged.\<close>

definition judged :: "attempt_progress \<Rightarrow> outcome \<Rightarrow> bool" where
  "judged p out \<longleftrightarrow>
     (case stop_outcome p of
        Some v \<Rightarrow> out = v \<and> ap_upload p = None
      | None \<Rightarrow>
          out = directions_outcome (ap_download p \<noteq> None) (ap_upload p \<noteq> None) \<or>
          out = NoCapacity \<and> ap_download p = None \<and> ap_upload p = None)"

definition candidates_end ::
    "('n, 'g) attempt \<Rightarrow> interruption + outcome \<Rightarrow> ('n, 'g) attempt \<Rightarrow> bool" where
  "candidates_end s r s' \<longleftrightarrow>
     core_frame s' = core_frame s \<and>
     (\<exists>fs. attempt_failures s' = attempt_failures s @ fs \<and> list_all recorded fs \<and> list_all soft (butlast fs)) \<and>
     (\<forall>out. r = Inr out \<longrightarrow> judged (at_progress s') out)"

lemma soft_stop: "list_all soft (attempt_failures s) \<Longrightarrow> stop_outcome (at_progress s) = None"
  by (cases "ap_failures (at_progress s)" rule: rev_cases)
    (auto simp: stop_outcome_def last_failure_def provider_stop_outcome_def attempt_failures_def soft_def)

lemma butlast_soft: "list_all soft xs \<Longrightarrow> list_all soft (butlast xs)"
  by (auto simp: list_all_iff dest: in_set_butlastD)

lemma soft_join:
  "list_all soft xs \<Longrightarrow> list_all soft ys \<or> ys \<noteq> [] \<and> list_all soft (butlast ys) \<Longrightarrow>
   list_all soft (butlast (xs @ ys))"
  by (auto simp: butlast_append intro: butlast_soft)

lemma candidates_after:
  assumes "core_frame s1 = core_frame s" "attempt_failures s1 = attempt_failures s @ fs"
    "list_all recorded fs" "list_all soft fs" "candidates_end s1 r s'"
  shows "candidates_end s r s'"
proof -
  obtain gs where g: "attempt_failures s' = attempt_failures s1 @ gs" "list_all recorded gs" "list_all soft (butlast gs)"
    using assms(5) by (auto simp: candidates_end_def)
  have "list_all soft (butlast (fs @ gs))" using soft_join [of fs gs] assms(4) g(3) by (cases gs) auto
  then show ?thesis
    using assms g by (auto simp: candidates_end_def intro!: exI [of _ "fs @ gs"])
qed

lemma candidates_stop:
  assumes "core_frame s' = core_frame s" "attempt_failures s' = attempt_failures s @ fs" "list_all recorded fs"
    "list_all soft fs \<or> fs \<noteq> [] \<and> list_all soft (butlast fs)"
    "\<And>out. r = Inr out \<Longrightarrow> judged (at_progress s') out"
  shows "candidates_end s r s'"
  using assms butlast_soft by (auto simp: candidates_end_def)

lemma on_download_fields [simp]:
  "core_frame (on_progress (\<lambda>p. p \<lparr> ap_download := d \<rparr>) s) = core_frame s"
  "attempt_failures (on_progress (\<lambda>p. p \<lparr> ap_download := d \<rparr>) s) = attempt_failures s"
  "attempt_upload (on_progress (\<lambda>p. p \<lparr> ap_download := d \<rparr>) s) = attempt_upload s"
  "ap_download (at_progress (on_progress (\<lambda>p. p \<lparr> ap_download := d \<rparr>) s)) = d"
  by (simp_all add: core_frame_def on_progress_def attempt_failures_def attempt_upload_def)

lemma on_upload_fields [simp]:
  "core_frame (on_progress (\<lambda>p. p \<lparr> ap_upload := u \<rparr>) s) = core_frame s"
  "attempt_failures (on_progress (\<lambda>p. p \<lparr> ap_upload := u \<rparr>) s) = attempt_failures s"
  "ap_download (at_progress (on_progress (\<lambda>p. p \<lparr> ap_upload := u \<rparr>) s)) = ap_download (at_progress s)"
  "ap_upload (at_progress (on_progress (\<lambda>p. p \<lparr> ap_upload := u \<rparr>) s)) = u"
  by (simp_all add: core_frame_def on_progress_def attempt_failures_def)

lemma on_server_fields [simp]:
  "core_frame (on_progress (\<lambda>p. p \<lparr> ap_server_name := n \<rparr>) s) = core_frame s"
  "attempt_failures (on_progress (\<lambda>p. p \<lparr> ap_server_name := n \<rparr>) s) = attempt_failures s"
  "attempt_upload (on_progress (\<lambda>p. p \<lparr> ap_server_name := n \<rparr>) s) = attempt_upload s"
  by (simp_all add: core_frame_def on_progress_def attempt_failures_def attempt_upload_def)

lemma phase_fields [simp]:
  "core_frame (report_phase v s) = core_frame s" "attempt_failures (report_phase v s) = attempt_failures s"
  "attempt_upload (report_phase v s) = attempt_upload s" "at_progress (report_phase v s) = at_progress s"
  by (simp_all add: core_frame_def report_phase_def attempt_failures_def attempt_upload_def)

lemma addsD:
  assumes "adds s fs s'"
  shows "core_frame s' = core_frame s" "attempt_failures s' = attempt_failures s @ fs" "list_all recorded fs"
    "ap_download (at_progress s') = ap_download (at_progress s)"
  using assms by (auto simp: adds_def test_frame_def core_frame_def)

text \<open>The last step of a test: the upload and the judgement.\<close>

lemma upload_judged:
  assumes "st_bind (run_upload P N interface c) (\<lambda>upload s.
      let s = on_progress (\<lambda>p. p \<lparr> ap_upload := upload \<rparr>) s; p = at_progress s
      in (Inr (unwrap_or (stop_outcome p) (directions_outcome (ap_download p \<noteq> None) (ap_upload p \<noteq> None))), s)) s
    = (r, s')"
    "attempt_upload s = None" "list_all soft (attempt_failures s)"
  shows "candidates_end s r s'"
proof -
  obtain q s1 where q: "run_upload P N interface c s = (q, s1)" by fastforce
  obtain fs where fs: "adds s fs s1"
    "list_all soft fs \<or> q = Inr None \<and> fs \<noteq> [] \<and> list_all soft (butlast fs)"
    using run_upload_adds [OF q assms(2)] by (auto simp: upload_adds_def)
  note a = addsD [OF fs(1)]
  show ?thesis
  proof (cases q)
    case (Inl i)
    then have "s' = s1" "r = Inl i" using assms(1) q by (simp_all add: st_bind_def)
    then show ?thesis using a fs(2) by (intro candidates_stop) auto
  next
    case (Inr u)
    then have s': "s' = on_progress (\<lambda>p. p \<lparr> ap_upload := u \<rparr>) s1"
      and r: "r = Inr (unwrap_or (stop_outcome (at_progress s'))
        (directions_outcome (ap_download (at_progress s') \<noteq> None) (ap_upload (at_progress s') \<noteq> None)))"
      using assms(1) q by (auto simp: st_bind_def Let_def)
    have "u = None" if "stop_outcome (at_progress s') \<noteq> None"
    proof (rule ccontr)
      assume "u \<noteq> None"
      then have "list_all soft (attempt_failures s')" using fs(2) Inr a(2) assms(3) by (auto simp: s')
      from soft_stop [OF this] that show False by simp
    qed
    then have "judged (at_progress s') out" if "r = Inr out" for out
      using that r by (auto simp: judged_def unwrap_or_def s' split: option.splits)
    then show ?thesis using a fs(2) by (intro candidates_stop [where fs = fs]) (auto simp: s')
  qed
qed

lemma run_candidates_end:
  "run_candidates P N interface cs s = (r, s') \<Longrightarrow> attempt_upload s = None \<Longrightarrow>
   list_all soft (attempt_failures s) \<Longrightarrow> ap_download (at_progress s) = None \<Longrightarrow> candidates_end s r s'"
proof (induction cs arbitrary: s)
  case Nil
  have "judged (at_progress s) NoCapacity"
    using Nil soft_stop [of s] by (simp add: judged_def attempt_upload_def)
  then show ?case using Nil.prems by (intro candidates_stop [where fs = "[]"]) auto
next
  case (Cons c cs)
  define s0 where "s0 = report_phase PhaseSetup
    (on_progress (\<lambda>p. p \<lparr> ap_server_name := Some (ec_logical_server c) \<rparr>) s)"
  obtain q s1 where q: "run_download P N interface c s0 = (q, s1)" by fastforce
  obtain fs where fs: "adds_only s0 fs s1"
    "list_all soft fs \<or> q = Inr None \<and> fs \<noteq> [] \<and> list_all soft (butlast fs)"
    using run_download_adds [OF q] by (auto simp: direction_adds_def)
  have s0: "core_frame s0 = core_frame s" "attempt_failures s0 = attempt_failures s" "attempt_upload s0 = None"
    "list_all soft (attempt_failures s0)"
    using Cons.prems by (simp_all add: s0_def)
  note a = addsD [OF adds_only_adds [OF fs(1)]]
  have up: "attempt_upload s1 = None" using fs(1) s0(3) by (simp add: adds_only_def)
  have "candidates_end s0 r s'"
  proof (cases q)
    case (Inl i)
    then have "s' = s1" "r = Inl i" using Cons.prems(1) q by (simp_all add: s0_def)
    then show ?thesis using a fs(2) by (intro candidates_stop) auto
  next
    case (Inr d)
    define s2 where "s2 = on_progress (\<lambda>p. p \<lparr> ap_download := d \<rparr>) s1"
    have s2: "core_frame s2 = core_frame s0" "attempt_failures s2 = attempt_failures s0 @ fs"
      "attempt_upload s2 = None" "ap_download (at_progress s2) = d"
      using a up by (simp_all add: s2_def)
    have run: "(case stop_outcome (at_progress s2) of
          Some out \<Rightarrow> (Inr out, s2)
        | None \<Rightarrow>
            (if next_target (at_progress s2) then run_candidates P N interface cs s2
             else st_bind (run_upload P N interface c) (\<lambda>upload s.
                let s = on_progress (\<lambda>p. p \<lparr> ap_upload := upload \<rparr>) s; p = at_progress s
                in (Inr (unwrap_or (stop_outcome p)
                     (directions_outcome (ap_download p \<noteq> None) (ap_upload p \<noteq> None))), s))
                (report_phase PhaseSetup s2))) = (r, s')"
      using Cons.prems(1) q Inr unfolding run_candidates.simps Let_def s0_def [symmetric] s2_def by simp
    show ?thesis
    proof (cases "stop_outcome (at_progress s2)")
      case (Some out)
      then have "s' = s2" "r = Inr out" using run by simp_all
      then show ?thesis
        using s2 a(3) fs(2) Some
        by (intro candidates_stop [where fs = fs]) (auto simp: judged_def attempt_upload_def)
    next
      case None
      have softs: "list_all soft fs"
      proof (rule ccontr)
        assume "\<not> list_all soft fs"
        then have "fs \<noteq> []" "\<not> soft (last fs)"
          using fs(2) by (cases fs rule: rev_cases, auto)+
        then have "stop_outcome (at_progress s2) \<noteq> None"
          using s2(2) by (simp add: stop_outcome_def last_failure_def provider_stop_outcome_def
              attempt_failures_def soft_def)
        then show False using None by simp
      qed
      have all_soft: "list_all soft (attempt_failures s2)" using softs s0(4) s2(2) by simp
      have "candidates_end s2 r s'"
      proof (cases "next_target (at_progress s2)")
        case True
        then have "run_candidates P N interface cs s2 = (r, s')" "ap_download (at_progress s2) = None"
          using run None by (simp_all add: next_target_def)
        then show ?thesis using s2(3) all_soft by (intro Cons.IH)
      next
        case False
        then have "st_bind (run_upload P N interface c) (\<lambda>upload s.
            let s = on_progress (\<lambda>p. p \<lparr> ap_upload := upload \<rparr>) s; p = at_progress s
            in (Inr (unwrap_or (stop_outcome p)
                 (directions_outcome (ap_download p \<noteq> None) (ap_upload p \<noteq> None))), s))
            (report_phase PhaseSetup s2) = (r, s')"
          using run None by simp
        from upload_judged [OF this] s2(3) all_soft have "candidates_end (report_phase PhaseSetup s2) r s'" by simp
        then show ?thesis by (simp add: candidates_end_def)
      qed
      then show ?thesis by (rule candidates_after [OF s2(1) s2(2) a(3) softs])
    qed
  qed
  then show ?case using s0 by (simp add: candidates_end_def)
qed

subsection \<open>The reservation\<close>

lemma begin_stage_fields [simp]:
  "at_gate (begin_stage P stage s) = at_gate s" "at_net (begin_stage P stage s) = at_net s"
  "at_admission (begin_stage P stage s) = at_admission s"
  "at_reservation_error (begin_stage P stage s) = at_reservation_error s"
  "attempt_failures (begin_stage P stage s) = attempt_failures s"
  "attempt_upload (begin_stage P stage s) = attempt_upload s"
  "ap_download (at_progress (begin_stage P stage s)) = ap_download (at_progress s)"
  by (simp_all add: begin_stage_def on_progress_def stage_begun_def at_clock_def attempt_failures_def
      attempt_upload_def split: prod.splits)

lemma draws_fields [simp]:
  "at_gate (snd (at_clock P s)) = at_gate s" "at_net (snd (at_clock P s)) = at_net s"
  "at_admission (snd (at_clock P s)) = at_admission s"
  "at_reservation_error (snd (at_clock P s)) = at_reservation_error s"
  "at_gate (snd (at_request_id s)) = at_gate s" "at_net (snd (at_request_id s)) = at_net s"
  "at_net (snd (at_failure P stage kind m url rid s)) = at_net s"
  by (simp_all add: at_clock_def at_request_id_def at_failure_def split: prod.splits)

lemma fail_simple_net [simp]: "at_net (fail_simple P stage kind m url rid change s) = at_net s"
  by (simp add: fail_simple_def on_progress_def split_beta)

lemma fail_simple_frame:
  "test_frame (fail_simple P stage kind m url rid change s) = test_frame s"
  "attempt_upload (fail_simple P stage kind m url rid change s) = attempt_upload s"
  "\<exists>f. attempt_failures (fail_simple P stage kind m url rid change s) = attempt_failures s @ [f]"
proof -
  obtain f s1 where f: "at_failure P stage kind m url rid s = (f, s1)" by fastforce
  have s1: "s1 = snd (at_failure P stage kind m url rid s)" by (simp add: f)
  have e: "test_frame s1 = test_frame s" "attempt_failures s1 = attempt_failures s" "attempt_upload s1 = attempt_upload s"
    unfolding s1 by (rule at_failure_fields)+
  have r: "fail_simple P stage kind m url rid change s = on_progress (record_failure (change f)) s1"
    by (simp add: fail_simple_def f)
  show "test_frame (fail_simple P stage kind m url rid change s) = test_frame s"
    "attempt_upload (fail_simple P stage kind m url rid change s) = attempt_upload s"
    "\<exists>f. attempt_failures (fail_simple P stage kind m url rid change s) = attempt_failures s @ [f]"
    using e unfolding r by (simp_all add: on_progress_def record_failure_def test_frame_def
        attempt_failures_def attempt_upload_def Let_def)
qed

lemma reserve_granted:
  assumes "reserve_start P reserve s = (True, s')"
  shows "\<exists>t. reserve t (at_gate s) = (Inr (at_admission s'), at_gate s')"
    "attempt_failures s' = attempt_failures s" "attempt_upload s' = attempt_upload s"
    "ap_download (at_progress s') = ap_download (at_progress s)"
    "at_reservation_error s' = at_reservation_error s"
proof -
  define s1 where "s1 = begin_stage P StConnect s"
  obtain now s2 where c: "at_clock P s1 = (now, s2)" by fastforce
  have c2: "s2 = snd (at_clock P s1)" by (simp add: c)
  obtain r g where g: "reserve (fst now) (at_gate s2) = (r, g)" by fastforce
  have s2: "at_gate s2 = at_gate s" "attempt_failures s2 = attempt_failures s" "attempt_upload s2 = attempt_upload s"
    "at_progress s2 = at_progress s1" "at_reservation_error s2 = at_reservation_error s"
    unfolding c2 by (simp_all add: s1_def)
  obtain a where a: "r = Inr a" "s' = s2 \<lparr> at_gate := g, at_admission := a \<rparr>"
    using assms c g by (auto simp: reserve_start_def s1_def [symmetric] Let_def split: sum.splits prod.splits)
  show "\<exists>t. reserve t (at_gate s) = (Inr (at_admission s'), at_gate s')"
    using g s2(1) a by auto
  show "attempt_failures s' = attempt_failures s" "attempt_upload s' = attempt_upload s"
    "ap_download (at_progress s') = ap_download (at_progress s)"
    "at_reservation_error s' = at_reservation_error s"
    using s2 a by (simp_all add: attempt_failures_def attempt_upload_def s1_def)
qed

lemma reserve_refused:
  assumes "reserve_start P reserve s = (False, s')"
  shows "\<exists>t m. reserve t (at_gate s) = (Inl m, at_gate s') \<and> at_reservation_error s' = Some m"
    "at_net s' = at_net s" "at_admission s' = at_admission s" "attempt_upload s' = attempt_upload s"
    "ap_download (at_progress s') = ap_download (at_progress s)"
    "\<exists>f. attempt_failures s' = attempt_failures s @ [f]"
proof -
  define s1 where "s1 = begin_stage P StConnect s"
  obtain now s2 where c: "at_clock P s1 = (now, s2)" by fastforce
  have c2: "s2 = snd (at_clock P s1)" by (simp add: c)
  obtain r g where g: "reserve (fst now) (at_gate s2) = (r, g)" by fastforce
  have s2: "at_gate s2 = at_gate s" "attempt_failures s2 = attempt_failures s" "attempt_upload s2 = attempt_upload s"
    "at_progress s2 = at_progress s1" "at_net s2 = at_net s" "at_admission s2 = at_admission s"
    unfolding c2 by (simp_all add: s1_def)
  obtain m where m: "r = Inl m"
    using assms c g by (auto simp: reserve_start_def s1_def [symmetric] Let_def split: sum.splits prod.splits)
  obtain rid s3 where i: "at_request_id (s2 \<lparr> at_gate := g \<rparr>) = (rid, s3)" by fastforce
  have s3: "adds_only (s2 \<lparr> at_gate := g \<rparr>) [] s3" "at_net s3 = at_net s2"
    using request_id_adds [of "s2 \<lparr> at_gate := g \<rparr>" "[]" "s2 \<lparr> at_gate := g \<rparr>"]
      draws_fields(6) [of "s2 \<lparr> at_gate := g \<rparr>"] i by simp_all
  define s4 where "s4 = fail_simple P StConnect EkInternal (''cannot persist bandwidth reservation: '' @ m)
      None rid (\<lambda>f. f \<lparr> rf_outcome := ErrorOutcome \<rparr>) s3"
  have s': "s' = s4 \<lparr> at_reservation_error := Some m \<rparr>"
    using assms c g m i by (auto simp: reserve_start_def s1_def [symmetric] s4_def Let_def)
  note s4 = fail_simple_frame [of P StConnect EkInternal "''cannot persist bandwidth reservation: '' @ m" None rid
      "\<lambda>f. f \<lparr> rf_outcome := ErrorOutcome \<rparr>" s3, folded s4_def]
  have net: "at_net s4 = at_net s3" by (simp add: s4_def)
  have fr: "test_frame s4 = test_frame (s2 \<lparr> at_gate := g \<rparr>)" using s4(1) s3(1) by (simp add: adds_only_def adds_def)
  show "\<exists>t m. reserve t (at_gate s) = (Inl m, at_gate s') \<and> at_reservation_error s' = Some m"
    using g m s2(1) fr by (auto simp: s' test_frame_def)
  show "at_net s' = at_net s" using net s3(2) s2(5) by (simp add: s')
  show "at_admission s' = at_admission s" "ap_download (at_progress s') = ap_download (at_progress s)"
    using fr s2 by (simp_all add: s' test_frame_def s1_def)
  show "attempt_upload s' = attempt_upload s" "\<exists>f. attempt_failures s' = attempt_failures s @ [f]"
    using s4 s3 s2 by (auto simp: s' adds_only_def adds_def attempt_upload_def attempt_failures_def)
qed

subsection \<open>The resolution\<close>

lemma missing_url_soft: "missing_url_failure P m key rid url s = (f, s') \<Longrightarrow> recorded f \<and> soft f"
  by (auto simp: missing_url_failure_def request_failure_simple_def recorded_def soft_def split: prod.splits)

lemma simple_recorded:
  "request_failure_simple P stage kind m url rid s = (f, s') \<Longrightarrow> rf_outcome f = ErrorOutcome \<and> rf_disposition f = Terminal"
  by (auto simp: request_failure_simple_def split: prod.splits)

lemma locate_candidate_soft:
  "locate_candidate P pid url rid r s = (Inl f, s') \<Longrightarrow> recorded f \<and> soft f"
  by (auto simp: locate_candidate_def Let_def recorded_def soft_def
      split: option.splits prod.splits if_splits dest!: missing_url_soft simple_recorded)

lemma locate_results_soft:
  "locate_results P pid url rid rs s = ((fs, cs), s') \<Longrightarrow> list_all recorded fs \<and> list_all soft fs"
proof (induction rs arbitrary: fs cs s s')
  case (Cons r rs)
  obtain e s1 where e: "locate_candidate P pid url rid r s = (e, s1)" by fastforce
  obtain fs1 cs1 s2 where l: "locate_results P pid url rid rs s1 = ((fs1, cs1), s2)" by (metis prod.collapse)
  show ?case
    using Cons.prems Cons.IH [OF l] locate_candidate_soft [of P pid url rid r s _ s1]
    by (cases e) (auto simp: e l)
qed simp

definition resolution_ok :: "'u endpoint_resolution \<Rightarrow> bool" where
  "resolution_ok r \<longleftrightarrow> list_all recorded (er_failures r) \<and> list_all soft (er_failures r) \<and>
     (\<forall>f. er_terminal r = Some f \<longrightarrow> rf_outcome f \<in> {ErrorOutcome, RateLimited, NoCapacity})"

lemma locate_terminal_ok: "locate_terminal P kind m url s = (r, s') \<Longrightarrow> resolution_ok r"
  by (auto simp: locate_terminal_def terminal_resolution_def resolution_ok_def
      split: prod.splits dest!: simple_recorded)

lemma parse_locate_ok: "parse_locate_candidates P body pid url s = (r, s') \<Longrightarrow> resolution_ok r"
  by (auto simp: parse_locate_candidates_def Let_def resolution_ok_def
      split: sum.splits prod.splits if_splits
      dest: locate_results_soft simple_recorded locate_terminal_ok [unfolded resolution_ok_def])

lemma resolve_mlab_ok: "resolve_mlab P pid m i s = (r, s') \<Longrightarrow> resolution_ok r"
  by (auto simp: resolve_mlab_def Let_def terminal_resolution_def locate_status_def
      split: sum.splits prod.splits if_splits http_result.splits
      intro: locate_terminal_ok parse_locate_ok) (auto simp: resolution_ok_def)

lemma stamped_ok:
  assumes "resolution_ok r"
  shows "resolution_ok (r \<lparr> er_failures := map (stamp_failure rid t m) (er_failures r),
    er_terminal := map_option (stamp_failure rid t m) (er_terminal r) \<rparr>)"
  using assms by (auto simp: resolution_ok_def stamp_failure_def recorded_def soft_def list_all_iff)

lemma resolve_endpoints_ok:
  assumes "resolve_endpoints P config i s = (r, s')"
  shows "resolution_ok r"
  using assms
  by (auto simp: resolve_endpoints_def Let_def provider_resolve_direct_def
      split: provider_config.splits prod.splits if_splits
      intro!: stamped_ok dest: resolve_mlab_ok locate_terminal_ok) (auto simp: resolution_ok_def)

subsection \<open>The attempt\<close>

lemma attempt_start_fields:
  "at_gate (attempt_start P config phase d net g) = g" "at_net (attempt_start P config phase d net g) = net"
  "at_admission (attempt_start P config phase d net g) = Untracked"
  "at_reservation_error (attempt_start P config phase d net g) = None"
  "attempt_failures (attempt_start P config phase d net g) = []"
  "attempt_upload (attempt_start P config phase d net g) = None"
  "ap_download (at_progress (attempt_start P config phase d net g)) = None"
  by (simp_all add: attempt_start_def progress_new_def report_phase_def attempt_failures_def attempt_upload_def
      split: prod.splits provider_config.splits)

lemma keep_failures_fields:
  "at_gate (on_progress (keep_failures fs) s) = at_gate s" "at_net (on_progress (keep_failures fs) s) = at_net s"
  "at_admission (on_progress (keep_failures fs) s) = at_admission s"
  "at_reservation_error (on_progress (keep_failures fs) s) = at_reservation_error s"
  "attempt_failures (on_progress (keep_failures fs) s) =
     attempt_failures s @ map (stamp_request (rf_request_id (ap_active (at_progress s)))) fs"
  "attempt_upload (on_progress (keep_failures fs) s) = attempt_upload s"
  "ap_download (at_progress (on_progress (keep_failures fs) s)) = ap_download (at_progress s)"
  by (simp_all add: on_progress_def keep_failures_def attempt_failures_def attempt_upload_def)

text \<open>How an attempt ends: before the reservation, refused by it, or with it granted.\<close>

lemma run_attempt_cases:
  assumes "run_attempt P N reserve config (attempt_start P config phase d net g) = (r, s)"
  obtains
    (early) "at_gate s = g" "at_net s = snd (nw_locate N net)" "at_admission s = Untracked"
      "at_reservation_error s = None" "attempt_upload s = None" "ap_download (at_progress s) = None"
      "\<And>out. r = Inr out \<Longrightarrow> out \<in> {ErrorOutcome, RateLimited, NoCapacity} \<and>
         (\<exists>f \<in> set (attempt_failures s). rf_outcome f = out)"
  | (refused) t m where "reserve t g = (Inl m, at_gate s)" "at_net s = snd (nw_locate N net)"
      "at_admission s = Untracked" "at_reservation_error s = Some m" "r = Inr ErrorOutcome"
      "attempt_upload s = None" "ap_download (at_progress s) = None"
  | (granted) t where "reserve t g = (Inr (at_admission s), at_gate s)" "at_reservation_error s = None"
      "\<And>out. r = Inr out \<Longrightarrow> judged (at_progress s) out" "list_all recorded (attempt_failures s)"
      "list_all soft (butlast (attempt_failures s))"
proof -
  define s0 where "s0 = attempt_start P config phase d net g"
  note s0 = attempt_start_fields [of P config phase d net g, folded s0_def]
  obtain q n where l: "nw_locate N net = (q, n)" by fastforce
  show ?thesis
  proof (cases q)
    case (Inl i)
    then have "s = s0 \<lparr> at_net := n \<rparr>" "r = Inl i"
      using assms l s0 by (simp_all add: run_attempt_def s0_def [symmetric] st_bind_def on_net_def st_on_def)
    then show ?thesis using l s0 by (intro early) (simp_all add: attempt_failures_def attempt_upload_def)
  next
    case (Inr u)
    define s1 where "s1 = s0 \<lparr> at_net := n \<rparr>"
    obtain R d' where R: "resolve_endpoints P (rc_bandwidth config) (config_interface config) (at_draws s1) = (R, d')"
      by fastforce
    note ok = resolve_endpoints_ok [OF R]
    define s2 where "s2 = on_progress (keep_failures (er_failures R)) (s1 \<lparr> at_draws := d' \<rparr>)"
    have s2: "at_gate s2 = g" "at_net s2 = n" "at_admission s2 = Untracked" "at_reservation_error s2 = None"
      "attempt_upload s2 = None" "ap_download (at_progress s2) = None"
      using s0 unfolding s2_def keep_failures_fields by (simp_all add: s1_def attempt_upload_def)
    have "attempt_failures (s1 \<lparr> at_draws := d' \<rparr>) = []" using s0(5) by (simp add: s1_def attempt_failures_def)
    then have f2: "list_all soft (attempt_failures s2)" "list_all recorded (attempt_failures s2)"
      using ok unfolding s2_def keep_failures_fields
      by (auto simp: resolution_ok_def stamp_request_def soft_def recorded_def list_all_iff)
    have run: "(case er_terminal R of
          Some f \<Rightarrow> (Inr (rf_outcome f), on_progress (keep_failures [f]) s2)
        | None \<Rightarrow> (let (granted, s) = reserve_start P reserve s2
            in if granted then run_candidates P N (config_interface config) (er_candidates R) s
               else (Inr ErrorOutcome, s))) = (r, s)"
      using assms l Inr R unfolding run_attempt_def s0_def [symmetric] s2_def s1_def
      by (simp add: st_bind_def on_net_def st_on_def s0 Let_def)
    show ?thesis
    proof (cases "er_terminal R")
      case (Some f)
      then have "s = on_progress (keep_failures [f]) s2" "r = Inr (rf_outcome f)" using run by simp_all
      then show ?thesis
        using s2 l ok Some by (intro early) (auto simp: keep_failures_fields resolution_ok_def stamp_request_def)
    next
      case None
      obtain yes s3 where g: "reserve_start P reserve s2 = (yes, s3)" by fastforce
      show ?thesis
      proof (cases yes)
        case True
        then have "reserve_start P reserve s2 = (True, s3)" using g by simp
        note q = reserve_granted [OF this]
        have "run_candidates P N (config_interface config) (er_candidates R) s3 = (r, s)"
          using run None g True by simp
        from run_candidates_end [OF this] q s2 f2 have e: "candidates_end s3 r s" by simp
        then have "at_gate s = at_gate s3" "at_admission s = at_admission s3"
          "at_reservation_error s = at_reservation_error s3"
          by (auto simp: candidates_end_def core_frame_def)
        moreover obtain fs where "attempt_failures s = attempt_failures s2 @ fs" "list_all recorded fs"
          "list_all soft (butlast fs)"
          using e q(2) by (auto simp: candidates_end_def)
        moreover from this(3) have "list_all soft (butlast (attempt_failures s2 @ fs))"
          using soft_join [OF f2(1), of fs] by (cases fs) auto
        moreover obtain t where "reserve t (at_gate s2) = (Inr (at_admission s3), at_gate s3)" using q(1) by blast
        ultimately show ?thesis
          using granted [of t] e q(5) s2 f2(2) by (auto simp: candidates_end_def)
      next
        case False
        then have "reserve_start P reserve s2 = (False, s3)" using g by simp
        note q = reserve_refused [OF this]
        have "s = s3" "r = Inr ErrorOutcome" using run None g False by simp_all
        then show ?thesis using refused q s2 l by auto
      qed
    qed
  qed
qed

subsection \<open>The report\<close>

lemma admission_kind [simp]: "ev_event_kind (admission_event a ev) = ev_event_kind ev"
  by (simp add: admission_event_def split: admission_reservation.splits)

lemma sanitized_fields [simp]:
  "ev_event_kind (event_sanitized U ev) = ev_event_kind ev" "ev_run_id (event_sanitized U ev) = ev_run_id ev"
  "ev_outcome (event_sanitized U ev) = ev_outcome ev" "ev_error_kind (event_sanitized U ev) = ev_error_kind ev"
  "ev_download_bytes (event_sanitized U ev) = ev_download_bytes ev"
  "ev_upload_bytes (event_sanitized U ev) = ev_upload_bytes ev"
  "ev_request_id (event_sanitized U ev) = ev_request_id ev"
  "ev_request_stage (event_sanitized U ev) = ev_request_stage ev"
  by (simp_all add: event_sanitized_def)

lemma admission_fields [simp]:
  "ev_run_id (admission_event a ev) = ev_run_id ev" "ev_outcome (admission_event a ev) = ev_outcome ev"
  "ev_error_kind (admission_event a ev) = ev_error_kind ev"
  "ev_download_bytes (admission_event a ev) = ev_download_bytes ev"
  "ev_upload_bytes (admission_event a ev) = ev_upload_bytes ev"
  "ev_request_id (admission_event a ev) = ev_request_id ev"
  "ev_request_stage (admission_event a ev) = ev_request_stage ev"
  by (simp_all add: admission_event_def split: admission_reservation.splits)

lemma failure_event_fields [simp]:
  "ev_event_kind (failure_event ri eid f) = RequestFailureEvent" "ev_run_id (failure_event ri eid f) = ri_run_id ri"
  "ev_outcome (failure_event ri eid f) = rf_outcome f" "ev_error_kind (failure_event ri eid f) = Some (rf_error_kind f)"
  "ev_request_id (failure_event ri eid f) = Some (rf_request_id f)"
  "ev_request_stage (failure_event ri eid f) = Some (rf_stage f)"
  by (simp_all add: failure_event_def)

lemma direction_fields [simp]:
  "ev_event_kind (with_download d ev) = ev_event_kind ev" "ev_run_id (with_download d ev) = ev_run_id ev"
  "ev_outcome (with_download d ev) = ev_outcome ev" "ev_error_kind (with_download d ev) = ev_error_kind ev"
  "ev_download_bytes (with_download d ev) = map_option dm_bytes d"
  "ev_event_kind (with_upload d ev) = ev_event_kind ev" "ev_run_id (with_upload d ev) = ev_run_id ev"
  "ev_outcome (with_upload d ev) = ev_outcome ev" "ev_error_kind (with_upload d ev) = ev_error_kind ev"
  "ev_download_bytes (with_upload d ev) = ev_download_bytes ev"
  "ev_upload_bytes (with_upload d ev) = map_option dm_bytes d"
  by (simp_all add: with_download_def with_upload_def)

lemma bandwidth_event_fields [simp]:
  "ev_event_kind (bandwidth_event ri eid) = BandwidthEvent" "ev_run_id (bandwidth_event ri eid) = ri_run_id ri"
  "ev_outcome (bandwidth_event ri eid) = ri_outcome ri"
  "ev_download_bytes (bandwidth_event ri eid) = map_option dm_bytes (ri_download ri)"
  "ev_upload_bytes (bandwidth_event ri eid) = map_option dm_bytes (ri_upload ri)"
  "ev_error_kind (bandwidth_event ri eid) =
     (if ri_outcome ri = Success \<or> ri_failures ri = [] then None else Some (rf_error_kind (last (ri_failures ri))))"
  by (simp_all add: bandwidth_event_def Let_def)

definition input_of ::
    "'u resolved_config \<Rightarrow> run_id \<Rightarrow> time \<times> nat \<Rightarrow> outcome \<Rightarrow> ('n, 'g) attempt \<Rightarrow> report_input" where
  "input_of config i finished out s =
     (let p = at_progress s in
      \<lparr> ri_elapsed = snd finished - ap_started_monotonic p, ri_started_at_utc = ap_started_at_utc p,
        ri_finished_at_utc = fst finished, ri_run_id = i, ri_interface = config_interface config,
        ri_provider_id = bw_provider_id (rc_bandwidth config), ri_provider_kind = provider_kind_of config,
        ri_server_name = ap_server_name p, ri_failures = ap_failures p, ri_download = ap_download p,
        ri_upload = ap_upload p, ri_outcome = out \<rparr>)"

lemma report_of_fields:
  "br_outcome (report_of P eid config i finished out s) = out"
  "br_reserved (report_of P eid config i finished out s) = (at_admission s \<noteq> Untracked)"
  "br_reservation_error (report_of P eid config i finished out s) = at_reservation_error s"
  "br_events (report_of P eid config i finished out s) =
     map (\<lambda>k. admission_event (at_admission s) (event_sanitized (url_ops.truncate (pv_url P))
       (failure_event (input_of config i finished out s) (eid k) (attempt_failures s ! k))))
       [0..<length (attempt_failures s)] @
     [admission_event (at_admission s) (event_sanitized (url_ops.truncate (pv_url P))
       (bandwidth_event (input_of config i finished out s) (eid (length (attempt_failures s)))))]"
  by (simp_all add: report_of_def report_from_result_def apply_admission_def input_of_def attempt_failures_def Let_def)

text \<open>The end of a measurement.\<close>

lemma measure_cases:
  assumes "measure_bandwidth_with_network_and_gate_observed P N eid reserve config i phase d net g = (report, s)"
  obtains r s1 finished out where
    "run_attempt P N reserve config (attempt_start P config phase d net g) = (r, s1)"
    "report = report_of P eid config i finished out s"
    "at_gate s = at_gate s1" "at_net s = at_net s1" "at_admission s = at_admission s1"
    "at_reservation_error s = at_reservation_error s1" "attempt_upload s = attempt_upload s1"
    "ap_download (at_progress s) = ap_download (at_progress s1)"
    "(r = Inr out \<and> attempt_failures s = attempt_failures s1) \<or>
     (\<exists>j f. r = Inl j \<and> out = interruption_outcome j \<and> attempt_failures s = attempt_failures s1 @ [f] \<and>
        rf_outcome f = out \<and> rf_stage f = rf_stage (ap_active (at_progress s1)) \<and>
        rf_error_kind f = (if out = TimeoutOutcome then EkTimeout else EkCancelled))"
proof -
  obtain r s1 where r: "run_attempt P N reserve config (attempt_start P config phase d net g) = (r, s1)" by fastforce
  obtain finished s2 where c: "at_clock P s1 = (finished, s2)" by fastforce
  obtain d2 where s2: "s2 = s1 \<lparr> at_draws := d2 \<rparr>"
    using c by (auto simp: at_clock_def split: prod.splits)
  show ?thesis
  proof (cases r)
    case (Inr out)
    then have "report = report_of P eid config i finished out s" "s = s2"
      using assms r c by (auto simp: measure_bandwidth_with_network_and_gate_observed_def)
    then show ?thesis
      using s2 Inr by (intro that [OF r, of finished out])
        (simp_all add: attempt_failures_def attempt_upload_def)
  next
    case (Inl j)
    then have "report = report_of P eid config i finished (interruption_outcome j) s"
      "s = on_progress (progress_interrupt (nw_show_duration N) (interruption_outcome j)
         (bw_whole_test_timeout (rc_bandwidth config)) (fst finished) (snd finished)) s2"
      using assms r c by (auto simp: measure_bandwidth_with_network_and_gate_observed_def Let_def)
    then show ?thesis
      using s2 Inl by (intro that [OF r, of finished "interruption_outcome j"])
        (simp_all add: attempt_failures_def attempt_upload_def on_progress_def progress_interrupt_def Let_def)
  qed
qed

subsection \<open>Properties\<close>

text \<open>
  C10. With a gate that counts, no test touches the network past the Locate request without a
  reservation: either exactly one start was granted, and the report and its bandwidth event carry
  its day and number, or the network is where the Locate request left it, the gate was asked at
  most once, and what it refused with is the report's error.
\<close>

theorem reservation_before_connection:
  assumes "measure_bandwidth_with_network_and_gate_observed P N eid reserve config i phase d net g = (report, s)"
    "\<And>t g. fst (reserve t g) \<noteq> Inr Untracked"
  shows "if br_reserved report
    then \<exists>t day n. reserve t g = (Inr (Reserved day n), at_gate s) \<and> br_reservation_error report = None \<and>
      ev_provider_accounting_date (last (br_events report)) = Some day \<and>
      ev_provider_daily_starts (last (br_events report)) = Some n
    else at_net s = snd (nw_locate N net) \<and>
      (at_gate s = g \<and> br_reservation_error report = None \<or>
       (\<exists>t m. reserve t g = (Inl m, at_gate s) \<and> br_reservation_error report = Some m \<and>
          br_outcome report = ErrorOutcome))"
proof -
  obtain r s1 finished out where run: "run_attempt P N reserve config (attempt_start P config phase d net g) = (r, s1)"
    and report: "report = report_of P eid config i finished out s"
    and s: "at_gate s = at_gate s1" "at_net s = at_net s1" "at_admission s = at_admission s1"
      "at_reservation_error s = at_reservation_error s1"
    and out: "(r = Inr out \<and> attempt_failures s = attempt_failures s1) \<or>
     (\<exists>j f. r = Inl j \<and> out = interruption_outcome j \<and> attempt_failures s = attempt_failures s1 @ [f] \<and>
        rf_outcome f = out \<and> rf_stage f = rf_stage (ap_active (at_progress s1)) \<and>
        rf_error_kind f = (if out = TimeoutOutcome then EkTimeout else EkCancelled))"
    by (rule measure_cases [OF assms(1)])
  note fields = report_of_fields [of P eid config i finished out s, folded report]
  from run show ?thesis
  proof (cases rule: run_attempt_cases)
    case early
    then show ?thesis using s by (simp add: fields)
  next
    case (refused t m)
    then have "out = ErrorOutcome" using out by auto
    then show ?thesis using refused s by (auto simp: fields)
  next
    case (granted t)
    have "fst (reserve t g) \<noteq> Inr Untracked" by (rule assms(2))
    then obtain day n where a: "at_admission s1 = Reserved day n"
      using granted(1) by (cases "at_admission s1") auto
    have "last (br_events report) = admission_event (at_admission s) (event_sanitized (url_ops.truncate (pv_url P))
       (bandwidth_event (input_of config i finished out s) (eid (length (attempt_failures s)))))"
      by (simp add: fields)
    then have "ev_provider_accounting_date (last (br_events report)) = Some day"
      "ev_provider_daily_starts (last (br_events report)) = Some n"
      using a s by (simp_all add: admission_event_def)
    then show ?thesis using granted a s by (auto simp: fields)
  qed
qed

text \<open>The last event is the result of the test.\<close>

definition result_of :: "bandwidth_report \<Rightarrow> measurement_event" where
  "result_of r = last (br_events r)"


text \<open>The columns that are no part of any event of a test, of a failure, and of the result.\<close>

definition foreign_columns_empty :: "measurement_event \<Rightarrow> bool" where
  "foreign_columns_empty ev \<longleftrightarrow>
     ev_scheduler_action ev = None \<and> ev_scheduler_reason ev = None \<and> ev_scheduler_not_before_utc ev = None \<and>
     ev_ping_target_ip ev = None \<and> ev_ping_local_ip ev = None \<and> ev_ping_sequence ev = None \<and>
     ev_ping_packets_sent ev = None \<and> ev_ping_packets_received ev = None \<and> ev_ping_rtt_ms ev = None \<and>
     ev_ping_icmp_type ev = None \<and> ev_ping_icmp_code ev = None \<and> ev_load_run_id ev = None \<and>
     ev_load_phase ev = None \<and> ev_command ev = None \<and> ev_process_id ev = None"

definition failure_row :: "run_id \<Rightarrow> string \<Rightarrow> measurement_event \<Rightarrow> bool" where
  "failure_row i pid ev \<longleftrightarrow>
     ev_event_kind ev = RequestFailureEvent \<and> ev_run_id ev = i \<and> ev_run_kind ev = RkBandwidth \<and>
     ev_provider_id ev = Some pid \<and> foreign_columns_empty ev \<and>
     ev_request_stage ev \<noteq> None \<and> ev_request_id ev \<noteq> None \<and> ev_error_kind ev \<noteq> None \<and> ev_message ev \<noteq> None \<and>
     ev_elapsed_ms ev \<noteq> None \<and> ev_bandwidth_start_reserved ev = None \<and> ev_trigger_reason ev = None \<and>
     ev_download_bytes ev = None \<and> ev_download_mbps ev = None \<and> ev_upload_bytes ev = None \<and> ev_upload_mbps ev = None"

definition result_row :: "run_id \<Rightarrow> string \<Rightarrow> measurement_event \<Rightarrow> bool" where
  "result_row i pid ev \<longleftrightarrow>
     ev_event_kind ev = BandwidthEvent \<and> ev_run_id ev = i \<and> ev_run_kind ev = RkBandwidth \<and>
     ev_provider_id ev = Some pid \<and> foreign_columns_empty ev \<and>
     ev_trigger_reason ev \<noteq> None \<and> ev_elapsed_ms ev \<noteq> None \<and> ev_bandwidth_start_reserved ev \<noteq> None \<and>
     (ev_provider_accounting_date ev \<noteq> None \<longleftrightarrow> ev_bandwidth_start_reserved ev = Some True) \<and>
     (ev_provider_daily_starts ev \<noteq> None \<longleftrightarrow> ev_bandwidth_start_reserved ev = Some True) \<and>
     ev_request_stage ev = None \<and> ev_request_id ev = None \<and> ev_request_url ev = None \<and>
     (ev_download_bytes ev = None \<longleftrightarrow> ev_download_remote_ip ev = None) \<and>
     (ev_upload_bytes ev = None \<longleftrightarrow> ev_upload_remote_ip ev = None) \<and>
     (ev_download_bytes ev = None \<longrightarrow> ev_download_mbps ev = None) \<and>
     (ev_upload_bytes ev = None \<longrightarrow> ev_upload_mbps ev = None)"

lemma failure_event_row:
  "failure_row (ri_run_id ri) (ri_provider_id ri) (admission_event a (event_sanitized U (failure_event ri eid f)))"
  by (simp add: failure_row_def foreign_columns_empty_def admission_event_def event_sanitized_def
      failure_event_def event_new_def run_kind_of_def)

lemma bandwidth_event_row:
  "result_row (ri_run_id ri) (ri_provider_id ri) (admission_event a (event_sanitized U (bandwidth_event ri eid)))"
  by (auto simp: result_row_def foreign_columns_empty_def admission_event_def event_sanitized_def
      bandwidth_event_def with_download_def with_upload_def direction_mbps_def event_new_def run_kind_of_def Let_def
      split: admission_reservation.splits)


end
