(* ===== verification/BandwidthOnceProps.thy ===== *)
theory BandwidthOnceProps
  imports BandwidthOnce BandwidthProps RunLog Restart
begin

text \<open>
  \<open>once bandwidth\<close> as a whole: what its session leaves in the log, and how the test and the
  scheduler's admission work together.
\<close>

subsection \<open>The session\<close>

lemma on_coordinator_Inr:
  "on_coordinator f w = (Inr x, w') \<longleftrightarrow>
     (\<exists>c. f (sw_coordinator w) = (Inr x, c) \<and> w' = w \<lparr> sw_coordinator := c \<rparr>)"
  by (auto simp: on_coordinator_def st_on_def split: prod.splits)

lemma on_sched_Inr:
  "on_sched f w = (Inr x, w') \<longleftrightarrow> (\<exists>c. f (sw_sched w) = (Inr x, c) \<and> w' = w \<lparr> sw_sched := c \<rparr>)"
  by (auto simp: on_sched_def st_on_def split: prod.splits)

lemma measure_admitted_Inr:
  "measure_admitted E config i w = (Inr report, w') \<Longrightarrow> sw_coordinator w' = sw_coordinator w"
  by (auto simp: measure_admitted_def split: prod.splits)

lemma settle_attempt_Inr:
  "settle_attempt E config i report w = (Inr report', w') \<Longrightarrow>
   sw_coordinator w' = sw_coordinator w \<and> br_outcome report' = br_outcome report \<and>
   br_reservation_error report' = br_reservation_error report"
  by (auto simp: settle_attempt_def st_bind_Inr on_sched_Inr finish_attempt_def opportunity_apply_timing_def Let_def
      split: if_splits option.splits sum.splits prod.splits)

text \<open>The rows of a finished session, without those of the session itself.\<close>

definition session_rows :: "run_id \<Rightarrow> bandwidth_report \<Rightarrow> event_shape list \<Rightarrow> bool" where
  "session_rows run report rows \<longleftrightarrow>
     (\<exists>ev. report = blocked_report ev \<and> rows = [shape ev]) \<or>
     rows = [(RunStarted, run, Started)] @ map shape (br_events report) @ [(RunFinished, run, br_outcome report)]"

lemma bandwidth_session_rows:
  assumes "bandwidth_session E config i w = (Inr report, w')" "be_sinks E = logging S"
  obtains s1 a where
    "start_session (logging S) (oi_moments i 0) (oi_session i) ''once bandwidth'' (sw_coordinator w) = (Inr (), s1)"
    "oc_runs s1 = [(oi_session i, a)]" "\<exists>rows. session_rows (oi_run_id i) report rows \<and> grows s1 rows (sw_coordinator w')"
    "oc_runs (sw_coordinator w') = oc_runs s1" "br_reservation_error report = None"
proof -
  let ?L = "logging S" and ?ms = "oi_moments i"
  note run = assms(1) [unfolded bandwidth_session_def Let_def assms(2)]
  from run obtain s1 where 1: "start_session ?L (?ms 0) (oi_session i) ''once bandwidth'' (sw_coordinator w) = (Inr (), s1)"
    by (auto simp: st_bind_Inr on_coordinator_Inr)
  obtain a where a: "oc_runs s1 = [(oi_session i, a)]" using start_session_grows(3) [OF 1] by blast
  let ?w1 = "w \<lparr> sw_coordinator := s1 \<rparr>"
  from run obtain d sched where 2: "preflight_manual (be_ext E) (be_codec E) (oi_session i) (oi_started_at i) (sw_sched w)
      = (Inr d, sched)"
    by (auto simp: st_bind_Inr on_coordinator_Inr on_sched_Inr 1)
  let ?w2 = "?w1 \<lparr> sw_sched := sched \<rparr>"
  have after: "on_coordinator (start_session ?L (?ms 0) (oi_session i) ''once bandwidth'') w = (Inr (), ?w1)"
    "on_sched (preflight_manual (be_ext E) (be_codec E) (oi_session i) (oi_started_at i)) ?w1 = (Inr d, ?w2)"
    using 1 2 by (simp_all add: on_coordinator_Inr on_sched_Inr)
  note rest = run [unfolded st_bind_ok [where m = "on_coordinator (start_session ?L (?ms 0) (oi_session i) ''once bandwidth'')", OF after(1)]
      st_bind_ok [where m = "on_sched (preflight_manual (be_ext E) (be_codec E) (oi_session i) (oi_started_at i))", OF after(2)]]
  show ?thesis
  proof (cases d)
    case (ManualBlocked ev)
    then obtain c where c: "publish_batch ?L (br_events (blocked_report ev)) s1 = (Inr (), c)"
      "sw_coordinator w' = c" "report = blocked_report ev"
      using rest by (auto simp: st_bind_Inr on_coordinator_Inr on_sched_Inr split: option.splits)
    have "session_rows (oi_run_id i) report (map shape (br_events (blocked_report ev)))"
      using c(3) by (auto simp: session_rows_def blocked_report_def)
    then show ?thesis
      using that [OF 1 a] publish_grows [OF c(1)] c(2,3) by (auto simp: blocked_report_def)
  next
    case ManualAllowed
    then obtain c2 r0 w3 w4 c5 c6 where
      3: "start_run_with_context ?L (?ms 1) (oi_run_id i) (oi_session i) RkBandwidth (bandwidth_run_context config TrManual) s1
        = (Inr (), c2)"
      and 4: "measure_admitted E config i (?w2 \<lparr> sw_coordinator := c2 \<rparr>) = (Inr r0, w3)"
      and 5: "settle_attempt E config i r0 w3 = (Inr report, w4)"
      and 6: "publish_batch ?L (br_events report) (sw_coordinator w4) = (Inr (), c5)"
      and 7: "finish_run ?L (?ms 2) (oi_run_id i) (br_outcome report) None c5 = (Inr (), c6)"
      and 8: "sw_coordinator w' = c6" "br_reservation_error report = None"
      using rest by (auto simp: st_bind_Inr on_coordinator_Inr on_sched_Inr split: option.splits)
    have c: "sw_coordinator w4 = c2" using measure_admitted_Inr [OF 4] settle_attempt_Inr [OF 5] by simp
    have "grows s1 ([(RunStarted, oi_run_id i, Started)] @ (map shape (br_events report) @
        [(RunFinished, oi_run_id i, br_outcome report)])) c6"
      by (rule grows_trans [OF start_run_grows(1) [OF 3] grows_trans [OF publish_grows(1) [OF 6 [unfolded c]]
          finish_run_grows(1) [OF 7]]])
    then have "\<exists>rows. session_rows (oi_run_id i) report rows \<and> grows s1 rows (sw_coordinator w')"
      unfolding 8(1) by (auto simp: session_rows_def)
    moreover obtain b where b: "oc_runs c2 = bt_insert (oi_run_id i) b (oc_runs s1)" "bt_get (oc_runs s1) (oi_run_id i) = None"
      using start_run_grows(2,3) [OF 3] by blast
    moreover have "oc_runs c6 = bt_remove (oi_run_id i) (oc_runs c2)"
      by (simp only: finish_run_grows(2) [OF 7] publish_grows(2) [OF 6 [unfolded c]])
    moreover have "oi_run_id i \<noteq> oi_session i" using b(2) a by (auto simp: bt_get_def)
    ultimately have "oc_runs (sw_coordinator w') = oc_runs s1" by (auto simp: 8(1) a bt_remove_def)
    then show ?thesis using that [OF 1 a] \<open>\<exists>rows. _\<close> 8(2) by blast
  qed
qed

text \<open>
  C15. A test that returns a report leaves a complete session in the log: its start, then either
  the one event that blocked it or a run with every row of the report, then its end with the
  outcome of the report; no run stays open, and no reservation failed.
\<close>

theorem once_bandwidth_session:
  assumes "bandwidth_session E config i \<lparr> sw_coordinator = coordinator_new j [], sw_sched = sched \<rparr> = (Inr report, w)"
    "close_session E ms (oi_session i) (Inr report) (sw_coordinator w) = (Inr report', c)" "be_sinks E = logging S"
  shows "report' = report \<and> br_reservation_error report = None \<and> oc_runs c = [] \<and>
    (\<exists>rows. session_rows (oi_run_id i) report rows \<and>
       map shape (oc_console c) =
         [(RunStarted, oi_session i, Started)] @ rows @ [(RunFinished, oi_session i, br_outcome report)])"
proof -
  obtain s1 a rows where
    1: "start_session (logging S) (oi_moments i 0) (oi_session i) ''once bandwidth'' (coordinator_new j []) = (Inr (), s1)"
    and a: "oc_runs s1 = [(oi_session i, a)]" and rows: "session_rows (oi_run_id i) report rows" "grows s1 rows (sw_coordinator w)"
    and runs: "oc_runs (sw_coordinator w) = oc_runs s1" and err: "br_reservation_error report = None"
    by (rule bandwidth_session_rows [OF assms(1,3)]) auto
  obtain u c0 where fin: "finish_session (logging S) ms (oi_session i) (br_outcome report) None (sw_coordinator w) = (Inr u, c0)"
    and c: "report' = report" "oc_console c = oc_console c0" "oc_runs c = oc_runs c0"
    using assms(2,3) by (auto simp: close_session_def coordinator_flush_def Let_def split: prod.splits sum.splits)
  have f: "finish_run (logging S) (ms 1) (oi_session i) (br_outcome report) None (sw_coordinator w) = (Inr u, c0)"
    using fin runs a by (simp add: finish_session_def)
  have "map shape (oc_console s1) = [(RunStarted, oi_session i, Started)]"
    using start_session_grows(1) [OF 1] by (simp add: grows_def coordinator_new_def)
  moreover have "grows s1 (rows @ [(RunFinished, oi_session i, br_outcome report)]) c0"
    by (rule grows_trans [OF rows(2) finish_run_grows(1) [OF f]])
  moreover have "oc_runs c0 = []" using finish_run_grows(2) [OF f] runs a by (simp add: bt_remove_def)
  ultimately show ?thesis using c rows(1) err by (auto simp: grows_def)
qed

subsection \<open>The test and the admission\<close>

text \<open>
  C11. A test that reserved its start at the scheduler reports the number of starts the scheduler
  holds for that day afterwards, and the number is within the limit of the policy.
\<close>

theorem reserved_test_within_limit:
  assumes "measure_bandwidth_with_network_and_gate_observed P N eid (sched_reserve X C D) config i phase d net sched =
      (report, s)" "gate_ok sched" "br_reserved report"
  shows "\<exists>day n. ev_provider_accounting_date (result_of report) = Some day \<and>
    ev_provider_daily_starts (result_of report) = Some n \<and>
    n = runs_on_day (sstate (at_gate s)) day \<and> n \<le> gate_limit sched"
proof -
  obtain r s1 finished out where
    run: "run_attempt P N (sched_reserve X C D) config (attempt_start P config phase d net sched) = (r, s1)"
    and report: "report = report_of P eid config i finished out s"
    and s: "at_gate s = at_gate s1" "at_admission s = at_admission s1"
    by (rule measure_cases [OF assms(1)])
  have reserved: "at_admission s1 \<noteq> Untracked" using assms(3) s by (simp add: report report_of_fields)
  then obtain day n where a: "at_admission s1 = Reserved day n" by (cases "at_admission s1") auto
  from run reserved obtain t where "sched_reserve X C D t sched = (Inr (Reserved day n), at_gate s1)"
    using a by (cases rule: run_attempt_cases) auto
  then have "n = runs_on_day (sstate (at_gate s1)) day \<and> n \<le> gate_limit sched"
    using sched_gate.reserve_counts [OF assms(2), of X C D t day n] by simp
  then show ?thesis
    using a s by (simp add: report report_of_fields result_of_def admission_event_def)
qed

lemma timing_events:
  "\<exists>ev \<in> set (br_events report). ev_event_kind ev = k \<and> ev_outcome ev = out \<and> ev_request_stage ev = stage \<Longrightarrow>
   \<exists>ev \<in> set (br_events (opportunity_apply_timing op report)).
     ev_event_kind ev = k \<and> ev_outcome ev = out \<and> ev_request_stage ev = stage"
proof -
  define tim where "tim = (\<lambda>ev :: measurement_event. let ev = ev \<lparr> ev_trigger_reason := Some (op_reason op),
        ev_scheduled_at_utc := op_scheduled_at_utc op \<rparr>
      in if ev_event_kind ev = BandwidthEvent
         then ev \<lparr> ev_requested_at_utc := Some (op_requested_at_utc op) \<rparr> else ev)"
  have keep: "ev_event_kind (tim ev) = ev_event_kind ev \<and> ev_outcome (tim ev) = ev_outcome ev \<and>
      ev_request_stage (tim ev) = ev_request_stage ev" for ev
    by (simp add: tim_def Let_def)
  have "br_events (opportunity_apply_timing op report) = map tim (br_events report)"
    by (simp add: opportunity_apply_timing_def tim_def)
  moreover assume "\<exists>ev \<in> set (br_events report). ev_event_kind ev = k \<and> ev_outcome ev = out \<and> ev_request_stage ev = stage"
  ultimately show ?thesis using keep by auto
qed

lemma find_map_found: "x \<in> set xs \<Longrightarrow> f x \<noteq> None \<Longrightarrow> find_map f xs \<noteq> None"
  by (induction xs) (auto split: option.splits)

lemma rate_limited_reported:
  assumes "measure_bandwidth_with_network_and_gate_observed P N eid reserve config i phase d net g = (report, s)"
    "br_outcome report = RateLimited"
  shows "\<exists>ev \<in> set (br_events report). ev_event_kind ev = RequestFailureEvent \<and> ev_outcome ev = RateLimited \<and>
    ev_request_stage ev \<noteq> None"
proof -
  obtain r s1 finished out where
    run: "run_attempt P N reserve config (attempt_start P config phase d net g) = (r, s1)"
    and report: "report = report_of P eid config i finished out s"
    and out: "(r = Inr out \<and> attempt_failures s = attempt_failures s1) \<or>
     (\<exists>j f. r = Inl j \<and> out = interruption_outcome j \<and> attempt_failures s = attempt_failures s1 @ [f] \<and>
        rf_outcome f = out \<and> rf_stage f = rf_stage (ap_active (at_progress s1)) \<and>
        rf_error_kind f = (if out = TimeoutOutcome then EkTimeout else EkCancelled))"
    by (rule measure_cases [OF assms(1)])
  note fields = report_of_fields [of P eid config i finished out s, folded report]
  have o: "out = RateLimited" using assms(2) by (simp add: fields)
  have "\<exists>f \<in> set (attempt_failures s). rf_outcome f = RateLimited"
  proof (cases r)
    case (Inl j)
    then show ?thesis using out o by (cases j) (auto simp: interruption_outcome_def)
  next
    case (Inr v)
    then have r: "r = Inr RateLimited" "attempt_failures s = attempt_failures s1" using out o by auto
    from run show ?thesis
    proof (cases rule: run_attempt_cases)
      case early
      then show ?thesis using r by simp
    next
      case (refused t m)
      then show ?thesis using r by simp
    next
      case (granted t)
      from granted(3) [OF r(1)] have "stop_outcome (at_progress s1) = Some RateLimited"
        by (auto simp: judged_def directions_outcome_def split: option.splits if_splits)
      then show ?thesis
        using r(2) by (auto simp: stop_outcome_def last_failure_def provider_stop_outcome_def attempt_failures_def
            split: if_splits option.splits)
    qed
  qed
  then obtain k where "k < length (attempt_failures s)" "rf_outcome (attempt_failures s ! k) = RateLimited"
    by (auto simp: in_set_conv_nth)
  then show ?thesis
    by (intro bexI [of _ "admission_event (at_admission s) (event_sanitized (url_ops.truncate (pv_url P))
       (failure_event (input_of config i finished out s) (eid k) (attempt_failures s ! k)))"])
      (auto simp: fields)
qed


end
