(* ===== verification/BandwidthDemo.thy ===== *)
theory BandwidthDemo
  imports BandwidthOnceProps ProviderDemo
begin

text \<open>Concrete tests, on which the properties of bandwidth tests are applied.\<close>

definition demo_direct_config :: "demo_url resolved_config" where
  "demo_direct_config =
     \<lparr> rc_command = CkOnceBandwidth, rc_console = CmOff, rc_verbosity = VbInfo, rc_interfaces = [''eth0''],
       rc_output = OtFile ''out.csv'', rc_rotate_max_bytes = None, rc_state_file = ''state.json'',
       rc_shutdown_grace = secs 30, rc_no_bandwidth = False,
       rc_ping = \<lparr> pc_targets = [IPv4 1], pc_interval = secs 5, pc_timeout = secs 1 \<rparr>,
       rc_bandwidth = demo_mlab
         \<lparr> bw_provider := DirectProvider \<lparr> dc_target = None, dc_download_url = (''wss'', ''h'', ''/d''),
             dc_upload_url = (''wss'', ''h'', ''/u''), dc_tls_server_name = None, dc_ca_cert = None, dc_allow_insecure = False \<rparr> \<rparr> \<rparr>"

definition demo_network :: "(demo_url, nat) network" where
  "demo_network =
     \<lparr> nw_locate = (\<lambda>n. (Inr (), Suc n)), nw_resolve = (\<lambda>h p n. (Inr (Inr [(IPv4 1, 443)]), n)),
       nw_connect = (\<lambda>a i n. (Inr (Inr None), n)), nw_roots = (\<lambda>p. None), nw_server_name = (\<lambda>s. None),
       nw_tls = (\<lambda>s n. (Inr (Inr ()), n)), nw_request = (\<lambda>u. None), nw_host_ok = (\<lambda>s. True),
       nw_port = (\<lambda>u. None), nw_handshake = (\<lambda>u h n. (Inr (HsConnected (Some NDT7_SUBPROTOCOL)), n)),
       nw_download = (\<lambda>n. ([DlItem (WsItem (WsBinary 5)), DlItem (WsItem WsClose)], n)),
       nw_upload = (\<lambda>n. ([UploadWake \<lparr> uw_now = 0, uw_incoming = Some (WsItem (WsText [])), uw_flush = SinkPending,
                             uw_ready = SinkPending, uw_send = None \<rparr>,
                          UploadWake \<lparr> uw_now = 0, uw_incoming = Some (WsItem WsClose), uw_flush = SinkPending,
                             uw_ready = SinkPending, uw_send = None \<rparr>,
                          UploadWake \<lparr> uw_now = 0, uw_incoming = Some WsEnded, uw_flush = SinkPending,
                             uw_ready = SinkPending, uw_send = None \<rparr>], n)),
       nw_json = (\<lambda>s. Some \<lparr> wm_origin = None, wm_test = None,
         wm_tcp_info = Some \<lparr> wt_bytes_received = Some 9, wt_elapsed_time = Some 1, wt_min_rtt = None, wt_rtt = None,
           wt_bytes_retrans = None \<rparr> \<rparr>),
       nw_show_duration = (\<lambda>d. []) \<rparr>"

definition demo_gate :: "nat gate" where
  "demo_gate t n = (Inr (Reserved 0 (Suc n)), Suc n)"

definition demo_env_bw :: "demo_url provider_env" where
  "demo_env_bw = demo_provider_env demo_ok \<lparr> pv_clock := (\<lambda>n. (0, 0)) \<rparr>"

lemma demo_env_simps:
  "pv_clock demo_env_bw n = (0, 0)" "pv_url demo_env_bw = demo_url"
  by (simp_all add: demo_env_bw_def demo_provider_env_def)

lemma demo_network_simps:
  "nw_locate demo_network n = (Inr (), Suc n)" "nw_resolve demo_network h p n = (Inr (Inr [(IPv4 1, 443)]), n)"
  "nw_connect demo_network a i n = (Inr (Inr None), n)" "nw_roots demo_network f = None"
  "nw_server_name demo_network h = None" "nw_tls demo_network h n = (Inr (Inr ()), n)"
  "nw_request demo_network u = None"
  "nw_handshake demo_network u q n = (Inr (HsConnected (Some NDT7_SUBPROTOCOL)), n)"
  by (simp_all add: demo_network_def)

lemma demo_url_simps:
  "url_scheme demo_url (a, b, c) = a" "url_host demo_url (a, ''h'', c) = Some ''h''"
  by (simp_all add: demo_url_def)

text \<open>A connection that succeeds at once.\<close>

definition connected_state :: "('n, 'g) attempt \<Rightarrow> ('n, 'g) attempt \<Rightarrow> bool" where
  "connected_state s s' \<longleftrightarrow>
     (\<exists>f d. s' = s \<lparr> at_draws := d, at_progress := (at_progress s)
        \<lparr> ap_active := f, ap_stage_started_monotonic := 0 \<rparr> \<rparr>)"

lemma demo_connect_address:
  assumes "ec_tls_server_name c = None"
  shows "\<exists>s'. connect_address demo_env_bw demo_network i (''wss'', ''h'', x) c rid (IPv4 1, 443) s =
    (Inr (ArConnected \<lparr> cs_remote_ip = IPv4 1, cs_local_ip = IPv4 0 \<rparr>), s') \<and> connected_state s s'"
  using assms
  by (simp add: connect_address_def on_progress_def on_net_def st_on_def st_bind_def demo_network_simps
      begin_stage_def at_clock_def read_clock_def stage_begun_def on_active_def tls_address_def
      wrap_stream_def st_return_def handshake_address_def websocket_request_def handshake_result_def
      demo_env_simps demo_url_simps unwrap_or_def unspecified_ip_def or_else_def connected_state_def)
    blast

lemma connected_trans:
  assumes "connected_state s s1" "connected_state s1 s2"
  shows "connected_state s s2"
proof -
  obtain f d where 1: "s1 = s \<lparr> at_draws := d, at_progress := (at_progress s)
      \<lparr> ap_active := f, ap_stage_started_monotonic := 0 \<rparr> \<rparr>" using assms(1) unfolding connected_state_def by blast
  obtain g e where 2: "s2 = s1 \<lparr> at_draws := e, at_progress := (at_progress s1)
      \<lparr> ap_active := g, ap_stage_started_monotonic := 0 \<rparr> \<rparr>" using assms(2) unfolding connected_state_def by blast
  have "s2 = s \<lparr> at_draws := e, at_progress := (at_progress s)
      \<lparr> ap_active := g, ap_stage_started_monotonic := 0 \<rparr> \<rparr>" by (simp add: 1 2)
  then show ?thesis unfolding connected_state_def by blast
qed

lemma demo_connect:
  assumes "ec_tls_server_name c = None"
  shows "\<exists>s'. connect_websocket demo_env_bw demo_network i (''wss'', ''h'', x) dir c s =
    (Inr (Some \<lparr> cs_remote_ip = IPv4 1, cs_local_ip = IPv4 0 \<rparr>), s') \<and> connected_state s s'"
proof -
  obtain rid s1 where b: "begin_request demo_env_bw (''wss'', ''h'', x) dir c s = (rid, s1)" by fastforce
  then have c1: "connected_state s s1"
    by (auto simp: begin_request_def at_request_id_def at_failure_def request_failure_simple_def read_clock_def
        new_request_id_def on_progress_def connected_state_def demo_env_simps)
  obtain s2 where s2: "connect_address demo_env_bw demo_network i (''wss'', ''h'', x) c rid (IPv4 1, 443) s1 =
    (Inr (ArConnected \<lparr> cs_remote_ip = IPv4 1, cs_local_ip = IPv4 0 \<rparr>), s2)" "connected_state s1 s2"
    using demo_connect_address [OF assms] by blast
  have "connected_state s s2" by (rule connected_trans [OF c1 s2(2)])
  then show ?thesis
    using s2(1) by (simp add: connect_websocket_def b demo_env_simps demo_url_simps on_net_def st_on_def
        st_bind_def demo_network_simps)
qed


lemma connected_failures:
  "connected_state s s' \<Longrightarrow> attempt_failures s' = attempt_failures s \<and> at_net s' = at_net s \<and>
     ap_download (at_progress s') = ap_download (at_progress s)"
  by (auto simp: connected_state_def attempt_failures_def)

lemma demo_download:
  assumes "ec_tls_server_name c = None" "ec_download_url c = (''wss'', ''h'', x)"
  shows "\<exists>m s'. run_download demo_env_bw demo_network i c s = (Inr (Some m), s') \<and>
    attempt_failures s' = attempt_failures s"
proof -
  obtain s1 where s1: "connect_websocket demo_env_bw demo_network i (''wss'', ''h'', x) DirDownload c s =
    (Inr (Some \<lparr> cs_remote_ip = IPv4 1, cs_local_ip = IPv4 0 \<rparr>), s1)" "connected_state s s1"
    using demo_connect [OF assms(1)] by blast
  have "nw_download demo_network n = ([DlItem (WsItem (WsBinary 5)), DlItem (WsItem WsClose)], n)" for n
    by (simp add: demo_network_def)
  then show ?thesis
    using s1(1) connected_failures [OF s1(2)]
    by (simp add: run_download_def st_bind_def assms(2) transfer_download_def begin_stage_def at_clock_def
        read_clock_def demo_env_simps stage_begun_def on_progress_def report_phase_def download_start_def
        sat_add_def finish_download_def attempt_failures_def Let_def)
qed

lemma demo_upload:
  assumes "ec_tls_server_name c = None" "ec_upload_url c = (''wss'', ''h'', x)"
  shows "\<exists>m s'. run_upload demo_env_bw demo_network i c s = (Inr (Some m), s') \<and>
    attempt_failures s' = attempt_failures s \<and> ap_download (at_progress s') = ap_download (at_progress s)"
proof -
  obtain s1 where s1: "connect_websocket demo_env_bw demo_network i (''wss'', ''h'', x) DirUpload c s =
    (Inr (Some \<lparr> cs_remote_ip = IPv4 1, cs_local_ip = IPv4 0 \<rparr>), s1)" "connected_state s s1"
    using demo_connect [OF assms(1)] by blast
  show ?thesis
    using s1(1) connected_failures [OF s1(2)]
    by (simp add: run_upload_def st_bind_def assms(2) transfer_upload_socket_def begin_stage_def at_clock_def
        read_clock_def demo_env_simps stage_begun_def on_progress_def report_phase_def demo_network_def
        upload_start_def upload_step_def poll_upload_io_def upload_progressed_def upload_text_def update_metrics_def
        wire_upload_def supersedes_def UPLOAD_DURATION_def UPLOAD_CLOSE_TIMEOUT_def secs_def start_closing_def
        finish_upload_def attempt_failures_def upload_observed_def Let_def)
qed

lemma demo_candidate_run:
  assumes "ec_tls_server_name c = None" "ec_download_url c = (''wss'', ''h'', x)" "ec_upload_url c = (''wss'', ''h'', y)"
    "attempt_failures s = []"
  shows "\<exists>s'. run_candidates demo_env_bw demo_network i (c # cs) s = (Inr Success, s')"
proof -
  define s0 where "s0 = report_phase PhaseSetup (on_progress (\<lambda>p. p \<lparr> ap_server_name := Some (ec_logical_server c) \<rparr>) s)"
  have f0: "attempt_failures s0 = []" using assms(4) by (simp add: s0_def)
  obtain m s1 where 1: "run_download demo_env_bw demo_network i c s0 = (Inr (Some m), s1)" "attempt_failures s1 = []"
    using demo_download [OF assms(1,2), of i s0] f0 by auto
  define s2 where "s2 = on_progress (\<lambda>p. p \<lparr> ap_download := Some m \<rparr>) s1"
  have f2: "attempt_failures s2 = []" "ap_download (at_progress s2) = Some m" using 1(2) by (simp_all add: s2_def)
  then have go: "stop_outcome (at_progress s2) = None" "\<not> next_target (at_progress s2)"
    using soft_stop [of s2] by (simp_all add: next_target_def)
  obtain u s3 where 3: "run_upload demo_env_bw demo_network i c (report_phase PhaseSetup s2) = (Inr (Some u), s3)"
    "attempt_failures s3 = []" "ap_download (at_progress s3) = Some m"
    using demo_upload [OF assms(1,3), of i "report_phase PhaseSetup s2"] f2 by auto
  have "stop_outcome (at_progress (on_progress (\<lambda>p. p \<lparr> ap_upload := Some u \<rparr>) s3)) = None"
    by (rule soft_stop) (simp add: 3)
  then show ?thesis
    using 1 3 go
    by (simp add: s0_def [symmetric] s2_def [symmetric] st_bind_def unwrap_or_def directions_outcome_def Let_def)
qed

definition demo_result :: "bandwidth_report \<times> (nat, nat) attempt" where
  "demo_result = measure_bandwidth_with_network_and_gate_observed demo_env_bw demo_network (\<lambda>k. k) demo_gate
     demo_direct_config 3 None demo_draws 0 0"

text \<open>With any gate that grants the start, the test succeeds and is reserved.\<close>

lemma demo_gated:
  assumes "reserve 0 g = (Inr (Reserved day n), g')"
  obtains report s where "measure_bandwidth_with_network_and_gate_observed demo_env_bw demo_network (\<lambda>k. k) reserve
     demo_direct_config 3 None demo_draws 0 g = (report, s)" "br_outcome report = Success" "br_reserved report"
proof -
  define s0 where "s0 = attempt_start demo_env_bw demo_direct_config None demo_draws (0::nat) g"
  have f0: "attempt_failures s0 = []" "at_gate s0 = g" "attempt_upload s0 = None" "ap_download (at_progress s0) = None"
    unfolding s0_def by (rule attempt_start_fields)+
  define c where "c = \<lparr> ec_download_url = (''wss'', ''h'', ''/d''), ec_upload_url = (''wss'', ''h'', ''/u''),
    ec_logical_server = ''h'', ec_provider_id = ''p'', ec_provider_kind = PkDirect,
    ec_tls_server_name = None, ec_ca_cert = None, ec_allow_insecure = False \<rparr>"
  have res: "\<exists>d. resolve_endpoints demo_env_bw (rc_bandwidth demo_direct_config) i dr =
      (\<lparr> er_candidates = [c], er_failures = [], er_terminal = None \<rparr>, d)" for i dr
    by (simp add: resolve_endpoints_def demo_direct_config_def demo_mlab_def provider_resolve_direct_def
        new_request_id_def read_clock_def demo_env_simps demo_url_simps unwrap_or_def c_def)
  have locate: "on_net (nw_locate demo_network) s0 = (Inr (), s0 \<lparr> at_net := Suc (at_net s0) \<rparr>)"
    by (simp add: on_net_def st_on_def demo_network_simps)
  obtain d where d: "resolve_endpoints demo_env_bw (rc_bandwidth demo_direct_config)
      (config_interface demo_direct_config) (at_draws (s0 \<lparr> at_net := Suc (at_net s0) \<rparr>)) =
      (\<lparr> er_candidates = [c], er_failures = [], er_terminal = None \<rparr>, d)" using res by blast
  define s1 where "s1 = on_progress (keep_failures []) (s0 \<lparr> at_net := Suc (at_net s0), at_draws := d \<rparr>)"
  have f1: "attempt_failures s1 = []" "at_gate s1 = g" "attempt_upload s1 = None" "ap_download (at_progress s1) = None"
    unfolding s1_def keep_failures_fields using f0 by (simp_all add: attempt_failures_def attempt_upload_def)
  obtain s2 where s2: "reserve_start demo_env_bw reserve s1 = (True, s2)" "at_admission s2 = Reserved day n"
    using assms f1(2)
    by (simp add: reserve_start_def begin_stage_def at_clock_def read_clock_def demo_env_simps on_progress_def)
  note f2 = reserve_granted(2-4) [OF s2(1)]
  have c': "ec_tls_server_name c = None" "ec_download_url c = (''wss'', ''h'', ''/d'')" "ec_upload_url c = (''wss'', ''h'', ''/u'')"
    by (simp_all add: c_def)
  obtain s3 where s3: "run_candidates demo_env_bw demo_network (config_interface demo_direct_config) [c] s2 = (Inr Success, s3)"
    using demo_candidate_run [OF c'] f2(1) f1(1) by metis
  have run: "run_attempt demo_env_bw demo_network reserve demo_direct_config s0 = (Inr Success, s3)"
    using locate d s2(1) s3 by (simp add: run_attempt_def st_bind_def s1_def)
  have "candidates_end s2 (Inr Success) s3"
    by (rule run_candidates_end [OF s3]) (simp_all add: f1 f2)
  then have reserved: "at_admission s3 \<noteq> Untracked" using s2(2) by (simp add: candidates_end_def core_frame_def)
  obtain report s where m: "measure_bandwidth_with_network_and_gate_observed demo_env_bw demo_network (\<lambda>k. k) reserve
     demo_direct_config 3 None demo_draws 0 g = (report, s)" by fastforce
  obtain r s1' finished out where r:
    "run_attempt demo_env_bw demo_network reserve demo_direct_config
       (attempt_start demo_env_bw demo_direct_config None demo_draws 0 g) = (r, s1')"
    "report = report_of demo_env_bw (\<lambda>k. k) demo_direct_config 3 finished out s" "at_admission s = at_admission s1'"
    "r = Inr out \<or> (\<exists>j. r = Inl j)"
    by (rule measure_cases [OF m]) blast
  then have "r = Inr Success" "s1' = s3" using run by (simp_all add: s0_def)
  then show ?thesis using r reserved m that by (simp add: report_of_fields)
qed

lemma demo_success: "br_outcome (fst demo_result) = Success \<and> br_reserved (fst demo_result)"
proof -
  have "demo_gate 0 0 = (Inr (Reserved 0 1), 1)" by (simp add: demo_gate_def)
  from demo_gated [where reserve = demo_gate, OF this] show ?thesis by (metis demo_result_def fst_conv)
qed

lemma demo_measure:
  obtains report s where "measure_bandwidth_with_network_and_gate_observed demo_env_bw demo_network (\<lambda>k. k) demo_gate
     demo_direct_config 3 None demo_draws 0 0 = (report, s)" "demo_result = (report, s)"
    "br_outcome report = Success" "br_reserved report"
  using demo_success that by (metis demo_result_def prod.collapse)

theorem reservation_before_connection_witness:
  "\<exists>day n. ev_provider_accounting_date (last (br_events (fst demo_result))) = Some day \<and>
     ev_provider_daily_starts (last (br_events (fst demo_result))) = Some n \<and>
     (Inr (Reserved day n), at_gate (snd demo_result)) = (Inr (Reserved 0 1), 1)"
proof -
  obtain report s where m: "measure_bandwidth_with_network_and_gate_observed demo_env_bw demo_network (\<lambda>k. k) demo_gate
     demo_direct_config 3 None demo_draws 0 0 = (report, s)" "demo_result = (report, s)" "br_reserved report"
    by (rule demo_measure)
  from reservation_before_connection [OF m(1)] m(3) show ?thesis
    by (auto simp: m(2) demo_gate_def)
qed



text \<open>The Locate service refuses with status 429.\<close>

abbreviation demo_limited :: http_result where
  "demo_limited \<equiv> Responded \<lparr> rs_status = 429, rs_retry_after = None, rs_body = Inr [] \<rparr>"

definition demo_mlab_config :: "demo_url resolved_config" where
  "demo_mlab_config = demo_direct_config \<lparr> rc_bandwidth := demo_mlab \<rparr>"

definition demo_refused :: "bandwidth_report \<times> (nat, nat) attempt" where
  "demo_refused = measure_bandwidth_with_network_and_gate_observed (demo_provider_env demo_limited) demo_network
     (\<lambda>k. k) demo_gate demo_mlab_config 3 None demo_draws 0 0"

lemma demo_refused_resolution:
  "\<exists>R d f. resolve_endpoints (demo_provider_env demo_limited) demo_mlab (Some i) dr = (R, d) \<and> er_terminal R = Some f \<and>
     rf_outcome f = RateLimited"
  by (simp add: resolve_endpoints_def resolve_mlab_def bind_http_interface_def parse_retry_after_def demo_mlab_def
      demo_provider_env_def locate_status_def terminal_resolution_def stamp_failure_def new_request_id_def
      read_clock_def)

lemma demo_refused_outcome: "br_outcome (fst demo_refused) = RateLimited"
proof -
  let ?P = "demo_provider_env demo_limited"
  define s0 where "s0 = attempt_start ?P demo_mlab_config None demo_draws (0::nat) (0::nat)"
  have locate: "on_net (nw_locate demo_network) s0 = (Inr (), s0 \<lparr> at_net := Suc (at_net s0) \<rparr>)"
    by (simp add: on_net_def st_on_def demo_network_simps)
  have config: "rc_bandwidth demo_mlab_config = demo_mlab" "config_interface demo_mlab_config = Some ''eth0''"
    by (simp_all add: demo_mlab_config_def demo_direct_config_def config_interface_def)
  obtain R d f where R: "resolve_endpoints ?P demo_mlab (Some ''eth0'')
      (at_draws (s0 \<lparr> at_net := Suc (at_net s0) \<rparr>)) = (R, d)" "er_terminal R = Some f" "rf_outcome f = RateLimited"
    using demo_refused_resolution by blast
  obtain s1 where run: "run_attempt ?P demo_network demo_gate demo_mlab_config s0 = (Inr RateLimited, s1)"
    using locate R by (simp add: run_attempt_def st_bind_def config Let_def)
  obtain report s where m: "measure_bandwidth_with_network_and_gate_observed ?P demo_network (\<lambda>k. k) demo_gate
     demo_mlab_config 3 None demo_draws 0 0 = (report, s)" by fastforce
  obtain r s1' finished out where r:
    "run_attempt ?P demo_network demo_gate demo_mlab_config (attempt_start ?P demo_mlab_config None demo_draws 0 0) = (r, s1')"
    "report = report_of ?P (\<lambda>k. k) demo_mlab_config 3 finished out s" "r = Inr out \<or> (\<exists>j. r = Inl j)"
    by (rule measure_cases [OF m]) blast
  then have "r = Inr RateLimited" using run by (simp add: s0_def)
  then show ?thesis using r m by (simp add: demo_refused_def report_of_fields)
qed


text \<open>A test gated by the scheduler: whatever the network does, a direct provider is reserved.\<close>

lemma demo_gate_free: "block_reason_state demo_ext demo_policy 0 demo_provider = None"
  by (simp add: block_reason_state_def demo_policy_def demo_provider_def runs_on_day_def spacing_block_def)

lemma demo_sched_grants:
  "\<exists>day n s'. sched_reserve demo_ext demo_codec D 0 (demo_sched demo_provider) = (Inr (Reserved day n), s')"
proof -
  have q: "quiet demo_codec (Suc 1) (demo_sched demo_provider)"
    using demo_quiet [of demo_provider "Suc 1"] demo_inv [of "[]"] by (simp add: demo_provider_def)
  obtain r s' where run: "reserve_run demo_ext demo_codec 0 (demo_sched demo_provider) = (r, s')" by fastforce
  have d0: "date_naive 0 \<le> ps_day_utc demo_provider" by (simp add: date_naive_def demo_provider_def)
  obtain v where "r = Inr v"
    using quiet_reserve(2) [OF demo_codec_ok q run] demo_gate_free
    by (cases r) (auto simp: reconcile_day_id [OF d0])
  then show ?thesis using run by (simp add: sched_reserve_def)
qed

definition demo_display :: display where
  "demo_display = \<lparr> dp_path = (\<lambda>f. []), dp_io = (\<lambda>k. []) \<rparr>"


theorem reserved_test_within_limit_witness:
  "\<exists>report s n. measure_bandwidth_with_network_and_gate_observed demo_env_bw demo_network (\<lambda>k. k)
      (sched_reserve demo_ext demo_codec demo_display) demo_direct_config 3 None demo_draws 0
      (demo_sched demo_provider) = (report, s) \<and>
     ev_provider_daily_starts (result_of report) = Some n \<and> n \<le> 2"
proof -
  obtain day n s' where g: "sched_reserve demo_ext demo_codec demo_display 0 (demo_sched demo_provider) =
    (Inr (Reserved day n), s')" using demo_sched_grants by blast
  obtain report s where m: "measure_bandwidth_with_network_and_gate_observed demo_env_bw demo_network (\<lambda>k. k)
      (sched_reserve demo_ext demo_codec demo_display) demo_direct_config 3 None demo_draws 0
      (demo_sched demo_provider) = (report, s)" "br_reserved report"
    by (rule demo_gated [where reserve = "sched_reserve demo_ext demo_codec demo_display", OF g])
  have "quiet demo_codec 1 (demo_sched demo_provider)"
    using demo_quiet [of demo_provider 1] demo_inv [of "[]"] by (simp add: demo_provider_def)
  then have ok: "gate_ok (demo_sched demo_provider)"
    by (simp add: gate_ok_def quiet_def seated_def) (simp add: demo_policy_def)
  have "gate_limit (demo_sched demo_provider) = 2" by (simp add: gate_limit_def) (simp add: demo_policy_def)
  with reserved_test_within_limit [OF m(1) ok m(2)] show ?thesis using m(1) by fastforce
qed

text \<open>A session whose test is cancelled at once.\<close>

definition demo_command_env :: "(demo_url, nat, demo_byte, nat, measurement_event list) command_env" where
  "demo_command_env =
     \<lparr> be_provider = demo_env_bw, be_net = demo_network \<lparr> nw_locate := (\<lambda>n. (Inl ByCancellation, n)) \<rparr>,
       be_os = \<lparr> no_socket = (\<lambda>b. None), no_bind_supported = True, no_bind_device = (\<lambda>i. None),
         no_addresses = Inr [], no_bind_source = (\<lambda>a. None), no_tcp = (\<lambda>a n. (Inr None, n)), no_nodelay = None,
         no_lookup = (\<lambda>h p n. (Inr (Inl []), n)) \<rparr>,
       be_ext = demo_ext, be_codec = demo_codec, be_display = demo_display, be_sinks = demo_sinks False \<rparr>"

definition demo_input :: "nat once_input" where
  "demo_input =
     \<lparr> oi_session = 1, oi_run_id = 2, oi_started_at = 0, oi_finished_at = 0, oi_moments = demo_moment,
       oi_event_ids = (\<lambda>k. k), oi_draws = demo_draws, oi_net = 0 \<rparr>"


lemma number_events_room:
  "n + length evs \<le> u64_max \<Longrightarrow> \<exists>placed. number_events runs n evs = (n + length evs, Some placed)"
proof (induction evs arbitrary: n)
  case (Cons ev evs)
  then obtain placed where "number_events runs (n + 1) evs = (n + 1 + length evs, Some placed)"
    using Cons.IH [of "n + 1"] by auto
  then show ?case using Cons.prems by (simp add: checked_add_def)
qed simp

lemma demo_publish_room:
  assumes "\<not> oc_failed s" "oc_sequence s + length evs \<le> u64_max"
  shows "\<exists>s'. publish_batch (demo_sinks False) evs s = (Inr (), s') \<and> \<not> oc_failed s' \<and> oc_runs s' = oc_runs s \<and>
    oc_sequence s' = oc_sequence s + length evs"
  using assms number_events_room [OF assms(2), of "oc_runs s"]
  by (auto simp: publish_batch_def demo_sinks_def)

lemma demo_cancelled:
  "\<exists>report s. measure_bandwidth_with_gate demo_env_bw K (demo_network \<lparr> nw_locate := (\<lambda>n. (Inl ByCancellation, n)) \<rparr>)
     eid reserve demo_direct_config i d net g = (report, s) \<and> at_gate s = g \<and> br_reservation_error report = None \<and>
     length (br_events report) = 2"
proof -
  let ?N = "system_network K (demo_network \<lparr> nw_locate := (\<lambda>n. (Inl ByCancellation, n)) \<rparr>)"
  obtain report s where m: "measure_bandwidth_with_network_and_gate_observed demo_env_bw ?N eid reserve
     demo_direct_config i None d net g = (report, s)" by fastforce
  have "nw_locate ?N net = (Inl ByCancellation, net)" by (simp add: system_network_def)
  then have run: "run_attempt demo_env_bw ?N reserve demo_direct_config
      (attempt_start demo_env_bw demo_direct_config None d net g) =
      (Inl ByCancellation, attempt_start demo_env_bw demo_direct_config None d net g)"
    by (simp add: run_attempt_def st_bind_def on_net_def st_on_def attempt_start_fields)
  obtain r s1 finished out f where r:
    "run_attempt demo_env_bw ?N reserve demo_direct_config
       (attempt_start demo_env_bw demo_direct_config None d net g) = (r, s1)"
    "report = report_of demo_env_bw eid demo_direct_config i finished out s" "at_gate s = at_gate s1"
    "at_reservation_error s = at_reservation_error s1"
    "(r = Inr out \<and> attempt_failures s = attempt_failures s1) \<or> (\<exists>j f. r = Inl j \<and> attempt_failures s = attempt_failures s1 @ [f])"
    by (rule measure_cases [OF m]) blast
  then have s1: "r = Inl ByCancellation" "s1 = attempt_start demo_env_bw demo_direct_config None d net g"
    using run by simp_all
  then have "length (attempt_failures s) = 1" using r(5) by (auto simp: attempt_start_fields)
  then show ?thesis
    using r s1 m by (simp add: measure_bandwidth_with_gate_def measure_bandwidth_with_network_and_gate_def
        report_of_fields attempt_start_fields)
qed


lemma finish_attempt_rows:
  "finish_attempt X C run now op report s = (Inr (evs, report'), s') \<Longrightarrow>
   length (br_events report' @ evs) \<le> Suc (length (br_events report))"
  by (auto simp: finish_attempt_def opportunity_apply_timing_def Let_def
      split: option.splits sum.splits prod.splits)

lemma demo_start:
  "start_session (demo_sinks False) (demo_moment 0) 1 name (coordinator_new 0 []) =
     (Inr (), (coordinator_new 0 []) \<lparr> oc_sequence := 1, oc_journal := 1,
        oc_console := [place_event [] 1 (run_started_event (demo_sinks False) (demo_moment 0) 1 None 1 RkSession
          (Some name) run_context_default)],
        oc_runs := [(1, \<lparr> ar_root = 1, ar_parent = None, ar_kind = RkSession, ar_started_at = 0, ar_started = 0 \<rparr>)] \<rparr>)"
  by (simp add: start_session_def begin_run_def demo_publish coordinator_new_def bt_get_def demo_moment_def)

lemma demo_session_ok:
  "\<exists>report w. bandwidth_session demo_command_env demo_direct_config demo_input
     \<lparr> sw_coordinator = coordinator_new 0 [], sw_sched = demo_sched demo_provider \<rparr> = (Inr report, w) \<and>
     \<not> oc_failed (sw_coordinator w) \<and> oc_sequence (sw_coordinator w) \<le> 6"
proof -
  let ?w0 = "\<lparr> sw_coordinator = coordinator_new 0 [], sw_sched = demo_sched demo_provider \<rparr>"
  have q: "quiet demo_codec 3 (demo_sched demo_provider)"
    using demo_quiet [of demo_provider 3] demo_inv [of "[]"] by (simp add: demo_provider_def)
  then have q3: "quiet demo_codec (Suc 2) (demo_sched demo_provider)" by (simp add: eval_nat_numeral)
  obtain decision sched where p: "preflight_manual demo_ext demo_codec 1 0 (demo_sched demo_provider) = (Inr decision, sched)"
    "quiet demo_codec 2 sched"
    using quiet_preflight [OF demo_codec_ok q3] by blast
  obtain c1 a where c1: "start_session (demo_sinks False) (demo_moment 0) 1 ''once bandwidth'' (coordinator_new 0 []) = (Inr (), c1)"
    "oc_runs c1 = [(1, a)]" "\<not> oc_failed c1" "oc_sequence c1 = 1" "ar_parent a = None"
    unfolding demo_start by (simp add: coordinator_new_def)
  have env: "be_sinks demo_command_env = demo_sinks False" "be_ext demo_command_env = demo_ext"
    "be_codec demo_command_env = demo_codec" "oi_moments demo_input = demo_moment" "oi_session demo_input = 1"
    "oi_run_id demo_input = 2" "oi_started_at demo_input = 0" "oi_finished_at demo_input = 0"
    "be_provider demo_command_env = demo_env_bw" "be_display demo_command_env = demo_display"
    by (simp_all add: demo_command_env_def demo_input_def)
  show ?thesis
  proof (cases decision)
    case (ManualBlocked ev)
    obtain c2 where c2: "publish_batch (demo_sinks False) [ev] c1 = (Inr (), c2)" "\<not> oc_failed c2"
      "oc_sequence c2 = 2"
      using demo_publish_room [of c1 "[ev]"] c1 by auto
    have "quiet demo_codec (Suc 1) sched" using p(2) by (simp add: eval_nat_numeral)
    then obtain sched' where f: "sched_persist demo_codec sched = (Inr (), sched')"
      using quiet_persist [OF demo_codec_ok] by blast
    show ?thesis
      using c1(1) p(1) c2 f ManualBlocked
      by (simp add: bandwidth_session_def env st_bind_def on_coordinator_def on_sched_def st_error_def st_on_def
          st_return_def blocked_report_def sched_flush_def Let_def)
  next
    case ManualAllowed
    obtain c2 where c2: "start_run_with_context (demo_sinks False) (demo_moment 1) 2 1 RkBandwidth
        (bandwidth_run_context demo_direct_config TrManual) c1 = (Inr (), c2)"
      "\<not> oc_failed c2" "oc_sequence c2 = 2" "bt_get (oc_runs c2) 2 \<noteq> None" "\<not> has_child 2 (oc_runs c2)"
      using c1 by (simp add: start_run_with_context_def begin_run_def demo_publish bt_get_def has_child_def Let_def)
    obtain report0 s0 where m: "measure_bandwidth_with_gate demo_env_bw (be_os demo_command_env) (be_net demo_command_env)
        (oi_event_ids demo_input) (sched_reserve demo_ext demo_codec demo_display) demo_direct_config 2
        (oi_draws demo_input) (oi_net demo_input) sched = (report0, s0)" "at_gate s0 = sched"
      "br_reservation_error report0 = None" "length (br_events report0) = 2"
      using demo_cancelled [of "be_os demo_command_env" "oi_event_ids demo_input"
          "sched_reserve demo_ext demo_codec demo_display" 2 "oi_draws demo_input" "oi_net demo_input" sched]
      by (auto simp: demo_command_env_def)
    let ?op = "manual_opportunity demo_direct_config 0"
    let ?r = "opportunity_apply_timing ?op report0"
    have r: "br_reservation_error ?r = None" "length (br_events ?r) = 2"
      using m by (simp_all add: opportunity_apply_timing_def)
    have "quiet demo_codec (Suc 1) sched" using p(2) by (simp add: eval_nat_numeral)
    then obtain d sched' where f: "finish_attempt demo_ext demo_codec 2 0 ?op ?r sched = (Inr d, sched')"
      "quiet demo_codec 1 sched'"
      using quiet_finish [OF demo_codec_ok] by blast
    obtain evs report1 where d: "d = (evs, report1)" by fastforce
    have len: "length (br_events report1 @ evs) \<le> 3"
      using finish_attempt_rows [of demo_ext demo_codec 2 0 ?op ?r sched evs report1 sched'] f(1) d r(2) by simp
    let ?report = "report1 \<lparr> br_events := br_events report1 @ evs \<rparr>"
    obtain c3 where c3: "publish_batch (demo_sinks False) (br_events ?report) c2 = (Inr (), c3)" "\<not> oc_failed c3"
      "oc_runs c3 = oc_runs c2" "oc_sequence c3 \<le> 5"
      using demo_publish_room [of c2 "br_events ?report"] c2 len by auto
    obtain c4 where c4: "finish_run (demo_sinks False) (demo_moment 2) 2 (br_outcome ?report) None c3 = (Inr (), c4)"
      "\<not> oc_failed c4" "oc_sequence c4 \<le> 6"
      using c2 c3 by (auto simp: finish_run_def demo_publish)
    have "quiet demo_codec (Suc 0) sched'" using f(2) by simp
    then obtain sched'' where fl: "sched_persist demo_codec sched' = (Inr (), sched'')"
      using quiet_persist [OF demo_codec_ok] by blast
    have err: "br_reservation_error report1 = None"
      using f(1) d r(1) by (auto simp: finish_attempt_def opportunity_apply_timing_def Let_def
          split: option.splits sum.splits prod.splits)
    show ?thesis
      using c1(1) p(1) c2(1) m f(1) r c3(1) c4 fl err ManualAllowed
      by (simp add: bandwidth_session_def env st_bind_def on_coordinator_def on_sched_def st_error_def st_on_def
          st_return_def sched_flush_def measure_admitted_def settle_attempt_def d Let_def)
  qed
qed


theorem once_bandwidth_session_witness:
  "\<exists>report w c. bandwidth_session demo_command_env demo_direct_config demo_input
     \<lparr> sw_coordinator = coordinator_new 0 [], sw_sched = demo_sched demo_provider \<rparr> = (Inr report, w) \<and>
     close_session demo_command_env demo_moment 1 (Inr report) (sw_coordinator w) = (Inr report, c) \<and> oc_runs c = [] \<and>
     last (map shape (oc_console c)) = (RunFinished, 1, br_outcome report)"
proof -
  obtain report w where w: "bandwidth_session demo_command_env demo_direct_config demo_input
     \<lparr> sw_coordinator = coordinator_new 0 [], sw_sched = demo_sched demo_provider \<rparr> = (Inr report, w)"
    "\<not> oc_failed (sw_coordinator w)" "oc_sequence (sw_coordinator w) \<le> 6"
    using demo_session_ok by blast
  have env: "be_sinks demo_command_env = logging (demo_sinks False)" "oi_session demo_input = 1"
    "sk_flush (demo_sinks False) j = (Inr (), j)" for j
    by (simp_all add: demo_command_env_def demo_input_def) (simp add: demo_sinks_def)
  obtain s1 a where s1: "oc_runs s1 = [(1, a)]" "oc_runs (sw_coordinator w) = oc_runs s1"
    "start_session (logging (demo_sinks False)) (oi_moments demo_input 0) 1 ''once bandwidth'' (coordinator_new 0 []) = (Inr (), s1)"
    by (rule bandwidth_session_rows [OF w(1) env(1)]) (simp add: env)
  have "ar_parent a = None" using start_session_grows(3) [OF s1(3)] s1(1) by auto
  then have "\<exists>c. close_session demo_command_env demo_moment 1 (Inr report) (sw_coordinator w) = (Inr report, c)"
    using s1 w(2,3)
    by (simp add: close_session_def env finish_session_def finish_run_def has_child_def bt_get_def demo_publish
        coordinator_flush_def)
  then obtain c where c: "close_session demo_command_env demo_moment 1 (Inr report) (sw_coordinator w) = (Inr report, c)" ..
  then have c': "close_session demo_command_env demo_moment (oi_session demo_input) (Inr report) (sw_coordinator w) =
      (Inr report, c)" by (simp add: env)
  from once_bandwidth_session [OF w(1) c' env(1)] have "oc_runs c = []"
    "last (map shape (oc_console c)) = (RunFinished, 1, br_outcome report)" by (auto simp: env)
  then show ?thesis using w(1) c by blast
qed

end
