(* ===== verification/Monitor.thy ===== *)
theory Monitor
  imports Ping BandwidthOnce
begin

text \<open>
  \<open>monitor.rs\<close>: the long-running monitors. Each is a loop around a \<open>select!\<close>; what the select
  comes to in one turn of the loop (the task of the active round ended, a cancellation, a tick)
  is part of the input \<open>turn\<close>, so a run is a list of turns. Clock readings and fresh identifiers
  are drawn one by one.
\<close>

subsection \<open>Data\<close>

record ping_monitor_config =
  pm_interface :: "string option"
  pm_run_id :: run_id
  pm_targets :: "ip_addr list"
  pm_interval :: duration
  pm_timeout :: duration
  pm_identifier :: "16 word"
  pm_health :: health_config

record monitor_stats =
  mt_rounds_started :: nat
  mt_rounds_completed :: nat
  mt_skipped_ticks :: nat
  mt_successful_probes :: nat
  mt_failed_probes :: nat
  mt_bandwidth_attempts :: nat
  mt_interface_failures :: nat

definition monitor_stats_default :: monitor_stats where
  "monitor_stats_default =
     \<lparr> mt_rounds_started = 0, mt_rounds_completed = 0, mt_skipped_ticks = 0, mt_successful_probes = 0,
       mt_failed_probes = 0, mt_bandwidth_attempts = 0, mt_interface_failures = 0 \<rparr>"

datatype monitor_error =
    MeJournal journal_error
  | MeRound ping_round_error
  | MeTask string
  | MeScheduler scheduler_error

definition monitor_error_text :: "display \<Rightarrow> monitor_error \<Rightarrow> string" where
  "monitor_error_text D e =
     (case e of
        MeJournal e \<Rightarrow> journal_error_text e
      | MeRound e \<Rightarrow> ping_round_error_text e
      | MeTask e \<Rightarrow> ''ping scheduler task failed: '' @ e
      | MeScheduler e \<Rightarrow> error_text D e)"

text \<open>The state all monitors share: the locals of their loops.\<close>

record ('b, 'j, 'c) monitor =
  mn_coordinator :: "('j, 'c) coordinator"
  mn_sched :: "'b sched option"
  mn_stats :: monitor_stats
  mn_next_round :: u64
  mn_draws :: draws

type_synonym ('b, 'j, 'c, 'z, 'a) mop =
  "('b, 'j, 'c, 'z) monitor_scheme \<Rightarrow> (monitor_error + 'a) \<times> ('b, 'j, 'c, 'z) monitor_scheme"

text \<open>How the task of a round ends: with what its probes came to, or lost.\<close>

datatype task_end = TaskDone "probe_request \<Rightarrow> probe_task" | TaskLost string

subsection \<open>Parts of the state\<close>

definition on_journal ::
    "(('j, 'c) coordinator \<Rightarrow> (journal_error + 'a) \<times> ('j, 'c) coordinator) \<Rightarrow> ('b, 'j, 'c, 'z, 'a) mop" where
  "on_journal f = st_error MeJournal (st_on mn_coordinator (\<lambda>c s. s \<lparr> mn_coordinator := c \<rparr>) f)"

text \<open>Only called where there is a scheduler.\<close>

definition on_scheduler :: "('b, 'a) sop \<Rightarrow> ('b, 'j, 'c, 'z, 'a) mop" where
  "on_scheduler f =
     st_error MeScheduler (st_on (\<lambda>s. the (mn_sched s)) (\<lambda>c s. s \<lparr> mn_sched := Some c \<rparr>) f)"

definition mn_clock :: "('u, 'n, 'b, 'j, 'c) command_env \<Rightarrow> ('b, 'j, 'c, 'z, time \<times> nat) mop" where
  "mn_clock E s = (let (r, d) = read_clock (be_provider E) (mn_draws s) in (Inr r, s \<lparr> mn_draws := d \<rparr>))"

definition mn_fresh :: "('b, 'j, 'c, 'z, uuid) mop" where
  "mn_fresh s = (let (r, d) = new_request_id (mn_draws s) in (Inr r, s \<lparr> mn_draws := d \<rparr>))"

definition mn_moment :: "('u, 'n, 'b, 'j, 'c) command_env \<Rightarrow> ('b, 'j, 'c, 'z, moment) mop" where
  "mn_moment E =
     st_bind (mn_clock E) (\<lambda>now.
     st_bind mn_fresh (\<lambda>i.
     st_return \<lparr> mo_utc = fst now, mo_mono = snd now, mo_event_id = i \<rparr>))"

definition count :: "(monitor_stats \<Rightarrow> monitor_stats) \<Rightarrow> ('b, 'j, 'c, 'z, unit) mop" where
  "count f s = (Inr (), s \<lparr> mn_stats := f (mn_stats s) \<rparr>)"

definition publish :: "('u, 'n, 'b, 'j, 'c) command_env \<Rightarrow> measurement_event list \<Rightarrow> ('b, 'j, 'c, 'z, unit) mop" where
  "publish E events = on_journal (publish_batch (be_sinks E) events)"

definition end_run :: "('u, 'n, 'b, 'j, 'c) command_env \<Rightarrow> run_id \<Rightarrow> outcome \<Rightarrow> ('b, 'j, 'c, 'z, unit) mop" where
  "end_run E i out = st_bind (mn_moment E) (\<lambda>m. on_journal (finish_run (be_sinks E) m i out None))"

subsection \<open>Ticks\<close>

text \<open>\<open>chrono::Duration\<close> holds at most \<open>i64::MAX\<close> milliseconds.\<close>

definition chrono_duration :: "duration \<Rightarrow> int" where
  "chrono_duration d = int (min d (9223372036854775807 * ns_per_ms))"

record ping_ticker =
  tk_anchor :: nat
  tk_anchor_utc :: time

definition ticker_new :: "('u, 'n, 'b, 'j, 'c) command_env \<Rightarrow> ('b, 'j, 'c, 'z, ping_ticker) mop" where
  "ticker_new E =
     st_bind (mn_clock E) (\<lambda>anchor.
     st_bind (mn_clock E) (\<lambda>utc.
     st_return \<lparr> tk_anchor = snd anchor, tk_anchor_utc = fst utc \<rparr>))"

text \<open>The time a tick was due, from the deadline the interval gives.\<close>

definition tick :: "ping_ticker \<Rightarrow> nat \<Rightarrow> time" where
  "tick T deadline = tk_anchor_utc T + chrono_duration (deadline - tk_anchor T)"

subsection \<open>Rounds\<close>

definition monitor_request ::
    "ping_monitor_config \<Rightarrow> run_id \<Rightarrow> u64 \<Rightarrow> time \<Rightarrow> load_phase option \<Rightarrow> run_id option \<Rightarrow> ping_round_request" where
  "monitor_request config child round_number scheduled_at load_phase load_run_id =
     \<lparr> pg_run_id = child, pg_round_number = round_number, pg_targets = pm_targets config,
       pg_timeout = pm_timeout config, pg_scheduled_at_utc = Some scheduled_at,
       pg_identifier = pm_identifier config, pg_load_phase = load_phase, pg_load_run_id = load_run_id \<rparr>"

text \<open>The request stands for the spawned task.\<close>

definition start_round ::
    "('u, 'n, 'b, 'j, 'c) command_env \<Rightarrow> ping_monitor_config \<Rightarrow> u64 \<Rightarrow> time \<Rightarrow> load_phase option \<Rightarrow>
     run_id option \<Rightarrow> ('b, 'j, 'c, 'z, ping_round_request) mop" where
  "start_round E config round_number scheduled_at load_phase load_run_id =
     st_bind mn_fresh (\<lambda>child.
     let g = monitor_request config child round_number scheduled_at load_phase load_run_id in
     case validate_round_request g of
       Inl e \<Rightarrow> st_fail (MeRound e)
     | Inr _ \<Rightarrow>
         st_bind (mn_moment E) (\<lambda>m.
         st_bind (on_journal (start_run_with_context (be_sinks E) m child (pm_run_id config) RkPingRound
           (run_context_default \<lparr> rx_interface := pm_interface config, rx_load_phase := load_phase,
                                  rx_load_run_id := load_run_id \<rparr>))) (\<lambda>_.
         st_return g)))"

text \<open>A round started at the next number, as every loop does it.\<close>

definition next_round ::
    "('u, 'n, 'b, 'j, 'c) command_env \<Rightarrow> ping_monitor_config \<Rightarrow> time \<Rightarrow> load_phase option \<Rightarrow> run_id option \<Rightarrow>
     ('b, 'j, 'c, 'z, ping_round_request) mop" where
  "next_round E config scheduled_at load_phase load_run_id s =
     st_bind (start_round E config (mn_next_round s) scheduled_at load_phase load_run_id) (\<lambda>g s.
       (Inr g, s \<lparr> mn_stats := (mn_stats s) \<lparr> mt_rounds_started := mt_rounds_started (mn_stats s) + 1 \<rparr>,
                  mn_next_round := mn_next_round s + 1 \<rparr>)) s"

text \<open>The result of the task, with its two question marks.\<close>

definition round_result ::
    "('u, 'n, 'b, 'j, 'c) command_env \<Rightarrow> ping_round_request \<Rightarrow> task_end \<Rightarrow> ('b, 'j, 'c, 'z, ping_round_report) mop" where
  "round_result E g r =
     (case r of
        TaskLost e \<Rightarrow> st_fail (MeTask e)
      | TaskDone tasks \<Rightarrow>
          (case measure_round (nw_show_duration (be_net E)) tasks g of
             Inl e \<Rightarrow> st_fail (MeRound e)
           | Inr report \<Rightarrow> st_return report))"

definition publish_ping_report ::
    "('u, 'n, 'b, 'j, 'c) command_env \<Rightarrow> ping_round_report \<Rightarrow> ('b, 'j, 'c, 'z, unit) mop" where
  "publish_ping_report E report =
     st_bind (publish E (pp_events report)) (\<lambda>_.
     end_run E (ev_run_id (hd (pp_events report))) (report_outcome report))"

definition count_round :: "ping_round_report \<Rightarrow> monitor_stats \<Rightarrow> monitor_stats" where
  "count_round report t =
     t \<lparr> mt_rounds_completed := mt_rounds_completed t + 1,
         mt_successful_probes := mt_successful_probes t + pp_successful report,
         mt_failed_probes := mt_failed_probes t + pp_failed report \<rparr>"

definition skip_tick :: "monitor_stats \<Rightarrow> monitor_stats" where
  "skip_tick t = t \<lparr> mt_skipped_ticks := mt_skipped_ticks t + 1 \<rparr>"

text \<open>\<open>observe_rounds_total\<close> of \<open>Health\<close> is why the decision is always there.\<close>

definition observed :: "ping_round_report \<Rightarrow> health_window \<Rightarrow> health_decision \<times> health_window" where
  "observed report w = (let (d, w) = observe_events (pp_events report) w in (the d, w))"

definition is_degraded :: "health_decision \<Rightarrow> bool" where
  "is_degraded d = (case d of HdDegraded _ _ \<Rightarrow> True | _ \<Rightarrow> False)"

definition complete_loaded_round ::
    "('u, 'n, 'b, 'j, 'c) command_env \<Rightarrow> ping_round_request \<Rightarrow> task_end \<Rightarrow> ('b, 'j, 'c, 'z, unit) mop" where
  "complete_loaded_round E g r =
     st_bind (round_result E g r) (\<lambda>report.
     st_bind (publish_ping_report E report) (\<lambda>_.
     count (count_round report)))"

subsection \<open>A bandwidth test while monitoring\<close>

text \<open>
  What happens while the test runs: the task of the active round ends, or a tick comes, with the
  phase the test is in then.
\<close>

datatype load_event = LoadTask task_end | LoadTick nat load_phase

text \<open>
  The \<open>select!\<close> of a turn: the task ended, a cancellation or a spurious change (with what the
  active task then comes to), or a tick at a deadline.
\<close>

datatype wait = WaitTask task_end | WaitCancelled bool task_end | WaitTick nat

text \<open>
  The input of one turn: whether a shutdown is seen at its top, with the end of the active task;
  the select; what resolving an interface gives; and for a bandwidth test its network, the
  identifiers of its rows, what happens meanwhile, and the end of a round still active after it.
\<close>

record 'n turn =
  tn_shutdown :: "task_end option"
  tn_wait :: wait
  tn_resolve :: "string \<Rightarrow> interface_error + resolved_interface"
  tn_net :: 'n
  tn_event_ids :: "nat \<Rightarrow> event_id"
  tn_load :: "load_event list"
  tn_load_end :: task_end

definition run_test ::
    "('u, 'n, 'b, 'j, 'c) command_env \<Rightarrow> 'u resolved_config \<Rightarrow> run_id \<Rightarrow> 'n turn \<Rightarrow>
     ('b, 'j, 'c, 'z, bandwidth_report) mop" where
  "run_test E config i t s =
     (let (report, a) = measure_bandwidth_with_gate_and_phase (be_provider E) (be_os E) (be_net E) (tn_event_ids t)
            (sched_reserve (be_ext E) (be_codec E) (be_display E)) config i PhaseSetup (mn_draws s) (tn_net t)
            (the (mn_sched s))
      in (Inr report, s \<lparr> mn_sched := Some (at_gate a), mn_draws := at_draws a \<rparr>))"

definition load_step ::
    "('u, 'n, 'b, 'j, 'c) command_env \<Rightarrow> ping_ticker \<Rightarrow> ping_monitor_config \<Rightarrow> run_id \<Rightarrow> load_event \<Rightarrow>
     ping_round_request option \<Rightarrow> ('b, 'j, 'c, 'z, ping_round_request option) mop" where
  "load_step E T ping bandwidth_run_id e active =
     (case (active, e) of
        (Some g, LoadTask r) \<Rightarrow> st_bind (complete_loaded_round E g r) (\<lambda>_. st_return None)
      | (Some g, LoadTick _ _) \<Rightarrow> st_bind (count skip_tick) (\<lambda>_. st_return active)
      | (None, LoadTask _) \<Rightarrow> st_return None
      | (None, LoadTick deadline phase) \<Rightarrow>
          st_bind (next_round E ping (tick T deadline) (Some phase) (Some bandwidth_run_id)) (\<lambda>g. st_return (Some g)))"

fun load_loop ::
    "('u, 'n, 'b, 'j, 'c) command_env \<Rightarrow> ping_ticker \<Rightarrow> ping_monitor_config \<Rightarrow> run_id \<Rightarrow> load_event list \<Rightarrow>
     ping_round_request option \<Rightarrow> ('b, 'j, 'c, 'z, ping_round_request option) mop" where
  "load_loop E T ping bandwidth_run_id [] active = st_return active"
| "load_loop E T ping bandwidth_run_id (e # es) active =
     st_bind (load_step E T ping bandwidth_run_id e active) (load_loop E T ping bandwidth_run_id es)"

text \<open>
  The test works on the scheduler and the rounds on the coordinator, so the test is computed
  first. Where a round fails and the test is dropped, its network is one that was interrupted there.
\<close>

definition measure_bandwidth_while_monitoring ::
    "('u, 'n, 'b, 'j, 'c) command_env \<Rightarrow> ping_ticker \<Rightarrow> 'u resolved_config \<Rightarrow> ping_monitor_config \<Rightarrow> run_id \<Rightarrow>
     bandwidth_opportunity \<Rightarrow> 'n turn \<Rightarrow> ('b, 'j, 'c, 'z, bandwidth_report) mop" where
  "measure_bandwidth_while_monitoring E T resolved ping bandwidth_run_id op t =
     st_bind (mn_moment E) (\<lambda>m.
     st_bind (on_journal (start_run_with_context (be_sinks E) m bandwidth_run_id (pm_run_id ping) RkBandwidth
                (bandwidth_run_context resolved (op_reason op)))) (\<lambda>_.
     st_bind (run_test E resolved bandwidth_run_id t) (\<lambda>report.
     st_bind (load_loop E T (ping \<lparr> pm_interface := config_interface resolved \<rparr>) bandwidth_run_id (tn_load t) None)
       (\<lambda>active.
     st_bind (case active of
                None \<Rightarrow> st_return ()
              | Some g \<Rightarrow> complete_loaded_round E g (tn_load_end t)) (\<lambda>_.
     st_return report)))))"

definition finish_test ::
    "('u, 'n, 'b, 'j, 'c) command_env \<Rightarrow> run_id \<Rightarrow> bandwidth_opportunity \<Rightarrow> bandwidth_report \<Rightarrow>
     ('b, 'j, 'c, 'z, bandwidth_report) mop" where
  "finish_test E i op report =
     st_bind (mn_clock E) (\<lambda>now.
     st_bind (on_scheduler (finish_attempt (be_ext E) (be_codec E) i (fst now) op report)) (\<lambda>(events, report).
     st_return (report \<lparr> br_events := br_events report @ events \<rparr>)))"

definition settle_bandwidth ::
    "('u, 'n, 'b, 'j, 'c) command_env \<Rightarrow> run_id \<Rightarrow> bandwidth_opportunity \<Rightarrow> bandwidth_report \<Rightarrow>
     ('b, 'j, 'c, 'z, unit) mop" where
  "settle_bandwidth E i op report =
     (let report = opportunity_apply_timing op report;
          reservation_error = br_reservation_error report
      in st_bind (if reservation_error = None then finish_test E i op report else st_return report) (\<lambda>report.
         st_bind (publish E (br_events report)) (\<lambda>_.
         st_bind (end_run E i (br_outcome report)) (\<lambda>_.
         case reservation_error of
           Some message \<Rightarrow> st_fail (MeScheduler (SAdmission message))
         | None \<Rightarrow> st_return ()))))"

definition count_attempt :: "monitor_stats \<Rightarrow> monitor_stats" where
  "count_attempt t = t \<lparr> mt_bandwidth_attempts := mt_bandwidth_attempts t + 1 \<rparr>"

subsection \<open>Pings only, and the adaptive monitor of one link\<close>

record ('b, 'j, 'c) ping_monitor = "('b, 'j, 'c) monitor" +
  px_active :: "ping_round_request option"
  px_health :: health_window
  px_latest_success :: bool

type_synonym ('b, 'j, 'c, 'a) pop = "('b, 'j, 'c) ping_monitor \<Rightarrow> (monitor_error + 'a) \<times> ('b, 'j, 'c) ping_monitor"

definition complete_round ::
    "('u, 'n, 'b, 'j, 'c) command_env \<Rightarrow> ping_round_request \<Rightarrow> task_end \<Rightarrow>
     ('b, 'j, 'c, health_decision \<times> bool) pop" where
  "complete_round E g r =
     st_bind (round_result E g r) (\<lambda>report.
     st_bind (publish_ping_report E report) (\<lambda>_ s.
       let (decision, health) = observed report (px_health s)
       in (Inr (decision, 0 < pp_successful report),
           s \<lparr> px_health := health, mn_stats := count_round report (mn_stats s) \<rparr>)))"

text \<open>The select while a round is active; \<open>after\<close> is what the monitor does with its result.\<close>

definition active_wait ::
    "('u, 'n, 'b, 'j, 'c) command_env \<Rightarrow> 'n turn \<Rightarrow> (health_decision \<times> bool \<Rightarrow> ('b, 'j, 'c, unit) pop) \<Rightarrow>
     ping_round_request \<Rightarrow> ('b, 'j, 'c, bool) pop" where
  "active_wait E t after g s =
     (case tn_wait t of
        WaitTask r \<Rightarrow>
          st_bind (complete_round E g r) (\<lambda>d. st_bind (after d) (\<lambda>_. st_return False)) (s \<lparr> px_active := None \<rparr>)
      | WaitCancelled cancelled r \<Rightarrow>
          (if cancelled then st_bind (complete_round E g r) (\<lambda>_. st_return True) (s \<lparr> px_active := None \<rparr>)
           else (Inr False, s))
      | WaitTick _ \<Rightarrow> st_bind (count skip_tick) (\<lambda>_. st_return False) s)"

text \<open>The select without one.\<close>

definition idle_wait ::
    "('u, 'n, 'b, 'j, 'c) command_env \<Rightarrow> ping_ticker \<Rightarrow> ping_monitor_config \<Rightarrow> 'n turn \<Rightarrow> ('b, 'j, 'c, bool) pop" where
  "idle_wait E T config t =
     (case tn_wait t of
        WaitTask _ \<Rightarrow> st_return False
      | WaitCancelled cancelled _ \<Rightarrow> st_return cancelled
      | WaitTick deadline \<Rightarrow>
          st_bind (next_round E config (tick T deadline) None None) (\<lambda>g s. (Inr False, s \<lparr> px_active := Some g \<rparr>)))"

definition ping_step ::
    "('u, 'n, 'b, 'j, 'c) command_env \<Rightarrow> ping_ticker \<Rightarrow> ping_monitor_config \<Rightarrow> 'n turn \<Rightarrow> ('b, 'j, 'c, bool) pop" where
  "ping_step E T config t s =
     (case px_active s of
        Some g \<Rightarrow> active_wait E t (\<lambda>_. st_return ()) g s
      | None \<Rightarrow> idle_wait E T config t s)"

definition observe_decision ::
    "('u, 'n, 'b, 'j, 'c) command_env \<Rightarrow> ping_monitor_config \<Rightarrow> health_decision \<times> bool \<Rightarrow> ('b, 'j, 'c, unit) pop" where
  "observe_decision E config d s =
     st_bind (mn_clock E) (\<lambda>now.
     st_bind (on_scheduler (observe_health (be_ext E) (be_codec E) (pm_run_id config) (fst now) (fst d))) (publish E))
       (s \<lparr> px_latest_success := snd d \<rparr>)"

definition adaptive_attempt ::
    "('u, 'n, 'b, 'j, 'c) command_env \<Rightarrow> ping_ticker \<Rightarrow> 'u resolved_config \<Rightarrow> ping_monitor_config \<Rightarrow> 'n turn \<Rightarrow>
     bandwidth_opportunity \<Rightarrow> ('b, 'j, 'c, bool) pop" where
  "adaptive_attempt E T resolved config t op =
     st_bind mn_fresh (\<lambda>bandwidth_run_id.
     st_bind (measure_bandwidth_while_monitoring E T resolved config bandwidth_run_id op t) (\<lambda>report.
     st_bind (count count_attempt) (\<lambda>_.
     st_bind (settle_bandwidth E bandwidth_run_id op report) (\<lambda>_.
     st_return False))))"

definition adaptive_step ::
    "('u, 'n, 'b, 'j, 'c) command_env \<Rightarrow> ping_ticker \<Rightarrow> 'u resolved_config \<Rightarrow> ping_monitor_config \<Rightarrow> 'n turn \<Rightarrow>
     ('b, 'j, 'c, bool) pop" where
  "adaptive_step E T resolved config t s =
     (case (tn_shutdown t, px_active s) of
        (Some r, Some g) \<Rightarrow> st_bind (complete_round E g r) (\<lambda>_. st_return True) (s \<lparr> px_active := None \<rparr>)
      | (Some _, None) \<Rightarrow> (Inr True, s)
      | (None, Some g) \<Rightarrow> active_wait E t (observe_decision E config) g s
      | (None, None) \<Rightarrow>
          st_bind (mn_clock E) (\<lambda>now.
          st_bind (on_scheduler (poll (be_ext E) (be_codec E) (pm_run_id config) (fst now) (px_latest_success s)))
            (\<lambda>action.
          st_bind (publish E (sp_events action)) (\<lambda>_.
          case sp_opportunity action of
            Some op \<Rightarrow> adaptive_attempt E T resolved config t op
          | None \<Rightarrow> idle_wait E T config t))) s)"

text \<open>A loop over the turns that come; whether it has ended.\<close>

fun run_loop :: "('t \<Rightarrow> 's \<Rightarrow> ('e + bool) \<times> 's) \<Rightarrow> 't list \<Rightarrow> 's \<Rightarrow> ('e + bool) \<times> 's" where
  "run_loop step [] = st_return False"
| "run_loop step (t # ts) = st_bind (step t) (\<lambda>stop. if stop then st_return True else run_loop step ts)"

subsection \<open>Interfaces\<close>

record interface_runtime =
  ir_name :: string
  ir_health :: health_window
  ir_latest_success :: bool
  ir_degraded :: bool
  ir_available :: bool
  ir_retry_at :: "nat option"
  ir_backoff_step :: nat

definition interface_runtime_new :: "health_config \<Rightarrow> string \<Rightarrow> interface_runtime" where
  "interface_runtime_new health name =
     \<lparr> ir_name = name, ir_health = health_window_new health, ir_latest_success = False, ir_degraded = False,
       ir_available = True, ir_retry_at = None, ir_backoff_step = 0 \<rparr>"

definition can_resolve :: "nat \<Rightarrow> interface_runtime \<Rightarrow> bool" where
  "can_resolve now r = (case ir_retry_at r of None \<Rightarrow> True | Some deadline \<Rightarrow> deadline \<le> now)"

text \<open>Whether it recovered by this.\<close>

definition mark_available :: "interface_runtime \<Rightarrow> bool \<times> interface_runtime" where
  "mark_available r =
     (\<not> ir_available r, r \<lparr> ir_available := True, ir_retry_at := None, ir_backoff_step := 0 \<rparr>)"

definition mark_failed :: "nat \<Rightarrow> interface_runtime \<Rightarrow> duration \<times> interface_runtime" where
  "mark_failed now r =
     (let seconds = 2 ^ min (ir_backoff_step r) 6;
          delay = secs (min seconds 60)
      in (delay, r \<lparr> ir_available := False, ir_latest_success := False, ir_retry_at := Some (now + delay),
                     ir_backoff_step := min (sat_add 255 (ir_backoff_step r) 1) 6 \<rparr>))"

record ('b, 'j, 'c) multi_monitor = "('b, 'j, 'c) monitor" +
  mx_active :: "(nat \<times> ping_round_request) option"
  mx_interfaces :: "interface_runtime list"
  mx_fairness :: selector
  mx_next_interface :: nat

type_synonym ('b, 'j, 'c, 'a) xop = "('b, 'j, 'c) multi_monitor \<Rightarrow> (monitor_error + 'a) \<times> ('b, 'j, 'c) multi_monitor"

definition set_interface :: "nat \<Rightarrow> interface_runtime \<Rightarrow> ('b, 'j, 'c) multi_monitor \<Rightarrow> ('b, 'j, 'c) multi_monitor" where
  "set_interface index r s = s \<lparr> mx_interfaces := (mx_interfaces s)[index := r] \<rparr>"

definition observed_interface :: "ping_round_report \<Rightarrow> interface_runtime \<Rightarrow> health_decision \<times> interface_runtime" where
  "observed_interface report r =
     (let (decision, health) = observed report (ir_health r)
      in (decision, r \<lparr> ir_health := health, ir_latest_success := 0 < pp_successful report,
                        ir_degraded := is_degraded decision \<rparr>))"

definition complete_interface_round ::
    "('u, 'n, 'b, 'j, 'c) command_env \<Rightarrow> run_id \<Rightarrow> nat \<Rightarrow> ping_round_report \<Rightarrow> ('b, 'j, 'c, unit) xop" where
  "complete_interface_round E run index report =
     st_bind (publish_ping_report E report) (\<lambda>_ s.
       let (decision, r) = observed_interface report (mx_interfaces s ! index);
           s = set_interface index r s \<lparr> mn_stats := count_round report (mn_stats s) \<rparr>
       in if mn_sched s = None then (Inr (), s)
          else
            st_bind (mn_clock E) (\<lambda>now.
            st_bind (on_scheduler (observe_interface_health (be_ext E) (be_codec E) run (fst now)
                       (Some (ir_name r)) decision)) (publish E)) s)"

definition unassigned :: string where "unassigned = ''unassigned''"

definition interface_event ::
    "('u, 'n, 'b, 'j, 'c) command_env \<Rightarrow> run_id \<Rightarrow> string \<Rightarrow> outcome \<Rightarrow> error_kind option \<Rightarrow> time option \<Rightarrow>
     scheduler_action \<times> scheduler_reason \<times> string \<Rightarrow> ('b, 'j, 'c, measurement_event) xop" where
  "interface_event E run interface out kind retry_at decision =
     st_bind (mn_moment E) (\<lambda>m.
     st_return ((event_new (mo_event_id m) run SchedulerEvent out (mo_utc m))
       \<lparr> ev_interface := (if interface = unassigned then None else Some interface), ev_error_kind := kind,
         ev_scheduler_not_before_utc := retry_at, ev_scheduler_action := Some (fst decision),
         ev_scheduler_reason := Some (fst (snd decision)), ev_message := Some (snd (snd decision)) \<rparr>))"

definition count_failure :: "monitor_stats \<Rightarrow> monitor_stats" where
  "count_failure t = t \<lparr> mt_interface_failures := mt_interface_failures t + 1 \<rparr>"

text \<open>An interface that did not resolver: marked and counted, with the event of its retry.\<close>

definition interface_failed ::
    "('u, 'n, 'b, 'j, 'c) command_env \<Rightarrow> run_id \<Rightarrow> nat \<Rightarrow> scheduler_action \<times> scheduler_reason \<times> string \<Rightarrow>
     ('b, 'j, 'c, measurement_event) xop" where
  "interface_failed E run index decision =
     st_bind (mn_clock E) (\<lambda>now s.
       let (delay, r) = mark_failed (snd now) (mx_interfaces s ! index) in
       st_bind (count count_failure) (\<lambda>_.
       st_bind (mn_clock E) (\<lambda>utc.
       interface_event E run (ir_name r) Deferred (Some EkIo) (Some (fst utc + chrono_duration delay)) decision))
         (set_interface index r s))"

definition find_interface :: "string \<Rightarrow> interface_runtime list \<Rightarrow> nat option" where
  "find_interface name rs = find (\<lambda>i. ir_name (rs ! i) = name) [0..<length rs]"

definition instant_to_utc :: "('u, 'n, 'b, 'j, 'c) command_env \<Rightarrow> nat \<Rightarrow> ('b, 'j, 'c, time) xop" where
  "instant_to_utc E deadline =
     st_bind (mn_clock E) (\<lambda>utc.
     st_bind (mn_clock E) (\<lambda>now.
     st_return (fst utc + chrono_duration (deadline - snd now))))"

definition make_available :: "nat \<Rightarrow> ('b, 'j, 'c, bool) xop" where
  "make_available index s =
     (let (recovered, r) = mark_available (mx_interfaces s ! index) in (Inr recovered, set_interface index r s))"

text \<open>The test was asked for on one interface: there or nowhere.\<close>

definition select_requested ::
    "('u, 'n, 'b, 'j, 'c) command_env \<Rightarrow> run_id \<Rightarrow> (string \<Rightarrow> interface_error + resolved_interface) \<Rightarrow> string \<Rightarrow>
     ('b, 'j, 'c, string option \<times> measurement_event list) xop" where
  "select_requested E run resolver requested s =
     (let suppressed = (\<lambda>out kind retry_at reason.
            st_bind (interface_event E run requested out kind retry_at (BandwidthSuppressed, reason))
              (\<lambda>ev. st_return (None, [ev])))
      in case find_interface requested (mx_interfaces s) of
           None \<Rightarrow> suppressed ErrorOutcome (Some EkIo) None
                     (TriggerInterfaceMissing, ''reason=trigger_interface_missing'') s
         | Some index \<Rightarrow>
             st_bind (mn_clock E) (\<lambda>now s.
               if \<not> can_resolve (snd now) (mx_interfaces s ! index)
               then
                 st_bind (case ir_retry_at (mx_interfaces s ! index) of
                            None \<Rightarrow> st_return None
                          | Some deadline \<Rightarrow> st_bind (instant_to_utc E deadline) (\<lambda>u. st_return (Some u)))
                   (\<lambda>retry_at. suppressed Deferred None retry_at
                      (TriggerInterfaceBackoff, ''reason=trigger_interface_backoff'')) s
               else
                 case resolver requested of
                   Inr _ \<Rightarrow> st_bind (make_available index) (\<lambda>_. st_return (Some requested, [])) s
                 | Inl e \<Rightarrow>
                     st_bind (interface_failed E run index
                       (BandwidthSuppressed, TriggerInterfaceUnavailable,
                        ''reason=trigger_interface_unavailable error='' @ interface_error_text e))
                       (\<lambda>ev. st_return (None, [ev])) s) s)"

text \<open>\<open>ns\<close> is the set of names still eligible.\<close>

fun eligible_interfaces ::
    "('u, 'n, 'b, 'j, 'c) command_env \<Rightarrow> interface_runtime list \<Rightarrow> ('b, 'j, 'c, string list) xop" where
  "eligible_interfaces E [] = st_return []"
| "eligible_interfaces E (r # rs) =
     (if ir_available r \<and> \<not> ir_degraded r
      then
        st_bind (mn_clock E) (\<lambda>now.
        st_bind (eligible_interfaces E rs) (\<lambda>ns.
        st_return (if can_resolve (snd now) r then ir_name r # ns else ns)))
      else eligible_interfaces E rs)"

lemma selected_eligible:
  assumes "selector_select F A = Some n"
  shows "n \<in> A" "n \<in> set (se_order F)"
proof -
  let ?es = "filter (\<lambda>e. snd e \<in> A) (List.enumerate 0 (se_order F))"
  obtain e where "min_by_key (select_key F) ?es = Some e" "n = snd e"
    using assms by (auto simp: selector_select_def)
  moreover from this have "e \<in> set ?es" by (metis min_by_key_least)
  ultimately show "n \<in> A" "n \<in> set (se_order F)"
    by (cases e; auto dest: set_zip_rightD simp: enumerate_eq_zip)+
qed

text \<open>The selector knows the interfaces of the monitor and no others.\<close>

function select_candidates ::
    "('u, 'n, 'b, 'j, 'c) command_env \<Rightarrow> run_id \<Rightarrow> (string \<Rightarrow> interface_error + resolved_interface) \<Rightarrow> selector \<Rightarrow>
     string list \<Rightarrow> ('b, 'j, 'c, string option \<times> measurement_event list) xop" where
  "select_candidates E run resolver fairness ns s =
     (case selector_select fairness (set ns) of
        None \<Rightarrow>
          st_bind (interface_event E run unassigned Suppressed None None
            (BandwidthSuppressed, NoHealthyInterface, ''reason=no_healthy_interface''))
            (\<lambda>ev. st_return (None, [ev])) s
      | Some n \<Rightarrow>
          (let index = the (find_interface n (mx_interfaces s)) in
           case resolver n of
             Inr _ \<Rightarrow> st_bind (make_available index) (\<lambda>_. st_return (Some n, [])) s
           | Inl e \<Rightarrow>
               st_bind (interface_failed E run index
                 (BandwidthInterfaceSkipped, InterfaceUnavailable,
                  ''reason=unavailable error='' @ interface_error_text e)) (\<lambda>ev.
               st_bind (select_candidates E run resolver fairness (removeAll n ns)) (\<lambda>(selected, events).
               st_return (selected, ev # events))) s))"
  by pat_completeness auto
termination
  by (relation "measure (\<lambda>(E, run, resolver, fairness, ns, s). length ns)")
    (auto intro: length_removeAll_less dest: selected_eligible(1))

declare select_candidates.simps [simp del]

definition select_bandwidth_interface ::
    "('u, 'n, 'b, 'j, 'c) command_env \<Rightarrow> run_id \<Rightarrow> (string \<Rightarrow> interface_error + resolved_interface) \<Rightarrow>
     bandwidth_opportunity \<Rightarrow> ('b, 'j, 'c, string option \<times> measurement_event list) xop" where
  "select_bandwidth_interface E run resolver op s =
     (case op_interface op of
        Some requested \<Rightarrow> select_requested E run resolver requested s
      | None \<Rightarrow>
          st_bind (eligible_interfaces E (mx_interfaces s))
            (select_candidates E run resolver (mx_fairness s)) s)"

subsection \<open>The monitor of several interfaces\<close>

text \<open>The interface of the events of a poll that name none.\<close>

definition name_interface :: "string \<Rightarrow> measurement_event \<Rightarrow> measurement_event" where
  "name_interface interface ev =
     (if ev_interface ev = None then ev \<lparr> ev_interface := Some interface \<rparr> else ev)"

definition with_interface :: "string \<Rightarrow> 'u resolved_config \<Rightarrow> 'u resolved_config" where
  "with_interface interface config = config \<lparr> rc_interfaces := [interface] \<rparr>"

definition record_turn :: "string \<Rightarrow> ('b, 'j, 'c, unit) xop" where
  "record_turn interface s = (Inr (), s \<lparr> mx_fairness := selector_record interface (mx_fairness s) \<rparr>)"

definition multi_attempt ::
    "('u, 'n, 'b, 'j, 'c) command_env \<Rightarrow> ping_ticker \<Rightarrow> 'u resolved_config \<Rightarrow> ping_monitor_config \<Rightarrow> 'n turn \<Rightarrow>
     bandwidth_opportunity \<Rightarrow> measurement_event list \<Rightarrow> ('b, 'j, 'c, bool) xop" where
  "multi_attempt E T resolved config t op action_events =
     st_bind (select_bandwidth_interface E (pm_run_id config) (tn_resolve t) op) (\<lambda>(selected, selection_events).
     case selected of
       Some interface \<Rightarrow>
         st_bind (publish E (map (name_interface interface) action_events)) (\<lambda>_.
         st_bind (publish E selection_events) (\<lambda>_.
         st_bind mn_fresh (\<lambda>bandwidth_run_id.
         st_bind (measure_bandwidth_while_monitoring E T (with_interface interface resolved) config
                    bandwidth_run_id op t) (\<lambda>report.
         st_bind (record_turn interface) (\<lambda>_.
         st_bind (count count_attempt) (\<lambda>_.
         st_bind (settle_bandwidth E bandwidth_run_id op report) (\<lambda>_.
         st_return False)))))))
     | None \<Rightarrow>
         st_bind (publish E action_events) (\<lambda>_.
         st_bind (finish_test E (pm_run_id config) op
                    \<lparr> br_events = selection_events, br_outcome = ErrorOutcome, br_reserved = False,
                      br_reservation_error = None \<rparr>) (\<lambda>report.
         st_bind (publish E (br_events report)) (\<lambda>_.
         st_return False))))"

definition complete_interface_task ::
    "('u, 'n, 'b, 'j, 'c) command_env \<Rightarrow> run_id \<Rightarrow> nat \<times> ping_round_request \<Rightarrow> task_end \<Rightarrow> ('b, 'j, 'c, unit) xop" where
  "complete_interface_task E run active r s =
     st_bind (round_result E (snd active) r) (complete_interface_round E run (fst active))
       (s \<lparr> mx_active := None \<rparr>)"

definition multi_active_wait ::
    "('u, 'n, 'b, 'j, 'c) command_env \<Rightarrow> run_id \<Rightarrow> 'n turn \<Rightarrow> nat \<times> ping_round_request \<Rightarrow> ('b, 'j, 'c, bool) xop" where
  "multi_active_wait E run t active =
     (case tn_wait t of
        WaitTask r \<Rightarrow> st_bind (complete_interface_task E run active r) (\<lambda>_. st_return False)
      | WaitCancelled cancelled r \<Rightarrow>
          (if cancelled then st_bind (complete_interface_task E run active r) (\<lambda>_. st_return True)
           else st_return False)
      | WaitTick _ \<Rightarrow> st_bind (count skip_tick) (\<lambda>_. st_return False))"

text \<open>A tick without an active round: the next interface in turn, unless it is in backoff.\<close>

definition start_interface_round ::
    "('u, 'n, 'b, 'j, 'c) command_env \<Rightarrow> ping_monitor_config \<Rightarrow> nat \<Rightarrow> time \<Rightarrow> ('b, 'j, 'c, unit) xop" where
  "start_interface_round E config index scheduled s =
     (let name = ir_name (mx_interfaces s ! index) in
      st_bind (make_available index) (\<lambda>recovered.
      st_bind (if recovered
               then st_bind (interface_event E (pm_run_id config) name Success None None
                      (InterfaceRecovered, InterfaceAvailable, ''interface recovered'')) (\<lambda>ev. publish E [ev])
               else st_return ()) (\<lambda>_.
      st_bind (next_round E (config \<lparr> pm_interface := Some name \<rparr>) scheduled None None) (\<lambda>g s.
      (Inr (), s \<lparr> mx_active := Some (index, g) \<rparr>)))) s)"

definition multi_tick ::
    "('u, 'n, 'b, 'j, 'c) command_env \<Rightarrow> ping_monitor_config \<Rightarrow> 'n turn \<Rightarrow> time \<Rightarrow> ('b, 'j, 'c, unit) xop" where
  "multi_tick E config t scheduled s =
     (let index = mx_next_interface s;
          s = s \<lparr> mx_next_interface := (index + 1) mod length (mx_interfaces s) \<rparr>
      in st_bind (mn_clock E) (\<lambda>now s.
           let r = mx_interfaces s ! index in
           if \<not> can_resolve (snd now) r then (Inr (), s)
           else
             case tn_resolve t (ir_name r) of
               Inr _ \<Rightarrow> start_interface_round E config index scheduled s
             | Inl e \<Rightarrow>
                 st_bind (interface_failed E (pm_run_id config) index
                   (InterfaceRetry, InterfaceUnavailable, ''error='' @ interface_error_text e)) (\<lambda>ev.
                 publish E [ev]) s) s)"

definition multi_idle_wait ::
    "('u, 'n, 'b, 'j, 'c) command_env \<Rightarrow> ping_ticker \<Rightarrow> ping_monitor_config \<Rightarrow> 'n turn \<Rightarrow> ('b, 'j, 'c, bool) xop" where
  "multi_idle_wait E T config t =
     (case tn_wait t of
        WaitTask _ \<Rightarrow> st_return False
      | WaitCancelled cancelled _ \<Rightarrow> st_return cancelled
      | WaitTick deadline \<Rightarrow> st_bind (multi_tick E config t (tick T deadline)) (\<lambda>_. st_return False))"

text \<open>\<open>BTreeMap\<close> of the latest success of each interface.\<close>

definition latest_successes :: "interface_runtime list \<Rightarrow> (string, bool) btree" where
  "latest_successes rs = fold (\<lambda>r m. bt_insert (ir_name r) (ir_latest_success r) m) rs []"

definition multi_step ::
    "('u, 'n, 'b, 'j, 'c) command_env \<Rightarrow> ping_ticker \<Rightarrow> 'u resolved_config \<Rightarrow> ping_monitor_config \<Rightarrow> 'n turn \<Rightarrow>
     ('b, 'j, 'c, bool) xop" where
  "multi_step E T resolved config t s =
     (let run = pm_run_id config in
      case (tn_shutdown t, mx_active s) of
        (Some r, Some a) \<Rightarrow> st_bind (complete_interface_task E run a r) (\<lambda>_. st_return True) s
      | (Some _, None) \<Rightarrow> (Inr True, s)
      | (None, Some a) \<Rightarrow> multi_active_wait E run t a s
      | (None, None) \<Rightarrow>
          (if mn_sched s = None then multi_idle_wait E T config t s
           else
             st_bind (mn_clock E) (\<lambda>now.
             st_bind (on_scheduler (poll_interfaces (be_ext E) (be_codec E) run (fst now)
                        (latest_successes (mx_interfaces s)))) (\<lambda>action.
             case sp_opportunity action of
               Some op \<Rightarrow> multi_attempt E T resolved config t op (sp_events action)
             | None \<Rightarrow>
                 st_bind (publish E (sp_events action)) (\<lambda>_. multi_idle_wait E T config t))) s))"

subsection \<open>Sessions\<close>

text \<open>\<open>None\<close> while the loop has not ended; \<open>flush\<close> is what follows it.\<close>

definition loop_result :: "('b, 'j, 'c, 'z, unit) mop \<Rightarrow> bool \<Rightarrow> ('b, 'j, 'c, 'z, monitor_stats option) mop" where
  "loop_result flush ended =
     (if ended then st_bind flush (\<lambda>_ s. (Inr (Some (mn_stats s)), s)) else st_return None)"

definition flush_scheduler :: "('u, 'n, 'b, 'j, 'c) command_env \<Rightarrow> ('b, 'j, 'c, 'z, unit) mop" where
  "flush_scheduler E s = (if mn_sched s = None then (Inr (), s) else on_scheduler (sched_flush (be_codec E)) s)"

text \<open>Whether the shutdown came before the start, and the deadline of the first tick, which is awaited alone.\<close>

definition monitor_ping_inner ::
    "('u, 'n, 'b, 'j, 'c) command_env \<Rightarrow> ping_monitor_config \<Rightarrow> bool \<Rightarrow> nat \<Rightarrow> 'n turn list \<Rightarrow>
     ('b, 'j, 'c, monitor_stats option) pop" where
  "monitor_ping_inner E config shutdown deadline ts =
     (if shutdown then (\<lambda>s. (Inr (Some (mn_stats s)), s))
      else
        st_bind (ticker_new E) (\<lambda>T.
        st_bind (next_round E config (tick T deadline) None None) (\<lambda>g s.
        st_bind (run_loop (ping_step E T config) ts) (loop_result (st_return ())) (s \<lparr> px_active := Some g \<rparr>))))"

definition monitor_adaptive_inner ::
    "('u, 'n, 'b, 'j, 'c) command_env \<Rightarrow> 'u resolved_config \<Rightarrow> ping_monitor_config \<Rightarrow> 'n turn list \<Rightarrow>
     ('b, 'j, 'c, monitor_stats option) pop" where
  "monitor_adaptive_inner E resolved config ts =
     st_bind (ticker_new E) (\<lambda>T.
     st_bind (run_loop (adaptive_step E T resolved config) ts) (loop_result (flush_scheduler E)))"

definition monitor_multi_interface_inner ::
    "('u, 'n, 'b, 'j, 'c) command_env \<Rightarrow> 'u resolved_config \<Rightarrow> ping_monitor_config \<Rightarrow> 'n turn list \<Rightarrow>
     ('b, 'j, 'c, monitor_stats option) xop" where
  "monitor_multi_interface_inner E resolved config ts =
     st_bind (ticker_new E) (\<lambda>T.
     st_bind (run_loop (multi_step E T resolved config) ts) (loop_result (flush_scheduler E)))"

text \<open>The session is closed with a message in either case.\<close>

definition finish_monitor ::
    "('u, 'n, 'b, 'j, 'c) command_env \<Rightarrow> (nat \<Rightarrow> moment) \<Rightarrow> run_id \<Rightarrow> monitor_error + monitor_stats \<Rightarrow>
     ('j, 'c) coordinator \<Rightarrow> (monitor_error + monitor_stats) \<times> ('j, 'c) coordinator" where
  "finish_monitor E ms session result c =
     (let (out, message) =
            (case result of
               Inr _ \<Rightarrow> (CancelledOutcome, ''shutdown requested; active work drained'')
             | Inl e \<Rightarrow> (ErrorOutcome, monitor_error_text (be_display E) e));
          (finished, c) = finish_session (be_sinks E) ms session out (Some message) c
      in (case result of
            Inl e \<Rightarrow> Inl e
          | Inr stats \<Rightarrow> (case finished of Inl e \<Rightarrow> Inl (MeJournal e) | Inr _ \<Rightarrow> Inr stats), c))"

definition close_with ::
    "('u, 'n, 'b, 'j, 'c) command_env \<Rightarrow> (nat \<Rightarrow> moment) \<Rightarrow> run_id \<Rightarrow> monitor_error + monitor_stats \<Rightarrow>
     ('b, 'j, 'c, 'z, monitor_stats option) mop" where
  "close_with E ms session result s =
     (let (r, c) = finish_monitor E ms session result (mn_coordinator s)
      in (map_sum id Some r, s \<lparr> mn_coordinator := c \<rparr>))"

definition monitor_session ::
    "('u, 'n, 'b, 'j, 'c) command_env \<Rightarrow> (nat \<Rightarrow> moment) \<Rightarrow> run_id \<Rightarrow> ('b, 'j, 'c, 'z, monitor_stats option) mop \<Rightarrow>
     ('b, 'j, 'c, 'z, monitor_stats option) mop" where
  "monitor_session E ms session inner =
     st_bind (st_bind (mn_moment E) (\<lambda>m. on_journal (start_session (be_sinks E) m session ''run''))) (\<lambda>_ s.
       case inner s of
         (Inr None, s) \<Rightarrow> (Inr None, s)
       | (Inr (Some stats), s) \<Rightarrow> close_with E ms session (Inr stats) s
       | (Inl e, s) \<Rightarrow> close_with E ms session (Inl e) s)"

definition monitor_ping ::
    "('u, 'n, 'b, 'j, 'c) command_env \<Rightarrow> (nat \<Rightarrow> moment) \<Rightarrow> ping_monitor_config \<Rightarrow> bool \<Rightarrow> nat \<Rightarrow> 'n turn list \<Rightarrow>
     ('b, 'j, 'c, monitor_stats option) pop" where
  "monitor_ping E ms config shutdown deadline ts =
     monitor_session E ms (pm_run_id config) (monitor_ping_inner E config shutdown deadline ts)"

definition monitor_adaptive ::
    "('u, 'n, 'b, 'j, 'c) command_env \<Rightarrow> (nat \<Rightarrow> moment) \<Rightarrow> 'u resolved_config \<Rightarrow> ping_monitor_config \<Rightarrow>
     'n turn list \<Rightarrow> ('b, 'j, 'c, monitor_stats option) pop" where
  "monitor_adaptive E ms resolved config ts =
     monitor_session E ms (pm_run_id config) (monitor_adaptive_inner E resolved config ts)"

definition monitor_multi_interface ::
    "('u, 'n, 'b, 'j, 'c) command_env \<Rightarrow> (nat \<Rightarrow> moment) \<Rightarrow> 'u resolved_config \<Rightarrow> ping_monitor_config \<Rightarrow>
     'n turn list \<Rightarrow> ('b, 'j, 'c, monitor_stats option) xop" where
  "monitor_multi_interface E ms resolved config ts =
     monitor_session E ms (pm_run_id config) (monitor_multi_interface_inner E resolved config ts)"

text \<open>The locals a monitor starts with.\<close>

definition monitor_start :: "('j, 'c) coordinator \<Rightarrow> 'b sched option \<Rightarrow> draws \<Rightarrow> ('b, 'j, 'c) monitor" where
  "monitor_start c sched d =
     \<lparr> mn_coordinator = c, mn_sched = sched, mn_stats = monitor_stats_default, mn_next_round = 0, mn_draws = d \<rparr>"

definition ping_start ::
    "ping_monitor_config \<Rightarrow> ('j, 'c) coordinator \<Rightarrow> 'b sched option \<Rightarrow> draws \<Rightarrow> ('b, 'j, 'c) ping_monitor" where
  "ping_start config c sched d =
     monitor.extend (monitor_start c sched d)
       \<lparr> px_active = None, px_health = health_window_new (pm_health config), px_latest_success = False \<rparr>"

definition multi_start ::
    "'u resolved_config \<Rightarrow> ping_monitor_config \<Rightarrow> ('j, 'c) coordinator \<Rightarrow> 'b sched option \<Rightarrow> draws \<Rightarrow>
     ('b, 'j, 'c) multi_monitor" where
  "multi_start resolved config c sched d =
     monitor.extend (monitor_start c sched d)
       \<lparr> mx_active = None, mx_interfaces = map (interface_runtime_new (pm_health config)) (rc_interfaces resolved),
         mx_fairness = selector_new (rc_interfaces resolved), mx_next_interface = 0 \<rparr>"

subsection \<open>The \<open>run\<close> command\<close>

record 'n monitor_input =
  mi_run_id :: run_id
  mi_run_number :: u64
  mi_started_at :: time
  mi_seed :: u64
  mi_draws :: draws
  mi_shutdown :: bool
  mi_first_tick :: nat
  mi_turns :: "'n turn list"
  mi_moments :: "nat \<Rightarrow> moment"

definition monitor_settings ::
    "('u, 'n, 'b, 'j, 'c) command_env \<Rightarrow> 'u resolved_config \<Rightarrow> 'n monitor_input \<Rightarrow> ping_monitor_config" where
  "monitor_settings E config i =
     \<lparr> pm_interface = config_interface config, pm_run_id = mi_run_id i,
       pm_targets = pc_targets (rc_ping config), pm_interval = pc_interval (rc_ping config),
       pm_timeout = pc_timeout (rc_ping config),
       pm_identifier = probe_identifier (sk_process_id (be_sinks E)) (mi_run_number i),
       pm_health = health_config_from (bw_trigger (rc_bandwidth config)) \<rparr>"

text \<open>The journal is flushed when the monitor has ended, whatever its result.\<close>

definition close_monitor ::
    "('u, 'n, 'b, 'j, 'c) command_env \<Rightarrow>
     (monitor_error + monitor_stats option) \<times> ('b, 'j, 'c, 'z) monitor_scheme \<Rightarrow>
     (monitor_error + monitor_stats option) \<times> ('b, 'j, 'c, 'z) monitor_scheme option" where
  "close_monitor E r =
     (let (result, s) = r in
      if result = Inr None then (result, Some s)
      else
        let (flushed, c) = coordinator_flush (be_sinks E) (mn_coordinator s)
        in (case result of Inl e \<Rightarrow> Inl e | Inr stats \<Rightarrow>
            (case flushed of Inl e \<Rightarrow> Inl (MeJournal e) | Inr _ \<Rightarrow> Inr stats),
            Some (s \<lparr> mn_coordinator := c \<rparr>)))"

definition open_scheduler ::
    "('u, 'n, 'b, 'j, 'c) command_env \<Rightarrow> 'u resolved_config \<Rightarrow> 'n monitor_input \<Rightarrow> 'b world \<Rightarrow>
     monitor_error + 'b sched option" where
  "open_scheduler E config i bw =
     (if bw_automatic_enabled (rc_bandwidth config) then
        (case open_seeded (be_ext E) (be_codec E) (policy_from (rc_bandwidth config)) (mi_started_at i) (mi_seed i) bw of
           Inl (e, _) \<Rightarrow> Inl (MeScheduler e)
         | Inr sched \<Rightarrow> Inr (Some sched))
      else Inr None)"

text \<open>The state comes with the result where a monitor was started.\<close>

definition execute_ping_monitor ::
    "('u, 'n, 'b, 'j, 'c) command_env \<Rightarrow> 'u resolved_config \<Rightarrow> 'n monitor_input \<Rightarrow>
     ('w \<Rightarrow> (journal_error + 'j) \<times> 'w) \<Rightarrow> 'c \<Rightarrow> 'w \<Rightarrow> 'b world \<Rightarrow>
     (monitor_error + monitor_stats option) \<times> ('b, 'j, 'c) ping_monitor option" where
  "execute_ping_monitor E config i open_journal console w bw =
     (let settings = monitor_settings E config i; ms = mi_moments i in
      case open_journal w of
        (Inl e, w) \<Rightarrow> (Inl (MeJournal e), None)
      | (Inr j, w) \<Rightarrow>
          (case open_scheduler E config i bw of
             Inl e \<Rightarrow> (Inl e, None)
           | Inr sched \<Rightarrow>
               (let s = ping_start settings (coordinator_new j console) sched (mi_draws i)
                in close_monitor E
                     (if sched \<noteq> None then monitor_adaptive E ms config settings (mi_turns i) s
                      else monitor_ping E ms settings (mi_shutdown i) (mi_first_tick i) (mi_turns i) s))))"

definition execute_multi_interface_monitor_with ::
    "('u, 'n, 'b, 'j, 'c) command_env \<Rightarrow> 'u resolved_config \<Rightarrow> 'n monitor_input \<Rightarrow>
     ('w \<Rightarrow> (journal_error + 'j) \<times> 'w) \<Rightarrow> 'c \<Rightarrow> 'w \<Rightarrow> 'b world \<Rightarrow>
     (monitor_error + monitor_stats option) \<times> ('b, 'j, 'c) multi_monitor option" where
  "execute_multi_interface_monitor_with E config i open_journal console w bw =
     (let settings = monitor_settings E config i; ms = mi_moments i in
      case open_journal w of
        (Inl e, w) \<Rightarrow> (Inl (MeJournal e), None)
      | (Inr j, w) \<Rightarrow>
          (case open_scheduler E config i bw of
             Inl e \<Rightarrow> (Inl e, None)
           | Inr sched \<Rightarrow>
               close_monitor E (monitor_multi_interface E ms config settings (mi_turns i)
                 (multi_start config settings (coordinator_new j console) sched (mi_draws i)))))"

text \<open>With the system's interfaces: \<open>listings\<close> is what each turn finds them to be.\<close>

definition system_turn :: "'n turn \<Rightarrow> string + if_entry list \<Rightarrow> 'n turn" where
  "system_turn t listing = t \<lparr> tn_resolve := \<lambda>name. system_resolve name listing \<rparr>"

definition execute_multi_interface_monitor ::
    "('u, 'n, 'b, 'j, 'c) command_env \<Rightarrow> 'u resolved_config \<Rightarrow> 'n monitor_input \<Rightarrow> (string + if_entry list) list \<Rightarrow>
     ('w \<Rightarrow> (journal_error + 'j) \<times> 'w) \<Rightarrow> 'c \<Rightarrow> 'w \<Rightarrow> 'b world \<Rightarrow>
     (monitor_error + monitor_stats option) \<times> ('b, 'j, 'c) multi_monitor option" where
  "execute_multi_interface_monitor E config i listings =
     execute_multi_interface_monitor_with E config
       (i \<lparr> mi_turns := map2 system_turn (mi_turns i) listings \<rparr>)"

text \<open>The transport the factory makes, as the tasks of a round on it.\<close>

definition system_task ::
    "'k ping_net \<Rightarrow> string \<Rightarrow> ip_addr list \<Rightarrow> (probe_request \<Rightarrow> probe_clock) \<Rightarrow> task_end" where
  "system_task N interface targets clock =
     (let transport = surge_transport N (Some interface) targets
      in TaskDone (\<lambda>q. ProbeDone (clock q) (probe N transport q)))"

end
