(* ===== verification/MonitorProps.thy ===== *)
theory MonitorProps
  imports Monitor PingProps BandwidthOnceProps
begin

text \<open>
  The monitors keep count: their statistics are what the log says. The triple \<open>yields I m J\<close>
  says what holds after \<open>m\<close> where it succeeds; every operation of the monitors has one over the
  balance \<open>acct\<close> of statistics, log and open runs. Then the choice of an interface and its backoff.
\<close>

subsection \<open>Successful runs of operations\<close>

definition yields :: "('s \<Rightarrow> bool) \<Rightarrow> ('s \<Rightarrow> ('e + 'a) \<times> 's) \<Rightarrow> ('a \<Rightarrow> 's \<Rightarrow> bool) \<Rightarrow> bool" where
  "yields I m J \<longleftrightarrow> (\<forall>s x s'. I s \<longrightarrow> m s = (Inr x, s') \<longrightarrow> J x s')"

lemma yieldsI: "(\<And>s x s'. I s \<Longrightarrow> m s = (Inr x, s') \<Longrightarrow> J x s') \<Longrightarrow> yields I m J"
  by (auto simp: yields_def)

lemma yieldsD: "yields I m J \<Longrightarrow> m s = (Inr x, s') \<Longrightarrow> I s \<Longrightarrow> J x s'"
  by (auto simp: yields_def)

lemma yields_bind:
  assumes "yields I m J" "\<And>x. yields (J x) (f x) K"
  shows "yields I (st_bind m f) K"
  using assms by (fastforce simp: yields_def st_bind_Inr)

lemma yields_return [intro]: "(\<And>s. I s \<Longrightarrow> J x s) \<Longrightarrow> yields I (st_return x) J"
  by (simp add: yields_def)

lemma yields_fail [simp, intro]: "yields I (st_fail e) J"
  by (simp add: yields_def)

lemma yields_mono:
  assumes "yields I m J" "\<And>s. I' s \<Longrightarrow> I s" "\<And>x s. J x s \<Longrightarrow> J' x s"
  shows "yields I' m J'"
  using assms unfolding yields_def by blast

lemma yields_loop:
  assumes "\<And>t. yields I (step t) (\<lambda>stop s. I s \<and> (stop \<longrightarrow> Z s))"
  shows "yields I (run_loop step ts) (\<lambda>stop s. I s \<and> (stop \<longrightarrow> Z s))"
proof (induction ts)
  case (Cons t ts)
  have "yields (\<lambda>s. I s \<and> (stop \<longrightarrow> Z s)) (if stop then st_return True else run_loop step ts)
      (\<lambda>stop s. I s \<and> (stop \<longrightarrow> Z s))" for stop
    by (rule yields_mono [where I = "if stop then (\<lambda>s. I s \<and> Z s) else I"
          and J = "\<lambda>stop s. I s \<and> (stop \<longrightarrow> Z s)"]) (use Cons in \<open>auto simp: yields_def\<close>)
  then show ?case by (simp add: yields_bind [OF assms])
qed (auto simp: yields_def)

subsection \<open>The log and the open runs\<close>

definition answered :: "event_shape list \<Rightarrow> nat" where
  "answered xs = length (filter (\<lambda>x. fst x = PingProbe \<and> snd (snd x) = Success) xs)"

definition unanswered :: "event_shape list \<Rightarrow> nat" where
  "unanswered xs = length (filter (\<lambda>x. fst x = PingProbe \<and> snd (snd x) \<noteq> Success) xs)"

definition starts :: "event_shape list \<Rightarrow> nat" where
  "starts xs = length (filter (\<lambda>x. fst x = RunStarted) xs)"

lemma tally_append [simp]:
  "answered (xs @ ys) = answered xs + answered ys"
  "unanswered (xs @ ys) = unanswered xs + unanswered ys"
  "starts (xs @ ys) = starts xs + starts ys"
  by (simp_all add: answered_def unanswered_def starts_def)

lemma tally_one [simp]:
  "answered [] = 0" "unanswered [] = 0" "starts [] = 0"
  "answered [(RunStarted, i, out)] = 0" "unanswered [(RunStarted, i, out)] = 0" "starts [(RunStarted, i, out)] = 1"
  "answered [(RunFinished, i, out)] = 0" "unanswered [(RunFinished, i, out)] = 0" "starts [(RunFinished, i, out)] = 0"
  by (simp_all add: answered_def unanswered_def starts_def)

text \<open>Rows that are neither of a probe nor of the start or end of a run.\<close>

definition bystander :: "measurement_event \<Rightarrow> bool" where
  "bystander ev \<longleftrightarrow> ev_event_kind ev \<in> {BandwidthEvent, RequestFailureEvent, SchedulerEvent}"

lemma tally_bystanders:
  assumes "list_all bystander evs"
  shows "answered (map shape evs) = 0" "unanswered (map shape evs) = 0" "starts (map shape evs) = 0"
  using assms by (auto simp: answered_def unanswered_def starts_def filter_empty_conv bystander_def shape_def list_all_iff)

definition logged :: "('j, measurement_event list) coordinator \<Rightarrow> event_shape list" where
  "logged c = map shape (oc_console c)"

definition open_runs :: "('j, measurement_event list) coordinator \<Rightarrow> nat" where
  "open_runs c = length (oc_runs c)"

lemma grows_logged: "grows c xs c' \<longleftrightarrow> logged c' = logged c @ xs"
  by (simp add: grows_def logged_def)

lemma length_insert_fresh: "bt_get m k = None \<Longrightarrow> length (bt_insert k v m) = Suc (length m)"
  by (induction m) (auto simp: bt_get_def split: if_splits)

lemma length_remove_ok: "bt_ok m \<Longrightarrow> bt_get m k \<noteq> None \<Longrightarrow> Suc (length (bt_remove k m)) = length m"
proof (induction m)
  case (Cons e m)
  then have "fst e = k \<Longrightarrow> filter (\<lambda>e. fst e \<noteq> k) m = m" by (auto simp: bt_ok_def intro!: filter_True)
  with Cons show ?case
    by (cases "fst e = k") (auto simp: bt_get_def bt_remove_def bt_ok_def)
qed (simp add: bt_get_def)

subsection \<open>What the scheduler and a test report\<close>

lemma sched_event_bystander: "sched_event run now out reason ctx d s = (ev, s') \<Longrightarrow> bystander ev"
  by (auto simp: sched_event_def bystander_def Let_def split: prod.splits)

lemma advance_clock_bystanders:
  "advance_clock X C run now s = (Inr evs, s') \<Longrightarrow> list_all bystander evs"
  by (auto simp: advance_clock_def Let_def dest: sched_event_bystander split: if_splits prod.splits sum.splits)

lemma expiry_bystanders: "expiry_events run now expired s = (evs, s') \<Longrightarrow> list_all bystander evs"
  by (induction expired arbitrary: s evs s')
    (fastforce dest: sched_event_bystander simp: Let_def split: prod.splits)+

lemma observe_bystanders:
  assumes "observe_interface_health X C run now i d s = (Inr evs, s')"
  shows "list_all bystander evs"
  using assms
  by (auto simp: observe_interface_health_def Let_def dest!: advance_clock_bystanders sched_event_bystander
      split: if_splits prod.splits sum.splits option.splits health_decision.splits)

lemma poll_expire_bystanders: "poll_expire C run now s = (Inr evs, s') \<Longrightarrow> list_all bystander evs"
  by (auto simp: poll_expire_def Let_def dest: expiry_bystanders split: if_splits prod.splits sum.splits)

lemma poll_deferred_bystanders: "poll_deferred C run now s = (Inr (Inr evs), s') \<Longrightarrow> list_all bystander evs"
  by (auto simp: poll_deferred_def Let_def dest: sched_event_bystander
      split: if_splits prod.splits sum.splits option.splits)

lemma poll_decide_bystanders:
  assumes "poll_decide X C run now latest events s = (Inr action, s')" "list_all bystander events"
  shows "list_all bystander (sp_events action)"
proof -
  obtain tail where "sp_events action = events @ tail" "list_all bystander tail"
    using assms(1)
    by (auto simp: poll_decide_def Let_def dest!: sched_event_bystander
        split: if_splits prod.splits sum.splits option.splits)
  then show ?thesis using assms(2) by simp
qed

lemma poll_bystanders:
  assumes "poll_interfaces X C run now latest s = (Inr action, s')"
  shows "list_all bystander (sp_events action)"
  using assms
  by (auto simp: poll_interfaces_def
      dest!: advance_clock_bystanders poll_expire_bystanders poll_deferred_bystanders poll_decide_bystanders
      split: if_splits prod.splits sum.splits)

lemma timing_bystanders:
  "list_all bystander (br_events (opportunity_apply_timing op report)) = list_all bystander (br_events report)"
  by (auto simp: opportunity_apply_timing_def list.pred_map bystander_def Let_def intro!: list.pred_cong)

lemma finish_attempt_bystanders:
  assumes "finish_attempt X C run now op report s = (Inr (evs, report'), s')" "list_all bystander (br_events report)"
  shows "list_all bystander (br_events report' @ evs)"
  using assms
  by (auto simp: finish_attempt_def Let_def timing_bystanders dest: sched_event_bystander
      split: option.splits prod.splits sum.splits)

lemma failure_row_bystander: "failure_row i p ev \<Longrightarrow> bystander ev"
  by (simp add: failure_row_def bystander_def)

lemma result_row_bystander: "result_row i p ev \<Longrightarrow> bystander ev"
  by (simp add: result_row_def bystander_def)

lemma measured_bystanders:
  assumes "measure_bandwidth_with_network_and_gate_observed P N eid reserve config i phase d net g = (report, s)"
  shows "list_all bystander (br_events report)"
proof -
  obtain finished out where "report = report_of P eid config i finished out s"
    using measure_cases [OF assms] by metis
  then show ?thesis
    by (simp add: report_of_fields list_all_iff failure_row_bystander [OF failure_event_row]
        result_row_bystander [OF bandwidth_event_row])
qed

subsection \<open>The balance\<close>

text \<open>
  With \<open>a\<close> rounds active, \<open>t\<close> tests started but not yet counted and \<open>b\<close> runs of tests open, on
  \<open>k\<close> targets.
\<close>

definition balanced :: "nat \<Rightarrow> nat \<times> nat \<times> nat \<Rightarrow> ('b, 'j, measurement_event list, 'z) monitor_scheme \<Rightarrow> bool" where
  "balanced k p s =
     (case p of (a, t, b) \<Rightarrow>
      let c = mn_coordinator s; n = mn_stats s in
      bt_ok (oc_runs c) \<and> open_runs c = 1 + a + b \<and>
      answered (logged c) = mt_successful_probes n \<and> unanswered (logged c) = mt_failed_probes n \<and>
      starts (logged c) = 1 + mt_rounds_started n + mt_bandwidth_attempts n + t \<and>
      mt_rounds_completed n + a = mt_rounds_started n \<and>
      mt_successful_probes n + mt_failed_probes n = mt_rounds_completed n * k)"

lemma balanced_iff:
  "balanced k (a, t, b) s \<longleftrightarrow>
     bt_ok (oc_runs (mn_coordinator s)) \<and> open_runs (mn_coordinator s) = 1 + a + b \<and>
     answered (logged (mn_coordinator s)) = mt_successful_probes (mn_stats s) \<and>
     unanswered (logged (mn_coordinator s)) = mt_failed_probes (mn_stats s) \<and>
     starts (logged (mn_coordinator s)) =
       1 + mt_rounds_started (mn_stats s) + mt_bandwidth_attempts (mn_stats s) + t \<and>
     mt_rounds_completed (mn_stats s) + a = mt_rounds_started (mn_stats s) \<and>
     mt_successful_probes (mn_stats s) + mt_failed_probes (mn_stats s) = mt_rounds_completed (mn_stats s) * k"
  by (simp add: balanced_def Let_def)

definition logged_env :: "('u, 'n, 'b, 'j, measurement_event list) command_env \<Rightarrow> bool" where
  "logged_env E \<longleftrightarrow> (\<exists>S. be_sinks E = logging S)"

text \<open>Only the shared part of the state differs.\<close>

definition framed :: "('b, 'j, 'c, 'z) monitor_scheme \<Rightarrow> ('b, 'j, 'c, 'z) monitor_scheme \<Rightarrow> bool" where
  "framed s s' \<longleftrightarrow> (\<exists>c sch n r d. s' = s \<lparr> mn_coordinator := c, mn_sched := sch, mn_stats := n,
     mn_next_round := r, mn_draws := d \<rparr>)"

lemma framed_refl [simp]: "framed s s"
  unfolding framed_def by (rule exI [of _ "mn_coordinator s"], rule exI [of _ "mn_sched s"],
      rule exI [of _ "mn_stats s"], rule exI [of _ "mn_next_round s"], rule exI [of _ "mn_draws s"]) simp

lemma framed_trans: "framed s s' \<Longrightarrow> framed s' s'' \<Longrightarrow> framed s s''"
  by (fastforce simp: framed_def)

lemma framed_updates [simp]:
  "framed s (s' \<lparr> mn_coordinator := c \<rparr>) = framed s s'" "framed s (s' \<lparr> mn_sched := sch \<rparr>) = framed s s'"
  "framed s (s' \<lparr> mn_stats := n \<rparr>) = framed s s'" "framed s (s' \<lparr> mn_next_round := r \<rparr>) = framed s s'"
  "framed s (s' \<lparr> mn_draws := d \<rparr>) = framed s s'"
proof -
  have *: "framed s' (s' \<lparr> mn_coordinator := c \<rparr>)" "framed (s' \<lparr> mn_coordinator := c \<rparr>) s'"
    "framed s' (s' \<lparr> mn_sched := sch \<rparr>)" "framed (s' \<lparr> mn_sched := sch \<rparr>) s'"
    "framed s' (s' \<lparr> mn_stats := n \<rparr>)" "framed (s' \<lparr> mn_stats := n \<rparr>) s'"
    "framed s' (s' \<lparr> mn_next_round := r \<rparr>)" "framed (s' \<lparr> mn_next_round := r \<rparr>) s'"
    "framed s' (s' \<lparr> mn_draws := d \<rparr>)" "framed (s' \<lparr> mn_draws := d \<rparr>) s'"
    by (cases s', fastforce simp: framed_def)+
  show "framed s (s' \<lparr> mn_coordinator := c \<rparr>) = framed s s'" "framed s (s' \<lparr> mn_sched := sch \<rparr>) = framed s s'"
    "framed s (s' \<lparr> mn_stats := n \<rparr>) = framed s s'" "framed s (s' \<lparr> mn_next_round := r \<rparr>) = framed s s'"
    "framed s (s' \<lparr> mn_draws := d \<rparr>) = framed s s'"
    using * by (blast intro: framed_trans)+
qed

text \<open>What a successful operation does to the balance, in a frame.\<close>

definition moves ::
    "(('b, 'j, measurement_event list, 'z) monitor_scheme \<Rightarrow> ('b, 'j, measurement_event list, 'z) monitor_scheme \<Rightarrow> bool) \<Rightarrow>
     nat \<Rightarrow> nat \<times> nat \<times> nat \<Rightarrow> ('b, 'j, measurement_event list, 'z, 'a) mop \<Rightarrow> nat \<times> nat \<times> nat \<Rightarrow> ('a \<Rightarrow> bool) \<Rightarrow> bool" where
  "moves F k p m q R \<longleftrightarrow>
     (\<forall>s x s'. balanced k p s \<longrightarrow> m s = (Inr x, s') \<longrightarrow> balanced k q s' \<and> F s s' \<and> R x)"

lemma movesI:
  "(\<And>s x s'. balanced k p s \<Longrightarrow> m s = (Inr x, s') \<Longrightarrow> balanced k q s' \<and> F s s' \<and> R x) \<Longrightarrow> moves F k p m q R"
  by (simp add: moves_def)

lemma movesD:
  assumes "moves F k p m q R" "m s = (Inr x, s')" "balanced k p s"
  shows "balanced k q s'" "F s s'" "R x"
  using assms by (auto simp: moves_def)

lemma moves_bind:
  assumes "moves F k p m q R" "\<And>x. R x \<Longrightarrow> moves F k q (f x) r R'" "transp F"
  shows "moves F k p (st_bind m f) r R'"
proof (rule movesI)
  fix s x s' assume b: "balanced k p s" and "st_bind m f s = (Inr x, s')"
  then obtain y s1 where m: "m s = (Inr y, s1)" and f: "f y s1 = (Inr x, s')" by (auto simp: st_bind_Inr)
  note 1 = movesD [OF assms(1) m b]
  note 2 = movesD [OF assms(2) [OF 1(3)] f 1(1)]
  show "balanced k r s' \<and> F s s' \<and> R' x" using 1 2 transpD [OF assms(3)] by blast
qed

lemma transp_framed [simp]: "transp framed"
  by (rule transpI) (rule framed_trans)

lemma moves_frame: "moves F k p m q R \<Longrightarrow> (\<And>s s'. F s s' \<Longrightarrow> G s s') \<Longrightarrow> moves G k p m q R"
  by (auto simp: moves_def)

lemma moves_result: "moves F k p m q R \<Longrightarrow> (\<And>x. R x \<Longrightarrow> R' x) \<Longrightarrow> moves F k p m q R'"
  by (auto simp: moves_def)

lemma moves_return: "R x \<Longrightarrow> (\<And>s. F s s) \<Longrightarrow> moves F k p (st_return x) p R"
  by (auto simp: moves_def)

lemma moves_fail [simp]: "moves F k p (st_fail e) q R"
  by (simp add: moves_def)

lemma on_journal_Inr:
  "on_journal f s = (Inr x, s') \<longleftrightarrow> (\<exists>c. f (mn_coordinator s) = (Inr x, c) \<and> s' = s \<lparr> mn_coordinator := c \<rparr>)"
  by (auto simp: on_journal_def st_on_def split: prod.splits)

lemma on_scheduler_Inr:
  "on_scheduler f s = (Inr x, s') \<longleftrightarrow> (\<exists>c. f (the (mn_sched s)) = (Inr x, c) \<and> s' = s \<lparr> mn_sched := Some c \<rparr>)"
  by (auto simp: on_scheduler_def st_on_def split: prod.splits)

lemma balanced_updates [simp]:
  "balanced k p (s \<lparr> mn_sched := sch \<rparr>) = balanced k p s" "balanced k p (s \<lparr> mn_next_round := n \<rparr>) = balanced k p s"
  "balanced k p (s \<lparr> mn_draws := d \<rparr>) = balanced k p s"
  by (simp_all add: balanced_def)

lemma moves_clock: "moves framed k p (mn_clock E) p (\<lambda>_. True)"
  by (auto simp: moves_def mn_clock_def read_clock_def Let_def)

lemma moves_fresh: "moves framed k p mn_fresh p (\<lambda>_. True)"
  by (auto simp: moves_def mn_fresh_def new_request_id_def Let_def)

lemma moves_moment: "moves framed k p (mn_moment E) p (\<lambda>_. True)"
  unfolding mn_moment_def
  by (intro moves_bind [OF moves_clock] moves_bind [OF moves_fresh] moves_return) simp_all

lemma moves_scheduler:
  "(\<And>c x c'. f c = (Inr x, c') \<Longrightarrow> R x) \<Longrightarrow> moves framed k p (on_scheduler f) p R"
  by (auto simp: moves_def on_scheduler_Inr)

lemma moves_publish:
  assumes "logged_env E" "list_all bystander evs"
  shows "moves framed k p (publish E evs) p (\<lambda>_. True)"
proof -
  obtain S where S: "be_sinks E = logging S" using assms(1) by (auto simp: logged_env_def)
  show ?thesis
  proof (rule movesI)
    fix s x s' assume b: "balanced k p s" and "publish E evs s = (Inr x, s')"
    then obtain c where c: "publish_batch (logging S) evs (mn_coordinator s) = (Inr x, c)"
      "s' = s \<lparr> mn_coordinator := c \<rparr>"
      by (auto simp: publish_def on_journal_Inr S)
    note g = publish_grows [OF c(1)]
    show "balanced k p s' \<and> framed s s' \<and> True"
      using b g by (cases p) (simp add: c(2) grows_logged tally_bystanders [OF assms(2)] balanced_iff open_runs_def)
  qed
qed

lemma moves_count:
  assumes "\<And>s :: ('b, 'j, measurement_event list, 'z) monitor_scheme.
    balanced k p s \<Longrightarrow> balanced k q (s \<lparr> mn_stats := f (mn_stats s) \<rparr>)"
  shows "moves framed k p (count f :: ('b, 'j, measurement_event list, 'z, unit) mop) q (\<lambda>_. True)"
  using assms by (auto simp: moves_def count_def)

lemma moves_end_run:
  assumes "logged_env E"
  shows "moves framed k (a, t, Suc b) (end_run E i out) (a, t, b) (\<lambda>_. True)"
proof -
  obtain S where S: "be_sinks E = logging S" using assms by (auto simp: logged_env_def)
  have "moves framed k (a, t, Suc b) (on_journal (finish_run (logging S) m i out None)) (a, t, b) (\<lambda>_. True)" for m
  proof (rule movesI)
    fix s x s' assume b: "balanced k (a, t, Suc b) s"
      and "on_journal (finish_run (logging S) m i out None) s = (Inr x, s')"
    then obtain c where c: "finish_run (logging S) m i out None (mn_coordinator s) = (Inr x, c)"
      "s' = s \<lparr> mn_coordinator := c \<rparr>"
      by (auto simp: on_journal_Inr)
    note g = finish_run_grows [OF c(1)]
    show "balanced k (a, t, b) s' \<and> framed s s' \<and> True"
      using b g length_remove_ok [of "oc_runs (mn_coordinator s)" i]
      by (simp add: c(2) grows_logged balanced_iff open_runs_def)
  qed
  then show ?thesis
    unfolding end_run_def S by (intro moves_bind [OF moves_moment]) simp_all
qed

lemma run_started:
  assumes "logged_env E"
  shows "on_journal (start_run_with_context (be_sinks E) m i parent kind ctx) s = (Inr x, s') \<Longrightarrow>
    balanced k (a, t, b) s \<Longrightarrow>
    framed s s' \<and> bt_ok (oc_runs (mn_coordinator s')) \<and>
    open_runs (mn_coordinator s') = Suc (open_runs (mn_coordinator s)) \<and>
    logged (mn_coordinator s') = logged (mn_coordinator s) @ [(RunStarted, i, Started)] \<and> mn_stats s' = mn_stats s"
proof -
  obtain S where S: "be_sinks E = logging S" using assms by (auto simp: logged_env_def)
  assume b: "balanced k (a, t, b) s"
    and "on_journal (start_run_with_context (be_sinks E) m i parent kind ctx) s = (Inr x, s')"
  then obtain c where c: "start_run_with_context (logging S) m i parent kind ctx (mn_coordinator s) = (Inr x, c)"
    "s' = s \<lparr> mn_coordinator := c \<rparr>"
    by (auto simp: on_journal_Inr S)
  note g = start_run_grows [OF c(1)]
  from g(2) show ?thesis
    using b g(1,3) by (auto simp: c(2) grows_logged balanced_iff open_runs_def length_insert_fresh)
qed

lemma start_round_logged:
  assumes "logged_env E" "start_round E config n at_utc phase load s = (Inr g, s')" "balanced k (a, t, b) s"
  shows "framed s s'" "bt_ok (oc_runs (mn_coordinator s'))"
    "open_runs (mn_coordinator s') = Suc (open_runs (mn_coordinator s))"
    "\<exists>i. logged (mn_coordinator s') = logged (mn_coordinator s) @ [(RunStarted, i, Started)]"
    "mn_stats s' = mn_stats s" "pg_targets g = pm_targets config" "pg_load_phase g = phase" "pg_load_run_id g = load"
proof -
  obtain child s1 where 1: "mn_fresh s = (Inr child, s1)"
    using assms(2) by (auto simp: start_round_def st_bind_Inr)
  let ?g = "monitor_request config child n at_utc phase load"
  have "validate_round_request ?g = Inr ()"
    using assms(2) 1 by (cases "validate_round_request ?g") (auto simp: start_round_def st_bind_Inr)
  then obtain m s2 where 2: "mn_moment E s1 = (Inr m, s2)"
    and 3: "on_journal (start_run_with_context (be_sinks E) m child (pm_run_id config) RkPingRound
        (run_context_default \<lparr> rx_interface := pm_interface config, rx_load_phase := phase, rx_load_run_id := load \<rparr>)) s2 =
      (Inr (), s')"
    and g: "g = monitor_request config child n at_utc phase load"
    using assms(2) 1 by (auto simp: start_round_def st_bind_Inr)
  have s1: "mn_stats s1 = mn_stats s" "mn_coordinator s1 = mn_coordinator s" "framed s s1"
    using 1 by (auto simp: mn_fresh_def new_request_id_def)
  have s2: "mn_stats s2 = mn_stats s1" "mn_coordinator s2 = mn_coordinator s1" "framed s1 s2"
    using 2 by (auto simp: mn_moment_def mn_clock_def mn_fresh_def new_request_id_def read_clock_def st_bind_Inr)
  have b: "balanced k (a, t, b) s2" using assms(3) s1(1,2) s2(1,2) by (simp add: balanced_iff)
  note r = run_started [OF assms(1) 3 b]
  show "framed s s'" using r s1(3) s2(3) by (blast intro: framed_trans)
  show "bt_ok (oc_runs (mn_coordinator s'))" "mn_stats s' = mn_stats s"
    "open_runs (mn_coordinator s') = Suc (open_runs (mn_coordinator s))"
    "\<exists>i. logged (mn_coordinator s') = logged (mn_coordinator s) @ [(RunStarted, i, Started)]"
    using r s1 s2 by auto
  show "pg_targets g = pm_targets config" "pg_load_phase g = phase" "pg_load_run_id g = load"
    by (simp_all add: g monitor_request_def)
qed

lemma moves_next_round:
  assumes "logged_env E"
  shows "moves framed k (a, t, b) (next_round E config at_utc phase load) (Suc a, t, b)
    (\<lambda>g. pg_targets g = pm_targets config)"
proof (rule movesI)
  fix s g s' assume b: "balanced k (a, t, b) s" and "next_round E config at_utc phase load s = (Inr g, s')"
  then obtain s1 where r: "start_round E config (mn_next_round s) at_utc phase load s = (Inr g, s1)"
    and s': "s' = s1 \<lparr> mn_stats := (mn_stats s1) \<lparr> mt_rounds_started := mt_rounds_started (mn_stats s1) + 1 \<rparr>,
        mn_next_round := mn_next_round s1 + 1 \<rparr>"
    by (auto simp: next_round_def st_bind_Inr)
  note l = start_round_logged [OF assms r b]
  from l(4) show "balanced k (Suc a, t, b) s' \<and> framed s s' \<and> pg_targets g = pm_targets config"
    using b l(1,2,3,5,6) by (auto simp: s' balanced_iff)
qed

lemma round_tally:
  assumes "measure_round sd tasks g = Inr r"
  shows "answered (map shape (pp_events r)) = pp_successful r"
    "unanswered (map shape (pp_events r)) = pp_failed r" "starts (map shape (pp_events r)) = 0"
    "pp_successful r + pp_failed r = length (pg_targets g)"
proof -
  have r: "pp_events r = map fst (map (measure_target sd tasks g) [0..<length (pg_targets g)])"
    "pp_successful r = length (filter snd (map (measure_target sd tasks g) [0..<length (pg_targets g)]))"
    "pp_failed r = length (filter (\<lambda>m. \<not> snd m) (map (measure_target sd tasks g) [0..<length (pg_targets g)]))"
    using assms by (auto simp: measure_round_def Let_def split: sum.splits)
  show "answered (map shape (pp_events r)) = pp_successful r"
    "unanswered (map shape (pp_events r)) = pp_failed r" "starts (map shape (pp_events r)) = 0"
    by (simp_all add: r answered_def unanswered_def starts_def shape_def filter_map comp_def)
  show "pp_successful r + pp_failed r = length (pg_targets g)" by (rule round_counts [OF assms])
qed

lemma report_published:
  assumes "logged_env E" "publish_ping_report E report s = (Inr u, s')" "balanced k (Suc a, t, b) s"
    "measure_round sd tasks g = Inr report" "length (pg_targets g) = k"
  shows "framed s s'" "mn_stats s' = mn_stats s" "mn_sched s' = mn_sched s"
    "balanced k (a, t, b) (s' \<lparr> mn_stats := count_round report (mn_stats s') \<rparr>)"
proof -
  obtain S where S: "be_sinks E = logging S" using assms(1) by (auto simp: logged_env_def)
  obtain m s1 s2 where
    1: "publish E (pp_events report) s = (Inr (), s1)" and 2: "mn_moment E s1 = (Inr m, s2)"
    and 3: "on_journal (finish_run (logging S) m (ev_run_id (hd (pp_events report))) (report_outcome report) None) s2 =
      (Inr (), s')"
    using assms(2) by (auto simp: publish_ping_report_def end_run_def st_bind_Inr S)
  obtain c where c: "publish_batch (logging S) (pp_events report) (mn_coordinator s) = (Inr (), c)"
    "s1 = s \<lparr> mn_coordinator := c \<rparr>"
    using 1 by (auto simp: publish_def on_journal_Inr S)
  have s2: "mn_coordinator s2 = mn_coordinator s1" "mn_stats s2 = mn_stats s1" "mn_sched s2 = mn_sched s1" "framed s1 s2"
    using 2 by (auto simp: mn_moment_def mn_clock_def mn_fresh_def new_request_id_def read_clock_def st_bind_Inr)
  obtain c' i out where c': "finish_run (logging S) m i out None c = (Inr (), c')" "s' = s2 \<lparr> mn_coordinator := c' \<rparr>"
    using 3 s2(1) c(2) by (auto simp: on_journal_Inr)
  show "framed s s'" "mn_stats s' = mn_stats s" "mn_sched s' = mn_sched s"
    using s2(2-) c(2) c'(2) framed_trans [of s s1 s2] by simp_all
  note p = publish_grows [OF c(1)] and f = finish_run_grows [OF c'(1)]
  show "balanced k (a, t, b) (s' \<lparr> mn_stats := count_round report (mn_stats s') \<rparr>)"
    using assms(3,5) p f length_remove_ok [of "oc_runs (mn_coordinator s)" i] s2(2) c(2) round_tally [OF assms(4)]
    by (simp add: c'(2) grows_logged balanced_iff open_runs_def count_round_def)
qed

lemma round_result_Inr:
  "round_result E g r s = (Inr report, s') \<longleftrightarrow>
     s' = s \<and> (\<exists>tasks. r = TaskDone tasks \<and> measure_round (nw_show_duration (be_net E)) tasks g = Inr report)"
  by (auto simp: round_result_def split: task_end.splits sum.splits)

lemma moves_loaded_round:
  assumes "logged_env E" "length (pg_targets g) = k"
  shows "moves framed k (Suc a, t, b) (complete_loaded_round E g r) (a, t, b) (\<lambda>_. True)"
proof (rule movesI)
  fix s u s' assume b: "balanced k (Suc a, t, b) s" and "complete_loaded_round E g r s = (Inr u, s')"
  then obtain tasks report s1 where m: "measure_round (nw_show_duration (be_net E)) tasks g = Inr report"
    and p: "publish_ping_report E report s = (Inr (), s1)"
    and s': "s' = s1 \<lparr> mn_stats := count_round report (mn_stats s1) \<rparr>"
    by (auto simp: complete_loaded_round_def st_bind_Inr round_result_Inr count_def)
  show "balanced k (a, t, b) s' \<and> framed s s' \<and> True"
    using report_published [OF assms(1) p b m assms(2)] by (simp add: s')
qed

subsection \<open>Tests\<close>

definition actives :: "'a option \<Rightarrow> nat" where
  "actives g = (case g of None \<Rightarrow> 0 | Some _ \<Rightarrow> 1)"

lemma actives_simps [simp]: "actives None = 0" "actives (Some g) = 1"
  by (simp_all add: actives_def)

definition on_targets :: "nat \<Rightarrow> ping_round_request option \<Rightarrow> bool" where
  "on_targets k g \<longleftrightarrow> (\<forall>r. g = Some r \<longrightarrow> length (pg_targets r) = k)"

lemma moves_skip: "moves framed k p (count skip_tick) p (\<lambda>_. True)"
  by (rule moves_count, cases p) (simp add: balanced_iff skip_tick_def)

lemma load_step_balanced:
  assumes "logged_env E" "load_step E T ping i e active s = (Inr active', s')"
    "balanced k (actives active, t, b) s" "on_targets k active" "length (pm_targets ping) = k"
  shows "balanced k (actives active', t, b) s' \<and> framed s s' \<and> on_targets k active'"
proof (cases active; cases e)
  fix g r assume a: "active = Some g" "e = LoadTask r"
  then have g: "length (pg_targets g) = k" using assms(4) by (simp add: on_targets_def)
  from assms(2) a have "complete_loaded_round E g r s = (Inr (), s')" "active' = None"
    by (auto simp: load_step_def st_bind_Inr)
  then show ?thesis
    using movesD [OF moves_loaded_round [OF assms(1) g]] assms(3) a by (auto simp: on_targets_def)
next
  fix g d ph assume a: "active = Some g" "e = LoadTick d ph"
  with assms(2) have "count skip_tick s = (Inr (), s')" "active' = active"
    by (auto simp: load_step_def st_bind_Inr)
  then show ?thesis using movesD [OF moves_skip] assms(3,4) by blast
next
  fix r assume "active = None" "e = LoadTask r"
  then show ?thesis using assms by (auto simp: load_step_def)
next
  fix d ph assume a: "active = None" "e = LoadTick d ph"
  with assms(2) obtain g where "next_round E ping (tick T d) (Some ph) (Some i) s = (Inr g, s')" "active' = Some g"
    by (auto simp: load_step_def st_bind_Inr)
  then show ?thesis
    using movesD [OF moves_next_round [OF assms(1)]] assms(3,5) a by (fastforce simp: on_targets_def)
qed

lemma load_loop_balanced:
  assumes "logged_env E" "length (pm_targets ping) = k"
  shows "load_loop E T ping i es active s = (Inr active', s') \<Longrightarrow> balanced k (actives active, t, b) s \<Longrightarrow>
    on_targets k active \<Longrightarrow> balanced k (actives active', t, b) s' \<and> framed s s' \<and> on_targets k active'"
proof (induction es arbitrary: active s)
  case (Cons e es)
  from Cons.prems(1) obtain active1 s1 where
    1: "load_step E T ping i e active s = (Inr active1, s1)" "load_loop E T ping i es active1 s1 = (Inr active', s')"
    by (auto simp: st_bind_Inr)
  note 2 = load_step_balanced [OF assms(1) 1(1) Cons.prems(2,3) assms(2)]
  then show ?case using Cons.IH [OF 1(2)] by (blast intro: framed_trans)
qed simp

lemma moves_test:
  "moves framed k p (run_test E config i t) p (\<lambda>report. list_all bystander (br_events report))"
  by (auto simp: moves_def run_test_def measure_bandwidth_with_gate_and_phase_def Let_def
      dest: measured_bystanders split: prod.splits)

lemma moves_begin_test:
  assumes "logged_env E"
  shows "moves framed k (a, t, b)
    (on_journal (start_run_with_context (be_sinks E) m i parent kind ctx)) (a, Suc t, Suc b) (\<lambda>_. True)"
proof (rule movesI)
  fix s u s' assume b: "balanced k (a, t, b) s"
    and r: "on_journal (start_run_with_context (be_sinks E) m i parent kind ctx) s = (Inr u, s')"
  show "balanced k (a, Suc t, Suc b) s' \<and> framed s s' \<and> True"
    using run_started [OF assms r b] b by (auto simp: balanced_iff)
qed

lemma moves_load:
  assumes "logged_env E" "length (pm_targets ping) = k"
  shows "moves framed k (0, t, b)
    (st_bind (load_loop E T ping i es None) (\<lambda>active.
     st_bind (case active of None \<Rightarrow> st_return () | Some g \<Rightarrow> complete_loaded_round E g r) (\<lambda>_. st_return x)))
    (0, t, b) (\<lambda>y. y = x)"
proof (rule movesI)
  fix s y s' assume b: "balanced k (0, t, b) s" and "st_bind (load_loop E T ping i es None) (\<lambda>active.
     st_bind (case active of None \<Rightarrow> st_return () | Some g \<Rightarrow> complete_loaded_round E g r) (\<lambda>_. st_return x)) s =
     (Inr y, s')"
  then obtain active s1 where 1: "load_loop E T ping i es None s = (Inr active, s1)" and y: "y = x"
    and 2: "(case active of None \<Rightarrow> st_return () | Some g \<Rightarrow> complete_loaded_round E g r) s1 = (Inr (), s')"
    by (auto simp: st_bind_Inr)
  have 3: "balanced k (actives active, t, b) s1 \<and> framed s s1 \<and> on_targets k active"
    using load_loop_balanced [OF assms 1] b by (simp add: on_targets_def)
  show "balanced k (0, t, b) s' \<and> framed s s' \<and> y = x"
  proof (cases active)
    case None
    then show ?thesis using 2 3 y by auto
  next
    case (Some g)
    then have "length (pg_targets g) = k" using 3 by (simp add: on_targets_def)
    from movesD [OF moves_loaded_round [OF assms(1) this], of r s1 "()" s' 0 t b] show ?thesis
      using 2 3 y Some by (auto intro: framed_trans)
  qed
qed

lemma moves_monitored_test:
  assumes "logged_env E" "length (pm_targets ping) = k"
  shows "moves framed k (0, 0, 0) (measure_bandwidth_while_monitoring E T resolved ping i op t) (0, 1, 1)
    (\<lambda>report. list_all bystander (br_events report))"
  unfolding measure_bandwidth_while_monitoring_def One_nat_def
  by (intro moves_bind [OF moves_moment] moves_bind [OF moves_begin_test] moves_bind [OF moves_test]
      moves_result [OF moves_load])
    (use assms in simp_all)

lemma moves_finish_test:
  assumes "list_all bystander (br_events report)"
  shows "moves framed k p (finish_test E i op report) p (\<lambda>report. list_all bystander (br_events report))"
  unfolding finish_test_def
  by (intro moves_bind [OF moves_clock] moves_bind [OF moves_scheduler
        [where R = "\<lambda>x. list_all bystander (br_events (snd x) @ fst x)"]])
    (use assms in \<open>auto dest!: finish_attempt_bystanders intro: moves_return\<close>)

lemma moves_settle:
  assumes "logged_env E" "list_all bystander (br_events report)"
  shows "moves framed k (a, t, Suc b) (settle_bandwidth E i op report) (a, t, b) (\<lambda>_. True)"
proof -
  let ?r = "opportunity_apply_timing op report"
  have r: "list_all bystander (br_events ?r)" using assms(2) by (simp add: timing_bystanders)
  have test: "moves framed k (a, t, Suc b)
      (if br_reservation_error ?r = None then finish_test E i op ?r else st_return ?r) (a, t, Suc b)
      (\<lambda>report. list_all bystander (br_events report))"
    using moves_finish_test [OF r] r by (auto intro: moves_return)
  have answer: "moves framed k (a, t, b)
      (case br_reservation_error ?r of Some message \<Rightarrow> st_fail (MeScheduler (SAdmission message)) | None \<Rightarrow> st_return ())
      (a, t, b) (\<lambda>_. True)"
    by (auto intro: moves_return split: option.splits)
  show ?thesis
    unfolding settle_bandwidth_def Let_def
    by (rule moves_bind [OF test moves_bind [OF moves_publish [OF assms(1)]
          moves_bind [OF moves_end_run [OF assms(1)] answer transp_framed] transp_framed] transp_framed])
qed

lemma moves_count_attempt: "moves framed k (a, Suc t, b) (count count_attempt) (a, t, b) (\<lambda>_. True)"
  by (rule moves_count) (simp add: balanced_iff count_attempt_def)

subsection \<open>The monitors of one link\<close>

definition ping_inv :: "nat \<Rightarrow> ('b, 'j, measurement_event list) ping_monitor \<Rightarrow> bool" where
  "ping_inv k s \<longleftrightarrow> balanced k (actives (px_active s), 0, 0) s \<and> on_targets k (px_active s)"

lemma balanced_px [simp]:
  "balanced k p (s \<lparr> px_active := g \<rparr>) = balanced k p s" "balanced k p (s \<lparr> px_health := h \<rparr>) = balanced k p s"
  "balanced k p (s \<lparr> px_latest_success := l \<rparr>) = balanced k p s"
  by (simp_all add: balanced_def)

lemma framed_px: "framed s s' \<Longrightarrow> px_active s' = px_active s"
  by (auto simp: framed_def)

lemma balanced_stats_px:
  "balanced k p (s \<lparr> px_health := h, mn_stats := n \<rparr>) = balanced k p (s \<lparr> mn_stats := n \<rparr>)"
  by (simp add: balanced_def)

lemma complete_round_balanced:
  assumes "logged_env E" "complete_round E g r s = (Inr d, s')" "balanced k (Suc a, t, b) s" "length (pg_targets g) = k"
  shows "balanced k (a, t, b) s' \<and> px_active s' = px_active s"
proof -
  obtain tasks report s1 where m: "measure_round (nw_show_duration (be_net E)) tasks g = Inr report"
    and p: "publish_ping_report E report s = (Inr (), s1)"
    and s': "s' = s1 \<lparr> px_health := snd (observed report (px_health s1)), mn_stats := count_round report (mn_stats s1) \<rparr>"
    using assms(2)
    by (auto simp: complete_round_def st_bind_Inr round_result_Inr Let_def case_prod_beta)
  show ?thesis
    using report_published [OF assms(1) p assms(3) m assms(4)] framed_px [of s s1]
    by (simp add: s' balanced_stats_px)
qed

lemma idle_wait_inv:
  assumes "logged_env E" "length (pm_targets config) = k" "px_active s = None" "balanced k (0, 0, 0) s"
    "idle_wait E T config t s = (Inr stop, s')"
  shows "ping_inv k s' \<and> (stop \<longrightarrow> px_active s' = None)"
proof (cases "tn_wait t")
  case (WaitTick deadline)
  with assms(5) obtain g s1 where
    1: "next_round E config (tick T deadline) None None s = (Inr g, s1)" "s' = s1 \<lparr> px_active := Some g \<rparr>" "\<not> stop"
    by (auto simp: idle_wait_def st_bind_Inr)
  show ?thesis
    using movesD [OF moves_next_round [OF assms(1)] 1(1) assms(4)] assms(2)
    by (simp add: 1 ping_inv_def on_targets_def)
qed (use assms in \<open>auto simp: idle_wait_def ping_inv_def on_targets_def\<close>)

lemma active_wait_inv:
  assumes "logged_env E" "ping_inv k s" "px_active s = Some g"
    "active_wait E t after g s = (Inr stop, s')"
    "\<And>d. moves (\<lambda>s s'. px_active s' = px_active s) k (0, 0, 0) (after d) (0, 0, 0) (\<lambda>_. True)"
  shows "ping_inv k s' \<and> (stop \<longrightarrow> px_active s' = None)"
proof -
  let ?s = "s \<lparr> px_active := None \<rparr>"
  have b: "balanced k (Suc 0, 0, 0) ?s" "length (pg_targets g) = k"
    using assms(2,3) by (simp_all add: ping_inv_def on_targets_def)
  have fin: "ping_inv k s1" "px_active s1 = None" "balanced k (0, 0, 0) s1"
    if "complete_round E g r ?s = (Inr d, s1)" for r d s1
    using complete_round_balanced [OF assms(1) that b] by (simp_all add: ping_inv_def on_targets_def)
  show ?thesis
  proof (cases "tn_wait t")
    case (WaitTask r)
    with assms(4) obtain d s1 where 1: "complete_round E g r ?s = (Inr d, s1)" "after d s1 = (Inr (), s')" "\<not> stop"
      by (auto simp: active_wait_def st_bind_Inr)
    show ?thesis
      using movesD [OF assms(5) 1(2) fin(3) [OF 1(1)]] fin(2) [OF 1(1)] 1(3)
      by (simp add: ping_inv_def on_targets_def)
  next
    case (WaitCancelled cancelled r)
    then show ?thesis
      using assms(2,4) fin(1,2) by (auto simp: active_wait_def st_bind_Inr split: if_splits)
  next
    case (WaitTick deadline)
    with assms(4) have 1: "count skip_tick s = (Inr (), s')" "\<not> stop" by (auto simp: active_wait_def st_bind_Inr)
    show ?thesis
      using movesD [OF moves_skip 1(1)] assms(2) framed_px [of s s'] 1(2) by (auto simp: ping_inv_def)
  qed
qed

lemma ping_step_inv:
  assumes "logged_env E" "length (pm_targets config) = k"
  shows "yields (ping_inv k) (ping_step E T config t) (\<lambda>stop s. ping_inv k s \<and> (stop \<longrightarrow> px_active s = None))"
proof (rule yieldsI)
  fix s stop s' assume i: "ping_inv k s" and "ping_step E T config t s = (Inr stop, s')"
  then have r: "(case px_active s of Some g \<Rightarrow> active_wait E t (\<lambda>_. st_return ()) g s | None \<Rightarrow> idle_wait E T config t s) =
      (Inr stop, s')"
    by (simp add: ping_step_def)
  show "ping_inv k s' \<and> (stop \<longrightarrow> px_active s' = None)"
  proof (cases "px_active s")
    case None
    then show ?thesis using idle_wait_inv [OF assms None] i r by (simp add: ping_inv_def)
  next
    case (Some g)
    show ?thesis
      by (rule active_wait_inv [OF assms(1) i Some, where after = "\<lambda>_. st_return ()"])
        (use r Some in \<open>auto intro: moves_return\<close>)
  qed
qed

lemma moves_observe:
  assumes "logged_env E"
  shows "moves (\<lambda>s s'. px_active s' = px_active s) k p (observe_decision E config d) p (\<lambda>_. True)"
proof -
  let ?m = "st_bind (mn_clock E) (\<lambda>now.
    st_bind (on_scheduler (observe_health (be_ext E) (be_codec E) (pm_run_id config) (fst now) (fst d))) (publish E))"
  have "moves framed k p ?m p (\<lambda>_. True)"
    by (intro moves_bind [OF moves_clock] moves_bind [OF moves_scheduler [where R = "list_all bystander"]]
        moves_publish [OF assms]) (auto simp: observe_health_def dest: observe_bystanders)
  from movesD [OF this] framed_px show ?thesis
    unfolding moves_def observe_decision_def by fastforce
qed

lemma moves_adaptive_attempt:
  assumes "logged_env E" "length (pm_targets config) = k"
  shows "moves framed k (0, 0, 0) (adaptive_attempt E T resolved config t op) (0, 0, 0) Not"
  unfolding adaptive_attempt_def
  by (rule moves_bind [OF moves_fresh moves_bind [OF moves_monitored_test [OF assms, unfolded One_nat_def]
        moves_bind [OF moves_count_attempt moves_bind [OF moves_settle [OF assms(1)] moves_return]]]])
    simp_all

lemma adaptive_step_inv:
  assumes "logged_env E" "length (pm_targets config) = k"
  shows "yields (ping_inv k) (adaptive_step E T resolved config t)
    (\<lambda>stop s. ping_inv k s \<and> (stop \<longrightarrow> px_active s = None))"
proof (rule yieldsI)
  fix s stop s' assume i: "ping_inv k s" and r: "adaptive_step E T resolved config t s = (Inr stop, s')"
  show "ping_inv k s' \<and> (stop \<longrightarrow> px_active s' = None)"
  proof (cases "px_active s")
    case (Some g)
    let ?s = "s \<lparr> px_active := None \<rparr>"
    have b: "balanced k (Suc 0, 0, 0) ?s" "length (pg_targets g) = k"
      using i Some by (simp_all add: ping_inv_def on_targets_def)
    show ?thesis
    proof (cases "tn_shutdown t")
      case None
      then show ?thesis
        using r Some active_wait_inv [OF assms(1) i Some _ moves_observe [OF assms(1)]]
        by (simp add: adaptive_step_def)
    next
      case (Some e)
      then obtain d where "complete_round E g e ?s = (Inr d, s')"
        using r \<open>px_active s = Some g\<close> by (auto simp: adaptive_step_def st_bind_Inr)
      from complete_round_balanced [OF assms(1) this b] show ?thesis by (simp add: ping_inv_def on_targets_def)
    qed
  next
    case None
    have b: "balanced k (0, 0, 0) s" using i None by (simp add: ping_inv_def)
    show ?thesis
    proof (cases "tn_shutdown t")
      case (Some e)
      then show ?thesis using r None i by (simp add: adaptive_step_def)
    next
      case none: None
      from r None none obtain now s1 action s2 s3 where
        1: "mn_clock E s = (Inr now, s1)"
        "on_scheduler (poll (be_ext E) (be_codec E) (pm_run_id config) (fst now) (px_latest_success s)) s1 = (Inr action, s2)"
        "publish E (sp_events action) s2 = (Inr (), s3)"
        and 2: "(case sp_opportunity action of Some op \<Rightarrow> adaptive_attempt E T resolved config t op
          | None \<Rightarrow> idle_wait E T config t) s3 = (Inr stop, s')"
        by (auto simp: adaptive_step_def st_bind_Inr)
      note m1 = movesD [OF moves_clock 1(1) b]
      note m2 = movesD [OF moves_scheduler [where R = "\<lambda>a. list_all bystander (sp_events a)"] 1(2) m1(1)]
      have m2': "balanced k (0, 0, 0) s2" "framed s1 s2" "list_all bystander (sp_events action)"
        by (rule m2; auto simp: poll_def dest: poll_bystanders)+
      note m3 = movesD [OF moves_publish [OF assms(1) m2'(3)] 1(3) m2'(1)]
      have n: "px_active s3 = None" using None framed_px m1(2) m2'(2) m3(2) by metis
      show ?thesis
      proof (cases "sp_opportunity action")
        case None
        then show ?thesis using 2 idle_wait_inv [OF assms n m3(1)] by simp
      next
        case (Some op)
        then show ?thesis
          using 2 movesD [OF moves_adaptive_attempt [OF assms] _ m3(1)] framed_px [of s3 s'] n
          by (fastforce simp: ping_inv_def on_targets_def)
      qed
    qed
  qed
qed

subsection \<open>The monitor of several interfaces\<close>

definition multi_inv :: "nat \<Rightarrow> ('b, 'j, measurement_event list) multi_monitor \<Rightarrow> bool" where
  "multi_inv k s \<longleftrightarrow> balanced k (actives (mx_active s), 0, 0) s \<and> on_targets k (map_option snd (mx_active s))"

abbreviation same_active :: "('b, 'j, 'c) multi_monitor \<Rightarrow> ('b, 'j, 'c) multi_monitor \<Rightarrow> bool" where
  "same_active s s' \<equiv> mx_active s' = mx_active s"

lemma transp_same [simp]: "transp same_active"
  by (rule transpI) simp

lemma framed_mx: "framed s s' \<Longrightarrow> same_active s s'"
  by (auto simp: framed_def)

lemma moves_mx: "moves framed k p m q R \<Longrightarrow> moves same_active k p m q R"
  unfolding moves_def by (blast dest: framed_mx)

lemma balanced_mx [simp]:
  "balanced k p (s \<lparr> mx_active := g \<rparr>) = balanced k p s" "balanced k p (s \<lparr> mx_interfaces := rs \<rparr>) = balanced k p s"
  "balanced k p (s \<lparr> mx_fairness := f \<rparr>) = balanced k p s" "balanced k p (s \<lparr> mx_next_interface := n \<rparr>) = balanced k p s"
  "balanced k p (set_interface i r s) = balanced k p s" "mx_active (set_interface i r s) = mx_active s"
  "balanced k p (set_interface i r s \<lparr> mn_stats := x \<rparr>) = balanced k p (s \<lparr> mn_stats := x \<rparr>)"
  by (simp_all add: balanced_def set_interface_def)

lemma moves_interface_event: "moves framed k p (interface_event E run i out kind at_utc d) p bystander"
  unfolding interface_event_def
  by (intro moves_bind [OF moves_moment] moves_return) (simp_all add: bystander_def)

lemma moves_make_available: "moves same_active k p (make_available i) p (\<lambda>_. True)"
  by (auto simp: moves_def make_available_def case_prod_beta)

lemma moves_count_failure: "moves framed k p (count count_failure) p (\<lambda>_. True)"
  by (rule moves_count, cases p) (simp add: balanced_iff count_failure_def)

lemma moves_interface_failed: "moves same_active k p (interface_failed E run i d) p bystander"
proof (rule movesI)
  fix s ev s' assume b: "balanced k p s" and r: "interface_failed E run i d s = (Inr ev, s')"
  let ?m = "\<lambda>q. st_bind (count count_failure) (\<lambda>_. st_bind (mn_clock E) (\<lambda>utc.
    interface_event E run (ir_name (snd q)) Deferred (Some EkIo) (Some (fst utc + chrono_duration (fst q))) d))"
  have m: "moves framed k p (?m q) p bystander" for q
    by (intro moves_bind [OF moves_count_failure] moves_bind [OF moves_clock] moves_interface_event) simp_all
  from r obtain now s1 where 1: "mn_clock E s = (Inr now, s1)"
    and 2: "?m (mark_failed (snd now) (mx_interfaces s1 ! i))
      (set_interface i (snd (mark_failed (snd now) (mx_interfaces s1 ! i))) s1) = (Inr ev, s')"
    by (auto simp: interface_failed_def st_bind_Inr Let_def case_prod_beta)
  note 3 = movesD [OF moves_clock 1 b]
  note 4 = movesD [OF m 2, simplified, OF 3(1)]
  show "balanced k p s' \<and> same_active s s' \<and> bystander ev"
    using 4 framed_mx [OF 3(2)] framed_mx [OF 4(2)] by simp
qed

lemma moves_eligible: "moves same_active k p (eligible_interfaces E rs) p (\<lambda>_. True)"
  by (induction rs)
    (auto intro!: moves_return moves_bind [where F = same_active] moves_mx [OF moves_clock])

definition chosen_ok :: "string option \<times> measurement_event list \<Rightarrow> bool" where
  "chosen_ok x \<longleftrightarrow> list_all bystander (snd x)"

lemma candidates_None:
  "selector_select F (set ns) = None \<Longrightarrow>
   select_candidates E run resolver F ns s =
     st_bind (interface_event E run unassigned Suppressed None None
       (BandwidthSuppressed, NoHealthyInterface, ''reason=no_healthy_interface'')) (\<lambda>ev. st_return (None, [ev])) s"
  by (subst select_candidates.simps) (simp only: option.case)

lemma candidates_found:
  "selector_select F (set ns) = Some n \<Longrightarrow> resolver n = Inr v \<Longrightarrow>
   select_candidates E run resolver F ns s =
     st_bind (make_available (the (find_interface n (mx_interfaces s)))) (\<lambda>_. st_return (Some n, [])) s"
  by (subst select_candidates.simps) (simp only: option.case sum.case Let_def)

lemma candidates_failed:
  "selector_select F (set ns) = Some n \<Longrightarrow> resolver n = Inl e \<Longrightarrow>
   select_candidates E run resolver F ns s =
     st_bind (interface_failed E run (the (find_interface n (mx_interfaces s)))
       (BandwidthInterfaceSkipped, InterfaceUnavailable, ''reason=unavailable error='' @ interface_error_text e))
       (\<lambda>ev. st_bind (select_candidates E run resolver F (removeAll n ns)) (\<lambda>(selected, events).
         st_return (selected, ev # events))) s"
  by (subst select_candidates.simps) (simp only: option.case sum.case Let_def)

lemma moves_select_candidates: "moves same_active k p (select_candidates E run resolver F ns) p chosen_ok"
proof (induction ns rule: measure_induct_rule [where f = length])
  case (less ns)
  show ?case
  proof (rule movesI)
    fix s x s' assume b: "balanced k p s" and r: "select_candidates E run resolver F ns s = (Inr x, s')"
    show "balanced k p s' \<and> same_active s s' \<and> chosen_ok x"
    proof (cases "selector_select F (set ns)")
      case None
      let ?m = "st_bind (interface_event E run unassigned Suppressed None None
        (BandwidthSuppressed, NoHealthyInterface, ''reason=no_healthy_interface'')) (\<lambda>ev. st_return (None, [ev]))"
      have m: "moves framed k p ?m p chosen_ok"
        by (intro moves_bind [OF moves_interface_event] moves_return) (simp_all add: chosen_ok_def)
      have r: "?m s = (Inr x, s')"
        using r unfolding candidates_None [OF None] .
      show ?thesis using movesD [OF m r b] framed_mx [of s s'] by simp
    next
      case (Some n)
      let ?i = "the (find_interface n (mx_interfaces s))"
      show ?thesis
      proof (cases "resolver n")
        case (Inr v)
        let ?m = "st_bind (make_available ?i) (\<lambda>_. st_return (Some n, []))"
        have m: "moves same_active k p ?m p chosen_ok"
          by (intro moves_bind [OF moves_make_available] moves_return) (simp_all add: chosen_ok_def)
        have r: "?m s = (Inr x, s')"
          using r unfolding candidates_found [where resolver = resolver, OF Some Inr] .
        show ?thesis using movesD [OF m r b] by simp
      next
        case (Inl e)
        have "length (removeAll n ns) < length ns"
          using selected_eligible(1) [OF Some] by (simp add: length_removeAll_less)
        note IH = less [OF this]
        let ?m = "st_bind (interface_failed E run ?i
          (BandwidthInterfaceSkipped, InterfaceUnavailable, ''reason=unavailable error='' @ interface_error_text e))
          (\<lambda>ev. st_bind (select_candidates E run resolver F (removeAll n ns)) (\<lambda>(selected, events).
            st_return (selected, ev # events)))"
        have m: "moves same_active k p ?m p chosen_ok"
          by (intro moves_bind [OF moves_interface_failed] moves_bind [OF IH])
            (auto simp: chosen_ok_def intro!: moves_return)
        have r: "?m s = (Inr x, s')"
          using r unfolding candidates_failed [where resolver = resolver, OF Some Inl] .
        show ?thesis using movesD [OF m r b] by simp
      qed
    qed
  qed
qed

lemma moves_event_return:
  "moves same_active k p (st_bind (interface_event E run i out kind at_utc d) (\<lambda>ev. st_return (None, [ev]))) p chosen_ok"
  by (rule moves_mx, intro moves_bind [OF moves_interface_event] moves_return) (simp_all add: chosen_ok_def)

lemma moves_retry:
  "moves same_active k p
    (case at_deadline of None \<Rightarrow> st_return None | Some d \<Rightarrow> st_bind (instant_to_utc E d) (\<lambda>u. st_return (Some u)))
    p (\<lambda>_. True)"
  unfolding instant_to_utc_def
  by (rule moves_mx, cases at_deadline)
    (auto intro!: moves_return moves_bind [where F = framed] moves_bind [OF moves_clock])

lemma moves_select_requested: "moves same_active k p (select_requested E run resolver requested) p chosen_ok"
proof (rule movesI)
  fix s x s' assume b: "balanced k p s" and r: "select_requested E run resolver requested s = (Inr x, s')"
  show "balanced k p s' \<and> same_active s s' \<and> chosen_ok x"
  proof (cases "find_interface requested (mx_interfaces s)")
    case None
    have "st_bind (interface_event E run requested ErrorOutcome (Some EkIo) None
        (BandwidthSuppressed, TriggerInterfaceMissing, ''reason=trigger_interface_missing''))
        (\<lambda>ev. st_return (None, [ev])) s = (Inr x, s')"
      using r by (simp only: select_requested_def None option.case Let_def)
    from movesD [OF moves_event_return this b] show ?thesis by simp
  next
    case (Some i)
    from r obtain now s1 where 1: "mn_clock E s = (Inr now, s1)"
      by (auto simp: select_requested_def Some Let_def st_bind_Inr)
    note c = movesD [OF moves_clock 1 b]
    have tail: "balanced k p s' \<and> same_active s s' \<and> chosen_ok x"
      if "m s1 = (Inr x, s')" "moves same_active k p m p chosen_ok" for m
      using movesD [OF that(2,1) c(1)] framed_mx [OF c(2)] by simp
    have waiting: "moves same_active k p
        (st_bind (case d of None \<Rightarrow> st_return None | Some d \<Rightarrow> st_bind (instant_to_utc E d) (\<lambda>u. st_return (Some u)))
          (\<lambda>retry_at. st_bind (interface_event E run requested Deferred None retry_at y)
             (\<lambda>ev. st_return (None, [ev])))) p chosen_ok" for d y
      by (rule moves_bind [OF moves_retry moves_event_return transp_same])
    have ok: "moves same_active k p (st_bind (make_available i) (\<lambda>_. st_return (Some requested, []))) p chosen_ok"
      by (rule moves_bind [OF moves_make_available moves_return transp_same]) (simp_all add: chosen_ok_def)
    have failed: "moves same_active k p
        (st_bind (interface_failed E run i d) (\<lambda>ev. st_return (None, [ev]))) p chosen_ok" for d
      by (rule moves_bind [OF moves_interface_failed moves_return transp_same]) (simp_all add: chosen_ok_def)
    show ?thesis
    proof (cases "can_resolve (snd now) (mx_interfaces s1 ! i)")
      case False
      show ?thesis
        by (rule tail [OF _ waiting]) (use r False in \<open>simp add: select_requested_def Some Let_def st_bind_ok [where m = "mn_clock E", OF 1]\<close>)
    next
      case True
      show ?thesis
      proof (cases "resolver requested")
        case (Inr v)
        show ?thesis
          by (rule tail [OF _ ok]) (use r True Inr in \<open>simp add: select_requested_def Some Let_def st_bind_ok [where m = "mn_clock E", OF 1]\<close>)
      next
        case (Inl e)
        show ?thesis
          by (rule tail [OF _ failed])
            (use r True Inl in \<open>simp add: select_requested_def Some Let_def st_bind_ok [where m = "mn_clock E", OF 1]\<close>)
      qed
    qed
  qed
qed

lemma moves_select: "moves same_active k p (select_bandwidth_interface E run resolver op) p chosen_ok"
proof (rule movesI)
  fix s x s' assume b: "balanced k p s" and r: "select_bandwidth_interface E run resolver op s = (Inr x, s')"
  show "balanced k p s' \<and> same_active s s' \<and> chosen_ok x"
  proof (cases "op_interface op")
    case None
    have m: "moves same_active k p (st_bind (eligible_interfaces E rs) (select_candidates E run resolver F)) p chosen_ok"
      for rs F by (rule moves_bind [OF moves_eligible moves_select_candidates transp_same])
    from r have "st_bind (eligible_interfaces E (mx_interfaces s)) (select_candidates E run resolver (mx_fairness s)) s =
        (Inr x, s')"
      by (simp add: select_bandwidth_interface_def None)
    from movesD [OF m this b] show ?thesis by simp
  next
    case (Some n)
    with r have "select_requested E run resolver n s = (Inr x, s')" by (simp add: select_bandwidth_interface_def)
    from movesD [OF moves_select_requested this b] show ?thesis by simp
  qed
qed

lemma named_bystanders: "list_all bystander evs \<Longrightarrow> list_all bystander (map (name_interface i) evs)"
  by (auto simp: list_all_iff name_interface_def bystander_def)

lemma moves_record_turn: "moves same_active k p (record_turn i) p (\<lambda>_. True)"
  by (auto simp: moves_def record_turn_def)

lemma moves_multi_attempt:
  assumes "logged_env E" "length (pm_targets config) = k" "list_all bystander events"
  shows "moves same_active k (0, 0, 0) (multi_attempt E T resolved config t op events) (0, 0, 0) Not"
proof -
  have some: "moves same_active k (0, 0, 0)
      (st_bind (publish E (map (name_interface i) events)) (\<lambda>_.
       st_bind (publish E chosen) (\<lambda>_.
       st_bind mn_fresh (\<lambda>run.
       st_bind (measure_bandwidth_while_monitoring E T (with_interface i resolved) config run op t) (\<lambda>report.
       st_bind (record_turn i) (\<lambda>_.
       st_bind (count count_attempt) (\<lambda>_.
       st_bind (settle_bandwidth E run op report) (\<lambda>_.
       st_return False))))))))
      (0, 0, 0) Not" if "list_all bystander chosen" for i chosen
    by (rule moves_bind [OF moves_mx [OF moves_publish [OF assms(1) named_bystanders [OF assms(3)]]]
          moves_bind [OF moves_mx [OF moves_publish [OF assms(1) that]]
          moves_bind [OF moves_mx [OF moves_fresh]
          moves_bind [OF moves_mx [OF moves_monitored_test [OF assms(1,2), unfolded One_nat_def]]
          moves_bind [OF moves_record_turn
          moves_bind [OF moves_mx [OF moves_count_attempt]
          moves_bind [OF moves_mx [OF moves_settle [OF assms(1)]] moves_return]]]]]]])
      simp_all
  have none: "moves same_active k (0, 0, 0)
      (st_bind (publish E events) (\<lambda>_.
       st_bind (finish_test E (pm_run_id config) op
                  \<lparr> br_events = chosen, br_outcome = ErrorOutcome, br_reserved = False, br_reservation_error = None \<rparr>)
         (\<lambda>report. st_bind (publish E (br_events report)) (\<lambda>_. st_return False))))
      (0, 0, 0) Not" if "list_all bystander chosen" for chosen
    by (rule moves_mx, rule moves_bind [OF moves_publish [OF assms(1,3)]
          moves_bind [OF moves_finish_test moves_bind [OF moves_publish [OF assms(1)] moves_return]]])
      (use that in simp_all)
  show ?thesis
    unfolding multi_attempt_def
    by (rule moves_bind [OF moves_select]) (auto simp: chosen_ok_def intro: some none split: option.splits)
qed

lemma moves_observe_interface:
  assumes "logged_env E"
  shows "moves framed k p
    (st_bind (mn_clock E) (\<lambda>now.
     st_bind (on_scheduler (observe_interface_health (be_ext E) (be_codec E) run (fst now) i d)) (publish E)))
    p (\<lambda>_. True)"
  by (intro moves_bind [OF moves_clock] moves_bind [OF moves_scheduler [where R = "list_all bystander"]]
      moves_publish [OF assms]) (auto dest: observe_bystanders)

lemma complete_task_inv:
  assumes "logged_env E" "multi_inv k s" "mx_active s = Some active"
    "complete_interface_task E run active r s = (Inr u, s')"
  shows "multi_inv k s' \<and> mx_active s' = None"
proof -
  let ?s = "s \<lparr> mx_active := None \<rparr>"
  let ?i = "fst active"
  have b: "balanced k (Suc 0, 0, 0) ?s" "length (pg_targets (snd active)) = k"
    using assms(2,3) by (simp_all add: multi_inv_def on_targets_def)
  from assms(4) obtain tasks report s1 where
    m: "measure_round (nw_show_duration (be_net E)) tasks (snd active) = Inr report"
    and p: "publish_ping_report E report ?s = (Inr (), s1)"
    and s': "(let (decision, q) = observed_interface report (mx_interfaces s1 ! ?i);
        s2 = set_interface ?i q s1 \<lparr> mn_stats := count_round report (mn_stats s1) \<rparr>
       in if mn_sched s2 = None then (Inr (), s2)
          else st_bind (mn_clock E) (\<lambda>now.
            st_bind (on_scheduler (observe_interface_health (be_ext E) (be_codec E) run (fst now)
                       (Some (ir_name q)) decision)) (publish E)) s2) = (Inr u, s')"
    by (auto simp: complete_interface_task_def complete_interface_round_def st_bind_Inr round_result_Inr)
  obtain d q where q: "observed_interface report (mx_interfaces s1 ! ?i) = (d, q)" by fastforce
  let ?s2 = "set_interface ?i q s1 \<lparr> mn_stats := count_round report (mn_stats s1) \<rparr>"
  note rp = report_published [OF assms(1) p b(1) m b(2)]
  have s2: "balanced k (0, 0, 0) ?s2" "mx_active ?s2 = None"
    using rp(4) framed_mx [OF rp(1)] by simp_all
  show ?thesis
  proof (cases "mn_sched ?s2 = None")
    case True
    with s' q have "s' = ?s2" by simp
    then show ?thesis using s2 by (simp add: multi_inv_def on_targets_def)
  next
    case False
    with s' q have "st_bind (mn_clock E) (\<lambda>now.
        st_bind (on_scheduler (observe_interface_health (be_ext E) (be_codec E) run (fst now)
                   (Some (ir_name q)) d)) (publish E)) ?s2 = (Inr u, s')"
      by (simp add: Let_def split: if_splits)
    from movesD [OF moves_observe_interface [OF assms(1)] this s2(1)] s2(2) show ?thesis
      by (auto simp: multi_inv_def on_targets_def dest!: framed_mx)
  qed
qed

lemma start_interface_round_inv:
  assumes "logged_env E" "length (pm_targets config) = k" "balanced k (0, 0, 0) s" "mx_active s = None"
    "start_interface_round E config i scheduled s = (Inr u, s')"
  shows "multi_inv k s'"
proof -
  let ?name = "ir_name (mx_interfaces s ! i)"
  let ?event = "\<lambda>recovered. if recovered
    then st_bind (interface_event E (pm_run_id config) ?name Success None None
           (InterfaceRecovered, InterfaceAvailable, ''interface recovered'')) (\<lambda>ev. publish E [ev])
    else st_return ()"
  have event: "moves same_active k (0, 0, 0) (?event recovered) (0, 0, 0) (\<lambda>_. True)" for recovered
    by (rule moves_mx)
      (auto intro!: moves_return moves_bind [OF moves_interface_event] moves_publish [OF assms(1)])
  from assms(5) obtain recovered s1 s2 g s3 where
    1: "make_available i s = (Inr recovered, s1)" "?event recovered s1 = (Inr (), s2)"
    "next_round E (config \<lparr> pm_interface := Some ?name \<rparr>) scheduled None None s2 = (Inr g, s3)"
    and s': "s' = s3 \<lparr> mx_active := Some (i, g) \<rparr>"
    by (auto simp: start_interface_round_def st_bind_Inr Let_def)
  note m1 = movesD [OF moves_make_available 1(1) assms(3)]
  note m2 = movesD [OF event 1(2) m1(1)]
  note m3 = movesD [OF moves_next_round [OF assms(1)] 1(3) m2(1)]
  show ?thesis using m3 assms(2) by (simp add: s' multi_inv_def on_targets_def)
qed

lemma multi_tick_inv:
  assumes "logged_env E" "length (pm_targets config) = k" "balanced k (0, 0, 0) s" "mx_active s = None"
    "multi_tick E config t scheduled s = (Inr u, s')"
  shows "multi_inv k s'"
proof -
  let ?i = "mx_next_interface s"
  let ?s = "s \<lparr> mx_next_interface := Suc ?i mod length (mx_interfaces s) \<rparr>"
  have b: "balanced k (0, 0, 0) ?s" "mx_active ?s = None" using assms(3,4) by simp_all
  from assms(5) obtain now s1 where 1: "mn_clock E ?s = (Inr now, s1)"
    by (auto simp: multi_tick_def st_bind_Inr Let_def)
  note c = movesD [OF moves_clock 1 b(1)]
  have n: "mx_active s1 = None" using framed_mx [OF c(2)] b(2) by simp
  let ?r = "mx_interfaces s1 ! ?i"
  show ?thesis
  proof (cases "can_resolve (snd now) ?r")
    case False
    with assms(5) have "s' = s1" by (simp add: multi_tick_def Let_def st_bind_ok [where m = "mn_clock E", OF 1])
    then show ?thesis using c(1) n by (simp add: multi_inv_def on_targets_def)
  next
    case True
    show ?thesis
    proof (cases "tn_resolve t (ir_name ?r)")
      case (Inr v)
      with True assms(5) have "start_interface_round E config ?i scheduled s1 = (Inr u, s')"
        by (simp add: multi_tick_def Let_def st_bind_ok [where m = "mn_clock E", OF 1])
      from start_interface_round_inv [OF assms(1,2) c(1) n this] show ?thesis .
    next
      case (Inl e)
      let ?m = "\<lambda>d. st_bind (interface_failed E (pm_run_id config) ?i d) (\<lambda>ev. publish E [ev])"
      have m: "moves same_active k (0, 0, 0) (?m d) (0, 0, 0) (\<lambda>_. True)" for d
        by (intro moves_bind [OF moves_interface_failed] moves_mx [OF moves_publish [OF assms(1)]]) simp_all
      from True Inl assms(5)
      have "?m (InterfaceRetry, InterfaceUnavailable, ''error='' @ interface_error_text e) s1 = (Inr u, s')"
        by (simp add: multi_tick_def Let_def st_bind_ok [where m = "mn_clock E", OF 1])
      from movesD [OF m this c(1)] n show ?thesis by (simp add: multi_inv_def on_targets_def)
    qed
  qed
qed

lemma multi_idle_inv:
  assumes "logged_env E" "length (pm_targets config) = k" "balanced k (0, 0, 0) s" "mx_active s = None"
    "multi_idle_wait E T config t s = (Inr stop, s')"
  shows "multi_inv k s' \<and> (stop \<longrightarrow> mx_active s' = None)"
proof (cases "tn_wait t")
  case (WaitTick deadline)
  with assms(5) have "multi_tick E config t (tick T deadline) s = (Inr (), s')" "\<not> stop"
    by (auto simp: multi_idle_wait_def st_bind_Inr)
  then show ?thesis using multi_tick_inv [OF assms(1-4)] by blast
qed (use assms in \<open>auto simp: multi_idle_wait_def multi_inv_def on_targets_def\<close>)

lemma multi_active_inv:
  assumes "logged_env E" "multi_inv k s" "mx_active s = Some a" "multi_active_wait E run t a s = (Inr stop, s')"
  shows "multi_inv k s' \<and> (stop \<longrightarrow> mx_active s' = None)"
proof (cases "tn_wait t")
  case (WaitTask r)
  with assms(4) have "complete_interface_task E run a r s = (Inr (), s')" "\<not> stop"
    by (auto simp: multi_active_wait_def st_bind_Inr)
  then show ?thesis using complete_task_inv [OF assms(1-3)] by blast
next
  case (WaitCancelled cancelled r)
  show ?thesis
  proof (cases cancelled)
    case True
    with WaitCancelled assms(4) have "complete_interface_task E run a r s = (Inr (), s')"
      by (auto simp: multi_active_wait_def st_bind_Inr)
    then show ?thesis using complete_task_inv [OF assms(1-3)] by blast
  next
    case False
    with WaitCancelled assms show ?thesis by (simp add: multi_active_wait_def)
  qed
next
  case (WaitTick deadline)
  with assms(4) have 1: "count skip_tick s = (Inr (), s')" "\<not> stop"
    by (auto simp: multi_active_wait_def st_bind_Inr)
  show ?thesis
    using movesD [OF moves_skip 1(1)] assms(2) framed_mx [of s s'] 1(2) by (auto simp: multi_inv_def)
qed

lemma multi_step_inv:
  assumes "logged_env E" "length (pm_targets config) = k"
  shows "yields (multi_inv k) (multi_step E T resolved config t)
    (\<lambda>stop s. multi_inv k s \<and> (stop \<longrightarrow> mx_active s = None))"
proof (rule yieldsI)
  fix s stop s' assume i: "multi_inv k s" and r: "multi_step E T resolved config t s = (Inr stop, s')"
  show "multi_inv k s' \<and> (stop \<longrightarrow> mx_active s' = None)"
  proof (cases "mx_active s")
    case (Some a)
    show ?thesis
    proof (cases "tn_shutdown t")
      case None
      with Some r have "multi_active_wait E (pm_run_id config) t a s = (Inr stop, s')" by (simp add: multi_step_def)
      from multi_active_inv [OF assms(1) i Some this] show ?thesis .
    next
      case some: (Some e)
      with Some r have "complete_interface_task E (pm_run_id config) a e s = (Inr (), s')"
        by (auto simp: multi_step_def st_bind_Inr Let_def)
      from complete_task_inv [OF assms(1) i Some this] show ?thesis by blast
    qed
  next
    case None
    have b: "balanced k (0, 0, 0) s" using i None by (simp add: multi_inv_def)
    show ?thesis
    proof (cases "tn_shutdown t")
      case (Some e)
      then show ?thesis using r None i by (simp add: multi_step_def)
    next
      case no_shutdown: None
      show ?thesis
      proof (cases "mn_sched s")
        case no_sched: None
        with r None no_shutdown have "multi_idle_wait E T config t s = (Inr stop, s')" by (simp add: multi_step_def)
        from multi_idle_inv [OF assms b None this] show ?thesis .
      next
        case (Some sched)
        from r None no_shutdown Some obtain now s1 action s2 where
          1: "mn_clock E s = (Inr now, s1)"
          "on_scheduler (poll_interfaces (be_ext E) (be_codec E) (pm_run_id config) (fst now)
             (latest_successes (mx_interfaces s))) s1 = (Inr action, s2)"
          and 2: "(case sp_opportunity action of
             Some op \<Rightarrow> multi_attempt E T resolved config t op (sp_events action)
           | None \<Rightarrow> st_bind (publish E (sp_events action)) (\<lambda>_. multi_idle_wait E T config t)) s2 = (Inr stop, s')"
          by (auto simp: multi_step_def st_bind_Inr Let_def)
        note m1 = movesD [OF moves_clock 1(1) b]
        note m2 = movesD [OF moves_scheduler [where R = "\<lambda>a. list_all bystander (sp_events a)"] 1(2) m1(1)]
        have m2': "balanced k (0, 0, 0) s2" "framed s1 s2" "list_all bystander (sp_events action)"
          by (rule m2; auto dest: poll_bystanders)+
        have n: "mx_active s2 = None" using None framed_mx [OF m1(2)] framed_mx [OF m2'(2)] by simp
        show ?thesis
        proof (cases "sp_opportunity action")
          case no_op: None
          with 2 obtain s3 where 3: "publish E (sp_events action) s2 = (Inr (), s3)"
            "multi_idle_wait E T config t s3 = (Inr stop, s')"
            by (auto simp: st_bind_Inr)
          note m3 = movesD [OF moves_publish [OF assms(1) m2'(3)] 3(1) m2'(1)]
          show ?thesis using multi_idle_inv [OF assms m3(1) _ 3(2)] framed_mx [OF m3(2)] n by simp
        next
          case (Some op)
          with 2 have "multi_attempt E T resolved config t op (sp_events action) s2 = (Inr stop, s')" by simp
          from movesD [OF moves_multi_attempt [OF assms m2'(3)] this m2'(1)] n show ?thesis
            by (simp add: multi_inv_def on_targets_def)
        qed
      qed
    qed
  qed
qed

subsection \<open>Sessions\<close>

lemma finish_tally:
  assumes "finish_run (logging S) m i out err c = (Inr u, c')"
  shows "logged c' = logged c @ [(RunFinished, i, out)]" "open_runs c' < open_runs c"
  using finish_run_grows(1) [OF assms] finish_run_shrinks [OF assms] by (simp_all add: grows_logged open_runs_def)

lemma close_children_tally:
  "close_children S' ms i err c = (Inr u, c') \<Longrightarrow> S' = logging S \<Longrightarrow>
   answered (logged c') = answered (logged c) \<and> unanswered (logged c') = unanswered (logged c) \<and>
   starts (logged c') = starts (logged c) \<and> open_runs c' \<le> open_runs c"
proof (induction S' ms i err c rule: close_children.induct)
  case (1 S' ms i err c)
  show ?case
  proof (cases "open_leaf i (oc_runs c)")
    case None
    with 1(2) show ?thesis by (simp add: close_children.simps)
  next
    case (Some child)
    with 1(2) obtain c1 where f: "finish_run S' (ms (length (oc_runs c))) child ErrorOutcome err c = (Inr (), c1)"
      and r: "close_children S' ms i err c1 = (Inr u, c')"
      by (subst (asm) close_children.simps) (auto split: prod.splits sum.splits)
    have "finish_run (logging S) (ms (length (oc_runs c))) child ErrorOutcome err c = (Inr (), c1)"
      using f 1(3) by simp
    note t = finish_tally [OF this]
    from 1(1) [OF Some f [symmetric] refl r 1(3)] t show ?thesis by simp
  qed
qed

text \<open>What a finished monitor leaves: its statistics are those of the log, and nothing is open.\<close>

definition accounts :: "nat \<Rightarrow> run_id \<Rightarrow> monitor_stats \<Rightarrow> ('j, measurement_event list) coordinator \<Rightarrow> bool" where
  "accounts k session n c \<longleftrightarrow>
     mt_rounds_completed n = mt_rounds_started n \<and>
     length (filter (\<lambda>ev. ev_event_kind ev = RunStarted) (oc_console c)) =
       1 + mt_rounds_started n + mt_bandwidth_attempts n \<and>
     length (filter (\<lambda>ev. ev_event_kind ev = PingProbe \<and> ev_outcome ev = Success) (oc_console c)) =
       mt_successful_probes n \<and>
     length (filter (\<lambda>ev. ev_event_kind ev = PingProbe \<and> ev_outcome ev \<noteq> Success) (oc_console c)) =
       mt_failed_probes n \<and>
     mt_successful_probes n + mt_failed_probes n = mt_rounds_completed n * k \<and>
     oc_runs c = [] \<and> oc_console c \<noteq> [] \<and> shape (last (oc_console c)) = (RunFinished, session, CancelledOutcome)"

lemma session_closed:
  assumes "balanced k (0, 0, 0) s" "finish_monitor E ms session (Inr (mn_stats s)) (mn_coordinator s) = (Inr n, c)"
    "be_sinks E = logging S"
  shows "n = mn_stats s \<and> accounts k session n c"
proof -
  have n: "n = mn_stats s" and
    f: "finish_session (logging S) ms session CancelledOutcome
      (Some ''shutdown requested; active work drained'') (mn_coordinator s) = (Inr (), c)"
    using assms(2,3) by (auto simp: finish_monitor_def Let_def split: prod.splits sum.splits)
  from f obtain c1 where
    1: "close_children (logging S) ms session (Some ''shutdown requested; active work drained'') (mn_coordinator s) =
      (Inr (), c1)"
    and 2: "finish_run (logging S) (ms (length (oc_runs c1))) session CancelledOutcome
      (Some ''shutdown requested; active work drained'') c1 = (Inr (), c)"
    by (auto simp: finish_session_def split: prod.splits sum.splits)
  note t1 = close_children_tally [OF 1 refl] and t2 = finish_tally [OF 2]
  have "open_runs c = 0" using assms(1) t1 t2(2) by (simp add: balanced_iff)
  then have empty: "oc_runs c = []" by (simp add: open_runs_def)
  have l: "oc_console c \<noteq> [] \<and> shape (last (oc_console c)) = (RunFinished, session, CancelledOutcome)"
  proof -
    have "last (map shape (oc_console c)) = (RunFinished, session, CancelledOutcome)" "oc_console c \<noteq> []"
      using t2(1) by (auto simp: logged_def)
    then show ?thesis by (simp add: last_map)
  qed
  have "answered (logged c) = length (filter (\<lambda>ev. ev_event_kind ev = PingProbe \<and> ev_outcome ev = Success) (oc_console c))"
    "unanswered (logged c) = length (filter (\<lambda>ev. ev_event_kind ev = PingProbe \<and> ev_outcome ev \<noteq> Success) (oc_console c))"
    "starts (logged c) = length (filter (\<lambda>ev. ev_event_kind ev = RunStarted) (oc_console c))"
    by (simp_all add: logged_def answered_def unanswered_def starts_def filter_map comp_def shape_def)
  then show ?thesis
    using assms(1) t1 t2(1) empty l n by (simp add: accounts_def balanced_iff)
qed

text \<open>An orderly shutdown ends the session as cancelled, but its row carries the kind of an internal error.\<close>

lemma finish_run_row:
  assumes "finish_run (logging S) m i out err c = (Inr u, c')"
  shows "\<exists>run. bt_get (oc_runs c) i = Some run \<and>
    ev_error_kind (last (oc_console c')) = ev_error_kind (run_finished_event m i out err run)"
proof -
  obtain run c1 where r: "bt_get (oc_runs c) i = Some run"
    and p: "publish_batch (logging S) [run_finished_event m i out err run] c = (Inr (), c1)" "oc_console c' = oc_console c1"
    using assms by (auto simp: finish_run_def split: if_splits option.splits prod.splits sum.splits)
  from p have "last (oc_console c') = place_event (oc_runs c) (oc_sequence c + 1) (run_finished_event m i out err run)"
    by (auto simp: publish_batch_def logging_def checked_add_def Let_def split: if_splits prod.splits sum.splits option.splits)
  then show ?thesis using r by (auto simp: place_event_def Let_def split: option.split)
qed

lemma orderly_shutdown_internal:
  assumes "finish_monitor E ms session (Inr n) c = (Inr n', c')" "be_sinks E = logging S"
  shows "ev_error_kind (last (oc_console c')) = Some EkInternal"
proof -
  obtain c1 where "finish_run (logging S) (ms (length (oc_runs c1))) session CancelledOutcome
      (Some ''shutdown requested; active work drained'') c1 = (Inr (), c')"
    using assms by (auto simp: finish_monitor_def finish_session_def Let_def split: prod.splits sum.splits)
  from finish_run_row [OF this] show ?thesis by (auto simp: run_finished_event_def Let_def)
qed

lemma session_started:
  assumes "be_sinks E = logging S" "mn_coordinator s = coordinator_new j []" "mn_stats s = monitor_stats_default"
    "st_bind (mn_moment E) (\<lambda>m. on_journal (start_session (be_sinks E) m session ''run'')) s = (Inr u, s1)"
  shows "balanced k (0, 0, 0) s1" "framed s s1"
proof -
  from assms(4) obtain m s0 c where 1: "mn_moment E s = (Inr m, s0)"
    and c: "start_session (logging S) m session ''run'' (mn_coordinator s0) = (Inr (), c)"
    and s1: "s1 = s0 \<lparr> mn_coordinator := c \<rparr>"
    by (auto simp: st_bind_Inr on_journal_Inr assms(1))
  have s0: "mn_stats s0 = mn_stats s" "mn_coordinator s0 = mn_coordinator s" "framed s s0"
    using 1 by (auto simp: mn_moment_def mn_clock_def mn_fresh_def new_request_id_def read_clock_def st_bind_Inr)
  show "framed s s1" using s0(3) by (simp add: s1)
  from start_session_grows(3) [OF c] obtain r where r: "oc_runs c = [(session, r)]" by blast
  have "logged c = [(RunStarted, session, Started)]"
    using start_session_grows(1) [OF c] by (simp add: grows_logged s0(2) assms(2) coordinator_new_def logged_def)
  then show "balanced k (0, 0, 0) s1"
    using r s0(1) assms(3) by (simp add: s1 balanced_iff open_runs_def bt_ok_def monitor_stats_default_def)
qed

lemma monitor_session_accounts:
  assumes "be_sinks E = logging S" "mn_coordinator s = coordinator_new j []" "mn_stats s = monitor_stats_default"
    "monitor_session E ms session inner s = (Inr (Some n), s')"
    "\<And>s1 s2. balanced k (0, 0, 0) s1 \<Longrightarrow> framed s s1 \<Longrightarrow> inner s1 = (Inr (Some n), s2) \<Longrightarrow>
      balanced k (0, 0, 0) s2 \<and> mn_stats s2 = n"
  shows "accounts k session n (mn_coordinator s')"
proof -
  let ?start = "st_bind (mn_moment E) (\<lambda>m. on_journal (start_session (be_sinks E) m session ''run''))"
  let ?rest = "\<lambda>s. case inner s of (Inr None, s) \<Rightarrow> (Inr None, s)
    | (Inr (Some stats), s) \<Rightarrow> close_with E ms session (Inr stats) s
    | (Inl e, s) \<Rightarrow> close_with E ms session (Inl e) s"
  have close_Inl: "close_with E ms session (Inl e) s2 \<noteq> (Inr (Some n), s')" for e s2
    by (simp add: close_with_def finish_monitor_def Let_def case_prod_beta)
  from assms(4) obtain u s1 where 1: "?start s = (Inr u, s1)" and rest: "?rest s1 = (Inr (Some n), s')"
    unfolding monitor_session_def st_bind_Inr by blast
  note s1 = session_started [OF assms(1-3) 1]
  obtain r s2 where inner: "inner s1 = (r, s2)" by (cases "inner s1")
  obtain n' where r: "r = Inr (Some n')" using rest inner close_Inl
    by (cases r) (auto split: option.splits)
  with rest inner have "close_with E ms session (Inr n') s2 = (Inr (Some n), s')" by simp
  then obtain c where c: "finish_monitor E ms session (Inr n') (mn_coordinator s2) = (Inr n, c)"
    "s' = s2 \<lparr> mn_coordinator := c \<rparr>"
    unfolding close_with_def by (cases "finish_monitor E ms session (Inr n') (mn_coordinator s2)";
        cases "fst (finish_monitor E ms session (Inr n') (mn_coordinator s2))") auto
  have n: "n' = n" using c(1) by (auto simp: finish_monitor_def Let_def split: prod.splits sum.splits)
  have b: "balanced k (0, 0, 0) s2" "mn_stats s2 = n" using assms(5) [OF s1] inner r n by simp_all
  show ?thesis using session_closed [OF b(1) _ assms(1), of ms session n c] c b(2) n by simp
qed

lemma loop_result_balanced:
  assumes "loop_result f ended s = (Inr (Some n), s')" "moves framed k p f p (\<lambda>_. True)" "balanced k p s"
  shows "ended \<and> balanced k p s' \<and> mn_stats s' = n"
proof -
  have ended: ended using assms(1) by (cases ended) (simp_all add: loop_result_def)
  with assms(1) obtain u where f: "f s = (Inr u, s')" "mn_stats s' = n"
    by (auto simp: loop_result_def st_bind_Inr)
  from movesD(1) [OF assms(2) f(1) assms(3)] ended f(2) show ?thesis by simp
qed

lemma moves_flush: "moves framed k p (flush_scheduler E) p (\<lambda>_. True)"
  by (auto simp: moves_def flush_scheduler_def on_scheduler_Inr)

lemma moves_ticker: "moves framed k p (ticker_new E) p (\<lambda>_. True)"
  unfolding ticker_new_def by (intro moves_bind [OF moves_clock] moves_bind [OF moves_clock] moves_return) simp_all

lemma ended_balanced:
  assumes "st_bind (run_loop step ts) (loop_result f) s = (Inr (Some n), s')" "I s"
    "\<And>t. yields I (step t) (\<lambda>stop s. I s \<and> (stop \<longrightarrow> Z s))" "\<And>s. I s \<Longrightarrow> Z s \<Longrightarrow> balanced k (0, 0, 0) s"
    "moves framed k (0, 0, 0) f (0, 0, 0) (\<lambda>_. True)"
  shows "balanced k (0, 0, 0) s' \<and> mn_stats s' = n"
proof -
  from assms(1) obtain stop s1 where 1: "run_loop step ts s = (Inr stop, s1)"
    and 2: "loop_result f stop s1 = (Inr (Some n), s')"
    by (auto simp: st_bind_Inr)
  have stop: stop using 2 by (cases stop) (simp_all add: loop_result_def)
  have "I s1" "Z s1" using yieldsD [OF yields_loop [OF assms(3)] 1 assms(2)] stop by simp_all
  then show ?thesis using loop_result_balanced [OF 2 assms(5) assms(4)] by simp
qed

lemma ping_rest:
  assumes "ping_inv k s" "px_active s = None"
  shows "balanced k (0, 0, 0) s"
  using assms by (simp add: ping_inv_def)

lemma multi_rest:
  assumes "multi_inv k s" "mx_active s = None"
  shows "balanced k (0, 0, 0) s"
  using assms by (simp add: multi_inv_def)

lemma ping_inner_balanced:
  assumes "logged_env E" "length (pm_targets config) = k" "balanced k (0, 0, 0) s" "px_active s = None"
    "monitor_ping_inner E config shutdown deadline ts s = (Inr (Some n), s')"
  shows "balanced k (0, 0, 0) s' \<and> mn_stats s' = n"
proof (cases shutdown)
  case True
  then show ?thesis using assms(3,5) by (auto simp: monitor_ping_inner_def)
next
  case False
  let ?loop = "\<lambda>T (g :: ping_round_request) s.
    st_bind (run_loop (ping_step E T config) ts) (loop_result (st_return ())) (s \<lparr> px_active := Some g \<rparr>)"
  let ?start = "\<lambda>T. next_round E config (tick T deadline) None None"
  from assms(5) False have "st_bind (ticker_new E) (\<lambda>T. st_bind (?start T) (?loop T)) s = (Inr (Some n), s')"
    by (simp add: monitor_ping_inner_def)
  then obtain T s1 where 1: "ticker_new E s = (Inr T, s1)" and "st_bind (?start T) (?loop T) s1 = (Inr (Some n), s')"
    unfolding st_bind_Inr [of "ticker_new E"] by blast
  then obtain g s2 where 2: "?start T s1 = (Inr g, s2)" and 3: "?loop T g s2 = (Inr (Some n), s')"
    unfolding st_bind_Inr [of "?start T"] by blast
  note m1 = movesD [OF moves_ticker 1 assms(3)]
  note m2 = movesD [OF moves_next_round [OF assms(1)] 2 m1(1)]
  have i: "ping_inv k (s2 \<lparr> px_active := Some g \<rparr>)"
    using m2(1,3) assms(2) by (simp add: ping_inv_def on_targets_def)
  show ?thesis
    by (rule ended_balanced [OF 3 i ping_step_inv [OF assms(1,2)] ping_rest moves_return]) simp_all
qed

lemma adaptive_inner_balanced:
  assumes "logged_env E" "length (pm_targets config) = k" "balanced k (0, 0, 0) s" "px_active s = None"
    "monitor_adaptive_inner E resolved config ts s = (Inr (Some n), s')"
  shows "balanced k (0, 0, 0) s' \<and> mn_stats s' = n"
proof -
  from assms(5) obtain T s1 where 1: "ticker_new E s = (Inr T, s1)"
    and 2: "st_bind (run_loop (adaptive_step E T resolved config) ts) (loop_result (flush_scheduler E)) s1 =
      (Inr (Some n), s')"
    unfolding monitor_adaptive_inner_def st_bind_Inr [of "ticker_new E"] by blast
  note m1 = movesD [OF moves_ticker 1 assms(3)]
  have i: "ping_inv k s1" using m1(1) framed_px [OF m1(2)] assms(4) by (simp add: ping_inv_def on_targets_def)
  show ?thesis by (rule ended_balanced [OF 2 i adaptive_step_inv [OF assms(1,2)] ping_rest moves_flush])
qed

lemma multi_inner_balanced:
  assumes "logged_env E" "length (pm_targets config) = k" "balanced k (0, 0, 0) s" "mx_active s = None"
    "monitor_multi_interface_inner E resolved config ts s = (Inr (Some n), s')"
  shows "balanced k (0, 0, 0) s' \<and> mn_stats s' = n"
proof -
  from assms(5) obtain T s1 where 1: "ticker_new E s = (Inr T, s1)"
    and 2: "st_bind (run_loop (multi_step E T resolved config) ts) (loop_result (flush_scheduler E)) s1 =
      (Inr (Some n), s')"
    unfolding monitor_multi_interface_inner_def st_bind_Inr [of "ticker_new E"] by blast
  note m1 = movesD [OF moves_ticker 1 assms(3)]
  have i: "multi_inv k s1" using m1(1) framed_mx [OF m1(2)] assms(4) by (simp add: multi_inv_def on_targets_def)
  show ?thesis by (rule ended_balanced [OF 2 i multi_step_inv [OF assms(1,2)] multi_rest moves_flush])
qed

lemma accounts_flush: "accounts k session n (c \<lparr> oc_journal := j \<rparr>) = accounts k session n c"
  by (simp add: accounts_def)

lemma close_monitor_accounts:
  assumes "close_monitor E r = (Inr (Some n), Some s)"
    "\<And>s1. r = (Inr (Some n), s1) \<Longrightarrow> accounts k session n (mn_coordinator s1)"
  shows "accounts k session n (mn_coordinator s)"
proof -
  obtain result s1 where r: "r = (result, s1)" by fastforce
  obtain flushed j where f: "sk_flush (be_sinks E) (oc_journal (mn_coordinator s1)) = (flushed, j)" by fastforce
  have "result = Inr (Some n)" "s = s1 \<lparr> mn_coordinator := (mn_coordinator s1) \<lparr> oc_journal := j \<rparr> \<rparr>"
    using assms(1) by (auto simp: r close_monitor_def coordinator_flush_def f Let_def split: if_splits sum.splits)
  then show ?thesis using assms(2) r by (simp add: accounts_flush)
qed

lemma start_fields [simp]:
  "mn_coordinator (ping_start config c sched d) = c" "mn_stats (ping_start config c sched d) = monitor_stats_default"
  "mn_coordinator (multi_start resolved config c sched d) = c"
  "mn_stats (multi_start resolved config c sched d) = monitor_stats_default"
  "px_active (ping_start config c sched d) = None" "mx_active (multi_start resolved config c sched d) = None"
  by (simp_all add: ping_start_def multi_start_def monitor_start_def monitor.defs)

lemma settings_targets [simp]:
  "pm_targets (monitor_settings E config i) = pc_targets (rc_ping config)"
  "pm_run_id (monitor_settings E config i) = mi_run_id i"
  by (simp_all add: monitor_settings_def)

text \<open>
  C17. Whatever the links do, whatever the tests come to and whenever the shutdown comes: where the
  monitor of one link ends with statistics, they are those of its log. Every round it started was
  completed, each with one probe per target, every probe counted as a success or a failure is in
  the log as one, every test counted was started as a run, no run is left open, and the last event
  closes the session as cancelled.
\<close>
theorem ping_monitor_accounts:
  assumes "execute_ping_monitor E config i open_journal [] w bw = (Inr (Some n), Some s)"
    and sinks: "be_sinks E = logging S"
  shows "accounts (length (pc_targets (rc_ping config))) (mi_run_id i) n (mn_coordinator s)"
proof -
  let ?k = "length (pc_targets (rc_ping config))" and ?c = "monitor_settings E config i"
  have env: "logged_env E" using sinks by (auto simp: logged_env_def)
  from assms(1) obtain j sched where c: "close_monitor E
      (if sched \<noteq> None then monitor_adaptive E (mi_moments i) config ?c (mi_turns i) (ping_start ?c (coordinator_new j []) sched (mi_draws i))
       else monitor_ping E (mi_moments i) ?c (mi_shutdown i) (mi_first_tick i) (mi_turns i)
         (ping_start ?c (coordinator_new j []) sched (mi_draws i))) = (Inr (Some n), Some s)"
    by (auto simp: execute_ping_monitor_def Let_def split: prod.splits sum.splits)
  let ?s = "ping_start ?c (coordinator_new j []) sched (mi_draws i)"
  show ?thesis
  proof (rule close_monitor_accounts [OF c])
    fix s1 assume r: "(if sched \<noteq> None then monitor_adaptive E (mi_moments i) config ?c (mi_turns i) ?s
       else monitor_ping E (mi_moments i) ?c (mi_shutdown i) (mi_first_tick i) (mi_turns i) ?s) = (Inr (Some n), s1)"
    obtain inner where m: "monitor_session E (mi_moments i) (mi_run_id i) inner ?s = (Inr (Some n), s1)"
      and inner: "inner = monitor_adaptive_inner E config ?c (mi_turns i) \<or>
        inner = monitor_ping_inner E ?c (mi_shutdown i) (mi_first_tick i) (mi_turns i)"
      using r by (cases "sched = None") (simp_all add: monitor_adaptive_def monitor_ping_def)
    show "accounts ?k (mi_run_id i) n (mn_coordinator s1)"
    proof (rule monitor_session_accounts [OF sinks _ _ m])
      fix s2 s3 assume b: "balanced ?k (0, 0, 0) s2" "framed ?s s2" and run: "inner s2 = (Inr (Some n), s3)"
      have "px_active s2 = None" using framed_px [OF b(2)] by simp
      then show "balanced ?k (0, 0, 0) s3 \<and> mn_stats s3 = n"
        using inner run adaptive_inner_balanced [OF env _ b(1), of ?c] ping_inner_balanced [OF env _ b(1), of ?c]
        by auto
    qed simp_all
  qed
qed

text \<open>
  C16. The same for the monitor of several interfaces, of which some may be missing, fail to resolve
  or be skipped in a turn.
\<close>
theorem multi_monitor_accounts:
  assumes "execute_multi_interface_monitor_with E config i open_journal [] w bw = (Inr (Some n), Some s)"
    and sinks: "be_sinks E = logging S"
  shows "accounts (length (pc_targets (rc_ping config))) (mi_run_id i) n (mn_coordinator s)"
proof -
  let ?k = "length (pc_targets (rc_ping config))" and ?c = "monitor_settings E config i"
  have env: "logged_env E" using sinks by (auto simp: logged_env_def)
  from assms(1) obtain j sched where c: "close_monitor E (monitor_multi_interface E (mi_moments i) config ?c (mi_turns i)
      (multi_start config ?c (coordinator_new j []) sched (mi_draws i))) = (Inr (Some n), Some s)"
    by (auto simp: execute_multi_interface_monitor_with_def Let_def split: prod.splits sum.splits)
  let ?s = "multi_start config ?c (coordinator_new j []) sched (mi_draws i)"
  show ?thesis
  proof (rule close_monitor_accounts [OF c])
    fix s1 assume "monitor_multi_interface E (mi_moments i) config ?c (mi_turns i) ?s = (Inr (Some n), s1)"
    then have m: "monitor_session E (mi_moments i) (mi_run_id i) (monitor_multi_interface_inner E config ?c (mi_turns i)) ?s =
        (Inr (Some n), s1)" by (simp add: monitor_multi_interface_def)
    show "accounts ?k (mi_run_id i) n (mn_coordinator s1)"
    proof (rule monitor_session_accounts [OF sinks _ _ m])
      fix s2 s3 assume b: "balanced ?k (0, 0, 0) s2" "framed ?s s2"
        and run: "monitor_multi_interface_inner E config ?c (mi_turns i) s2 = (Inr (Some n), s3)"
      have "mx_active s2 = None" using framed_mx [OF b(2)] by simp
      then show "balanced ?k (0, 0, 0) s3 \<and> mn_stats s3 = n"
        using multi_inner_balanced [OF env _ b(1) _ run] by simp
    qed simp_all
  qed
qed

end
