(* ===== verification/MonitorChoice.thy ===== *)
theory MonitorChoice
  imports MonitorProps
begin

text \<open>
  Interfaces of a monitor: what a failed resolution costs an interface, which one a bandwidth test
  goes to, and that a shutdown ends the loop.
\<close>

subsection \<open>Backoff\<close>

lemma mark_failed_simps [simp]:
  "ir_available (snd (mark_failed now r)) = False" "ir_retry_at (snd (mark_failed now r)) = Some (now + fst (mark_failed now r))"
  "ir_backoff_step (snd (mark_failed now r)) = min (sat_add 255 (ir_backoff_step r) 1) 6"
  "fst (mark_failed now r) = secs (min (2 ^ min (ir_backoff_step r) 6) 60)"
  by (simp_all add: mark_failed_def Let_def)

lemma backoff_steps:
  "ir_backoff_step r \<le> 6 \<Longrightarrow>
   ir_backoff_step (fold (\<lambda>now r. snd (mark_failed now r)) ts r) = min (ir_backoff_step r + length ts) 6"
  by (induction ts arbitrary: r) (simp_all add: sat_add_def min_def)

lemma capped_power: "min (2 ^ min n 6) 60 = (min (2 ^ n) 60 :: nat)"
proof (cases "n \<le> 6")
  case False
  then have "(2::nat) ^ 6 \<le> 2 ^ n" by (intro power_increasing) simp_all
  then show ?thesis using False by (simp add: min_def)
qed (simp add: min_absorb1)


text \<open>An interface is available exactly while it waits for no retry.\<close>

definition in_step :: "interface_runtime \<Rightarrow> bool" where
  "in_step r \<longleftrightarrow> (ir_available r \<longleftrightarrow> ir_retry_at r = None)"

lemma in_step_kept:
  "in_step (interface_runtime_new h n)" "in_step (snd (mark_available r))" "in_step (snd (mark_failed now r))"
  "in_step r \<Longrightarrow> in_step (snd (observed_interface report r))"
  by (simp_all add: in_step_def interface_runtime_new_def mark_available_def mark_failed_def observed_interface_def
      Let_def case_prod_beta)

subsection \<open>The interface of a test\<close>

lemma min_by_key_filter:
  "min_by_key f xs = Some x \<Longrightarrow> P x \<Longrightarrow> min_by_key f (filter P xs) = Some x"
proof (induction xs arbitrary: x)
  case (Cons a xs)
  show ?case
  proof (cases "min_by_key f xs")
    case None
    then show ?thesis using Cons.prems by simp
  next
    case (Some y)
    show ?thesis
    proof (cases "f a \<le> f y")
      case True
      then have x: "x = a" using Some Cons.prems(1) by simp
      have "f a \<le> f z" if "min_by_key f (filter P xs) = Some z" for z
        using min_by_key_least [OF that] min_by_key_least [OF Some] True by (auto intro: order_trans)
      then show ?thesis using x Cons.prems(2) by (auto split: option.split)
    next
      case False
      then have "x = y" using Some Cons.prems(1) by simp
      then show ?thesis using Cons.IH [OF Some] Cons.prems(2) False by simp
    qed
  qed
qed simp

lemma select_subset:
  assumes "selector_select F A = Some n" "n \<in> B" "B \<subseteq> A"
  shows "selector_select F B = Some n"
proof -
  let ?es = "List.enumerate 0 (se_order F)"
  obtain e where e: "min_by_key (select_key F) (filter (\<lambda>e. snd e \<in> A) ?es) = Some e" "n = snd e"
    using assms(1) by (auto simp: selector_select_def)
  have "filter (\<lambda>e. snd e \<in> B) ?es = filter (\<lambda>e. snd e \<in> B) (filter (\<lambda>e. snd e \<in> A) ?es)"
    using assms(3) by (auto simp: filter_filter intro: filter_cong)
  then show ?thesis
    using min_by_key_filter [OF e(1), where P = "\<lambda>e. snd e \<in> B"] e(2) assms(2) by (simp add: selector_select_def)
qed


text \<open>None of the steps of a choice fails.\<close>

lemma clock_total: "\<exists>s'. mn_clock E s = (Inr (fst (read_clock (be_provider E) (mn_draws s))), s')"
  by (simp add: mn_clock_def case_prod_beta Let_def)

lemma clock_any: "\<exists>x s'. mn_clock E s = (Inr x, s')"
  using clock_total by blast

lemma fresh_total: "\<exists>x s'. mn_fresh s = (Inr x, s')"
  by (simp add: mn_fresh_def case_prod_beta Let_def)

lemma total_bind:
  assumes "\<exists>x s'. m s = (Inr x, s')" "\<And>x s. \<exists>y s'. f x s = (Inr y, s')"
  shows "\<exists>y s'. st_bind m f s = (Inr y, s')"
proof -
  obtain x s1 where "m s = (Inr x, s1)" using assms(1) by blast
  then show ?thesis using assms(2) [of x s1] by (simp add: st_bind_ok)
qed

lemma event_total: "\<exists>ev s'. interface_event E run i out kind at_utc d s = (Inr ev, s')"
  unfolding interface_event_def mn_moment_def
  by (intro total_bind) (use clock_total fresh_total in \<open>fastforce simp: st_return_def\<close>)+

lemma make_available_total: "\<exists>b s'. make_available i s = (Inr b, s')"
  by (simp add: make_available_def case_prod_beta Let_def)

lemma failed_total: "\<exists>ev s'. interface_failed E run i d s = (Inr ev, s')"
proof -
  have "\<exists>ev s'. st_bind (count count_failure) (\<lambda>_. st_bind (mn_clock E) (\<lambda>utc.
       interface_event E run n Deferred (Some EkIo) (x utc) d)) s = (Inr ev, s')" for n x s
  proof (rule total_bind)
    show "\<exists>x s'. count count_failure s = (Inr x, s')" by (simp add: count_def)
    show "\<exists>ev s'. st_bind (mn_clock E) (\<lambda>utc. interface_event E run n Deferred (Some EkIo) (x utc) d) s = (Inr ev, s')"
      for s by (rule total_bind) (use clock_total event_total in blast)+
  qed
  then show ?thesis unfolding interface_failed_def case_prod_beta Let_def
    by (rule total_bind [OF clock_any])
qed

lemma eligible_total:
  "list_all in_step rs \<Longrightarrow>
   \<exists>s'. eligible_interfaces E rs s = (Inr (map ir_name (filter (\<lambda>r. ir_available r \<and> \<not> ir_degraded r) rs)), s')"
proof (induction rs arbitrary: s)
  case (Cons r rs)
  show ?case
  proof (cases "ir_available r \<and> \<not> ir_degraded r")
    case True
    then have c: "can_resolve now r" for now using Cons.prems by (simp add: in_step_def can_resolve_def)
    obtain now s1 where 1: "mn_clock E s = (Inr now, s1)" using clock_total by blast
    obtain s2 where 2: "eligible_interfaces E rs s1 =
        (Inr (map ir_name (filter (\<lambda>r. ir_available r \<and> \<not> ir_degraded r) rs)), s2)"
      using Cons by auto
    show ?thesis using True c
      by (simp add: st_bind_ok [where m = "mn_clock E", OF 1] st_bind_ok [where m = "eligible_interfaces E rs", OF 2])
  next
    case False
    then show ?thesis using Cons by auto
  qed
qed simp

lemma candidates_total:
  "\<exists>evs s'. select_candidates E run resolver F ns s =
     (Inr (selector_select F {n \<in> set ns. \<exists>v. resolver n = Inr v}, evs), s')"
proof (induction ns arbitrary: s rule: measure_induct_rule [where f = length])
  case (less ns)
  let ?R = "\<lambda>ns. {n \<in> set ns. \<exists>v. resolver n = Inr v}"
  show ?case
  proof (cases "selector_select F (set ns)")
    case None
    then have "selector_select F (?R ns) = None" by (auto simp: select_None)
    then show ?thesis
      using event_total [of E run unassigned Suppressed None None
          "(BandwidthSuppressed, NoHealthyInterface, ''reason=no_healthy_interface'')" s]
      unfolding candidates_None [OF None] by (auto simp: st_bind_def)
  next
    case (Some n)
    let ?i = "the (find_interface n (mx_interfaces s))"
    have n: "n \<in> set ns" using selected_eligible(1) [OF Some] .
    show ?thesis
    proof (cases "resolver n")
      case (Inr v)
      then have "selector_select F (?R ns) = Some n" using n by (intro select_subset [OF Some]) auto
      then show ?thesis
        using make_available_total [of ?i s]
        unfolding candidates_found [where resolver = resolver, OF Some Inr] by (auto simp: st_bind_def)
    next
      case (Inl e)
      let ?d = "(BandwidthInterfaceSkipped, InterfaceUnavailable, ''reason=unavailable error='' @ interface_error_text e)"
      obtain ev s1 where 1: "interface_failed E run ?i ?d s = (Inr ev, s1)" using failed_total by blast
      have "length (removeAll n ns) < length ns" using n by (simp add: length_removeAll_less)
      then obtain evs s2 where 2: "select_candidates E run resolver F (removeAll n ns) s1 =
          (Inr (selector_select F (?R (removeAll n ns)), evs), s2)"
        using less by blast
      have "?R (removeAll n ns) = ?R ns" using Inl by auto
      then show ?thesis
        unfolding candidates_failed [where resolver = resolver, OF Some Inl]
        by (simp only: st_bind_ok [where m = "interface_failed E run ?i ?d", OF 1]
            st_bind_ok [where m = "select_candidates E run resolver F (removeAll n ns)", OF 2] prod.case st_return_def)
          simp
    qed
  qed
qed

text \<open>What the requested interface must be for the test to go there.\<close>

definition requested_ready ::
    "nat \<Rightarrow> (string \<Rightarrow> interface_error + resolved_interface) \<Rightarrow> string \<Rightarrow> interface_runtime list \<Rightarrow> bool" where
  "requested_ready now resolver requested rs \<longleftrightarrow>
     (case find_interface requested rs of
        None \<Rightarrow> False
      | Some i \<Rightarrow> can_resolve now (rs ! i) \<and> (case resolver requested of Inl _ \<Rightarrow> False | Inr _ \<Rightarrow> True))"

lemma same_interfaces: "mn_clock E s = (Inr x, s1) \<Longrightarrow> mx_interfaces s1 = mx_interfaces s"
  by (auto simp: mn_clock_def case_prod_beta Let_def)

lemma refused_total:
  assumes "\<exists>r s'. m s = (Inr r, s')"
  shows "\<exists>evs s'. st_bind m (\<lambda>r. st_bind (interface_event E run i out kind r d) (\<lambda>ev. st_return (None, [ev]))) s =
    (Inr (None, evs), s')"
proof -
  obtain r s1 where 1: "m s = (Inr r, s1)" using assms by blast
  obtain ev s2 where 2: "interface_event E run i out kind r d s1 = (Inr ev, s2)" using event_total by blast
  show ?thesis
    by (simp add: st_bind_ok [where m = m, OF 1] st_bind_ok [where m = "interface_event E run i out kind r d", OF 2])
qed

lemma requested_total:
  "\<exists>evs s'. select_requested E run resolver requested s =
     (Inr (if requested_ready (snd (fst (read_clock (be_provider E) (mn_draws s)))) resolver requested (mx_interfaces s)
           then Some requested else None, evs), s')"
proof (cases "find_interface requested (mx_interfaces s)")
  case None
  obtain ev s1 where "interface_event E run requested ErrorOutcome (Some EkIo) None
     (BandwidthSuppressed, TriggerInterfaceMissing, ''reason=trigger_interface_missing'') s = (Inr ev, s1)"
    using event_total by blast
  then show ?thesis
    by (simp only: select_requested_def Let_def None option.case requested_ready_def if_False st_bind_ok st_return_def)
      simp
next
  case (Some i)
  obtain s1 where 1: "mn_clock E s = (Inr (fst (read_clock (be_provider E) (mn_draws s))), s1)"
    using clock_total by blast
  let ?now = "snd (fst (read_clock (be_provider E) (mn_draws s)))"
  note same = same_interfaces [OF 1]
  show ?thesis
  proof (cases "can_resolve ?now (mx_interfaces s ! i)")
    case False
    let ?m = "case ir_retry_at (mx_interfaces s ! i) of None \<Rightarrow> st_return None
      | Some deadline \<Rightarrow> st_bind (instant_to_utc E deadline) (\<lambda>u. st_return (Some u))"
    have m: "\<exists>r s'. ?m s1 = (Inr r, s')"
    proof (cases "ir_retry_at (mx_interfaces s ! i)")
      case (Some d)
      have "\<exists>r s'. st_bind (instant_to_utc E d) (\<lambda>u. st_return (Some u)) s1 = (Inr r, s')"
        unfolding instant_to_utc_def
        by (intro total_bind) (use clock_total in \<open>fastforce simp: st_return_def\<close>)+
      then show ?thesis using Some by simp
    qed simp
    obtain evs s2 where 2: "st_bind ?m (\<lambda>retry_at. st_bind (interface_event E run requested Deferred None retry_at
        (BandwidthSuppressed, TriggerInterfaceBackoff, ''reason=trigger_interface_backoff''))
        (\<lambda>ev. st_return (None, [ev]))) s1 = (Inr (None :: string option, evs), s2)"
      using refused_total [where m = ?m, OF m] by blast
    have "\<not> requested_ready ?now resolver requested (mx_interfaces s)"
      using Some False by (simp add: requested_ready_def)
    moreover have "select_requested E run resolver requested s = (Inr (None, evs), s2)"
      using 2 by (simp only: select_requested_def Some Let_def st_bind_ok [where m = "mn_clock E", OF 1] same
          option.case False not_False_eq_True if_True)
    ultimately show ?thesis by simp
  next
    case True
    show ?thesis
    proof (cases "resolver requested")
      case (Inr v)
      obtain b s2 where 2: "make_available i s1 = (Inr b, s2)" using make_available_total by blast
      have "requested_ready ?now resolver requested (mx_interfaces s)"
        using Some True Inr by (simp add: requested_ready_def)
      moreover have "select_requested E run resolver requested s = (Inr (Some requested, []), s2)"
        by (simp only: select_requested_def Some Let_def st_bind_ok [where m = "mn_clock E", OF 1] same option.case
            True not_True_eq_False if_False Inr sum.case st_bind_ok [where m = "make_available i", OF 2] st_return_def)
      ultimately show ?thesis by simp
    next
      case (Inl e)
      let ?d = "(BandwidthSuppressed, TriggerInterfaceUnavailable,
        ''reason=trigger_interface_unavailable error='' @ interface_error_text e)"
      obtain ev s2 where 2: "interface_failed E run i ?d s1 = (Inr ev, s2)" using failed_total by blast
      have "\<not> requested_ready ?now resolver requested (mx_interfaces s)"
        using Some Inl by (simp add: requested_ready_def)
      moreover have "select_requested E run resolver requested s = (Inr (None, [ev]), s2)"
        by (simp only: select_requested_def Some Let_def st_bind_ok [where m = "mn_clock E", OF 1] same option.case
            True not_True_eq_False if_False Inl sum.case st_bind_ok [where m = "interface_failed E run i ?d", OF 2]
            st_return_def)
      ultimately show ?thesis by simp
    qed
  qed
qed


subsection \<open>The end\<close>

definition stops :: "('e + bool) \<times> 's \<Rightarrow> bool" where
  "stops r \<longleftrightarrow> fst r \<noteq> Inr False"

lemma stops_bind: "(\<And>x s. stops (f x s)) \<Longrightarrow> stops (st_bind m f s)"
  by (auto simp: st_bind_def stops_def split: prod.split sum.split)

lemma loop_stops:
  assumes "t \<in> set ts" "\<And>s. stops (step t s)"
  shows "stops (run_loop step ts s)"
  using assms(1)
proof (induction ts arbitrary: s)
  case (Cons u ts)
  have step: "stops (run_loop step (u # ts) s)" if r: "step u s = (r, s1)" and
    f: "r = Inr False \<Longrightarrow> t \<in> set ts" for r s1
    using r Cons.IH f by (cases r) (auto simp: st_bind_def stops_def st_return_def)
  obtain r s1 where r: "step u s = (r, s1)" by fastforce
  show ?case
    by (rule step [OF r]) (use Cons.prems r assms(2) [of s] in \<open>auto simp: stops_def st_return_def\<close>)
qed simp

lemma loop_result_some:
  assumes "stops (run_loop step ts s)"
  shows "fst (st_bind (run_loop step ts) (loop_result f) s) \<noteq> Inr None"
  using assms
  by (auto simp: st_bind_def stops_def loop_result_def split: prod.splits sum.splits if_splits)

lemma multi_step_stops: "tn_shutdown t = Some r \<Longrightarrow> stops (multi_step E T resolved config t s)"
  by (cases "mx_active s") (auto simp: multi_step_def Let_def stops_def st_bind_def st_return_def split: prod.splits sum.splits)

lemma close_with_some: "fst (close_with E ms session r s) \<noteq> Inr None"
proof -
  obtain x c where "finish_monitor E ms session r (mn_coordinator s) = (x, c)" by fastforce
  then show ?thesis by (cases x) (simp_all add: close_with_def)
qed

lemma session_some:
  assumes "\<And>s. fst (inner s) \<noteq> Inr None"
  shows "fst (monitor_session E ms session inner s) \<noteq> Inr None"
proof -
  let ?rest = "\<lambda>s. case inner s of (Inr None, s) \<Rightarrow> (Inr None, s)
    | (Inr (Some stats), s) \<Rightarrow> close_with E ms session (Inr stats) s
    | (Inl e, s) \<Rightarrow> close_with E ms session (Inl e) s"
  have rest: "fst (?rest s) \<noteq> Inr None" for s
  proof -
    obtain r s1 where r: "inner s = (r, s1)" by fastforce
    then have "r \<noteq> Inr None" using assms [of s] by simp
    then show ?thesis using r by (cases r) (auto simp: close_with_some split: option.split)
  qed
  let ?start = "st_bind (mn_moment E) (\<lambda>m. on_journal (start_session (be_sinks E) m session ''run''))"
  obtain r s1 where r: "?start s = (r, s1)" by fastforce
  show ?thesis
  proof (cases r)
    case (Inl e)
    then show ?thesis using r by (simp add: monitor_session_def st_bind_err [where m = ?start])
  next
    case (Inr u)
    then show ?thesis using r rest [of s1] by (simp only: monitor_session_def st_bind_ok [where m = ?start] not_False_eq_True)
  qed
qed

lemma close_monitor_some: "fst x \<noteq> Inr None \<Longrightarrow> fst (close_monitor E x) \<noteq> Inr None"
  by (cases x; cases "fst x") (simp_all add: close_monitor_def case_prod_beta Let_def split: sum.split)

text \<open>
  C20. The monitor ends once a shutdown is seen: with statistics or with an error, but without
  waiting for anything more than the round that is active then.
\<close>
theorem shutdown_ends_monitor:
  fixes E :: "('u, 'n, 'b, 'd, 'e) command_env"
  assumes "t \<in> set (mi_turns i)" "tn_shutdown t \<noteq> None"
  shows "fst (execute_multi_interface_monitor_with E config i open_journal console w bw) \<noteq> Inr None"
proof -
  obtain r where r: "tn_shutdown t = Some r" using assms(2) by blast
  have inner: "fst (monitor_multi_interface_inner E config c (mi_turns i) s) \<noteq> Inr None" for c s
  proof -
    have "fst (st_bind (run_loop (multi_step E T config c) (mi_turns i)) (loop_result (flush_scheduler E)) s1) \<noteq> Inr None"
      for T s1 by (rule loop_result_some [OF loop_stops [OF assms(1), where step = "multi_step E T config c", OF multi_step_stops [OF r]]])
    then show ?thesis
      by (cases "ticker_new E s"; cases "fst (ticker_new E s)") (auto simp: monitor_multi_interface_inner_def st_bind_def)
  qed
  have "fst (close_monitor E (monitor_multi_interface E ms config c (mi_turns i) s)) \<noteq> Inr None"
    for ms c and s :: "('b, 'd, 'e) multi_monitor"
    unfolding monitor_multi_interface_def by (rule close_monitor_some [OF session_some [OF inner]])
  then show ?thesis
    by (simp add: execute_multi_interface_monitor_with_def Let_def split: prod.split sum.split)
qed

end
