(* ===== verification/MonitorDemo.thy ===== *)
theory MonitorDemo
  imports MonitorChoice BandwidthDemo
begin

text \<open>Concrete runs of the monitors, on which their properties are applied.\<close>

definition demo_monitor_config :: "demo_url resolved_config" where
  "demo_monitor_config = demo_direct_config \<lparr> rc_bandwidth := demo_mlab \<lparr> bw_automatic_enabled := False \<rparr> \<rparr>"

definition demo_turn :: "wait \<Rightarrow> nat turn" where
  "demo_turn w =
     \<lparr> tn_shutdown = None, tn_wait = w, tn_resolve = (\<lambda>n. Inr \<lparr> ri_name = n, ri_addresses = [IPv4 9] \<rparr>), tn_net = 0,
       tn_event_ids = (\<lambda>k. k), tn_load = [], tn_load_end = TaskLost [] \<rparr>"

definition demo_monitor_input :: "nat turn list \<Rightarrow> nat monitor_input" where
  "demo_monitor_input ts =
     \<lparr> mi_run_id = 1, mi_run_number = 5, mi_started_at = 0, mi_seed = 0, mi_draws = demo_draws, mi_shutdown = False,
       mi_first_tick = 0, mi_turns = ts, mi_moments = demo_moment \<rparr>"

definition demo_reply_event :: "(duration \<Rightarrow> string) \<Rightarrow> ping_round_request \<Rightarrow> measurement_event" where
  "demo_reply_event show_duration g = fst (measure_target show_duration demo_task g 0)"

lemma demo_round_measured:
  assumes "pg_targets g = [IPv4 1]" "pg_round_number g = 0"
  shows "measure_round show_duration demo_task g =
    Inr \<lparr> pp_events = [demo_reply_event show_duration g], pp_successful = 1, pp_failed = 0 \<rparr>"
proof -
  have p: "round_probe g 0 = \<lparr> pq_target = IPv4 1, pq_identifier = pg_identifier g, pq_sequence = 0, pq_timeout = pg_timeout g \<rparr>"
    by (simp add: round_probe_def assms round_sequence_def)
  have "probe_answered demo_task (round_probe g 0)"
    by (simp add: p probe_answered_def demo_task_def echo_answer_def)
  then show ?thesis
    using valid_round [of g "()"] by (simp add: measure_round_def assms Let_def demo_reply_event_def)
qed

lemma demo_reply_run [simp]: "ev_run_id (demo_reply_event show_duration g) = pg_run_id g"
  by (simp add: demo_reply_event_def)

lemma demo_sinks_flush: "sk_flush (demo_sinks False) j = (Inr (), j)"
  by (simp add: demo_sinks_def)

lemma demo_environment:
  "be_sinks demo_command_env = demo_sinks False" "be_provider demo_command_env = demo_env_bw"
  "pv_clock demo_env_bw n = (0, 0)"
  by (simp_all add: demo_command_env_def demo_env_simps)

text \<open>The journal takes what comes, and these runs are open.\<close>

definition ready :: "(run_id \<times> active_run) list \<Rightarrow> nat \<Rightarrow> (demo_byte, nat, measurement_event list, 'z) monitor_scheme \<Rightarrow> bool" where
  "ready runs k s \<longleftrightarrow>
     \<not> oc_failed (mn_coordinator s) \<and> oc_sequence (mn_coordinator s) \<le> k \<and> oc_runs (mn_coordinator s) = runs"

lemma ready_frame [simp]:
  "ready runs k (s \<lparr> mn_draws := d \<rparr>) = ready runs k s" "ready runs k (s \<lparr> mn_stats := n \<rparr>) = ready runs k s"
  "ready runs k (s \<lparr> mn_next_round := r \<rparr>) = ready runs k s"
  by (simp_all add: ready_def)

lemma ready_parts [simp]:
  "ready runs k (s \<lparr> px_active := g \<rparr>) = ready runs k s" "ready runs k (s \<lparr> px_health := h \<rparr>) = ready runs k s"
  "ready runs k (t \<lparr> mx_active := x \<rparr>) = ready runs k t" "ready runs k (t \<lparr> mx_interfaces := rs \<rparr>) = ready runs k t"
  "ready runs k (t \<lparr> mx_next_interface := i \<rparr>) = ready runs k t"
  by (simp_all add: ready_def)

lemma demo_clock: "mn_clock demo_command_env s = (Inr (0, 0), s \<lparr> mn_draws := (mn_draws s) \<lparr> dr_readings := dr_readings (mn_draws s) + 1 \<rparr> \<rparr>)"
  by (simp add: mn_clock_def read_clock_def demo_environment)

lemma demo_fresh: "mn_fresh s = (Inr (dr_next_id (mn_draws s)), s \<lparr> mn_draws := (mn_draws s) \<lparr> dr_next_id := dr_next_id (mn_draws s) + 1 \<rparr> \<rparr>)"
  by (simp add: mn_fresh_def new_request_id_def)

lemma demo_targets_valid: "pg_targets g = [IPv4 1] \<Longrightarrow> validate_round_request g = Inr ()"
  by (simp add: valid_round)

lemma demo_round_starts:
  assumes "ready [(1, a)] k s" "k < 100" "1 < dr_next_id (mn_draws s)" "pm_run_id config = 1" "pm_targets config = [IPv4 1]"
  shows "\<exists>g b s'. next_round demo_command_env config at_utc None None s = (Inr g, s') \<and>
    ready [(1, a), (pg_run_id g, b)] (Suc k) s' \<and> ar_parent b = Some 1 \<and> 1 < pg_run_id g \<and>
    pg_targets g = [IPv4 1] \<and> pg_round_number g = mn_next_round s \<and> framed s s' \<and> 1 < dr_next_id (mn_draws s') \<and> mn_sched s' = mn_sched s"
  using assms
  apply (simp add: next_round_def start_round_def monitor_request_def demo_targets_valid st_bind_def demo_fresh demo_clock mn_moment_def st_return_def on_journal_def st_error_def st_on_def demo_environment start_run_with_context_def ready_def bt_get_def begin_run_def demo_publish Let_def)
  done

lemma demo_round_ends:
  assumes "ready [(1, a), (pg_run_id g, b)] k s" "k < 100" "1 < pg_run_id g" "ar_parent a = None" "ar_parent b = Some 1"
  shows "\<exists>s'. publish_ping_report demo_command_env
      \<lparr> pp_events = [demo_reply_event show_duration g], pp_successful = 1, pp_failed = 0 \<rparr> s = (Inr (), s') \<and>
    ready [(1, a)] (k + 2) s' \<and> framed s s' \<and> mn_sched s' = mn_sched s"
  using assms
  by (simp add: publish_ping_report_def publish_def end_run_def st_bind_def demo_fresh demo_clock mn_moment_def
      st_return_def on_journal_def st_error_def st_on_def demo_environment ready_def bt_get_def finish_run_def
      demo_publish has_child_def bt_remove_def Let_def)

lemma demo_session:
  assumes "\<And>s a. ready [(1, a)] 1 s \<Longrightarrow> ar_parent a = None \<Longrightarrow> framed s0 s \<Longrightarrow> dr_next_id (mn_draws s) = 8 \<Longrightarrow>
      mn_next_round s = mn_next_round s0 \<Longrightarrow> mn_sched s = mn_sched s0 \<Longrightarrow>
      \<exists>k n s'. inner s = (Inr (Some n), s') \<and> ready [(1, a)] k s' \<and> k < 100"
    "mn_coordinator s0 = coordinator_new 0 []" "mn_draws s0 = demo_draws"
  shows "\<exists>n s. close_monitor demo_command_env (monitor_session demo_command_env demo_moment 1 inner s0) = (Inr (Some n), Some s)"
proof -
  let ?start = "st_bind (mn_moment demo_command_env)
    (\<lambda>m. on_journal (start_session (be_sinks demo_command_env) m 1 ''run''))"
  have "\<exists>a s. ?start s0 = (Inr (), s) \<and> ready [(1, a)] 1 s \<and> ar_parent a = None \<and> framed s0 s \<and>
    dr_next_id (mn_draws s) = 8 \<and> mn_next_round s = mn_next_round s0 \<and> mn_sched s = mn_sched s0"
    using assms(2,3)
    by (simp add: st_bind_def demo_fresh demo_clock mn_moment_def st_return_def on_journal_def st_error_def st_on_def
        demo_environment ready_def bt_get_def start_session_def begin_run_def demo_publish coordinator_new_def Let_def)
  then obtain a s1 where 1: "?start s0 = (Inr (), s1)" and s1: "ready [(1, a)] 1 s1" "ar_parent a = None" "framed s0 s1"
    "dr_next_id (mn_draws s1) = 8" "mn_next_round s1 = mn_next_round s0" "mn_sched s1 = mn_sched s0" by blast
  from assms(1) [OF s1] obtain k n s2 where 2: "inner s1 = (Inr (Some n), s2)" "ready [(1, a)] k s2" "k < 100" by blast
  have "\<exists>c. finish_session (demo_sinks False) demo_moment 1 CancelledOutcome
      (Some ''shutdown requested; active work drained'') (mn_coordinator s2) = (Inr (), c)"
    using 2(2,3) s1(2)
    by (simp add: finish_session_def close_children.simps open_leaf_def finish_run_def ready_def has_child_def
        bt_get_def demo_publish)
  then obtain c where c: "finish_session (demo_sinks False) demo_moment 1 CancelledOutcome
      (Some ''shutdown requested; active work drained'') (mn_coordinator s2) = (Inr (), c)" ..
  have "finish_monitor demo_command_env demo_moment 1 (Inr n) (mn_coordinator s2) = (Inr n, c)"
    by (simp only: finish_monitor_def sum.case prod.case Let_def demo_environment c)
  then have "monitor_session demo_command_env demo_moment 1 inner s0 = (Inr (Some n), s2 \<lparr> mn_coordinator := c \<rparr>)"
    unfolding monitor_session_def st_bind_ok [where m = ?start, OF 1] 2(1)
    by (simp add: close_with_def)
  then show ?thesis by (simp add: close_monitor_def coordinator_flush_def demo_environment demo_sinks_def)
qed

lemma demo_settings:
  "pm_run_id (monitor_settings demo_command_env demo_monitor_config (demo_monitor_input ts)) = 1"
  "pm_targets (monitor_settings demo_command_env demo_monitor_config (demo_monitor_input ts)) = [IPv4 1]"
  "open_scheduler demo_command_env demo_monitor_config (demo_monitor_input ts) bw = Inr None"
  "mi_draws (demo_monitor_input ts) = demo_draws" "mi_moments (demo_monitor_input ts) = demo_moment"
  "mi_turns (demo_monitor_input ts) = ts" "\<not> mi_shutdown (demo_monitor_input ts)"
  "mi_run_id (demo_monitor_input ts) = 1" "pc_targets (rc_ping demo_monitor_config) = [IPv4 1]"
  by (simp_all add: monitor_settings_def demo_monitor_config_def demo_monitor_input_def demo_direct_config_def
      open_scheduler_def demo_mlab_def)

lemma demo_ticker: "\<exists>T d. ticker_new demo_command_env s = (Inr T, s \<lparr> mn_draws := d \<rparr>) \<and> dr_next_id d = dr_next_id (mn_draws s)"
  by (intro exI [of _ "\<lparr> tk_anchor = 0, tk_anchor_utc = 0 \<rparr>"]
      exI [of _ "(mn_draws s) \<lparr> dr_readings := dr_readings (mn_draws s) + 2 \<rparr>"])
    (simp add: ticker_new_def st_bind_def demo_clock st_return_def)

definition demo_link_turns :: "nat turn list" where
  "demo_link_turns = [demo_turn (WaitTask (TaskDone demo_task)), demo_turn (WaitCancelled True (TaskLost []))]"

lemma demo_ping_ends:
  "\<exists>n s. execute_ping_monitor demo_command_env demo_monitor_config (demo_monitor_input demo_link_turns)
     (\<lambda>w. (Inr 0, w)) [] () bw = (Inr (Some n), Some s)"
proof -
  let ?c = "monitor_settings demo_command_env demo_monitor_config (demo_monitor_input demo_link_turns)"
  let ?s = "ping_start ?c (coordinator_new 0 []) None demo_draws"
  have inner: "\<exists>k n s'. monitor_ping_inner demo_command_env ?c False d demo_link_turns s = (Inr (Some n), s') \<and>
      ready [(1, a)] k s' \<and> k < 100"
    if r: "ready [(1, a)] 1 s" "ar_parent a = None" "framed ?s s" "dr_next_id (mn_draws s) = 8"
      "mn_next_round s = mn_next_round ?s" for s a d
  proof -
    obtain T dr where 1: "ticker_new demo_command_env s = (Inr T, s \<lparr> mn_draws := dr \<rparr>)" "dr_next_id dr = 8"
      using demo_ticker [of s] r(4) by auto
    obtain g b s1 where 2: "next_round demo_command_env ?c (tick T d) None None (s \<lparr> mn_draws := dr \<rparr>) = (Inr g, s1)"
      and g: "ready [(1, a), (pg_run_id g, b)] 2 s1" "ar_parent b = Some 1" "1 < pg_run_id g" "pg_targets g = [IPv4 1]"
        "pg_round_number g = 0"
      using demo_round_starts [of a 1 "s \<lparr> mn_draws := dr \<rparr>" ?c "tick T d"] r 1(2)
      by (auto simp: demo_settings ping_start_def monitor_start_def monitor.defs numeral_2_eq_2)
    have "ready [(1, a), (pg_run_id g, b)] 2 (s1 \<lparr> px_active := None \<rparr>)" using g(1) by simp
    from demo_round_ends [OF this _ g(3) r(2) g(2), of "nw_show_duration (be_net demo_command_env)"]
    obtain s2 where 3: "publish_ping_report demo_command_env \<lparr> pp_events =
        [demo_reply_event (nw_show_duration (be_net demo_command_env)) g], pp_successful = 1, pp_failed = 0 \<rparr>
        (s1 \<lparr> px_active := None \<rparr>) = (Inr (), s2)" "ready [(1, a)] 4 s2" "framed (s1 \<lparr> px_active := None \<rparr>) s2" by auto
    have n: "px_active s2 = None" using framed_px [OF 3(3)] by simp
    let ?report = "\<lparr> pp_events = [demo_reply_event (nw_show_duration (be_net demo_command_env)) g], pp_successful = 1, pp_failed = 0 \<rparr>"
    let ?s3 = "s2 \<lparr> px_health := snd (observed ?report (px_health s2)), mn_stats := count_round ?report (mn_stats s2) \<rparr>"
    have "complete_round demo_command_env g (TaskDone demo_task) (s1 \<lparr> px_active := None \<rparr>) =
        (Inr (fst (observed ?report (px_health s2)), True), ?s3)"
      unfolding complete_round_def
      using 3(1) by (simp add: round_result_def demo_round_measured [OF g(4,5)] st_bind_def st_return_def case_prod_beta Let_def)
    then have "ping_step demo_command_env T ?c (demo_turn (WaitTask (TaskDone demo_task))) (s1 \<lparr> px_active := Some g \<rparr>) =
        (Inr False, ?s3)"
      by (simp add: ping_step_def active_wait_def demo_turn_def st_bind_def st_return_def)
    moreover have "ping_step demo_command_env T ?c (demo_turn (WaitCancelled True (TaskLost []))) ?s3 = (Inr True, ?s3)"
      using n by (simp add: ping_step_def idle_wait_def demo_turn_def st_return_def)
    ultimately have loop: "run_loop (ping_step demo_command_env T ?c) demo_link_turns (s1 \<lparr> px_active := Some g \<rparr>) = (Inr True, ?s3)"
      by (simp add: demo_link_turns_def st_bind_def st_return_def)
    have "monitor_ping_inner demo_command_env ?c False d demo_link_turns s = (Inr (Some (mn_stats ?s3)), ?s3)"
      unfolding monitor_ping_inner_def if_False st_bind_ok [where m = "ticker_new demo_command_env", OF 1(1)]
        st_bind_ok [where m = "next_round demo_command_env ?c (tick T d) None None", OF 2]
        st_bind_ok [where m = "run_loop (ping_step demo_command_env T ?c) demo_link_turns", OF loop]
      by (simp add: loop_result_def st_bind_def st_return_def)
    moreover have "ready [(1, a)] 4 ?s3" using 3(2) by simp
    ultimately show ?thesis by fastforce
  qed
  have start: "mn_coordinator ?s = coordinator_new 0 []" "mn_draws ?s = demo_draws"
    by (simp_all add: ping_start_def monitor_start_def monitor.defs)
  have "\<exists>n s. close_monitor demo_command_env (monitor_session demo_command_env demo_moment 1
      (monitor_ping_inner demo_command_env ?c False d demo_link_turns) ?s) = (Inr (Some n), Some s)" for d
    by (rule demo_session [OF inner start])
  then show ?thesis
    by (simp add: execute_ping_monitor_def demo_settings monitor_ping_def Let_def)
qed

definition demo_multi_turns :: "nat turn list" where
  "demo_multi_turns =
     [demo_turn (WaitTick 0), demo_turn (WaitTask (TaskDone demo_task)),
      (demo_turn (WaitTick 0)) \<lparr> tn_shutdown := Some (TaskLost []) \<rparr>]"

text \<open>The tick starts a round on the only interface, which resolves.\<close>

lemma demo_multi_tick:
  assumes "ready [(1, a)] 1 s" "1 < dr_next_id (mn_draws s)" "mx_interfaces s = [interface_runtime_new h ''eth0'']"
    "mx_next_interface s = 0" "mn_sched s = None" "mx_active s = None" "mn_next_round s = 0"
    "pm_run_id c = 1" "pm_targets c = [IPv4 1]"
  shows "\<exists>g b s' r. multi_step demo_command_env T resolved c (demo_turn (WaitTick 0)) s = (Inr False, s') \<and>
    ready [(1, a), (pg_run_id g, b)] 2 s' \<and> ar_parent b = Some 1 \<and> 1 < pg_run_id g \<and> pg_targets g = [IPv4 1] \<and>
    pg_round_number g = 0 \<and> mx_active s' = Some (0, g) \<and> mn_sched s' = None"
proof -
  let ?r = "interface_runtime_new h ''eth0''"
  let ?s = "s \<lparr> mx_next_interface := 0, mn_draws := (mn_draws s) \<lparr> dr_readings := dr_readings (mn_draws s) + 1 \<rparr>,
    mx_interfaces := [snd (mark_available ?r)] \<rparr>"
  let ?c = "c \<lparr> pm_interface := Some (ir_name ?r) \<rparr>"
  have "ready [(1, a)] 1 ?s" using assms(1) by simp
  from demo_round_starts [OF this, of ?c "tick T 0"]
  obtain g b s1 where 1: "next_round demo_command_env ?c (tick T 0) None None ?s = (Inr g, s1)"
    and g: "ready [(1, a), (pg_run_id g, b)] 2 s1" "ar_parent b = Some 1" "1 < pg_run_id g" "pg_targets g = [IPv4 1]"
      "pg_round_number g = 0" and sched: "mn_sched s1 = mn_sched s"
    using assms by (auto simp: numeral_2_eq_2)
  have start: "start_interface_round demo_command_env c 0 (tick T 0) (s \<lparr> mx_next_interface := 0,
      mn_draws := (mn_draws s) \<lparr> dr_readings := dr_readings (mn_draws s) + 1 \<rparr> \<rparr>) = (Inr (), s1 \<lparr> mx_active := Some (0, g) \<rparr>)"
    using 1 assms(3)
    by (simp add: start_interface_round_def make_available_def set_interface_def mark_available_def
        interface_runtime_new_def st_bind_def st_return_def case_prod_beta Let_def)
  have "multi_tick demo_command_env c (demo_turn (WaitTick 0)) (tick T 0) s = (Inr (), s1 \<lparr> mx_active := Some (0, g) \<rparr>)"
    unfolding multi_tick_def st_bind_ok [OF demo_clock] Let_def
    using start assms(3,4)
    by (simp add: can_resolve_def interface_runtime_new_def demo_turn_def st_bind_ok [OF demo_clock])
  then have "multi_step demo_command_env T resolved c (demo_turn (WaitTick 0)) s = (Inr False, s1 \<lparr> mx_active := Some (0, g) \<rparr>)"
    using assms(5,6) by (simp add: multi_step_def demo_turn_def multi_idle_wait_def st_bind_def st_return_def)
  then show ?thesis using g 1 sched assms(5) by fastforce
qed

lemma demo_multi_task:
  assumes "ready [(1, a), (pg_run_id g, b)] 2 s" "ar_parent a = None" "ar_parent b = Some 1" "1 < pg_run_id g"
    "pg_targets g = [IPv4 1]" "pg_round_number g = 0" "mx_active s = Some (0, g)" "mn_sched s = None"
  shows "\<exists>s'. multi_step demo_command_env T resolved c (demo_turn (WaitTask (TaskDone demo_task))) s = (Inr False, s') \<and>
    ready [(1, a)] 4 s' \<and> mx_active s' = None \<and> mn_sched s' = None"
proof -
  let ?report = "\<lparr> pp_events = [demo_reply_event (nw_show_duration (be_net demo_command_env)) g], pp_successful = 1, pp_failed = 0 \<rparr>"
  have "ready [(1, a), (pg_run_id g, b)] 2 (s \<lparr> mx_active := None \<rparr>)" using assms(1) by simp
  from demo_round_ends [OF this _ assms(4,2,3), of "nw_show_duration (be_net demo_command_env)"]
  obtain s1 where 1: "publish_ping_report demo_command_env ?report (s \<lparr> mx_active := None \<rparr>) = (Inr (), s1)"
    "ready [(1, a)] 4 s1" "framed (s \<lparr> mx_active := None \<rparr>) s1" "mn_sched s1 = None"
    using assms(8) by auto
  have n: "mx_active s1 = None" using framed_mx [OF 1(3)] by simp
  define r where "r = snd (observed_interface ?report (mx_interfaces s1 ! 0))"
  let ?s = "set_interface 0 r s1 \<lparr> mn_stats := count_round ?report (mn_stats s1) \<rparr>"
  have "complete_interface_round demo_command_env (pm_run_id c) 0 ?report (s \<lparr> mx_active := None \<rparr>) = (Inr (), ?s)"
    unfolding complete_interface_round_def st_bind_ok [where m = "publish_ping_report demo_command_env ?report", OF 1(1)]
    using 1(4) by (simp add: r_def set_interface_def case_prod_beta Let_def)
  then have "complete_interface_task demo_command_env (pm_run_id c) (0, g) (TaskDone demo_task) s = (Inr (), ?s)"
    by (simp add: complete_interface_task_def round_result_def demo_round_measured [OF assms(5,6)] st_bind_def st_return_def)
  then have "multi_step demo_command_env T resolved c (demo_turn (WaitTask (TaskDone demo_task))) s = (Inr False, ?s)"
    using assms(7) by (simp add: multi_step_def demo_turn_def multi_active_wait_def st_bind_def st_return_def)
  then show ?thesis using 1(2,4) n by (simp add: set_interface_def)
qed

lemma demo_multi_ends:
  "\<exists>n s. execute_multi_interface_monitor_with demo_command_env demo_monitor_config (demo_monitor_input demo_multi_turns)
     (\<lambda>w. (Inr 0, w)) [] () bw = (Inr (Some n), Some s)"
proof -
  let ?c = "monitor_settings demo_command_env demo_monitor_config (demo_monitor_input demo_multi_turns)"
  let ?s = "multi_start demo_monitor_config ?c (coordinator_new 0 []) None demo_draws"
  have start: "mn_coordinator ?s = coordinator_new 0 []" "mn_draws ?s = demo_draws" "mx_next_interface ?s = 0"
    "mx_interfaces ?s = [interface_runtime_new (pm_health ?c) ''eth0'']" "mn_next_round ?s = 0" "mn_sched ?s = None"
    by (simp_all add: multi_start_def monitor_start_def monitor.defs demo_monitor_config_def demo_direct_config_def)
  have inner: "\<exists>k n s'. monitor_multi_interface_inner demo_command_env demo_monitor_config ?c demo_multi_turns s =
      (Inr (Some n), s') \<and> ready [(1, a)] k s' \<and> k < 100"
    if r: "ready [(1, a)] 1 s" "ar_parent a = None" "framed ?s s" "dr_next_id (mn_draws s) = 8"
      "mn_next_round s = mn_next_round ?s" and sched: "mn_sched s = None" for s a
  proof -
    obtain T dr where 1: "ticker_new demo_command_env s = (Inr T, s \<lparr> mn_draws := dr \<rparr>)" "dr_next_id dr = 8"
      using demo_ticker [of s] r(4) by auto
    let ?step = "multi_step demo_command_env T demo_monitor_config ?c"
    have "mx_interfaces s = [interface_runtime_new (pm_health ?c) ''eth0'']" "mx_next_interface s = 0" "mx_active s = None"
      using r(3) start by (auto simp: framed_def)
    with r sched 1(2) start(5) obtain g b s1 where 2: "?step (demo_turn (WaitTick 0)) (s \<lparr> mn_draws := dr \<rparr>) = (Inr False, s1)"
      "ready [(1, a), (pg_run_id g, b)] 2 s1" "ar_parent b = Some 1" "1 < pg_run_id g" "pg_targets g = [IPv4 1]"
      "pg_round_number g = 0" "mx_active s1 = Some (0, g)" "mn_sched s1 = None"
      using demo_multi_tick [of a "s \<lparr> mn_draws := dr \<rparr>" "pm_health ?c" ?c T demo_monitor_config]
      by (auto simp: demo_settings)
    obtain s2 where 3: "?step (demo_turn (WaitTask (TaskDone demo_task))) s1 = (Inr False, s2)" "ready [(1, a)] 4 s2"
      "mx_active s2 = None" "mn_sched s2 = None"
      using demo_multi_task [OF 2(2) r(2) 2(3-8)] by blast
    have "?step ((demo_turn (WaitTick 0)) \<lparr> tn_shutdown := Some (TaskLost []) \<rparr>) s2 = (Inr True, s2)"
      using 3(3) by (simp add: multi_step_def)
    with 2(1) 3(1) have loop: "run_loop ?step demo_multi_turns (s \<lparr> mn_draws := dr \<rparr>) = (Inr True, s2)"
      by (simp add: demo_multi_turns_def st_bind_def st_return_def)
    have "monitor_multi_interface_inner demo_command_env demo_monitor_config ?c demo_multi_turns s = (Inr (Some (mn_stats s2)), s2)"
      unfolding monitor_multi_interface_inner_def st_bind_ok [where m = "ticker_new demo_command_env", OF 1(1)]
        st_bind_ok [where m = "run_loop ?step demo_multi_turns", OF loop]
      using 3(4) by (simp add: loop_result_def flush_scheduler_def st_bind_def st_return_def)
    then show ?thesis using 3(2) by fastforce
  qed
  have "\<exists>n s. close_monitor demo_command_env (monitor_session demo_command_env demo_moment 1
      (monitor_multi_interface_inner demo_command_env demo_monitor_config ?c demo_multi_turns) ?s) = (Inr (Some n), Some s)"
    by (rule demo_session [OF inner start(1,2)]) (simp_all add: start)
  then show ?thesis
    by (simp add: execute_multi_interface_monitor_with_def demo_settings monitor_multi_interface_def Let_def)
qed

text \<open>The properties there.\<close>

theorem ping_monitor_accounts_witness:
  "\<exists>n s. execute_ping_monitor demo_command_env demo_monitor_config (demo_monitor_input demo_link_turns)
     (\<lambda>w. (Inr 0, w)) [] () demo_world = (Inr (Some n), Some s) \<and> accounts 1 1 n (mn_coordinator s)"
proof -
  obtain n s where r: "execute_ping_monitor demo_command_env demo_monitor_config (demo_monitor_input demo_link_turns)
     (\<lambda>w. (Inr 0, w)) [] () demo_world = (Inr (Some n), Some s)"
    using demo_ping_ends by blast
  have "be_sinks demo_command_env = logging (demo_sinks False)" by (simp add: demo_environment)
  from ping_monitor_accounts [OF r this] show ?thesis using r by (simp add: demo_settings)
qed

theorem multi_monitor_accounts_witness:
  "\<exists>n s. execute_multi_interface_monitor_with demo_command_env demo_monitor_config (demo_monitor_input demo_multi_turns)
     (\<lambda>w. (Inr 0, w)) [] () demo_world = (Inr (Some n), Some s) \<and> accounts 1 1 n (mn_coordinator s)"
proof -
  obtain n s where r: "execute_multi_interface_monitor_with demo_command_env demo_monitor_config
     (demo_monitor_input demo_multi_turns) (\<lambda>w. (Inr 0, w)) [] () demo_world = (Inr (Some n), Some s)"
    using demo_multi_ends by blast
  have "be_sinks demo_command_env = logging (demo_sinks False)" by (simp add: demo_environment)
  from multi_monitor_accounts [OF r this] show ?thesis using r by (simp add: demo_settings)
qed

theorem shutdown_ends_monitor_witness:
  "fst (execute_multi_interface_monitor_with demo_command_env demo_monitor_config (demo_monitor_input demo_multi_turns)
     (\<lambda>w. (Inr 0, w)) [] () demo_world) \<noteq> Inr None"
  by (rule shutdown_ends_monitor [where t = "(demo_turn (WaitTick 0)) \<lparr> tn_shutdown := Some (TaskLost []) \<rparr>"])
    (simp_all add: demo_settings demo_multi_turns_def)

text \<open>Two links, of which the first in order does not resolve.\<close>

definition demo_choice :: "(demo_byte, nat, measurement_event list) multi_monitor" where
  "demo_choice =
     (multi_start demo_monitor_config (monitor_settings demo_command_env demo_monitor_config (demo_monitor_input []))
        (coordinator_new 0 []) None demo_draws)
     \<lparr> mx_interfaces := map (interface_runtime_new demo_health) [''a'', ''b''], mx_fairness := selector_new [''a'', ''b''] \<rparr>"

definition demo_opportunity :: bandwidth_opportunity where
  "demo_opportunity = manual_opportunity demo_monitor_config 0"


end
