(* ===== verification/Console.thy ===== *)
theory Console
  imports Model ConfigTypes StdText
begin

text \<open>
  \<open>console.rs\<close>: the live view of the events on standard output. Events are offered to a bounded
  channel and never wait for it; a worker renders and writes them. The state is the channel, the
  flags the two sides share and the diagnostics made; the writer, JSON, the text of a time and of
  an identifier and the platform's \<open>log10\<close> are parameters.
\<close>

subsection \<open>Numbers\<close>

text \<open>The decimals of an \<open>f64\<close> in \<open>format!\<close>, exact and half to even; the two zeros are one value.\<close>

fun pad_text :: "nat \<Rightarrow> nat \<Rightarrow> string" where
  "pad_text 0 n = []"
| "pad_text (Suc p) n = pad_text p (n div 10) @ [digit_char (n mod 10)]"

definition sign_text :: "rat \<Rightarrow> string" where
  "sign_text x = (if x < 0 then ''-'' else [])"

definition point_text :: "nat \<Rightarrow> nat \<Rightarrow> string" where
  "point_text p n = nat_text (n div 10 ^ p) @ (if p = 0 then [] else ''.'' @ pad_text p (n mod 10 ^ p))"

definition fixed_text :: "nat \<Rightarrow> f64 \<Rightarrow> string" where
  "fixed_text p x =
     (case x of
        NaN \<Rightarrow> ''NaN'' | PInf \<Rightarrow> ''inf'' | NInf \<Rightarrow> ''-inf''
      | Fin r \<Rightarrow> sign_text r @ point_text p (nat (rnd_half_even (\<bar>r\<bar> * 10 ^ p))))"

text \<open>The exponent of the first digit.\<close>

definition ilog10 :: "rat \<Rightarrow> int" where
  "ilog10 x =
     (let (p, q) = quotient_of x;
          d = int (length (nat_text (nat p))) - int (length (nat_text (nat q)))
      in if x < 10 powi d then d - 1 else d)"

definition exp_text :: "nat \<Rightarrow> f64 \<Rightarrow> string" where
  "exp_text p x =
     (case x of
        NaN \<Rightarrow> ''NaN'' | PInf \<Rightarrow> ''inf'' | NInf \<Rightarrow> ''-inf''
      | Fin r \<Rightarrow>
          if r = 0 then point_text p 0 @ ''e0''
          else
            (let e = ilog10 \<bar>r\<bar>;
                 n = nat (rnd_half_even (\<bar>r\<bar> / 10 powi (e - int p)))
             in if n = 10 ^ (p + 1) then sign_text r @ point_text p (10 ^ p) @ ''e'' @ int_text (e + 1)
                else sign_text r @ point_text p n @ ''e'' @ int_text e))"

definition trim_zeros :: "string \<Rightarrow> string" where
  "trim_zeros s = trim_end_matches CHR ''.'' (trim_end_matches CHR ''0'' s)"

definition f_floor :: "f64 \<Rightarrow> f64" where
  "f_floor x = (case x of Fin r \<Rightarrow> Fin (of_int \<lfloor>r\<rfloor>) | _ \<Rightarrow> x)"

text \<open>\<open>(2.0 - l.floor()).max(0.0) as usize\<close>; a cast saturates.\<close>

definition precision_of :: "f64 \<Rightarrow> nat" where
  "precision_of l =
     (case f_floor l of
        Fin r \<Rightarrow> (case f64_of_rat (2 - r) of Fin d \<Rightarrow> nat \<lfloor>max d 0\<rfloor> | PInf \<Rightarrow> u64_max | _ \<Rightarrow> 0)
      | NInf \<Rightarrow> u64_max
      | _ \<Rightarrow> 0)"

definition scales :: "(f64 \<times> string) list" where
  "scales = [(f64_of_rat 1000000, ''Tbps''), (f64_of_rat 1000, ''Gbps''), (f64_of_rat 1, ''Mbps''),
     (f64_of_rat (1 / 1000), ''Kbps'')]"

definition bandwidth_or_dash :: "(f64 \<Rightarrow> f64) \<Rightarrow> f64 option \<Rightarrow> string" where
  "bandwidth_or_dash log10 mbps =
     (case mbps of
        None \<Rightarrow> ''-''
      | Some mbps \<Rightarrow>
          if \<not> (is_finite mbps \<and> f_ge mbps (Fin 0)) then ''-''
          else if mbps = Fin 0 then ''0 bps''
          else
            (let (scale, unit) =
                   (case find (\<lambda>(scale, unit). f_ge (f_div mbps scale) (f64_of_rat (9995 / 10000))) scales of
                      Some e \<Rightarrow> e
                    | None \<Rightarrow> (f64_of_rat (1 / 1000000), ''bps''));
                 value = f_div mbps scale
             in if \<not> (f_ge value (f64_of_rat (1 / 1000)) \<and> f_lt value (f64_of_rat 1000))
                then exp_text 2 value @ '' '' @ unit
                else
                  (let precision = precision_of (log10 value);
                       rounded = fixed_text precision value
                   in (if precision = 0 then rounded else trim_zeros rounded) @ '' '' @ unit)))"

definition decimal_or_dash :: "f64 option \<Rightarrow> string" where
  "decimal_or_dash x = (case x of None \<Rightarrow> ''-'' | Some x \<Rightarrow> trim_zeros (fixed_text 3 x))"

subsection \<open>Rendering\<close>

record 'u console_env =
  cv_url :: "'u url_ops"
  cv_json :: "measurement_event \<Rightarrow> string option"
  cv_timestamp :: "time \<Rightarrow> string"
  cv_run_id :: "run_id \<Rightarrow> string"
  cv_log10 :: "f64 \<Rightarrow> f64"

definition console_outcome_name :: "outcome \<Rightarrow> string" where
  "console_outcome_name x =
     (case x of Started \<Rightarrow> ''started'' | Success \<Rightarrow> ''success'' | PartialOutcome \<Rightarrow> ''partial'' | TimeoutOutcome \<Rightarrow> ''timeout''
      | Unreachable \<Rightarrow> ''unreachable'' | PermissionDeniedOutcome \<Rightarrow> ''permission_denied'' | CancelledOutcome \<Rightarrow> ''cancelled''
      | ErrorOutcome \<Rightarrow> ''error'' | NoCapacity \<Rightarrow> ''no_capacity'' | RateLimited \<Rightarrow> ''rate_limited''
      | Scheduled \<Rightarrow> ''scheduled'' | Rescheduled \<Rightarrow> ''rescheduled'' | Deferred \<Rightarrow> ''deferred''
      | Suppressed \<Rightarrow> ''suppressed'' | Expired \<Rightarrow> ''expired'')"

definition provider_name :: "provider_kind \<Rightarrow> string" where
  "provider_name x = (case x of PkMlab \<Rightarrow> ''mlab'' | PkDirect \<Rightarrow> ''direct'')"

definition load_phase_name :: "load_phase \<Rightarrow> string" where
  "load_phase_name x = (case x of PhaseSetup \<Rightarrow> ''setup'' | PhaseDownload \<Rightarrow> ''download'' | PhaseUpload \<Rightarrow> ''upload'')"

definition newlines :: "char list" where
  "newlines = [CHR 0x0A, CHR 0x0D]"

definition quote_human :: "string \<Rightarrow> string" where
  "quote_human value =
     concat (map (\<lambda>c. if c = CHR 0x22 then [CHR 0x5C, CHR 0x22] else [c])
       (map (\<lambda>c. if c \<in> set newlines then CHR '' '' else c) (sanitize_message value)))"

definition reason_part :: "measurement_event \<Rightarrow> string" where
  "reason_part ev =
     (case ev_message ev of
        None \<Rightarrow> []
      | Some m \<Rightarrow> '' reason='' @ [CHR 0x22] @ quote_human m @ [CHR 0x22])"

definition load_part :: "'u console_env \<Rightarrow> measurement_event \<Rightarrow> string" where
  "load_part C ev =
     (case ev_load_phase ev of
        None \<Rightarrow> []
      | Some phase \<Rightarrow>
          '' load_phase='' @ load_phase_name phase @ '' load_run_id='' @
          (case ev_load_run_id ev of None \<Rightarrow> ''-'' | Some i \<Rightarrow> cv_run_id C i))"

definition loss_pct :: "measurement_event \<Rightarrow> f64 option" where
  "loss_pct ev =
     (case (ev_ping_packets_sent ev, ev_ping_packets_received ev) of
        (Some sent, Some received) \<Rightarrow>
          (if 0 < sent
           then Some (f_div (f_mul (f64_of_nat 100) (f64_of_rat (of_nat sent - of_nat received))) (f64_of_nat sent))
           else None)
      | _ \<Rightarrow> None)"

definition human_line :: "'u console_env \<Rightarrow> measurement_event \<Rightarrow> string option" where
  "human_line C ev =
     (let ev = event_sanitized (cv_url C) ev in
      case ev_finished_at_utc ev of
        None \<Rightarrow> None
      | Some at_utc \<Rightarrow>
          (let timestamp = cv_timestamp C at_utc;
               interface = unwrap_or (ev_interface ev) ''default-route'';
               reason = reason_part ev
           in case ev_event_kind ev of
                PingProbe \<Rightarrow>
                  Some (timestamp @ '' ping interface='' @ interface @ '' target='' @
                    unwrap_or (ev_ping_target_ip ev) ''-'' @ '' outcome='' @ console_outcome_name (ev_outcome ev) @
                    '' rtt_ms='' @ decimal_or_dash (ev_ping_rtt_ms ev) @ '' loss_pct='' @
                    decimal_or_dash (loss_pct ev) @ load_part C ev @ reason @ [CHR 0x0A])
              | BandwidthEvent \<Rightarrow>
                  Some (timestamp @ '' bandwidth interface='' @ interface @ '' provider='' @
                    unwrap_or (map_option provider_name (ev_provider_kind ev)) ''-'' @ '' server_name='' @
                    unwrap_or (map_option sanitize_message (ev_server_name ev)) ''-'' @ '' outcome='' @
                    console_outcome_name (ev_outcome ev) @ '' download='' @
                    bandwidth_or_dash (cv_log10 C) (ev_download_mbps ev) @ '' upload='' @
                    bandwidth_or_dash (cv_log10 C) (ev_upload_mbps ev) @ reason @ [CHR 0x0A])
              | _ \<Rightarrow> None))"

definition render_jsonl :: "'u console_env \<Rightarrow> measurement_event \<Rightarrow> string option" where
  "render_jsonl C ev =
     map_option (\<lambda>line. line @ [CHR 0x0A]) (cv_json C (event_sanitized (cv_url C) ev))"

subsection \<open>State\<close>

datatype console_failure = CfSerialization | CfBrokenPipe | CfWrite | CfFlush | CfShutdownTimeout

datatype console_diagnostic = QueueFull u64 | WriterDisabled console_failure

record console_stats =
  ct_dropped_events :: u64
  ct_disabled :: bool

text \<open>The shared flags, with the calls of the diagnostic function.\<close>

record shared_state =
  sh_dropped_events :: u64
  sh_disabled :: bool
  sh_writer_failure_reported :: bool
  sh_diagnostics :: "console_diagnostic list"

definition shared_new :: shared_state where
  "shared_new = \<lparr> sh_dropped_events = 0, sh_disabled = False, sh_writer_failure_reported = False, sh_diagnostics = [] \<rparr>"

text \<open>The worker is there while it reads the channel; what it has not read is the queue.\<close>

record 'w console =
  cn_mode :: console_mode
  cn_sender :: bool
  cn_capacity :: nat
  cn_shared :: shared_state
  cn_worker :: bool
  cn_queue :: "measurement_event list"
  cn_writer :: 'w

datatype write_error = WeBrokenPipe | WeOther

record 'w console_writer =
  wr_write_all :: "string \<Rightarrow> 'w \<Rightarrow> (write_error + unit) \<times> 'w"
  wr_flush :: "'w \<Rightarrow> bool \<times> 'w"

definition console_spawn :: "console_mode \<Rightarrow> 'w \<Rightarrow> nat \<Rightarrow> 'w console" where
  "console_spawn mode writer capacity =
     \<lparr> cn_mode = (if mode = CmJsonl then CmJsonl else CmHuman), cn_sender = (mode \<noteq> CmOff), cn_capacity = max capacity 1,
       cn_shared = shared_new, cn_worker = (mode \<noteq> CmOff), cn_queue = [], cn_writer = writer \<rparr>"

subsection \<open>Diagnostics\<close>

definition disable_writer :: "console_failure \<Rightarrow> shared_state \<Rightarrow> shared_state" where
  "disable_writer reason s =
     (let s = s \<lparr> sh_disabled := True \<rparr> in
      if sh_writer_failure_reported s then s
      else s \<lparr> sh_writer_failure_reported := True, sh_diagnostics := sh_diagnostics s @ [WriterDisabled reason] \<rparr>)"

definition count_drop :: "shared_state \<Rightarrow> shared_state" where
  "count_drop s = s \<lparr> sh_dropped_events := sh_dropped_events s + 1 \<rparr>"

text \<open>A power of two has one bit set.\<close>

definition is_power_of_two :: "u64 \<Rightarrow> bool" where
  "is_power_of_two x \<longleftrightarrow> list_ex (\<lambda>k. unat x = 2 ^ k) [0..<64]"

definition record_drop :: "shared_state \<Rightarrow> shared_state" where
  "record_drop s =
     (let s = count_drop s; dropped_events = sh_dropped_events s in
      if dropped_events = 1 \<or> is_power_of_two dropped_events
      then s \<lparr> sh_diagnostics := sh_diagnostics s @ [QueueFull dropped_events] \<rparr> else s)"

subsection \<open>The two sides of the channel\<close>

definition console_offer :: "'u console_env \<Rightarrow> measurement_event \<Rightarrow> 'w console \<Rightarrow> 'w console" where
  "console_offer C ev s =
     (if \<not> cn_sender s then s
      else if sh_disabled (cn_shared s) then s \<lparr> cn_shared := count_drop (cn_shared s) \<rparr>
      else if \<not> cn_worker s then s \<lparr> cn_shared := disable_writer CfWrite (count_drop (cn_shared s)) \<rparr>
      else if length (cn_queue s) < cn_capacity s
      then s \<lparr> cn_queue := cn_queue s @ [event_sanitized (cv_url C) ev] \<rparr>
      else s \<lparr> cn_shared := record_drop (cn_shared s) \<rparr>)"

text \<open>The worker returns: the channel is closed and what was in it is gone.\<close>

definition worker_failed :: "console_failure \<Rightarrow> 'w console \<Rightarrow> 'w console" where
  "worker_failed reason s =
     s \<lparr> cn_shared := disable_writer reason (cn_shared s), cn_worker := False, cn_queue := [] \<rparr>"

text \<open>What a received event is rendered to.\<close>

definition rendered :: "'u console_env \<Rightarrow> console_mode \<Rightarrow> measurement_event \<Rightarrow> unit + string option" where
  "rendered C mode ev =
     (case mode of
        CmJsonl \<Rightarrow> (case render_jsonl C ev of None \<Rightarrow> Inl () | Some line \<Rightarrow> Inr (Some line))
      | CmHuman \<Rightarrow> Inr (human_line C ev)
      | _ \<Rightarrow> Inr None)"

text \<open>One turn of the loop, with an event in the channel.\<close>

definition worker_step :: "'u console_env \<Rightarrow> 'w console_writer \<Rightarrow> 'w console \<Rightarrow> 'w console" where
  "worker_step C W s =
     (case cn_queue s of
        [] \<Rightarrow> s
      | ev # rest \<Rightarrow>
          (let s = s \<lparr> cn_queue := rest \<rparr> in
           case rendered C (cn_mode s) ev of
             Inl _ \<Rightarrow> worker_failed CfSerialization s
           | Inr None \<Rightarrow> s
           | Inr (Some line) \<Rightarrow>
               (case wr_write_all W line (cn_writer s) of
                  (Inl e, w) \<Rightarrow>
                    worker_failed (if e = WeBrokenPipe then CfBrokenPipe else CfWrite) (s \<lparr> cn_writer := w \<rparr>)
                | (Inr _, w) \<Rightarrow>
                    (let (ok, w) = wr_flush W w; s = s \<lparr> cn_writer := w \<rparr>
                     in if ok then s else worker_failed CfFlush s))))"

text \<open>The channel is empty and the sender gone: the last flush.\<close>

definition worker_end :: "'w console_writer \<Rightarrow> 'w console \<Rightarrow> 'w console" where
  "worker_end W s =
     (let (ok, w) = wr_flush W (cn_writer s);
          s = s \<lparr> cn_writer := w, cn_worker := False \<rparr>
      in if ok then s else s \<lparr> cn_shared := disable_writer CfFlush (cn_shared s) \<rparr>)"

text \<open>The worker once the sender is gone, for at most \<open>n\<close> events; whether it came to an end.\<close>

fun drain :: "'u console_env \<Rightarrow> 'w console_writer \<Rightarrow> nat \<Rightarrow> 'w console \<Rightarrow> bool \<times> 'w console" where
  "drain C W n s =
     (if \<not> cn_worker s then (True, s)
      else if cn_queue s = [] then (True, worker_end W s)
      else case n of 0 \<Rightarrow> (False, s) | Suc n \<Rightarrow> drain C W n (worker_step C W s))"

definition console_stats_of :: "'w console \<Rightarrow> console_stats" where
  "console_stats_of s = \<lparr> ct_dropped_events = sh_dropped_events (cn_shared s), ct_disabled = sh_disabled (cn_shared s) \<rparr>"

text \<open>\<open>n\<close> is how many events the worker gets through before the timeout.\<close>

definition console_shutdown :: "'u console_env \<Rightarrow> 'w console_writer \<Rightarrow> nat \<Rightarrow> 'w console \<Rightarrow> console_stats \<times> 'w console" where
  "console_shutdown C W n s =
     (let (ended, s) = drain C W n (s \<lparr> cn_sender := False \<rparr>);
          s = (if ended then s
               else s \<lparr> cn_shared := disable_writer CfShutdownTimeout (cn_shared s), cn_worker := False, cn_queue := [] \<rparr>)
      in (console_stats_of s, s))"

end
