(* ===== verification/ConsoleProps.thy ===== *)
theory ConsoleProps
  imports Console "HOL-Library.Sublist"
begin

text \<open>
  The console is a best-effort view: what is written is a part, in order, of what was offered, the
  rest is counted, a failing writer is reported once, and a human line is one line.
\<close>

subsection \<open>Runs of the two sides\<close>

datatype console_call = OfferCall measurement_event | WorkCall

definition console_call :: "'u console_env \<Rightarrow> 'w console_writer \<Rightarrow> console_call \<Rightarrow> 'w console \<Rightarrow> 'w console" where
  "console_call C W c = (case c of OfferCall ev \<Rightarrow> console_offer C ev | WorkCall \<Rightarrow> worker_step C W)"

definition console_run :: "'u console_env \<Rightarrow> 'w console_writer \<Rightarrow> console_call list \<Rightarrow> 'w console \<Rightarrow> 'w console" where
  "console_run C W calls s = fold (console_call C W) calls s"

fun offered :: "console_call list \<Rightarrow> measurement_event list" where
  "offered [] = []"
| "offered (OfferCall ev # cs) = ev # offered cs"
| "offered (WorkCall # cs) = offered cs"

lemma offered_append [simp]: "offered (cs @ ds) = offered cs @ offered ds"
  by (induction cs rule: offered.induct) simp_all

text \<open>A writer that keeps what it has written, failing as \<open>F\<close> and \<open>G\<close> say.\<close>

definition recording :: "(string list \<Rightarrow> write_error option) \<Rightarrow> (string list \<Rightarrow> bool) \<Rightarrow> string list console_writer" where
  "recording F G =
     \<lparr> wr_write_all = (\<lambda>line w. case F w of None \<Rightarrow> (Inr (), w @ [line]) | Some e \<Rightarrow> (Inl e, w)),
       wr_flush = (\<lambda>w. (G w, w)) \<rparr>"

text \<open>The lines of events, as the worker renders what was put into the channel.\<close>

definition event_lines :: "'u console_env \<Rightarrow> console_mode \<Rightarrow> measurement_event list \<Rightarrow> string list" where
  "event_lines C mode evs =
     concat (map (\<lambda>ev. case rendered C mode ev of Inr (Some line) \<Rightarrow> [line] | _ \<Rightarrow> []) evs)"

lemma event_lines_simps [simp]:
  "event_lines C mode [] = []" "event_lines C mode (evs @ evs') = event_lines C mode evs @ event_lines C mode evs'"
  "event_lines C mode (ev # evs) =
     (case rendered C mode ev of Inr (Some line) \<Rightarrow> [line] | _ \<Rightarrow> []) @ event_lines C mode evs"
  by (simp_all add: event_lines_def)

fun is_disabling :: "console_diagnostic \<Rightarrow> bool" where
  "is_disabling (WriterDisabled _) = True"
| "is_disabling (QueueFull _) = False"

text \<open>What holds of a console that has taken the events \<open>accepted\<close> out of those offered.\<close>

definition console_inv ::
    "'u console_env \<Rightarrow> nat \<Rightarrow> measurement_event list \<Rightarrow> measurement_event list \<Rightarrow> string list console \<Rightarrow> bool" where
  "console_inv C cap evs accepted s \<longleftrightarrow>
     cn_sender s \<and> cn_capacity s = max cap 1 \<and> length (cn_queue s) \<le> max cap 1 \<and> subseq accepted evs \<and>
     of_nat (length evs) = of_nat (length accepted) + sh_dropped_events (cn_shared s) \<and>
     cn_worker s = (\<not> sh_disabled (cn_shared s)) \<and> sh_writer_failure_reported (cn_shared s) = sh_disabled (cn_shared s) \<and>
     length (filter is_disabling (sh_diagnostics (cn_shared s))) = (if sh_disabled (cn_shared s) then 1 else 0) \<and>
     (if sh_disabled (cn_shared s)
      then cn_queue s = [] \<and> prefix (cn_writer s) (event_lines C (cn_mode s) (map (event_sanitized (cv_url C)) accepted))
      else cn_writer s @ event_lines C (cn_mode s) (cn_queue s) =
        event_lines C (cn_mode s) (map (event_sanitized (cv_url C)) accepted))"

lemma record_drop_simps [simp]:
  "sh_dropped_events (record_drop s) = sh_dropped_events s + 1" "sh_disabled (record_drop s) = sh_disabled s"
  "sh_writer_failure_reported (record_drop s) = sh_writer_failure_reported s"
  "filter is_disabling (sh_diagnostics (record_drop s)) = filter is_disabling (sh_diagnostics s)"
  by (simp_all add: record_drop_def count_drop_def Let_def)

lemma inv_offer:
  assumes "console_inv C cap evs accepted s"
  shows "\<exists>accepted'. console_inv C cap (evs @ [ev]) accepted' (console_offer C ev s)"
proof (cases "sh_disabled (cn_shared s) \<or> \<not> length (cn_queue s) < cn_capacity s")
  case True
  have "console_inv C cap (evs @ [ev]) accepted (console_offer C ev s)"
    using assms True by (auto simp: console_inv_def console_offer_def count_drop_def subseq_append_iff
        intro: subseq_order.trans)
  then show ?thesis ..
next
  case False
  have "console_inv C cap (evs @ [ev]) (accepted @ [ev]) (console_offer C ev s)"
    using assms False by (auto simp: console_inv_def console_offer_def)
  then show ?thesis ..
qed

lemma inv_failed:
  assumes "console_inv C cap evs accepted s" "prefix (cn_writer s) (event_lines C (cn_mode s) (map (event_sanitized (cv_url C)) accepted))"
    "\<not> sh_disabled (cn_shared s)"
  shows "console_inv C cap evs accepted (worker_failed reason s)"
  using assms by (auto simp: console_inv_def worker_failed_def disable_writer_def Let_def)

lemma mode_kept [simp]: "cn_mode (worker_failed reason s) = cn_mode s"
  by (simp add: worker_failed_def)

lemma prefix_trim: "xs @ ys = zs \<Longrightarrow> prefix xs zs"
  by auto

lemma inv_work:
  assumes "console_inv C cap evs accepted s"
  shows "console_inv C cap evs accepted (worker_step C (recording F G) s)"
proof (cases "cn_queue s")
  case Nil
  then show ?thesis using assms by (simp add: worker_step_def)
next
  case (Cons ev rest)
  let ?all = "event_lines C (cn_mode s) (map (event_sanitized (cv_url C)) accepted)"
  have alive: "\<not> sh_disabled (cn_shared s)" using assms Cons by (auto simp: console_inv_def)
  let ?line = "case rendered C (cn_mode s) ev of Inr (Some line) \<Rightarrow> [line] | _ \<Rightarrow> []"
  have lines: "cn_writer s @ ?line @ event_lines C (cn_mode s) rest = ?all"
    using assms Cons alive by (simp add: console_inv_def)
  have rest: "console_inv C cap evs accepted (s \<lparr> cn_queue := rest, cn_writer := w \<rparr>)"
    if "w @ event_lines C (cn_mode s) rest = ?all" for w
    using assms Cons alive that by (simp add: console_inv_def)
  have failed: "console_inv C cap evs accepted (worker_failed reason (s \<lparr> cn_queue := rest, cn_writer := w \<rparr>))"
    if "prefix w ?all" for reason w
    using assms Cons alive that by (simp add: console_inv_def worker_failed_def disable_writer_def Let_def)
  show ?thesis
  proof (cases "rendered C (cn_mode s) ev")
    case (Inl u)
    then show ?thesis using failed [of "cn_writer s" CfSerialization] prefix_trim [OF lines] Cons
      by (simp add: worker_step_def)
  next
    case (Inr r)
    show ?thesis
    proof (cases r)
      case None
      then show ?thesis using rest [of "cn_writer s"] lines Cons Inr by (simp add: worker_step_def)
    next
      case (Some line)
      have all: "cn_writer s @ line # event_lines C (cn_mode s) rest = ?all" using lines Inr Some by simp
      show ?thesis
      proof (cases "F (cn_writer s)")
        case None
        then show ?thesis
          using rest [of "cn_writer s @ [line]"] failed [of "cn_writer s @ [line]" CfFlush] all Cons Inr Some
            prefix_trim [of "cn_writer s @ [line]"]
          by (simp add: worker_step_def recording_def Let_def)
      next
        case (Some e)
        then show ?thesis
          using failed [of "cn_writer s"] prefix_trim [OF all] Cons Inr \<open>r = Some line\<close>
          by (simp add: worker_step_def recording_def)
      qed
    qed
  qed
qed

lemma inv_run:
  "console_inv C cap evs accepted s \<Longrightarrow>
   \<exists>accepted'. console_inv C cap (evs @ offered calls) accepted' (console_run C (recording F G) calls s)"
proof (induction calls arbitrary: evs accepted s)
  case (Cons c calls)
  show ?case
  proof (cases c)
    case (OfferCall ev)
    obtain accepted1 where "console_inv C cap (evs @ [ev]) accepted1 (console_offer C ev s)"
      using inv_offer [OF Cons.prems] by blast
    from Cons.IH [OF this] OfferCall show ?thesis by (simp add: console_run_def console_call_def)
  next
    case WorkCall
    from Cons.IH [OF inv_work [OF Cons.prems]] WorkCall show ?thesis by (simp add: console_run_def console_call_def)
  qed
qed (auto simp: console_run_def)

lemma off_run:
  "\<not> cn_sender s \<Longrightarrow> cn_queue s = [] \<Longrightarrow> console_run C W calls s = s"
  by (induction calls)
    (auto simp: console_run_def console_call_def console_offer_def worker_step_def split: console_call.split)


subsection \<open>One line\<close>

definition one_line :: "string \<Rightarrow> bool" where
  "one_line s \<longleftrightarrow> set s \<inter> set newlines = {}"

lemma one_line_append [simp]: "one_line (s @ t) \<longleftrightarrow> one_line s \<and> one_line t"
  by (auto simp: one_line_def)

lemma one_line_Cons: "one_line (c # s) \<longleftrightarrow> c \<noteq> CHR 0x0A \<and> c \<noteq> CHR 0x0D \<and> one_line s"
  by (auto simp: one_line_def newlines_def)

lemma one_line_Nil [simp]: "one_line []"
  by (simp add: one_line_def)

lemma redacted_line: "one_line redacted"
  by (simp add: one_line_def newlines_def redacted_def)

lemma set_redact_loop: "set (redact_loop key pre rest) \<subseteq> set pre \<union> set rest \<union> set redacted"
proof (induction key pre rest rule: redact_loop.induct)
  case (1 key pre rest)
  show ?case
  proof (cases "str_find key (map to_ascii_lowercase rest)")
    case None
    then show ?thesis by (subst redact_loop.simps) simp
  next
    case (Some offset)
    let ?lead = "pre @ take offset rest"
    let ?upto = "?lead @ take (length key) (drop offset rest)"
    let ?after = "drop (offset + length key) rest"
    have sub: "set ?upto \<subseteq> set pre \<union> set rest" "set ?after \<subseteq> set rest"
      "set (dropWhile (\<lambda>c. \<not> ends_value c) ?after) \<subseteq> set rest"
      by (auto dest: in_set_takeD in_set_dropD set_dropWhileD)
    let ?kept = "dropWhile (\<lambda>c. \<not> ends_value c) ?after"
    consider "key = []" | "key \<noteq> []" "?lead \<noteq> [] \<and> is_alphanumeric (last ?lead)"
      | "key \<noteq> []" "\<not> (?lead \<noteq> [] \<and> is_alphanumeric (last ?lead))" by blast
    then show ?thesis
    proof cases
      case 1
      then have "redact_loop key pre rest = pre @ rest"
        by (subst redact_loop.simps) (simp split: option.split)
      then show ?thesis by auto
    next
      case 2
      then have eq: "redact_loop key pre rest = redact_loop key ?upto ?after"
        by (subst redact_loop.simps) (simp only: Some option.case Let_def if_False if_True simp_thms)
      show ?thesis
        unfolding eq by (rule subset_trans [OF 1(1) [OF Some 2(1) refl refl refl 2(2)]]) (use sub(1,2) in blast)
    next
      case 3
      then have eq: "redact_loop key pre rest = redact_loop key (?upto @ redacted) ?kept"
        by (subst redact_loop.simps) (simp only: Some option.case Let_def if_False if_True simp_thms)
      have "set (?upto @ redacted) \<subseteq> set pre \<union> set rest \<union> set redacted" using sub(1) by auto
      then show ?thesis
        unfolding eq by (intro subset_trans [OF 1(2) [OF Some 3(1) refl refl refl 3(2)]]) (use sub(3) in blast)
    qed
  qed
qed

lemma sanitized_line: "one_line s \<Longrightarrow> one_line (sanitize_message s)"
proof -
  have "one_line s \<Longrightarrow> one_line (fold (\<lambda>key acc. redact_loop key [] acc) keys s)" for keys
  proof (induction keys arbitrary: s)
    case (Cons key keys)
    have "one_line (redact_loop key [] s)"
      using Cons.prems redacted_line set_redact_loop [of key "[]" s] by (auto simp: one_line_def)
    then show ?case using Cons.IH by simp
  qed simp
  then show "one_line s \<Longrightarrow> one_line (sanitize_message s)" by (simp add: sanitize_message_def)
qed

lemma quoted_line: "one_line (quote_human s)"
  by (auto simp: quote_human_def one_line_def newlines_def)

lemma digits_line: "\<forall>c \<in> set s. is_ascii_digit c \<Longrightarrow> one_line s"
proof -
  assume d: "\<forall>c \<in> set s. is_ascii_digit c"
  have "\<not> is_ascii_digit c" if "c \<in> set newlines" for c
    using that by (auto simp: newlines_def is_ascii_digit_def code_def)
  with d show "one_line s" by (auto simp: one_line_def)
qed

lemma nat_text_line: "one_line (nat_text n)"
  using nat_text_digits by (auto intro: digits_line)

lemma digit_char_line: "d < 10 \<Longrightarrow> one_line [digit_char d]"
  using nat_text_line [of d] by (simp add: nat_text.simps [of d])

lemma pad_text_line: "one_line (pad_text p n)"
  by (induction p arbitrary: n) (simp_all add: digit_char_line)

lemma trimmed_line: "one_line s \<Longrightarrow> one_line (trim_end_matches c s)"
  unfolding one_line_def trim_end_matches_def using set_dropWhileD [of _ "\<lambda>d. d = c" "rev s"] by fastforce

lemma point_line: "one_line (point_text p n)"
  by (simp add: point_text_def nat_text_line pad_text_line one_line_Cons)

lemma sign_line: "one_line (sign_text x)"
  by (simp add: sign_text_def one_line_Cons)

lemma int_text_line: "one_line (int_text i)"
  by (simp add: int_text_def nat_text_line one_line_Cons)

lemma fixed_line: "one_line (fixed_text p x)"
  by (cases x) (simp_all add: fixed_text_def one_line_Cons sign_line point_line)

lemma exp_line: "one_line (exp_text p x)"
  by (cases x) (simp_all add: exp_text_def one_line_Cons sign_line point_line int_text_line Let_def)

lemma decimal_line: "one_line (decimal_or_dash x)"
  by (cases x) (simp_all add: decimal_or_dash_def trim_zeros_def trimmed_line fixed_line one_line_Cons)

lemma unit_line: "(scale, unit) \<in> set scales \<Longrightarrow> one_line unit"
  by (auto simp: scales_def one_line_Cons)

lemma bandwidth_line: "one_line (bandwidth_or_dash log10 x)"
proof -
  have u: "one_line (snd (case find P scales of Some e \<Rightarrow> e | None \<Rightarrow> (d, ''bps'')))" for P d
  proof (cases "find P scales")
    case (Some e)
    then have "e \<in> set scales" by (metis find_Some_iff nth_mem)
    then show ?thesis using Some unit_line [of "fst e" "snd e"] by simp
  qed (simp add: one_line_Cons)
  show ?thesis
    by (cases x) (simp_all add: bandwidth_or_dash_def one_line_Cons u exp_line fixed_line trimmed_line trim_zeros_def
        case_prod_beta Let_def)
qed

lemma outcome_line: "one_line (console_outcome_name out)"
  by (cases out) (simp_all add: console_outcome_name_def one_line_Cons)

lemma provider_line: "one_line (provider_name kind)"
  by (cases kind) (simp_all add: provider_name_def one_line_Cons)

lemma phase_line: "one_line (load_phase_name phase)"
  by (cases phase) (simp_all add: load_phase_name_def one_line_Cons)

lemmas names_line = outcome_line provider_line phase_line

text \<open>The texts that come from elsewhere and are not quoted.\<close>

definition plain_texts :: "'u console_env \<Rightarrow> measurement_event \<Rightarrow> bool" where
  "plain_texts C ev \<longleftrightarrow>
     (\<forall>t. one_line (cv_timestamp C t)) \<and> (\<forall>i. one_line (cv_run_id C i)) \<and>
     one_line (unwrap_or (ev_interface ev) []) \<and> one_line (unwrap_or (ev_ping_target_ip ev) []) \<and>
     one_line (unwrap_or (ev_server_name ev) [])"

text \<open>
  C23. Whatever the message of an event holds, line breaks and quotes included, its human rendering
  is exactly one line, if the names in it are.
\<close>
theorem human_line_single:
  assumes "human_line C ev = Some line" "plain_texts C ev"
  shows "\<exists>body. line = body @ [CHR 0x0A] \<and> one_line body"
proof -
  let ?e = "event_sanitized (cv_url C) ev"
  have texts: "one_line (unwrap_or (ev_interface ?e) ''default-route'')" "one_line (unwrap_or (ev_ping_target_ip ?e) ''-'')"
    "one_line (unwrap_or (map_option sanitize_message (ev_server_name ?e)) ''-'')"
    "one_line (cv_timestamp C t)" "one_line (load_part C ?e)" "one_line (reason_part ?e)" for t
    using assms(2)
    by (auto simp: plain_texts_def event_sanitized_def unwrap_or_def one_line_Cons sanitized_line load_part_def
        reason_part_def quoted_line names_line split: option.splits)
  have "one_line (unwrap_or (map_option provider_name (ev_provider_kind ?e)) ''-'')"
    by (cases "ev_provider_kind ?e") (simp_all add: unwrap_or_def names_line one_line_Cons)
  with texts show ?thesis
    using assms(1)
    by (auto simp: human_line_def Let_def names_line decimal_line bandwidth_line one_line_Cons
        split: option.splits event_kind.splits)
qed

subsection \<open>A concrete line\<close>

definition demo_console :: "nat console_env" where
  "demo_console =
     \<lparr> cv_url = \<lparr> url_parse = (\<lambda>s. None), url_query = (\<lambda>u. None), url_set_username = (\<lambda>s u. u),
         url_set_password = (\<lambda>s u. u), url_set_query = (\<lambda>q u. u), url_set_fragment = (\<lambda>f u. u), url_to_string = (\<lambda>u. []) \<rparr>,
       cv_json = (\<lambda>ev. None), cv_timestamp = (\<lambda>t. ''t''), cv_run_id = (\<lambda>i. ''r''), cv_log10 = (\<lambda>x. Fin 0) \<rparr>"

definition demo_failed_probe :: measurement_event where
  "demo_failed_probe = (event_new 1 2 PingProbe TimeoutOutcome 0) \<lparr> ev_message := Some [CHR 0x0A, CHR 0x22] \<rparr>"

theorem human_line_single_witness:
  "\<exists>body. human_line demo_console demo_failed_probe = Some (body @ [CHR 0x0A]) \<and> one_line body"
proof -
  have "ev_event_kind demo_failed_probe = PingProbe" "ev_finished_at_utc demo_failed_probe = Some 0"
    "plain_texts demo_console demo_failed_probe"
    by (simp_all add: demo_failed_probe_def event_new_def plain_texts_def demo_console_def one_line_Cons unwrap_or_def)
  moreover from this obtain line where "human_line demo_console demo_failed_probe = Some line"
    by (simp add: human_line_def event_sanitized_def Let_def)
  ultimately show ?thesis using human_line_single by metis
qed

text \<open>A machine name with a line break, as nothing that reads the answer of Locate excludes it, makes two lines.\<close>

lemma machine_name_breaks_line:
  assumes "ev_event_kind ev = BandwidthEvent" "ev_finished_at_utc ev = Some 0" "ev_server_name ev = Some [CHR 0x0A]"
  shows "\<exists>line. human_line demo_console ev = Some line \<and> 2 \<le> length (filter (\<lambda>c. c = CHR 0x0A) line)"
proof -
  have k: "sanitize_keys = [''access_token='', ''api_key='', ''authorization='', ''token='', ''key='']"
    by (simp add: sanitize_keys_def)
  have "redact_loop key [] [CHR 0x0A] = [CHR 0x0A]" if "2 \<le> length key" for key
    using that by (subst redact_loop.simps) (auto simp: str_find.simps split: option.split)
  then have "sanitize_message [CHR 0x0A] = [CHR 0x0A]"
    by (simp add: sanitize_message_def k)
  then show ?thesis using assms
    by (simp add: human_line_def event_sanitized_def unwrap_or_def Let_def)
qed

end
