(* ===== verification/ConsoleJournal.thy ===== *)
theory ConsoleJournal
  imports ConsoleProps CoordinatorProps
begin

text \<open>
  The console of a coordinator: whatever it is and does, the journal, the numbering and the runs
  are those of a coordinator without one.
\<close>

text \<open>\<open>ConsoleOff\<close>.\<close>

definition console_off_offer :: "measurement_event \<Rightarrow> unit \<Rightarrow> unit" where
  "console_off_offer ev u = u"

text \<open>The same journal with another console.\<close>

definition on_console :: "(measurement_event \<Rightarrow> 'd \<Rightarrow> 'd) \<Rightarrow> ('j, 'c) sinks \<Rightarrow> ('j, 'd) sinks" where
  "on_console f S =
     \<lparr> sk_append = sk_append S, sk_flush = sk_flush S, sk_offer = f, sk_version = sk_version S,
       sk_process_id = sk_process_id S \<rparr>"

definition twins :: "('j, 'c) coordinator \<Rightarrow> ('j, 'd) coordinator \<Rightarrow> bool" where
  "twins s t \<longleftrightarrow>
     oc_journal s = oc_journal t \<and> oc_sequence s = oc_sequence t \<and> oc_failed s = oc_failed t \<and> oc_runs s = oc_runs t"

definition agree :: "'r \<times> ('j, 'c) coordinator \<Rightarrow> 'r \<times> ('j, 'd) coordinator \<Rightarrow> bool" where
  "agree r q \<longleftrightarrow> fst r = fst q \<and> twins (snd r) (snd q)"

lemma on_console_simps [simp]:
  "sk_append (on_console f S) = sk_append S" "sk_flush (on_console f S) = sk_flush S"
  "sk_version (on_console f S) = sk_version S" "sk_process_id (on_console f S) = sk_process_id S"
  by (simp_all add: on_console_def)

lemma publish_agrees: "twins s t \<Longrightarrow> agree (publish_batch S evs s) (publish_batch (on_console f S) evs t)"
  by (auto simp: publish_batch_def agree_def twins_def Let_def split: prod.split option.split sum.split)

lemma started_same: "run_started_event (on_console f S) m i p root_id kind command ctx = run_started_event S m i p root_id kind command ctx"
  by (cases command) (simp_all add: run_started_event_def)

lemma agree_cases:
  assumes "agree r q"
  obtains e s t where "r = (Inl e, s)" "q = (Inl e, t)" "twins s t" | x s t where "r = (Inr x, s)" "q = (Inr x, t)" "twins s t"
  using assms by (cases r; cases q; cases "fst r") (auto simp: agree_def)

lemma begin_agrees:
  assumes "twins s t"
  shows "agree (begin_run S m i p kind command ctx s) (begin_run (on_console f S) m i p kind command ctx t)"
proof -
  let ?root = "case p of None \<Rightarrow> i | Some p \<Rightarrow> ar_root (the (bt_get (oc_runs t) p))"
  let ?ev = "run_started_event S m i p ?root kind command ctx"
  have runs: "oc_runs s = oc_runs t" using assms by (simp add: twins_def)
  show ?thesis
  proof (cases "bt_get (oc_runs t) i")
    case (Some run)
    then show ?thesis using assms runs by (simp add: begin_run_def agree_def)
  next
    case None
    have "agree (publish_batch S [?ev] s) (publish_batch (on_console f S) [?ev] t)" by (rule publish_agrees [OF assms])
    then show ?thesis
      by (rule agree_cases; cases p; simp add: begin_run_def started_same runs None agree_def twins_def Let_def)
  qed
qed

lemma finish_agrees:
  assumes "twins s t"
  shows "agree (finish_run S m i out err s) (finish_run (on_console f S) m i out err t)"
proof (cases "bt_get (oc_runs s) i")
  case None
  then show ?thesis using assms by (auto simp: finish_run_def agree_def twins_def)
next
  case (Some run)
  have "agree (publish_batch S [run_finished_event m i out err run] s)
      (publish_batch (on_console f S) [run_finished_event m i out err run] t)" by (rule publish_agrees [OF assms])
  then show ?thesis
    by (rule agree_cases) (use assms Some in \<open>auto simp: finish_run_def agree_def twins_def\<close>)
qed

lemma close_agrees:
  "twins s t \<Longrightarrow> agree (close_children S ms i err s) (close_children (on_console f S) ms i err t)"
proof (induction S ms i err s arbitrary: t rule: close_children.induct)
  case (1 S ms i err s)
  have runs: "oc_runs s = oc_runs t" using 1(2) by (simp add: twins_def)
  show ?case
  proof (cases "open_leaf i (oc_runs s)")
    case None
    then show ?thesis using 1(2) runs by (simp add: close_children.simps [of _ _ _ _ s] close_children.simps [of _ _ _ _ t] agree_def)
  next
    case (Some c)
    have "agree (finish_run S (ms (length (oc_runs s))) c ErrorOutcome err s)
        (finish_run (on_console f S) (ms (length (oc_runs s))) c ErrorOutcome err t)" by (rule finish_agrees [OF 1(2)])
    then show ?thesis
    proof (rule agree_cases)
      fix e s1 t1 assume "finish_run S (ms (length (oc_runs s))) c ErrorOutcome err s = (Inl e, s1)"
        "finish_run (on_console f S) (ms (length (oc_runs s))) c ErrorOutcome err t = (Inl e, t1)" "twins s1 t1"
      then show ?thesis
        using Some runs by (simp add: close_children.simps [of _ _ _ _ s] close_children.simps [of _ _ _ _ t] agree_def)
    next
      fix x s1 t1 assume r: "finish_run S (ms (length (oc_runs s))) c ErrorOutcome err s = (Inr x, s1)"
        "finish_run (on_console f S) (ms (length (oc_runs s))) c ErrorOutcome err t = (Inr x, t1)" "twins s1 t1"
      from 1(1) [OF Some r(1) [symmetric] refl r(3)] show ?thesis
        using Some runs r(1,2) by (simp add: close_children.simps [of _ _ _ _ s] close_children.simps [of _ _ _ _ t])
    qed
  qed
qed

lemma session_agrees:
  assumes "twins s t"
  shows "agree (finish_session S ms i out err s) (finish_session (on_console f S) ms i out err t)"
proof -
  have "agree (if err \<noteq> None then close_children S ms i err s else (Inr (), s))
      (if err \<noteq> None then close_children (on_console f S) ms i err t else (Inr (), t))"
    using close_agrees [OF assms] assms by (simp add: agree_def)
  then show ?thesis
  proof (rule agree_cases)
    fix x s1 t1 assume r: "(if err \<noteq> None then close_children S ms i err s else (Inr (), s)) = (Inr x, s1)"
      "(if err \<noteq> None then close_children (on_console f S) ms i err t else (Inr (), t)) = (Inr x, t1)" "twins s1 t1"
    have "oc_runs s1 = oc_runs t1" using r(3) by (simp add: twins_def)
    then show ?thesis
      using finish_agrees [OF r(3), of S "ms (length (oc_runs s1))" i out err f]
      by (simp only: finish_session_def r(1,2) prod.case sum.case)
  qed (simp only: finish_session_def prod.case sum.case agree_def fst_conv snd_conv)
qed

lemma call_agrees:
  assumes "twins s t"
  shows "agree (exec_call S ms c s) (exec_call (on_console f S) ms c t)"
proof -
  have runs: "oc_runs s = oc_runs t" using assms by (simp add: twins_def)
  show ?thesis
  proof (cases c)
    case (StartSession i command)
    have "twins (s \<lparr> oc_sequence := 0 \<rparr>) (t \<lparr> oc_sequence := 0 \<rparr>)" using assms by (simp add: twins_def)
    from begin_agrees [OF this] StartSession show ?thesis
      using assms runs by (auto simp: start_session_def agree_def)
  next
    case FlushCall
    then show ?thesis using assms by (auto simp: coordinator_flush_def agree_def twins_def split: prod.split)
  next
    case (Publish evs)
    then show ?thesis using publish_agrees [OF assms] by simp
  next
    case (StartRun i p kind ctx)
    then show ?thesis using begin_agrees [OF assms] assms runs by (auto simp: start_run_with_context_def agree_def)
  next
    case (FinishRun i out err)
    then show ?thesis using finish_agrees [OF assms] runs by simp
  next
    case (FinishSession i out err)
    then show ?thesis using session_agrees [OF assms] by simp
  qed
qed

lemma calls_agree:
  "twins s t \<Longrightarrow> twins (exec_calls S calls s) (exec_calls (on_console f S) calls t)"
proof (induction calls arbitrary: s t)
  case (Cons mc calls)
  obtain ms c where mc: "mc = (ms, c)" by fastforce
  have "twins (snd (exec_call S ms c s)) (snd (exec_call (on_console f S) ms c t))"
    using call_agrees [OF Cons.prems] by (simp add: agree_def)
  from Cons.IH [OF this] show ?case by (simp add: exec_calls_def mc)
qed (simp add: exec_calls_def)

text \<open>
  The journal does not depend on the console: with one of any capacity that is full, closed or
  cannot render or write an event, every call of a coordinator has the result, and leaves the
  journal, the numbering and the active runs, that it has and leaves with the console off.
\<close>
theorem console_never_affects_journal:
  "let s = exec_calls (on_console (console_offer C) S) calls (coordinator_new j console);
       t = exec_calls (on_console console_off_offer S) calls (coordinator_new j ())
   in fst (exec_call (on_console (console_offer C) S) ms c s) = fst (exec_call (on_console console_off_offer S) ms c t) \<and>
     oc_journal s = oc_journal t \<and> oc_sequence s = oc_sequence t \<and> oc_failed s = oc_failed t \<and> oc_runs s = oc_runs t"
proof -
  let ?S = "on_console (console_offer C) S"
  have off: "on_console console_off_offer S = on_console console_off_offer ?S" by (simp add: on_console_def)
  have "twins (coordinator_new j console) (coordinator_new j ())" by (simp add: twins_def coordinator_new_def)
  note t = calls_agree [OF this, of ?S calls console_off_offer, folded off]
  from call_agrees [OF t, of ?S ms c console_off_offer, folded off] t show ?thesis
    by (simp add: twins_def agree_def Let_def)
qed

end
