(* ===== verification/Process.thy ===== *)
theory Process
  imports Monitor Admission
begin

text \<open>
  \<open>lib.rs\<close>, \<open>shutdown.rs\<close>, \<open>tls.rs\<close> and the checks of the environment in \<open>config.rs\<close>: from the
  command line to the exit code. The signals that come, the directories of the platform, the file
  system at the start and the certificate library are parameters; messages to standard error are
  left out.
\<close>

subsection \<open>Shutdown\<close>

datatype signal_name = SigInterrupt | SigTerminate

definition signal_text :: "signal_name \<Rightarrow> string" where
  "signal_text s = (case s of SigInterrupt \<Rightarrow> ''SIGINT'' | SigTerminate \<Rightarrow> ''SIGTERM'')"

datatype forced_reason = SecondSignal signal_name | GraceExpired

datatype 't supervised = Completed 't | Graceful 't signal_name | Forced forced_reason

text \<open>
  What comes while an operation runs: an error installing the handlers, the first signal unless the
  operation ends before one, and then which of the three ends the wait.
\<close>

datatype drain_end = DrainDone | DrainSignal signal_name | DrainGrace

record supervision =
  sv_listener :: "string option"
  sv_first :: "signal_name option"
  sv_drain :: drain_end

text \<open>An operation gives its result, knowing whether the shutdown was sent to it.\<close>

definition supervise :: "supervision \<Rightarrow> (bool \<Rightarrow> 't) \<Rightarrow> string + 't supervised" where
  "supervise v operation =
     (case sv_listener v of
        Some e \<Rightarrow> Inl e
      | None \<Rightarrow>
          (case sv_first v of
             None \<Rightarrow> Inr (Completed (operation False))
           | Some first \<Rightarrow>
               (case sv_drain v of
                  DrainDone \<Rightarrow> Inr (Graceful (operation True) first)
                | DrainSignal second \<Rightarrow> Inr (Forced (SecondSignal second))
                | DrainGrace \<Rightarrow> Inr (Forced GraceExpired))))"

subsection \<open>Exit codes\<close>

definition EXIT_CONFIGURATION :: nat where "EXIT_CONFIGURATION = 2"
definition EXIT_PERMISSION :: nat where "EXIT_PERMISSION = 3"
definition EXIT_DURABLE_STATE :: nat where "EXIT_DURABLE_STATE = 4"
definition EXIT_INTERNAL :: nat where "EXIT_INTERNAL = 5"
definition EXIT_FORCED_SHUTDOWN :: nat where "EXIT_FORCED_SHUTDOWN = 6"

lemmas exit_codes = EXIT_CONFIGURATION_def EXIT_PERMISSION_def EXIT_DURABLE_STATE_def EXIT_INTERNAL_def
  EXIT_FORCED_SHUTDOWN_def

record 't command_completion =
  cc_result :: 't
  cc_shutdown_requested :: bool

definition supervise_command :: "supervision \<Rightarrow> (bool \<Rightarrow> 't) \<Rightarrow> nat + 't command_completion" where
  "supervise_command v operation =
     (case supervise v operation of
        Inr (Completed result) \<Rightarrow> Inr \<lparr> cc_result = result, cc_shutdown_requested = False \<rparr>
      | Inr (Graceful result _) \<Rightarrow> Inr \<lparr> cc_result = result, cc_shutdown_requested = True \<rparr>
      | Inr (Forced _) \<Rightarrow> Inl EXIT_FORCED_SHUTDOWN
      | Inl _ \<Rightarrow> Inl EXIT_INTERNAL)"

definition journal_error_code :: "journal_error \<Rightarrow> nat" where
  "journal_error_code e = (if journal_is_permission_denied e then EXIT_PERMISSION else EXIT_DURABLE_STATE)"

definition scheduler_error_code :: "scheduler_error \<Rightarrow> nat" where
  "scheduler_error_code e = (if is_permission_denied e then EXIT_PERMISSION else EXIT_DURABLE_STATE)"

definition ping_error_code :: "ping_command_error \<Rightarrow> nat" where
  "ping_error_code e = (case e of PcJournal e \<Rightarrow> journal_error_code e | PcRound _ \<Rightarrow> EXIT_INTERNAL)"

definition monitor_error_code :: "monitor_error \<Rightarrow> nat" where
  "monitor_error_code e =
     (case e of
        MeJournal e \<Rightarrow> journal_error_code e
      | MeScheduler e \<Rightarrow> scheduler_error_code e
      | MeRound _ \<Rightarrow> EXIT_INTERNAL
      | MeTask _ \<Rightarrow> EXIT_INTERNAL)"

definition bandwidth_error_code :: "bandwidth_command_error \<Rightarrow> nat" where
  "bandwidth_error_code e =
     (case e of BcJournal e \<Rightarrow> journal_error_code e | BcScheduler e \<Rightarrow> scheduler_error_code e)"

subsection \<open>The commands\<close>

text \<open>
  What the commands come to, for a shutdown sent or not: \<open>execute_ping_once\<close>,
  \<open>execute_bandwidth_once\<close>, \<open>execute_ping_monitor\<close> and \<open>execute_multi_interface_monitor\<close>.
\<close>

record 'u commands_run =
  cr_ping :: "'u resolved_config \<Rightarrow> bool \<Rightarrow> ping_command_error + ping_exit_status"
  cr_bandwidth :: "'u resolved_config \<Rightarrow> bool \<Rightarrow> bandwidth_command_error + bandwidth_report"
  cr_monitor :: "'u resolved_config \<Rightarrow> bool \<Rightarrow> monitor_error + monitor_stats"
  cr_multi :: "'u resolved_config \<Rightarrow> bool \<Rightarrow> monitor_error + monitor_stats"

definition run_once_ping :: "'u commands_run \<Rightarrow> supervision \<Rightarrow> 'u resolved_config \<Rightarrow> nat" where
  "run_once_ping R v config =
     (if 1 < length (rc_interfaces config) then EXIT_CONFIGURATION
      else case supervise_command v (cr_ping R config) of
             Inl n \<Rightarrow> n
           | Inr c \<Rightarrow>
               (case cc_result c of
                  Inl e \<Rightarrow> ping_error_code e
                | Inr status \<Rightarrow> if cc_shutdown_requested c then 0 else ping_exit_code status))"

definition run_monitor :: "'u commands_run \<Rightarrow> supervision \<Rightarrow> 'u resolved_config \<Rightarrow> nat" where
  "run_monitor R v config =
     (case supervise_command v (if rc_interfaces config \<noteq> [] then cr_multi R config else cr_monitor R config) of
        Inl n \<Rightarrow> n
      | Inr c \<Rightarrow> (case cc_result c of Inl e \<Rightarrow> monitor_error_code e | Inr _ \<Rightarrow> 0))"

definition run_once_bandwidth :: "'u commands_run \<Rightarrow> supervision \<Rightarrow> 'u resolved_config \<Rightarrow> nat" where
  "run_once_bandwidth R v config =
     (if 1 < length (rc_interfaces config) then EXIT_CONFIGURATION
      else case supervise_command v (cr_bandwidth R config) of
             Inl n \<Rightarrow> n
           | Inr c \<Rightarrow>
               (case cc_result c of
                  Inl e \<Rightarrow> bandwidth_error_code e
                | Inr report \<Rightarrow> if cc_shutdown_requested c then 0 else report_exit_code report))"

subsection \<open>The environment\<close>

record file_metadata =
  md_dir :: bool
  md_file :: bool
  md_readonly :: bool

record ('b, 'k) environment =
  en_interfaces :: "string + if_entry list"
  en_try_exists :: "path \<Rightarrow> string + bool"
  en_metadata :: "path \<Rightarrow> string + file_metadata"
  en_read :: "path \<Rightarrow> string + 'b"
  en_certificates :: "'b \<Rightarrow> (string + 'k) list"
  en_reject :: "'k \<Rightarrow> string option"
  en_roots :: "'k list"

text \<open>The certificates of a file one by one, into the roots.\<close>

fun add_certificates :: "('b, 'k) environment \<Rightarrow> path \<Rightarrow> (string + 'k) list \<Rightarrow> 'k list \<Rightarrow> string + 'k list" where
  "add_certificates X p [] roots = Inr roots"
| "add_certificates X p (Inl e # ks) roots = Inl (''invalid private CA '' @ p @ '': '' @ e)"
| "add_certificates X p (Inr k # ks) roots =
     (case en_reject X k of
        Some e \<Rightarrow> Inl (''invalid private CA '' @ p @ '': '' @ e)
      | None \<Rightarrow> add_certificates X p ks (roots @ [k]))"

definition root_store :: "('b, 'k) environment \<Rightarrow> path option \<Rightarrow> string + 'k list" where
  "root_store X ca_cert =
     (case ca_cert of
        None \<Rightarrow> Inr (en_roots X)
      | Some p \<Rightarrow>
          (case en_metadata X p of
             Inl e \<Rightarrow> Inl (''cannot read private CA '' @ p @ '': '' @ e)
           | Inr metadata \<Rightarrow>
               if \<not> md_file metadata then Inl (''private CA is not a file: '' @ p)
               else case en_read X p of
                      Inl e \<Rightarrow> Inl (''cannot read private CA '' @ p @ '': '' @ e)
                    | Inr contents \<Rightarrow>
                        res_bind (add_certificates X p (en_certificates X contents) (en_roots X)) (\<lambda>roots.
                        if en_certificates X contents = []
                        then Inl (''private CA '' @ p @ '' contains no certificates'') else Inr roots)))"

lemma length_path_trim: "length (path_trim p) \<le> length p"
proof (induction p rule: path_trim.induct)
  case (1 p)
  have "length (path_trim (butlast p)) \<le> length p" if "length (path_trim (butlast p)) \<le> length (butlast p)"
    using that by simp
  with 1 show ?case by (subst path_trim.simps) (auto simp del: length_butlast)
qed

lemma last_path_trim: "1 < length (path_trim p) \<Longrightarrow> last (path_trim p) \<noteq> CHR ''/''"
proof (induction p rule: path_trim.induct)
  case (1 p)
  then show ?case by (subst (asm) path_trim.simps, subst path_trim.simps) (auto split: if_splits)
qed

lemma path_parent_shorter:
  assumes "path_parent p = Some d"
  shows "length d < length p"
proof -
  let ?p = "path_trim p"
  let ?lead = "rev (dropWhile (\<lambda>c. c \<noteq> CHR ''/'') (rev ?p))"
  have p: "?p \<noteq> []" "?p \<noteq> ''/''" and d: "d = (if ?lead = [] then [] else path_trim ?lead)"
    using assms by (auto simp: path_parent_def Let_def split: if_splits)
  have "last ?p \<noteq> CHR ''/''"
  proof (cases "1 < length ?p")
    case False
    then show ?thesis using p by (cases ?p) auto
  qed (rule last_path_trim)
  moreover obtain c cs where c: "rev ?p = c # cs" using p(1) by (cases "rev ?p") auto
  ultimately have "c \<noteq> CHR ''/''" using p(1) hd_rev [of ?p] by simp
  then have "length ?lead \<le> length cs" by (simp add: c length_dropWhile_le)
  moreover have "length ?p = Suc (length cs)" using arg_cong [OF c, of length] by simp
  ultimately have "length ?lead < length ?p" by linarith
  moreover have "length d \<le> length ?lead" 
  proof (cases "?lead = []")
    case True
    then have "d = []" unfolding d by (rule if_P)
    then show ?thesis by simp
  next
    case False
    then have "d = path_trim ?lead" unfolding d by (rule if_not_P)
    then show ?thesis by (simp only: length_path_trim)
  qed
  ultimately show ?thesis using length_path_trim [of p] by linarith
qed

text \<open>The nearest ancestor that exists.\<close>

function nearest_existing :: "('b, 'k) environment \<Rightarrow> path \<Rightarrow> string + path" where
  "nearest_existing X directory =
     (case en_try_exists X directory of
        Inl e \<Rightarrow> Inl e
      | Inr True \<Rightarrow> Inr directory
      | Inr False \<Rightarrow>
          (case path_parent directory of
             None \<Rightarrow> Inl ''output has no existing ancestor''
           | Some parent \<Rightarrow> nearest_existing X parent))"
  by pat_completeness auto
termination
  by (relation "measure (\<lambda>(X, d). length d)") (auto dest: path_parent_shorter)

declare nearest_existing.simps [simp del]

definition validate_directory :: "('b, 'k) environment \<Rightarrow> string \<Rightarrow> path \<Rightarrow> string + unit" where
  "validate_directory X name directory =
     (case en_metadata X directory of
        Inl e \<Rightarrow> Inl (name @ '' directory '' @ directory @ '' is not accessible: '' @ e)
      | Inr metadata \<Rightarrow>
          if \<not> md_dir metadata then Inl (name @ '' path is not a directory: '' @ directory)
          else if md_readonly metadata then Inl (name @ '' directory is read-only: '' @ directory)
          else Inr ())"

definition private_ca :: "'u resolved_config \<Rightarrow> path option" where
  "private_ca config =
     (case bw_provider (rc_bandwidth config) of MlabProvider _ \<Rightarrow> None | DirectProvider d \<Rightarrow> dc_ca_cert d)"

definition validate_environment :: "('b, 'k) environment \<Rightarrow> 'u resolved_config \<Rightarrow> string + unit" where
  "validate_environment X config =
     (case resolve_configured_with (rc_interfaces config) (en_interfaces X) of
        Inl e \<Rightarrow> Inl (interface_error_text e)
      | Inr _ \<Rightarrow>
          res_bind (if output_is_automatic (rc_output config)
                    then nearest_existing X (output_directory (rc_output config))
                    else Inr (output_directory (rc_output config))) (\<lambda>directory.
          res_bind (validate_directory X ''output'' directory) (\<lambda>_.
          case private_ca config of
            None \<Rightarrow> Inr ()
          | Some p \<Rightarrow> res_bind (root_store X (Some p)) (\<lambda>_. Inr ()))))"

subsection \<open>The process\<close>

text \<open>
  \<open>ps_project\<close>: the local data directory and the state directory the platform gives the program;
  \<open>ps_base\<close>: the local data directory of the user.
\<close>

record ('u, 'b, 'k) process =
  ps_config :: "'u config_env"
  ps_environment :: "('b, 'k) environment"
  ps_current_dir :: "string + path"
  ps_stdout_is_terminal :: bool
  ps_project :: "(path \<times> path option) option"
  ps_base :: "path option"

definition default_data_dir :: "('u, 'b, 'k) process \<Rightarrow> path \<Rightarrow> path" where
  "default_data_dir P current_dir =
     (case ps_project P of
        Some (data, state) \<Rightarrow> data
      | None \<Rightarrow> path_join (path_join current_dir ''.netband'') ''data'')"

definition default_state_dir :: "('u, 'b, 'k) process \<Rightarrow> path \<Rightarrow> path" where
  "default_state_dir P current_dir =
     (case ps_project P of
        Some (data, Some state) \<Rightarrow> state
      | _ \<Rightarrow>
          (case ps_base P of
             Some data \<Rightarrow> path_join (path_join data ''netband'') ''state''
           | None \<Rightarrow> path_join (path_join current_dir ''.netband'') ''state''))"

definition process_context :: "('u, 'b, 'k) process \<Rightarrow> path \<Rightarrow> resolve_context" where
  "process_context P current_dir =
     \<lparr> cx_stdout_is_terminal = ps_stdout_is_terminal P, cx_current_dir = current_dir,
       cx_data_dir = default_data_dir P current_dir, cx_state_dir = default_state_dir P current_dir \<rparr>"

definition checked_config :: "('u, 'b, 'k) process \<Rightarrow> cli \<Rightarrow> string + 'u resolved_config" where
  "checked_config P c =
     res_bind (ps_current_dir P) (\<lambda>current_dir.
     res_bind (resolve (ps_config P) c (process_context P current_dir)) (\<lambda>config.
     res_bind (validate_environment (ps_environment P) config) (\<lambda>_. Inr config)))"

text \<open>The exit code, and what is printed to standard output apart from the console.\<close>

definition run :: "('u, 'b, 'k) process \<Rightarrow> 'u commands_run \<Rightarrow> supervision \<Rightarrow> cli \<Rightarrow> nat \<times> string" where
  "run P R v c =
     (case checked_config P c of
        Inl e \<Rightarrow> (EXIT_CONFIGURATION, [])
      | Inr config \<Rightarrow>
          (case rc_command config of
             CkConfigCheck \<Rightarrow> (0, summary (ps_config P) config)
           | CkOncePing \<Rightarrow> (run_once_ping R v config, [])
           | CkRun \<Rightarrow> (run_monitor R v config, [])
           | CkOnceBandwidth \<Rightarrow> (run_once_bandwidth R v config, [])))"

text \<open>
  The commands themselves, on what they find: the environment of the program, the journal that is
  opened, and the inputs of a run that ends, which depend on whether it is told to shut down.
\<close>

record ('u, 'n, 'b, 'j, 'c, 'w) execution =
  xe_env :: "('u, 'n, 'b, 'j, 'c) command_env"
  xe_tasks :: "probe_request \<Rightarrow> probe_task"
  xe_moments :: "nat \<Rightarrow> moment"
  xe_session :: run_id
  xe_run_id :: run_id
  xe_run_number :: u64
  xe_open_journal :: "'w \<Rightarrow> (journal_error + 'j) \<times> 'w"
  xe_console :: 'c
  xe_world :: 'w
  xe_files :: "'b world"
  xe_seed :: u64
  xe_once :: "bool \<Rightarrow> 'n once_input"
  xe_monitor :: "bool \<Rightarrow> 'n monitor_input"
  xe_listings :: "(string + if_entry list) list"

definition system_commands :: "('u, 'n, 'b, 'j, 'c, 'w) execution \<Rightarrow> 'u commands_run" where
  "system_commands X =
     \<lparr> cr_ping = (\<lambda>config told.
         fst (execute_ping_once (be_sinks (xe_env X)) (nw_show_duration (be_net (xe_env X))) (xe_tasks X) (xe_moments X)
                config (xe_session X) (xe_run_id X) (xe_run_number X) (xe_open_journal X) (xe_console X) (xe_world X))),
       cr_bandwidth = (\<lambda>config told.
         fst (execute_bandwidth_once (xe_env X) config (xe_once X told) (xe_seed X) (xe_open_journal X) (xe_console X)
                (xe_world X) (xe_files X))),
       cr_monitor = (\<lambda>config told.
         map_sum id the (fst (execute_ping_monitor (xe_env X) config (xe_monitor X told) (xe_open_journal X)
                (xe_console X) (xe_world X) (xe_files X)))),
       cr_multi = (\<lambda>config told.
         map_sum id the (fst (execute_multi_interface_monitor (xe_env X) config (xe_monitor X told) (xe_listings X)
                (xe_open_journal X) (xe_console X) (xe_world X) (xe_files X)))) \<rparr>"

end
