(* ===== verification/ProcessProps.thy ===== *)
theory ProcessProps
  imports Process MonitorDemo
begin

text \<open>What the exit code of the process says.\<close>

text \<open>The configuration of a command that is executed.\<close>

definition executed :: "('u, 'b, 'k) process \<Rightarrow> cli \<Rightarrow> 'u resolved_config option" where
  "executed P c =
     (case checked_config P c of
        Inl e \<Rightarrow> None
      | Inr config \<Rightarrow>
          (if rc_command config = CkConfigCheck \<or> (rc_command config \<noteq> CkRun \<and> 1 < length (rc_interfaces config))
           then None else Some config))"

definition forced :: "supervision \<Rightarrow> bool" where
  "forced v \<longleftrightarrow> sv_listener v = None \<and> sv_first v \<noteq> None \<and> sv_drain v \<noteq> DrainDone"

definition ended :: "supervision \<Rightarrow> bool" where
  "ended v \<longleftrightarrow> sv_listener v = None \<and> \<not> forced v"

text \<open>A result that is an error for want of permission.\<close>

definition denied :: "'u commands_run \<Rightarrow> 'u resolved_config \<Rightarrow> bool \<Rightarrow> bool" where
  "denied R config told =
     (let monitor = (if rc_interfaces config \<noteq> [] then cr_multi R config told else cr_monitor R config told) in
      case rc_command config of
        CkOncePing \<Rightarrow> (\<exists>e. cr_ping R config told = Inl (PcJournal e) \<and> journal_is_permission_denied e)
      | CkOnceBandwidth \<Rightarrow>
          (\<exists>e. cr_bandwidth R config told = Inl (BcJournal e) \<and> journal_is_permission_denied e) \<or>
          (\<exists>e. cr_bandwidth R config told = Inl (BcScheduler e) \<and> is_permission_denied e)
      | _ \<Rightarrow>
          (\<exists>e. monitor = Inl (MeJournal e) \<and> journal_is_permission_denied e) \<or>
          (\<exists>e. monitor = Inl (MeScheduler e) \<and> is_permission_denied e))"

text \<open>A measurement that was made and is not all good.\<close>

definition unsuccessful :: "'u commands_run \<Rightarrow> 'u resolved_config \<Rightarrow> bool" where
  "unsuccessful R config =
     (case rc_command config of
        CkOncePing \<Rightarrow> cr_ping R config False = Inr PingPartialFailure
      | CkOnceBandwidth \<Rightarrow> (\<exists>r. cr_bandwidth R config False = Inr r \<and> br_outcome r \<noteq> Success)
      | _ \<Rightarrow> False)"

lemma supervised_cases:
  "supervise_command v operation =
     (if sv_listener v \<noteq> None then Inl EXIT_INTERNAL
      else if forced v then Inl EXIT_FORCED_SHUTDOWN
      else Inr \<lparr> cc_result = operation (sv_first v \<noteq> None), cc_shutdown_requested = (sv_first v \<noteq> None) \<rparr>)"
  by (auto simp: supervise_command_def supervise_def forced_def split: option.split drain_end.split)

lemma exit_command:
  assumes "executed P c = Some config"
  shows "fst (run P R v c) =
    (case rc_command config of CkOncePing \<Rightarrow> run_once_ping R v config
     | CkOnceBandwidth \<Rightarrow> run_once_bandwidth R v config | _ \<Rightarrow> run_monitor R v config)"
  using assms by (cases "rc_command config") (auto simp: executed_def run_def split: sum.splits if_splits)

lemma exit_not_executed:
  "executed P c = None \<Longrightarrow> fst (run P R v c) = (case checked_config P c of Inl _ \<Rightarrow> 2
     | Inr config \<Rightarrow> if rc_command config = CkConfigCheck then 0 else 2)"
  by (auto simp: executed_def run_def run_once_ping_def run_once_bandwidth_def exit_codes
      split: sum.splits if_splits command_kind.splits)

lemmas error_codes = ping_error_code_def journal_error_code_def scheduler_error_code_def monitor_error_code_def
  bandwidth_error_code_def ping_exit_code_def report_exit_code_def exit_codes

lemma ping_exit:
  fixes R :: "'u commands_run" and v :: supervision
  assumes "rc_command config = CkOncePing" "\<not> 1 < length (rc_interfaces config)"
  defines "n \<equiv> run_once_ping R v config"
  shows "n \<noteq> 2" "n = 6 \<longleftrightarrow> forced v" "n = 3 \<longleftrightarrow> ended v \<and> denied R config (sv_first v \<noteq> None)"
    "n = 1 \<longleftrightarrow> ended v \<and> sv_first v = None \<and> unsuccessful R config"
  using assms(1,2) unfolding n_def run_once_ping_def supervised_cases
  by (cases "sv_first v"; auto simp: ended_def denied_def unsuccessful_def error_codes forced_def
      split: sum.splits ping_command_error.splits ping_exit_status.splits)+

lemma bandwidth_exit:
  fixes R :: "'u commands_run" and v :: supervision
  assumes "rc_command config = CkOnceBandwidth" "\<not> 1 < length (rc_interfaces config)"
  defines "n \<equiv> run_once_bandwidth R v config"
  shows "n \<noteq> 2" "n = 6 \<longleftrightarrow> forced v" "n = 3 \<longleftrightarrow> ended v \<and> denied R config (sv_first v \<noteq> None)"
    "n = 1 \<longleftrightarrow> ended v \<and> sv_first v = None \<and> unsuccessful R config"
  using assms(1,2) unfolding n_def run_once_bandwidth_def supervised_cases
  by (cases "sv_first v"; auto simp: ended_def denied_def unsuccessful_def error_codes forced_def
      split: sum.splits bandwidth_command_error.splits)+

lemma monitor_exit:
  fixes R :: "'u commands_run" and v :: supervision
  assumes "rc_command config = CkRun"
  defines "n \<equiv> run_monitor R v config"
  shows "n \<noteq> 2" "n = 6 \<longleftrightarrow> forced v" "n = 3 \<longleftrightarrow> ended v \<and> denied R config (sv_first v \<noteq> None)"
    "n = 1 \<longleftrightarrow> ended v \<and> sv_first v = None \<and> unsuccessful R config"
proof -
  define f where "f = (if rc_interfaces config \<noteq> [] then cr_multi R config else cr_monitor R config)"
  have n: "n = (if sv_listener v \<noteq> None then EXIT_INTERNAL else if forced v then EXIT_FORCED_SHUTDOWN
      else case f (sv_first v \<noteq> None) of Inl e \<Rightarrow> monitor_error_code e | Inr _ \<Rightarrow> 0)"
    by (simp add: n_def run_monitor_def supervised_cases f_def)
  have d: "denied R config told = (case f told of
       Inl (MeJournal e) \<Rightarrow> journal_is_permission_denied e | Inl (MeScheduler e) \<Rightarrow> is_permission_denied e | _ \<Rightarrow> False)" for told
    using assms by (simp add: denied_def f_def Let_def split: sum.split monitor_error.split)
  have u: "\<not> unsuccessful R config" using assms by (simp add: unsuccessful_def)
  show "n \<noteq> 2" "n = 6 \<longleftrightarrow> forced v" "n = 3 \<longleftrightarrow> ended v \<and> denied R config (sv_first v \<noteq> None)"
    "n = 1 \<longleftrightarrow> ended v \<and> sv_first v = None \<and> unsuccessful R config"
    using u unfolding n d
    by (auto simp: ended_def error_codes forced_def split: sum.split monitor_error.split)
qed

lemma executed_code:
  assumes "executed P c = Some config"
  shows "fst (run P R v c) \<noteq> 2" "fst (run P R v c) = 6 \<longleftrightarrow> forced v"
    "fst (run P R v c) = 3 \<longleftrightarrow> ended v \<and> denied R config (sv_first v \<noteq> None)"
    "fst (run P R v c) = 1 \<longleftrightarrow> ended v \<and> sv_first v = None \<and> unsuccessful R config"
proof -
  have e: "rc_command config \<noteq> CkConfigCheck" "rc_command config \<noteq> CkRun \<Longrightarrow> \<not> 1 < length (rc_interfaces config)"
    using assms by (auto simp: executed_def split: sum.splits if_splits)
  note exits = ping_exit [of config R v] bandwidth_exit [of config R v] monitor_exit [of config R v]
  show "fst (run P R v c) \<noteq> 2" "fst (run P R v c) = 6 \<longleftrightarrow> forced v"
    "fst (run P R v c) = 3 \<longleftrightarrow> ended v \<and> denied R config (sv_first v \<noteq> None)"
    "fst (run P R v c) = 1 \<longleftrightarrow> ended v \<and> sv_first v = None \<and> unsuccessful R config"
    using e exits unfolding exit_command [OF assms] by (cases "rc_command config"; simp)+
qed

text \<open>
  C21. What the exit code tells. 2: the configuration was refused, by its own rules or by what the
  file system and the interfaces are, or a single measurement was asked for on several interfaces;
  nothing was executed. 6: the shutdown was forced by a second signal or the end of the grace
  period, whatever the command was doing. 3: the command ended with an error of the journal or the
  scheduler for want of permission. 1: a single measurement ended by itself and was not fully
  successful; after a signal it is not reported as unsuccessful.
\<close>
theorem exit_code_meaning:
  "case executed P c of
     None \<Rightarrow> fst (run P R v c) = (case checked_config P c of Inl _ \<Rightarrow> 2
       | Inr config \<Rightarrow> if rc_command config = CkConfigCheck then 0 else 2)
   | Some config \<Rightarrow>
       fst (run P R v c) \<noteq> 2 \<and>
       (fst (run P R v c) = 6 \<longleftrightarrow> forced v) \<and>
       (fst (run P R v c) = 3 \<longleftrightarrow> ended v \<and> denied R config (sv_first v \<noteq> None)) \<and>
       (fst (run P R v c) = 1 \<longleftrightarrow> ended v \<and> sv_first v = None \<and> unsuccessful R config)"
proof (cases "executed P c")
  case None
  then show ?thesis using exit_not_executed [OF None, of R v] by simp
next
  case (Some config)
  then show ?thesis using executed_code [OF Some, of R v] by simp
qed

end
