(* ===== verification/Spec2Isabelle.thy ===== *)
theory Spec2Isabelle
  imports Crash ConfigRules Admission ProviderDemo Interfaces CoordinatorProps JournalProps PingProps
    BandwidthDemo MonitorDemo ConsoleJournal ProcessProps
begin

text \<open>
  Netband measures a network link: it pings targets in rounds, runs NDT7 bandwidth tests when a
  planned slot comes or the link degrades, and journals every event. This library models what
  decides whether a bandwidth test may start, where it connects, what is recorded of it, what a
  crash leaves behind, and the monitors and commands that put these parts together.

  \<^bold>\<open>The program's parts and their theories.\<close>

  \<^item> \<open>Prelude\<close>: durations and times in nanoseconds, checked and saturating arithmetic,
    calendar days, ordered association lists for \<open>BTreeMap\<close>, decimal text. \<open>Float64\<close>: the
    values of an \<open>f64\<close> with the rounding of the operations the health window uses.
    \<open>StdText\<close>: the string, path and IP address functions of the standard library used.
  \<^item> \<open>Model\<close> (\<open>src/src/model.rs\<close>): the event record, its constructors and the redaction of
    messages and endpoints. \<open>ConfigTypes\<close>, \<open>Config\<close>, \<open>ConfigProps\<close>, \<open>ConfigRules\<close>
    (\<open>src/src/cli.rs\<close>, \<open>src/src/config.rs\<close>): command line and file to resolved
    configuration, with all checks, and its summary.
  \<^item> \<open>Admission\<close> (\<open>src/src/bandwidth.rs\<close>): the reservation a bandwidth run asks for.
  \<^item> \<open>Health\<close> (\<open>src/src/health.rs\<close>): the sliding window over ping rounds and its decisions.
  \<^item> \<open>SchedState\<close>, \<open>Scheduler\<close> (\<open>src/src/scheduler.rs\<close>): the persistent state per
    provider, day planning, polling, reservation, completion, backoff.
  \<^item> \<open>Persistence\<close> (\<open>src/src/scheduler/persistence.rs\<close>): the commit log and the state file, on a
    world of files in which every operation may fail and a write may be partial.
  \<^item> \<open>Interfaces\<close> (\<open>src/src/interfaces.rs\<close>): the addresses of an interface and the fair choice
    among interfaces. \<open>Provider\<close>, \<open>ProviderDemo\<close> (\<open>src/src/provider.rs\<close>): the endpoints of a
    direct provider or of M-Lab's Locate service, and \<open>Retry-After\<close>.
  \<^item> \<open>Coordinator\<close>, \<open>CoordinatorProps\<close> (\<open>src/src/journal.rs\<close>, upper half): numbering of
    events and the tree of runs, over any journal and console. \<open>JournalRow\<close>: the columns of a
    record. \<open>JournalDisk\<close>, \<open>JournalProps\<close> (lower half of \<open>journal.rs\<close>,
    \<open>src/src/journal/output.rs\<close>, \<open>src/src/journal/durability.rs\<close>): one file or a directory of
    segments, on a file system with inodes in which every call may fail.

  \<^item> \<open>Effects\<close>: sequencing of fallible state passing. \<open>Ping\<close>, \<open>PingProps\<close>
    (\<open>src/src/ping.rs\<close>): a round of probes, the clients a monitor holds per address, the choice of
    the source, \<open>once ping\<close>. \<open>Upload\<close>, \<open>UploadProps\<close>, \<open>Bandwidth\<close>, \<open>BandwidthProps\<close>,
    \<open>BandwidthOnce\<close>, \<open>BandwidthOnceProps\<close>, \<open>BandwidthDemo\<close> (\<open>src/src/bandwidth.rs\<close>): the upload
    loop, one NDT7 test from resolution to report, and \<open>once bandwidth\<close> over coordinator and
    scheduler. \<open>RunLog\<close>: what the calls of the coordinator add to the log.
  \<^item> \<open>Monitor\<close>, \<open>MonitorProps\<close>, \<open>MonitorChoice\<close>, \<open>MonitorDemo\<close>
    (\<open>src/src/monitor.rs\<close>): the long-running monitors, of one link and of several interfaces, as
    loops over turns that use the coordinator, the scheduler, the rounds and the bandwidth tests.
    \<open>Console\<close>, \<open>ConsoleProps\<close>, \<open>ConsoleJournal\<close> (\<open>src/src/console.rs\<close>): the bounded channel, its worker and
    the rendering of events. \<open>Process\<close>, \<open>ProcessProps\<close> (\<open>src/src/lib.rs\<close>,
    \<open>src/src/shutdown.rs\<close>, \<open>src/src/tls.rs\<close>, \<open>validate_environment\<close>): from the command line
    through supervision by signals to the exit code.

  \<^bold>\<open>What the lemmas show.\<close> \<open>PersistenceProps\<close>: every outcome of a commit, and that
  reopening finds the accounting before or after it. \<open>SchedulerProps\<close>: every operation is a
  sequence of \<open>micro\<close> steps, from which the invariant of the store and the limits on granted
  starts follow. \<open>Restart\<close>: what reopening gives, liveness without faults, and the concrete
  scheduler on which the hypotheses are evaluated. \<open>Crash\<close>: the same limits across any number of
  processes. The interface \<open>reservation_gate\<close> of \<open>Admission\<close> is interpreted on the scheduler.
  \<open>CoordinatorProps\<close>: reading the acknowledged events back gives the tree of runs.
  \<open>JournalProps\<close>: triples for operations that may fail, and what recovery makes of a torn file.
  \<open>MonitorProps\<close>: the balance between statistics, log and open runs that every step of a monitor
  keeps (\<open>balanced\<close>, moved by each operation as \<open>moves\<close> says), from which what a finished
  monitor leaves (\<open>accounts\<close>) follows. \<open>MonitorChoice\<close>: backoff and choice of interfaces, and
  that a shutdown ends a monitor. \<open>ConsoleProps\<close>: what is written is a part of what was offered,
  and a human line is one line. \<open>ConsoleJournal\<close>: the journal is the one of a coordinator with
  the console off. \<open>ProcessProps\<close>: what the exit code says.

  \<^bold>\<open>Parameters.\<close> SHA-256 and JSON are a codec whose laws are \<open>codec_ok\<close>; URLs, TOML, HTTP,
  \<open>humantime\<close> and the printing of an \<open>f64\<close> are fields of the environments; the CSV library is
  \<open>csv_env\<close> with the laws \<open>csv_ok\<close>; the random seed of the scheduler is an argument. Files fail
  according to a schedule in the world. What a \<open>select!\<close> comes to is input: the turns of a
  monitor, the wakeups of an upload, the signals of a process, the steps of the console's worker;
  clock readings and fresh identifiers are drawn one after the other.

  \<^bold>\<open>Bounds.\<close> No loop of the code needs fuel: the loops over what comes from outside end with
  the input, and a monitor whose input ends before a shutdown has no result yet (\<open>None\<close>). The
  drain of the console takes the number of events the worker gets through before the timeout.

  \<^bold>\<open>Not modelled.\<close> The libraries below the sockets, TLS, the messages to standard error
  (\<open>src/src/diagnostics.rs\<close>, tracing), the async runtime (\<open>src/src/main.rs\<close>), clap's parsing,
  packaging. The commands start their console apart from the model: \<open>Coordinator\<close> offers events
  to any console, and \<open>Console\<close> is one.
\<close>

end
